(* ===== verification/Prelude.thy ===== *)
theory Prelude
  imports Complex_Main "HOL-Library.AList" "HOL-Library.Char_ord" "HOL-Library.List_Lexorder"
    "HOL-Library.Product_Lexorder" "HOL-Library.Multiset"
begin

section \<open>Shared vocabulary: Python strings, dictionaries and stable sorting\<close>

text \<open>
  What every component of the model uses: the two fact collections of the development,
  Python's text operations on character lists (ASCII text), insertion-ordered dictionaries as
  association lists, and the stable sorts of \<open>sorted\<close> and \<open>list.sort\<close>.
\<close>

named_theorems dict_simps \<open>facts on insertion-ordered dictionaries\<close>
named_theorems model_defs \<open>unfolding rules of the small definitions of the model\<close>

type_synonym str = string

subsection \<open>Text\<close>

definition upper_char :: "char \<Rightarrow> char" where
  "upper_char c = (let n = (of_char c :: nat) in if 97 \<le> n \<and> n \<le> 122 then char_of (n - 32) else c)"

definition lower_char :: "char \<Rightarrow> char" where
  "lower_char c = (let n = (of_char c :: nat) in if 65 \<le> n \<and> n \<le> 90 then char_of (n + 32) else c)"

definition py_upper :: "str \<Rightarrow> str" where
  "py_upper = map upper_char"

definition py_lower :: "str \<Rightarrow> str" where
  "py_lower = map lower_char"

definition is_space :: "char \<Rightarrow> bool" where
  "is_space c \<longleftrightarrow> c = CHR '' '' \<or> (let n = (of_char c :: nat) in 9 \<le> n \<and> n \<le> 13 \<or> 28 \<le> n \<and> n \<le> 31)"

definition py_rstrip :: "str \<Rightarrow> str" where
  "py_rstrip s = rev (dropWhile is_space (rev s))"

definition py_strip :: "str \<Rightarrow> str" where
  "py_strip s = py_rstrip (dropWhile is_space s)"

text \<open>\<open>needle in haystack\<close> and \<open>s.startswith(p)\<close>.\<close>

fun starts_with :: "'a list \<Rightarrow> 'a list \<Rightarrow> bool" where
  "starts_with [] s = True"
| "starts_with (p # ps) [] = False"
| "starts_with (p # ps) (c # cs) = (p = c \<and> starts_with ps cs)"

fun contains :: "'a list \<Rightarrow> 'a list \<Rightarrow> bool" where
  "contains p [] = (p = [])"
| "contains p (c # cs) = (starts_with p (c # cs) \<or> contains p cs)"

fun join :: "str \<Rightarrow> str list \<Rightarrow> str" where
  "join sep [] = []"
| "join sep [x] = x"
| "join sep (x # xs) = x @ sep @ join sep xs"

text \<open>Decimal numerals: \<open>str(n)\<close>, by digits from the least significant one.\<close>

definition digit_char :: "int \<Rightarrow> char" where
  "digit_char d = char_of (48 + d)"

fun str_pos :: "int \<Rightarrow> str" where
  "str_pos n = (if n < 10 then [digit_char n] else str_pos (n div 10) @ [digit_char (n mod 10)])"

declare str_pos.simps [simp del]

definition str_int :: "int \<Rightarrow> str" where
  "str_int i = (if i < 0 then ''-'' @ str_pos (- i) else str_pos i)"

definition str_nat :: "nat \<Rightarrow> str" where
  "str_nat n = str_pos (int n)"

lemma starts_with_iff: "starts_with p s \<longleftrightarrow> (\<exists>r. s = p @ r)"
  by (induction p s rule: starts_with.induct) auto

lemma contains_iff: "contains p s \<longleftrightarrow> (\<exists>l r. s = l @ p @ r)"
proof (induction s)
  case Nil
  show ?case by simp
next
  case (Cons c cs)
  show ?case
  proof
    assume "contains p (c # cs)"
    then consider "starts_with p (c # cs)" | "contains p cs" by auto
    then show "\<exists>l r. c # cs = l @ p @ r"
    proof cases
      case 1
      then obtain r where "c # cs = [] @ p @ r" by (auto simp: starts_with_iff)
      then show ?thesis by blast
    next
      case 2
      then obtain l r where "cs = l @ p @ r" using Cons.IH by blast
      then have "c # cs = (c # l) @ p @ r" by simp
      then show ?thesis by blast
    qed
  next
    assume "\<exists>l r. c # cs = l @ p @ r"
    then obtain l r where lr: "c # cs = l @ p @ r" by blast
    show "contains p (c # cs)"
    proof (cases l)
      case Nil
      with lr have "starts_with p (c # cs)" by (auto simp: starts_with_iff)
      then show ?thesis by simp
    next
      case (Cons x xs)
      with lr have "cs = xs @ p @ r" by simp
      then have "contains p cs" using Cons.IH by blast
      then show ?thesis by simp
    qed
  qed
qed

lemma digit_char_inj:
  assumes "0 \<le> a" "a < 10" "0 \<le> b" "b < 10" and eq: "digit_char a = digit_char b"
  shows "a = b"
proof -
  have "of_char (digit_char a) = (of_char (digit_char b) :: int)" using eq by simp
  then show ?thesis using assms by (simp add: digit_char_def)
qed

lemma str_pos_nonempty [simp]: "str_pos n \<noteq> []" "[] \<noteq> str_pos n"
  by (subst str_pos.simps; simp)+

lemma str_pos_inj: "0 \<le> m \<Longrightarrow> 0 \<le> n \<Longrightarrow> str_pos m = str_pos n \<Longrightarrow> m = n"
proof (induction m arbitrary: n rule: str_pos.induct)
  case (1 m)
  show ?case
  proof (cases "m < 10 \<or> n < 10")
    case True
    with "1.prems"(3) have "m < 10" "n < 10"
      by (auto simp: str_pos.simps [of m] str_pos.simps [of n] append_eq_Cons_conv split: if_splits)
    with "1.prems" show ?thesis
      by (auto simp: str_pos.simps [of m] str_pos.simps [of n] intro: digit_char_inj)
  next
    case False
    with "1.prems"(3) have "str_pos (m div 10) = str_pos (n div 10)"
      and "digit_char (m mod 10) = digit_char (n mod 10)"
      by (auto simp: str_pos.simps [of m] str_pos.simps [of n])
    with False have "m div 10 = n div 10" and "m mod 10 = n mod 10"
      using "1.IH" [of "n div 10"] digit_char_inj [of "m mod 10" "n mod 10"] by auto
    then show ?thesis by (metis div_mult_mod_eq)
  qed
qed

lemma str_nat_inj: "str_nat m = str_nat n \<Longrightarrow> m = n"
  using str_pos_inj [of "int m" "int n"] by (simp add: str_nat_def)

subsection \<open>Insertion-ordered dictionaries\<close>

text \<open>
  A Python \<open>dict\<close> is an association list with distinct keys, in insertion order:
  \<open>map_of d k\<close> is \<open>d.get(k)\<close>, \<open>AList.update k v d\<close> is \<open>d[k] = v\<close> (the
  position of an existing key is kept), \<open>map snd d\<close> is \<open>d.values()\<close>.
\<close>

definition dict_default :: "('k \<times> 'v) list \<Rightarrow> 'k \<Rightarrow> 'v \<Rightarrow> 'v" where
  "dict_default d k v = (case map_of d k of None \<Rightarrow> v | Some x \<Rightarrow> x)"

definition wf_dict :: "('k \<times> 'v) list \<Rightarrow> bool" where
  "wf_dict d \<longleftrightarrow> distinct (map fst d)"

lemma wf_dict_Nil [dict_simps, simp]: "wf_dict []"
  by (simp add: wf_dict_def)

lemma wf_dict_update [dict_simps]: "wf_dict d \<Longrightarrow> wf_dict (AList.update k v d)"
  by (simp add: wf_dict_def distinct_update)

lemma map_of_update [dict_simps]: "map_of (AList.update k v d) = (map_of d)(k \<mapsto> v)"
  by (simp add: update_conv')

lemma keys_update [dict_simps]: "fst ` set (AList.update k v d) = insert k (fst ` set d)"
  by (simp add: dom_update)

lemma key_in_image: "(k, v) \<in> d \<Longrightarrow> k \<in> fst ` d"
  by force

lemma update_new: "k \<notin> fst ` set d \<Longrightarrow> AList.update k v d = d @ [(k, v)]"
  by (induction d) auto

lemma update_cases: "wf_dict d \<Longrightarrow> (k', x) \<in> set (AList.update k v d) \<Longrightarrow> k' = k \<and> x = v \<or> k' \<noteq> k \<and> (k', x) \<in> set d"
proof -
  assume "wf_dict d" "(k', x) \<in> set (AList.update k v d)"
  then have "map_of (AList.update k v d) k' = Some x"
    using wf_dict_update [of d k v] by (simp add: wf_dict_def)
  then show ?thesis by (auto simp: map_of_update dest: map_of_SomeD split: if_splits)
qed

text \<open>The invariant of a dictionary whose values fit their keys, and of a fold that keeps one.\<close>

definition dict_inv :: "('k \<Rightarrow> 'v \<Rightarrow> bool) \<Rightarrow> ('k \<times> 'v) list \<Rightarrow> bool" where
  "dict_inv fits d \<longleftrightarrow> wf_dict d \<and> (\<forall>(k, v) \<in> set d. fits k v)"

lemma dict_inv_Nil [dict_simps, simp]: "dict_inv fits []"
  by (simp add: dict_inv_def)

lemma dict_inv_update [dict_simps]: "dict_inv fits d \<Longrightarrow> fits k v \<Longrightarrow> dict_inv fits (AList.update k v d)"
  unfolding dict_inv_def using wf_dict_update [of d k v] update_cases [of d _ _ k v] by blast

lemma dict_invD: "dict_inv fits d \<Longrightarrow> (k, v) \<in> set d \<Longrightarrow> fits k v"
  by (auto simp: dict_inv_def)

lemma dict_inv_lookup: "dict_inv fits d \<Longrightarrow> map_of d k = Some v \<Longrightarrow> fits k v"
  by (blast dest: map_of_SomeD dict_invD)

lemma foldl_keeps: "P a \<Longrightarrow> (\<And>a x. P a \<Longrightarrow> x \<in> set xs \<Longrightarrow> P (f a x)) \<Longrightarrow> P (foldl f a xs)"
  by (induction xs arbitrary: a) auto

lemma map_fst_update_present:
  "k \<in> fst ` set d \<Longrightarrow> map fst (AList.update k v d) = map fst d"
  by (induction d) auto

subsection \<open>Stable sorting\<close>

text \<open>
  \<open>sorted(xs, key=f)\<close> is \<open>sort_key f xs\<close> (stable);
  \<open>sorted(xs, key=f, reverse=True)\<close> keeps the original order of equal keys as well.
\<close>

definition sorted_desc :: "('a \<Rightarrow> 'b::linorder) \<Rightarrow> 'a list \<Rightarrow> 'a list" where
  "sorted_desc f xs = rev (sort_key f (rev xs))"

lemma set_sorted_desc [simp]: "set (sorted_desc f xs) = set xs"
  by (simp add: sorted_desc_def)

lemma length_sorted_desc [simp]: "length (sorted_desc f xs) = length xs"
  by (simp add: sorted_desc_def)

lemma distinct_sorted_desc [simp]: "distinct (sorted_desc f xs) = distinct xs"
  by (simp add: sorted_desc_def)

lemma mset_sorted_desc [simp]: "mset (sorted_desc f xs) = mset xs"
  by (simp add: sorted_desc_def)

lemma distinct_map_sorted_desc [simp]: "distinct (map g (sorted_desc f xs)) = distinct (map g xs)"
  by (metis mset_eq_imp_distinct_iff mset_map mset_sorted_desc)

lemma sorted_desc_sorted: "sorted_wrt (\<lambda>a b. f b \<le> f a) (sorted_desc f xs)"
proof -
  have "sorted_wrt (\<lambda>a b. f a \<le> f b) (sort_key f (rev xs))"
    by (metis sorted_map sorted_sort_key)
  then show ?thesis by (simp add: sorted_desc_def sorted_wrt_rev)
qed

lemma sorted_desc_stable:
  "filter (\<lambda>y. f y = k) (sorted_desc f xs) = filter (\<lambda>y. f y = k) xs"
proof -
  have "filter (\<lambda>y. f y = k) (sort_key f (rev xs)) = filter (\<lambda>y. f y = k) (rev xs)"
    by (metis sort_key_stable)
  then show ?thesis by (simp add: sorted_desc_def rev_filter [symmetric])
qed

lemma sorted_desc_Nil [simp]: "sorted_desc f [] = []"
  by (simp add: sorted_desc_def)

lemma sorted_desc_eq_Nil [simp]: "sorted_desc f xs = [] \<longleftrightarrow> xs = []"
  by (metis length_0_conv length_sorted_desc)

text \<open>\<open>sorted(set(xs))\<close>, and first occurrences in order (a \<open>seen\<close> set and a list).\<close>

definition sorted_set :: "'a::linorder list \<Rightarrow> 'a list" where
  "sorted_set xs = sort (remdups xs)"

lemma set_sorted_set [simp]: "set (sorted_set xs) = set xs"
  by (simp add: sorted_set_def)

lemma sorted_sorted_set [simp]: "sorted (sorted_set xs)"
  by (simp add: sorted_set_def)

lemma distinct_sorted_set [simp]: "distinct (sorted_set xs)"
  by (simp add: sorted_set_def)

fun dedup_by :: "('a \<Rightarrow> 'k) \<Rightarrow> 'k list \<Rightarrow> 'a list \<Rightarrow> 'a list" where
  "dedup_by f seen [] = []"
| "dedup_by f seen (x # xs) =
     (if f x \<in> set seen then dedup_by f seen xs else x # dedup_by f (f x # seen) xs)"

lemma dedup_by_keys: "f ` set (dedup_by f seen xs) = f ` set xs - set seen"
  by (induction f seen xs rule: dedup_by.induct) auto

lemma dedup_by_subset: "set (dedup_by f seen xs) \<subseteq> set xs"
  by (induction f seen xs rule: dedup_by.induct) auto

lemma dedup_by_distinct: "distinct (map f (dedup_by f seen xs))"
proof (induction f seen xs rule: dedup_by.induct)
  case (1 f seen)
  show ?case by simp
next
  case (2 f seen x xs)
  have "f x \<notin> f ` set (dedup_by f (f x # seen) xs)" by (simp add: dedup_by_keys)
  with 2 show ?case by simp
qed

lemma dedup_by_id: "distinct (map f xs) \<Longrightarrow> f ` set xs \<inter> set seen = {} \<Longrightarrow> dedup_by f seen xs = xs"
  by (induction f seen xs rule: dedup_by.induct) auto

subsection \<open>Optional values\<close>

text \<open>\<open>a or b\<close> on optional strings: \<open>None\<close> and the empty string are falsy.\<close>

definition truthy_str :: "str option \<Rightarrow> bool" where
  "truthy_str v \<longleftrightarrow> v \<noteq> None \<and> v \<noteq> Some []"

definition or_str :: "str option \<Rightarrow> str option \<Rightarrow> str option" where
  "or_str a b = (if truthy_str a then a else b)"

lemma truthy_str_simps [simp]:
  "\<not> truthy_str None" "truthy_str (Some s) \<longleftrightarrow> s \<noteq> []"
  by (auto simp: truthy_str_def)

lemma truthy_strE: "truthy_str v \<Longrightarrow> (\<And>s. v = Some s \<Longrightarrow> s \<noteq> [] \<Longrightarrow> P) \<Longrightarrow> P"
  by (cases v) auto

end
