(* ===== verification/Binary64.thy ===== *)
theory Binary64
  imports Prelude "HOL-Library.Log_Nat"
begin

section \<open>Python floats: IEEE binary64 over exact rationals\<close>

text \<open>
  A Python \<open>float\<close> is a binary64 number. The finite ones are rationals, and every arithmetic
  operation returns the exact result rounded to the nearest representable number, ties to the
  even significand. This theory defines that rounding (\<open>fl\<close>), the type \<open>float64\<close> of
  its fixed points with the arithmetic of the language, and the built-in \<open>round(x, n)\<close>.
  What the type leaves out: infinities, NaN and overflow (no computation modelled here leaves
  \<open>10^300\<close>), and the sign of zero.
\<close>

subsection \<open>Rounding to the nearest integer, ties to even\<close>

definition round_even :: "rat \<Rightarrow> int" where
  "round_even x = (let f = \<lfloor>x\<rfloor>; d = x - of_int f
     in if d < 1 / 2 then f else if 1 / 2 < d then f + 1 else if even f then f else f + 1)"

lemma round_even_of_int [simp]: "round_even (of_int n) = n"
  by (simp add: round_even_def)

lemma round_even_cases: "round_even x = \<lfloor>x\<rfloor> \<or> round_even x = \<lfloor>x\<rfloor> + 1"
  by (simp add: round_even_def Let_def)

lemma round_even_mono: "x \<le> y \<Longrightarrow> round_even x \<le> round_even y"
proof -
  assume xy: "x \<le> y"
  then have fl: "\<lfloor>x\<rfloor> \<le> \<lfloor>y\<rfloor>" by (rule floor_mono)
  show ?thesis
  proof (cases "\<lfloor>x\<rfloor> = \<lfloor>y\<rfloor>")
    case True
    with xy show ?thesis by (auto simp: round_even_def Let_def)
  next
    case False
    with fl have "\<lfloor>x\<rfloor> + 1 \<le> \<lfloor>y\<rfloor>" by simp
    with round_even_cases [of x] round_even_cases [of y] show ?thesis by linarith
  qed
qed

lemma round_even_minus: "round_even (- x) = - round_even x"
proof (cases "x = of_int \<lfloor>x\<rfloor>")
  case True
  then show ?thesis by (metis of_int_minus round_even_of_int)
next
  case False
  have fx: "of_int \<lfloor>x\<rfloor> \<le> x" "x < of_int \<lfloor>x\<rfloor> + 1" by linarith+
  have fm: "\<lfloor>- x\<rfloor> = - \<lfloor>x\<rfloor> - 1"
    using False fx by (intro floor_unique) (simp_all add: order_less_le)
  have d: "- x - of_int (- \<lfloor>x\<rfloor> - 1) = 1 - (x - of_int \<lfloor>x\<rfloor>)" by simp
  show ?thesis
    unfolding round_even_def Let_def fm d
    by (cases "x - of_int \<lfloor>x\<rfloor> < 1 / 2"; cases "1 / 2 < x - of_int \<lfloor>x\<rfloor>") auto
qed

lemma round_even_le: "x \<le> of_int n \<Longrightarrow> round_even x \<le> n"
  using round_even_mono [of x "of_int n"] by simp

lemma round_even_ge: "of_int n \<le> x \<Longrightarrow> n \<le> round_even x"
  using round_even_mono [of "of_int n" x] by simp

subsection \<open>The binary exponent\<close>

text \<open>\<open>ilog2 x\<close> is the exponent of the leading bit of a positive rational.\<close>

definition ilog2 :: "rat \<Rightarrow> int" where
  "ilog2 x = (case quotient_of x of (p, q) \<Rightarrow>
     let k = bitlen p - bitlen q
     in if 2 powi k \<le> x then k else k - 1)"

lemma bitlen2_bounds:
  assumes "0 < n"
  shows "2 powi (bitlen n - 1) \<le> (of_int n :: rat)"
    and "(of_int n :: rat) < 2 powi bitlen n"
proof -
  have b: "2 ^ nat (bitlen n - 1) \<le> n" "n < 2 ^ nat (bitlen n)"
    using bitlen_bounds [OF assms] by simp_all
  have k: "0 < bitlen n"
    using assms bitlen_nonneg [of n] bitlen_eq_zero_iff [of n] by linarith
  have "(of_int (2 ^ nat (bitlen n - 1)) :: rat) \<le> of_int n" using b(1) by (simp only: of_int_le_iff)
  with k show "2 powi (bitlen n - 1) \<le> (of_int n :: rat)" by (simp add: power_int_def)
  have "(of_int n :: rat) < of_int (2 ^ nat (bitlen n))" using b(2) by (simp only: of_int_less_iff)
  with k show "(of_int n :: rat) < 2 powi bitlen n" by (simp add: power_int_def)
qed

lemma ilog2_bounds:
  assumes "0 < x"
  shows "2 powi ilog2 x \<le> x" and "x < 2 powi (ilog2 x + 1)"
proof -
  obtain p q where pq: "quotient_of x = (p, q)" by force
  then have q: "0 < q" and x: "x = of_int p / of_int q"
    using quotient_of_denom_pos quotient_of_div by blast+
  with assms have p: "0 < p" by (simp add: zero_less_divide_iff)
  let ?a = "bitlen p" and ?b = "bitlen q"
  have "2 powi (?a - 1) / 2 powi ?b \<le> x"
    unfolding x using bitlen2_bounds [OF p] bitlen2_bounds [OF q] q p
    by (intro frac_le) auto
  moreover have "2 powi (?a - 1) / 2 powi ?b = (2 :: rat) powi (?a - 1 - ?b)"
    by (rule power_int_diff [symmetric]) simp
  moreover have "?a - 1 - ?b = ?a - ?b - 1" by simp
  ultimately have lo: "2 powi (?a - ?b - 1) \<le> x" by metis
  have "x < 2 powi ?a / 2 powi (?b - 1)"
    unfolding x using bitlen2_bounds [OF p] bitlen2_bounds [OF q] q p
    by (intro frac_less) auto
  moreover have "2 powi ?a / 2 powi (?b - 1) = (2 :: rat) powi (?a - (?b - 1))"
    by (rule power_int_diff [symmetric]) simp
  moreover have "?a - (?b - 1) = ?a - ?b + 1" by simp
  ultimately have hi: "x < 2 powi (?a - ?b + 1)" by metis
  show "2 powi ilog2 x \<le> x" using lo by (auto simp: ilog2_def pq Let_def)
  show "x < 2 powi (ilog2 x + 1)" using hi by (auto simp: ilog2_def pq Let_def)
qed

lemma powi2_mono: "a \<le> b \<Longrightarrow> (2 :: rat) powi a \<le> 2 powi b"
  by (rule power_int_increasing) auto

lemma powi2_less_imp: "(2 :: rat) powi a < 2 powi b \<Longrightarrow> a < b"
  by (meson not_less powi2_mono)

lemma ilog2_less: "0 < x \<Longrightarrow> x < 2 powi k \<Longrightarrow> ilog2 x < k"
  using ilog2_bounds(1) [of x] by (meson le_less_trans powi2_less_imp)

lemma ilog2_mono: "0 < x \<Longrightarrow> x \<le> y \<Longrightarrow> ilog2 x \<le> ilog2 y"
  using ilog2_less [of x "ilog2 y + 1"] ilog2_bounds(2) [of y] by linarith

subsection \<open>Rounding to binary64\<close>

text \<open>
  \<open>ulp_exp x\<close> is the exponent of the last place: 53 significant bits, and no place below
  \<open>2^-1074\<close> (gradual underflow).
\<close>

definition ulp_exp :: "rat \<Rightarrow> int" where
  "ulp_exp x = (if x = 0 then -1074 else max (-1074) (ilog2 \<bar>x\<bar> - 52))"

definition fl :: "rat \<Rightarrow> rat" where
  "fl x = (let e = ulp_exp x in of_int (round_even (x / 2 powi e)) * 2 powi e)"

lemma ulp_exp_minus [simp]: "ulp_exp (- x) = ulp_exp x"
  by (simp add: ulp_exp_def)

lemma fl_minus: "fl (- x) = - fl x"
  by (simp add: fl_def Let_def round_even_minus)

lemma fl_0 [simp]: "fl 0 = 0"
  using round_even_of_int [of 0] by (simp add: fl_def)

lemma fl_code [code]:
  "fl x = (if x = 0 then 0 else let e = ulp_exp x in of_int (round_even (x / 2 powi e)) * 2 powi e)"
  using fl_0 by (auto simp: fl_def)

lemma ulp_exp_upper: "\<bar>x\<bar> < 2 powi (ulp_exp x + 53)"
proof (cases "x = 0")
  case False
  then have "\<bar>x\<bar> < 2 powi (ilog2 \<bar>x\<bar> + 1)" using ilog2_bounds(2) [of "\<bar>x\<bar>"] by simp
  also have "\<dots> \<le> 2 powi (ulp_exp x + 53)" using False by (intro powi2_mono) (simp add: ulp_exp_def)
  finally show ?thesis .
qed simp

lemma powi_split: "a = b + int n \<Longrightarrow> (2 :: rat) powi a = of_int (2 ^ n) * 2 powi b"
  by (simp add: power_int_add)

lemma fl_below_power:
  assumes "0 \<le> x" and "x < 2 powi k" and "ulp_exp x \<le> k"
  shows "fl x \<le> 2 powi k"
proof -
  let ?e = "ulp_exp x"
  have k: "(2 :: rat) powi k = of_int (2 ^ nat (k - ?e)) * 2 powi ?e"
    using assms(3) by (intro powi_split) simp
  then have "x / 2 powi ?e \<le> of_int (2 ^ nat (k - ?e))"
    using assms(2) by (simp add: field_simps)
  then have "round_even (x / 2 powi ?e) \<le> 2 ^ nat (k - ?e)" by (rule round_even_le)
  then have "(of_int (round_even (x / 2 powi ?e)) :: rat) \<le> of_int (2 ^ nat (k - ?e))"
    by (simp only: of_int_le_iff)
  then show ?thesis unfolding fl_def Let_def k by (intro mult_right_mono) auto
qed

lemma fl_above_power:
  assumes "2 powi k \<le> x" and "ulp_exp x \<le> k"
  shows "2 powi k \<le> fl x"
proof -
  let ?e = "ulp_exp x"
  have k: "(2 :: rat) powi k = of_int (2 ^ nat (k - ?e)) * 2 powi ?e"
    using assms(2) by (intro powi_split) simp
  then have "of_int (2 ^ nat (k - ?e)) \<le> x / 2 powi ?e"
    using assms(1) by (simp add: field_simps)
  then have "2 ^ nat (k - ?e) \<le> round_even (x / 2 powi ?e)" by (rule round_even_ge)
  then have "of_int (2 ^ nat (k - ?e)) \<le> (of_int (round_even (x / 2 powi ?e)) :: rat)"
    by (simp only: of_int_le_iff)
  then show ?thesis unfolding fl_def Let_def k by (intro mult_right_mono) auto
qed

lemma ulp_exp_mono: "0 \<le> x \<Longrightarrow> x \<le> y \<Longrightarrow> ulp_exp x \<le> ulp_exp y"
  using ilog2_mono [of x y] by (auto simp: ulp_exp_def)

lemma fl_mono_nonneg:
  assumes "0 \<le> x" and "x \<le> y"
  shows "fl x \<le> fl y"
proof (cases "ulp_exp x = ulp_exp y")
  case True
  have "round_even (x / 2 powi ulp_exp y) \<le> round_even (y / 2 powi ulp_exp y)"
    using assms(2) by (intro round_even_mono divide_right_mono) auto
  with True show ?thesis by (simp add: fl_def Let_def mult_right_mono)
next
  case False
  let ?k = "ulp_exp y + 52"
  have less: "ulp_exp x < ulp_exp y" using False ulp_exp_mono [OF assms] by simp
  then have y0: "y \<noteq> 0" by (auto simp: ulp_exp_def split: if_splits)
  with less have y: "ilog2 \<bar>y\<bar> = ?k" by (auto simp: ulp_exp_def split: if_splits)
  have "x < 2 powi ?k"
    using ulp_exp_upper [of x] assms(1) less powi2_mono [of "ulp_exp x + 53" ?k] by auto
  then have "fl x \<le> 2 powi ?k" using less assms(1) by (intro fl_below_power) auto
  also have "2 powi ?k \<le> y" using ilog2_bounds(1) [of "\<bar>y\<bar>"] y y0 assms by simp
  then have "2 powi ?k \<le> fl y" by (intro fl_above_power) auto
  finally show ?thesis .
qed

lemma fl_nonneg: "0 \<le> x \<Longrightarrow> 0 \<le> fl x"
  using fl_mono_nonneg [of 0 x] by simp

lemma fl_mono: "x \<le> y \<Longrightarrow> fl x \<le> fl y"
proof -
  assume xy: "x \<le> y"
  consider "0 \<le> x" | "x < 0" "0 \<le> y" | "x < 0" "y < 0" by linarith
  then show ?thesis
  proof cases
    case 1
    then show ?thesis using xy by (rule fl_mono_nonneg)
  next
    case 2
    then show ?thesis using fl_nonneg [of y] fl_nonneg [of "- x"] by (simp add: fl_minus)
  next
    case 3
    then show ?thesis using fl_mono_nonneg [of "- y" "- x"] xy by (simp add: fl_minus)
  qed
qed

text \<open>Numbers with 53 significant bits are fixed points, and so is every result of \<open>fl\<close>.\<close>

lemma fl_exact:
  assumes "\<bar>m\<bar> < 2 ^ 53" and "-1074 \<le> e"
  shows "fl (of_int m * 2 powi e) = of_int m * 2 powi e"
proof (cases "m = 0")
  case False
  let ?x = "of_int m * 2 powi e :: rat"
  have "(of_int \<bar>m\<bar> :: rat) < of_int (2 ^ 53)" using assms(1) by (simp only: of_int_less_iff)
  then have "\<bar>?x\<bar> < 2 powi (e + 53)"
    by (simp add: abs_mult power_int_add)
  then have "ilog2 \<bar>?x\<bar> < e + 53" using False by (intro ilog2_less) auto
  then have le: "ulp_exp ?x \<le> e" using False assms(2) by (simp add: ulp_exp_def)
  let ?n = "m * 2 ^ nat (e - ulp_exp ?x)"
  have "?x = of_int ?n * 2 powi ulp_exp ?x"
    using powi_split [of e "ulp_exp ?x" "nat (e - ulp_exp ?x)"] le by simp
  then have "?x / 2 powi ulp_exp ?x = of_int ?n" by (simp add: field_simps)
  then show ?thesis unfolding fl_def Let_def by (metis round_even_of_int nonzero_divide_eq_eq power_int_not_zero zero_neq_numeral)
qed simp

lemma fl_representable: "\<exists>m e. fl x = of_int m * 2 powi e \<and> \<bar>m\<bar> < 2 ^ 53 \<and> -1074 \<le> e"
proof -
  let ?e = "ulp_exp x" and ?m = "round_even (x / 2 powi ulp_exp x)"
  have e: "-1074 \<le> ?e" by (simp add: ulp_exp_def)
  have "\<bar>x\<bar> / 2 powi ?e < of_int (2 ^ 53)"
    using ulp_exp_upper [of x] by (simp add: power_int_add field_simps)
  then have "x / 2 powi ?e \<le> of_int (2 ^ 53)" and "of_int (- (2 ^ 53)) \<le> x / 2 powi ?e"
    by (simp_all add: abs_if field_simps split: if_splits)
  then have m: "\<bar>?m\<bar> \<le> 2 ^ 53"
    using round_even_le [of "x / 2 powi ?e" "2 ^ 53"] round_even_ge [of "- (2 ^ 53)" "x / 2 powi ?e"] by linarith
  show ?thesis
  proof (cases "\<bar>?m\<bar> = 2 ^ 53")
    case True
    then have "?m = 2 * (sgn ?m * 2 ^ 52)" by (cases "0 \<le> ?m") (auto simp: sgn_if)
    then have "fl x = of_int (sgn ?m * 2 ^ 52) * 2 powi (?e + 1)"
      by (simp add: fl_def Let_def power_int_add) 
    moreover have "\<bar>sgn ?m * 2 ^ 52\<bar> < 2 ^ 53" by (simp add: abs_mult sgn_if)
    ultimately show ?thesis using e by (intro exI [of _ "sgn ?m * 2 ^ 52"] exI [of _ "?e + 1"]) auto
  next
    case False
    with m have "\<bar>?m\<bar> < 2 ^ 53" by simp
    with e show ?thesis by (auto simp: fl_def Let_def)
  qed
qed

lemma fl_idem [simp]: "fl (fl x) = fl x"
  using fl_representable [of x] fl_exact by metis

lemma fl_of_int: "\<bar>n\<bar> < 2 ^ 53 \<Longrightarrow> fl (of_int n) = of_int n"
  using fl_exact [of n 0] by simp

lemma fl_1 [simp]: "fl 1 = 1"
  using fl_of_int [of 1] by simp

lemma fl_numeral [simp]: "numeral n < (2 ^ 53 :: int) \<Longrightarrow> fl (numeral n) = numeral n"
  using fl_of_int [of "numeral n"] by simp


subsection \<open>The interface the float type rests on\<close>

text \<open>
  All the model needs of the rounding: it is monotone, idempotent, symmetric, and exact on the
  integers below \<open>2^53\<close>. Bounds of rounded expressions follow from these laws alone.
\<close>

locale rounding =
  fixes rnd :: "rat \<Rightarrow> rat"
  assumes rnd_mono: "x \<le> y \<Longrightarrow> rnd x \<le> rnd y"
    and rnd_idem: "rnd (rnd x) = rnd x"
    and rnd_minus: "rnd (- x) = - rnd x"
    and rnd_int: "\<bar>n\<bar> < 2 ^ 53 \<Longrightarrow> rnd (of_int n) = of_int n"
begin

lemma rnd_between: "rnd lo = lo \<Longrightarrow> rnd hi = hi \<Longrightarrow> lo \<le> x \<Longrightarrow> x \<le> hi \<Longrightarrow> lo \<le> rnd x \<and> rnd x \<le> hi"
  using rnd_mono [of lo x] rnd_mono [of x hi] by simp

lemma rnd_le_fixed: "rnd hi = hi \<Longrightarrow> x \<le> hi \<Longrightarrow> rnd x \<le> hi"
  using rnd_mono [of x hi] by simp

lemma rnd_ge_fixed: "rnd lo = lo \<Longrightarrow> lo \<le> x \<Longrightarrow> lo \<le> rnd x"
  using rnd_mono [of lo x] by simp

lemma rnd_zero: "rnd 0 = 0"
  using rnd_int [of 0] by simp

lemma rnd_nonneg: "0 \<le> x \<Longrightarrow> 0 \<le> rnd x"
  by (rule rnd_ge_fixed [OF rnd_zero])

lemma rnd_nonpos: "x \<le> 0 \<Longrightarrow> rnd x \<le> 0"
  by (rule rnd_le_fixed [OF rnd_zero])

lemma rnd_unit: "0 \<le> x \<Longrightarrow> x \<le> 1 \<Longrightarrow> 0 \<le> rnd x \<and> rnd x \<le> 1"
  using rnd_int [of 1] by (intro rnd_between) (auto simp: rnd_zero)

end

interpretation b64: rounding fl
  by unfold_locales (auto simp: fl_minus fl_of_int intro: fl_mono)

subsection \<open>The type of finite floats and its arithmetic\<close>

typedef float64 = "{x :: rat. fl x = x}"
  morphisms val Abs_float64
  by (rule exI [of _ 0]) simp

setup_lifting type_definition_float64

lemma fl_val [simp]: "fl (val x) = val x"
  using val [of x] by simp

lemma val_inject_iff: "a = b \<longleftrightarrow> val a = val b"
  by (simp add: val_inject)

text \<open>\<open>F q\<close> is the float written as the literal \<open>q\<close>, and the conversion of an integer.\<close>

lift_definition F :: "rat \<Rightarrow> float64" is fl by simp

instantiation float64 :: "{zero, one, plus, minus, times, inverse, uminus, linorder}"
begin

lift_definition zero_float64 :: float64 is 0 by simp
lift_definition one_float64 :: float64 is 1 by simp
lift_definition plus_float64 :: "float64 \<Rightarrow> float64 \<Rightarrow> float64" is "\<lambda>x y. fl (x + y)" by simp
lift_definition minus_float64 :: "float64 \<Rightarrow> float64 \<Rightarrow> float64" is "\<lambda>x y. fl (x - y)" by simp
lift_definition times_float64 :: "float64 \<Rightarrow> float64 \<Rightarrow> float64" is "\<lambda>x y. fl (x * y)" by simp
lift_definition divide_float64 :: "float64 \<Rightarrow> float64 \<Rightarrow> float64" is "\<lambda>x y. fl (x / y)" by simp
lift_definition inverse_float64 :: "float64 \<Rightarrow> float64" is "\<lambda>x. fl (1 / x)" by simp
lift_definition uminus_float64 :: "float64 \<Rightarrow> float64" is "\<lambda>x. - x" by (simp add: fl_minus)
lift_definition less_eq_float64 :: "float64 \<Rightarrow> float64 \<Rightarrow> bool" is "(\<le>)" .
lift_definition less_float64 :: "float64 \<Rightarrow> float64 \<Rightarrow> bool" is "(<)" .

instance
  by standard (transfer; auto)+

end

instantiation float64 :: equal
begin

definition equal_float64 :: "float64 \<Rightarrow> float64 \<Rightarrow> bool" where
  "equal_float64 a b \<longleftrightarrow> val a = val b"

instance
  by standard (simp add: equal_float64_def val_inject)

end

definition fabs :: "float64 \<Rightarrow> float64" where
  "fabs x = (if x < 0 then - x else x)"

definition of_int64 :: "int \<Rightarrow> float64" where
  "of_int64 n = F (of_int n)"

lemma val_simps [simp]:
  "val (F q) = fl q" "val 0 = 0" "val 1 = 1"
  "val (a + b) = fl (val a + val b)" "val (a - b) = fl (val a - val b)"
  "val (a * b) = fl (val a * val b)" "val (a / b) = fl (val a / val b)" "val (- a) = - val a"
  by (transfer; simp)+

lemma val_le: "a \<le> b \<longleftrightarrow> val a \<le> val b"
  by transfer simp

lemma val_less: "a < b \<longleftrightarrow> val a < val b"
  by transfer simp

lemma val_max: "val (max a b) = max (val a) (val b)"
  by (simp add: max_def val_le)

lemma val_min: "val (min a b) = min (val a) (val b)"
  by (simp add: min_def val_le)

lemma val_fabs: "val (fabs a) = \<bar>val a\<bar>"
  by (simp add: fabs_def val_less)

lemmas f64_order = val_le val_less val_max val_min val_inject_iff val_fabs

subsection \<open>The built-in round\<close>

text \<open>
  \<open>round(x, n)\<close> is the float nearest to the correctly rounded decimal of \<open>x\<close> with
  \<open>n\<close> places (exact ties to the even digit).
\<close>

definition py_round :: "float64 \<Rightarrow> nat \<Rightarrow> float64" where
  "py_round x n = F (of_int (round_even (val x * 10 ^ n)) / 10 ^ n)"

lemma py_round_mono: "x \<le> y \<Longrightarrow> py_round x n \<le> py_round y n"
proof -
  assume "x \<le> y"
  then have "round_even (val x * 10 ^ n) \<le> round_even (val y * 10 ^ n)"
    by (intro round_even_mono mult_right_mono) (auto simp: val_le)
  then have "(of_int (round_even (val x * 10 ^ n)) / 10 ^ n :: rat) \<le> of_int (round_even (val y * 10 ^ n)) / 10 ^ n"
    by (intro divide_right_mono) auto
  then show ?thesis by (simp add: py_round_def val_le fl_mono)
qed

lemma py_round_of_int: "\<bar>k\<bar> < 2 ^ 53 \<Longrightarrow> py_round (of_int64 k) n = of_int64 k"
proof -
  assume k: "\<bar>k\<bar> < 2 ^ 53"
  have "val (of_int64 k) * 10 ^ n = of_int (k * 10 ^ n)" using k by (simp add: of_int64_def fl_of_int)
  then have "round_even (val (of_int64 k) * 10 ^ n) = k * 10 ^ n" by (metis round_even_of_int)
  then show ?thesis by (simp add: py_round_def of_int64_def)
qed

lemma py_round_0 [simp]: "py_round 0 n = 0"
proof -
  have "of_int64 0 = 0" by (simp add: of_int64_def val_inject_iff)
  then show ?thesis using py_round_of_int [of 0 n] by simp
qed

lemma py_round_1 [simp]: "py_round 1 n = 1"
proof -
  have "of_int64 1 = 1" by (simp add: of_int64_def val_inject_iff)
  then show ?thesis using py_round_of_int [of 1 n] by simp
qed

lemma py_round_nonneg: "0 \<le> x \<Longrightarrow> 0 \<le> py_round x n"
  using py_round_mono [of 0 x n] by simp

lemma py_round_le_1: "x \<le> 1 \<Longrightarrow> py_round x n \<le> 1"
  using py_round_mono [of x 1 n] by simp

subsection \<open>Bounds of float expressions\<close>

text \<open>The float counterparts of the ordered-field rules, each from the laws of the rounding.\<close>

lemma f64_add_nonneg: "0 \<le> a \<Longrightarrow> 0 \<le> b \<Longrightarrow> (0 :: float64) \<le> a + b"
  by (simp add: val_le b64.rnd_nonneg)

lemma f64_mult_nonneg: "0 \<le> a \<Longrightarrow> 0 \<le> b \<Longrightarrow> (0 :: float64) \<le> a * b"
  by (simp add: val_le b64.rnd_nonneg)

lemma f64_divide_nonneg: "0 \<le> a \<Longrightarrow> 0 \<le> b \<Longrightarrow> (0 :: float64) \<le> a / b"
  by (simp add: val_le b64.rnd_nonneg)

lemma f64_add_mono: "a \<le> c \<Longrightarrow> b \<le> d \<Longrightarrow> a + b \<le> (c + d :: float64)"
  by (simp add: val_le fl_mono add_mono)

lemma f64_diff_mono: "a \<le> c \<Longrightarrow> d \<le> b \<Longrightarrow> a - b \<le> (c - d :: float64)"
  by (simp add: val_le fl_mono diff_mono)

lemma f64_mult_mono: "a \<le> c \<Longrightarrow> b \<le> d \<Longrightarrow> 0 \<le> a \<Longrightarrow> 0 \<le> b \<Longrightarrow> a * b \<le> (c * d :: float64)"
  by (simp add: val_le) (intro fl_mono mult_mono; linarith)

lemma f64_mult_left_mono: "b \<le> d \<Longrightarrow> 0 \<le> a \<Longrightarrow> a * b \<le> (a * d :: float64)"
  by (simp add: val_le fl_mono mult_left_mono)

lemma f64_mult_right_mono: "b \<le> d \<Longrightarrow> 0 \<le> a \<Longrightarrow> b * a \<le> (d * a :: float64)"
  by (simp add: val_le fl_mono mult_right_mono)

lemma F_nonneg: "0 \<le> q \<Longrightarrow> 0 \<le> F q"
  by (simp add: val_le b64.rnd_nonneg)

lemma F_mono: "p \<le> q \<Longrightarrow> F p \<le> F q"
  by (simp add: val_le fl_mono)

lemma F_0 [simp]: "F 0 = 0"
  by (simp add: val_inject_iff)

lemma F_1 [simp]: "F 1 = 1"
  by (simp add: val_inject_iff)

lemma f64_uminus_le: "a \<le> b \<Longrightarrow> - b \<le> (- a :: float64)"
  by (simp add: val_le)

lemma f64_divide_right_mono: "a \<le> c \<Longrightarrow> 0 \<le> b \<Longrightarrow> a / b \<le> (c / b :: float64)"
  by (simp add: val_le fl_mono divide_right_mono)

lemma f64_divide_left_antimono: "0 \<le> a \<Longrightarrow> 0 < b \<Longrightarrow> b \<le> c \<Longrightarrow> a / c \<le> (a / b :: float64)"
  by (auto simp: val_le val_less intro!: fl_mono divide_left_mono mult_pos_pos)

lemma f64_divide_le_1: "a \<le> b \<Longrightarrow> 0 < b \<Longrightarrow> a / b \<le> (1 :: float64)"
  by (simp add: val_le val_less b64.rnd_le_fixed)

lemma f64_diff_nonneg: "b \<le> a \<Longrightarrow> (0 :: float64) \<le> a - b"
  by (simp add: val_le b64.rnd_nonneg)

lemma f64_mult_1 [simp]: "a * 1 = (a :: float64)" "1 * a = (a :: float64)"
  by (simp_all add: val_inject_iff)

lemma f64_mult_0 [simp]: "a * 0 = (0 :: float64)" "0 * a = (0 :: float64)"
  by (simp_all add: val_inject_iff)

lemma f64_add_0 [simp]: "a + 0 = (a :: float64)" "0 + a = (a :: float64)"
  by (simp_all add: val_inject_iff)

lemma f64_divide_1 [simp]: "a / 1 = (a :: float64)"
  by (simp add: val_inject_iff)

lemma f64_mult_le_left: "0 \<le> a \<Longrightarrow> b \<le> 1 \<Longrightarrow> 0 \<le> b \<Longrightarrow> a * b \<le> (a :: float64)"
  using f64_mult_mono [of a a b 1] by simp

lemma f64_0_less_1 [simp]: "(0 :: float64) < 1" "(0 :: float64) \<le> 1"
  by (simp_all add: val_le val_less)

lemmas f64_nonneg = f64_add_nonneg f64_mult_nonneg f64_divide_nonneg


subsection \<open>Floats as text\<close>

text \<open>
  \<open>f"{x:.nf}"\<close> prints the correctly rounded decimal; \<open>repr(x)\<close> (what
  \<open>f"{x}"\<close> prints) is the shortest decimal that reads back as \<open>x\<close>, in exponent
  notation outside \<open>10^-4 .. 10^16\<close>. Seventeen significant digits always suffice, so the
  search over the number of digits is bounded by 17.
\<close>

definition zfill :: "nat \<Rightarrow> str \<Rightarrow> str" where
  "zfill n s = replicate (n - length s) CHR ''0'' @ s"

definition fmt_fixed :: "nat \<Rightarrow> float64 \<Rightarrow> str" where
  "fmt_fixed n x =
     (let m = round_even (\<bar>val x\<bar> * 10 ^ n)
      in (if x < 0 then ''-'' else []) @ str_int (m div 10 ^ n)
         @ (if n = 0 then [] else ''.'' @ zfill n (str_int (m mod 10 ^ n))))"

definition ilog10 :: "rat \<Rightarrow> int" where
  "ilog10 x = (let k = (ilog2 x * 30103) div 100000
     in if 10 powi (k + 1) \<le> x then k + 1 else if x < 10 powi k then k - 1 else k)"

definition repr_candidate :: "rat \<Rightarrow> nat \<Rightarrow> (int \<times> int) option" where
  "repr_candidate x n =
     (let e = ilog10 x - int n + 1; m = round_even (x / 10 powi e)
      in if fl (of_int m * 10 powi e) = x then Some (m, e)
         else if fl (of_int (m + 1) * 10 powi e) = x then Some (m + 1, e) else None)"

fun first_some :: "('a \<Rightarrow> 'b option) \<Rightarrow> 'a list \<Rightarrow> 'b option" where
  "first_some f [] = None"
| "first_some f (x # xs) = (case f x of Some y \<Rightarrow> Some y | None \<Rightarrow> first_some f xs)"

definition repr_digits :: "rat \<Rightarrow> int \<times> int" where
  "repr_digits x = (case first_some (repr_candidate x) [1..<18] of
       Some (m, e) \<Rightarrow> (m, e)
     | None \<Rightarrow> (round_even (x / 10 powi (ilog10 x - 16)), ilog10 x - 16))"

definition layout_repr :: "str \<Rightarrow> int \<Rightarrow> str" where
  "layout_repr d e =
     (let n = int (length d); p = n + e
      in if -4 < p \<and> p \<le> 16 then
           (if p \<le> 0 then ''0.'' @ replicate (nat (- p)) CHR ''0'' @ d
            else if n \<le> p then d @ replicate (nat (p - n)) CHR ''0'' @ ''.0''
            else take (nat p) d @ ''.'' @ drop (nat p) d)
         else take 1 d @ (if length d = 1 then [] else ''.'' @ drop 1 d) @ ''e''
              @ (if p - 1 < 0 then ''-'' else ''+'') @ zfill 2 (str_int \<bar>p - 1\<bar>))"

definition repr_float :: "float64 \<Rightarrow> str" where
  "repr_float x =
     (if val x = 0 then ''0.0''
      else (if x < 0 then ''-'' else [])
           @ (case repr_digits \<bar>val x\<bar> of (m, e) \<Rightarrow> layout_repr (str_int m) e))"

end
