(* ===== verification/PyVal.thy ===== *)
theory PyVal
  imports Binary64
begin

section \<open>Dynamic values, conversions and exceptions\<close>

text \<open>
  Values of type \<open>Any\<close> (graph properties, tool payloads, decoded JSON) and what the code
  does with them: truth value, \<open>str\<close>, \<open>repr\<close>, \<open>float\<close>, \<open>int\<close>, \<open>dict.get\<close>, and
  the field checks of pydantic models. An exception is the left value of a sum; the
  constructors of \<open>py_error\<close> are the exception classes the modelled code can raise.
  Dictionary keys are strings, and \<open>inf\<close> and \<open>nan\<close> are not numbers of the model.
\<close>

datatype py_error =
    ValidationError str
  | ValueErr str
  | TypeErr str
  | AttributeErr str
  | KeyErr str
  | RuntimeErr str
  | ServiceUnavailable str
  | AssertionErr str
  | IndexErr str
  | OtherErr str str

text \<open>\<open>str(exc)\<close> and \<open>type(exc).__name__\<close>; \<open>OtherErr\<close> carries the name of its class.\<close>

fun err_text :: "py_error \<Rightarrow> str" where
  "err_text (ValidationError s) = s"
| "err_text (ValueErr s) = s"
| "err_text (TypeErr s) = s"
| "err_text (AttributeErr s) = s"
| "err_text (KeyErr s) = s"
| "err_text (RuntimeErr s) = s"
| "err_text (ServiceUnavailable s) = s"
| "err_text (AssertionErr s) = s"
| "err_text (IndexErr s) = s"
| "err_text (OtherErr c s) = s"

fun error_type :: "py_error \<Rightarrow> str" where
  "error_type (ValidationError s) = ''ValidationError''"
| "error_type (ValueErr s) = ''ValueError''"
| "error_type (TypeErr s) = ''TypeError''"
| "error_type (AttributeErr s) = ''AttributeError''"
| "error_type (KeyErr s) = ''KeyError''"
| "error_type (RuntimeErr s) = ''RuntimeError''"
| "error_type (ServiceUnavailable s) = ''PredictionServiceUnavailable''"
| "error_type (AssertionErr s) = ''AssertionError''"
| "error_type (IndexErr s) = ''IndexError''"
| "error_type (OtherErr c s) = c"

type_synonym 'a res = "py_error + 'a"

definition bind_res :: "'a res \<Rightarrow> ('a \<Rightarrow> 'b res) \<Rightarrow> 'b res" where
  "bind_res m f = (case m of Inl e \<Rightarrow> Inl e | Inr x \<Rightarrow> f x)"

fun map_res :: "('a \<Rightarrow> 'b res) \<Rightarrow> 'a list \<Rightarrow> 'b list res" where
  "map_res f [] = Inr []"
| "map_res f (x # xs) = bind_res (f x) (\<lambda>y. bind_res (map_res f xs) (\<lambda>ys. Inr (y # ys)))"

definition require :: "bool \<Rightarrow> py_error \<Rightarrow> 'a res \<Rightarrow> 'a res" where
  "require c e m = (if c then m else Inl e)"

lemma bind_res_simps [simp]: "bind_res (Inl e) f = Inl e" "bind_res (Inr x) f = f x"
  by (simp_all add: bind_res_def)

lemma bind_res_Inr: "bind_res m f = Inr y \<longleftrightarrow> (\<exists>x. m = Inr x \<and> f x = Inr y)"
  by (cases m) auto

lemma bind_res_Inl: "bind_res m f = Inl e \<longleftrightarrow> m = Inl e \<or> (\<exists>x. m = Inr x \<and> f x = Inl e)"
  by (cases m) auto

lemma require_Inr [simp]: "require c e m = Inr x \<longleftrightarrow> c \<and> m = Inr x"
  by (simp add: require_def)

lemma require_simps [simp]: "require True e m = m" "require False e m = Inl e"
  by (simp_all add: require_def)

lemma map_res_length: "map_res f xs = Inr ys \<Longrightarrow> length ys = length xs"
  by (induction xs arbitrary: ys) (auto simp: bind_res_Inr)

lemma map_res_map: "(\<And>x. x \<in> set xs \<Longrightarrow> f x = Inr (g x)) \<Longrightarrow> map_res f xs = Inr (map g xs)"
  by (induction xs) auto

subsection \<open>Values\<close>

datatype pyval =
    VNone
  | VBool bool
  | VInt int
  | VFloat float64
  | VStr str
  | VList "pyval list"
  | VDict "(str \<times> pyval) list"

fun truthy :: "pyval \<Rightarrow> bool" where
  "truthy VNone = False"
| "truthy (VBool b) = b"
| "truthy (VInt i) = (i \<noteq> 0)"
| "truthy (VFloat x) = (x \<noteq> 0)"
| "truthy (VStr s) = (s \<noteq> [])"
| "truthy (VList xs) = (xs \<noteq> [])"
| "truthy (VDict d) = (d \<noteq> [])"

definition py_or :: "pyval \<Rightarrow> pyval \<Rightarrow> pyval" where
  "py_or a b = (if truthy a then a else b)"

text \<open>\<open>repr\<close> of text: single quotes unless only those occur inside, with escapes.\<close>

definition hex_digit :: "nat \<Rightarrow> char" where
  "hex_digit n = (''0123456789abcdef'' ! (n mod 16))"

definition escape_char :: "char \<Rightarrow> char \<Rightarrow> str" where
  "escape_char q c =
     (let n = (of_char c :: nat)
      in if c = q \<or> c = CHR 0x5C then [CHR 0x5C, c]
         else if n = 10 then [CHR 0x5C, CHR ''n'']
         else if n = 13 then [CHR 0x5C, CHR ''r'']
         else if n = 9 then [CHR 0x5C, CHR ''t'']
         else if n < 32 \<or> 127 \<le> n then [CHR 0x5C, CHR ''x'', hex_digit (n div 16), hex_digit n]
         else [c])"

definition repr_str :: "str \<Rightarrow> str" where
  "repr_str s =
     (let q = (if CHR 0x27 \<in> set s \<and> CHR 0x22 \<notin> set s then CHR 0x22 else CHR 0x27)
      in [q] @ concat (map (escape_char q) s) @ [q])"

fun py_repr :: "pyval \<Rightarrow> str" where
  "py_repr VNone = ''None''"
| "py_repr (VBool b) = (if b then ''True'' else ''False'')"
| "py_repr (VInt i) = str_int i"
| "py_repr (VFloat x) = repr_float x"
| "py_repr (VStr s) = repr_str s"
| "py_repr (VList xs) = ''['' @ join '', '' (map py_repr xs) @ '']''"
| "py_repr (VDict d) = ''{'' @ join '', '' (map (\<lambda>kv. repr_str (fst kv) @ '': '' @ py_repr (snd kv)) d) @ ''}''"

fun py_str :: "pyval \<Rightarrow> str" where
  "py_str (VStr s) = s"
| "py_str v = py_repr v"

subsection \<open>Number conversions\<close>

definition is_digit :: "char \<Rightarrow> bool" where
  "is_digit c \<longleftrightarrow> (let code = (of_char c :: nat) in 48 \<le> code \<and> code \<le> 57)"

definition is_upper :: "char \<Rightarrow> bool" where
  "is_upper c \<longleftrightarrow> (let code = (of_char c :: nat) in 65 \<le> code \<and> code \<le> 90)"

definition is_lower :: "char \<Rightarrow> bool" where
  "is_lower c \<longleftrightarrow> (let code = (of_char c :: nat) in 97 \<le> code \<and> code \<le> 122)"

definition is_alnum :: "char \<Rightarrow> bool" where
  "is_alnum c \<longleftrightarrow> is_upper c \<or> is_lower c \<or> is_digit c"

text \<open>The word characters of a regular expression.\<close>

definition is_word :: "char \<Rightarrow> bool" where
  "is_word c \<longleftrightarrow> is_alnum c \<or> c = CHR ''_''"

lemmas char_class_defs = is_upper_def is_lower_def is_digit_def is_alnum_def is_space_def Let_def less_eq_char_def

definition digit_val :: "char \<Rightarrow> int" where
  "digit_val c = of_char c - 48"

definition digits_val :: "str \<Rightarrow> int" where
  "digits_val s = foldl (\<lambda>n c. 10 * n + digit_val c) 0 s"

definition split_sign :: "str \<Rightarrow> int \<times> str" where
  "split_sign s = (case s of
       [] \<Rightarrow> (1, [])
     | c # r \<Rightarrow> if c = CHR ''-'' then (-1, r) else if c = CHR ''+'' then (1, r) else (1, s))"

definition parse_int :: "str \<Rightarrow> int option" where
  "parse_int s = (case split_sign (py_strip s) of
     (g, d) \<Rightarrow> if d \<noteq> [] \<and> list_all is_digit d then Some (g * digits_val d) else None)"

text \<open>\<open>float(s)\<close>: sign, digits with one optional point, optional decimal exponent.\<close>

definition parse_exponent :: "str \<Rightarrow> int option" where
  "parse_exponent s = (case s of
       [] \<Rightarrow> Some 0
     | c # r \<Rightarrow> if c = CHR ''e'' \<or> c = CHR ''E'' then
          (case split_sign r of (g, d) \<Rightarrow> if d \<noteq> [] \<and> list_all is_digit d then Some (g * digits_val d) else None)
        else None)"

definition parse_decimal :: "str \<Rightarrow> rat option" where
  "parse_decimal s = (case split_sign (py_strip s) of (g, r) \<Rightarrow>
     let i = takeWhile is_digit r; r1 = dropWhile is_digit r;
         r2 = (case r1 of c # t \<Rightarrow> if c = CHR ''.'' then Some t else None | [] \<Rightarrow> None);
         f = (case r2 of Some t \<Rightarrow> takeWhile is_digit t | None \<Rightarrow> []);
         r3 = (case r2 of Some t \<Rightarrow> dropWhile is_digit t | None \<Rightarrow> r1)
     in if i = [] \<and> f = [] then None
        else (case parse_exponent r3 of None \<Rightarrow> None
              | Some e \<Rightarrow> Some (of_int (g * digits_val (i @ f)) * 10 powi (e - int (length f)))))"

fun to_float :: "pyval \<Rightarrow> float64 res" where
  "to_float (VBool b) = Inr (if b then 1 else 0)"
| "to_float (VInt i) = Inr (of_int64 i)"
| "to_float (VFloat x) = Inr x"
| "to_float (VStr s) = (case parse_decimal s of Some q \<Rightarrow> Inr (F q) | None \<Rightarrow> Inl (ValueErr s))"
| "to_float v = Inl (TypeErr ''float'')"

definition trunc :: "rat \<Rightarrow> int" where
  "trunc x = (if 0 \<le> x then \<lfloor>x\<rfloor> else \<lceil>x\<rceil>)"

fun to_int :: "pyval \<Rightarrow> int res" where
  "to_int (VBool b) = Inr (if b then 1 else 0)"
| "to_int (VInt i) = Inr i"
| "to_int (VFloat x) = Inr (trunc (val x))"
| "to_int (VStr s) = (case parse_int s of Some i \<Rightarrow> Inr i | None \<Rightarrow> Inl (ValueErr s))"
| "to_int v = Inl (TypeErr ''int'')"

subsection \<open>Dictionary access and pydantic field checks\<close>

text \<open>\<open>v.get(k, dflt)\<close> raises \<open>AttributeError\<close> on a value that is no dictionary.\<close>

definition vget :: "pyval \<Rightarrow> str \<Rightarrow> pyval \<Rightarrow> pyval res" where
  "vget v k dflt = (case v of
       VDict d \<Rightarrow> Inr (case map_of d k of Some x \<Rightarrow> x | None \<Rightarrow> dflt)
     | _ \<Rightarrow> Inl (AttributeErr k))"

definition as_str :: "pyval \<Rightarrow> str res" where
  "as_str v = (case v of VStr s \<Rightarrow> Inr s | _ \<Rightarrow> Inl (ValidationError ''string_type''))"

definition as_opt_str :: "pyval \<Rightarrow> str option res" where
  "as_opt_str v = (case v of VNone \<Rightarrow> Inr None | VStr s \<Rightarrow> Inr (Some s)
     | _ \<Rightarrow> Inl (ValidationError ''string_type''))"

definition iterate :: "pyval \<Rightarrow> pyval list res" where
  "iterate v = (case v of VList xs \<Rightarrow> Inr xs
     | VStr s \<Rightarrow> Inr (map (\<lambda>c. VStr [c]) s)
     | VDict d \<Rightarrow> Inr (map (\<lambda>kv. VStr (fst kv)) d)
     | _ \<Rightarrow> Inl (TypeErr ''not iterable''))"

lemma vget_dict [simp]: "vget (VDict d) k dflt = Inr (case map_of d k of Some x \<Rightarrow> x | None \<Rightarrow> dflt)"
  by (simp add: vget_def)

lemma vget_Inl: "vget v k dflt = Inl e \<Longrightarrow> e = AttributeErr k"
  by (auto simp: vget_def split: pyval.splits)

lemma to_float_of_int64 [simp]: "to_float (VInt 0) = Inr 0"
  by (simp add: of_int64_def val_inject_iff)

lemma as_str_Inr [simp]: "as_str v = Inr s \<longleftrightarrow> v = VStr s"
  by (auto simp: as_str_def split: pyval.splits)

end
