(* ===== verification/Decision_Models.thy ===== *)
theory Decision_Models
  imports PyVal
begin

section \<open>Decision engine: contracts and settings\<close>

text \<open>
  The pydantic models of \<open>app/models/decision.py\<close> as records, their field constraints
  as checked constructors (\<open>mk_...\<close>, raising \<open>ValidationError\<close>), the part of
  \<open>Settings\<close> (\<open>app/core/config.py\<close>) the decision engine reads, and the fields of the
  prediction and explanation responses it consumes. Points in time are microseconds.
\<close>

subsection \<open>Vocabularies\<close>

datatype priority_level = LOW | MEDIUM | HIGH | CRITICAL

datatype severity_tier = IMMINENT | SCHEDULED | MONITOR

datatype action_type =
    ActLUBRICATE | ActREPLACE | ActINSPECT | ActISOLATE | ActCALIBRATE | ActALIGN
  | ActBALANCE | ActMONITOR | ActSHUTDOWN | ActSCHEDULE_INSPECTION

fun tier_value :: "severity_tier \<Rightarrow> str" where
  "tier_value IMMINENT = ''IMMINENT''"
| "tier_value SCHEDULED = ''SCHEDULED''"
| "tier_value MONITOR = ''MONITOR''"

fun priority_value :: "priority_level \<Rightarrow> str" where
  "priority_value LOW = ''LOW''"
| "priority_value MEDIUM = ''MEDIUM''"
| "priority_value HIGH = ''HIGH''"
| "priority_value CRITICAL = ''CRITICAL''"

fun action_value :: "action_type \<Rightarrow> str" where
  "action_value ActLUBRICATE = ''LUBRICATE''"
| "action_value ActREPLACE = ''REPLACE''"
| "action_value ActINSPECT = ''INSPECT''"
| "action_value ActISOLATE = ''ISOLATE''"
| "action_value ActCALIBRATE = ''CALIBRATE''"
| "action_value ActALIGN = ''ALIGN''"
| "action_value ActBALANCE = ''BALANCE''"
| "action_value ActMONITOR = ''MONITOR''"
| "action_value ActSHUTDOWN = ''SHUTDOWN''"
| "action_value ActSCHEDULE_INSPECTION = ''SCHEDULE_INSPECTION''"

text \<open>
  Urgency orders the tiers as \<open>tier_rank\<close> of \<open>RuleEngine.prioritize\<close> does: a smaller
  rank is more urgent.
\<close>

fun tier_rank :: "severity_tier \<Rightarrow> nat" where
  "tier_rank IMMINENT = 0"
| "tier_rank SCHEDULED = 1"
| "tier_rank MONITOR = 2"

instantiation severity_tier :: linorder
begin

definition less_eq_severity_tier :: "severity_tier \<Rightarrow> severity_tier \<Rightarrow> bool" where
  "less_eq_severity_tier a b \<longleftrightarrow> tier_rank a \<le> tier_rank b"

definition less_severity_tier :: "severity_tier \<Rightarrow> severity_tier \<Rightarrow> bool" where
  "less_severity_tier a b \<longleftrightarrow> tier_rank a < tier_rank b"

instance
proof
  fix a b :: severity_tier
  show "a \<le> b \<Longrightarrow> b \<le> a \<Longrightarrow> a = b"
    by (cases a; cases b) (auto simp: less_eq_severity_tier_def)
qed (auto simp: less_eq_severity_tier_def less_severity_tier_def)

end

lemmas tier_order = less_eq_severity_tier_def less_severity_tier_def

lemma tier_le_MONITOR [simp]: "t \<le> MONITOR"
  by (cases t) (simp_all add: tier_order)

lemma IMMINENT_le_tier [simp]: "IMMINENT \<le> t"
  by (simp add: tier_order)

subsection \<open>Settings\<close>

record settings =
  imminent_rul_days :: float64
  scheduled_rul_days :: float64
  imminent_probability :: float64
  scheduled_probability :: float64
  default_criticality_weight :: float64
  default_downtime_cost_per_hour_usd :: float64
  default_repair_hours :: float64
  planned_maintenance_discount :: float64
  rpn_ceiling :: float64

definition default_settings :: settings where
  "default_settings = \<lparr>
     imminent_rul_days = F 3, scheduled_rul_days = F 14,
     imminent_probability = F 0.75, scheduled_probability = F 0.40,
     default_criticality_weight = F 1,
     default_downtime_cost_per_hour_usd = F 2500, default_repair_hours = F 6,
     planned_maintenance_discount = F 0.35, rpn_ceiling = F 1000\<rparr>"

subsection \<open>Requests and responses\<close>

record recommendation_request =
  rq_asset_id :: str
  rq_component_id :: "str option"
  rq_risk_horizon_days :: int
  rq_max_recommendations :: nat

definition mk_recommendation_request :: "str \<Rightarrow> str option \<Rightarrow> int \<Rightarrow> nat \<Rightarrow> recommendation_request res" where
  "mk_recommendation_request a c h m =
     require (a \<noteq> []) (ValidationError ''asset_id'')
     (require (1 \<le> h \<and> h \<le> 365) (ValidationError ''risk_horizon_days'')
     (require (1 \<le> m \<and> m \<le> 20) (ValidationError ''max_recommendations'')
       (Inr \<lparr>rq_asset_id = a, rq_component_id = c, rq_risk_horizon_days = h, rq_max_recommendations = m\<rparr>)))"

record sop_linkage =
  lk_sop_id :: str
  lk_title :: str
  lk_document_url :: "str option"
  lk_revision :: "str option"
  lk_effectiveness :: float64

definition mk_sop_linkage ::
  "str \<Rightarrow> str \<Rightarrow> str option \<Rightarrow> str option \<Rightarrow> float64 \<Rightarrow> sop_linkage res" where
  "mk_sop_linkage i t u r e =
     require (0 \<le> e \<and> e \<le> 1) (ValidationError ''effectiveness'')
       (Inr \<lparr>lk_sop_id = i, lk_title = t, lk_document_url = u, lk_revision = r, lk_effectiveness = e\<rparr>)"

record sop_step =
  st_sop_id :: str
  st_sop_title :: str
  st_sequence_number :: int
  st_instruction :: str
  st_expected_outcome :: "str option"
  st_step_type :: str
  st_hold_point :: bool
  st_tooling_required :: "str list"
  st_hazards :: "str list"
  st_required_ppe :: "str list"

definition mk_sop_step :: "sop_step \<Rightarrow> sop_step res" where
  "mk_sop_step s = require (1 \<le> st_sequence_number s) (ValidationError ''sequence_number'') (Inr s)"

record triggered_rule =
  tr_rule_name :: str
  tr_condition :: str
  tr_fired :: bool
  tr_resulting_tier :: "severity_tier option"

record risk_breakdown =
  rb_probability_of_failure :: float64
  rb_probability_scaled :: float64
  rb_severity_scaled :: float64
  rb_detectability_scaled :: float64
  rb_criticality_weight :: float64
  rb_risk_priority_number :: float64
  rb_risk_priority_number_max :: float64
  rb_normalized_risk_score :: float64

definition mk_risk_breakdown :: "risk_breakdown \<Rightarrow> risk_breakdown res" where
  "mk_risk_breakdown b =
     require (0 \<le> rb_probability_of_failure b \<and> rb_probability_of_failure b \<le> 1)
       (ValidationError ''probability_of_failure'')
     (require (0 \<le> rb_probability_scaled b \<and> rb_probability_scaled b \<le> F 10)
       (ValidationError ''probability_scaled'')
     (require (0 \<le> rb_severity_scaled b \<and> rb_severity_scaled b \<le> F 10)
       (ValidationError ''severity_scaled'')
     (require (0 \<le> rb_detectability_scaled b \<and> rb_detectability_scaled b \<le> F 10)
       (ValidationError ''detectability_scaled'')
     (require (0 < rb_criticality_weight b) (ValidationError ''criticality_weight'')
     (require (0 \<le> rb_risk_priority_number b) (ValidationError ''risk_priority_number'')
     (require (0 \<le> rb_normalized_risk_score b \<and> rb_normalized_risk_score b \<le> 1)
       (ValidationError ''normalized_risk_score'')
     (Inr b)))))))"

record cost_estimate =
  ce_unplanned :: float64
  ce_planned :: float64
  ce_avoidance :: float64
  ce_downtime_cost_per_hour :: float64
  ce_repair_hours :: float64

definition mk_cost_estimate :: "cost_estimate \<Rightarrow> cost_estimate res" where
  "mk_cost_estimate c =
     require (0 \<le> ce_unplanned c \<and> 0 \<le> ce_planned c \<and> 0 \<le> ce_avoidance c
              \<and> 0 \<le> ce_downtime_cost_per_hour c \<and> 0 \<le> ce_repair_hours c)
       (ValidationError ''cost_estimate'') (Inr c)"

record recommendation =
  rc_action_id :: str
  rc_action_type :: action_type
  rc_description :: str
  rc_priority :: priority_level
  rc_risk_score_if_ignored :: float64
  rc_cost_avoidance_usd :: float64
  rc_completion_by :: int
  rc_sop_linkage :: "sop_linkage option"
  rc_supporting_explanation_id :: "str option"
  rc_severity_tier :: severity_tier
  rc_rank :: nat

definition mk_recommendation :: "recommendation \<Rightarrow> recommendation res" where
  "mk_recommendation r =
     require (0 \<le> rc_risk_score_if_ignored r \<and> rc_risk_score_if_ignored r \<le> 1)
       (ValidationError ''risk_score_if_ignored'')
     (require (0 \<le> rc_cost_avoidance_usd r) (ValidationError ''estimated_cost_avoidance_usd'')
     (require (1 \<le> rc_rank r) (ValidationError ''rank'') (Inr r)))"

record decision_log_entry =
  dl_decision_id :: str
  dl_asset_id :: str
  dl_component_id :: "str option"
  dl_failure_mode_id :: "str option"
  dl_inputs :: "(str \<times> pyval) list"
  dl_triggered_rules :: "triggered_rule list"
  dl_risk_breakdown :: risk_breakdown
  dl_cost_estimate :: cost_estimate
  dl_weights_applied :: "(str \<times> float64) list"
  dl_rationale :: str

record recommendation_response =
  rs_asset_id :: str
  rs_component_id :: "str option"
  rs_recommendations :: "recommendation list"
  rs_sop_steps :: "sop_step list"
  rs_decision_log :: "decision_log_entry list"
  rs_overall_risk_score :: float64

definition mk_recommendation_response :: "recommendation_response \<Rightarrow> recommendation_response res" where
  "mk_recommendation_response r =
     require (0 \<le> rs_overall_risk_score r \<and> rs_overall_risk_score r \<le> 1)
       (ValidationError ''overall_risk_score'') (Inr r)"

subsection \<open>What the engine reads of the prediction and the explanation\<close>

record inference_request =
  ir_asset_id :: str
  ir_component_id :: "str option"
  ir_history_len :: nat
  ir_horizon_hours :: int

text \<open>\<open>InferenceRequest\<close> (\<open>app/models/predictive.py\<close>): a horizon of at most 90 days.\<close>

definition mk_inference_request :: "str \<Rightarrow> str option \<Rightarrow> nat \<Rightarrow> int \<Rightarrow> inference_request res" where
  "mk_inference_request a c n h =
     require (a \<noteq> []) (ValidationError ''asset_id'')
     (require (1 \<le> n) (ValidationError ''history'')
     (require (1 \<le> h \<and> h \<le> 24 * 90) (ValidationError ''horizon_hours'')
       (Inr \<lparr>ir_asset_id = a, ir_component_id = c, ir_history_len = n, ir_horizon_hours = h\<rparr>)))"

record anomaly_flag =
  af_anomaly_score :: float64
  af_is_anomalous :: bool

record inference_response =
  if_component_id :: "str option"
  if_rul_days :: float64
  if_probability :: float64
  if_failure_mode_id :: "str option"
  if_failure_mode_label :: "str option"
  if_anomaly_flags :: "anomaly_flag list"
  if_anomalous_sensors :: "str list"
  if_explanation_id :: "str option"

record feature_impact =
  fi_feature_name :: str
  fi_rank :: int

record explanation_response =
  ex_explanation_id :: str
  ex_local_feature_importance :: "feature_impact list"
  ex_headline :: str
  ex_contributing_failure_modes :: "str list"
  ex_confidences :: "float64 list"

end
