(* ===== verification/Rule_Engine.thy ===== *)
theory Rule_Engine
  imports Decision_Models
begin

section \<open>Severity classification and prioritisation\<close>

text \<open>
  \<open>app/decision/rule_engine.py\<close>: the prediction signal, the severity matrix that maps it to
  a tier with its audit trail and escalation score, the criticality weights and the ranking of
  several assets.
\<close>

subsection \<open>The signal\<close>

record prediction_signal =
  ps_asset_id :: str
  ps_component_id :: "str option"
  ps_rul_days :: float64
  ps_failure_probability :: float64
  ps_is_anomalous :: bool
  ps_anomaly_score :: float64
  ps_failure_mode_id :: "str option"
  ps_failure_mode_label :: "str option"
  ps_anomalous_sensors :: "str list"
  ps_top_root_cause_sensors :: "str list"
  ps_root_cause_headline :: "str option"
  ps_explanation_confidence :: float64
  ps_explanation_id :: "str option"
  ps_asset_criticality_tier :: str
  ps_failure_mode_severity_tier :: "str option"

definition new_signal :: "str \<Rightarrow> str option \<Rightarrow> prediction_signal" where
  "new_signal a c = \<lparr>
     ps_asset_id = a, ps_component_id = c,
     ps_rul_days = F 30, ps_failure_probability = 0, ps_is_anomalous = False, ps_anomaly_score = 0,
     ps_failure_mode_id = None, ps_failure_mode_label = None, ps_anomalous_sensors = [],
     ps_top_root_cause_sensors = [], ps_root_cause_headline = None,
     ps_explanation_confidence = F 0.9, ps_explanation_id = None,
     ps_asset_criticality_tier = ''B'', ps_failure_mode_severity_tier = None\<rparr>"

definition anomaly_intensity :: "prediction_signal \<Rightarrow> float64" where
  "anomaly_intensity s =
     (if \<not> ps_is_anomalous s then 0 else min (fabs (ps_anomaly_score s) / F 0.5) 1)"

subsection \<open>The severity matrix\<close>

record severity_classification =
  sc_tier :: severity_tier
  sc_triggered_rules :: "triggered_rule list"
  sc_escalation_score :: float64

definition rule_entry :: "str \<Rightarrow> str \<Rightarrow> bool \<Rightarrow> severity_tier \<Rightarrow> triggered_rule" where
  "rule_entry name cond f t =
     \<lparr>tr_rule_name = name, tr_condition = cond, tr_fired = f,
      tr_resulting_tier = (if f then Some t else None)\<rparr>"

text \<open>A rule that only lifts the lowest tier, and one that forces the highest.\<close>

definition lift_to_scheduled :: "bool \<Rightarrow> severity_tier \<Rightarrow> severity_tier" where
  "lift_to_scheduled f t = (if f \<and> t = MONITOR then SCHEDULED else t)"

definition force_imminent :: "bool \<Rightarrow> severity_tier \<Rightarrow> severity_tier" where
  "force_imminent f t = (if f then IMMINENT else t)"

definition fm_is_critical :: "prediction_signal \<Rightarrow> bool" where
  "fm_is_critical s \<longleftrightarrow>
     py_upper (case ps_failure_mode_severity_tier s of None \<Rightarrow> [] | Some t \<Rightarrow> t) = ''CRITICAL''"

definition escalation_score :: "settings \<Rightarrow> prediction_signal \<Rightarrow> float64" where
  "escalation_score g s =
     (let rul_component = F 1 - min (max (ps_rul_days s) (F 0) / max (scheduled_rul_days g) (F 0.000001)) (F 1)
      in min (max (F 0.5 * rul_component + F 0.35 * ps_failure_probability s
                   + F 0.15 * anomaly_intensity s) (F 0)) (F 1))"

definition classify_severity :: "settings \<Rightarrow> prediction_signal \<Rightarrow> severity_classification" where
  "classify_severity g s =
    (let imm = imminent_rul_days g; sch = scheduled_rul_days g;
         ip = imminent_probability g; sp = scheduled_probability g;
         tier = MONITOR;
         rul_elapsed = (ps_rul_days s \<le> F 0);
         r1 = rule_entry ''rul_elapsed_or_negative'' ''rul_days <= 0.0'' rul_elapsed IMMINENT;
         tier = force_imminent rul_elapsed tier;
         rul_imminent = (F 0 < ps_rul_days s \<and> ps_rul_days s \<le> imm);
         r2 = rule_entry ''rul_within_imminent_window'' (''0 < rul_days <= '' @ repr_float imm)
                rul_imminent IMMINENT;
         tier = force_imminent rul_imminent tier;
         rul_scheduled = (imm < ps_rul_days s \<and> ps_rul_days s \<le> sch);
         r3 = rule_entry ''rul_within_scheduled_window''
                (repr_float imm @ '' < rul_days <= '' @ repr_float sch) rul_scheduled SCHEDULED;
         tier = lift_to_scheduled rul_scheduled tier;
         prob_imminent = (ip \<le> ps_failure_probability s);
         r4 = rule_entry ''failure_probability_force_imminent''
                (''failure_probability >= '' @ repr_float ip) prob_imminent IMMINENT;
         tier = force_imminent prob_imminent tier;
         prob_scheduled = (sp \<le> ps_failure_probability s \<and> ps_failure_probability s < ip);
         r5 = rule_entry ''failure_probability_force_scheduled''
                (repr_float sp @ '' <= failure_probability < '' @ repr_float ip) prob_scheduled SCHEDULED;
         tier = lift_to_scheduled prob_scheduled tier;
         intensity = anomaly_intensity s;
         anomaly_escalates = (ps_is_anomalous s \<and> F 0.6 \<le> intensity);
         r6 = rule_entry ''high_intensity_anomaly_escalation''
                ''is_anomalous AND anomaly_intensity >= 0.6'' anomaly_escalates SCHEDULED;
         tier = lift_to_scheduled anomaly_escalates tier;
         multi_sensor = (2 \<le> length (remdups (ps_anomalous_sensors s @ ps_top_root_cause_sensors s)));
         r7 = rule_entry ''simultaneous_multi_sensor_failure''
                ''count(distinct implicated sensors) >= 2'' multi_sensor SCHEDULED;
         tier = lift_to_scheduled multi_sensor tier;
         fm_critical = fm_is_critical s;
         r8 = rule_entry ''ontology_failure_mode_critical_floor''
                (''FailureMode.severity_tier == '' @ repr_str ''CRITICAL'') fm_critical IMMINENT;
         tier = force_imminent fm_critical tier
     in \<lparr>sc_tier = tier, sc_triggered_rules = [r1, r2, r3, r4, r5, r6, r7, r8],
         sc_escalation_score = escalation_score g s\<rparr>)"

subsection \<open>Weights and ranking\<close>

definition criticality_weights :: "(str \<times> float64) list" where
  "criticality_weights = [(''A'', F 1.5), (''B'', F 1.15), (''C'', F 0.85)]"

definition failure_mode_severity_boosts :: "(str \<times> float64) list" where
  "failure_mode_severity_boosts = [(''CRITICAL'', F 0.20), (''DEGRADED'', F 0.08), (''INCIPIENT'', F 0)]"

definition asset_criticality_weight :: "settings \<Rightarrow> str option \<Rightarrow> float64" where
  "asset_criticality_weight g t =
     (if \<not> truthy_str t then default_criticality_weight g
      else dict_default criticality_weights (py_upper (the t)) (default_criticality_weight g))"

definition failure_mode_severity_boost :: "str option \<Rightarrow> float64" where
  "failure_mode_severity_boost t =
     (if \<not> truthy_str t then F 0 else dict_default failure_mode_severity_boosts (py_upper (the t)) (F 0))"

definition priority_key :: "str \<times> severity_classification \<times> float64 \<Rightarrow> nat \<times> float64" where
  "priority_key item = (case item of (_, c, w) \<Rightarrow>
     (tier_rank (sc_tier c), - (sc_escalation_score c * w)))"

definition prioritize :: "(str \<times> severity_classification \<times> float64) list \<Rightarrow> str list" where
  "prioritize cs = map fst (sort_key priority_key cs)"

subsection \<open>The tier in closed form\<close>

text \<open>When each tier is reached, independently of the order of the rules.\<close>

definition imminent_cond :: "settings \<Rightarrow> prediction_signal \<Rightarrow> bool" where
  "imminent_cond g s \<longleftrightarrow>
     ps_rul_days s \<le> 0 \<or> ps_rul_days s \<le> imminent_rul_days g
     \<or> imminent_probability g \<le> ps_failure_probability s \<or> fm_is_critical s"

definition scheduled_cond :: "settings \<Rightarrow> prediction_signal \<Rightarrow> bool" where
  "scheduled_cond g s \<longleftrightarrow>
     ps_rul_days s \<le> scheduled_rul_days g
     \<or> scheduled_probability g \<le> ps_failure_probability s
     \<or> F 0.6 \<le> anomaly_intensity s
     \<or> 2 \<le> card (set (ps_anomalous_sensors s) \<union> set (ps_top_root_cause_sensors s))"

lemma F_06_pos [simp]: "0 < F (6 / 10)"
  by (simp add: val_less) code_simp

lemma intensity_quiet: "\<not> ps_is_anomalous s \<Longrightarrow> anomaly_intensity s = 0"
  by (simp add: anomaly_intensity_def)

lemma distinct_count: "length (remdups (xs @ ys)) = card (set xs \<union> set ys)"
  by (metis length_remdups_card_conv set_append)

lemma tier_chain:
  "force_imminent b8 (lift_to_scheduled b7 (lift_to_scheduled b6 (lift_to_scheduled b5
     (force_imminent b4 (lift_to_scheduled b3 (force_imminent b2 (force_imminent b1 MONITOR)))))))
   = (if b1 \<or> b2 \<or> b4 \<or> b8 then IMMINENT else if b3 \<or> b5 \<or> b6 \<or> b7 then SCHEDULED else MONITOR)"
  by (simp add: force_imminent_def lift_to_scheduled_def)

lemma tier_closed_form:
  "sc_tier (classify_severity g s) =
     (if imminent_cond g s then IMMINENT else if scheduled_cond g s then SCHEDULED else MONITOR)"
proof -
  have quiet: "ps_is_anomalous s \<and> F 0.6 \<le> anomaly_intensity s \<longleftrightarrow> F 0.6 \<le> anomaly_intensity s"
    using F_06_pos by (cases "ps_is_anomalous s") (auto simp: intensity_quiet not_le [symmetric])
  have imm: "ps_rul_days s \<le> F 0 \<or> (F 0 < ps_rul_days s \<and> ps_rul_days s \<le> imminent_rul_days g)
      \<or> imminent_probability g \<le> ps_failure_probability s \<or> fm_is_critical s \<longleftrightarrow> imminent_cond g s"
    unfolding imminent_cond_def by auto
  have sch: "imminent_cond g s \<or> (imminent_rul_days g < ps_rul_days s \<and> ps_rul_days s \<le> scheduled_rul_days g)
      \<or> (scheduled_probability g \<le> ps_failure_probability s \<and> ps_failure_probability s < imminent_probability g)
      \<or> F 0.6 \<le> anomaly_intensity s
      \<or> 2 \<le> card (set (ps_anomalous_sensors s) \<union> set (ps_top_root_cause_sensors s))
    \<longleftrightarrow> imminent_cond g s \<or> scheduled_cond g s"
    unfolding imminent_cond_def scheduled_cond_def by auto
  show ?thesis
    unfolding classify_severity_def Let_def severity_classification.simps tier_chain
      distinct_count quiet imm
    using sch by (cases "imminent_cond g s"; cases "scheduled_cond g s") auto
qed

lemma escalation_score_eq: "sc_escalation_score (classify_severity g s) = escalation_score g s"
  by (simp add: classify_severity_def Let_def)

lemma intensity_range: "0 \<le> anomaly_intensity s" "anomaly_intensity s \<le> 1"
proof -
  have "0 \<le> fabs x / F (5 / 10)" for x
    by (intro f64_divide_nonneg) (simp_all add: val_le val_fabs b64.rnd_nonneg)
  then show "0 \<le> anomaly_intensity s" by (simp add: anomaly_intensity_def)
qed (simp add: anomaly_intensity_def)

lemma escalation_score_range: "0 \<le> escalation_score g s" "escalation_score g s \<le> 1"
  by (simp_all add: escalation_score_def Let_def)

subsection \<open>The audit trail determines the tier\<close>

text \<open>The most urgent tier among the entries of a trail; \<open>MONITOR\<close> when none fired.\<close>

definition most_urgent :: "triggered_rule list \<Rightarrow> severity_tier" where
  "most_urgent rs = foldr (\<lambda>r t. case tr_resulting_tier r of None \<Rightarrow> t | Some u \<Rightarrow> min u t) rs MONITOR"

lemma MONITOR_le_iff [simp]: "MONITOR \<le> t \<longleftrightarrow> t = MONITOR"
  by (cases t) (simp_all add: tier_order)

text \<open>Both ways of moving the tier are minima, so their order does not matter.\<close>

lemma force_imminent_min: "force_imminent f t = min (if f then IMMINENT else MONITOR) t"
  by (simp add: force_imminent_def min_def)

lemma lift_to_scheduled_min: "lift_to_scheduled f t = min (if f then SCHEDULED else MONITOR) t"
  by (cases t) (simp_all add: lift_to_scheduled_def min_def tier_order)

lemma most_urgent_Nil [simp]: "most_urgent [] = MONITOR"
  by (simp add: most_urgent_def)

lemma most_urgent_entry [simp]:
  "most_urgent (rule_entry n c f t # rs) = min (if f then t else MONITOR) (most_urgent rs)"
  by (simp add: most_urgent_def rule_entry_def min_def)

lemma rule_entry_simps [simp]:
  "tr_fired (rule_entry n c f t) = f" "tr_rule_name (rule_entry n c f t) = n"
  "tr_resulting_tier (rule_entry n c f t) = (if f then Some t else None)"
  by (simp_all add: rule_entry_def)

lemma trail_chain:
  "force_imminent b8 (lift_to_scheduled b7 (lift_to_scheduled b6 (lift_to_scheduled b5
     (force_imminent b4 (lift_to_scheduled b3 (force_imminent b2 (force_imminent b1 MONITOR)))))))
   = most_urgent [rule_entry n1 c1 b1 IMMINENT, rule_entry n2 c2 b2 IMMINENT, rule_entry n3 c3 b3 SCHEDULED,
       rule_entry n4 c4 b4 IMMINENT, rule_entry n5 c5 b5 SCHEDULED, rule_entry n6 c6 b6 SCHEDULED,
       rule_entry n7 c7 b7 SCHEDULED, rule_entry n8 c8 b8 IMMINENT]"
  unfolding tier_chain most_urgent_entry most_urgent_Nil by (simp add: min_def tier_order)

text \<open>C1. The recorded trail justifies the decision: the tier returned is the most urgent tier
  that a recorded rule demanded, every rule is recorded exactly once whether it fired or not,
  and an entry names a resulting tier exactly when it fired.\<close>

theorem audit_trail_determines_tier:
  fixes g :: settings and s :: prediction_signal
  defines "c \<equiv> classify_severity g s"
  shows "sc_tier c = most_urgent (sc_triggered_rules c)
    \<and> length (sc_triggered_rules c) = 8 \<and> distinct (map tr_rule_name (sc_triggered_rules c))
    \<and> list_all (\<lambda>r. tr_fired r = (tr_resulting_tier r \<noteq> None)) (sc_triggered_rules c)"
proof (intro conjI)
  show "sc_tier c = most_urgent (sc_triggered_rules c)"
    unfolding c_def classify_severity_def Let_def severity_classification.simps
    by (rule trail_chain)
  show "length (sc_triggered_rules c) = 8" and "distinct (map tr_rule_name (sc_triggered_rules c))"
    and "list_all (\<lambda>r. tr_fired r = (tr_resulting_tier r \<noteq> None)) (sc_triggered_rules c)"
    unfolding c_def classify_severity_def Let_def by simp_all
qed


subsection \<open>A worse signal is never classified as less urgent\<close>

definition at_least_as_bad :: "prediction_signal \<Rightarrow> prediction_signal \<Rightarrow> bool" where
  "at_least_as_bad s s' \<longleftrightarrow>
     ps_rul_days s' \<le> ps_rul_days s
     \<and> ps_failure_probability s \<le> ps_failure_probability s'
     \<and> anomaly_intensity s \<le> anomaly_intensity s'
     \<and> set (ps_anomalous_sensors s) \<union> set (ps_top_root_cause_sensors s)
         \<subseteq> set (ps_anomalous_sensors s') \<union> set (ps_top_root_cause_sensors s')
     \<and> (fm_is_critical s \<longrightarrow> fm_is_critical s')"

lemma imminent_cond_mono: "at_least_as_bad s s' \<Longrightarrow> imminent_cond g s \<Longrightarrow> imminent_cond g s'"
  unfolding at_least_as_bad_def imminent_cond_def by (meson order_trans)

lemma scheduled_cond_mono:
  assumes bad: "at_least_as_bad s s'" and sch: "scheduled_cond g s"
  shows "scheduled_cond g s'"
proof -
  let ?sens = "\<lambda>s. set (ps_anomalous_sensors s) \<union> set (ps_top_root_cause_sensors s)"
  have "card (?sens s) \<le> card (?sens s')"
    using bad by (intro card_mono) (auto simp: at_least_as_bad_def)
  then show ?thesis
    using bad sch unfolding at_least_as_bad_def scheduled_cond_def by (meson order_trans)
qed

lemma escalation_score_mono:
  assumes bad: "at_least_as_bad s s'"
  shows "escalation_score g s \<le> escalation_score g s'"
proof -
  let ?d = "max (scheduled_rul_days g) (F 0.000001)"
  have d: "0 \<le> ?d" by (intro max.coboundedI2 F_nonneg) simp
  have "max (ps_rul_days s') (F 0) / ?d \<le> max (ps_rul_days s) (F 0) / ?d"
    using bad d by (intro f64_divide_right_mono max.mono) (auto simp: at_least_as_bad_def)
  then have rul: "F 1 - min (max (ps_rul_days s) (F 0) / ?d) (F 1)
      \<le> F 1 - min (max (ps_rul_days s') (F 0) / ?d) (F 1)"
    by (intro f64_diff_mono min.mono) auto
  show ?thesis
    unfolding escalation_score_def Let_def
    using bad by (intro min.mono max.mono f64_add_mono f64_mult_left_mono rul F_nonneg order_refl)
      (auto simp: at_least_as_bad_def)
qed

text \<open>C2. The classifier is monotone: shorter remaining life, higher failure probability,
  stronger anomaly, more implicated sensors and a critical failure mode never make the verdict
  less urgent nor lower the escalation score, which always lies between 0 and 1.\<close>

theorem classification_monotone:
  assumes "at_least_as_bad s s'"
  shows "sc_tier (classify_severity g s') \<le> sc_tier (classify_severity g s)
    \<and> sc_escalation_score (classify_severity g s) \<le> sc_escalation_score (classify_severity g s')
    \<and> 0 \<le> sc_escalation_score (classify_severity g s)
    \<and> sc_escalation_score (classify_severity g s') \<le> 1"
  using imminent_cond_mono [OF assms] scheduled_cond_mono [OF assms] escalation_score_mono [OF assms]
  by (simp add: tier_closed_form escalation_score_eq escalation_score_range)

definition sample_signal :: prediction_signal where
  "sample_signal = (new_signal ''pump-1'' None)\<lparr>ps_rul_days := F 10, ps_failure_probability := F 0.5\<rparr>"

theorem classification_monotone_witness:
  "sc_tier (classify_severity default_settings (sample_signal\<lparr>ps_failure_probability := F 1\<rparr>))
     \<le> sc_tier (classify_severity default_settings sample_signal)"
proof -
  have "at_least_as_bad sample_signal (sample_signal\<lparr>ps_failure_probability := F 1\<rparr>)"
    by (simp add: at_least_as_bad_def sample_signal_def new_signal_def anomaly_intensity_def
        fm_is_critical_def del: F_1) (rule F_mono, simp)
  from classification_monotone [OF this] show ?thesis by blast
qed

subsection \<open>Ranking\<close>

text \<open>Ranking several assets returns every asset exactly as often as it was submitted, by
  tier and then by decreasing criticality-weighted escalation score, and keeps the submission
  order of assets with equal keys.\<close>

theorem prioritize_stable_ranking:
  "\<exists>ys. prioritize cs = map fst ys
     \<and> (\<forall>x. count_list ys x = count_list cs x)
     \<and> sorted_wrt (\<lambda>a b. priority_key a \<le> priority_key b) ys
     \<and> (\<forall>k. filter (\<lambda>c. priority_key c = k) ys = filter (\<lambda>c. priority_key c = k) cs)"
proof (intro exI conjI allI)
  let ?ys = "sort_key priority_key cs"
  show "prioritize cs = map fst ?ys" by (simp add: prioritize_def)
  show "count_list ?ys x = count_list cs x" for x
    by (metis count_mset mset_sort)
  show "sorted_wrt (\<lambda>a b. priority_key a \<le> priority_key b) ?ys"
    by (metis sorted_map sorted_sort_key)
  show "filter (\<lambda>c. priority_key c = k) ?ys = filter (\<lambda>c. priority_key c = k) cs" for k
    by (rule sort_key_stable)
qed

end
