(* ===== verification/Risk_Scorer.thy ===== *)
theory Risk_Scorer
  imports Decision_Models
begin

section \<open>Risk priority number and cost of inaction\<close>

text \<open>
  \<open>app/decision/risk_scorer.py\<close>: the three FMEA factors, their product weighted by the
  asset's criticality, the normalised score and the cost model. Both results are validated
  by their pydantic contracts, so both operations may raise.
\<close>

definition severity_tier_scale :: "(str \<times> float64) list" where
  "severity_tier_scale = [(''CRITICAL'', F 9), (''DEGRADED'', F 6), (''INCIPIENT'', F 3)]"

definition probability_to_scale :: "float64 \<Rightarrow> float64" where
  "probability_to_scale p =
     (let p = max (F 0) (min (F 1) p) in py_round (F 1 + p * F 9) 4)"

definition severity_from_ontology :: "str option \<Rightarrow> float64 option \<Rightarrow> float64" where
  "severity_from_ontology tier hint =
     (let scaled = (if truthy_str tier then map_of severity_tier_scale (py_upper (the tier)) else None)
      in case scaled of Some x \<Rightarrow> x
         | None \<Rightarrow> (case hint of
               Some h \<Rightarrow> if 0 < h then py_round (max (F 1) (min (F 10) (h / F 100))) 4 else F 5
             | None \<Rightarrow> F 5))"

definition detectability_from_anomaly_confidence :: "float64 \<Rightarrow> float64" where
  "detectability_from_anomaly_confidence c =
     (let c = max (F 0) (min (F 1) c) in py_round (F 10 - c * F 9) 4)"

definition score :: "settings \<Rightarrow> float64 \<Rightarrow> str option \<Rightarrow> float64 option \<Rightarrow> float64 \<Rightarrow> float64 \<Rightarrow> risk_breakdown res" where
  "score g probability_of_failure tier hint anomaly_confidence criticality_weight =
     (let p = probability_to_scale probability_of_failure;
          s = severity_from_ontology tier hint;
          d = detectability_from_anomaly_confidence anomaly_confidence;
          raw_rpn = p * s * d;
          weighted_rpn = raw_rpn * max criticality_weight (F 0);
          ceiling = rpn_ceiling g * max criticality_weight (F 1);
          normalized = (if ceiling \<le> 0 then F 0 else min (weighted_rpn / ceiling) (F 1))
      in mk_risk_breakdown \<lparr>
           rb_probability_of_failure = py_round (max (F 0) (min (F 1) probability_of_failure)) 4,
           rb_probability_scaled = p, rb_severity_scaled = s, rb_detectability_scaled = d,
           rb_criticality_weight = py_round (max criticality_weight (F 0)) 4,
           rb_risk_priority_number = py_round weighted_rpn 4,
           rb_risk_priority_number_max = rpn_ceiling g,
           rb_normalized_risk_score = py_round normalized 4\<rparr>)"

definition estimate_cost ::
  "settings \<Rightarrow> float64 \<Rightarrow> float64 option \<Rightarrow> float64 option \<Rightarrow> float64 option \<Rightarrow> cost_estimate res" where
  "estimate_cost g risk_score rate hours disc =
     (let downtime_rate = (case rate of Some r \<Rightarrow> r | None \<Rightarrow> default_downtime_cost_per_hour_usd g);
          repair_hours = (case hours of Some h \<Rightarrow> h | None \<Rightarrow> default_repair_hours g);
          discount = (case disc of Some d \<Rightarrow> d | None \<Rightarrow> planned_maintenance_discount g);
          risk_score = max (F 0) (min (F 1) risk_score);
          severity_multiplier = F 1 + risk_score * F 2;
          unplanned_cost = downtime_rate * repair_hours * severity_multiplier;
          planned_cost = max (downtime_rate * repair_hours * (F 1 - discount)) (F 0);
          avoidance = max (unplanned_cost - planned_cost) (F 0)
      in mk_cost_estimate \<lparr>
           ce_unplanned = py_round unplanned_cost 2, ce_planned = py_round planned_cost 2,
           ce_avoidance = py_round avoidance 2, ce_downtime_cost_per_hour = py_round downtime_rate 2,
           ce_repair_hours = py_round repair_hours 2\<rparr>)"

subsection \<open>The factors stay on the FMEA scale\<close>

lemma clamp_range:
  assumes "lo \<le> (hi :: float64)"
  shows "lo \<le> max lo (min hi x)" "max lo (min hi x) \<le> hi"
  using assms by simp_all

lemma py_round_numeral [simp]:
  "numeral k < (2 ^ 53 :: int) \<Longrightarrow> py_round (F (numeral k)) n = F (numeral k)"
  using py_round_of_int [of "numeral k" n] by (simp add: of_int64_def)

lemma py_round_between:
  "py_round lo n = lo \<Longrightarrow> py_round hi n = hi \<Longrightarrow> lo \<le> x \<Longrightarrow> x \<le> hi \<Longrightarrow> lo \<le> py_round x n \<and> py_round x n \<le> hi"
  using py_round_mono [of lo x n] py_round_mono [of x hi n] by simp

lemma F_numeral_nonneg [simp]: "0 \<le> F (numeral k)"
  by (rule F_nonneg) simp

lemma scale_span: "0 \<le> c \<Longrightarrow> c \<le> 1 \<Longrightarrow> 0 \<le> c * F 9 \<and> c * F 9 \<le> F 9"
  using f64_mult_right_mono [of c 1 "F 9"] by (auto intro!: f64_mult_nonneg F_nonneg)

lemma one_plus_nine: "1 + F 9 = F 10" and ten_minus_nine: "F 10 - F 9 = 1"
  by (simp_all add: val_inject_iff)

lemma probability_to_scale_range: "F 1 \<le> probability_to_scale p \<and> probability_to_scale p \<le> F 10"
proof -
  let ?c = "max (F 0) (min (F 1) p)"
  have c: "0 \<le> ?c * F 9" "?c * F 9 \<le> F 9" using scale_span [of ?c] by auto
  have "F 1 + F 0 \<le> F 1 + ?c * F 9" and "F 1 + ?c * F 9 \<le> F 1 + F 9"
    using c by (intro f64_add_mono; simp)+
  then show ?thesis
    unfolding probability_to_scale_def Let_def
    by (intro py_round_between) (simp_all add: one_plus_nine)
qed

lemma detectability_range:
  "F 1 \<le> detectability_from_anomaly_confidence c \<and> detectability_from_anomaly_confidence c \<le> F 10"
proof -
  let ?c = "max (F 0) (min (F 1) c)"
  have c: "0 \<le> ?c * F 9" "?c * F 9 \<le> F 9" using scale_span [of ?c] by auto
  have "F 10 - F 9 \<le> F 10 - ?c * F 9" and "F 10 - ?c * F 9 \<le> F 10 - F 0"
    using c by (intro f64_diff_mono; simp)+
  moreover have "F 10 - F 0 = F 10" by (simp add: val_inject_iff)
  ultimately show ?thesis
    unfolding detectability_from_anomaly_confidence_def Let_def
    by (intro py_round_between) (simp_all add: ten_minus_nine)
qed

lemma severity_scale_entries: "map_of severity_tier_scale k = Some x \<Longrightarrow> x \<in> {F 9, F 6, F 3}"
  by (auto simp: severity_tier_scale_def split: if_splits)

lemma severity_scale_range: "map_of severity_tier_scale k = Some x \<Longrightarrow> F 1 \<le> x \<and> x \<le> F 10"
  using severity_scale_entries [of k x] by (auto simp: val_le)

lemma F_five_range: "F 1 \<le> F 5 \<and> F 5 \<le> F 10"
  by (simp add: val_le)

lemma severity_range: "F 1 \<le> severity_from_ontology t h \<and> severity_from_ontology t h \<le> F 10"
proof -
  have hint: "F 1 \<le> py_round (max (F 1) (min (F 10) y)) 4 \<and> py_round (max (F 1) (min (F 10) y)) 4 \<le> F 10" for y
    using clamp_range [of "F 1" "F 10" y] by (intro py_round_between) (auto simp: val_le)
  show ?thesis
    unfolding severity_from_ontology_def Let_def
    using hint severity_scale_range F_five_range
    by (auto simp del: F_1 split: option.splits if_splits)
qed

lemma positive_scale: "F 1 \<le> x \<Longrightarrow> 0 \<le> x"
  by (simp add: val_le)

subsection \<open>The score\<close>

lemma scales_nonneg:
  "0 \<le> probability_to_scale p" "0 \<le> severity_from_ontology t h" "0 \<le> detectability_from_anomaly_confidence c"
  using probability_to_scale_range severity_range detectability_range by (blast intro: positive_scale)+

lemma raw_rpn_nonneg:
  "0 \<le> probability_to_scale p * severity_from_ontology t h * detectability_from_anomaly_confidence c"
  by (intro f64_mult_nonneg positive_scale probability_to_scale_range [THEN conjunct1]
      severity_range [THEN conjunct1] detectability_range [THEN conjunct1])

lemma clamp_unit_nonneg: "0 \<le> py_round (max (F 0) (min (F 1) x)) n \<and> py_round (max (F 0) (min (F 1) x)) n \<le> 1"
  by (simp add: py_round_nonneg py_round_le_1)

lemma normalized_range:
  assumes "0 \<le> w"
  shows "0 \<le> py_round (if c \<le> 0 then F 0 else min (w / c) (F 1)) 4"
    "py_round (if c \<le> 0 then F 0 else min (w / c) (F 1)) 4 \<le> 1"
  using assms by (auto intro!: py_round_nonneg py_round_le_1 f64_divide_nonneg)

lemma score_defined:
  "score g p t h c w =
     (if 0 < py_round (max w (F 0)) 4
      then Inr \<lparr>
           rb_probability_of_failure = py_round (max (F 0) (min (F 1) p)) 4,
           rb_probability_scaled = probability_to_scale p,
           rb_severity_scaled = severity_from_ontology t h,
           rb_detectability_scaled = detectability_from_anomaly_confidence c,
           rb_criticality_weight = py_round (max w (F 0)) 4,
           rb_risk_priority_number =
             py_round (probability_to_scale p * severity_from_ontology t h
                       * detectability_from_anomaly_confidence c * max w (F 0)) 4,
           rb_risk_priority_number_max = rpn_ceiling g,
           rb_normalized_risk_score =
             py_round (if rpn_ceiling g * max w (F 1) \<le> 0 then F 0
               else min (probability_to_scale p * severity_from_ontology t h
                         * detectability_from_anomaly_confidence c * max w (F 0)
                         / (rpn_ceiling g * max w (F 1))) (F 1)) 4\<rparr>
      else Inl (ValidationError ''criticality_weight''))"
proof -
  let ?w = "probability_to_scale p * severity_from_ontology t h
              * detectability_from_anomaly_confidence c * max w (F 0)"
  have w: "0 \<le> ?w" by (rule f64_mult_nonneg [OF raw_rpn_nonneg]) simp
  show ?thesis
    unfolding score_def Let_def mk_risk_breakdown_def risk_breakdown.simps require_def
    using clamp_unit_nonneg [of p 4] probability_to_scale_range [of p] severity_range [of t h]
      detectability_range [of c] scales_nonneg(1) [of p] scales_nonneg(2) [of t h] scales_nonneg(3) [of c]
      normalized_range [OF w, of "rpn_ceiling g * max w (F 1)"] py_round_nonneg [OF w, of 4]
    by (simp del: F_0 F_1)
qed


text \<open>C3. Scoring either yields a breakdown whose three factors lie on the 1 to 10 scale, with a
  non-negative priority number and a normalised score in the unit interval, or raises a
  validation error; it raises exactly when the criticality weight is not positive after
  rounding to four places, whatever the other inputs are.\<close>

theorem score_on_scale_or_rejected:
  "(case score g p t h c w of
      Inr b \<Rightarrow> 0 < py_round (max w (F 0)) 4
        \<and> F 1 \<le> rb_probability_scaled b \<and> rb_probability_scaled b \<le> F 10
        \<and> F 1 \<le> rb_severity_scaled b \<and> rb_severity_scaled b \<le> F 10
        \<and> F 1 \<le> rb_detectability_scaled b \<and> rb_detectability_scaled b \<le> F 10
        \<and> 0 \<le> rb_risk_priority_number b
        \<and> 0 \<le> rb_normalized_risk_score b \<and> rb_normalized_risk_score b \<le> 1
    | Inl e \<Rightarrow> e = ValidationError ''criticality_weight'' \<and> py_round (max w (F 0)) 4 \<le> 0)"
proof -
  let ?w = "probability_to_scale p * severity_from_ontology t h
              * detectability_from_anomaly_confidence c * max w (F 0)"
  have w: "0 \<le> ?w" by (rule f64_mult_nonneg [OF raw_rpn_nonneg]) simp
  show ?thesis
    unfolding score_defined
    using probability_to_scale_range [of p] severity_range [of t h] detectability_range [of c]
      normalized_range [OF w] py_round_nonneg [OF w]
    by (simp add: not_less del: F_0 F_1)
qed

subsection \<open>Monotonicity\<close>

lemma normalized_mono:
  assumes "x \<le> y"
  shows "py_round (if c \<le> 0 then F 0 else min (x / c) (F 1)) 4
    \<le> py_round (if c \<le> 0 then F 0 else min (y / c) (F 1)) 4"
proof (cases "c \<le> 0")
  case False
  then have "x / c \<le> y / c" using assms by (intro f64_divide_right_mono) auto
  then have "min (x / c) (F 1) \<le> min (y / c) (F 1)" by (rule min.mono) (rule order_refl)
  with False show ?thesis by (simp only: if_False) (rule py_round_mono)
qed simp

lemma probability_to_scale_mono: "p \<le> p' \<Longrightarrow> probability_to_scale p \<le> probability_to_scale p'"
  unfolding probability_to_scale_def Let_def
  by (intro py_round_mono f64_add_mono f64_mult_right_mono max.mono min.mono order_refl F_nonneg) simp_all

lemma detectability_antimono:
  "c \<le> c' \<Longrightarrow> detectability_from_anomaly_confidence c' \<le> detectability_from_anomaly_confidence c"
  unfolding detectability_from_anomaly_confidence_def Let_def
  by (intro py_round_mono f64_diff_mono f64_mult_right_mono max.mono min.mono order_refl F_nonneg) simp_all

lemma weighted_rpn_mono:
  assumes "p \<le> p'" and "c' \<le> c"
  shows "probability_to_scale p * severity_from_ontology t h * detectability_from_anomaly_confidence c * max w (F 0)
    \<le> probability_to_scale p' * severity_from_ontology t h * detectability_from_anomaly_confidence c' * max w (F 0)"
  using assms
  by (intro f64_mult_right_mono f64_mult_mono probability_to_scale_mono detectability_antimono
      order_refl scales_nonneg f64_mult_nonneg) auto

text \<open>C4. The score is monotone in the failure probability and falls as the anomaly detector
  becomes more confident: for the same asset and failure mode, a higher probability and a lower
  confidence never decrease the priority number nor the normalised score.\<close>

theorem score_monotone:
  assumes "p \<le> p'" and "c' \<le> c"
    and "score g p t h c w = Inr b" and "score g p' t h c' w = Inr b'"
  shows "rb_risk_priority_number b \<le> rb_risk_priority_number b'
    \<and> rb_normalized_risk_score b \<le> rb_normalized_risk_score b'"
proof -
  let ?c = "rpn_ceiling g * max w (F 1)"
  let ?w = "\<lambda>p c. probability_to_scale p * severity_from_ontology t h
              * detectability_from_anomaly_confidence c * max w (F 0)"
  have le: "?w p c \<le> ?w p' c'" using weighted_rpn_mono [OF assms(1,2)] .
  then have rpn: "py_round (?w p c) 4 \<le> py_round (?w p' c') 4" by (rule py_round_mono)
  note norm = normalized_mono [OF le, of ?c]
  show ?thesis
    using assms(3,4) rpn norm unfolding score_defined by (auto simp del: F_0 F_1 split: if_splits)
qed

theorem score_monotone_witness:
  "\<exists>b b'. score default_settings 0 None None 1 1 = Inr b \<and> score default_settings 1 None None 0 1 = Inr b'
     \<and> rb_risk_priority_number b \<le> rb_risk_priority_number b'"
proof -
  have ok: "\<exists>b. score default_settings p None None c 1 = Inr b" for p c
    unfolding score_defined by (simp add: max_def val_le)
  obtain b where b: "score default_settings 0 None None 1 1 = Inr b" using ok by blast
  obtain b' where b': "score default_settings 1 None None 0 1 = Inr b'" using ok by blast
  show ?thesis using score_monotone [OF _ _ b b'] b b' by auto
qed

subsection \<open>The cost of inaction\<close>

definition cost_inputs_ok :: "settings \<Rightarrow> float64 option \<Rightarrow> float64 option \<Rightarrow> bool" where
  "cost_inputs_ok g rate hours \<longleftrightarrow>
     0 \<le> (case rate of Some r \<Rightarrow> r | None \<Rightarrow> default_downtime_cost_per_hour_usd g)
     \<and> 0 \<le> (case hours of Some h \<Rightarrow> h | None \<Rightarrow> default_repair_hours g)"

lemma multiplier_ge_1: "F 1 \<le> F 1 + max (F 0) (min (F 1) r) * F 2"
proof -
  have "0 \<le> max (F 0) (min (F 1) r) * F 2" by (intro f64_mult_nonneg) simp_all
  then show ?thesis using f64_add_mono [of "F 1" "F 1" 0 "max (F 0) (min (F 1) r) * F 2"] by simp
qed

lemma estimate_cost_ok:
  assumes "cost_inputs_ok g None None"
  shows "\<exists>e. estimate_cost g r None None disc = Inr e"
proof -
  have base: "0 \<le> default_downtime_cost_per_hour_usd g" "0 \<le> default_repair_hours g"
    using assms by (simp_all add: cost_inputs_ok_def)
  have "0 \<le> default_downtime_cost_per_hour_usd g * default_repair_hours g * (F 1 + max (F 0) (min (F 1) r) * F 2)"
    by (intro f64_mult_nonneg base order_trans [OF _ multiplier_ge_1]) simp
  then show ?thesis
    using base by (simp add: estimate_cost_def Let_def mk_cost_estimate_def py_round_nonneg)
qed

lemma score_ok:
  assumes "0 < py_round (max w (F 0)) 4"
  obtains b where "score g p t h c w = Inr b" "rb_normalized_risk_score b \<le> 1" "0 \<le> rb_normalized_risk_score b"
proof -
  let ?w = "probability_to_scale p * severity_from_ontology t h
              * detectability_from_anomaly_confidence c * max w (F 0)"
  have w: "0 \<le> ?w" by (rule f64_mult_nonneg [OF raw_rpn_nonneg]) simp
  show ?thesis
    using that assms normalized_range [OF w] unfolding score_defined by (simp del: F_0 F_1)
qed

text \<open>For non-negative rates and hours the cost model never raises; acting on the plan saves
  money (the avoided cost is at most the unplanned cost), a discount between 0 and 1 makes the
  planned repair no dearer than the unplanned one, and the estimate grows with the risk.\<close>

theorem cost_of_inaction:
  assumes "cost_inputs_ok g rate hours" and "r \<le> r'"
  shows "\<exists>e e'. estimate_cost g r rate hours disc = Inr e \<and> estimate_cost g r' rate hours disc = Inr e'
     \<and> ce_avoidance e \<le> ce_unplanned e
     \<and> (0 \<le> (case disc of Some d \<Rightarrow> d | None \<Rightarrow> planned_maintenance_discount g) \<longrightarrow> ce_planned e \<le> ce_unplanned e)
     \<and> ce_unplanned e \<le> ce_unplanned e' \<and> ce_planned e' = ce_planned e \<and> ce_avoidance e \<le> ce_avoidance e'"
proof -
  let ?rate = "case rate of Some r \<Rightarrow> r | None \<Rightarrow> default_downtime_cost_per_hour_usd g"
  let ?hours = "case hours of Some h \<Rightarrow> h | None \<Rightarrow> default_repair_hours g"
  let ?disc = "case disc of Some d \<Rightarrow> d | None \<Rightarrow> planned_maintenance_discount g"
  let ?mult = "\<lambda>r. F 1 + max (F 0) (min (F 1) r) * F 2"
  let ?un = "\<lambda>r. ?rate * ?hours * ?mult r"
  let ?pl = "max (?rate * ?hours * (F 1 - ?disc)) (F 0)"
  let ?av = "\<lambda>r. max (?un r - ?pl) (F 0)"
  have base: "0 \<le> ?rate" "0 \<le> ?hours" using assms(1) by (simp_all only: cost_inputs_ok_def)
  then have rh: "0 \<le> ?rate * ?hours" by (rule f64_mult_nonneg)
  have m: "0 \<le> ?mult r" for r by (rule order_trans [OF _ multiplier_ge_1]) simp
  have un: "0 \<le> ?un r" for r using rh m by (rule f64_mult_nonneg)
  have mono: "?un r \<le> ?un r'"
    using assms(2) rh by (intro f64_mult_left_mono f64_add_mono f64_mult_right_mono max.mono min.mono) auto
  have av_le: "?av r \<le> ?un r"
  proof -
    have "?un r - ?pl \<le> ?un r - 0" by (rule f64_diff_mono) auto
    also have "?un r - 0 = ?un r" by (simp add: val_inject_iff)
    finally show ?thesis using un by simp
  qed
  have av_mono: "?av r \<le> ?av r'" using mono by (intro max.mono f64_diff_mono) auto
  have pl_le: "?pl \<le> ?un r" if "0 \<le> ?disc"
  proof -
    have "F 1 - ?disc \<le> F 1 - 0" using that by (intro f64_diff_mono) auto
    also have "F 1 - 0 = F 1" by (simp add: val_inject_iff)
    also have "F 1 \<le> ?mult r" by (rule multiplier_ge_1)
    finally have "?rate * ?hours * (F 1 - ?disc) \<le> ?un r" using rh by (rule f64_mult_left_mono)
    then show ?thesis using un by simp
  qed
  have pl0: "0 \<le> ?pl" and av0: "0 \<le> ?av r" for r by simp_all
  have ok: "estimate_cost g r rate hours disc = Inr \<lparr>
       ce_unplanned = py_round (?un r) 2, ce_planned = py_round ?pl 2, ce_avoidance = py_round (?av r) 2,
       ce_downtime_cost_per_hour = py_round ?rate 2, ce_repair_hours = py_round ?hours 2\<rparr>" for r
    unfolding estimate_cost_def Let_def mk_cost_estimate_def require_def
    using py_round_nonneg [OF un, of r 2] py_round_nonneg [OF pl0, of 2] py_round_nonneg [OF av0, of r 2]
      py_round_nonneg [OF base(1), of 2] py_round_nonneg [OF base(2), of 2]
    by (simp del: F_0 F_1)
  show ?thesis
    unfolding ok
    using py_round_mono [OF av_le, of 2] py_round_mono [OF mono, of 2] py_round_mono [OF av_mono, of 2]
      py_round_mono [OF pl_le, of 2]
    by (simp del: F_0 F_1)
qed

theorem cost_of_inaction_witness:
  "\<exists>e e'. estimate_cost default_settings 0 None None None = Inr e
     \<and> estimate_cost default_settings 1 None None None = Inr e' \<and> ce_avoidance e \<le> ce_avoidance e'"
proof -
  have "cost_inputs_ok default_settings None None"
    by (simp add: cost_inputs_ok_def default_settings_def)
  from cost_of_inaction [OF this, of 0 1 None] show ?thesis by auto
qed

text \<open>
  The normalisation divides by the criticality weight again once it exceeds 1, so the scores of a
  tier A and a tier B asset with the same failure profile coincide; and the priority number of a
  tier A asset exceeds the maximum it is reported against.
\<close>

definition profile_score :: "float64 \<Rightarrow> risk_breakdown res" where
  "profile_score w = score default_settings (F 1) (Some ''CRITICAL'') None 0 w"

lemma profile_factors:
  "probability_to_scale (F 1) = F 10" "severity_from_ontology (Some ''CRITICAL'') None = F 9"
  "detectability_from_anomaly_confidence 0 = F 10"
  by code_simp+

lemma weights_positive: "0 < py_round (F 1.5) 4" "0 < py_round (F 1.15) 4"
  by code_simp+

lemma weight_max [simp]:
  "max (F 1.5) (F 0) = F 1.5" "max (F 1.5) (F 1) = F 1.5"
  "max (F 1.15) (F 0) = F 1.15" "max (F 1.15) (F 1) = F 1.15"
  by code_simp+

lemma profile_products:
  "F 10 * F 9 * F 10 = F 900" "F 900 * F 1.5 = F 1350" "F 900 * F 1.15 = F 1035"
  "F 1000 * F 1.5 = F 1500" "F 1000 * F 1.15 = F 1150"
  "F 1350 / F 1500 = F 0.9" "F 1035 / F 1150 = F 0.9"
  by code_simp+

theorem criticality_cancels_above_one:
  "map_sum id rb_normalized_risk_score (profile_score (F 1.5))
     = map_sum id rb_normalized_risk_score (profile_score (F 1.15))"
proof -
  have "\<not> F 1500 \<le> 0" and "\<not> F 1150 \<le> 0" by (simp_all add: val_le)
  then show ?thesis
    unfolding profile_score_def score_defined profile_factors weight_max
    using weights_positive by (simp add: default_settings_def profile_products [simplified] del: F_1)
qed

theorem rpn_exceeds_its_maximum:
  "(case profile_score (F 1.5) of Inr b \<Rightarrow> rb_risk_priority_number_max b < rb_risk_priority_number b | Inl _ \<Rightarrow> False)"
  unfolding profile_score_def score_defined profile_factors weight_max
  using weights_positive by (simp add: default_settings_def profile_products [simplified] val_less del: F_1)

end
