(* ===== verification/Sop_Matcher.thy ===== *)
theory Sop_Matcher
  imports Decision_Models
begin

section \<open>SOP retrieval and its offline catalogue\<close>

text \<open>
  \<open>app/decision/sop_matcher.py\<close>: the graph query, the mapper from raw graph rows to SOP
  linkages and steps, the offline catalogue, and \<open>find_sops_for_failure_mode\<close>. The graph is
  a parameter: no service, a read that raises, or a list of rows. Text is UTF-8, as in the source.
\<close>

subsection \<open>The query\<close>

definition sop_lookup_cypher :: str where
  "sop_lookup_cypher =
     ''MATCH (fm:FailureMode {id: $failure_mode_id})-[m:MITIGATED_BY]->(sop:SOP) ''
   @ ''OPTIONAL MATCH (sop)-[:HAS_STEP]->(step:SOPStep) ''
   @ ''OPTIONAL MATCH (sop)-[:REQUIRES_TOOL]->(tool:Tooling) ''
   @ ''OPTIONAL MATCH (step)-[:HAS_HAZARD]->(hazard:SafetyHazard) ''
   @ ''WITH sop, m, step, ''
   @ ''     collect(DISTINCT tool.display_name) AS tools, ''
   @ ''     collect(DISTINCT hazard.hazard_statement) AS hazards, ''
   @ ''     collect(DISTINCT hazard.required_ppe) AS ppe_lists ''
   @ ''RETURN sop {.*} AS sop, m {.*} AS mitigation, step {.*} AS step, ''
   @ ''       tools, hazards, ppe_lists ''
   @ ''ORDER BY coalesce(m.effectiveness, 0.5) DESC, coalesce(step.sequence_number, 0) ASC ''
   @ ''LIMIT $limit''"

definition build_sop_lookup_query :: "str \<Rightarrow> nat \<Rightarrow> str \<times> (str \<times> pyval) list" where
  "build_sop_lookup_query fm max_sops =
     (sop_lookup_cypher, [(''failure_mode_id'', VStr fm), (''limit'', VInt (int max_sops * 25))])"

subsection \<open>From rows to linkages and steps\<close>

fun flatten_entries :: "pyval list \<Rightarrow> str list" where
  "flatten_entries [] = []"
| "flatten_entries (e # es) =
     (case e of VList xs \<Rightarrow> map py_str xs | _ \<Rightarrow> if truthy e then [py_str e] else []) @ flatten_entries es"

definition flatten_ppe :: "pyval \<Rightarrow> str list res" where
  "flatten_ppe ppe_lists =
     bind_res (iterate (py_or ppe_lists (VList []))) (\<lambda>es. Inr (sorted_set (flatten_entries es)))"

record bundle_state =
  bs_linkages :: "(str \<times> sop_linkage) list"
  bs_order :: "str list"
  bs_steps :: "sop_step list"

definition new_linkage :: "pyval \<Rightarrow> pyval \<Rightarrow> pyval \<Rightarrow> sop_linkage res" where
  "new_linkage row sop sop_id =
     bind_res (vget row ''mitigation'' VNone) (\<lambda>m.
     let mitigation = py_or m (VDict []) in
     bind_res (vget sop ''title'' VNone) (\<lambda>t.
     bind_res (vget sop ''display_name'' VNone) (\<lambda>dn.
     let title = py_or t (py_or dn sop_id) in
     bind_res (vget sop ''document_url'' VNone) (\<lambda>url.
     bind_res (vget sop ''revision'' VNone) (\<lambda>rev.
     bind_res (vget mitigation ''effectiveness'' (VFloat (F 0.75))) (\<lambda>e.
     bind_res (to_float (py_or e (VFloat (F 0.75)))) (\<lambda>eff.
     bind_res (as_str sop_id) (\<lambda>i.
     bind_res (as_str title) (\<lambda>ti.
     bind_res (as_opt_str url) (\<lambda>u.
     bind_res (as_opt_str rev) (\<lambda>r.
     mk_sop_linkage i ti u r eff)))))))))))"

definition truthy_strings :: "pyval \<Rightarrow> str list res" where
  "truthy_strings v =
     bind_res (iterate (py_or v (VList []))) (\<lambda>xs. map_res as_str (filter truthy xs))"

definition new_step :: "str \<Rightarrow> str \<Rightarrow> nat \<Rightarrow> pyval \<Rightarrow> pyval \<Rightarrow> sop_step res" where
  "new_step sop_id sop_title n_steps row step =
     bind_res (vget row ''tools'' VNone) (\<lambda>tl.
     bind_res (truthy_strings tl) (\<lambda>tools.
     bind_res (vget row ''hazards'' VNone) (\<lambda>hz.
     bind_res (truthy_strings hz) (\<lambda>hazards.
     bind_res (vget row ''ppe_lists'' VNone) (\<lambda>pl.
     bind_res (flatten_ppe pl) (\<lambda>ppe.
     bind_res (vget step ''sequence_number'' (VInt (int n_steps + 1))) (\<lambda>sq.
     bind_res (to_int sq) (\<lambda>seq.
     bind_res (vget step ''instruction'' (VStr ''Refer to full SOP documentation.'')) (\<lambda>ins.
     bind_res (as_str ins) (\<lambda>instruction.
     bind_res (vget step ''expected_outcome'' VNone) (\<lambda>eo.
     bind_res (as_opt_str eo) (\<lambda>outcome.
     bind_res (vget step ''step_type'' (VStr ''EXECUTION'')) (\<lambda>ty.
     bind_res (vget step ''hold_point'' (VBool False)) (\<lambda>hp.
     mk_sop_step \<lparr>st_sop_id = sop_id, st_sop_title = sop_title, st_sequence_number = seq,
       st_instruction = instruction, st_expected_outcome = outcome, st_step_type = py_str ty,
       st_hold_point = truthy hp, st_tooling_required = tools, st_hazards = hazards,
       st_required_ppe = ppe\<rparr>))))))))))))))"

text \<open>The second half of the loop body, for a row whose SOP has a linkage.\<close>

definition bundle_step_row :: "nat \<Rightarrow> bundle_state \<Rightarrow> pyval \<Rightarrow> str \<Rightarrow> bundle_state res" where
  "bundle_step_row max_sops st row sop_id =
     (if sop_id \<notin> set (take max_sops (bs_order st)) then Inr st
      else bind_res (vget row ''step'' VNone) (\<lambda>step.
        if \<not> truthy step then Inr st
        else (case map_of (bs_linkages st) sop_id of
            None \<Rightarrow> Inl (KeyErr sop_id)
          | Some l \<Rightarrow> bind_res (new_step sop_id (lk_title l) (length (bs_steps st)) row step)
              (\<lambda>s. Inr (st\<lparr>bs_steps := bs_steps st @ [s]\<rparr>)))))"

definition bundle_row :: "nat \<Rightarrow> bundle_state \<Rightarrow> pyval \<Rightarrow> bundle_state res" where
  "bundle_row max_sops st row =
     bind_res (vget row ''sop'' VNone) (\<lambda>s.
     let sop = py_or s (VDict []) in
     bind_res (vget sop ''id'' VNone) (\<lambda>sid.
       if \<not> truthy sid then Inr st
       else (case sid of
          VList _ \<Rightarrow> Inl (TypeErr ''unhashable'')
        | VDict _ \<Rightarrow> Inl (TypeErr ''unhashable'')
        | VStr sop_id \<Rightarrow>
            if map_of (bs_linkages st) sop_id \<noteq> None then bundle_step_row max_sops st row sop_id
            else if max_sops \<le> length (bs_linkages st) then Inr st
            else bind_res (new_linkage row sop sid) (\<lambda>l.
              bundle_step_row max_sops
                (st\<lparr>bs_linkages := AList.update sop_id l (bs_linkages st), bs_order := bs_order st @ [sop_id]\<rparr>)
                row sop_id)
        | _ \<Rightarrow>
            if max_sops \<le> length (bs_linkages st) then Inr st
            else bind_res (new_linkage row sop sid) (\<lambda>_. Inl (ValidationError ''sop_id'')))))"

fun bundle_rows :: "nat \<Rightarrow> bundle_state \<Rightarrow> pyval list \<Rightarrow> bundle_state res" where
  "bundle_rows max_sops st [] = Inr st"
| "bundle_rows max_sops st (row # rows) =
     bind_res (bundle_row max_sops st row) (\<lambda>st'. bundle_rows max_sops st' rows)"

text \<open>\<open>sop_rank\<close>: the position of an SOP in the ranking, its length for an unknown one.\<close>

definition sop_rank :: "sop_linkage list \<Rightarrow> str \<Rightarrow> nat" where
  "sop_rank ls i = dict_default (rev (zip (map lk_sop_id ls) [0..<length ls])) i (length ls)"

definition step_key :: "sop_linkage list \<Rightarrow> sop_step \<Rightarrow> nat \<times> int" where
  "step_key ls s = (sop_rank ls (st_sop_id s), st_sequence_number s)"

definition records_to_sop_bundle :: "pyval list \<Rightarrow> nat \<Rightarrow> (sop_linkage list \<times> sop_step list) res" where
  "records_to_sop_bundle rows max_sops =
     bind_res (bundle_rows max_sops \<lparr>bs_linkages = [], bs_order = [], bs_steps = []\<rparr> rows) (\<lambda>st.
       let ordered = sorted_desc lk_effectiveness (List.map_filter (map_of (bs_linkages st)) (bs_order st))
       in Inr (ordered, sort_key (step_key ordered) (bs_steps st)))"

subsection \<open>The offline catalogue\<close>

definition bearing_linkage :: sop_linkage where
  "bearing_linkage = \<lparr>lk_sop_id = ''sop:SOP-114:REV-C'',
     lk_title = ''SOP-114: Bearing Lubrication & Thermal Overload Response'',
     lk_document_url = Some ''https://docs.internal/sop/SOP-114'', lk_revision = Some ''Rev. C'',
     lk_effectiveness = F 0.82\<rparr>"

definition general_linkage :: sop_linkage where
  "general_linkage = \<lparr>lk_sop_id = ''sop:SOP-200:REV-A'',
     lk_title = ''SOP-200: General Sensor Degradation Diagnostic & Inspection'',
     lk_document_url = Some ''https://docs.internal/sop/SOP-200'', lk_revision = Some ''Rev. A'',
     lk_effectiveness = F 0.65\<rparr>"

definition catalog_step ::
  "sop_linkage \<Rightarrow> int \<Rightarrow> str \<Rightarrow> str \<Rightarrow> str \<Rightarrow> bool \<Rightarrow> str list \<Rightarrow> str list \<Rightarrow> str list \<Rightarrow> sop_step" where
  "catalog_step l n ins out ty hold tools hazards ppe = \<lparr>
     st_sop_id = lk_sop_id l, st_sop_title = lk_title l, st_sequence_number = n,
     st_instruction = ins, st_expected_outcome = Some out, st_step_type = ty, st_hold_point = hold,
     st_tooling_required = tools, st_hazards = hazards, st_required_ppe = ppe\<rparr>"

definition bearing_steps :: "sop_step list" where
  "bearing_steps = [
     catalog_step bearing_linkage 1
       ''Isolate and lockout/tagout the asset drive motor per LOTO procedure.''
       ''Asset confirmed de-energised and mechanically isolated.'' ''SAFETY_CHECK'' True
       [''Lockout/Tagout Kit''] [''Rotating shaft entrapment'', ''Residual thermal energy (hot surfaces)'']
       [''Heat-resistant gloves'', ''Safety glasses''],
     catalog_step bearing_linkage 2
       ''Inspect bearing housing for discoloration, and measure vibration RMS with a handheld analyzer.''
       ''Vibration RMS reading recorded and compared against baseline.'' ''INSPECTION'' False
       [''Vibration Analyzer''] [] [''Safety glasses''],
     catalog_step bearing_linkage 3
       ''Re-lubricate bearing per OEM grease specification; reduce lubrication interval to 14 days.''
       ''Bearing temperature trends back toward baseline within 4 operating hours.'' ''EXECUTION'' False
       [''Grease Gun'', ''OEM Lubricant''] [] [''Nitrile gloves''],
     catalog_step bearing_linkage 4
       ''Return asset to service and verify bearing temperature stabilises below warning threshold.''
       ''Bearing temperature < 75C sustained for 30 minutes.'' ''VERIFICATION'' True
       [''Infrared Thermometer''] [''Rotating shaft entrapment''] [''Safety glasses'']]"

definition general_steps :: "sop_step list" where
  "general_steps = [
     catalog_step general_linkage 1
       ''Cross-check the flagged sensor(s) against redundant instrumentation where available.''
       ''Sensor reading corroborated or identified as faulty instrumentation.'' ''INSPECTION'' False
       [''Handheld Multimeter''] [] [''Safety glasses''],
     catalog_step general_linkage 2
       ''Schedule a diagnostic inspection within the recommended monitoring window.''
       ''Work order created and assigned to a Level 2 maintenance technician.'' ''DOCUMENTATION'' False
       [] [] []]"

definition fallback_catalog :: "(str \<times> (sop_linkage \<times> sop_step list)) list" where
  "fallback_catalog =
     [(''failuremode-bearing-overheat'', (bearing_linkage, bearing_steps)),
      (''failuremode-general'', (general_linkage, general_steps))]"

definition fallback_bundle :: "str option \<Rightarrow> sop_linkage list \<times> sop_step list" where
  "fallback_bundle fm =
     (case dict_default fallback_catalog (case fm of Some i \<Rightarrow> i | None \<Rightarrow> []) (general_linkage, general_steps) of
        (l, steps) \<Rightarrow> ([l], steps))"

subsection \<open>The public operation\<close>

text \<open>
  \<open>None\<close>: no graph service; \<open>Some (Inl e)\<close>: the read raised; \<open>Some (Inr rows)\<close>: rows.
  Every exception of the mapper is caught here as well.
\<close>

type_synonym graph_read = "pyval list res option"

definition find_sops_for_failure_mode ::
  "nat \<Rightarrow> str option \<Rightarrow> graph_read \<Rightarrow> sop_linkage list \<times> sop_step list \<times> bool" where
  "find_sops_for_failure_mode max_sops fm graph =
     (let fallback = (\<lambda>i. case fallback_bundle i of (ls, steps) \<Rightarrow> (ls, steps, False))
      in if \<not> truthy_str fm then fallback None
         else (case graph of
             None \<Rightarrow> fallback fm
           | Some (Inl _) \<Rightarrow> fallback fm
           | Some (Inr []) \<Rightarrow> fallback fm
           | Some (Inr rows) \<Rightarrow> (case records_to_sop_bundle rows max_sops of
                 Inl _ \<Rightarrow> fallback fm
               | Inr (ls, steps) \<Rightarrow> if ls = [] then fallback fm else (ls, steps, True))))"

subsection \<open>The loop invariant\<close>

definition bundle_inv :: "nat \<Rightarrow> bundle_state \<Rightarrow> bool" where
  "bundle_inv m st \<longleftrightarrow>
     bs_order st = map fst (bs_linkages st) \<and> wf_dict (bs_linkages st)
     \<and> length (bs_linkages st) \<le> m
     \<and> (\<forall>(k, l) \<in> set (bs_linkages st). lk_sop_id l = k \<and> 0 \<le> lk_effectiveness l \<and> lk_effectiveness l \<le> 1)
     \<and> (\<forall>s \<in> set (bs_steps st). st_sop_id s \<in> set (bs_order st) \<and> 1 \<le> st_sequence_number s)"

lemma new_linkage_Inr:
  assumes "new_linkage row sop (VStr i) = Inr l"
  shows "lk_sop_id l = i \<and> 0 \<le> lk_effectiveness l \<and> lk_effectiveness l \<le> 1"
  using assms by (auto simp: new_linkage_def bind_res_Inr mk_sop_linkage_def Let_def)

lemma new_step_Inr:
  "new_step i t n row step = Inr s \<Longrightarrow> st_sop_id s = i \<and> 1 \<le> st_sequence_number s"
  by (auto simp: new_step_def bind_res_Inr mk_sop_step_def)

lemma bundle_step_row_inv:
  assumes "bundle_step_row m st row i = Inr st'" and "bundle_inv m st"
  shows "bundle_inv m st'"
  using assms unfolding bundle_step_row_def
  by (auto simp: bind_res_Inr bundle_inv_def split: if_splits option.splits
      dest!: new_step_Inr dest: in_set_takeD intro: key_in_image)

lemma bundle_row_inv:
  assumes "bundle_row m st row = Inr st'" and inv: "bundle_inv m st"
  shows "bundle_inv m st'"
proof -
  consider "st' = st" | i where "bundle_step_row m st row i = Inr st'"
    | i sop l where "map_of (bs_linkages st) i = None" "\<not> m \<le> length (bs_linkages st)"
      "new_linkage row sop (VStr i) = Inr l"
      "bundle_step_row m (st\<lparr>bs_linkages := AList.update i l (bs_linkages st), bs_order := bs_order st @ [i]\<rparr>) row i = Inr st'"
    using assms(1) unfolding bundle_row_def
    by (auto simp: bind_res_Inr Let_def split: if_splits pyval.splits)
  then show ?thesis
  proof cases
    case 1
    with inv show ?thesis by simp
  next
    case 2
    with inv show ?thesis by (blast intro: bundle_step_row_inv)
  next
    case (3 i sop l)
    let ?st = "st\<lparr>bs_linkages := AList.update i l (bs_linkages st), bs_order := bs_order st @ [i]\<rparr>"
    have i: "i \<notin> fst ` set (bs_linkages st)" using 3(1) by (simp add: map_of_eq_None_iff)
    then have upd: "AList.update i l (bs_linkages st) = bs_linkages st @ [(i, l)]" by (rule update_new)
    have "bundle_inv m ?st"
      using inv 3(2) i new_linkage_Inr [OF 3(3)]
      by (auto simp: bundle_inv_def upd wf_dict_def)
    with 3(4) show ?thesis by (rule bundle_step_row_inv)
  qed
qed

lemma bundle_rows_inv: "bundle_rows m st rows = Inr st' \<Longrightarrow> bundle_inv m st \<Longrightarrow> bundle_inv m st'"
  by (induction m st rows rule: bundle_rows.induct) (auto simp: bind_res_Inr intro: bundle_row_inv)


subsection \<open>What a bundle promises\<close>

text \<open>
  An actionable bundle: at least one and at most \<open>n\<close> distinct SOPs in decreasing order of
  effectiveness, and steps that belong to them, by SOP rank and then by sequence number.
\<close>

definition bundle_ok :: "nat \<Rightarrow> sop_linkage list \<Rightarrow> sop_step list \<Rightarrow> bool" where
  "bundle_ok n ls steps \<longleftrightarrow>
     length ls \<le> n \<and> distinct (map lk_sop_id ls)
     \<and> sorted_wrt (\<lambda>a b. lk_effectiveness b \<le> lk_effectiveness a) ls
     \<and> (\<forall>l \<in> set ls. 0 \<le> lk_effectiveness l \<and> lk_effectiveness l \<le> 1)
     \<and> (\<forall>s \<in> set steps. st_sop_id s \<in> lk_sop_id ` set ls \<and> 1 \<le> st_sequence_number s)
     \<and> sorted_wrt (\<lambda>a b. step_key ls a \<le> step_key ls b) steps"

lemma map_filter_lookup:
  "\<forall>(k, v) \<in> set d'. map_of d k = Some v \<Longrightarrow> List.map_filter (map_of d) (map fst d') = map snd d'"
  by (induction d') (auto simp: List.map_filter_def)

lemma ordered_values:
  "bundle_inv m st \<Longrightarrow> List.map_filter (map_of (bs_linkages st)) (bs_order st) = map snd (bs_linkages st)"
  by (auto simp: bundle_inv_def wf_dict_def intro: map_filter_lookup)

lemma linkage_ids: "bundle_inv m st \<Longrightarrow> map lk_sop_id (map snd (bs_linkages st)) = map fst (bs_linkages st)"
  by (auto simp: bundle_inv_def)

lemma bundle_inv_ok:
  assumes inv: "bundle_inv m st"
  defines "ls \<equiv> sorted_desc lk_effectiveness (map snd (bs_linkages st))"
  shows "bundle_ok m ls (sort_key (step_key ls) (bs_steps st))"
proof -
  have ids: "lk_sop_id ` set ls = set (bs_order st)"
    using linkage_ids [OF inv] inv unfolding ls_def bundle_inv_def
    by (metis (no_types, lifting) list.set_map set_sorted_desc)
  have "distinct (map lk_sop_id (map snd (bs_linkages st)))"
    using linkage_ids [OF inv] inv by (simp only: bundle_inv_def wf_dict_def)
  then have "distinct (map lk_sop_id ls)"
    unfolding ls_def by simp
  moreover have "sorted_wrt (\<lambda>a b. step_key ls a \<le> step_key ls b) (sort_key (step_key ls) (bs_steps st))"
    by (metis sorted_map sorted_sort_key)
  ultimately show ?thesis
    using inv ids unfolding bundle_ok_def
    by (auto simp: ls_def bundle_inv_def sorted_desc_sorted)
qed

lemma records_to_sop_bundle_ok:
  assumes "records_to_sop_bundle rows m = Inr (ls, steps)"
  shows "bundle_ok m ls steps"
proof -
  let ?init = "\<lparr>bs_linkages = [], bs_order = [], bs_steps = []\<rparr>"
  obtain st where st: "bundle_rows m ?init rows = Inr st"
    and ls: "ls = sorted_desc lk_effectiveness (List.map_filter (map_of (bs_linkages st)) (bs_order st))"
    and steps: "steps = sort_key (step_key ls) (bs_steps st)"
    using assms by (auto simp: records_to_sop_bundle_def bind_res_Inr Let_def)
  have "bundle_inv m st" using st by (rule bundle_rows_inv) (simp add: bundle_inv_def)
  then show ?thesis unfolding steps ls by (simp add: ordered_values bundle_inv_ok)
qed

lemma catalog_ok: "bundle_ok (max 1 m) [general_linkage] general_steps"
  "bundle_ok (max 1 m) [bearing_linkage] bearing_steps"
proof -
  have e: "0 \<le> F 0.65" "F 0.65 \<le> 1" "0 \<le> F 0.82" "F 0.82 \<le> 1" by code_simp+
  show "bundle_ok (max 1 m) [general_linkage] general_steps"
    "bundle_ok (max 1 m) [bearing_linkage] bearing_steps"
    using e by (simp_all add: bundle_ok_def general_steps_def bearing_steps_def catalog_step_def
        general_linkage_def bearing_linkage_def step_key_def sop_rank_def dict_default_def)
qed

lemma fallback_bundle_ok: "fallback_bundle fm = (ls, steps) \<Longrightarrow> ls \<noteq> [] \<and> bundle_ok (max 1 m) ls steps"
  using catalog_ok [of m]
  by (auto simp: fallback_bundle_def fallback_catalog_def dict_default_def split: if_splits)

lemma find_sops_nonempty: "find_sops_for_failure_mode m fm graph = (ls, steps, used) \<Longrightarrow> ls \<noteq> []"
  by (auto simp: find_sops_for_failure_mode_def fallback_bundle_def Let_def
      split: option.splits sum.splits list.splits prod.splits if_splits)

text \<open>C5. Whatever the graph does (absent, raising, empty or returning malformed rows), the
  lookup returns an actionable bundle: at least one SOP, at most \<open>max_sops\<close> of them (the
  offline catalogue always has one), distinct, best first, and only steps of the returned SOPs in
  procedure order; and it reports a graph-backed result only when the rows were mapped without
  an exception.\<close>

theorem sop_lookup_always_actionable:
  "(case find_sops_for_failure_mode m fm graph of (ls, steps, used) \<Rightarrow>
      ls \<noteq> [] \<and> bundle_ok (max 1 m) ls steps
      \<and> (if used then (\<exists>rows. graph = Some (Inr rows) \<and> rows \<noteq> [] \<and> records_to_sop_bundle rows m = Inr (ls, steps))
         else (ls, steps) = fallback_bundle (if truthy_str fm then fm else None)))"
proof -
  have weaken: "bundle_ok (max 1 m) ls steps" if "bundle_ok m ls steps" for ls steps
    using that by (auto simp: bundle_ok_def)
  obtain fl fs where fb: "fallback_bundle fm = (fl, fs)" by force
  obtain nl ns where nb: "fallback_bundle None = (nl, ns)" by force
  note fb_ok = fallback_bundle_ok [OF fb, of m] and nb_ok = fallback_bundle_ok [OF nb, of m]
  show ?thesis
    unfolding find_sops_for_failure_mode_def Let_def
    using fb_ok nb_ok
    by (auto simp: fb nb simp del: One_nat_def dest: records_to_sop_bundle_ok intro: weaken
        split: option.splits sum.splits list.splits prod.splits if_splits)
qed

text \<open>
  An effectiveness of zero recorded in the graph is falsy, so the mapper replaces it by 0.75: the
  SOP that never helped is ranked above one that helps in seven cases of ten.
\<close>

definition sop_row :: "str \<Rightarrow> float64 \<Rightarrow> pyval" where
  "sop_row i e = VDict [(''sop'', VDict [(''id'', VStr i), (''title'', VStr i)]),
                        (''mitigation'', VDict [(''effectiveness'', VFloat e)])]"

theorem zero_effectiveness_outranks:
  "map_sum id (\<lambda>b. map lk_sop_id (fst b)) (records_to_sop_bundle [sop_row ''good'' (F 0.7), sop_row ''useless'' 0] 3)
     = Inr [''useless'', ''good'']"
proof -
  have order: "F 0.7 \<le> F 0.75" "\<not> F 0.75 \<le> F 0.7" "0 \<le> F 0.7" "F 0.7 \<le> 1" "0 \<le> F 0.75" "F 0.75 \<le> 1" "F 0.7 \<noteq> 0"
    by code_simp+
  then show ?thesis
    by (simp add: records_to_sop_bundle_def sop_row_def bundle_row_def bundle_step_row_def new_linkage_def
        mk_sop_linkage_def py_or_def as_str_def as_opt_str_def sorted_desc_def List.map_filter_def)
qed

end
