(* ===== verification/Decision_Service.thy ===== *)
theory Decision_Service
  imports Rule_Engine Risk_Scorer Sop_Matcher
begin

section \<open>The decision orchestrator\<close>

text \<open>
  \<open>app/decision/decision_service.py\<close>: from a request to a ranked list of recommendations with
  its audit log. The prediction and explanation services, the graph, the clock and the UUID
  source are parameters (the record \<open>decision_env\<close>); each may raise. The text of an exception
  is the argument of its constructor.
\<close>

subsection \<open>The environment\<close>

text \<open>A graph lookup: no service, a read that raises, or a node (\<open>VNone\<close> when absent).\<close>

type_synonym node_read = "pyval res option"

record decision_env =
  de_history_len :: nat
  de_infer :: "inference_request \<Rightarrow> inference_response res"
  de_explain :: "str \<Rightarrow> explanation_response res"
  de_asset_node :: "str \<Rightarrow> node_read"
  de_failure_mode_node :: "str \<Rightarrow> node_read"
  de_sop_rows :: "str option \<Rightarrow> graph_read"
  de_now :: int
  de_uuid :: "nat \<Rightarrow> str"

subsection \<open>Tables\<close>

fun tier_to_priority :: "severity_tier \<Rightarrow> priority_level" where
  "tier_to_priority IMMINENT = CRITICAL"
| "tier_to_priority SCHEDULED = HIGH"
| "tier_to_priority MONITOR = MEDIUM"

fun tier_to_completion_days :: "severity_tier \<Rightarrow> int" where
  "tier_to_completion_days IMMINENT = 1"
| "tier_to_completion_days SCHEDULED = 7"
| "tier_to_completion_days MONITOR = 30"

fun tier_to_action :: "severity_tier \<Rightarrow> action_type" where
  "tier_to_action IMMINENT = ActISOLATE"
| "tier_to_action SCHEDULED = ActREPLACE"
| "tier_to_action MONITOR = ActMONITOR"

definition microseconds_per_day :: int where
  "microseconds_per_day = 86400 * 1000000"

subsection \<open>Assembling the signal\<close>

definition run_inference :: "decision_env \<Rightarrow> recommendation_request \<Rightarrow> inference_response res" where
  "run_inference env rq =
     bind_res (mk_inference_request (rq_asset_id rq) (rq_component_id rq) (de_history_len env)
                 (max (rq_risk_horizon_days rq * 24) 24)) (de_infer env)"

definition apply_inference :: "inference_response \<Rightarrow> prediction_signal \<Rightarrow> prediction_signal" where
  "apply_inference i s =
     (let flags = filter af_is_anomalous (if_anomaly_flags i)
      in s\<lparr>ps_component_id := or_str (ps_component_id s) (if_component_id i),
           ps_rul_days := if_rul_days i,
           ps_failure_probability := if_probability i,
           ps_failure_mode_id := if_failure_mode_id i,
           ps_failure_mode_label := if_failure_mode_label i,
           ps_anomalous_sensors := if_anomalous_sensors i,
           ps_is_anomalous := (flags \<noteq> []),
           ps_anomaly_score :=
             (case flags of
                f # fs \<Rightarrow> foldl min (af_anomaly_score f) (map af_anomaly_score fs)
              | [] \<Rightarrow> (case if_anomaly_flags i of f # _ \<Rightarrow> af_anomaly_score f | [] \<Rightarrow> ps_anomaly_score s))\<rparr>)"

definition apply_default_prediction :: "settings \<Rightarrow> prediction_signal \<Rightarrow> prediction_signal" where
  "apply_default_prediction g s =
     s\<lparr>ps_rul_days := scheduled_rul_days g * F 1.5, ps_failure_probability := F 0.2\<rparr>"

definition apply_explanation :: "explanation_response \<Rightarrow> prediction_signal \<Rightarrow> prediction_signal" where
  "apply_explanation e s =
     (let top = sort_key fi_rank (ex_local_feature_importance e);
          s1 = s\<lparr>ps_top_root_cause_sensors := map fi_feature_name (take 5 top),
                 ps_root_cause_headline := Some (ex_headline e),
                 ps_explanation_confidence := (case ex_confidences e of c # _ \<Rightarrow> c | [] \<Rightarrow> F 0.9),
                 ps_explanation_id := Some (ex_explanation_id e)\<rparr>
      in if \<not> truthy_str (ps_failure_mode_id s1)
         then (case ex_contributing_failure_modes e of
                 m # _ \<Rightarrow> s1\<lparr>ps_failure_mode_id := Some m\<rparr> | [] \<Rightarrow> s1)
         else s1)"

definition inference_degradation :: "inference_response res \<Rightarrow> str list" where
  "inference_degradation r = (case r of
       Inr _ \<Rightarrow> []
     | Inl (ServiceUnavailable t) \<Rightarrow> [''prediction_service_unavailable: '' @ t]
     | Inl e \<Rightarrow> [''prediction_service_error: '' @ err_text e])"

definition build_prediction_signal ::
  "settings \<Rightarrow> decision_env \<Rightarrow> recommendation_request \<Rightarrow> prediction_signal \<times> str list" where
  "build_prediction_signal g env rq =
     (let inference = run_inference env rq;
          explanation = de_explain env (rq_asset_id rq);
          degraded = inference_degradation inference
            @ (case explanation of Inl e \<Rightarrow> [''xai_service_error: '' @ err_text e] | Inr _ \<Rightarrow> []);
          s0 = new_signal (rq_asset_id rq) (rq_component_id rq);
          s1 = (case inference of Inr i \<Rightarrow> apply_inference i s0 | Inl _ \<Rightarrow> apply_default_prediction g s0);
          degraded = degraded @ (case inference of Inr _ \<Rightarrow> []
            | Inl _ \<Rightarrow> [''using_conservative_default_prediction_signal'']);
          s2 = (case explanation of Inr e \<Rightarrow> apply_explanation e s1 | Inl _ \<Rightarrow> s1)
      in (s2, degraded))"

subsection \<open>Graph enrichment\<close>

definition lookup_asset_criticality :: "node_read \<Rightarrow> str" where
  "lookup_asset_criticality rd = (case rd of
       Some (Inr node) \<Rightarrow>
         (if truthy node then (case vget node ''criticality'' VNone of
              Inr c \<Rightarrow> if truthy c then py_upper (py_str c) else ''B''
            | Inl _ \<Rightarrow> ''B'')
          else ''B'')
     | _ \<Rightarrow> ''B'')"

definition lookup_failure_mode_ontology :: "str option \<Rightarrow> (str \<Rightarrow> node_read) \<Rightarrow> str option \<times> float64 option" where
  "lookup_failure_mode_ontology fm rd =
     (if \<not> truthy_str fm then (None, None)
      else (case rd (the fm) of
          Some (Inr node) \<Rightarrow>
            (if \<not> truthy node then (None, None)
             else (case bind_res (vget node ''severity_tier'' VNone) (\<lambda>t.
                        bind_res (vget node ''risk_priority_number'' VNone) (\<lambda>h.
                        bind_res (if h = VNone then Inr None else map_sum id Some (to_float h)) (\<lambda>hint.
                        Inr (if truthy t then Some (py_str t) else None, hint)))) of
                 Inr r \<Rightarrow> r
               | Inl _ \<Rightarrow> (None, None)))
        | _ \<Rightarrow> (None, None)))"

subsection \<open>The payload\<close>

text \<open>The dash of the sentence is U+2014, three bytes in UTF-8.\<close>

definition em_dash :: str where
  "em_dash = [CHR 0xE2, CHR 0x80, CHR 0x94]"

fun tier_phrase :: "severity_tier \<Rightarrow> str" where
  "tier_phrase IMMINENT = ''Immediate action required''"
| "tier_phrase SCHEDULED = ''Schedule maintenance''"
| "tier_phrase MONITOR = ''Continue monitoring''"

definition describe_action :: "prediction_signal \<Rightarrow> severity_classification \<Rightarrow> str option \<Rightarrow> str" where
  "describe_action s c sop_title =
     (let top = take 2 (ps_top_root_cause_sensors s);
          joined = join '', '' (if top \<noteq> [] then top else take 2 (ps_anomalous_sensors s));
          sensors = (if joined \<noteq> [] then joined else ''monitored channels'');
          sop_phrase = (if truthy_str sop_title then '' per '' @ the sop_title else [])
      in tier_phrase (sc_tier c) @ '' on asset '' @ [CHR 0x27] @ ps_asset_id s @ [CHR 0x27] @ '' '' @ em_dash
         @ '' root cause implicates '' @ sensors @ '' (RUL '' @ fmt_fixed 1 (ps_rul_days s)
         @ ''d, P(failure)='' @ fmt_fixed 2 (ps_failure_probability s) @ '')'' @ sop_phrase @ ''.'')"

definition decay :: "nat \<Rightarrow> float64" where
  "decay idx = F 1 - F 0.05 * of_int64 (int idx - 1)"

definition ranked_recommendation ::
  "decision_env \<Rightarrow> prediction_signal \<Rightarrow> severity_classification \<Rightarrow> risk_breakdown \<Rightarrow> cost_estimate
   \<Rightarrow> nat \<Rightarrow> sop_linkage \<Rightarrow> recommendation res" where
  "ranked_recommendation env s c rb ce idx sop =
     mk_recommendation \<lparr>
       rc_action_id = de_uuid env (idx - 1),
       rc_action_type = tier_to_action (sc_tier c),
       rc_description = describe_action s c (Some (lk_title sop)),
       rc_priority = tier_to_priority (sc_tier c),
       rc_risk_score_if_ignored = py_round (max (rb_normalized_risk_score rb * decay idx) (F 0)) 4,
       rc_cost_avoidance_usd = py_round (max (ce_avoidance ce * decay idx) (F 0)) 2,
       rc_completion_by = de_now env + tier_to_completion_days (sc_tier c) * microseconds_per_day,
       rc_sop_linkage = Some sop,
       rc_supporting_explanation_id = ps_explanation_id s,
       rc_severity_tier = sc_tier c,
       rc_rank = idx\<rparr>"

fun ranked_recommendations ::
  "decision_env \<Rightarrow> prediction_signal \<Rightarrow> severity_classification \<Rightarrow> risk_breakdown \<Rightarrow> cost_estimate
   \<Rightarrow> nat \<Rightarrow> sop_linkage list \<Rightarrow> recommendation list res" where
  "ranked_recommendations env s c rb ce idx [] = Inr []"
| "ranked_recommendations env s c rb ce idx (sop # sops) =
     bind_res (ranked_recommendation env s c rb ce idx sop) (\<lambda>r.
     bind_res (ranked_recommendations env s c rb ce (Suc idx) sops) (\<lambda>rs. Inr (r # rs)))"

definition build_recommendations ::
  "decision_env \<Rightarrow> recommendation_request \<Rightarrow> prediction_signal \<Rightarrow> severity_classification \<Rightarrow> risk_breakdown
   \<Rightarrow> cost_estimate \<Rightarrow> sop_linkage list \<Rightarrow> recommendation list res" where
  "build_recommendations env rq s c rb ce sops =
     (let max_n = min (rq_max_recommendations rq) (max (length sops) 1)
      in if sops = [] then
           bind_res (mk_recommendation \<lparr>
             rc_action_id = de_uuid env 0,
             rc_action_type = tier_to_action (sc_tier c),
             rc_description = describe_action s c None,
             rc_priority = tier_to_priority (sc_tier c),
             rc_risk_score_if_ignored = rb_normalized_risk_score rb,
             rc_cost_avoidance_usd = ce_avoidance ce,
             rc_completion_by = de_now env + tier_to_completion_days (sc_tier c) * microseconds_per_day,
             rc_sop_linkage = None,
             rc_supporting_explanation_id = ps_explanation_id s,
             rc_severity_tier = sc_tier c,
             rc_rank = 1\<rparr>) (\<lambda>r. Inr [r])
         else ranked_recommendations env s c rb ce 1 (take max_n (sorted_desc lk_effectiveness sops)))"

definition log_rationale ::
  "prediction_signal \<Rightarrow> severity_classification \<Rightarrow> risk_breakdown \<Rightarrow> float64 \<Rightarrow> bool \<Rightarrow> str list \<Rightarrow> str" where
  "log_rationale s c rb w used_graph degraded =
     ''Classified as '' @ tier_value (sc_tier c)
     @ '' (escalation_score='' @ fmt_fixed 3 (sc_escalation_score c) @ '') from RUL=''
     @ fmt_fixed 2 (ps_rul_days s) @ ''d, P(failure)='' @ fmt_fixed 3 (ps_failure_probability s)
     @ '', anomaly_intensity='' @ fmt_fixed 3 (anomaly_intensity s)
     @ '', asset_criticality_tier='' @ ps_asset_criticality_tier s
     @ '' (weight='' @ fmt_fixed 2 w @ ''). Risk Priority Number=''
     @ fmt_fixed 1 (rb_risk_priority_number rb) @ ''/'' @ fmt_fixed 0 (rb_risk_priority_number_max rb)
     @ '' (normalized='' @ fmt_fixed 3 (rb_normalized_risk_score rb) @ '').''
     @ (if degraded \<noteq> [] then '' Degraded inputs: '' @ join ''; '' degraded @ ''.'' else [])
     @ (if \<not> used_graph then '' SOP guidance sourced from offline fallback catalogue (graph unreachable or unmatched).'' else [])"

fun opt_str_val :: "str option \<Rightarrow> pyval" where
  "opt_str_val None = VNone"
| "opt_str_val (Some s) = VStr s"

definition build_decision_log_entry ::
  "str \<Rightarrow> recommendation_request \<Rightarrow> prediction_signal \<Rightarrow> severity_classification \<Rightarrow> risk_breakdown
   \<Rightarrow> cost_estimate \<Rightarrow> float64 \<Rightarrow> bool \<Rightarrow> str list \<Rightarrow> decision_log_entry" where
  "build_decision_log_entry uid rq s c rb ce w used_graph degraded = \<lparr>
     dl_decision_id = uid,
     dl_asset_id = rq_asset_id rq,
     dl_component_id = or_str (rq_component_id rq) (ps_component_id s),
     dl_failure_mode_id = ps_failure_mode_id s,
     dl_inputs = [
       (''rul_days'', VFloat (ps_rul_days s)),
       (''failure_probability'', VFloat (ps_failure_probability s)),
       (''is_anomalous'', VBool (ps_is_anomalous s)),
       (''anomaly_score'', VFloat (ps_anomaly_score s)),
       (''anomaly_intensity'', VFloat (anomaly_intensity s)),
       (''anomalous_sensors'', VList (map VStr (ps_anomalous_sensors s))),
       (''top_root_cause_sensors'', VList (map VStr (ps_top_root_cause_sensors s))),
       (''asset_criticality_tier'', VStr (ps_asset_criticality_tier s)),
       (''failure_mode_severity_tier'', opt_str_val (ps_failure_mode_severity_tier s)),
       (''risk_horizon_days'', VInt (rq_risk_horizon_days rq)),
       (''used_graph_sops'', VBool used_graph),
       (''degraded_reasons'', VList (map VStr degraded))],
     dl_triggered_rules = sc_triggered_rules c,
     dl_risk_breakdown = rb,
     dl_cost_estimate = ce,
     dl_weights_applied = [
       (''criticality_weight'', w),
       (''escalation_score'', sc_escalation_score c),
       (''explanation_confidence'', ps_explanation_confidence s)],
     dl_rationale = log_rationale s c rb w used_graph degraded\<rparr>"

subsection \<open>The pipeline\<close>

definition enriched_signal :: "settings \<Rightarrow> decision_env \<Rightarrow> recommendation_request \<Rightarrow> prediction_signal \<times> float64 option \<times> str list" where
  "enriched_signal g env rq =
     (case build_prediction_signal g env rq of (s, degraded) \<Rightarrow>
        let s1 = s\<lparr>ps_asset_criticality_tier := lookup_asset_criticality (de_asset_node env (rq_asset_id rq))\<rparr>
        in (case lookup_failure_mode_ontology (ps_failure_mode_id s1) (de_failure_mode_node env) of
              (tier, hint) \<Rightarrow> (s1\<lparr>ps_failure_mode_severity_tier := tier\<rparr>, hint, degraded)))"

definition recommend ::
  "settings \<Rightarrow> nat \<Rightarrow> decision_env \<Rightarrow> recommendation_request \<Rightarrow> recommendation_response res" where
  "recommend g max_sops env rq =
     (case enriched_signal g env rq of (s, hint, degraded) \<Rightarrow>
      let c = classify_severity g s;
          w = asset_criticality_weight g (Some (ps_asset_criticality_tier s)) in
      bind_res (score g (ps_failure_probability s) (ps_failure_mode_severity_tier s) hint (anomaly_intensity s) w) (\<lambda>rb.
      bind_res (estimate_cost g (rb_normalized_risk_score rb) None None None) (\<lambda>ce.
      case find_sops_for_failure_mode max_sops (ps_failure_mode_id s) (de_sop_rows env (ps_failure_mode_id s)) of
        (sops, steps, used_graph) \<Rightarrow>
      bind_res (build_recommendations env rq s c rb ce sops) (\<lambda>recs.
      let entry = build_decision_log_entry (de_uuid env (length recs)) rq s c rb ce w used_graph degraded;
          overall = (case map rc_risk_score_if_ignored recs of
              r # rs \<Rightarrow> foldl max r rs | [] \<Rightarrow> rb_normalized_risk_score rb)
      in mk_recommendation_response \<lparr>
           rs_asset_id = rq_asset_id rq,
           rs_component_id = or_str (rq_component_id rq) (ps_component_id s),
           rs_recommendations = recs,
           rs_sop_steps = steps,
           rs_decision_log = [entry],
           rs_overall_risk_score = py_round overall 4\<rparr>))))"


subsection \<open>The pipeline never fails\<close>

definition settings_ok :: "settings \<Rightarrow> bool" where
  "settings_ok g \<longleftrightarrow> 0 < py_round (max (default_criticality_weight g) (F 0)) 4 \<and> cost_inputs_ok g None None"

lemma table_weight_ok:
  "0 < py_round (max (F 1.5) (F 0)) 4" "0 < py_round (max (F 1.15) (F 0)) 4" "0 < py_round (max (F 0.85) (F 0)) 4"
  by code_simp+

lemma weight_ok: "settings_ok g \<Longrightarrow> 0 < py_round (max (asset_criticality_weight g t) (F 0)) 4"
  using table_weight_ok
  by (auto simp: settings_ok_def asset_criticality_weight_def dict_default_def criticality_weights_def
      simp del: F_0 split: option.splits)

lemma decay_antimono: "i \<le> j \<Longrightarrow> decay j \<le> decay i"
  unfolding decay_def of_int64_def
  by (intro f64_diff_mono f64_mult_left_mono F_mono F_nonneg order_refl) simp_all

lemma decay_first: "decay 1 = 1"
  by (simp add: decay_def of_int64_def val_inject_iff)

lemma decay_le_1: "1 \<le> i \<Longrightarrow> decay i \<le> 1"
  using decay_antimono [of 1 i] unfolding decay_first .

definition rank_value :: "float64 \<Rightarrow> nat \<Rightarrow> float64" where
  "rank_value x i = py_round (max (x * decay i) (F 0)) 4"

lemma rank_value_antimono:
  assumes "0 \<le> x" and "i \<le> j"
  shows "rank_value x j \<le> rank_value x i"
proof -
  have "x * decay j \<le> x * decay i"
    using decay_antimono [OF assms(2)] assms(1) by (rule f64_mult_left_mono)
  then show ?thesis unfolding rank_value_def by (intro py_round_mono max.mono) auto
qed

lemma rank_value_range:
  assumes "0 \<le> x" "x \<le> 1" "1 \<le> i"
  shows "0 \<le> rank_value x i" "rank_value x i \<le> 1"
proof -
  have "x * decay i \<le> x * 1" using decay_le_1 [OF assms(3)] assms(1) by (rule f64_mult_left_mono)
  then have "max (x * decay i) (F 0) \<le> 1" using assms(2) by simp
  then show "0 \<le> rank_value x i" "rank_value x i \<le> 1"
    unfolding rank_value_def by (intro py_round_nonneg py_round_le_1; simp)+
qed

lemma clamped_nonneg: "0 \<le> py_round (max x (F 0)) n"
  by (rule py_round_nonneg) simp

lemma ranked_recommendation_ok:
  assumes "0 \<le> rb_normalized_risk_score rb" "rb_normalized_risk_score rb \<le> 1" "1 \<le> i"
  obtains r where "ranked_recommendation env s c rb ce i sop = Inr r"
    "rc_rank r = i" "rc_risk_score_if_ignored r = rank_value (rb_normalized_risk_score rb) i"
    "rc_severity_tier r = sc_tier c" "rc_priority r = tier_to_priority (sc_tier c)"
    "rc_action_type r = tier_to_action (sc_tier c)" "rc_sop_linkage r = Some sop"
  using that rank_value_range [OF assms] assms(3)
    clamped_nonneg [of "ce_avoidance ce * decay i" 2]
  by (simp add: ranked_recommendation_def mk_recommendation_def rank_value_def del: F_0)

definition ranked_ok :: "severity_tier \<Rightarrow> float64 \<Rightarrow> nat \<Rightarrow> sop_linkage list \<Rightarrow> recommendation list \<Rightarrow> bool" where
  "ranked_ok t x i sops rs \<longleftrightarrow>
     map rc_rank rs = [i..<i + length sops]
     \<and> map rc_risk_score_if_ignored rs = map (rank_value x) [i..<i + length sops]
     \<and> map rc_sop_linkage rs = map Some sops
     \<and> list_all (\<lambda>r. rc_severity_tier r = t \<and> rc_priority r = tier_to_priority t \<and> rc_action_type r = tier_to_action t) rs"

lemma ranked_recommendations_ok:
  assumes "0 \<le> rb_normalized_risk_score rb" "rb_normalized_risk_score rb \<le> 1" "1 \<le> i"
  shows "\<exists>rs. ranked_recommendations env s c rb ce i sops = Inr rs
           \<and> ranked_ok (sc_tier c) (rb_normalized_risk_score rb) i sops rs"
  using assms(3)
proof (induction sops arbitrary: i)
  case Nil
  show ?case by (simp add: ranked_ok_def)
next
  case (Cons sop sops)
  obtain r where r: "ranked_recommendation env s c rb ce i sop = Inr r"
    "rc_rank r = i" "rc_risk_score_if_ignored r = rank_value (rb_normalized_risk_score rb) i"
    "rc_severity_tier r = sc_tier c" "rc_priority r = tier_to_priority (sc_tier c)"
    "rc_action_type r = tier_to_action (sc_tier c)" "rc_sop_linkage r = Some sop"
    using ranked_recommendation_ok [OF assms(1,2) Cons.prems] by blast
  obtain rs where "ranked_recommendations env s c rb ce (Suc i) sops = Inr rs"
    "ranked_ok (sc_tier c) (rb_normalized_risk_score rb) (Suc i) sops rs"
    using Cons.IH [of "Suc i"] by auto
  then show ?case using r by (auto simp: ranked_ok_def upt_rec [of i])
qed

lemma build_recommendations_ok:
  fixes rq :: recommendation_request
  assumes "0 \<le> rb_normalized_risk_score rb" "rb_normalized_risk_score rb \<le> 1" "sops \<noteq> []"
  defines "chosen \<equiv> take (min (rq_max_recommendations rq) (max (length sops) 1)) (sorted_desc lk_effectiveness sops)"
  shows "\<exists>rs. build_recommendations env rq s c rb ce sops = Inr rs
           \<and> ranked_ok (sc_tier c) (rb_normalized_risk_score rb) 1 chosen rs"
  using ranked_recommendations_ok [OF assms(1,2), of 1 env s c ce chosen] assms(3)
  by (simp add: build_recommendations_def Let_def chosen_def)

lemma foldl_max_range:
  fixes x :: float64
  assumes "lo \<le> x" "x \<le> hi" "\<forall>y \<in> set ys. y \<le> hi"
  shows "lo \<le> foldl max x ys \<and> foldl max x ys \<le> hi"
  using assms by (induction ys arbitrary: x) (auto simp: max.coboundedI1)

lemma map_Some_ne_None:
  assumes "map f xs = map Some ys"
  shows "\<forall>x \<in> set xs. f x \<noteq> None"
proof
  fix x assume "x \<in> set xs"
  then have "f x \<in> set (map Some ys)" unfolding assms [symmetric] by simp
  then show "f x \<noteq> None" by auto
qed

lemma rank_values_sorted:
  assumes "0 \<le> x"
  shows "sorted_wrt (\<lambda>a b. b \<le> a) (map (rank_value x) [i..<j])"
  unfolding sorted_wrt_map by (rule sorted_wrt_mono_rel [OF _ sorted_wrt_upt])
    (use rank_value_antimono [OF assms] in auto)

lemma mk_response_ok:
  "0 \<le> rs_overall_risk_score r \<Longrightarrow> rs_overall_risk_score r \<le> 1 \<Longrightarrow> mk_recommendation_response r = Inr r"
  by (simp add: mk_recommendation_response_def)

lemma recommend_outcome:
  assumes "enriched_signal g env rq = (s, hint, degraded)"
    and "score g (ps_failure_probability s) (ps_failure_mode_severity_tier s) hint (anomaly_intensity s)
           (asset_criticality_weight g (Some (ps_asset_criticality_tier s))) = Inr rb"
    and "estimate_cost g (rb_normalized_risk_score rb) None None None = Inr ce"
    and "find_sops_for_failure_mode m (ps_failure_mode_id s) (de_sop_rows env (ps_failure_mode_id s)) = (sops, steps, used)"
    and "build_recommendations env rq s (classify_severity g s) rb ce sops = Inr recs"
    and "(case map rc_risk_score_if_ignored recs of
           r # rs \<Rightarrow> foldl max r rs | [] \<Rightarrow> rb_normalized_risk_score rb) = hi"
    and "0 \<le> py_round hi 4 \<and> py_round hi 4 \<le> 1"
  obtains r where "recommend g m env rq = Inr r" "rs_recommendations r = recs"
    "rs_overall_risk_score r = py_round hi 4" "length (rs_decision_log r) = 1"
proof -
  have "\<exists>r. recommend g m env rq = Inr r \<and> rs_recommendations r = recs
      \<and> rs_overall_risk_score r = py_round hi 4 \<and> length (rs_decision_log r) = 1"
    by (simp add: recommend_def assms(1-6) Let_def assms(7) mk_response_ok)
  then show thesis using that by blast
qed

text \<open>C6. The pipeline is total: under settings whose costs are not negative and whose default
  criticality weight is positive when rounded to four decimals, whatever the predictor, the explainer and
  the graph answer or raise, a request for at least one recommendation gets a response (never an exception) with
  between one and the requested number of recommendations, ranked 1, 2, ... with non-increasing
  risk, all carrying the tier the classifier assigned and the priority and action of that tier,
  each linked to an SOP; the overall risk lies in the unit interval and the log has one entry.\<close>

theorem recommend_total:
  fixes env :: decision_env and rq :: recommendation_request
  assumes "settings_ok g" and "1 \<le> rq_max_recommendations rq"
  defines "t \<equiv> sc_tier (classify_severity g (fst (enriched_signal g env rq)))"
  shows "\<exists>r. recommend g m env rq = Inr r
     \<and> 1 \<le> length (rs_recommendations r) \<and> length (rs_recommendations r) \<le> rq_max_recommendations rq
     \<and> map rc_rank (rs_recommendations r) = [1..<Suc (length (rs_recommendations r))]
     \<and> sorted_wrt (\<lambda>a b. b \<le> a) (map rc_risk_score_if_ignored (rs_recommendations r))
     \<and> (\<forall>a \<in> set (rs_recommendations r). rc_severity_tier a = t \<and> rc_priority a = tier_to_priority t
          \<and> rc_action_type a = tier_to_action t \<and> rc_sop_linkage a \<noteq> None)
     \<and> 0 \<le> rs_overall_risk_score r \<and> rs_overall_risk_score r \<le> 1 \<and> length (rs_decision_log r) = 1"
proof -
  obtain s hint degraded where sig: "enriched_signal g env rq = (s, hint, degraded)"
    by (cases "enriched_signal g env rq") auto
  let ?c = "classify_severity g s"
  let ?w = "asset_criticality_weight g (Some (ps_asset_criticality_tier s))"
  obtain rb where rb: "score g (ps_failure_probability s) (ps_failure_mode_severity_tier s) hint (anomaly_intensity s) ?w = Inr rb"
    "rb_normalized_risk_score rb \<le> 1" "0 \<le> rb_normalized_risk_score rb"
    using score_ok [OF weight_ok [OF assms(1)]] by blast
  obtain ce where ce: "estimate_cost g (rb_normalized_risk_score rb) None None None = Inr ce"
    using estimate_cost_ok [of g _ None] assms(1) unfolding settings_ok_def by blast
  obtain sops steps used where sops: "find_sops_for_failure_mode m (ps_failure_mode_id s)
      (de_sop_rows env (ps_failure_mode_id s)) = (sops, steps, used)"
    using prod_cases3 by blast
  then have ne: "sops \<noteq> []" by (rule find_sops_nonempty)
  let ?chosen = "take (min (rq_max_recommendations rq) (max (length sops) 1)) (sorted_desc lk_effectiveness sops)"
  obtain recs where recs: "build_recommendations env rq s ?c rb ce sops = Inr recs"
    "ranked_ok (sc_tier ?c) (rb_normalized_risk_score rb) 1 ?chosen recs"
    using build_recommendations_ok [OF rb(3,2) ne] by blast
  have n: "length recs = length ?chosen"
    using recs(2) by (auto simp: ranked_ok_def dest: map_eq_imp_length_eq)
  have pos: "1 \<le> length ?chosen" and le: "length ?chosen \<le> rq_max_recommendations rq"
    using ne assms(2) by (auto simp: Suc_le_eq)
  define vs where "vs = map rc_risk_score_if_ignored recs"
  have vs: "vs = map (rank_value (rb_normalized_risk_score rb)) [1..<1 + length ?chosen]"
    using recs(2) by (simp add: ranked_ok_def vs_def)
  then have range: "\<forall>v \<in> set vs. 0 \<le> v \<and> v \<le> 1"
    using rank_value_range [OF rb(3,2)] by auto
  obtain v vs' where v: "vs = v # vs'" using n pos vs_def by (cases vs) auto
  have overall: "0 \<le> py_round (foldl max v vs') 4 \<and> py_round (foldl max v vs') 4 \<le> 1"
    using foldl_max_range [of 0 v 1 vs'] range v by (auto intro: py_round_nonneg py_round_le_1)
  have overall': "(case map rc_risk_score_if_ignored recs of
      r # rs \<Rightarrow> foldl max r rs | [] \<Rightarrow> rb_normalized_risk_score rb) = foldl max v vs'"
    using v unfolding vs_def by (simp only: list.case)
  obtain r where r: "recommend g m env rq = Inr r" "rs_recommendations r = recs"
    "rs_overall_risk_score r = py_round (foldl max v vs') 4" "length (rs_decision_log r) = 1"
    by (rule recommend_outcome [OF sig rb(1) ce sops recs(1) overall' overall])
  have tier: "t = sc_tier ?c" by (simp add: t_def sig)
  have sorted: "sorted_wrt (\<lambda>a b. b \<le> a) (map rc_risk_score_if_ignored recs)"
    unfolding vs_def [symmetric] unfolding vs using rb(3) by (rule rank_values_sorted)
  have linked: "\<forall>a \<in> set recs. rc_sop_linkage a \<noteq> None"
    using recs(2) unfolding ranked_ok_def by (elim conjE) (rule map_Some_ne_None)
  have ranks: "map rc_rank recs = [1..<Suc (length recs)]"
    using recs(2) n by (simp add: ranked_ok_def)
  have uniform: "\<forall>a \<in> set recs. rc_severity_tier a = t \<and> rc_priority a = tier_to_priority t
      \<and> rc_action_type a = tier_to_action t"
    using recs(2) by (simp add: ranked_ok_def list_all_iff tier)
  from linked uniform have "\<forall>a \<in> set recs. rc_severity_tier a = t \<and> rc_priority a = tier_to_priority t
      \<and> rc_action_type a = tier_to_action t \<and> rc_sop_linkage a \<noteq> None" by blast
  then show ?thesis
    using r(1,4) pos [folded n] le [folded n] overall sorted ranks unfolding r(2) [symmetric] r(3) [symmetric]
    by blast
qed

lemma default_settings_ok: "settings_ok default_settings"
  by code_simp

definition idle_env :: decision_env where
  "idle_env = \<lparr>de_history_len = 0, de_infer = \<lambda>_. Inl (RuntimeErr ''no model''),
     de_explain = \<lambda>_. Inl (ServiceUnavailable ''no explainer''),
     de_asset_node = \<lambda>_. None, de_failure_mode_node = \<lambda>_. None, de_sop_rows = \<lambda>_. None,
     de_now = 0, de_uuid = \<lambda>_. []\<rparr>"

definition pump_request :: "int \<Rightarrow> recommendation_request" where
  "pump_request days = \<lparr>rq_asset_id = ''PUMP-1'', rq_component_id = None, rq_risk_horizon_days = days,
     rq_max_recommendations = 2\<rparr>"

theorem recommend_total_witness:
  "\<exists>r. recommend default_settings 5 idle_env (pump_request 30) = Inr r \<and> 1 \<le> length (rs_recommendations r)"
proof -
  have "1 \<le> rq_max_recommendations (pump_request 30)" by (simp add: pump_request_def)
  from recommend_total [OF default_settings_ok this] show ?thesis by blast
qed

subsection \<open>The prediction horizon\<close>

text \<open>A request for a horizon of at most 90 days reaches the predictor with that horizon in
  hours. The schema also admits horizons of 91 to 365 days; for those the inference request is
  rejected before the predictor is called, and the signal is built from the conservative defaults
  whatever the predictor would have answered.\<close>

theorem prediction_horizon:
  fixes env :: decision_env and rq :: recommendation_request
  assumes "rq_asset_id rq \<noteq> []" and "1 \<le> de_history_len env" and "1 \<le> rq_risk_horizon_days rq"
  shows "if rq_risk_horizon_days rq \<le> 90
     then run_inference env rq = de_infer env \<lparr>ir_asset_id = rq_asset_id rq, ir_component_id = rq_component_id rq,
            ir_history_len = de_history_len env, ir_horizon_hours = 24 * rq_risk_horizon_days rq\<rparr>
     else ps_rul_days (fst (build_prediction_signal g env rq)) = scheduled_rul_days g * F 1.5
        \<and> ps_failure_probability (fst (build_prediction_signal g env rq)) = F 0.2
        \<and> ''prediction_service_error: horizon_hours'' \<in> set (snd (build_prediction_signal g env rq))
        \<and> ''using_conservative_default_prediction_signal'' \<in> set (snd (build_prediction_signal g env rq))"
proof (cases "rq_risk_horizon_days rq \<le> 90")
  case True
  then show ?thesis using assms
    by (simp add: run_inference_def mk_inference_request_def max_def algebra_simps)
next
  case False
  then have "run_inference env rq = Inl (ValidationError ''horizon_hours'')"
    using assms by (simp add: run_inference_def mk_inference_request_def)
  then show ?thesis using False
    by (simp add: build_prediction_signal_def apply_default_prediction_def apply_explanation_def
        inference_degradation_def Let_def split: sum.splits list.splits)
qed

definition healthy_env :: decision_env where
  "healthy_env = idle_env\<lparr>de_history_len := 24,
     de_infer := \<lambda>rq. Inr \<lparr>if_component_id = None, if_rul_days = F 3, if_probability = F 0.9,
       if_failure_mode_id = None, if_failure_mode_label = None, if_anomaly_flags = [],
       if_anomalous_sensors = [], if_explanation_id = None\<rparr>\<rparr>"

theorem prediction_horizon_witness:
  "run_inference healthy_env (pump_request 90) = de_infer healthy_env \<lparr>ir_asset_id = ''PUMP-1'',
     ir_component_id = None, ir_history_len = 24, ir_horizon_hours = 2160\<rparr>
   \<and> ps_failure_probability (fst (build_prediction_signal default_settings healthy_env (pump_request 120))) = F 0.2"
  using prediction_horizon [of "pump_request 90" healthy_env default_settings]
    prediction_horizon [of "pump_request 120" healthy_env default_settings]
  by (simp add: pump_request_def healthy_env_def idle_env_def)

end
