(* ===== verification/Graphrag_Models.thy ===== *)
theory Graphrag_Models
  imports PyVal
begin

section \<open>The GraphRAG contracts\<close>

text \<open>
  \<open>app/models/graphrag.py\<close>: the public chunk, node, edge, citation and response models, and the
  internal graph context. Latencies and time stamps are left out.
\<close>

record context_chunk =
  ck_chunk_id :: str
  ck_text :: str
  ck_score :: float64
  ck_document_type :: str
  ck_source :: "str option"

record rag_node =
  rn_id :: str
  rn_label :: str
  rn_type :: str
  rn_properties :: "(str \<times> pyval) list"

record rag_edge =
  re_source :: str
  re_target :: str
  re_relationship :: str
  re_weight :: float64

record citation =
  ci_citation_id :: str
  ci_claim_span :: str
  ci_source_document :: "str option"
  ci_source_type :: "str option"
  ci_source_node_id :: "str option"
  ci_confidence_score :: float64
  ci_page_number :: "int option"
  ci_url :: "str option"

record rag_response =
  rr_answer :: "str option"
  rr_context_chunks :: "context_chunk list"
  rr_graph_nodes :: "rag_node list"
  rr_graph_edges :: "rag_edge list"
  rr_citations :: "citation list"
  rr_overall_confidence :: float64
  rr_graph_nodes_expanded :: nat
  rr_vector_hits :: nat
  rr_query_embedding_model :: str

record graph_node =
  gn_id :: str
  gn_label :: str
  gn_display_name :: str
  gn_properties :: "(str \<times> pyval) list"

record graph_edge =
  ge_source_id :: str
  ge_target_id :: str
  ge_relationship :: str
  ge_properties :: "(str \<times> pyval) list"

record graph_context_map =
  gc_nodes :: "graph_node list"
  gc_edges :: "graph_edge list"
  gc_root_node_ids :: "str list"

text \<open>A node as the orchestrator's knowledge tool reads it from a graph context.\<close>

definition node_of_graph :: "graph_node \<Rightarrow> rag_node" where
  "node_of_graph n = \<lparr>rn_id = gn_id n,
     rn_label = (if gn_display_name n \<noteq> [] then gn_display_name n else gn_label n),
     rn_type = gn_label n, rn_properties = gn_properties n\<rparr>"

definition edge_of_graph :: "graph_edge \<Rightarrow> rag_edge" where
  "edge_of_graph e = \<lparr>re_source = ge_source_id e, re_target = ge_target_id e,
     re_relationship = ge_relationship e, re_weight = F 1\<rparr>"

end
