(* ===== verification/Agent_State.thy ===== *)
theory Agent_State
  imports Graphrag_Models Decision_Models
begin

section \<open>The orchestrator's state\<close>

text \<open>
  \<open>app/orchestration/state.py\<close> and the retry ring of \<open>app/orchestration/utils.py\<close>. The state is
  one record passed through the agents. Time stamps are left out; the length of the serialised
  state, which \<open>estimate_tokens\<close> measures, is a parameter.
\<close>

datatype agent_name =
    SUPERVISOR | KNOWLEDGE | RETRIEVAL | PREDICTION | EXPLANATION | DECISION | FINALIZER | END

fun agent_value :: "agent_name \<Rightarrow> str" where
  "agent_value SUPERVISOR = ''supervisor''"
| "agent_value KNOWLEDGE = ''knowledge_agent''"
| "agent_value RETRIEVAL = ''retrieval_agent''"
| "agent_value PREDICTION = ''prediction_agent''"
| "agent_value EXPLANATION = ''explanation_agent''"
| "agent_value DECISION = ''decision_agent''"
| "agent_value FINALIZER = ''finalizer''"
| "agent_value END = ''end''"

lemma agent_value_inj [simp]: "agent_value a = agent_value b \<longleftrightarrow> a = b"
  by (cases a; cases b) simp_all

record agent_error =
  ae_agent :: str
  ae_error_type :: str
  ae_message :: str
  ae_retry_count :: nat
  ae_recoverable :: bool

record token_metrics =
  tm_input :: nat
  tm_output :: nat
  tm_total :: nat
  tm_max_context :: nat
  tm_compression_events :: nat

definition no_metrics :: token_metrics where
  "no_metrics = \<lparr>tm_input = 0, tm_output = 0, tm_total = 0, tm_max_context = 12000, tm_compression_events = 0\<rparr>"

record trace_step =
  ts_node :: str
  ts_transition_index :: nat
  ts_status :: str
  ts_note :: "str option"

text \<open>A telemetry frame is opaque here: the orchestrator only passes it on.\<close>

type_synonym telemetry_reading = pyval

record orchestrator_request =
  oq_query_text :: str
  oq_asset_id :: "str option"
  oq_component_id :: "str option"
  oq_top_k :: int
  oq_risk_horizon_days :: int
  oq_max_recommendations :: nat
  oq_telemetry_history :: "telemetry_reading list"
  oq_max_transitions :: nat
  oq_include_debug_trace :: bool

definition mk_orchestrator_request :: "orchestrator_request \<Rightarrow> orchestrator_request res" where
  "mk_orchestrator_request q =
     require (1 \<le> length (oq_query_text q) \<and> length (oq_query_text q) \<le> 4096) (ValidationError ''query_text'')
     (require (1 \<le> oq_top_k q \<and> oq_top_k q \<le> 50) (ValidationError ''top_k'')
     (require (1 \<le> oq_risk_horizon_days q \<and> oq_risk_horizon_days q \<le> 365) (ValidationError ''risk_horizon_days'')
     (require (1 \<le> oq_max_recommendations q \<and> oq_max_recommendations q \<le> 20) (ValidationError ''max_recommendations'')
     (require (3 \<le> oq_max_transitions q \<and> oq_max_transitions q \<le> 50) (ValidationError ''max_transitions'')
       (Inr q)))))"

text \<open>Results of the knowledge and retrieval tools, and the payloads the agents keep.\<close>

record knowledge_result =
  kr_graph_nodes :: "rag_node list"
  kr_graph_edges :: "rag_edge list"
  kr_graph_nodes_expanded :: nat
  kr_fallback_used :: bool

record retrieval_result =
  vr_context_chunks :: "context_chunk list"
  vr_vector_hits :: nat
  vr_query_embedding_model :: str
  vr_fallback_used :: bool

datatype payload =
    KnowledgePayload knowledge_result
  | RetrievalPayload retrieval_result
  | FeaturesPayload "feature_impact list"

record agent_state =
  st_request_id :: str
  st_query_text :: str
  st_messages :: "(str \<times> str) list"
  st_active_asset_id :: "str option"
  st_component_id :: "str option"
  st_active_agent :: agent_name
  st_route_plan :: "agent_name list"
  st_next_route :: "agent_name option"
  st_visited_nodes :: "str list"
  st_trace :: "trace_step list"
  st_transition_count :: nat
  st_max_transitions :: nat
  st_terminal :: bool
  st_top_k :: int
  st_risk_horizon_days :: int
  st_max_recommendations :: nat
  st_telemetry_history :: "telemetry_reading list"
  st_context_chunks :: "context_chunk list"
  st_graph_nodes :: "rag_node list"
  st_graph_edges :: "rag_edge list"
  st_prediction :: "inference_response option"
  st_explanation :: "explanation_response option"
  st_decision :: "recommendation_response option"
  st_graphrag :: "rag_response option"
  st_anomaly_flags :: "anomaly_flag list"
  st_current_anomaly :: bool
  st_model_predictions :: "(str \<times> float64) list"
  st_intermediate_payloads :: "(str \<times> payload) list"
  st_token_metrics :: token_metrics
  st_errors :: "agent_error list"
  st_retries :: "(str \<times> nat) list"
  st_answer :: "str option"
  st_confidence :: float64

definition from_request :: "orchestrator_request \<Rightarrow> str \<Rightarrow> agent_state" where
  "from_request q rid = \<lparr>
     st_request_id = rid, st_query_text = oq_query_text q,
     st_messages = [(''user'', oq_query_text q)],
     st_active_asset_id = oq_asset_id q, st_component_id = oq_component_id q,
     st_active_agent = SUPERVISOR, st_route_plan = [], st_next_route = None,
     st_visited_nodes = [], st_trace = [], st_transition_count = 0,
     st_max_transitions = oq_max_transitions q, st_terminal = False,
     st_top_k = oq_top_k q, st_risk_horizon_days = oq_risk_horizon_days q,
     st_max_recommendations = oq_max_recommendations q,
     st_telemetry_history = oq_telemetry_history q,
     st_context_chunks = [], st_graph_nodes = [], st_graph_edges = [],
     st_prediction = None, st_explanation = None, st_decision = None, st_graphrag = None,
     st_anomaly_flags = [], st_current_anomaly = False, st_model_predictions = [],
     st_intermediate_payloads = [], st_token_metrics = no_metrics, st_errors = [],
     st_retries = [], st_answer = None, st_confidence = 0\<rparr>"

definition append_trace :: "str \<Rightarrow> agent_state \<Rightarrow> agent_state" where
  "append_trace node s =
     (let n = Suc (st_transition_count s)
      in s\<lparr>st_transition_count := n,
           st_visited_nodes := st_visited_nodes s @ [node],
           st_trace := st_trace s @ [\<lparr>ts_node = node, ts_transition_index = n, ts_status = ''ok'', ts_note = None\<rparr>]\<rparr>)"

text \<open>\<open>xs[-n:]\<close>.\<close>

definition last_n :: "nat \<Rightarrow> 'a list \<Rightarrow> 'a list" where
  "last_n n xs = drop (length xs - n) xs"

definition estimate_tokens :: "(agent_state \<Rightarrow> nat) \<Rightarrow> agent_state \<Rightarrow> agent_state" where
  "estimate_tokens dump_len s =
     (let approx = max (dump_len s div 4) 1;
          out = length (case st_answer s of Some a \<Rightarrow> a | None \<Rightarrow> []) div 4
      in s\<lparr>st_token_metrics := (st_token_metrics s)\<lparr>tm_input := approx, tm_output := out, tm_total := approx + out\<rparr>\<rparr>)"

definition compress :: "(agent_state \<Rightarrow> nat) \<Rightarrow> agent_state \<Rightarrow> agent_state" where
  "compress dump_len s =
     (let before = tm_total (st_token_metrics s);
          s1 = s\<lparr>st_messages := last_n 10 (st_messages s),
                 st_context_chunks := take 8 (st_context_chunks s),
                 st_graph_nodes := take 50 (st_graph_nodes s),
                 st_graph_edges := take 75 (st_graph_edges s),
                 st_telemetry_history := last_n 24 (st_telemetry_history s),
                 st_intermediate_payloads := last_n 8 (st_intermediate_payloads s)\<rparr>;
          s2 = estimate_tokens dump_len s1
      in if tm_total (st_token_metrics s2) < before \<or> before = 0
         then s2\<lparr>st_token_metrics := (st_token_metrics s2)\<lparr>tm_compression_events :=
                tm_compression_events (st_token_metrics s2) + 1\<rparr>\<rparr>
         else s2)"

subsection \<open>The retry ring\<close>

text \<open>
  \<open>with_retries\<close>: a tool call is a function of the attempt number, so that a call may fail
  once and succeed when repeated. Every exception is caught; after the last attempt the error is
  recorded and the fallback, if any, gives the result.
\<close>

function retry_loop :: "nat \<Rightarrow> (nat \<Rightarrow> 'a res) \<Rightarrow> str \<Rightarrow> nat \<Rightarrow> (str \<times> nat) list \<Rightarrow> (str \<times> nat) list \<times> 'a res" where
  "retry_loop max_retries call key attempt retries =
     (let retries1 = (if attempt \<noteq> 0 then AList.update key attempt retries else retries)
      in case call attempt of
           Inr x \<Rightarrow> (retries1, Inr x)
         | Inl e \<Rightarrow> if max_retries \<le> attempt then (retries1, Inl e)
                    else retry_loop max_retries call key (Suc attempt) retries1)"
  by pat_completeness auto
termination by (relation "measure (\<lambda>(m, _, _, a, _). m - a)") auto

declare retry_loop.simps [simp del]

definition with_retries ::
  "str \<Rightarrow> str \<Rightarrow> (nat \<Rightarrow> 'a res) \<Rightarrow> (py_error \<Rightarrow> 'a) option \<Rightarrow> nat \<Rightarrow> agent_state \<Rightarrow> agent_state \<times> 'a option" where
  "with_retries agent operation call fallback max_retries s =
     (case retry_loop max_retries call (agent @ ''.'' @ operation) 0 (st_retries s) of
        (rs, Inr x) \<Rightarrow> (s\<lparr>st_retries := rs\<rparr>, Some x)
      | (rs, Inl e) \<Rightarrow>
          (s\<lparr>st_retries := rs,
             st_errors := st_errors s @ [\<lparr>ae_agent = agent, ae_error_type = error_type e, ae_message = err_text e,
               ae_retry_count = max_retries, ae_recoverable = (fallback \<noteq> None)\<rparr>]\<rparr>,
           map_option (\<lambda>f. f e) fallback))"

text \<open>The attempt that decides: the first success, or the last attempt allowed.\<close>

lemma find_SomeD: "find P xs = Some x \<Longrightarrow> x \<in> set xs \<and> P x"
  by (induction xs) (auto split: if_splits)

definition deciding_attempt :: "(nat \<Rightarrow> 'a res) \<Rightarrow> nat \<Rightarrow> nat \<Rightarrow> nat" where
  "deciding_attempt call a m = (case find (\<lambda>i. \<not> isl (call i)) [a..<Suc m] of Some k \<Rightarrow> k | None \<Rightarrow> m)"

lemma deciding_attempt_unfold:
  "a \<le> m \<Longrightarrow> deciding_attempt call a m =
     (if \<not> isl (call a) \<or> m \<le> a then a else deciding_attempt call (Suc a) m)"
  by (cases "a = m") (simp_all add: deciding_attempt_def upt_rec [of a])

definition note_attempt :: "str \<Rightarrow> nat \<Rightarrow> (str \<rightharpoonup> nat) \<Rightarrow> (str \<rightharpoonup> nat)" where
  "note_attempt key k d = (if k = 0 then d else d(key \<mapsto> k))"

lemma retry_loop_decides:
  "a \<le> m \<Longrightarrow> snd (retry_loop m call key a rs) = call (deciding_attempt call a m)"
proof (induction m call key a rs rule: retry_loop.induct)
  case (1 m call key a rs)
  show ?case
  proof (cases "isl (call a) \<and> a < m")
    case True
    then obtain e where e: "call a = Inl e" by (auto simp: isl_def)
    then have "snd (retry_loop m call key (Suc a) (if a \<noteq> 0 then AList.update key a rs else rs))
        = call (deciding_attempt call (Suc a) m)"
      using "1.IH" [OF refl e] True by simp
    then show ?thesis using True e
      by (subst retry_loop.simps) (simp add: deciding_attempt_unfold [of a] split: if_splits)
  next
    case False
    then show ?thesis using "1.prems"
      by (subst retry_loop.simps) (auto simp: Let_def deciding_attempt_unfold [of a] isl_def split: sum.splits)
  qed
qed

lemma deciding_attempt_range: "a \<le> m \<Longrightarrow> a \<le> deciding_attempt call a m \<and> deciding_attempt call a m \<le> m"
  by (auto simp: deciding_attempt_def simp del: upt_Suc split: option.splits dest!: find_SomeD)

lemma retry_loop_notes:
  "a \<le> m \<Longrightarrow> map_of (fst (retry_loop m call key a rs)) = note_attempt key (deciding_attempt call a m) (map_of rs)"
proof (induction m call key a rs rule: retry_loop.induct)
  case (1 m call key a rs)
  show ?case
  proof (cases "isl (call a) \<and> a < m")
    case True
    then obtain e where e: "call a = Inl e" by (auto simp: isl_def)
    have "Suc a \<le> deciding_attempt call (Suc a) m" using True by (simp add: deciding_attempt_range)
    moreover have "map_of (fst (retry_loop m call key (Suc a) (if a \<noteq> 0 then AList.update key a rs else rs)))
        = note_attempt key (deciding_attempt call (Suc a) m) (map_of (if a \<noteq> 0 then AList.update key a rs else rs))"
      using "1.IH" [OF refl e] True by simp
    ultimately show ?thesis using True e
      by (subst retry_loop.simps)
        (simp add: deciding_attempt_unfold [of a] note_attempt_def map_of_update split: if_splits)
  next
    case False
    then show ?thesis using "1.prems"
      by (subst retry_loop.simps)
        (auto simp: Let_def deciding_attempt_unfold [of a] isl_def note_attempt_def map_of_update split: sum.splits)
  qed
qed

text \<open>The retry ring calls the tool until its first success, at most \<open>max_retries + 1\<close>
  times. A success gives its result and leaves the errors alone; if every attempt raises, the
  result is the fallback's on the last exception (or none), and exactly that exception is
  recorded, as recoverable only when there is a fallback. The retry counter holds the number of
  the deciding attempt, and nothing else of the state changes.\<close>

theorem with_retries_outcome:
  "case with_retries agent operation call fallback m s of (s', result) \<Rightarrow>
     (let k = deciding_attempt call 0 m;
          failed = [\<lparr>ae_agent = agent, ae_error_type = error_type (projl (call m)),
             ae_message = err_text (projl (call m)), ae_retry_count = m, ae_recoverable = (fallback \<noteq> None)\<rparr>]
      in k \<le> m
       \<and> map_of (st_retries s') = note_attempt (agent @ ''.'' @ operation) k (map_of (st_retries s))
       \<and> (if list_all (\<lambda>i. isl (call i)) [0..<Suc m]
          then result = map_option (\<lambda>f. f (projl (call m))) fallback \<and> st_errors s' = st_errors s @ failed
          else result = Some (projr (call k)) \<and> st_errors s' = st_errors s)
       \<and> s'\<lparr>st_retries := st_retries s, st_errors := st_errors s\<rparr> = s)"
proof -
  let ?key = "agent @ ''.'' @ operation" and ?k = "deciding_attempt call 0 m"
  obtain rs r where run: "retry_loop m call ?key 0 (st_retries s) = (rs, r)" by fastforce
  have r: "r = call ?k" and rs: "map_of rs = note_attempt ?key ?k (map_of (st_retries s))"
    using retry_loop_decides [of 0 m call ?key "st_retries s"]
      retry_loop_notes [of 0 m call ?key "st_retries s"] run by simp_all
  have k: "?k \<le> m" using deciding_attempt_range [of 0 m call] by simp
  show ?thesis
  proof (cases "list_all (\<lambda>i. isl (call i)) [0..<Suc m]")
    case True
    then have "find (\<lambda>i. \<not> isl (call i)) [0..<Suc m] = None"
      by (simp only: find_None_iff list_all_iff) blast
    then have "?k = m" by (simp add: deciding_attempt_def del: upt_Suc)
    moreover have "isl (call m)" using True by simp
    ultimately show ?thesis using run r rs True
      by (auto simp: with_retries_def isl_def Let_def simp del: upt_Suc)
  next
    case False
    then obtain j where "find (\<lambda>i. \<not> isl (call i)) [0..<Suc m] = Some j"
      by (cases "find (\<lambda>i. \<not> isl (call i)) [0..<Suc m]") (auto simp: find_None_iff list_all_iff simp del: upt_Suc)
    then have "\<not> isl (call ?k)" by (auto simp: deciding_attempt_def simp del: upt_Suc dest: find_SomeD)
    then show ?thesis using run r rs False k
      by (cases "call ?k") (auto simp: with_retries_def Let_def simp del: upt_Suc)
  qed
qed

end
