(* ===== verification/Routing.thy ===== *)
theory Routing
  imports Agent_State
begin

section \<open>Routing\<close>

text \<open>
  \<open>app/orchestration/routing.py\<close>: the asset identifier read off the query, the route plan from
  its keywords, and the two edge functions of the graph. The two regular expressions are matched
  by hand on ASCII text: their greedy repetitions range over disjoint classes of characters, so
  that a match that fails at the longest repetition fails at every shorter one.
\<close>

subsection \<open>The asset identifier\<close>

definition is_separator :: "char \<Rightarrow> bool" where
  "is_separator c \<longleftrightarrow> is_space c \<or> c = CHR ''-'' \<or> c = CHR ''_''"

text \<open>\<open>\b\<close> before and after a word: the neighbour is absent or no word character.\<close>

definition word_starts :: "char option \<Rightarrow> bool" where
  "word_starts prev = (case prev of None \<Rightarrow> True | Some c \<Rightarrow> \<not> is_word c)"

definition word_ends :: "str \<Rightarrow> bool" where
  "word_ends rest = (case rest of [] \<Rightarrow> True | c # _ \<Rightarrow> \<not> is_word c)"

definition asset_nouns :: "str list" where
  "asset_nouns = [''asset'', ''pump'', ''compressor'', ''motor'', ''turbine'', ''line'']"

text \<open>A match is the whole matched text (group 0) and group 1.\<close>

definition match_named_asset :: "char option \<Rightarrow> str \<Rightarrow> (str \<times> str) option" where
  "match_named_asset prev s =
     (if \<not> word_starts prev then None
      else (case find (\<lambda>w. starts_with w (py_lower s)) asset_nouns of
          None \<Rightarrow> None
        | Some w \<Rightarrow>
            (let r1 = drop (length w) s; seps = takeWhile is_separator r1;
                 r2 = dropWhile is_separator r1; value = takeWhile is_alnum r2;
                 r3 = dropWhile is_alnum r2
             in if value \<noteq> [] \<and> word_ends r3 then Some (take (length w) s @ seps @ value, value) else None)))"

definition match_tagged_asset :: "char option \<Rightarrow> str \<Rightarrow> (str \<times> str) option" where
  "match_tagged_asset prev s =
     (if \<not> word_starts prev then None
      else (let letters = takeWhile (\<lambda>c. is_upper c \<or> is_lower c) s; r1 = dropWhile (\<lambda>c. is_upper c \<or> is_lower c) s
            in case r1 of
                 [] \<Rightarrow> None
               | c # r2 \<Rightarrow>
                   (let value = takeWhile is_alnum r2; r3 = dropWhile is_alnum r2
                    in if letters \<noteq> [] \<and> (c = CHR ''-'' \<or> c = CHR ''_'') \<and> value \<noteq> [] \<and> word_ends r3
                       then Some (letters @ c # value, letters @ c # value) else None)))"

fun re_search :: "(char option \<Rightarrow> str \<Rightarrow> 'a option) \<Rightarrow> char option \<Rightarrow> str \<Rightarrow> 'a option" where
  "re_search m prev [] = m prev []"
| "re_search m prev (c # cs) = (case m prev (c # cs) of Some r \<Rightarrow> Some r | None \<Rightarrow> re_search m (Some c) cs)"

definition asset_of_match :: "str \<times> str \<Rightarrow> str" where
  "asset_of_match g =
     (case g of (whole, value) \<Rightarrow>
        if contains ''pump'' (py_lower whole) \<and> \<not> starts_with ''pump'' (py_lower value)
        then (if \<not> starts_with ''-'' value then ''Pump-'' @ value else ''Pump'' @ value)
        else if contains ''compressor'' (py_lower whole) \<and> \<not> starts_with ''compressor'' (py_lower value)
        then ''Compressor-'' @ value
        else value)"

definition extract_asset_id :: "str \<Rightarrow> str option" where
  "extract_asset_id query =
     (case re_search match_named_asset None query of
        Some g \<Rightarrow> Some (asset_of_match g)
      | None \<Rightarrow> map_option asset_of_match (re_search match_tagged_asset None query))"

subsection \<open>The plan\<close>

definition diagnostic_words :: "str list" where
  "diagnostic_words = [''why'', ''diagnose'', ''diagnostic'', ''root cause'', ''cause'', ''high'', ''low'',
     ''anomaly'', ''fault'', ''risk'', ''report'']"

definition predict_words :: "str list" where
  "predict_words = [''predict'', ''rul'', ''remaining'', ''failure probability'', ''forecast'', ''anomaly'']"

definition decision_words :: "str list" where
  "decision_words = [''recommend'', ''maintenance'', ''sop'', ''action'', ''risk report'', ''prioritize'', ''schedule'']"

definition knowledge_words :: "str list" where
  "knowledge_words = [''relationship'', ''ontology'', ''connected'', ''graph'', ''asset hierarchy'', ''component'']"

definition retrieval_words :: "str list" where
  "retrieval_words = [''manual'', ''documentation'', ''procedure'', ''spec'', ''datasheet'', ''context'']"

definition mentions :: "str list \<Rightarrow> str \<Rightarrow> bool" where
  "mentions ws q = list_ex (\<lambda>w. contains w q) ws"

definition route_of_query :: "str \<Rightarrow> agent_name list" where
  "route_of_query text =
     (let q = py_lower text;
          diagnostic = mentions diagnostic_words q;
          wants_prediction = mentions predict_words q;
          wants_decision = mentions decision_words q;
          wants_knowledge = mentions knowledge_words q;
          wants_retrieval = mentions retrieval_words q
      in if diagnostic \<or> wants_prediction \<and> wants_decision
         then [RETRIEVAL, KNOWLEDGE, PREDICTION, EXPLANATION, DECISION, FINALIZER]
         else if wants_decision then [PREDICTION, EXPLANATION, DECISION, FINALIZER]
         else if wants_prediction then [PREDICTION, EXPLANATION, FINALIZER]
         else if wants_knowledge then [KNOWLEDGE, RETRIEVAL, FINALIZER]
         else if wants_retrieval then [RETRIEVAL, FINALIZER]
         else [RETRIEVAL, KNOWLEDGE, FINALIZER])"

definition plan_route :: "agent_state \<Rightarrow> agent_name list \<times> agent_state" where
  "plan_route s =
     (route_of_query (st_query_text s),
      if truthy_str (st_active_asset_id s) then s
      else s\<lparr>st_active_asset_id := extract_asset_id (st_query_text s)\<rparr>)"

subsection \<open>The edges\<close>

definition supervisor_next :: "agent_state \<Rightarrow> agent_name \<times> agent_state" where
  "supervisor_next s =
     (if st_terminal s \<or> st_max_transitions s \<le> st_transition_count s then (END, s\<lparr>st_terminal := True\<rparr>)
      else (case st_next_route s of
          Some nxt \<Rightarrow> (nxt, s\<lparr>st_next_route := None\<rparr>)
        | None \<Rightarrow>
            (let s1 = (if st_route_plan s = []
                       then (case plan_route s of (p, s') \<Rightarrow> s'\<lparr>st_route_plan := p\<rparr>) else s)
             in case st_route_plan s1 of
                  [] \<Rightarrow> (FINALIZER, s1)
                | nxt # rest \<Rightarrow> (nxt, s1\<lparr>st_route_plan := rest, st_active_agent := nxt\<rparr>))))"

definition next_after_agent :: "agent_state \<Rightarrow> agent_name \<times> agent_state" where
  "next_after_agent s =
     (if st_max_transitions s \<le> st_transition_count s then (FINALIZER, s\<lparr>st_terminal := True\<rparr>)
      else (SUPERVISOR, s))"

subsection \<open>Plans\<close>

definition worker :: "agent_name \<Rightarrow> bool" where
  "worker a \<longleftrightarrow> a \<in> {KNOWLEDGE, RETRIEVAL, PREDICTION, EXPLANATION, DECISION}"

text \<open>The plan's shape: distinct specialised agents, then the finalizer; two to six steps.\<close>

lemma route_cases:
  "route_of_query q \<in> {[RETRIEVAL, KNOWLEDGE, PREDICTION, EXPLANATION, DECISION, FINALIZER],
     [PREDICTION, EXPLANATION, DECISION, FINALIZER], [PREDICTION, EXPLANATION, FINALIZER],
     [KNOWLEDGE, RETRIEVAL, FINALIZER], [RETRIEVAL, FINALIZER], [RETRIEVAL, KNOWLEDGE, FINALIZER]}"
  by (simp add: route_of_query_def Let_def)

lemma route_shape:
  "\<exists>ws. route_of_query q = ws @ [FINALIZER] \<and> list_all worker ws \<and> distinct ws \<and> ws \<noteq> [] \<and> length ws \<le> 5"
  using route_cases [of q] by (auto simp: worker_def)

subsection \<open>Recognising an asset\<close>

lemma separator_not_alnum: "is_separator c \<Longrightarrow> \<not> is_alnum c"
  by (auto simp: is_separator_def char_class_defs)

lemma takeWhile_separators:
  assumes "list_all is_separator seps" and "list_all is_alnum w" and "w \<noteq> []"
  shows "takeWhile is_separator (seps @ w @ rest) = seps" "dropWhile is_separator (seps @ w @ rest) = w @ rest"
proof -
  obtain c cs where w: "w = c # cs" "\<not> is_separator c"
    using assms separator_not_alnum by (cases w) auto
  show "takeWhile is_separator (seps @ w @ rest) = seps" "dropWhile is_separator (seps @ w @ rest) = w @ rest"
    using assms(1) by (induction seps) (auto simp: w)
qed

lemma takeWhile_alnum:
  assumes "list_all is_alnum w" and "word_ends rest"
  shows "takeWhile is_alnum (w @ rest) = w" "dropWhile is_alnum (w @ rest) = rest"
proof -
  have "rest = [] \<or> (\<exists>c cs. rest = c # cs \<and> \<not> is_alnum c)"
    using assms(2) by (cases rest) (auto simp: word_ends_def is_word_def)
  then show "takeWhile is_alnum (w @ rest) = w" "dropWhile is_alnum (w @ rest) = rest"
    using assms(1) by (induction w) auto
qed

lemma py_lower_append [simp]: "py_lower (a @ b) = py_lower a @ py_lower b"
  by (simp add: py_lower_def)

lemma length_py_lower [simp]: "length (py_lower s) = length s"
  by (simp add: py_lower_def)

lemma starts_with_append [simp]: "starts_with p (p @ r)"
  by (simp add: starts_with_iff)

lemma match_pump:
  assumes "py_lower noun = ''pump''" "list_all is_separator seps" "w \<noteq> []" "list_all is_alnum w" "word_ends rest"
  shows "match_named_asset None (noun @ seps @ w @ rest) = Some (noun @ seps @ w, w)"
proof -
  have n: "length noun = 4" using assms(1) length_py_lower [of noun] by simp
  have "find (\<lambda>v. starts_with v (py_lower (noun @ seps @ w @ rest))) asset_nouns = Some ''pump''"
    by (simp add: assms(1) asset_nouns_def)
  then show ?thesis
    using assms n takeWhile_separators [OF assms(2,4,3), of rest] takeWhile_alnum [OF assms(4,5)]
    by (simp add: match_named_asset_def word_starts_def Let_def)
qed

text \<open>A query that opens with the word pump in any case, separators (spaces, dashes,
  underscores, or none) and an alphanumeric tag is recognised as the canonical identifier
  \<open>Pump-<tag>\<close>, whatever follows the tag.\<close>

theorem extract_canonical_pump:
  assumes "py_lower noun = ''pump''" and "list_all is_separator seps" and "w \<noteq> []" and "list_all is_alnum w"
    and "\<not> starts_with ''pump'' (py_lower w)" and "word_ends rest"
  shows "extract_asset_id (noun @ seps @ w @ rest) = Some (''Pump-'' @ w)"
proof -
  obtain c cs where s: "noun @ seps @ w @ rest = c # cs"
    using assms(3) by (cases "noun @ seps @ w @ rest") auto
  have "re_search match_named_asset None (noun @ seps @ w @ rest) = Some (noun @ seps @ w, w)"
    using match_pump [OF assms(1-4,6)] unfolding s by simp
  moreover have "contains ''pump'' (py_lower (noun @ seps @ w))"
    unfolding contains_iff py_lower_append assms(1) by (metis append_Nil)
  moreover have "\<not> starts_with ''-'' w"
    using assms(3,4) by (cases w) (auto simp: char_class_defs)
  ultimately show ?thesis using assms(5)
    by (simp add: extract_asset_id_def asset_of_match_def del: py_lower_append)
qed

theorem extract_canonical_pump_witness:
  "extract_asset_id (''PUMP'' @ ''_ '' @ ''2b'' @ '' is hot'') = Some (''Pump-'' @ ''2b'')"
  by (rule extract_canonical_pump; code_simp)

text \<open>A plural is read as a tag, and a second noun hides the tag that follows it.\<close>

theorem plural_read_as_tag:
  "extract_asset_id ''why are pumps failing'' = Some ''Pump-s''
   \<and> extract_asset_id ''asset Pump-3 runs hot'' = Some ''Pump''"
  by code_simp

end
