(* ===== verification/Agent_Nodes.thy ===== *)
theory Agent_Nodes
  imports Routing Decision_Service
begin

section \<open>The tools and the agents\<close>

text \<open>
  \<open>app/orchestration/tools.py\<close> and \<open>app/orchestration/agent_nodes.py\<close>. The services behind
  the tools are parameters (the record \<open>services\<close>); each takes the number of the attempt first,
  so that a repeated call may answer differently.
\<close>

subsection \<open>Tools\<close>

record search_hit =
  sh_chunk_id :: str
  sh_text :: str
  sh_score :: float64
  sh_document_type :: str
  sh_source_filename :: "str option"
  sh_document_id :: str

record search_response =
  se_results :: "search_hit list"
  se_returned :: nat
  se_embedding_model :: str

record services =
  sv_subgraph :: "nat \<Rightarrow> str \<Rightarrow> nat \<Rightarrow> graph_context_map res"
  sv_search :: "nat \<Rightarrow> str \<Rightarrow> int \<Rightarrow> float64 \<Rightarrow> search_response res"
  sv_infer :: "nat \<Rightarrow> inference_request \<Rightarrow> telemetry_reading list \<Rightarrow> inference_response res"
  sv_explain :: "nat \<Rightarrow> str \<Rightarrow> str option \<Rightarrow> telemetry_reading list \<Rightarrow> explanation_response res"
  sv_recommend :: "nat \<Rightarrow> recommendation_request \<Rightarrow> recommendation_response res"
  sv_fallback_history :: "str \<Rightarrow> telemetry_reading list"

text \<open>The validated inputs: \<open>KnowledgeQueryInput\<close>, \<open>RetrievalQueryInput\<close>, \<open>PredictionInput\<close>,
  \<open>ExplanationInput\<close>; \<open>DecisionInput\<close> has the fields and bounds of \<open>RecommendationRequest\<close>.\<close>

definition mk_knowledge_input :: "str \<Rightarrow> str res" where
  "mk_knowledge_input asset = require (asset \<noteq> []) (ValidationError ''asset_id'') (Inr asset)"

definition mk_retrieval_input :: "str \<Rightarrow> int \<Rightarrow> str option \<Rightarrow> (str \<times> int \<times> str option) res" where
  "mk_retrieval_input q k asset =
     require (q \<noteq> []) (ValidationError ''query_text'')
     (require (1 \<le> k \<and> k \<le> 50) (ValidationError ''top_k'') (Inr (q, k, asset)))"

definition mk_prediction_input ::
  "str \<Rightarrow> str option \<Rightarrow> telemetry_reading list \<Rightarrow> int \<Rightarrow> (str \<times> str option \<times> telemetry_reading list \<times> int) res" where
  "mk_prediction_input asset component history h =
     require (asset \<noteq> []) (ValidationError ''asset_id'')
     (require (history \<noteq> []) (ValidationError ''history'')
     (require (1 \<le> h \<and> h \<le> 2160) (ValidationError ''horizon_hours'') (Inr (asset, component, history, h))))"

definition mk_explanation_input ::
  "str \<Rightarrow> str option \<Rightarrow> telemetry_reading list \<Rightarrow> (str \<times> str option \<times> telemetry_reading list) res" where
  "mk_explanation_input asset eid history =
     require (asset \<noteq> []) (ValidationError ''asset_id'')
     (require (history \<noteq> []) (ValidationError ''history'') (Inr (asset, eid, history)))"

definition fallback_knowledge :: "str \<Rightarrow> knowledge_result" where
  "fallback_knowledge asset = \<lparr>
     kr_graph_nodes = [\<lparr>rn_id = asset, rn_label = asset, rn_type = ''Asset'',
        rn_properties = [(''source'', VStr ''orchestrator_fallback'')]\<rparr>],
     kr_graph_edges = [], kr_graph_nodes_expanded = 1, kr_fallback_used = True\<rparr>"

definition query_knowledge_graph :: "services \<Rightarrow> nat \<Rightarrow> str \<Rightarrow> knowledge_result res" where
  "query_knowledge_graph sv i asset =
     (case sv_subgraph sv i asset 3 of
        Inr context \<Rightarrow>
          (let nodes = map node_of_graph (gc_nodes context); edges = map edge_of_graph (gc_edges context)
           in Inr \<lparr>kr_graph_nodes = nodes, kr_graph_edges = edges,
                kr_graph_nodes_expanded = length nodes, kr_fallback_used = False\<rparr>)
      | Inl e \<Rightarrow> Inr (fallback_knowledge asset))"

definition chunk_of_hit :: "search_hit \<Rightarrow> context_chunk" where
  "chunk_of_hit r = \<lparr>ck_chunk_id = sh_chunk_id r, ck_text = sh_text r, ck_score = sh_score r,
     ck_document_type = sh_document_type r,
     ck_source = or_str (sh_source_filename r) (Some (sh_document_id r))\<rparr>"

definition fallback_chunk :: "str option \<Rightarrow> context_chunk" where
  "fallback_chunk asset = \<lparr>ck_chunk_id = ''fallback-context-1'',
     ck_text = ''Offline fallback context'' @ (if truthy_str asset then '' for '' @ the asset else [])
       @ '': inspect recent pressure, vibration, bearing temperature and load trends; compare against SOP limits.'',
     ck_score = F 0.5, ck_document_type = ''FALLBACK_GUIDANCE'', ck_source = Some ''phase9_orchestrator''\<rparr>"

definition semantic_retrieve :: "services \<Rightarrow> nat \<Rightarrow> str \<times> int \<times> str option \<Rightarrow> retrieval_result res" where
  "semantic_retrieve sv i p =
     (case p of (q, k, asset) \<Rightarrow>
      (case sv_search sv i q k (F 0.55) of
         Inr r \<Rightarrow> Inr \<lparr>vr_context_chunks = map chunk_of_hit (se_results r), vr_vector_hits = se_returned r,
                    vr_query_embedding_model = se_embedding_model r, vr_fallback_used = False\<rparr>
       | Inl e \<Rightarrow> Inr \<lparr>vr_context_chunks = [fallback_chunk asset], vr_vector_hits = 1,
                    vr_query_embedding_model = [], vr_fallback_used = True\<rparr>))"

definition predict ::
  "services \<Rightarrow> nat \<Rightarrow> str \<times> str option \<times> telemetry_reading list \<times> int \<Rightarrow> inference_response res" where
  "predict sv i p = (case p of (asset, component, history, h) \<Rightarrow>
     bind_res (mk_inference_request asset component (length history) h) (\<lambda>rq. sv_infer sv i rq history))"

definition explain ::
  "services \<Rightarrow> nat \<Rightarrow> str \<times> str option \<times> telemetry_reading list \<Rightarrow> explanation_response res" where
  "explain sv i p = (case p of (asset, eid, history) \<Rightarrow> sv_explain sv i asset eid history)"

definition decide :: "services \<Rightarrow> nat \<Rightarrow> recommendation_request \<Rightarrow> recommendation_response res" where
  "decide sv i p =
     bind_res (mk_recommendation_request (rq_asset_id p) (rq_component_id p) (rq_risk_horizon_days p)
                 (rq_max_recommendations p)) (sv_recommend sv i)"

subsection \<open>Agents\<close>

definition asset_or :: "str \<Rightarrow> agent_state \<Rightarrow> str" where
  "asset_or unknown s = (if truthy_str (st_active_asset_id s) then the (st_active_asset_id s) else unknown)"

definition supervisor :: "(agent_state \<Rightarrow> nat) \<Rightarrow> agent_state \<Rightarrow> agent_state" where
  "supervisor dump_len s =
     (let s1 = append_trace (agent_value SUPERVISOR) (s\<lparr>st_active_agent := SUPERVISOR\<rparr>);
          s2 = (if st_route_plan s1 = [] \<and> \<not> st_terminal s1 \<and> st_transition_count s1 < st_max_transitions s1
                then (case plan_route s1 of (p, s') \<Rightarrow> s'\<lparr>st_route_plan := p\<rparr>) else s1);
          s3 = (if st_terminal s2 \<or> st_max_transitions s2 \<le> st_transition_count s2
                then s2\<lparr>st_terminal := True, st_next_route := Some END\<rparr>
                else (case st_route_plan s2 of
                    nxt # rest \<Rightarrow> s2\<lparr>st_route_plan := rest, st_next_route := Some nxt, st_active_agent := nxt\<rparr>
                  | [] \<Rightarrow> s2\<lparr>st_next_route := Some FINALIZER\<rparr>))
      in compress dump_len s3)"

definition keep_knowledge :: "knowledge_result \<Rightarrow> agent_state \<Rightarrow> agent_state" where
  "keep_knowledge r s = s\<lparr>st_graph_nodes := kr_graph_nodes r, st_graph_edges := kr_graph_edges r,
     st_intermediate_payloads := AList.update ''knowledge'' (KnowledgePayload r) (st_intermediate_payloads s)\<rparr>"

definition keep_retrieval :: "retrieval_result \<Rightarrow> agent_state \<Rightarrow> agent_state" where
  "keep_retrieval r s = s\<lparr>st_context_chunks := vr_context_chunks r,
     st_intermediate_payloads := AList.update ''retrieval'' (RetrievalPayload r) (st_intermediate_payloads s)\<rparr>"

definition keep_prediction :: "inference_response \<Rightarrow> agent_state \<Rightarrow> agent_state" where
  "keep_prediction r s = s\<lparr>st_prediction := Some r,
     st_component_id := or_str (st_component_id s) (if_component_id r),
     st_current_anomaly := (if_anomalous_sensors r \<noteq> []),
     st_anomaly_flags := if_anomaly_flags r,
     st_model_predictions := AList.update ''failure_probability'' (if_probability r)
       (AList.update ''rul_days'' (if_rul_days r) (st_model_predictions s))\<rparr>"

definition keep_explanation :: "explanation_response \<Rightarrow> agent_state \<Rightarrow> agent_state" where
  "keep_explanation r s = s\<lparr>st_explanation := Some r,
     st_intermediate_payloads := AList.update ''top_features''
       (FeaturesPayload (take 5 (ex_local_feature_importance r))) (st_intermediate_payloads s)\<rparr>"

definition keep_decision :: "recommendation_response \<Rightarrow> agent_state \<Rightarrow> agent_state" where
  "keep_decision r s = s\<lparr>st_decision := Some r,
     st_confidence := max (st_confidence s) (min (F 0.95) (F 0.55 + rs_overall_risk_score r * F 0.35))\<rparr>"

text \<open>An agent: trace the visit, call the tool in the retry ring, keep a result, compress.\<close>

definition run_agent ::
  "(agent_state \<Rightarrow> nat) \<Rightarrow> agent_name \<Rightarrow> str \<Rightarrow> (nat \<Rightarrow> 'r res) \<Rightarrow> ('r \<Rightarrow> agent_state \<Rightarrow> agent_state) \<Rightarrow>
   agent_state \<Rightarrow> agent_state" where
  "run_agent dump_len a operation call keep s =
     (case with_retries (agent_value a) operation call None 1 s of
        (s1, Some r) \<Rightarrow> compress dump_len (keep r s1)
      | (s1, None) \<Rightarrow> compress dump_len s1)"

definition knowledge_agent :: "services \<Rightarrow> (agent_state \<Rightarrow> nat) \<Rightarrow> agent_state \<Rightarrow> agent_state" where
  "knowledge_agent sv dump_len s =
     (let s1 = append_trace (agent_value KNOWLEDGE) s
      in run_agent dump_len KNOWLEDGE ''query_knowledge_graph''
           (\<lambda>i. bind_res (mk_knowledge_input (asset_or ''unknown-asset'' s1)) (query_knowledge_graph sv i))
           keep_knowledge s1)"

definition retrieval_agent :: "services \<Rightarrow> (agent_state \<Rightarrow> nat) \<Rightarrow> agent_state \<Rightarrow> agent_state" where
  "retrieval_agent sv dump_len s =
     (let s1 = append_trace (agent_value RETRIEVAL) s
      in run_agent dump_len RETRIEVAL ''semantic_retrieve''
           (\<lambda>i. bind_res (mk_retrieval_input (st_query_text s1) (st_top_k s1) (st_active_asset_id s1))
                  (semantic_retrieve sv i))
           keep_retrieval s1)"

definition history_of :: "services \<Rightarrow> agent_state \<Rightarrow> telemetry_reading list" where
  "history_of sv s =
     (if st_telemetry_history s \<noteq> [] then st_telemetry_history s
      else sv_fallback_history sv (asset_or ''asset-unknown'' s))"

definition prediction_agent :: "services \<Rightarrow> (agent_state \<Rightarrow> nat) \<Rightarrow> agent_state \<Rightarrow> agent_state" where
  "prediction_agent sv dump_len s =
     (let s1 = append_trace (agent_value PREDICTION) s;
          history = history_of sv s1;
          s2 = s1\<lparr>st_telemetry_history := history\<rparr>
      in run_agent dump_len PREDICTION ''predict''
           (\<lambda>i. bind_res (mk_prediction_input (asset_or ''asset-unknown'' s1) (st_component_id s2) history
                  (max (st_risk_horizon_days s2 * 24) 24)) (predict sv i))
           keep_prediction s2)"

definition explanation_agent :: "services \<Rightarrow> (agent_state \<Rightarrow> nat) \<Rightarrow> agent_state \<Rightarrow> agent_state" where
  "explanation_agent sv dump_len s =
     (let s1 = append_trace (agent_value EXPLANATION) s;
          eid = (case st_prediction s1 of Some p \<Rightarrow> if_explanation_id p | None \<Rightarrow> None)
      in run_agent dump_len EXPLANATION ''explain''
           (\<lambda>i. bind_res (mk_explanation_input (asset_or ''asset-unknown'' s1) eid (history_of sv s1)) (explain sv i))
           keep_explanation s1)"

definition decision_agent :: "services \<Rightarrow> (agent_state \<Rightarrow> nat) \<Rightarrow> agent_state \<Rightarrow> agent_state" where
  "decision_agent sv dump_len s =
     (let s1 = append_trace (agent_value DECISION) s
      in run_agent dump_len DECISION ''decide''
           (\<lambda>i. bind_res (mk_recommendation_request (asset_or ''asset-unknown'' s1) (st_component_id s1)
                  (st_risk_horizon_days s1) (st_max_recommendations s1)) (decide sv i))
           keep_decision s1)"

definition answer_parts :: "agent_state \<Rightarrow> str list" where
  "answer_parts s =
     (if truthy_str (st_active_asset_id s) then [''Asset: '' @ the (st_active_asset_id s) @ ''.''] else [])
     @ (if st_context_chunks s \<noteq> []
        then [''Retrieved '' @ str_nat (length (st_context_chunks s)) @ '' documentation context block(s).''] else [])
     @ (if st_graph_nodes s \<noteq> []
        then [''Expanded '' @ str_nat (length (st_graph_nodes s)) @ '' graph node(s).''] else [])
     @ (case st_prediction s of Some p \<Rightarrow>
          [''Prediction: RUL '' @ fmt_fixed 2 (if_rul_days p) @ '' days; failure probability ''
             @ fmt_fixed 2 (if_probability p) @ ''.''] | None \<Rightarrow> [])
     @ (case st_explanation s of None \<Rightarrow> [] | Some x \<Rightarrow>
          (case ex_local_feature_importance x of f # _ \<Rightarrow> [''Top explanation driver: '' @ fi_feature_name f @ ''.'']
           | [] \<Rightarrow> []))
     @ (case st_decision s of None \<Rightarrow> [] | Some x \<Rightarrow>
          (case rs_recommendations x of
             r # _ \<Rightarrow> [''Recommended action: '' @ priority_value (rc_priority r) @ '' ''
                        @ action_value (rc_action_type r) @ '' '' @ em_dash @ '' '' @ rc_description r]
           | [] \<Rightarrow> []))
     @ (if st_errors s \<noteq> []
        then [''Completed with '' @ str_nat (length (st_errors s)) @ '' recovered tool error(s).''] else [])"

definition float_or :: "float64 \<Rightarrow> float64 \<Rightarrow> float64" where
  "float_or a b = (if a \<noteq> 0 then a else b)"

definition finalizer :: "(agent_state \<Rightarrow> nat) \<Rightarrow> agent_state \<Rightarrow> agent_state" where
  "finalizer dump_len s =
     (let s1 = (append_trace (agent_value FINALIZER) s)\<lparr>st_active_agent := FINALIZER, st_terminal := True\<rparr>;
          overall = float_or (st_confidence s1)
            (if st_context_chunks s1 \<noteq> [] \<or> st_graph_nodes s1 \<noteq> [] then F 0.65 else 0);
          response = \<lparr>rr_answer = None, rr_context_chunks = st_context_chunks s1, rr_graph_nodes = st_graph_nodes s1,
            rr_graph_edges = st_graph_edges s1, rr_citations = [], rr_overall_confidence = overall,
            rr_graph_nodes_expanded = length (st_graph_nodes s1), rr_vector_hits = length (st_context_chunks s1),
            rr_query_embedding_model =
              (case map_of (st_intermediate_payloads s1) ''retrieval'' of
                 Some (RetrievalPayload r) \<Rightarrow> vr_query_embedding_model r | _ \<Rightarrow> [])\<rparr>;
          parts = answer_parts s1;
          answer = (if parts \<noteq> [] then join '' '' parts
                    else ''Request completed; no specialized evidence was available.'');
          s2 = s1\<lparr>st_graphrag := Some response, st_answer := Some answer,
                  st_confidence := float_or (st_confidence s1) overall,
                  st_messages := st_messages s1 @ [(''assistant'', answer)]\<rparr>
      in estimate_tokens dump_len s2)"

definition agent_node :: "services \<Rightarrow> (agent_state \<Rightarrow> nat) \<Rightarrow> agent_name \<Rightarrow> agent_state \<Rightarrow> agent_state" where
  "agent_node sv dump_len a = (case a of
       SUPERVISOR \<Rightarrow> supervisor dump_len
     | RETRIEVAL \<Rightarrow> retrieval_agent sv dump_len
     | KNOWLEDGE \<Rightarrow> knowledge_agent sv dump_len
     | PREDICTION \<Rightarrow> prediction_agent sv dump_len
     | EXPLANATION \<Rightarrow> explanation_agent sv dump_len
     | DECISION \<Rightarrow> decision_agent sv dump_len
     | FINALIZER \<Rightarrow> finalizer dump_len
     | END \<Rightarrow> id)"

subsection \<open>What a node does to the control state\<close>

text \<open>
  The control state is what the edges read and what the audit trail shows: the transition count,
  the trace, the visited nodes, the plan, the pending route, the terminal flag, and the query and
  the budget of the request. It is a projection of the agents' state, and on it every node acts
  as a small deterministic machine whatever its tool answers.
\<close>

record control =
  ct_count :: nat
  ct_visited :: "str list"
  ct_trace :: "trace_step list"
  ct_plan :: "agent_name list"
  ct_next :: "agent_name option"
  ct_terminal :: bool
  ct_max :: nat
  ct_query :: str

definition ctl :: "agent_state \<Rightarrow> control" where
  "ctl s = \<lparr>ct_count = st_transition_count s, ct_visited = st_visited_nodes s, ct_trace = st_trace s,
     ct_plan = st_route_plan s, ct_next = st_next_route s, ct_terminal = st_terminal s,
     ct_max = st_max_transitions s, ct_query = st_query_text s\<rparr>"

definition ctl_visit :: "agent_name \<Rightarrow> control \<Rightarrow> control" where
  "ctl_visit a c = c\<lparr>ct_count := Suc (ct_count c), ct_visited := ct_visited c @ [agent_value a],
     ct_trace := ct_trace c @ [\<lparr>ts_node = agent_value a, ts_transition_index = Suc (ct_count c),
       ts_status = ''ok'', ts_note = None\<rparr>]\<rparr>"

definition ctl_supervise :: "control \<Rightarrow> control" where
  "ctl_supervise c =
     (let c1 = ctl_visit SUPERVISOR c;
          live = (\<not> ct_terminal c1 \<and> ct_count c1 < ct_max c1);
          p = (if ct_plan c1 = [] \<and> live then route_of_query (ct_query c1) else ct_plan c1)
      in if \<not> live then c1\<lparr>ct_plan := p, ct_terminal := True, ct_next := Some END\<rparr>
         else (case p of
             nxt # rest \<Rightarrow> c1\<lparr>ct_plan := rest, ct_next := Some nxt\<rparr>
           | [] \<Rightarrow> c1\<lparr>ct_plan := p, ct_next := Some FINALIZER\<rparr>))"

definition ctl_finish :: "control \<Rightarrow> control" where
  "ctl_finish c = (ctl_visit FINALIZER c)\<lparr>ct_terminal := True\<rparr>"

lemma ctl_append_trace: "ctl (append_trace (agent_value a) s) = ctl_visit a (ctl s)"
  by (simp add: ctl_def ctl_visit_def append_trace_def Let_def)

lemma ctl_estimate_tokens: "ctl (estimate_tokens d s) = ctl s"
  by (simp add: ctl_def estimate_tokens_def Let_def)

lemma ctl_compress: "ctl (compress d s) = ctl s"
  by (simp add: ctl_def compress_def estimate_tokens_def Let_def)

lemma ctl_with_retries: "ctl (fst (with_retries a op call fb m s)) = ctl s"
  by (simp add: ctl_def with_retries_def split: prod.splits sum.splits)

lemma ctl_keep:
  "ctl (keep_knowledge k s) = ctl s" "ctl (keep_retrieval r s) = ctl s" "ctl (keep_prediction p s) = ctl s"
  "ctl (keep_explanation e s) = ctl s" "ctl (keep_decision q s) = ctl s"
  by (simp_all add: ctl_def keep_knowledge_def keep_retrieval_def keep_prediction_def keep_explanation_def
      keep_decision_def)

lemma ctl_run_agent:
  assumes "\<And>r s. ctl (keep r s) = ctl s"
  shows "ctl (run_agent d a op call keep s) = ctl s"
  using ctl_with_retries [of "agent_value a" op call None 1 s]
  by (auto simp: run_agent_def ctl_compress assms split: prod.splits option.splits)

lemma ctl_history: "ctl (s\<lparr>st_telemetry_history := h\<rparr>) = ctl s"
  by (simp add: ctl_def)

lemma ctl_worker:
  "worker a \<Longrightarrow> ctl (agent_node sv d a s) = ctl_visit a (ctl s)"
  by (auto simp: worker_def agent_node_def knowledge_agent_def retrieval_agent_def prediction_agent_def
      explanation_agent_def decision_agent_def Let_def ctl_run_agent ctl_keep ctl_append_trace ctl_history
      simp del: agent_value.simps)

lemma ctl_supervisor: "ctl (agent_node sv d SUPERVISOR s) = ctl_supervise (ctl s)"
  unfolding agent_node_def supervisor_def Let_def agent_name.case ctl_compress
  by (simp add: ctl_supervise_def plan_route_def ctl_def ctl_visit_def append_trace_def Let_def split: list.splits)

lemma ctl_finalizer: "ctl (agent_node sv d FINALIZER s) = ctl_finish (ctl s)"
  unfolding agent_node_def finalizer_def Let_def agent_name.case ctl_estimate_tokens
  by (simp add: ctl_finish_def ctl_def ctl_visit_def append_trace_def)

subsection \<open>What a node does to the answer, the errors and the evidence\<close>

lemma compress_data:
  "st_answer (compress d s) = st_answer s" "st_errors (compress d s) = st_errors s"
  by (simp_all add: compress_def estimate_tokens_def Let_def)

lemma estimate_tokens_data:
  "st_answer (estimate_tokens d s) = st_answer s" "st_errors (estimate_tokens d s) = st_errors s"
  by (simp_all add: estimate_tokens_def Let_def)

lemma append_trace_data:
  "st_answer (append_trace n s) = st_answer s" "st_errors (append_trace n s) = st_errors s"
  by (simp_all add: append_trace_def Let_def)

lemma keep_data:
  "st_answer (keep_knowledge k s) = st_answer s" "st_errors (keep_knowledge k s) = st_errors s"
  "st_answer (keep_retrieval r s) = st_answer s" "st_errors (keep_retrieval r s) = st_errors s"
  "st_answer (keep_prediction p s) = st_answer s" "st_errors (keep_prediction p s) = st_errors s"
  "st_answer (keep_explanation e s) = st_answer s" "st_errors (keep_explanation e s) = st_errors s"
  "st_answer (keep_decision q s) = st_answer s" "st_errors (keep_decision q s) = st_errors s"
  by (simp_all add: keep_knowledge_def keep_retrieval_def keep_prediction_def keep_explanation_def keep_decision_def)

lemmas data_simps = compress_data estimate_tokens_data append_trace_data keep_data

definition one_error :: "agent_name \<Rightarrow> agent_state \<Rightarrow> agent_state \<Rightarrow> bool" where
  "one_error a s s' \<longleftrightarrow> (\<exists>es. st_errors s' = st_errors s @ es \<and> (es = [] \<or> worker a \<and> map ae_agent es = [agent_value a]))"

lemma run_agent_answer:
  assumes "\<And>r s. st_answer (keep r s) = st_answer s"
  shows "st_answer (run_agent d a op call keep s) = st_answer s"
  by (auto simp: run_agent_def with_retries_def compress_data assms split: prod.splits sum.splits option.splits)

lemma worker_simps: "worker KNOWLEDGE" "worker RETRIEVAL" "worker PREDICTION" "worker EXPLANATION" "worker DECISION"
  by (simp_all add: worker_def)

lemma node_keeps_answer: "a \<noteq> FINALIZER \<Longrightarrow> st_answer (agent_node sv d a s) = st_answer s"
  by (cases a) (simp_all add: agent_node_def supervisor_def plan_route_def knowledge_agent_def retrieval_agent_def
      prediction_agent_def explanation_agent_def decision_agent_def Let_def run_agent_answer data_simps
      split: list.splits)

lemma run_agent_errors:
  assumes "\<And>r s. st_errors (keep r s) = st_errors s" "worker a" "st_errors s0 = st_errors s"
  shows "one_error a s (run_agent d a op call keep s0)"
  using assms(2,3)
  by (auto simp: run_agent_def with_retries_def one_error_def compress_data assms(1) split: prod.splits sum.splits option.splits)

lemma same_errors: "st_errors s' = st_errors s \<Longrightarrow> one_error a s s'"
  by (simp add: one_error_def)

lemma node_errors: "one_error a s (agent_node sv d a s)"
  by (cases a) (simp_all add: agent_node_def supervisor_def finalizer_def plan_route_def knowledge_agent_def
      retrieval_agent_def prediction_agent_def explanation_agent_def decision_agent_def Let_def
      run_agent_errors worker_simps data_simps same_errors split: list.splits)

lemma join_nonempty: "p \<noteq> [] \<Longrightarrow> [] \<notin> set p \<Longrightarrow> join sep p \<noteq> []"
  by (induction sep p rule: join.induct) auto

lemma answer_parts_nonempty: "[] \<notin> set (answer_parts s)"
  by (auto simp: answer_parts_def split: option.splits list.splits)

lemma finalizer_answers: "truthy_str (st_answer (agent_node sv d FINALIZER s))"
  using join_nonempty [OF _ answer_parts_nonempty]
  by (simp add: agent_node_def finalizer_def Let_def data_simps)

text \<open>The evidence a run holds on to is bounded (that is what \<open>compress\<close> is for), the response
  is built from it, and the confidence stays in the unit interval if the decision service keeps
  the overall risk there.\<close>

definition data_inv :: "agent_state \<Rightarrow> bool" where
  "data_inv s \<longleftrightarrow> length (st_context_chunks s) \<le> 8 \<and> length (st_graph_nodes s) \<le> 50 \<and> length (st_graph_edges s) \<le> 75
     \<and> length (st_intermediate_payloads s) \<le> 8 \<and> 0 \<le> st_confidence s \<and> st_confidence s \<le> F 0.95
     \<and> (case st_graphrag s of None \<Rightarrow> True
        | Some g \<Rightarrow> rr_vector_hits g = length (rr_context_chunks g) \<and> rr_vector_hits g \<le> 8
            \<and> rr_graph_nodes_expanded g = length (rr_graph_nodes g) \<and> rr_graph_nodes_expanded g \<le> 50)"

definition weak_inv :: "agent_state \<Rightarrow> bool" where
  "weak_inv s \<longleftrightarrow> 0 \<le> st_confidence s \<and> st_confidence s \<le> F 0.95
     \<and> (case st_graphrag s of None \<Rightarrow> True
        | Some g \<Rightarrow> rr_vector_hits g = length (rr_context_chunks g) \<and> rr_vector_hits g \<le> 8
            \<and> rr_graph_nodes_expanded g = length (rr_graph_nodes g) \<and> rr_graph_nodes_expanded g \<le> 50)"

lemma data_weak: "data_inv s \<Longrightarrow> weak_inv s"
  by (simp add: data_inv_def weak_inv_def)

lemma last_n_bound: "length (last_n n xs) \<le> n"
  by (simp add: last_n_def)

lemma compress_inv: "weak_inv s \<Longrightarrow> data_inv (compress d s)"
  by (simp add: data_inv_def weak_inv_def compress_def estimate_tokens_def last_n_bound Let_def)

lemma append_trace_inv: "weak_inv (append_trace n s) = weak_inv s" "data_inv (append_trace n s) = data_inv s"
  by (simp_all add: weak_inv_def data_inv_def append_trace_def Let_def)

lemma estimate_tokens_inv: "data_inv (estimate_tokens d s) = data_inv s"
  by (simp add: data_inv_def estimate_tokens_def Let_def)

lemma keep_inv:
  "weak_inv s \<Longrightarrow> weak_inv (keep_knowledge k s)" "weak_inv s \<Longrightarrow> weak_inv (keep_retrieval r s)"
  "weak_inv s \<Longrightarrow> weak_inv (keep_prediction p s)" "weak_inv s \<Longrightarrow> weak_inv (keep_explanation e s)"
  by (simp_all add: weak_inv_def keep_knowledge_def keep_retrieval_def keep_prediction_def keep_explanation_def)

lemma keep_decision_inv:
  assumes "weak_inv s" "0 \<le> rs_overall_risk_score r"
  shows "weak_inv (keep_decision r s)"
proof -
  have "max (st_confidence s) (min (F 0.95) (F 0.55 + rs_overall_risk_score r * F 0.35)) \<le> F 0.95"
    using assms(1) by (simp add: weak_inv_def)
  then show ?thesis using assms by (simp add: weak_inv_def keep_decision_def le_max_iff_disj)
qed

lemma run_agent_inv:
  assumes "\<And>r s i. call i = Inr r \<Longrightarrow> weak_inv s \<Longrightarrow> weak_inv (keep r s)" "weak_inv s"
  shows "data_inv (run_agent d a op call keep s)"
proof -
  have "weak_inv (s\<lparr>st_retries := rs\<rparr>)" "weak_inv (s\<lparr>st_retries := rs, st_errors := es\<rparr>)" for rs es
    using assms(2) by (simp_all add: weak_inv_def)
  moreover have "\<exists>i. call i = snd (retry_loop 1 call k 0 rs)" for k rs
    using retry_loop_decides [of 0 1 call k rs] by auto
  ultimately show ?thesis using assms(1)
    by (auto simp: run_agent_def with_retries_def split: prod.splits sum.splits intro!: compress_inv)
      (metis snd_conv)
qed

definition risk_bounded :: "services \<Rightarrow> bool" where
  "risk_bounded sv \<longleftrightarrow> (\<forall>i rq r. sv_recommend sv i rq = Inr r \<longrightarrow> 0 \<le> rs_overall_risk_score r)"

lemma node_data_inv:
  assumes "risk_bounded sv" "data_inv s"
  shows "data_inv (agent_node sv d a s)"
proof (cases a)
  case FINALIZER
  have "0 \<le> F 0.65" "F 0.65 \<le> F 0.95" by (intro F_nonneg F_mono; simp)+
  moreover have "0 \<le> F 0.95" by (intro F_nonneg) simp
  ultimately have "data_inv (finalizer d s)" using assms(2)
    unfolding finalizer_def Let_def estimate_tokens_inv
    by (simp add: append_trace_def data_inv_def float_or_def)
  with FINALIZER show ?thesis by (simp add: agent_node_def)
next
  case DECISION
  have "weak_inv (keep_decision r s')"
    if "bind_res (mk_recommendation_request x y z w) (decide sv i) = Inr r" "weak_inv s'" for x y z w i r s'
    using that assms(1) by (auto simp: bind_res_Inr decide_def risk_bounded_def intro!: keep_decision_inv)
  then show ?thesis using DECISION data_weak [OF assms(2)]
    by (auto simp: agent_node_def decision_agent_def Let_def append_trace_inv intro!: run_agent_inv)
next
  case SUPERVISOR
  show ?thesis using SUPERVISOR data_weak [OF assms(2)]
    by (auto simp: agent_node_def supervisor_def Let_def plan_route_def append_trace_def weak_inv_def
        split: list.splits intro!: compress_inv)
next
  case PREDICTION
  have "weak_inv (append_trace n s\<lparr>st_telemetry_history := h\<rparr>)" for n h
    using data_weak [OF assms(2)] by (simp add: weak_inv_def append_trace_def Let_def)
  then show ?thesis using PREDICTION
    by (auto simp: agent_node_def prediction_agent_def Let_def intro!: run_agent_inv keep_inv)
qed (use assms(2) data_weak [OF assms(2)] in \<open>auto simp: agent_node_def knowledge_agent_def retrieval_agent_def
  explanation_agent_def Let_def append_trace_inv intro!: run_agent_inv keep_inv\<close>)

end
