(* ===== verification/Topology.thy ===== *)
theory Topology
  imports Agent_Nodes "HOL-Library.Sublist"
begin

section \<open>The agent graph and the orchestration service\<close>

text \<open>
  \<open>app/orchestration/topology.py\<close> and \<open>service.py\<close>: the deterministic executor
  (\<open>FallbackCompiledGraph.ainvoke\<close>), the edges of the compiled workflow as a step relation, and
  \<open>OrchestrationService.execute\<close>. Both rest only on the control laws of the nodes, which the
  locale \<open>agent_graph\<close> states; the model's nodes satisfy them for any services.
\<close>

subsection \<open>The executor\<close>

text \<open>The while loop of \<open>ainvoke\<close>. It need not end for arbitrary nodes.\<close>

partial_function (option) graph_loop ::
  "(agent_name \<Rightarrow> agent_state \<Rightarrow> agent_state) \<Rightarrow> nat \<Rightarrow> agent_name \<Rightarrow> agent_state \<Rightarrow> (agent_name \<times> agent_state) option" where
  "graph_loop node limit current s =
     (if current = END \<or> limit \<le> st_transition_count s then Some (current, s)
      else if current = SUPERVISOR then
        graph_loop node limit (fst (supervisor_next (node current s))) (snd (supervisor_next (node current s)))
      else if current = FINALIZER then graph_loop node limit END (node current s)
      else graph_loop node limit (fst (next_after_agent (node current s))) (snd (next_after_agent (node current s))))"

definition ainvoke :: "(agent_name \<Rightarrow> agent_state \<Rightarrow> agent_state) \<Rightarrow> nat \<Rightarrow> agent_state \<Rightarrow> agent_state option" where
  "ainvoke node limit s =
     map_option (\<lambda>(current, s'). if current \<noteq> END \<and> \<not> st_terminal s' then node FINALIZER s' else s')
       (graph_loop node limit SUPERVISOR s)"

subsection \<open>The workflow\<close>

text \<open>
  The edges \<open>build_agent_graph\<close> gives to LangGraph: a node runs, then its edge function picks the
  next node; the graph keeps what the node returned, not what the edge function assigns.
\<close>

inductive workflow_step ::
  "(agent_name \<Rightarrow> agent_state \<Rightarrow> agent_state) \<Rightarrow> agent_name \<times> agent_state \<Rightarrow> agent_name \<times> agent_state \<Rightarrow> bool"
  for node where
  supervise: "s' = node SUPERVISOR s \<Longrightarrow> workflow_step node (SUPERVISOR, s) (fst (supervisor_next s'), s')"
| work: "worker a \<Longrightarrow> s' = node a s \<Longrightarrow> workflow_step node (a, s) (fst (next_after_agent s'), s')"
| finish: "workflow_step node (FINALIZER, s) (END, node FINALIZER s)"

code_pred (modes: i \<Rightarrow> i \<Rightarrow> o \<Rightarrow> bool) workflow_step .

inductive_cases workflow_stepE: "workflow_step node (a, s) c"

inductive_simps workflow_step_simps:
  "workflow_step node (SUPERVISOR, s) c" "workflow_step node (FINALIZER, s) c" "workflow_step node (END, s) c"

inductive workflow_reaches ::
  "(agent_name \<Rightarrow> agent_state \<Rightarrow> agent_state) \<Rightarrow> agent_state \<Rightarrow> agent_name \<times> agent_state \<Rightarrow> bool"
  for node s0 where
  entry: "workflow_reaches node s0 (SUPERVISOR, s0)"
| step: "workflow_reaches node s0 c \<Longrightarrow> workflow_step node c c' \<Longrightarrow> workflow_reaches node s0 c'"

subsection \<open>The service\<close>

record orchestrator_response =
  or_request_id :: str
  or_answer :: str
  or_active_asset_id :: "str option"
  or_component_id :: "str option"
  or_confidence :: float64
  or_route_taken :: "str list"
  or_trace :: "trace_step list"
  or_errors :: "agent_error list"
  or_token_metrics :: token_metrics
  or_graphrag :: "rag_response option"
  or_prediction :: "inference_response option"
  or_explanation :: "explanation_response option"
  or_decision :: "recommendation_response option"

definition no_answer :: str where
  "no_answer = ''The orchestrator completed without a generated answer.''"

definition response_of :: "bool \<Rightarrow> agent_state \<Rightarrow> orchestrator_response" where
  "response_of debug s = \<lparr>
     or_request_id = st_request_id s,
     or_answer = (if truthy_str (st_answer s) then the (st_answer s) else no_answer),
     or_active_asset_id = st_active_asset_id s, or_component_id = st_component_id s,
     or_confidence = st_confidence s, or_route_taken = st_visited_nodes s,
     or_trace = (if debug then st_trace s else []), or_errors = st_errors s,
     or_token_metrics = st_token_metrics s, or_graphrag = st_graphrag s,
     or_prediction = st_prediction s, or_explanation = st_explanation s, or_decision = st_decision s\<rparr>"

definition recursion_limit :: "orchestrator_request \<Rightarrow> nat" where
  "recursion_limit q = max (oq_max_transitions q * 3) 30"

definition execute ::
  "services \<Rightarrow> (agent_state \<Rightarrow> nat) \<Rightarrow> str \<Rightarrow> orchestrator_request \<Rightarrow> orchestrator_response option" where
  "execute sv dump_len rid q =
     map_option (response_of (oq_include_debug_trace q))
       (ainvoke (agent_node sv dump_len) (recursion_limit q) (from_request q rid))"

subsection \<open>The route\<close>

text \<open>The nodes a run visits from the supervisor, at transition \<open>c\<close> of a budget \<open>m\<close>, with the
  plan \<open>p\<close> ahead: it depends on nothing else.\<close>

fun route_from :: "nat \<Rightarrow> nat \<Rightarrow> agent_name list \<Rightarrow> agent_name list" where
  "route_from m c [] = []"
| "route_from m c (a # p) =
     (if m \<le> Suc c then [SUPERVISOR]
      else SUPERVISOR # a #
        (if a = FINALIZER then []
         else if m \<le> Suc (Suc c) then [FINALIZER]
         else route_from m (Suc (Suc c)) p))"

definition supervised :: "agent_name list \<Rightarrow> agent_name list" where
  "supervised p = concat (map (\<lambda>a. [SUPERVISOR, a]) p)"

lemma supervised_simps [simp]: "supervised [] = []" "supervised (a # p) = SUPERVISOR # a # supervised p"
  by (simp_all add: supervised_def)

text \<open>In closed form: the whole plan if the budget allows two transitions per step; otherwise the
  steps that fit, and then the finalizer if the budget is even but only the supervisor if it is odd.\<close>

definition route_within :: "nat \<Rightarrow> agent_name list \<Rightarrow> agent_name list" where
  "route_within m p =
     (if 2 * length p \<le> m then supervised p
      else supervised (take (m div 2) p) @ [if even m then FINALIZER else SUPERVISOR])"

lemma route_from_within:
  assumes "list_all worker ws" and "c < m"
  shows "route_from m c (ws @ [FINALIZER]) = route_within (m - c) (ws @ [FINALIZER])"
  using assms
proof (induction ws arbitrary: c)
  case Nil
  then show ?case by (cases "m = Suc c") (auto simp: route_within_def)
next
  case (Cons a ws)
  have a: "a \<noteq> FINALIZER" using Cons.prems by (auto simp: worker_def)
  consider (one) "m = Suc c" | (two) "m = Suc (Suc c)" | (more) "Suc (Suc c) < m" using Cons.prems by linarith
  then show ?case
  proof cases
    case more
    obtain k where k: "m - c = Suc (Suc k)" "m - Suc (Suc c) = k" using more
      by (metis Suc_diff_Suc Suc_lessD)
    have "route_from m (Suc (Suc c)) (ws @ [FINALIZER]) = route_within k (ws @ [FINALIZER])"
      using Cons.IH [of "Suc (Suc c)"] Cons.prems more k(2) by simp
    then show ?thesis using a more k(1) by (simp add: route_within_def)
  qed (auto simp: route_within_def a)
qed

subsection \<open>The contract between the executor and the nodes\<close>

text \<open>Every control operation appends one numbered visit.\<close>

definition visits :: "agent_name \<Rightarrow> control \<Rightarrow> control \<Rightarrow> bool" where
  "visits a c c' \<longleftrightarrow> ct_visited c' = ct_visited c @ [agent_value a] \<and> ct_count c' = Suc (ct_count c)
     \<and> (\<exists>t. ct_trace c' = ct_trace c @ [t] \<and> ts_node t = agent_value a \<and> ts_transition_index t = Suc (ct_count c))"

lemma visits_ctl:
  "visits a c (ctl_visit a c)" "visits SUPERVISOR c (ctl_supervise c)" "visits FINALIZER c (ctl_finish c)"
  by (auto simp: visits_def ctl_visit_def ctl_supervise_def ctl_finish_def Let_def split: list.splits)

locale agent_graph =
  fixes node :: "agent_name \<Rightarrow> agent_state \<Rightarrow> agent_state"
  assumes worker_law: "worker a \<Longrightarrow> ctl (node a s) = ctl_visit a (ctl s)"
    and supervisor_law: "ctl (node SUPERVISOR s) = ctl_supervise (ctl s)"
    and finalizer_law: "ctl (node FINALIZER s) = ctl_finish (ctl s)"
    and answer_law: "a \<noteq> FINALIZER \<Longrightarrow> st_answer (node a s) = st_answer s"
    and answered_law: "truthy_str (st_answer (node FINALIZER s))"
    and errors_law: "one_error a s (node a s)"
begin

text \<open>The fields of the control state, read on the agents' state.\<close>

lemma fields [simp]:
  "ct_count (ctl s) = st_transition_count s" "ct_visited (ctl s) = st_visited_nodes s" "ct_trace (ctl s) = st_trace s"
  "ct_plan (ctl s) = st_route_plan s" "ct_next (ctl s) = st_next_route s" "ct_terminal (ctl s) = st_terminal s"
  "ct_max (ctl s) = st_max_transitions s" "ct_query (ctl s) = st_query_text s"
  by (simp_all add: ctl_def)

lemma node_max: "a \<noteq> END \<Longrightarrow> st_max_transitions (node a s) = st_max_transitions s"
  using arg_cong [OF supervisor_law [of s], of ct_max] arg_cong [OF finalizer_law [of s], of ct_max]
    arg_cong [OF worker_law [of a s], of ct_max]
  by (cases a) (auto simp: ctl_visit_def ctl_supervise_def ctl_finish_def Let_def worker_def split: list.splits)

lemma supervisor_fields:
  "st_transition_count (node SUPERVISOR s) = ct_count (ctl_supervise (ctl s))"
  "st_visited_nodes (node SUPERVISOR s) = ct_visited (ctl_supervise (ctl s))"
  "st_route_plan (node SUPERVISOR s) = ct_plan (ctl_supervise (ctl s))"
  "st_next_route (node SUPERVISOR s) = ct_next (ctl_supervise (ctl s))"
  "st_terminal (node SUPERVISOR s) = ct_terminal (ctl_supervise (ctl s))"
  "st_max_transitions (node SUPERVISOR s) = ct_max (ctl_supervise (ctl s))"
  "st_query_text (node SUPERVISOR s) = ct_query (ctl_supervise (ctl s))"
  by (simp_all flip: supervisor_law)

lemma worker_fields:
  assumes "worker a"
  shows "st_transition_count (node a s) = Suc (st_transition_count s)"
    "st_visited_nodes (node a s) = st_visited_nodes s @ [agent_value a]"
    "st_route_plan (node a s) = st_route_plan s" "st_next_route (node a s) = st_next_route s"
    "st_terminal (node a s) = st_terminal s" "st_max_transitions (node a s) = st_max_transitions s"
    "st_query_text (node a s) = st_query_text s"
  using worker_law [OF assms, of s] by (simp_all add: ctl_def ctl_visit_def)

lemma finalizer_fields:
  "st_visited_nodes (node FINALIZER s) = st_visited_nodes s @ [agent_value FINALIZER]"
  "st_transition_count (node FINALIZER s) = Suc (st_transition_count s)"
  "st_terminal (node FINALIZER s)"
  using finalizer_law [of s] by (simp_all add: ctl_def ctl_visit_def ctl_finish_def)

definition ahead :: "agent_state \<Rightarrow> agent_name list" where
  "ahead s = (if st_route_plan s = [] then route_of_query (st_query_text s) else st_route_plan s)"

lemma supervisor_stops:
  assumes "\<not> st_terminal s" "st_max_transitions s \<le> Suc (st_transition_count s)"
  shows "fst (supervisor_next (node SUPERVISOR s)) = END"
    "st_visited_nodes (snd (supervisor_next (node SUPERVISOR s))) = st_visited_nodes s @ [agent_value SUPERVISOR]"
    "st_terminal (snd (supervisor_next (node SUPERVISOR s)))"
  using assms by (simp_all add: supervisor_next_def supervisor_fields ctl_supervise_def ctl_visit_def)

lemma supervisor_goes:
  assumes "\<not> st_terminal s" "Suc (st_transition_count s) < st_max_transitions s" "ahead s = a # p"
  defines "s2 \<equiv> snd (supervisor_next (node SUPERVISOR s))"
  shows "fst (supervisor_next (node SUPERVISOR s)) = a"
    "st_transition_count s2 = Suc (st_transition_count s)"
    "st_visited_nodes s2 = st_visited_nodes s @ [agent_value SUPERVISOR]"
    "st_route_plan s2 = p" "\<not> st_terminal s2"
    "st_max_transitions s2 = st_max_transitions s" "st_query_text s2 = st_query_text s"
  using assms(1-3) unfolding s2_def
  by (simp_all add: supervisor_next_def supervisor_fields ctl_supervise_def ctl_visit_def ahead_def
      split: if_splits)

lemma loop_ends: "graph_loop node limit END s = Some (END, s)"
  by (subst graph_loop.simps) simp

lemma loop_supervisor:
  "st_transition_count s < limit \<Longrightarrow> graph_loop node limit SUPERVISOR s
     = graph_loop node limit (fst (supervisor_next (node SUPERVISOR s))) (snd (supervisor_next (node SUPERVISOR s)))"
  by (subst graph_loop.simps) simp

lemma loop_worker:
  "worker a \<Longrightarrow> st_transition_count s < limit \<Longrightarrow> graph_loop node limit a s
     = graph_loop node limit (fst (next_after_agent (node a s))) (snd (next_after_agent (node a s)))"
  by (subst graph_loop.simps) (auto simp: worker_def)

lemma loop_finalizer:
  "st_transition_count s < limit \<Longrightarrow> graph_loop node limit FINALIZER s = Some (END, node FINALIZER s)"
  by (subst graph_loop.simps) (simp add: loop_ends)

lemma loop_follows_plan:
  assumes "list_all worker ws" "ahead s = ws @ [FINALIZER]" "\<not> st_terminal s"
    "st_transition_count s < st_max_transitions s" "Suc (st_max_transitions s) < limit"
  shows "\<exists>s'. graph_loop node limit SUPERVISOR s = Some (END, s') \<and> st_terminal s' \<and>
     st_visited_nodes s' = st_visited_nodes s
       @ map agent_value (route_from (st_max_transitions s) (st_transition_count s) (ws @ [FINALIZER]))"
  using assms
proof (induction ws arbitrary: s)
  case Nil
  note go = supervisor_goes [of s FINALIZER "[]"] and stop = supervisor_stops [of s]
  show ?case using Nil go stop
    by (cases "st_max_transitions s \<le> Suc (st_transition_count s)")
      (simp_all add: loop_supervisor loop_ends loop_finalizer finalizer_fields)
next
  case (Cons a ws)
  have a: "worker a" "a \<noteq> FINALIZER" using Cons.prems by (auto simp: worker_def)
  let ?m = "st_max_transitions s" and ?c = "st_transition_count s"
  consider (stop) "?m \<le> Suc ?c" | (go) "Suc ?c < ?m" by linarith
  then show ?case
  proof cases
    case stop
    then show ?thesis using Cons.prems supervisor_stops [of s]
      by (simp add: loop_supervisor loop_ends)
  next
    case go
    let ?s2 = "snd (supervisor_next (node SUPERVISOR s))"
    note s2 = supervisor_goes [OF Cons.prems(3) go, of a "ws @ [FINALIZER]", simplified Cons.prems(2), simplified]
    let ?s3 = "node a ?s2"
    note s3 = worker_fields [OF a(1), of ?s2, unfolded s2]
    have loop: "graph_loop node limit SUPERVISOR s
        = graph_loop node limit (fst (next_after_agent ?s3)) (snd (next_after_agent ?s3))"
      using Cons.prems a s2 go by (simp add: loop_supervisor loop_worker)
    show ?thesis
    proof (cases "?m \<le> Suc (Suc ?c)")
      case True
      then show ?thesis using Cons.prems go a loop s3
        by (simp add: next_after_agent_def loop_finalizer finalizer_fields)
    next
      case False
      then have next_agent: "next_after_agent ?s3 = (SUPERVISOR, ?s3)"
        using s3 by (simp add: next_after_agent_def)
      have "ahead ?s3 = ws @ [FINALIZER]" using s3 by (simp add: ahead_def)
      then show ?thesis
        using Cons.IH [of ?s3] Cons.prems False go a s3 s2(5) loop next_agent by simp
    qed
  qed
qed

text \<open>What every state of a run satisfies: the trace numbers the visited nodes from 1, the errors
  are those of visited agents in the order of the visits, at most one per visit, and there is an
  answer exactly when the finalizer was visited.\<close>

definition state_inv :: "agent_state \<Rightarrow> bool" where
  "state_inv s \<longleftrightarrow> map ts_node (st_trace s) = st_visited_nodes s
     \<and> map ts_transition_index (st_trace s) = [1..<Suc (st_transition_count s)]
     \<and> subseq (map ae_agent (st_errors s)) (st_visited_nodes s)
     \<and> (truthy_str (st_answer s) \<longleftrightarrow> agent_value FINALIZER \<in> set (st_visited_nodes s))"

lemma node_visits:
  assumes "a \<noteq> END"
  shows "st_visited_nodes (node a s) = st_visited_nodes s @ [agent_value a]"
    "st_transition_count (node a s) = Suc (st_transition_count s)"
    "\<exists>t. st_trace (node a s) = st_trace s @ [t] \<and> ts_node t = agent_value a
       \<and> ts_transition_index t = Suc (st_transition_count s)"
proof -
  have "visits a (ctl s) (ctl (node a s))"
    using assms worker_law [of a s] supervisor_law [of s] finalizer_law [of s]
      visits_ctl(1) [of a "ctl s"] visits_ctl(2,3) [of "ctl s"]
    by (cases a) (simp_all add: worker_def)
  then show "st_visited_nodes (node a s) = st_visited_nodes s @ [agent_value a]"
    "st_transition_count (node a s) = Suc (st_transition_count s)"
    "\<exists>t. st_trace (node a s) = st_trace s @ [t] \<and> ts_node t = agent_value a
       \<and> ts_transition_index t = Suc (st_transition_count s)"
    by (auto simp: visits_def simp del: agent_value.simps)
qed

lemma node_inv:
  assumes "a \<noteq> END" "state_inv s"
  shows "state_inv (node a s)"
proof -
  obtain t where t: "st_trace (node a s) = st_trace s @ [t]" "ts_node t = agent_value a"
    "ts_transition_index t = Suc (st_transition_count s)"
    using node_visits(3) [OF assms(1)] by blast
  obtain es where es: "st_errors (node a s) = st_errors s @ es" "es = [] \<or> map ae_agent es = [agent_value a]"
    using errors_law [of a s] by (auto simp: one_error_def)
  have "subseq (map ae_agent es) [agent_value a]" using es(2) by auto
  then have "subseq (map ae_agent (st_errors (node a s))) (st_visited_nodes (node a s))"
    using assms(2) es(1) node_visits(1) [OF assms(1), of s] by (simp add: state_inv_def list_emb_append_mono)
  moreover have "truthy_str (st_answer (node a s)) \<longleftrightarrow> agent_value FINALIZER \<in> set (st_visited_nodes (node a s))"
    using assms answered_law [of s] answer_law [of a s] node_visits(1) [OF assms(1), of s]
    by (cases "a = FINALIZER") (auto simp: state_inv_def simp del: agent_value.simps)
  ultimately show ?thesis
    using assms t node_visits(1,2) [OF assms(1), of s] by (simp add: state_inv_def)
qed

end

text \<open>The edge functions leave everything but the plan, the route and the flags alone.\<close>

lemma edge_fields:
  "st_visited_nodes (snd (supervisor_next s)) = st_visited_nodes s"
  "st_trace (snd (supervisor_next s)) = st_trace s"
  "st_transition_count (snd (supervisor_next s)) = st_transition_count s"
  "st_errors (snd (supervisor_next s)) = st_errors s"
  "st_answer (snd (supervisor_next s)) = st_answer s"
  "st_max_transitions (snd (supervisor_next s)) = st_max_transitions s"
  "st_visited_nodes (snd (next_after_agent s)) = st_visited_nodes s"
  "st_trace (snd (next_after_agent s)) = st_trace s"
  "st_transition_count (snd (next_after_agent s)) = st_transition_count s"
  "st_errors (snd (next_after_agent s)) = st_errors s"
  "st_answer (snd (next_after_agent s)) = st_answer s"
  "st_max_transitions (snd (next_after_agent s)) = st_max_transitions s"
  by (auto simp: supervisor_next_def next_after_agent_def plan_route_def Let_def split: option.splits list.splits)

context agent_graph
begin

lemma edge_inv:
  "state_inv (snd (supervisor_next s)) = state_inv s" "state_inv (snd (next_after_agent s)) = state_inv s"
  by (simp_all add: state_inv_def edge_fields)

lemma loop_invariant:
  assumes node: "\<And>a s. a \<noteq> END \<Longrightarrow> I s \<Longrightarrow> I (node a s)"
    and edge: "\<And>s. I s \<Longrightarrow> I (snd (supervisor_next s))" "\<And>s. I s \<Longrightarrow> I (snd (next_after_agent s))"
    and run: "graph_loop node limit a s = Some r" and start: "I s"
  shows "I (snd r)"
proof -
  have "node = node \<longrightarrow> I s \<longrightarrow> I (snd r)"
    by (rule graph_loop.raw_induct [where P = "\<lambda>n _ _ s r. n = node \<longrightarrow> I s \<longrightarrow> I (snd r)", OF _ run])
      (auto simp: node edge split: if_splits)
  then show ?thesis using start by blast
qed

text \<open>The executor on a fresh state: it returns, along the route the plan and the budget fix.\<close>

lemma ainvoke_follows_plan:
  assumes "st_route_plan s = []" "\<not> st_terminal s" "st_transition_count s = 0" "st_visited_nodes s = []"
    and "1 \<le> st_max_transitions s" "Suc (st_max_transitions s) < limit"
  shows "\<exists>s'. ainvoke node limit s = Some s' \<and> graph_loop node limit SUPERVISOR s = Some (END, s')
     \<and> st_visited_nodes s' = map agent_value (route_within (st_max_transitions s) (route_of_query (st_query_text s)))"
proof -
  obtain ws where ws: "route_of_query (st_query_text s) = ws @ [FINALIZER]" "list_all worker ws"
    using route_shape by blast
  have "ahead s = ws @ [FINALIZER]" using assms(1) ws(1) by (simp add: ahead_def)
  from loop_follows_plan [OF ws(2) this assms(2) _ assms(6)] obtain s' where
    "graph_loop node limit SUPERVISOR s = Some (END, s')"
    "st_visited_nodes s' = map agent_value (route_from (st_max_transitions s) 0 (ws @ [FINALIZER]))"
    using assms(3-5) by auto
  moreover have "route_from (st_max_transitions s) 0 (ws @ [FINALIZER]) = route_within (st_max_transitions s) (ws @ [FINALIZER])"
    using route_from_within [OF ws(2), of 0 "st_max_transitions s"] assms(5) by simp
  ultimately show ?thesis using ws(1) by (auto simp: ainvoke_def)
qed

lemma ainvoke_invariant:
  assumes node: "\<And>a s. a \<noteq> END \<Longrightarrow> I s \<Longrightarrow> I (node a s)"
    and edge: "\<And>s. I s \<Longrightarrow> I (snd (supervisor_next s))" "\<And>s. I s \<Longrightarrow> I (snd (next_after_agent s))"
    and run: "graph_loop node limit SUPERVISOR s = Some (END, s')" and start: "I s"
  shows "I s'"
  using loop_invariant [of I, OF node edge run start] by simp

text \<open>Reachable configurations of the workflow: the transition budget bounds the runs.\<close>

definition config_ok :: "nat \<Rightarrow> agent_name \<times> agent_state \<Rightarrow> bool" where
  "config_ok m c \<longleftrightarrow> (case c of (a, s) \<Rightarrow> state_inv s \<and> st_max_transitions s = m
     \<and> list_all (\<lambda>x. worker x \<or> x = FINALIZER) (st_route_plan s)
     \<and> st_transition_count s \<le> (if a = END then Suc m else if a = FINALIZER then m else m - 1))"

lemma supervisor_choice:
  assumes "list_all (\<lambda>x. worker x \<or> x = FINALIZER) (st_route_plan s)"
  shows "list_all (\<lambda>x. worker x \<or> x = FINALIZER) (st_route_plan (node SUPERVISOR s))"
    "(let a = fst (supervisor_next (node SUPERVISOR s)) in
       a = END \<or> (worker a \<or> a = FINALIZER) \<and> Suc (st_transition_count s) < st_max_transitions s)"
proof -
  have "list_all (\<lambda>x. worker x \<or> x = FINALIZER) (route_of_query (st_query_text s))"
    using route_shape [of "st_query_text s"] by (auto simp: list_all_iff)
  then show "list_all (\<lambda>x. worker x \<or> x = FINALIZER) (st_route_plan (node SUPERVISOR s))"
    "(let a = fst (supervisor_next (node SUPERVISOR s)) in
       a = END \<or> (worker a \<or> a = FINALIZER) \<and> Suc (st_transition_count s) < st_max_transitions s)"
    using assms
    by (auto simp: supervisor_next_def supervisor_fields ctl_supervise_def ctl_visit_def Let_def split: list.splits)
qed

lemma step_ok:
  assumes "workflow_step node c c'" "config_ok m c" "1 \<le> m"
  shows "config_ok m c'" "st_transition_count (snd c') = Suc (st_transition_count (snd c))"
proof -
  obtain a s where c: "c = (a, s)" by fastforce
  have ok: "state_inv s" "st_max_transitions s = m" "list_all (\<lambda>x. worker x \<or> x = FINALIZER) (st_route_plan s)"
    "st_transition_count s \<le> (if a = END then Suc m else if a = FINALIZER then m else m - 1)"
    using assms(2) unfolding c config_ok_def by simp_all
  have a: "a \<noteq> END" using assms(1) unfolding c by (auto elim!: workflow_stepE simp: worker_def)
  note node = node_inv [OF a ok(1)] node_max [OF a, of s] node_visits(2) [OF a, of s]
  show "config_ok m c'"
    using assms(1) unfolding c
  proof (cases rule: workflow_step.cases)
    case supervise
    then show ?thesis using ok node supervisor_choice [OF ok(3)] assms(3)
      by (auto simp: config_ok_def Let_def)
  next
    case work
    then show ?thesis using ok node assms(3) worker_fields(3) [of a s]
      by (auto simp: config_ok_def next_after_agent_def worker_def split: if_splits)
  next
    case finish
    have "st_route_plan (node FINALIZER s) = st_route_plan s"
      using finalizer_law [of s] by (simp add: ctl_def ctl_visit_def ctl_finish_def)
    then show ?thesis using finish ok node by (simp add: config_ok_def)
  qed
  show "st_transition_count (snd c') = Suc (st_transition_count (snd c))"
    using assms(1) node(3) unfolding c by (auto elim!: workflow_stepE)
qed

lemma reaches_ok:
  assumes "workflow_reaches node s0 c" "config_ok m (SUPERVISOR, s0)" "1 \<le> m"
  shows "config_ok m c"
  using assms by (induction rule: workflow_reaches.induct) (auto dest: step_ok(1))

lemma workflow_progress: "a \<noteq> END \<Longrightarrow> \<exists>c'. workflow_step node (a, s) c'"
  by (cases a) (force intro: workflow_step.intros simp: worker_def)+

end

subsection \<open>The agents satisfy the contract\<close>

interpretation nodes: agent_graph "agent_node sv d" for sv d
  by unfold_locales
    (simp_all add: ctl_worker ctl_supervisor ctl_finalizer node_keeps_answer finalizer_answers node_errors)

lemma fresh_state:
  "st_route_plan (from_request q rid) = []" "\<not> st_terminal (from_request q rid)"
  "st_transition_count (from_request q rid) = 0" "st_visited_nodes (from_request q rid) = []"
  "st_max_transitions (from_request q rid) = oq_max_transitions q" "st_query_text (from_request q rid) = oq_query_text q"
  by (simp_all add: from_request_def)

lemma fresh_inv: "nodes.state_inv (from_request q rid)" "data_inv (from_request q rid)"
proof -
  have "0 \<le> F 0.95" by (intro F_nonneg) simp
  then show "nodes.state_inv (from_request q rid)" "data_inv (from_request q rid)"
    by (simp_all add: nodes.state_inv_def data_inv_def from_request_def)
qed

lemma execute_run:
  assumes "mk_orchestrator_request q = Inr q"
  obtains s where "ainvoke (agent_node sv d) (recursion_limit q) (from_request q rid) = Some s"
    "execute sv d rid q = Some (response_of (oq_include_debug_trace q) s)"
    "graph_loop (agent_node sv d) (recursion_limit q) SUPERVISOR (from_request q rid) = Some (END, s)"
    "st_visited_nodes s = map agent_value (route_within (oq_max_transitions q) (route_of_query (oq_query_text q)))"
proof -
  have "1 \<le> oq_max_transitions q" "Suc (oq_max_transitions q) < recursion_limit q"
    using assms by (auto simp: mk_orchestrator_request_def recursion_limit_def)
  then obtain s where "ainvoke (agent_node sv d) (recursion_limit q) (from_request q rid) = Some s"
    "graph_loop (agent_node sv d) (recursion_limit q) SUPERVISOR (from_request q rid) = Some (END, s)"
    "st_visited_nodes s = map agent_value (route_within (oq_max_transitions q) (route_of_query (oq_query_text q)))"
    using nodes.ainvoke_follows_plan [of "from_request q rid" "recursion_limit q" sv d, OF fresh_state(1-4)]
    unfolding fresh_state(5,6) by blast
  then show thesis using that unfolding execute_def by simp
qed

lemma response_fields:
  "or_route_taken (response_of b s) = st_visited_nodes s" "or_errors (response_of b s) = st_errors s"
  "or_trace (response_of b s) = (if b then st_trace s else [])" "or_confidence (response_of b s) = st_confidence s"
  "or_graphrag (response_of b s) = st_graphrag s"
  "or_answer (response_of b s) = (if truthy_str (st_answer s) then the (st_answer s) else no_answer)"
  by (simp_all add: response_of_def)

lemma run_inv:
  assumes "graph_loop (agent_node sv d) limit SUPERVISOR (from_request q rid) = Some (END, s)"
  shows "nodes.state_inv s"
  by (rule nodes.ainvoke_invariant [of nodes.state_inv, OF _ _ _ assms fresh_inv(1)]) (simp_all add: nodes.node_inv nodes.edge_inv)

lemma edge_data_inv: "data_inv (snd (supervisor_next s)) = data_inv s" "data_inv (snd (next_after_agent s)) = data_inv s"
  by (auto simp: supervisor_next_def next_after_agent_def plan_route_def data_inv_def Let_def split: option.splits list.splits)

lemma run_data_inv:
  assumes "graph_loop (agent_node sv d) limit SUPERVISOR (from_request q rid) = Some (END, s)" "risk_bounded sv"
  shows "data_inv s"
  by (rule nodes.ainvoke_invariant [of data_inv, OF _ _ _ assms(1) fresh_inv(2)])
    (simp_all add: node_data_inv [OF assms(2)] edge_data_inv)

lemma finalizer_in_route:
  assumes "1 \<le> m"
  shows "FINALIZER \<in> set (route_within m (route_of_query t)) \<longleftrightarrow> 2 * length (route_of_query t) \<le> m \<or> even m"
proof -
  obtain ws where ws: "route_of_query t = ws @ [FINALIZER]" "list_all worker ws" using route_shape by blast
  have "FINALIZER \<notin> set ws" using ws(2) by (auto simp: list_all_iff worker_def)
  then have "FINALIZER \<notin> set (supervised (take n ws))" for n
    by (auto simp: supervised_def dest: in_set_takeD)
  moreover have "FINALIZER \<in> set (supervised (ws @ [FINALIZER]))" by (simp add: supervised_def)
  ultimately show ?thesis by (auto simp: route_within_def ws(1) supervised_def)
qed

text \<open>C7. Every orchestrator request is answered: the executor terminates within its recursion
  limit, and the nodes it visits depend only on the words of the query and on the transition
  budget, never on what the tools return or raise: the supervisor and one planned agent in turn
  through the whole plan when the budget allows two transitions per planned step; otherwise the
  steps that fit, closed by the finalizer for an even budget and by the supervisor for an odd one.\<close>

theorem execute_route:
  assumes "mk_orchestrator_request q = Inr q"
  shows "\<exists>r. execute sv d rid q = Some r
     \<and> or_route_taken r = map agent_value (route_within (oq_max_transitions q) (route_of_query (oq_query_text q)))"
  using execute_run [OF assms, of sv d rid] response_fields(1) by metis

text \<open>C8. A request gets a generated answer exactly when its budget lets the finalizer run: two
  transitions per planned step, or any even budget. With a smaller odd budget (the schema admits 3
  to 50) the graph ends at the supervisor and the response carries the placeholder text.\<close>

theorem execute_answer:
  assumes "mk_orchestrator_request q = Inr q"
  shows "\<exists>s. ainvoke (agent_node sv d) (recursion_limit q) (from_request q rid) = Some s
     \<and> execute sv d rid q = Some (response_of (oq_include_debug_trace q) s)
     \<and> (if 2 * length (route_of_query (oq_query_text q)) \<le> oq_max_transitions q \<or> even (oq_max_transitions q)
        then truthy_str (st_answer s)
        else or_answer (response_of (oq_include_debug_trace q) s) = no_answer)"
proof -
  obtain s where s: "ainvoke (agent_node sv d) (recursion_limit q) (from_request q rid) = Some s"
    "execute sv d rid q = Some (response_of (oq_include_debug_trace q) s)"
    "graph_loop (agent_node sv d) (recursion_limit q) SUPERVISOR (from_request q rid) = Some (END, s)"
    "st_visited_nodes s = map agent_value (route_within (oq_max_transitions q) (route_of_query (oq_query_text q)))"
    by (rule execute_run [OF assms])
  have "1 \<le> oq_max_transitions q" using assms by (simp add: mk_orchestrator_request_def)
  then have "truthy_str (st_answer s) \<longleftrightarrow>
      2 * length (route_of_query (oq_query_text q)) \<le> oq_max_transitions q \<or> even (oq_max_transitions q)"
    using run_inv [OF s(3)] s(4) finalizer_in_route
    by (simp add: nodes.state_inv_def image_iff del: agent_value.simps)
  then show ?thesis using s(1,2) by (auto simp: response_fields)
qed

text \<open>C9. The audit trail of a response is exact: the trace, when asked for, lists the visited
  nodes numbered from 1, and the errors are a subsequence of the route: at most one per visit, of
  the agent visited, in the order of the visits. No failure of a tool escapes the service.\<close>

theorem execute_audit:
  assumes "mk_orchestrator_request q = Inr q"
  shows "\<exists>r. execute sv d rid q = Some r \<and> subseq (map ae_agent (or_errors r)) (or_route_taken r)
     \<and> map ts_node (or_trace r) = (if oq_include_debug_trace q then or_route_taken r else [])
     \<and> map ts_transition_index (or_trace r) = [1..<Suc (length (or_trace r))]"
proof -
  obtain s where s: "execute sv d rid q = Some (response_of (oq_include_debug_trace q) s)"
    "graph_loop (agent_node sv d) (recursion_limit q) SUPERVISOR (from_request q rid) = Some (END, s)"
    using execute_run [OF assms, of sv d rid] by metis
  have inv: "nodes.state_inv s" by (rule run_inv [OF s(2)])
  then have "st_transition_count s = length (st_trace s)"
    unfolding nodes.state_inv_def by (metis diff_Suc_1 length_map length_upt)
  then show ?thesis using s(1) inv by (simp add: nodes.state_inv_def response_fields del: upt_Suc)
qed

text \<open>The evidence of a response is bounded and self-consistent whatever the tools return: at
  most 8 chunks and 50 nodes, counted exactly, and a confidence between 0 and 0.95 when the
  decision service reports a non-negative overall risk.\<close>

theorem execute_bounds:
  assumes "mk_orchestrator_request q = Inr q" and "risk_bounded sv"
  shows "\<exists>r. execute sv d rid q = Some r \<and> 0 \<le> or_confidence r \<and> or_confidence r \<le> F 0.95
     \<and> (case or_graphrag r of None \<Rightarrow> True
        | Some g \<Rightarrow> rr_vector_hits g = length (rr_context_chunks g) \<and> rr_vector_hits g \<le> 8
            \<and> rr_graph_nodes_expanded g = length (rr_graph_nodes g) \<and> rr_graph_nodes_expanded g \<le> 50)"
proof -
  obtain s where s: "execute sv d rid q = Some (response_of (oq_include_debug_trace q) s)"
    "graph_loop (agent_node sv d) (recursion_limit q) SUPERVISOR (from_request q rid) = Some (END, s)"
    using execute_run [OF assms(1), of sv d rid] by metis
  have "data_inv s" by (rule run_data_inv [OF s(2) assms(2)])
  then show ?thesis using s(1) by (simp add: data_inv_def response_fields)
qed

text \<open>The compiled workflow respects the transition budget: in every configuration reachable
  from a request, under any services, the transition count is the number of visited nodes and is
  at most one above the budget, there is an answer exactly if the finalizer was visited, and
  unless the end is reached another step is possible, which raises the count.\<close>

theorem workflow_bounded:
  assumes "workflow_reaches (agent_node sv d) (from_request q rid) (a, s)" and "1 \<le> oq_max_transitions q"
  shows "st_transition_count s = length (st_visited_nodes s) \<and> st_transition_count s \<le> Suc (oq_max_transitions q)
     \<and> (truthy_str (st_answer s) = (agent_value FINALIZER \<in> set (st_visited_nodes s)))
     \<and> (a = END \<or> (\<exists>c'. workflow_step (agent_node sv d) (a, s) c'
          \<and> st_transition_count (snd c') = Suc (st_transition_count s)))"
proof -
  have "nodes.config_ok (oq_max_transitions q) (SUPERVISOR, from_request q rid)"
    using assms(2) fresh_inv(1) by (simp add: nodes.config_ok_def fresh_state)
  from nodes.reaches_ok [OF assms(1) this assms(2)] have ok: "nodes.config_ok (oq_max_transitions q) (a, s)" .
  then have inv: "nodes.state_inv s" and le: "st_transition_count s \<le> Suc (oq_max_transitions q)"
    by (auto simp: nodes.config_ok_def split: if_splits)
  have "st_transition_count s = length (st_visited_nodes s)"
    using inv unfolding nodes.state_inv_def by (metis diff_Suc_1 length_map length_upt)
  moreover have "a = END \<or> (\<exists>c'. workflow_step (agent_node sv d) (a, s) c'
      \<and> st_transition_count (snd c') = Suc (st_transition_count s))"
    using nodes.workflow_progress [of a sv d s] nodes.step_ok(2) [OF _ ok assms(2)] by fastforce
  ultimately show ?thesis using inv le by (simp add: nodes.state_inv_def)
qed

subsection \<open>A request while every service is down\<close>

definition down_services :: services where
  "down_services = \<lparr>sv_subgraph = \<lambda>_ _ _. Inl (RuntimeErr ''neo4j''), sv_search = \<lambda>_ _ _ _. Inl (RuntimeErr ''qdrant''),
     sv_infer = \<lambda>_ _ _. Inl (ServiceUnavailable ''model''), sv_explain = \<lambda>_ _ _ _. Inl (RuntimeErr ''xai''),
     sv_recommend = \<lambda>_ _. Inl (RuntimeErr ''decision''), sv_fallback_history = \<lambda>_. [VNone]\<rparr>"

definition why_request :: "nat \<Rightarrow> orchestrator_request" where
  "why_request m = \<lparr>oq_query_text = ''why is pump 2 hot'', oq_asset_id = None, oq_component_id = None, oq_top_k = 8,
     oq_risk_horizon_days = 30, oq_max_recommendations = 5, oq_telemetry_history = [], oq_max_transitions = m,
     oq_include_debug_trace = True\<rparr>"

lemma why_request_valid: "m \<in> {5, 6, 15} \<Longrightarrow> mk_orchestrator_request (why_request m) = Inr (why_request m)"
  by (auto simp: mk_orchestrator_request_def why_request_def)

lemma why_route: "route_of_query (oq_query_text (why_request m))
    = [RETRIEVAL, KNOWLEDGE, PREDICTION, EXPLANATION, DECISION, FINALIZER]"
  unfolding why_request_def orchestrator_request.simps by code_simp

theorem execute_route_witness:
  "\<exists>r. execute down_services (\<lambda>_. 0) ''id'' (why_request 6) = Some r
     \<and> or_route_taken r = [''supervisor'', ''retrieval_agent'', ''supervisor'', ''knowledge_agent'',
          ''supervisor'', ''prediction_agent'', ''finalizer'']"
proof -
  have v: "mk_orchestrator_request (why_request 6) = Inr (why_request 6)" by (rule why_request_valid) simp
  have "map agent_value (route_within (oq_max_transitions (why_request 6))
      [RETRIEVAL, KNOWLEDGE, PREDICTION, EXPLANATION, DECISION, FINALIZER])
    = [''supervisor'', ''retrieval_agent'', ''supervisor'', ''knowledge_agent'',
          ''supervisor'', ''prediction_agent'', ''finalizer'']"
    unfolding why_request_def orchestrator_request.simps by code_simp
  then show ?thesis using execute_route [OF v, of down_services "\<lambda>_. 0" "''id''"] unfolding why_route by simp
qed

theorem execute_answer_witness:
  "\<exists>s. execute down_services (\<lambda>_. 0) ''id'' (why_request 5) = Some (response_of True s)
     \<and> or_answer (response_of True s) = no_answer"
proof -
  have v: "mk_orchestrator_request (why_request 5) = Inr (why_request 5)" by (rule why_request_valid) simp
  have q: "oq_max_transitions (why_request 5) = 5" "oq_include_debug_trace (why_request 5)"
    by (simp_all add: why_request_def)
  show ?thesis using execute_answer [OF v, of down_services "\<lambda>_. 0" "''id''"] unfolding why_route q(1)
    by (auto simp: q(2))
qed

theorem execute_audit_witness:
  "\<exists>r. execute down_services (\<lambda>_. 0) ''id'' (why_request 15) = Some r
     \<and> map ts_node (or_trace r) = or_route_taken r"
proof -
  have v: "mk_orchestrator_request (why_request 15) = Inr (why_request 15)" by (rule why_request_valid) simp
  show ?thesis using execute_audit [OF v, of down_services "\<lambda>_. 0" "''id''"]
    by (auto simp: why_request_def)
qed

theorem execute_bounds_witness:
  "\<exists>r. execute down_services (\<lambda>_. 0) ''id'' (why_request 15) = Some r \<and> or_confidence r \<le> F 0.95"
proof -
  have v: "mk_orchestrator_request (why_request 15) = Inr (why_request 15)" by (rule why_request_valid) simp
  have "risk_bounded down_services" by (simp add: risk_bounded_def down_services_def)
  from execute_bounds [OF v this, of "\<lambda>_. 0" "''id''"] show ?thesis by auto
qed

theorem workflow_bounded_witness:
  "st_transition_count (agent_node down_services (\<lambda>_. 0) SUPERVISOR (from_request (why_request 15) ''id'')) \<le> 16"
proof -
  have "workflow_reaches (agent_node down_services (\<lambda>_. 0)) (from_request (why_request 15) ''id'')
      (fst (supervisor_next (agent_node down_services (\<lambda>_. 0) SUPERVISOR (from_request (why_request 15) ''id''))),
       agent_node down_services (\<lambda>_. 0) SUPERVISOR (from_request (why_request 15) ''id''))"
    by (rule workflow_reaches.step [OF workflow_reaches.entry], rule workflow_step.supervise) simp
  from workflow_bounded [OF this] show ?thesis by (simp add: why_request_def)
qed

end
