(* ===== verification/Chunker.thy ===== *)
theory Chunker
  imports Routing
begin

section \<open>The semantic chunker\<close>

text \<open>
  \<open>app/ingestion/chunker.py\<close> with the envelope \<open>ChunkMetadata\<close> and the \<open>ParsedDocument\<close> of
  \<open>app/ingestion/schemas.py\<close>: sentence splitting, the sliding window with its overlap, and the
  chunks of a document. The optional token splitter of langchain and SHA-256 are parameters.
\<close>

subsection \<open>Sentences\<close>

definition count_tokens_approx :: "str \<Rightarrow> nat" where
  "count_tokens_approx text = max 1 (length text div 4)"

definition ends_sentence :: "char \<Rightarrow> bool" where
  "ends_sentence c \<longleftrightarrow> c = CHR ''.'' \<or> c = CHR ''!'' \<or> c = CHR ''?''"

definition opens_sentence :: "str \<Rightarrow> bool" where
  "opens_sentence s = (case s of [] \<Rightarrow> False
     | c # cs \<Rightarrow> is_upper c \<or> is_digit c)"

text \<open>\<open>re.split\<close> at the blanks that follow a full stop, exclamation or question mark and precede
  an upper case letter or digit; the piece under construction is kept in reverse.\<close>

function split_pieces :: "str \<Rightarrow> str \<Rightarrow> str list" where
  "split_pieces cur [] = [rev cur]"
| "split_pieces cur (c # cs) =
     (if cur \<noteq> [] \<and> ends_sentence (hd cur) \<and> is_space c \<and> opens_sentence (dropWhile is_space cs)
      then rev cur # split_pieces [] (dropWhile is_space cs)
      else split_pieces (c # cur) cs)"
  by pat_completeness auto
termination by (relation "measure (length \<circ> snd)") (auto simp: le_imp_less_Suc length_dropWhile_le)

definition split_sentences :: "str \<Rightarrow> str list" where
  "split_sentences text = filter (\<lambda>p. p \<noteq> []) (map py_strip (split_pieces [] text))"

subsection \<open>The window\<close>

record chunker =
  cc_chunk_tokens :: nat
  cc_overlap_tokens :: nat
  cc_min_chunk_tokens :: nat
  cc_respect_sections :: bool

text \<open>The constructor's checks, with the overlap ratio as a float.\<close>

definition mk_chunker :: "nat \<Rightarrow> nat \<Rightarrow> nat \<Rightarrow> bool \<Rightarrow> chunker res" where
  "mk_chunker chunk overlap min_chunk respect =
     require (512 \<le> chunk \<and> chunk \<le> 1024) (ValueErr ''chunk_tokens should be 512-1024 per Phase 3 spec'')
     (require (F 0.10 \<le> of_int64 (int overlap) / of_int64 (int chunk)
               \<and> of_int64 (int overlap) / of_int64 (int chunk) \<le> F 0.20) (ValueErr ''overlap must be 10-20%'')
       (Inr \<lparr>cc_chunk_tokens = chunk, cc_overlap_tokens = overlap, cc_min_chunk_tokens = min_chunk,
             cc_respect_sections = respect\<rparr>))"

text \<open>The sentences kept for the overlap, from the end of the window backwards.\<close>

fun take_overlap :: "nat \<Rightarrow> str list \<Rightarrow> nat \<Rightarrow> str list \<Rightarrow> str list \<times> nat" where
  "take_overlap limit [] acc kept = (kept, acc)"
| "take_overlap limit (s # ss) acc kept =
     (if limit < acc + count_tokens_approx s then (kept, acc)
      else take_overlap limit ss (acc + count_tokens_approx s) (s # kept))"

definition overlap_of :: "chunker \<Rightarrow> str list \<Rightarrow> str list \<times> nat" where
  "overlap_of cc current = take_overlap (cc_overlap_tokens cc) (rev current) 0 []"

definition window_text :: "str list \<Rightarrow> str" where
  "window_text current = py_strip (join '' '' current)"

definition flush :: "chunker \<Rightarrow> str list \<Rightarrow> str list \<Rightarrow> str list" where
  "flush cc current chunks =
     (if cc_min_chunk_tokens cc \<le> count_tokens_approx (window_text current)
      then chunks @ [window_text current] else chunks)"

text \<open>The while loop: \<open>rest\<close> are the sentences from index \<open>i\<close> on. It is not known to end.\<close>

partial_function (option) window_loop ::
  "chunker \<Rightarrow> str list \<Rightarrow> str list \<Rightarrow> nat \<Rightarrow> str list \<Rightarrow> (str list \<times> str list) option" where
  "window_loop cc rest current tokens chunks =
     (if rest = [] then Some (current, chunks)
      else if cc_chunk_tokens cc < tokens + count_tokens_approx (hd rest) \<and> current \<noteq> []
      then window_loop cc rest (fst (overlap_of cc current)) (snd (overlap_of cc current)) (flush cc current chunks)
      else window_loop cc (tl rest) (current @ [hd rest]) (tokens + count_tokens_approx (hd rest)) chunks)"

definition chunk_sliding_window :: "chunker \<Rightarrow> str \<Rightarrow> str list option" where
  "chunk_sliding_window cc text =
     (let sentences = split_sentences text
      in if sentences = [] then Some (if py_strip text \<noteq> [] then [text] else [])
         else map_option (\<lambda>(current, chunks).
                if current \<noteq> [] \<and> window_text current \<noteq> [] then chunks @ [window_text current] else chunks)
              (window_loop cc sentences [] 0 []))"

text \<open>\<open>splitter\<close> is langchain's, when installed.\<close>

definition chunk_text :: "(str \<Rightarrow> str list res) option \<Rightarrow> chunker \<Rightarrow> str \<Rightarrow> str list option" where
  "chunk_text splitter cc text =
     (case splitter of
        Some split \<Rightarrow>
          (case split text of
             Inr out \<Rightarrow> Some (filter (\<lambda>c. cc_min_chunk_tokens cc \<le> count_tokens_approx c \<or> c = last out) out)
           | Inl e \<Rightarrow> chunk_sliding_window cc text)
      | None \<Rightarrow> chunk_sliding_window cc text)"

subsection \<open>Documents\<close>

record doc_section =
  dn_title :: "str option"
  dn_identifier :: "str option"
  dn_char_start :: nat
  dn_char_end :: nat

record parsed_document =
  pd_document_id :: str
  pd_source_filename :: str
  pd_document_category :: str
  pd_total_pages :: int
  pd_text :: str
  pd_sections :: "doc_section list"

record chunk_metadata =
  cm_chunk_id :: str
  cm_document_id :: str
  cm_source_filename :: str
  cm_document_category :: str
  cm_section_title :: "str option"
  cm_section_identifier :: "str option"
  cm_page_start :: "int option"
  cm_page_end :: "int option"
  cm_chunk_index :: nat
  cm_token_count :: nat
  cm_char_count :: nat
  cm_hash :: str
  cm_text :: str
  cm_span :: "(nat \<times> nat \<times> nat) option"

definition document_categories :: "str list" where
  "document_categories = [''MANUAL'', ''SOP'', ''SPEC_SHEET'', ''MAINTENANCE_LOG'', ''INCIDENT_REPORT'']"

definition mk_chunk_metadata :: "chunk_metadata \<Rightarrow> chunk_metadata res" where
  "mk_chunk_metadata m =
     require (cm_document_category m \<in> set document_categories) (ValidationError ''document_category'') (Inr m)"

text \<open>\<open>text[start:end]\<close> for offsets within the text.\<close>

definition slice :: "nat \<Rightarrow> nat \<Rightarrow> str \<Rightarrow> str" where
  "slice i j s = drop i (take j s)"

definition title_text :: "str option \<Rightarrow> str" where
  "title_text t = (case t of None \<Rightarrow> ''None'' | Some x \<Rightarrow> x)"

definition section_chunk ::
  "(str \<Rightarrow> str) \<Rightarrow> parsed_document \<Rightarrow> doc_section \<Rightarrow> nat \<Rightarrow> nat \<Rightarrow> str \<Rightarrow> chunk_metadata res" where
  "section_chunk sha d sec local_idx idx text =
     (let h = sha (pd_document_id d @ ''|'' @ title_text (dn_title sec) @ ''|'' @ str_nat idx @ ''|'' @ text)
      in mk_chunk_metadata \<lparr>cm_chunk_id = ''chunk:'' @ take 32 h, cm_document_id = pd_document_id d,
           cm_source_filename = pd_source_filename d, cm_document_category = pd_document_category d,
           cm_section_title = dn_title sec, cm_section_identifier = dn_identifier sec,
           cm_page_start = None, cm_page_end = None, cm_chunk_index = idx,
           cm_token_count = count_tokens_approx text, cm_char_count = length text, cm_hash = h,
           cm_text = text, cm_span = Some (local_idx, dn_char_start sec, dn_char_end sec)\<rparr>)"

definition whole_chunk :: "(str \<Rightarrow> str) \<Rightarrow> parsed_document \<Rightarrow> nat \<Rightarrow> str \<Rightarrow> chunk_metadata res" where
  "whole_chunk sha d idx text =
     (let h = sha (pd_document_id d @ ''||'' @ str_nat idx @ ''|'' @ text)
      in mk_chunk_metadata \<lparr>cm_chunk_id = ''chunk:'' @ take 32 h, cm_document_id = pd_document_id d,
           cm_source_filename = pd_source_filename d, cm_document_category = pd_document_category d,
           cm_section_title = None, cm_section_identifier = None,
           cm_page_start = Some 1, cm_page_end = Some (pd_total_pages d), cm_chunk_index = idx,
           cm_token_count = count_tokens_approx text, cm_char_count = length text, cm_hash = h,
           cm_text = text, cm_span = None\<rparr>)"

text \<open>The chunks of one section, numbered on from the global index \<open>g\<close>.\<close>

fun number_chunks :: "(nat \<Rightarrow> nat \<Rightarrow> str \<Rightarrow> chunk_metadata res) \<Rightarrow> nat \<Rightarrow> nat \<Rightarrow> str list \<Rightarrow> chunk_metadata list res" where
  "number_chunks mk l g [] = Inr []"
| "number_chunks mk l g (t # ts) =
     bind_res (mk l g t) (\<lambda>m. bind_res (number_chunks mk (Suc l) (Suc g) ts) (\<lambda>ms. Inr (m # ms)))"

text \<open>Two ways not to get chunks: an exception (the sum) and a loop that does not end (the option).\<close>

fun chunk_sections ::
  "(str \<Rightarrow> str) \<Rightarrow> (str \<Rightarrow> str list option) \<Rightarrow> parsed_document \<Rightarrow> nat \<Rightarrow> doc_section list
   \<Rightarrow> chunk_metadata list res option" where
  "chunk_sections sha split d g [] = Some (Inr [])"
| "chunk_sections sha split d g (sec # secs) =
     (let text = py_strip (slice (dn_char_start sec) (dn_char_end sec) (pd_text d))
      in if text = [] then chunk_sections sha split d g secs
         else (case split text of
             None \<Rightarrow> None
           | Some ts \<Rightarrow>
               (case number_chunks (section_chunk sha d sec) 0 g ts of
                  Inl e \<Rightarrow> Some (Inl e)
                | Inr ms \<Rightarrow>
                    map_option (\<lambda>r. bind_res r (\<lambda>rest. Inr (ms @ rest)))
                      (chunk_sections sha split d (g + length ms) secs))))"

definition chunk_document ::
  "(str \<Rightarrow> str) \<Rightarrow> (str \<Rightarrow> str list res) option \<Rightarrow> chunker \<Rightarrow> parsed_document \<Rightarrow> chunk_metadata list res option" where
  "chunk_document sha splitter cc d =
     (let sections = (if cc_respect_sections cc \<and> pd_sections d \<noteq> [] then pd_sections d
            else [\<lparr>dn_title = None, dn_identifier = None, dn_char_start = 0, dn_char_end = length (pd_text d)\<rparr>])
      in case chunk_sections sha (chunk_text splitter cc) d 0 sections of
           Some (Inr []) \<Rightarrow>
             (if py_strip (pd_text d) = [] then Some (Inr [])
              else map_option (number_chunks (\<lambda>_. whole_chunk sha d) 0 0) (chunk_text splitter cc (pd_text d)))
         | r \<Rightarrow> r)"

subsection \<open>Stripped text and window lengths\<close>

definition stripped :: "str \<Rightarrow> bool" where
  "stripped s \<longleftrightarrow> s \<noteq> [] \<and> \<not> is_space (hd s) \<and> \<not> is_space (last s)"

lemma dropWhile_stripped: "s \<noteq> [] \<Longrightarrow> \<not> is_space (hd s) \<Longrightarrow> dropWhile is_space s = s"
  by (cases s) auto

lemma py_strip_id: "stripped s \<Longrightarrow> py_strip s = s"
  by (simp add: stripped_def py_strip_def py_rstrip_def dropWhile_stripped hd_rev)

lemma stripped_py_strip:
  assumes "py_strip s \<noteq> []"
  shows "stripped (py_strip s)"
proof -
  let ?d = "dropWhile is_space s"
  have d: "py_strip s = rev (dropWhile is_space (rev ?d))" by (simp add: py_strip_def py_rstrip_def)
  have ne: "dropWhile is_space (rev ?d) \<noteq> []" using assms d by simp
  then have last: "\<not> is_space (last (py_strip s))"
    unfolding d using hd_dropWhile [OF ne] by (simp only: last_rev not_False_eq_True)
  have "\<exists>ys. ?d = py_strip s @ ys"
    unfolding d by (metis rev_append rev_rev_ident takeWhile_dropWhile_id)
  then have "hd (py_strip s) = hd ?d" using assms by (metis hd_append2)
  moreover have "?d \<noteq> []" using ne by (metis dropWhile.simps(1) rev.simps(1))
  ultimately show ?thesis using assms last hd_dropWhile [of is_space s] unfolding stripped_def by metis
qed

lemma split_sentences_stripped: "s \<in> set (split_sentences text) \<Longrightarrow> stripped s"
  by (auto simp: split_sentences_def intro: stripped_py_strip)

lemma join_nonempty_ends:
  "xs \<noteq> [] \<Longrightarrow> \<forall>x \<in> set xs. stripped x \<Longrightarrow>
     join sep xs \<noteq> [] \<and> hd (join sep xs) = hd (hd xs) \<and> last (join sep xs) = last (last xs)"
proof (induction sep xs rule: join.induct)
  case (3 sep x y ys)
  then show ?case by (auto simp: stripped_def)
qed (auto simp: stripped_def)

lemma window_text_join:
  assumes "xs \<noteq> []" "\<forall>x \<in> set xs. stripped x"
  shows "window_text xs = join '' '' xs"
proof -
  have "stripped (join '' '' xs)"
    using join_nonempty_ends [OF assms, of "'' ''"] assms by (simp add: stripped_def)
  then show ?thesis by (simp add: window_text_def py_strip_id)
qed

lemma join_length: "xs \<noteq> [] \<Longrightarrow> Suc (length (join '' '' xs)) = sum_list (map (\<lambda>x. Suc (length x)) xs)"
  by (induction "'' ''" xs rule: join.induct) auto

lemma join_contains: "x \<in> set xs \<Longrightarrow> contains x (join sep xs)"
proof (induction sep xs rule: join.induct)
  case (3 sep y z zs)
  show ?case
  proof (cases "x = y")
    case True
    then show ?thesis unfolding contains_iff by (auto intro: exI [of _ "[]"])
  next
    case False
    then obtain l r where "join sep (z # zs) = l @ x @ r" using 3 by (auto simp: contains_iff)
    then have "join sep (y # z # zs) = (y @ sep @ l) @ x @ r" by simp
    then show ?thesis unfolding contains_iff by blast
  qed
next
  case (2 sep y)
  then show ?case unfolding contains_iff by (auto intro: exI [of _ "[]"])
qed simp

definition tokens_of :: "str list \<Rightarrow> nat" where
  "tokens_of xs = sum_list (map count_tokens_approx xs)"

lemma tokens_of_simps [simp]:
  "tokens_of [] = 0" "tokens_of (x # xs) = count_tokens_approx x + tokens_of xs"
  "tokens_of (xs @ ys) = tokens_of xs + tokens_of ys"
  by (simp_all add: tokens_of_def)

lemma tokens_lower:
  "\<forall>x \<in> set xs. 3 \<le> length x \<Longrightarrow> 4 * tokens_of xs \<le> sum_list (map (\<lambda>x. Suc (length x)) xs)"
  by (induction xs) (auto simp: count_tokens_approx_def max_def)

lemma tokens_upper: "sum_list (map (\<lambda>x. Suc (length x)) xs) \<le> 8 * tokens_of xs"
  by (induction xs) (auto simp: count_tokens_approx_def max_def)

lemma window_tokens:
  assumes "xs \<noteq> []" "\<forall>x \<in> set xs. stripped x"
  shows "count_tokens_approx (window_text xs) \<le> 2 * tokens_of xs"
    and "\<forall>x \<in> set xs. 3 \<le> length x \<Longrightarrow> tokens_of xs \<le> Suc (count_tokens_approx (window_text xs))"
proof -
  have pos: "1 \<le> tokens_of xs" using assms(1) by (cases xs) (auto simp: count_tokens_approx_def)
  have len: "Suc (length (window_text xs)) \<le> 8 * tokens_of xs"
    using tokens_upper [of xs] join_length [OF assms(1)] window_text_join [OF assms] by simp
  then show "count_tokens_approx (window_text xs) \<le> 2 * tokens_of xs"
    using pos by (simp add: count_tokens_approx_def)
  assume "\<forall>x \<in> set xs. 3 \<le> length x"
  then have "4 * tokens_of xs \<le> Suc (length (window_text xs))"
    using tokens_lower [of xs] join_length [OF assms(1)] window_text_join [OF assms] by simp
  then show "tokens_of xs \<le> Suc (count_tokens_approx (window_text xs))"
    by (simp add: count_tokens_approx_def max_def; linarith)
qed

subsection \<open>The window ends, or it does not\<close>

lemma take_overlap_spec:
  "take_overlap limit ss acc kept = (k, a) \<Longrightarrow> acc \<le> limit \<Longrightarrow> tokens_of kept = acc \<Longrightarrow>
     tokens_of k = a \<and> a \<le> limit \<and> set k \<subseteq> set ss \<union> set kept"
proof (induction limit ss acc kept rule: take_overlap.induct)
  case (2 limit s ss acc kept)
  show ?case
  proof (cases "limit < acc + count_tokens_approx s")
    case False
    then have "tokens_of k = a \<and> a \<le> limit \<and> set k \<subseteq> set ss \<union> set (s # kept)"
      using 2 by simp
    then show ?thesis by auto
  qed (use 2 in auto)
qed auto

lemma take_overlap_all:
  "acc + tokens_of ss \<le> limit \<Longrightarrow> take_overlap limit ss acc kept = (rev ss @ kept, acc + tokens_of ss)"
  by (induction limit ss acc kept rule: take_overlap.induct) auto

lemma tokens_of_rev [simp]: "tokens_of (rev xs) = tokens_of xs"
  by (simp add: tokens_of_def rev_map [symmetric])

lemma overlap_spec:
  "overlap_of cc current = (k, a) \<Longrightarrow> tokens_of k = a \<and> a \<le> cc_overlap_tokens cc \<and> set k \<subseteq> set current"
  using take_overlap_spec [of "cc_overlap_tokens cc" "rev current" 0 "[]"] by (simp add: overlap_of_def)

lemma overlap_all:
  "tokens_of current \<le> cc_overlap_tokens cc \<Longrightarrow> overlap_of cc current = (current, tokens_of current)"
  using take_overlap_all [of 0 "rev current" "cc_overlap_tokens cc" "[]"] by (simp add: overlap_of_def)

lemma window_end: "window_loop cc [] current tokens chunks = Some (current, chunks)"
  by (subst window_loop.simps) simp

lemma window_flush:
  assumes "cc_chunk_tokens cc < tokens + count_tokens_approx s \<and> current \<noteq> []"
  shows "window_loop cc (s # rest) current tokens chunks
     = window_loop cc (s # rest) (fst (overlap_of cc current)) (snd (overlap_of cc current)) (flush cc current chunks)"
  using assms by (subst window_loop.simps) (simp only: list.distinct if_False list.sel if_True simp_thms)

lemma window_take:
  assumes "\<not> (cc_chunk_tokens cc < tokens + count_tokens_approx s \<and> current \<noteq> [])"
  shows "window_loop cc (s # rest) current tokens chunks
     = window_loop cc rest (current @ [s]) (tokens + count_tokens_approx s) chunks"
  using assms by (subst window_loop.simps) (simp only: list.distinct if_False list.sel)

lemmas window_step = window_end window_flush window_take

text \<open>A sentence fits when it goes beside a full overlap and is no shorter than three characters: the
  count by sentence is at least one, so of shorter sentences it exceeds the count of the joined
  text, and a window of them may be dropped as too small.\<close>

abbreviation fits :: "chunker \<Rightarrow> str \<Rightarrow> bool" where
  "fits cc s \<equiv> count_tokens_approx s + cc_overlap_tokens cc \<le> cc_chunk_tokens cc \<and> 3 \<le> length s"

text \<open>A flushed window is long enough to be kept when the sentence that forces the flush fits.\<close>

lemma flush_kept:
  assumes "current \<noteq> []" "\<forall>x \<in> set current. stripped x \<and> 3 \<le> length x"
    and "cc_overlap_tokens cc < tokens_of current" "cc_min_chunk_tokens cc \<le> cc_overlap_tokens cc"
  shows "flush cc current chunks = chunks @ [window_text current]"
  using window_tokens(2) [of current] assms by (simp add: flush_def)

lemma window_result:
  assumes "\<forall>s \<in> set rest. stripped s \<and> fits cc s" "\<forall>s \<in> set current. stripped s \<and> 3 \<le> length s"
    and "tokens = tokens_of current" "tokens \<le> cc_chunk_tokens cc" "cc_min_chunk_tokens cc \<le> cc_overlap_tokens cc"
    and "\<forall>c \<in> set chunks. count_tokens_approx c \<le> 2 * cc_chunk_tokens cc"
  shows "\<exists>cur ch. window_loop cc rest current tokens chunks = Some (cur, ch) \<and> tokens_of cur \<le> cc_chunk_tokens cc
     \<and> (\<forall>s \<in> set cur. stripped s) \<and> (\<forall>c \<in> set ch. count_tokens_approx c \<le> 2 * cc_chunk_tokens cc)
     \<and> set chunks \<subseteq> set ch \<and> (\<forall>s \<in> set rest \<union> set current. s \<in> set cur \<or> (\<exists>c \<in> set ch. contains s c))"
  using assms
proof (induction rest arbitrary: current tokens chunks)
  case Nil
  then show ?case by (auto simp: window_step)
next
  case (Cons s rest)
  have s: "stripped s" "3 \<le> length s" "count_tokens_approx s + cc_overlap_tokens cc \<le> cc_chunk_tokens cc"
    using Cons.prems(1) by (auto)
  show ?case
  proof (cases "cc_chunk_tokens cc < tokens + count_tokens_approx s \<and> current \<noteq> []")
    case True
    obtain k a where ka: "overlap_of cc current = (k, a)" by fastforce
    note k = overlap_spec [OF ka]
    let ?chunks = "chunks @ [window_text current]"
    have flush: "flush cc current chunks = ?chunks"
      using True s Cons.prems by (intro flush_kept) auto
    have size: "count_tokens_approx (window_text current) \<le> 2 * cc_chunk_tokens cc"
      using window_tokens(1) [of current] True Cons.prems by fastforce
    have "\<not> (cc_chunk_tokens cc < a + count_tokens_approx s \<and> k \<noteq> [])" using k s by linarith
    then have loop: "window_loop cc (s # rest) current tokens chunks
        = window_loop cc rest (k @ [s]) (a + count_tokens_approx s) ?chunks"
      using True ka flush by (simp add: window_step)
    have "\<exists>cur ch. window_loop cc rest (k @ [s]) (a + count_tokens_approx s) ?chunks = Some (cur, ch)
       \<and> tokens_of cur \<le> cc_chunk_tokens cc \<and> (\<forall>s \<in> set cur. stripped s)
       \<and> (\<forall>c \<in> set ch. count_tokens_approx c \<le> 2 * cc_chunk_tokens cc) \<and> set ?chunks \<subseteq> set ch
       \<and> (\<forall>x \<in> set rest \<union> set (k @ [s]). x \<in> set cur \<or> (\<exists>c \<in> set ch. contains x c))"
      using Cons.prems s k size by (intro Cons.IH) auto
    moreover have "contains x (window_text current)" if "x \<in> set current" for x
      using that True Cons.prems(2) join_contains by (simp add: window_text_join)
    ultimately show ?thesis unfolding loop by fastforce
  next
    case False
    then have loop: "window_loop cc (s # rest) current tokens chunks
        = window_loop cc rest (current @ [s]) (tokens + count_tokens_approx s) chunks"
      by (simp add: window_step)
    have "tokens + count_tokens_approx s \<le> cc_chunk_tokens cc" using False s Cons.prems(3) by auto
    then have "\<exists>cur ch. window_loop cc rest (current @ [s]) (tokens + count_tokens_approx s) chunks = Some (cur, ch)
       \<and> tokens_of cur \<le> cc_chunk_tokens cc \<and> (\<forall>s \<in> set cur. stripped s)
       \<and> (\<forall>c \<in> set ch. count_tokens_approx c \<le> 2 * cc_chunk_tokens cc) \<and> set chunks \<subseteq> set ch
       \<and> (\<forall>x \<in> set rest \<union> set (current @ [s]). x \<in> set cur \<or> (\<exists>c \<in> set ch. contains x c))"
      using Cons.prems s by (intro Cons.IH) auto
    then show ?thesis unfolding loop by auto
  qed
qed

text \<open>A window that is all overlap and a sentence that does not fit beside it: the flush changes
  nothing the loop condition reads, and no call returns.\<close>

definition stuck :: "chunker \<Rightarrow> str list \<Rightarrow> str list \<Rightarrow> nat \<Rightarrow> bool" where
  "stuck cc rest current tokens \<longleftrightarrow> rest \<noteq> [] \<and> current \<noteq> [] \<and> tokens = tokens_of current
     \<and> tokens \<le> cc_overlap_tokens cc \<and> cc_chunk_tokens cc < tokens + count_tokens_approx (hd rest)"

lemma window_stuck:
  assumes "stuck cc rest current tokens"
  shows "window_loop cc rest current tokens chunks = None"
proof (rule ccontr)
  assume "window_loop cc rest current tokens chunks \<noteq> None"
  then obtain r where run: "window_loop cc rest current tokens chunks = Some r" by auto
  have "\<not> stuck cc rest current tokens"
    by (rule window_loop.raw_induct [where P = "\<lambda>cc rest current tokens _ _. \<not> stuck cc rest current tokens", OF _ run])
      (auto simp: stuck_def overlap_all split: if_splits; metis)
  with assms show False by simp
qed

lemma py_strip_Nil: "py_strip p = [] \<longleftrightarrow> list_all is_space p"
  by (induction p) (auto simp: py_strip_def py_rstrip_def list_all_iff)

lemma split_pieces_blank:
  "\<forall>p \<in> set (split_pieces cur s). py_strip p = [] \<Longrightarrow> list_all is_space (cur @ s)"
proof (induction cur s rule: split_pieces.induct)
  case (1 cur)
  then show ?case by (simp add: py_strip_Nil list_all_iff)
next
  case (2 cur c cs)
  show ?case
  proof (cases "cur \<noteq> [] \<and> ends_sentence (hd cur) \<and> is_space c \<and> opens_sentence (dropWhile is_space cs)")
    case True
    then have "py_strip (rev cur) = []" using "2.prems" by simp
    then have "is_space (hd cur)" using True by (simp add: py_strip_Nil list_all_iff)
    moreover have "ends_sentence (hd cur)" using True by simp
    ultimately show ?thesis by (auto simp: ends_sentence_def is_space_def Let_def)
  next
    case False
    then have "\<forall>p \<in> set (split_pieces (c # cur) cs). py_strip p = []"
      using "2.prems" by (simp only: split_pieces.simps if_False)
    then have "list_all is_space ((c # cur) @ cs)" using "2.IH"(2) [OF False] by blast
    then show ?thesis by (simp add: list_all_iff)
  qed
qed

lemma no_sentences: "split_sentences text = [] \<Longrightarrow> py_strip text = []"
  using split_pieces_blank [of "[]" "text"] by (auto simp: split_sentences_def filter_empty_conv py_strip_Nil)

text \<open>C10. If every sentence has at least three characters and fits beside a full overlap, and the
  minimum chunk is no longer than the overlap (the defaults are 768, 120 and 80), the sliding window
  ends, every sentence of the text is part of some chunk, and no chunk exceeds twice the window (the
  count by sentence rounds down, the count of the joined text does not).\<close>

theorem sliding_window_covers:
  assumes "\<forall>s \<in> set (split_sentences text).
      3 \<le> length s \<and> count_tokens_approx s + cc_overlap_tokens cc \<le> cc_chunk_tokens cc"
    and "cc_min_chunk_tokens cc \<le> cc_overlap_tokens cc"
  shows "\<exists>chunks. chunk_sliding_window cc text = Some chunks
     \<and> (\<forall>s \<in> set (split_sentences text). \<exists>c \<in> set chunks. contains s c)
     \<and> (\<forall>c \<in> set chunks. count_tokens_approx c \<le> 2 * cc_chunk_tokens cc)"
proof (cases "split_sentences text = []")
  case True
  then show ?thesis using no_sentences [OF True] by (simp add: chunk_sliding_window_def)
next
  case False
  let ?ss = "split_sentences text"
  have "\<exists>cur ch. window_loop cc ?ss [] 0 [] = Some (cur, ch) \<and> tokens_of cur \<le> cc_chunk_tokens cc
     \<and> (\<forall>s \<in> set cur. stripped s) \<and> (\<forall>c \<in> set ch. count_tokens_approx c \<le> 2 * cc_chunk_tokens cc)
     \<and> set [] \<subseteq> set ch \<and> (\<forall>s \<in> set ?ss \<union> set []. s \<in> set cur \<or> (\<exists>c \<in> set ch. contains s c))"
    using assms split_sentences_stripped by (intro window_result) auto
  then obtain cur ch where run: "window_loop cc ?ss [] 0 [] = Some (cur, ch)" "tokens_of cur \<le> cc_chunk_tokens cc"
    "\<forall>s \<in> set cur. stripped s" "\<forall>c \<in> set ch. count_tokens_approx c \<le> 2 * cc_chunk_tokens cc"
    "\<forall>s \<in> set ?ss. s \<in> set cur \<or> (\<exists>c \<in> set ch. contains s c)" by auto
  show ?thesis
  proof (cases "cur = []")
    case True
    then show ?thesis using run False by (simp add: chunk_sliding_window_def)
  next
    case cur: False
    have joined: "window_text cur = join '' '' cur" "window_text cur \<noteq> []"
      using window_text_join [OF cur run(3)] join_nonempty_ends [OF cur run(3), of "'' ''"] by simp_all
    have "count_tokens_approx (window_text cur) \<le> 2 * cc_chunk_tokens cc"
      using window_tokens(1) [OF cur run(3)] run(2) by simp
    moreover have "\<forall>s \<in> set cur. contains s (window_text cur)" using join_contains joined(1) by simp
    ultimately show ?thesis using run False cur joined(2)
      by (auto simp: chunk_sliding_window_def)
  qed
qed

text \<open>C11. Otherwise it may never end: when the first sentence is short enough to be kept whole as
  overlap and the second does not fit beside it, the loop flushes the same window forever.\<close>

theorem sliding_window_diverges:
  assumes "split_sentences text = a # b # rest"
    and "count_tokens_approx a \<le> cc_overlap_tokens cc" and "cc_overlap_tokens cc < cc_chunk_tokens cc"
    and "cc_chunk_tokens cc < count_tokens_approx a + count_tokens_approx b"
  shows "chunk_sliding_window cc text = None"
proof -
  have "stuck cc (b # rest) [a] (count_tokens_approx a)"
    using assms(2-4) by (simp add: stuck_def)
  then have "window_loop cc (b # rest) [a] (count_tokens_approx a) [] = None" by (rule window_stuck)
  moreover have "window_loop cc (a # b # rest) [] 0 [] = window_loop cc (b # rest) [a] (count_tokens_approx a) []"
    using window_take [of cc 0 a "[]" "b # rest" "[]"] by simp
  ultimately show ?thesis by (simp add: chunk_sliding_window_def assms(1))
qed

definition default_chunker :: chunker where
  "default_chunker = \<lparr>cc_chunk_tokens = 768, cc_overlap_tokens = 120, cc_min_chunk_tokens = 80, cc_respect_sections = True\<rparr>"

theorem sliding_window_covers_witness:
  "\<exists>chunks. chunk_sliding_window default_chunker ''Check the pump. Then stop. Rev. C applies.'' = Some chunks
     \<and> (\<exists>c \<in> set chunks. contains ''Then stop.'' c)"
proof -
  have s: "split_sentences ''Check the pump. Then stop. Rev. C applies.''
      = [''Check the pump.'', ''Then stop.'', ''Rev.'', ''C applies.'']" by code_simp
  have "\<forall>s \<in> set (split_sentences ''Check the pump. Then stop. Rev. C applies.'').
      3 \<le> length s \<and> count_tokens_approx s + cc_overlap_tokens default_chunker \<le> cc_chunk_tokens default_chunker"
    unfolding s by (simp add: default_chunker_def count_tokens_approx_def)
  from sliding_window_covers [OF this] show ?thesis unfolding s by (auto simp: default_chunker_def)
qed

lemma split_pieces_no_blank: "list_all (\<lambda>c. \<not> is_space c) s \<Longrightarrow> split_pieces cur s = [rev cur @ s]"
  by (induction s arbitrary: cur) auto

theorem sliding_window_diverges_witness:
  "chunk_sliding_window default_chunker (''A note. '' @ CHR ''T'' # replicate 3100 CHR ''a'') = None"
proof (rule sliding_window_diverges [where a = "''A note.''" and b = "CHR ''T'' # replicate 3100 CHR ''a''" and rest = "[]"])
  have nb: "\<not> is_space (CHR ''T'')" "\<not> is_space (CHR ''a'')" by (simp_all add: is_space_def)
  then have st: "stripped (CHR ''T'' # replicate 3100 CHR ''a'')" by (simp add: stripped_def)
  have "split_pieces [] (''A note. '' @ CHR ''T'' # replicate 3100 CHR ''a'')
      = [''A note.'', CHR ''T'' # replicate 3100 CHR ''a'']"
    using nb split_pieces_no_blank [of "CHR ''T'' # replicate 3100 CHR ''a''" "[]"]
    by (simp add: char_class_defs ends_sentence_def opens_sentence_def list_all_iff)
  moreover have "py_strip ''A note.'' = ''A note.''" by code_simp
  ultimately show "split_sentences (''A note. '' @ CHR ''T'' # replicate 3100 CHR ''a'')
      = [''A note.'', CHR ''T'' # replicate 3100 CHR ''a'']"
    using py_strip_id [OF st] by (simp add: split_sentences_def)
qed (simp_all add: default_chunker_def count_tokens_approx_def)

subsection \<open>Chunks of a document\<close>

definition envelope_ok :: "parsed_document \<Rightarrow> chunk_metadata \<Rightarrow> bool" where
  "envelope_ok d m \<longleftrightarrow> cm_document_id m = pd_document_id d \<and> cm_document_category m \<in> set document_categories
     \<and> cm_chunk_id m = ''chunk:'' @ take 32 (cm_hash m)
     \<and> cm_token_count m = count_tokens_approx (cm_text m) \<and> cm_char_count m = length (cm_text m)"

lemma section_chunk_ok:
  "section_chunk sha d sec l g t = Inr m \<Longrightarrow> cm_chunk_index m = g \<and> cm_text m = t \<and> envelope_ok d m"
  by (auto simp: section_chunk_def mk_chunk_metadata_def envelope_ok_def Let_def)

lemma whole_chunk_ok:
  "whole_chunk sha d g t = Inr m \<Longrightarrow> cm_chunk_index m = g \<and> cm_text m = t \<and> envelope_ok d m"
  by (auto simp: whole_chunk_def mk_chunk_metadata_def envelope_ok_def Let_def)

lemma number_chunks_ok:
  assumes "\<forall>l g t m. mk l g t = Inr m \<longrightarrow> cm_chunk_index m = g \<and> cm_text m = t \<and> envelope_ok d m"
  shows "number_chunks mk l g ts = Inr ms \<Longrightarrow>
    map cm_chunk_index ms = [g..<g + length ms] \<and> map cm_text ms = ts \<and> list_all (envelope_ok d) ms"
proof (induction ts arbitrary: l g ms)
  case (Cons t ts)
  then obtain m ms' where m: "mk l g t = Inr m" "number_chunks mk (Suc l) (Suc g) ts = Inr ms'" "ms = m # ms'"
    by (auto simp: bind_res_Inr)
  show ?case using Cons.IH [OF m(2)] assms [rule_format, OF m(1)] m(3) by (simp add: upt_rec [of g] del: upt_Suc)
qed simp

lemma chunk_sections_ok:
  "chunk_sections sha split d g secs = Some (Inr ms) \<Longrightarrow>
     map cm_chunk_index ms = [g..<g + length ms] \<and> list_all (envelope_ok d) ms"
proof (induction secs arbitrary: g ms)
  case (Cons sec secs)
  let ?t = "py_strip (slice (dn_char_start sec) (dn_char_end sec) (pd_text d))"
  show ?case
  proof (cases "?t = []")
    case True
    then show ?thesis using Cons by (simp add: Let_def)
  next
    case False
    then obtain ts ms1 r where r: "split ?t = Some ts" "number_chunks (section_chunk sha d sec) 0 g ts = Inr ms1"
      "chunk_sections sha split d (g + length ms1) secs = Some r" "bind_res r (\<lambda>rest. Inr (ms1 @ rest)) = Inr ms"
      using Cons.prems by (auto simp: Let_def split: option.splits sum.splits)
    then obtain ms2 where ms2: "r = Inr ms2" "ms = ms1 @ ms2" by (auto simp: bind_res_Inr)
    have "map cm_chunk_index ms1 = [g..<g + length ms1] \<and> list_all (envelope_ok d) ms1"
      using number_chunks_ok [OF _ r(2), of d] section_chunk_ok by blast
    then show ?thesis
      using Cons.IH [OF r(3) [unfolded ms2(1)]] upt_add_eq_append [of g "g + length ms1" "length ms2"]
      by (simp add: ms2(2) add.assoc)
  qed
qed simp

text \<open>The chunks of a document are numbered 0, 1, 2, ... across its sections, whichever
  splitter is in use; each carries the document's identifier and a known category, an identifier
  made of the first 32 digits of its hash, and the exact lengths of its text.\<close>

theorem chunk_document_numbered:
  assumes "chunk_document sha splitter cc d = Some (Inr ms)"
  shows "map cm_chunk_index ms = [0..<length ms] \<and> list_all (envelope_ok d) ms"
proof -
  define secs where "secs = (if cc_respect_sections cc \<and> pd_sections d \<noteq> [] then pd_sections d
    else [\<lparr>dn_title = None, dn_identifier = None, dn_char_start = 0, dn_char_end = length (pd_text d)\<rparr>])"
  consider (sections) "chunk_sections sha (chunk_text splitter cc) d 0 secs = Some (Inr ms)"
    | (whole) ts where "number_chunks (\<lambda>_. whole_chunk sha d) 0 0 ts = Inr ms"
    using assms unfolding chunk_document_def Let_def secs_def [symmetric]
    by (auto split: option.splits sum.splits list.splits if_splits)
  then show ?thesis
  proof cases
    case sections
    then show ?thesis using chunk_sections_ok by fastforce
  next
    case whole
    then show ?thesis using number_chunks_ok [OF _ whole, of d] whole_chunk_ok by fastforce
  qed
qed

definition two_part_manual :: parsed_document where
  "two_part_manual = \<lparr>pd_document_id = ''d1'', pd_source_filename = ''m.txt'', pd_document_category = ''MANUAL'',
     pd_total_pages = 1, pd_text = ''1. Scope All pumps 2. Safety Lock out first'',
     pd_sections = [\<lparr>dn_title = Some ''1. Scope'', dn_identifier = Some ''1.'', dn_char_start = 0, dn_char_end = 19\<rparr>,
       \<lparr>dn_title = Some ''2. Safety'', dn_identifier = Some ''2.'', dn_char_start = 19, dn_char_end = 43\<rparr>]\<rparr>"

theorem chunk_document_numbered_witness:
  "\<exists>ms. chunk_document (\<lambda>s. s) (Some (\<lambda>t. Inr [t])) default_chunker two_part_manual = Some (Inr ms)
     \<and> map cm_chunk_index ms = [0, 1]"
proof -
  have "case chunk_document (\<lambda>s. s) (Some (\<lambda>t. Inr [t])) default_chunker two_part_manual of
      Some (Inr ms) \<Rightarrow> length ms = 2 | _ \<Rightarrow> False" by code_simp
  then obtain ms where ms: "chunk_document (\<lambda>s. s) (Some (\<lambda>t. Inr [t])) default_chunker two_part_manual = Some (Inr ms)"
    "length ms = 2" by (auto split: option.splits sum.splits)
  show ?thesis using chunk_document_numbered [OF ms(1)] ms by (auto simp: upt_rec)
qed

end
