(* ===== verification/Entity_Resolution.thy ===== *)
theory Entity_Resolution
  imports Chunker
begin

section \<open>Extraction schemas and entity resolution\<close>

text \<open>
  \<open>app/ingestion/schemas.py\<close> (entities, relationships, the allowed triples and the checks of an
  extraction result) and \<open>app/ingestion/entity_resolver.py\<close> (canonical identifiers and the merge
  of duplicates). An error message is a value that carries what the message interpolates.
\<close>

subsection \<open>Schemas\<close>

datatype entity_label =
    LAsset | LComponent | LSensor | LFailureMode | LRootCause | LSop | LSopStep | LTooling | LSafetyHazard
  | LLocation | LMaintenanceTask | LFailureSymptom | LOperatorRole | LTelemetryStream

fun label_value :: "entity_label \<Rightarrow> str" where
  "label_value LAsset = ''Asset''"
| "label_value LComponent = ''Component''"
| "label_value LSensor = ''Sensor''"
| "label_value LFailureMode = ''FailureMode''"
| "label_value LRootCause = ''RootCause''"
| "label_value LSop = ''SOP''"
| "label_value LSopStep = ''SOPStep''"
| "label_value LTooling = ''Tooling''"
| "label_value LSafetyHazard = ''SafetyHazard''"
| "label_value LLocation = ''Location''"
| "label_value LMaintenanceTask = ''MaintenanceTask''"
| "label_value LFailureSymptom = ''FailureSymptom''"
| "label_value LOperatorRole = ''OperatorRole''"
| "label_value LTelemetryStream = ''TelemetryStream''"

datatype relation_type =
    COMPRISED_OF | MONITORED_BY | EXHIBITS_ANOMALY | TRIGGERED_BY | MITIGATED_BY | REQUIRES_TOOL | HAS_STEP
  | LOCATED_IN | HAS_SYMPTOM | HAS_HAZARD | REQUIRES_ROLE | EMITS_STREAM | SUBASSEMBLY_OF | DEPENDS_ON
  | APPLIES_TO_ASSET | APPLIES_TO_COMPONENT | EXECUTES_SOP | MENTIONS | GROUNDS_ENTITY

fun relation_value :: "relation_type \<Rightarrow> str" where
  "relation_value COMPRISED_OF = ''COMPRISED_OF''"
| "relation_value MONITORED_BY = ''MONITORED_BY''"
| "relation_value EXHIBITS_ANOMALY = ''EXHIBITS_ANOMALY''"
| "relation_value TRIGGERED_BY = ''TRIGGERED_BY''"
| "relation_value MITIGATED_BY = ''MITIGATED_BY''"
| "relation_value REQUIRES_TOOL = ''REQUIRES_TOOL''"
| "relation_value HAS_STEP = ''HAS_STEP''"
| "relation_value LOCATED_IN = ''LOCATED_IN''"
| "relation_value HAS_SYMPTOM = ''HAS_SYMPTOM''"
| "relation_value HAS_HAZARD = ''HAS_HAZARD''"
| "relation_value REQUIRES_ROLE = ''REQUIRES_ROLE''"
| "relation_value EMITS_STREAM = ''EMITS_STREAM''"
| "relation_value SUBASSEMBLY_OF = ''SUBASSEMBLY_OF''"
| "relation_value DEPENDS_ON = ''DEPENDS_ON''"
| "relation_value APPLIES_TO_ASSET = ''APPLIES_TO_ASSET''"
| "relation_value APPLIES_TO_COMPONENT = ''APPLIES_TO_COMPONENT''"
| "relation_value EXECUTES_SOP = ''EXECUTES_SOP''"
| "relation_value MENTIONS = ''MENTIONS''"
| "relation_value GROUNDS_ENTITY = ''GROUNDS_ENTITY''"

definition allowed_triples :: "(str \<times> str \<times> str) list" where
  "allowed_triples = [
     (''Asset'', ''COMPRISED_OF'', ''Component''),
     (''Component'', ''MONITORED_BY'', ''Sensor''),
     (''Sensor'', ''EXHIBITS_ANOMALY'', ''FailureMode''),
     (''FailureMode'', ''TRIGGERED_BY'', ''RootCause''),
     (''FailureMode'', ''MITIGATED_BY'', ''SOP''),
     (''SOP'', ''REQUIRES_TOOL'', ''Tooling''),
     (''SOP'', ''HAS_STEP'', ''SOPStep''),
     (''Asset'', ''LOCATED_IN'', ''Location''),
     (''FailureMode'', ''HAS_SYMPTOM'', ''FailureSymptom''),
     (''SOPStep'', ''HAS_HAZARD'', ''SafetyHazard''),
     (''SOPStep'', ''REQUIRES_ROLE'', ''OperatorRole''),
     (''Sensor'', ''EMITS_STREAM'', ''TelemetryStream''),
     (''Component'', ''SUBASSEMBLY_OF'', ''Component''),
     (''Asset'', ''DEPENDS_ON'', ''Asset''),
     (''MaintenanceTask'', ''EXECUTES_SOP'', ''SOP''),
     (''MaintenanceTask'', ''APPLIES_TO_ASSET'', ''Asset''),
     (''MaintenanceTask'', ''APPLIES_TO_COMPONENT'', ''Component''),
     (''TextChunk'', ''MENTIONS'', ''Asset''),
     (''TextChunk'', ''MENTIONS'', ''Component''),
     (''TextChunk'', ''MENTIONS'', ''Sensor''),
     (''TextChunk'', ''MENTIONS'', ''FailureMode''),
     (''TextChunk'', ''MENTIONS'', ''RootCause''),
     (''TextChunk'', ''MENTIONS'', ''SOP''),
     (''TextChunk'', ''MENTIONS'', ''SOPStep''),
     (''TextChunk'', ''MENTIONS'', ''Tooling''),
     (''TextChunk'', ''GROUNDS_ENTITY'', ''SOP''),
     (''TextChunk'', ''GROUNDS_ENTITY'', ''SOPStep''),
     (''TextChunk'', ''GROUNDS_ENTITY'', ''FailureMode''),
     (''TextChunk'', ''GROUNDS_ENTITY'', ''SafetyHazard'')]"

record extracted_entity =
  ee_entity_id :: str
  ee_label :: entity_label
  ee_display_name :: str
  ee_confidence :: float64
  ee_asset_type :: "str option"
  ee_equipment_class :: "str option"
  ee_component_type :: "str option"
  ee_sensor_category :: "str option"
  ee_metric :: "str option"
  ee_unit :: "str option"
  ee_severity_tier :: "str option"
  ee_properties :: "(str \<times> pyval) list"
  ee_aliases :: "str list"
  ee_chunk_id :: "str option"
  ee_source_span :: "str option"

text \<open>The model strips its text fields, then validates.\<close>

definition mk_extracted_entity :: "extracted_entity \<Rightarrow> extracted_entity res" where
  "mk_extracted_entity e =
     (let e1 = e\<lparr>ee_entity_id := py_strip (ee_entity_id e), ee_display_name := py_strip (ee_display_name e),
            ee_asset_type := map_option py_strip (ee_asset_type e),
            ee_equipment_class := map_option py_strip (ee_equipment_class e),
            ee_component_type := map_option py_strip (ee_component_type e),
            ee_sensor_category := map_option py_strip (ee_sensor_category e),
            ee_metric := map_option py_strip (ee_metric e), ee_unit := map_option py_strip (ee_unit e),
            ee_severity_tier := map_option py_strip (ee_severity_tier e),
            ee_aliases := map py_strip (ee_aliases e), ee_chunk_id := map_option py_strip (ee_chunk_id e),
            ee_source_span := map_option py_strip (ee_source_span e)\<rparr>
      in require (CHR '':'' \<in> set (ee_entity_id e1) \<and> 5 \<le> length (ee_entity_id e1)) (ValidationError ''entity_id'')
         (require (1 \<le> length (ee_display_name e1) \<and> length (ee_display_name e1) \<le> 256) (ValidationError ''display_name'')
         (require (0 \<le> ee_confidence e1 \<and> ee_confidence e1 \<le> 1) (ValidationError ''confidence'') (Inr e1))))"

record extracted_relationship =
  er_source_id :: str
  er_source_label :: entity_label
  er_relationship :: relation_type
  er_target_id :: str
  er_target_label :: entity_label
  er_confidence :: float64
  er_properties :: "(str \<times> pyval) list"
  er_chunk_id :: "str option"
  er_evidence_text :: "str option"

record extraction_result =
  xr_chunk_id :: str
  xr_document_id :: str
  xr_entities :: "extracted_entity list"
  xr_relationships :: "extracted_relationship list"
  xr_extraction_model :: str
  xr_warnings :: "str list"

datatype ontology_error =
    SourceMissing str
  | TargetMissing str
  | TripleNotAllowed "str \<times> str \<times> str"
  | AnomalyPropsMissing str str
  | StepNumberMissing str str

definition triple_key :: "extracted_relationship \<Rightarrow> str \<times> str \<times> str" where
  "triple_key r = (label_value (er_source_label r), relation_value (er_relationship r), label_value (er_target_label r))"

definition has_prop :: "str \<Rightarrow> extracted_relationship \<Rightarrow> bool" where
  "has_prop k r \<longleftrightarrow> k \<in> fst ` set (er_properties r)"

definition relationship_errors :: "str list \<Rightarrow> extracted_relationship \<Rightarrow> ontology_error list" where
  "relationship_errors ids r =
     (if er_source_id r \<in> set ids then [] else [SourceMissing (er_source_id r)])
     @ (if er_target_id r \<in> set ids then [] else [TargetMissing (er_target_id r)])
     @ (if triple_key r \<in> set allowed_triples then [] else [TripleNotAllowed (triple_key r)])
     @ (if er_relationship r = EXHIBITS_ANOMALY \<and> (\<not> has_prop ''metric'' r \<or> \<not> has_prop ''confidence_weight'' r)
        then [AnomalyPropsMissing (er_source_id r) (er_target_id r)] else [])
     @ (if er_relationship r = HAS_STEP \<and> \<not> has_prop ''sequence_number'' r
        then [StepNumberMissing (er_source_id r) (er_target_id r)] else [])"

definition validate_ontology_constraints :: "extraction_result \<Rightarrow> ontology_error list" where
  "validate_ontology_constraints x =
     concat (map (relationship_errors (map ee_entity_id (xr_entities x))) (xr_relationships x))"

subsection \<open>Canonical identifiers\<close>

definition canonical_alias_map :: "(str \<times> str) list" where
  "canonical_alias_map = [
     (''centrifugal pump a'', ''asset:SRP:P-101A''), (''pump a'', ''asset:SRP:P-101A''),
     (''cp a'', ''asset:SRP:P-101A''), (''p 101a'', ''asset:SRP:P-101A''), (''p101a'', ''asset:SRP:P-101A''),
     (''pump-a'', ''asset:SRP:P-101A''), (''cp-a'', ''asset:SRP:P-101A''), (''p-101a'', ''asset:SRP:P-101A''),
     (''drive end bearing'', ''component:P-101A:BEARING:DE''), (''de bearing'', ''component:P-101A:BEARING:DE''),
     (''bearing de'', ''component:P-101A:BEARING:DE''), (''drive end bearing de'', ''component:P-101A:BEARING:DE''),
     (''te 101a de'', ''sensor:SRP:TE-101A-DE''), (''te-101a-de'', ''sensor:SRP:TE-101A-DE''),
     (''bearing temp sensor'', ''sensor:SRP:TE-101A-DE''), (''rtd de'', ''sensor:SRP:TE-101A-DE''),
     (''bearing temperature sensor'', ''sensor:SRP:TE-101A-DE''),
     (''bearing overheat'', ''failuremode:ROTARY_EQUIPMENT:BEARING:overheat''),
     (''overheating'', ''failuremode:ROTARY_EQUIPMENT:BEARING:overheat''),
     (''high bearing temp'', ''failuremode:ROTARY_EQUIPMENT:BEARING:overheat''),
     (''under lubrication'', ''rootcause:MAINTENANCE:under_lubrication''),
     (''lack of grease'', ''rootcause:MAINTENANCE:under_lubrication'')]"

definition id_to_display :: "(str \<times> str) list" where
  "id_to_display = [
     (''asset:SRP:P-101A'', ''Pump P-101A''),
     (''component:P-101A:BEARING:DE'', ''Drive-end bearing''),
     (''sensor:SRP:TE-101A-DE'', ''Drive-end bearing RTD''),
     (''failuremode:ROTARY_EQUIPMENT:BEARING:overheat'', ''Bearing overheat''),
     (''rootcause:MAINTENANCE:under_lubrication'', ''Under-lubrication''),
     (''sop:SOP-114:REV-C'', ''SOP-114 Bearing Lubrication''),
     (''tooling:TORQUE-WRENCH-50NM'', ''50 Nm torque wrench'')]"

definition is_key_char :: "char \<Rightarrow> bool" where
  "is_key_char c \<longleftrightarrow> is_lower c \<or> is_digit c"

text \<open>\<open>re.sub(r"[^a-z0-9]+", " ", s)\<close>.\<close>

function squash :: "str \<Rightarrow> str" where
  "squash [] = []"
| "squash (c # cs) =
     (if is_key_char c then c # squash cs
      else CHR '' '' # squash (dropWhile (\<lambda>d. \<not> is_key_char d) cs))"
  by pat_completeness auto
termination by (relation "measure length") (auto simp: le_imp_less_Suc length_dropWhile_le)

definition normalize_surface_form :: "str \<Rightarrow> str" where
  "normalize_surface_form s = py_strip (squash (py_lower s))"

definition replace_char :: "char \<Rightarrow> char \<Rightarrow> str \<Rightarrow> str" where
  "replace_char a b = map (\<lambda>c. if c = a then b else c)"

text \<open>
  The tag pattern \<open>[A-Z]{1,3}[-_ ]?\d{0,4}[A-Z]?(?:[-_][A-Z]{1,3})?\<close> between word boundaries: every
  way to match a prefix, in the order a backtracking matcher tries them, as (matched, rest).
\<close>

fun runs :: "(char \<Rightarrow> bool) \<Rightarrow> nat \<Rightarrow> str \<Rightarrow> (str \<times> str) list" where
  "runs p 0 s = [([], s)]"
| "runs p (Suc n) [] = [([], [])]"
| "runs p (Suc n) (c # cs) =
     (if p c then map (\<lambda>(m, r). (c # m, r)) (runs p n cs) @ [([], c # cs)] else [([], c # cs)])"

definition runs1 :: "(char \<Rightarrow> bool) \<Rightarrow> nat \<Rightarrow> str \<Rightarrow> (str \<times> str) list" where
  "runs1 p n s = filter (\<lambda>(m, r). m \<noteq> []) (runs p n s)"

definition after :: "(str \<times> str) list \<Rightarrow> (str \<Rightarrow> (str \<times> str) list) \<Rightarrow> (str \<times> str) list" where
  "after ms f = concat (map (\<lambda>(m, r). map (\<lambda>(m', r'). (m @ m', r')) (f r)) ms)"

definition tag_suffix :: "str \<Rightarrow> (str \<times> str) list" where
  "tag_suffix s = after (runs1 (\<lambda>c. c = CHR ''-'' \<or> c = CHR ''_'') 1 s) (runs1 is_upper 3) @ [([], s)]"

definition tag_matches :: "str \<Rightarrow> (str \<times> str) list" where
  "tag_matches s =
     after (after (after (after (runs1 is_upper 3 s)
       (runs (\<lambda>c. c = CHR ''-'' \<or> c = CHR ''_'' \<or> c = CHR '' '') 1))
       (runs is_digit 4))
       (runs is_upper 1))
       tag_suffix"

text \<open>The closing \<open>\b\<close>: exactly one of the last matched character and the next one is a word character.\<close>

definition boundary_after :: "str \<times> str \<Rightarrow> bool" where
  "boundary_after m = (case m of (t, r) \<Rightarrow> is_word (last t) \<noteq> (case r of [] \<Rightarrow> False | c # _ \<Rightarrow> is_word c))"

definition match_tag :: "char option \<Rightarrow> str \<Rightarrow> str option" where
  "match_tag prev s = (if word_starts prev then map_option fst (find boundary_after (tag_matches s)) else None)"

definition resolve_entity_id :: "str \<Rightarrow> str \<Rightarrow> str option \<Rightarrow> str" where
  "resolve_entity_id display_name label fallback =
     (let key = normalize_surface_form display_name;
          fallback_value = (if truthy_str fallback then the fallback
            else py_lower label @ '':SRP:'' @ replace_char (CHR '' '') (CHR ''_'') key);
          special = (if label = ''Asset'' \<and> key \<in> set [''cp a'', ''pump a'', ''centrifugal pump a'', ''cp-a'', ''pump-a'']
            then ''asset:SRP:P-101A'' else fallback_value)
      in case map_of canonical_alias_map key of Some i \<Rightarrow> i
       | None \<Rightarrow>
      (case map_of canonical_alias_map (py_strip (py_lower display_name)) of Some i \<Rightarrow> i
       | None \<Rightarrow>
      (case map_of canonical_alias_map (replace_char (CHR '' '') (CHR ''-'') key) of Some i \<Rightarrow> i
       | None \<Rightarrow>
      (case re_search match_tag None (py_upper display_name) of
         None \<Rightarrow> special
       | Some g \<Rightarrow>
          (let tag = replace_char (CHR ''_'') (CHR ''-'') (replace_char (CHR '' '') (CHR ''-'') g)
           in if label = ''Asset'' \<and> (starts_with ''P-'' tag \<or> tag \<in> set [''CP-A'', ''PUMP-A''])
              then ''asset:SRP:P-101A''
              else if label = ''Sensor'' \<and> starts_with ''TE-'' tag then ''sensor:SRP:'' @ tag
              else special)))))"

subsection \<open>Merging duplicates\<close>

text \<open>The first alias with a canonical identifier decides; otherwise the display name; otherwise
  the entity's own identifier.\<close>

definition canonical_id :: "extracted_entity \<Rightarrow> str" where
  "canonical_id e =
     (case find (\<lambda>a. normalize_surface_form a \<in> fst ` set canonical_alias_map) (ee_aliases e) of
        Some a \<Rightarrow> the (map_of canonical_alias_map (normalize_surface_form a))
      | None \<Rightarrow> dict_default canonical_alias_map (normalize_surface_form (ee_display_name e)) (ee_entity_id e))"

definition first_seen :: "extracted_entity \<Rightarrow> extracted_entity" where
  "first_seen e =
     (let cid = canonical_id e
      in e\<lparr>ee_entity_id := cid, ee_display_name := dict_default id_to_display cid (ee_display_name e),
           ee_aliases := sorted_set (ee_aliases e @ [ee_display_name e]
             @ (if ee_entity_id e \<noteq> cid then [ee_entity_id e] else []))\<rparr>)"

definition is_blank :: "pyval \<Rightarrow> bool" where
  "is_blank v \<longleftrightarrow> v \<in> set [VNone, VStr [], VList [], VDict []]"

definition fill_blank :: "(str \<times> pyval) list \<Rightarrow> (str \<times> pyval) list \<Rightarrow> (str \<times> pyval) list" where
  "fill_blank new old = foldl (\<lambda>d (k, v). case map_of d k of
       None \<Rightarrow> AList.update k v d
     | Some w \<Rightarrow> if is_blank w then AList.update k v d else d) old new"

definition set_defaults :: "(str \<times> pyval) list \<Rightarrow> (str \<times> pyval) list \<Rightarrow> (str \<times> pyval) list" where
  "set_defaults new old = foldl (\<lambda>d (k, v). if map_of d k = None then AList.update k v d else d) old new"

definition merge_entity :: "extracted_entity \<Rightarrow> extracted_entity \<Rightarrow> extracted_entity" where
  "merge_entity e x =
     (let x1 = x\<lparr>ee_aliases := sorted_set (ee_aliases x @ ee_aliases e @ [ee_display_name e])\<rparr>;
          x2 = (if ee_confidence x1 < ee_confidence e
                then x1\<lparr>ee_confidence := ee_confidence e, ee_properties := fill_blank (ee_properties e) (ee_properties x1)\<rparr>
                else x1)
      in x2\<lparr>ee_properties := set_defaults (ee_properties e) (ee_properties x2)\<rparr>)"

definition add_entity :: "(str \<times> extracted_entity) list \<Rightarrow> extracted_entity \<Rightarrow> (str \<times> extracted_entity) list" where
  "add_entity merged e =
     (case map_of merged (canonical_id e) of
        None \<Rightarrow> AList.update (canonical_id e) (first_seen e) merged
      | Some x \<Rightarrow> AList.update (canonical_id e) (merge_entity e x) merged)"

definition deduplicate_entities :: "extracted_entity list \<Rightarrow> extracted_entity list" where
  "deduplicate_entities es = map snd (foldl add_entity [] es)"

definition build_alias_registry :: "extracted_entity list \<Rightarrow> (str \<times> str list) list" where
  "build_alias_registry es =
     foldl (\<lambda>reg e. AList.update (ee_entity_id e) (sorted_set (ee_aliases e @ [ee_display_name e])) reg) [] es"

subsection \<open>Surface forms\<close>

lemma lower_upper_char: "lower_char (upper_char c) = lower_char c"
proof -
  have "(of_char c :: nat) < 256" by (rule nat_of_char_less_256)
  then show ?thesis by (auto simp: lower_char_def upper_char_def Let_def)
qed

lemma lower_key_char: "is_key_char c \<Longrightarrow> lower_char c = c"
  by (auto simp: is_key_char_def lower_char_def char_class_defs)

lemma lower_space [simp]: "lower_char (CHR '' '') = CHR '' ''"
  by (simp add: lower_char_def)

lemma key_not_space: "is_key_char c \<Longrightarrow> \<not> is_space c"
  by (auto simp: is_key_char_def char_class_defs)

text \<open>Words of key characters separated by single blanks.\<close>

fun spaced :: "str \<Rightarrow> bool" where
  "spaced [] = True"
| "spaced [c] = (is_key_char c \<or> c = CHR '' '')"
| "spaced (c # d # s) = ((is_key_char c \<or> c = CHR '' '') \<and> (is_key_char c \<or> is_key_char d) \<and> spaced (d # s))"

lemma spaced_Cons: "spaced (c # s) \<longleftrightarrow>
    (is_key_char c \<or> c = CHR '' '') \<and> (is_key_char c \<or> s = [] \<or> is_key_char (hd s)) \<and> spaced s"
  by (cases s) auto

lemma squash_spaced: "spaced (squash s)"
proof (induction s rule: squash.induct)
  case (2 c cs)
  show ?case
  proof (cases "is_key_char c")
    case False
    let ?r = "dropWhile (\<lambda>d. \<not> is_key_char d) cs"
    have "squash ?r = [] \<or> is_key_char (hd (squash ?r))"
    proof (cases ?r)
      case (Cons d ds)
      then have "is_key_char d" using hd_dropWhile [of "\<lambda>d. \<not> is_key_char d" cs] by simp
      then show ?thesis unfolding Cons by simp
    next
      case Nil
      show ?thesis unfolding Nil by simp
    qed
    then show ?thesis using 2 False by (simp add: spaced_Cons)
  qed (use 2 in \<open>simp add: spaced_Cons\<close>)
qed simp

lemma squash_id: "spaced s \<Longrightarrow> squash s = s"
proof (induction s rule: squash.induct)
  case (2 c cs)
  show ?case
  proof (cases "is_key_char c")
    case False
    then have "dropWhile (\<lambda>d. \<not> is_key_char d) cs = cs" "c = CHR '' ''" "spaced cs"
      using 2 by (cases cs; auto simp: spaced_Cons)+
    then show ?thesis using 2 False by simp
  qed (use 2 in \<open>simp add: spaced_Cons\<close>)
qed simp

lemma lower_spaced: "spaced s \<Longrightarrow> py_lower s = s"
  by (induction s rule: spaced.induct) (auto simp: py_lower_def lower_key_char)

lemma spaced_append: "spaced (a @ b) \<Longrightarrow> spaced a \<and> spaced b"
proof (induction a)
  case (Cons c a)
  then show ?case by (cases a) (auto simp: spaced_Cons)
qed simp

lemma py_strip_infix: "\<exists>l r. s = l @ py_strip s @ r"
proof -
  have "s = takeWhile is_space s @ dropWhile is_space s" by simp
  moreover have "rev (dropWhile is_space s) = takeWhile is_space (rev (dropWhile is_space s))
      @ dropWhile is_space (rev (dropWhile is_space s))" by simp
  then have "dropWhile is_space s = py_strip s @ rev (takeWhile is_space (rev (dropWhile is_space s)))"
    unfolding py_strip_def py_rstrip_def by (metis rev_append rev_rev_ident)
  ultimately show ?thesis by metis
qed

lemma spaced_strip: "spaced s \<Longrightarrow> spaced (py_strip s)"
  using py_strip_infix [of s] spaced_append by metis

lemma py_strip_strip: "py_strip (py_strip s) = py_strip s"
proof (cases "py_strip s = []")
  case True
  show ?thesis unfolding True by (simp add: py_strip_def py_rstrip_def)
next
  case False
  then show ?thesis by (rule py_strip_id [OF stripped_py_strip])
qed

text \<open>The normal form of a surface form is insensitive to case and idempotent, and consists of
  lower case words and digits separated by single blanks.\<close>

theorem normalize_surface_form_normal:
  "spaced (normalize_surface_form s)
   \<and> normalize_surface_form (normalize_surface_form s) = normalize_surface_form s
   \<and> normalize_surface_form (py_upper s) = normalize_surface_form s"
proof -
  have spaced: "spaced (normalize_surface_form s)"
    unfolding normalize_surface_form_def by (rule spaced_strip [OF squash_spaced])
  moreover have "normalize_surface_form (normalize_surface_form s) = normalize_surface_form s"
    unfolding normalize_surface_form_def [of "normalize_surface_form s"] lower_spaced [OF spaced] squash_id [OF spaced]
    by (simp add: normalize_surface_form_def py_strip_strip)
  moreover have "py_lower (py_upper s) = py_lower s"
    by (simp add: py_lower_def py_upper_def lower_upper_char)
  ultimately show ?thesis by (simp add: normalize_surface_form_def)
qed

text \<open>Every pump tag of the plant resolves to one pump.\<close>

theorem pump_tags_conflated:
  "resolve_entity_id ''P-102B'' ''Asset'' None = ''asset:SRP:P-101A''
   \<and> resolve_entity_id ''Feed pump P-205'' ''Asset'' (Some ''asset:SRP:P-205'') = ''asset:SRP:P-205''
   \<and> resolve_entity_id ''P-205 feed pump'' ''Asset'' (Some ''asset:SRP:P-205'') = ''asset:SRP:P-101A''"
  by code_simp

subsection \<open>The merge\<close>

lemma fill_blank_keys: "fst ` set (fill_blank new old) = fst ` set new \<union> fst ` set old"
proof (induction new arbitrary: old)
  case (Cons kv new)
  obtain k v where kv: "kv = (k, v)" by fastforce
  have "k \<in> fst ` set old \<longleftrightarrow> map_of old k \<noteq> None" by (simp add: map_of_eq_None_iff)
  then show ?case using Cons.IH
    by (auto simp: fill_blank_def kv keys_update split: option.splits)
qed (simp add: fill_blank_def)

lemma set_defaults_keys: "fst ` set (set_defaults new old) = fst ` set new \<union> fst ` set old"
proof (induction new arbitrary: old)
  case (Cons kv new)
  obtain k v where kv: "kv = (k, v)" by fastforce
  have "k \<in> fst ` set old \<longleftrightarrow> map_of old k \<noteq> None" by (simp add: map_of_eq_None_iff)
  then show ?case using Cons.IH by (auto simp: set_defaults_def kv keys_update)
qed (simp add: set_defaults_def)

lemma merge_entity_fields:
  "ee_entity_id (merge_entity e x) = ee_entity_id x"
  "ee_confidence (merge_entity e x) = max (ee_confidence e) (ee_confidence x)"
  "set (ee_aliases (merge_entity e x)) = insert (ee_display_name e) (set (ee_aliases x) \<union> set (ee_aliases e))"
  "fst ` set (ee_properties (merge_entity e x)) = fst ` set (ee_properties e) \<union> fst ` set (ee_properties x)"
  by (auto simp: merge_entity_def Let_def set_defaults_keys fill_blank_keys)

lemma first_seen_fields:
  "ee_entity_id (first_seen e) = canonical_id e" "ee_confidence (first_seen e) = ee_confidence e"
  "set (ee_aliases (first_seen e)) \<supseteq> insert (ee_display_name e) (set (ee_aliases e))"
  "ee_properties (first_seen e) = ee_properties e"
  by (auto simp: first_seen_def Let_def)

text \<open>What a merged entity keeps of the entities merged into it.\<close>

definition absorbs :: "extracted_entity \<Rightarrow> extracted_entity \<Rightarrow> bool" where
  "absorbs x e \<longleftrightarrow> ee_confidence e \<le> ee_confidence x \<and> insert (ee_display_name e) (set (ee_aliases e)) \<subseteq> set (ee_aliases x)
     \<and> fst ` set (ee_properties e) \<subseteq> fst ` set (ee_properties x)"

definition merge_inv :: "extracted_entity list \<Rightarrow> (str \<times> extracted_entity) list \<Rightarrow> bool" where
  "merge_inv es d \<longleftrightarrow> wf_dict d \<and> map fst d = map canonical_id (dedup_by canonical_id [] es)
     \<and> (\<forall>(k, x) \<in> set d. ee_entity_id x = k \<and> (\<exists>e \<in> set es. canonical_id e = k \<and> ee_confidence x = ee_confidence e)
          \<and> (\<forall>e \<in> set es. canonical_id e = k \<longrightarrow> absorbs x e))"

lemma dedup_by_snoc:
  "dedup_by f seen (xs @ [x]) =
     dedup_by f seen xs @ (if f x \<in> set seen \<union> f ` set xs then [] else [x])"
  by (induction f seen xs rule: dedup_by.induct) auto

lemma merge_inv_step:
  assumes "merge_inv es d"
  shows "merge_inv (es @ [e]) (add_entity d e)"
proof -
  let ?k = "canonical_id e"
  have wf: "wf_dict d" and keys: "map fst d = map canonical_id (dedup_by canonical_id [] es)"
    and all: "\<And>k x. (k, x) \<in> set d \<Longrightarrow> ee_entity_id x = k \<and> (\<exists>e \<in> set es. canonical_id e = k \<and> ee_confidence x = ee_confidence e)
          \<and> (\<forall>e \<in> set es. canonical_id e = k \<longrightarrow> absorbs x e)"
    using assms unfolding merge_inv_def by auto
  have dom: "fst ` set d = canonical_id ` set es"
    using keys dedup_by_keys [of canonical_id "[]" es] by (metis Diff_empty list.set(1) set_map)
  show ?thesis
  proof (cases "map_of d ?k")
    case None
    then have new: "?k \<notin> fst ` set d" by (simp add: map_of_eq_None_iff)
    have "absorbs (first_seen e) e" using first_seen_fields [of e] by (simp add: absorbs_def)
    moreover have "x \<in> set es \<Longrightarrow> canonical_id x \<noteq> ?k" for x using new dom by (metis imageI)
    moreover have "(?k, x) \<notin> set d" for x using new by force
    ultimately show ?thesis using new wf keys all dom first_seen_fields(1,2) [of e] wf_dict_update [of d ?k]
      by (auto simp: merge_inv_def add_entity_def None update_new dedup_by_snoc)
  next
    case (Some x)
    have mem: "(?k, x) \<in> set d" using Some by (rule map_of_SomeD)
    then have old: "?k \<in> fst ` set d" by force
    note x = all [OF mem]
    let ?x = "merge_entity e x"
    have absorb: "absorbs ?x f" if "absorbs x f" for f
      using that by (auto simp: absorbs_def merge_entity_fields le_max_iff_disj)
    have self: "absorbs ?x e" by (auto simp: absorbs_def merge_entity_fields)
    have conf: "\<exists>f \<in> set (es @ [e]). canonical_id f = ?k \<and> ee_confidence ?x = ee_confidence f"
      using x by (auto simp: merge_entity_fields max_def)
    have "ee_entity_id y = k' \<and> (\<exists>f \<in> set (es @ [e]). canonical_id f = k' \<and> ee_confidence y = ee_confidence f)
        \<and> (\<forall>f \<in> set (es @ [e]). canonical_id f = k' \<longrightarrow> absorbs y f)"
      if "(k', y) \<in> set (AList.update ?k ?x d)" for k' y
      using update_cases [OF wf that] all [of k' y] x absorb self conf by (auto simp: merge_entity_fields(1))
    moreover have "map fst (AList.update ?k ?x d) = map canonical_id (dedup_by canonical_id [] (es @ [e]))"
      using old dom keys by (simp add: map_fst_update_present dedup_by_snoc)
    ultimately show ?thesis using wf wf_dict_update [OF wf, of ?k ?x]
      by (auto simp: merge_inv_def add_entity_def Some)
  qed
qed

lemma merge_inv: "merge_inv es (foldl add_entity [] es)"
  by (induction es rule: rev_induct) (simp_all add: merge_inv_step, simp add: merge_inv_def)

text \<open>C12. Merging keeps one entity per canonical identifier, in the order of first appearance,
  with that identifier; its confidence is the largest of its group, and it keeps every alias,
  display name and property key of the group.\<close>

theorem deduplicate_entities_merges:
  "map ee_entity_id (deduplicate_entities es) = map canonical_id (dedup_by canonical_id [] es)
   \<and> distinct (map ee_entity_id (deduplicate_entities es))
   \<and> list_all (\<lambda>x. list_all (absorbs x) (filter (\<lambda>e. canonical_id e = ee_entity_id x) es)
        \<and> list_ex (\<lambda>e. canonical_id e = ee_entity_id x \<and> ee_confidence e = ee_confidence x) es)
      (deduplicate_entities es)"
proof -
  let ?d = "foldl add_entity [] es"
  have inv: "merge_inv es ?d" by (rule merge_inv)
  have "\<And>kx. kx \<in> set ?d \<Longrightarrow> ee_entity_id (snd kx) = fst kx"
    using inv by (auto simp: merge_inv_def)
  then have ids: "map ee_entity_id (map snd ?d) = map fst ?d" unfolding map_map by (intro map_cong) auto
  moreover have "distinct (map fst ?d)" "map fst ?d = map canonical_id (dedup_by canonical_id [] es)"
    using inv unfolding merge_inv_def wf_dict_def by blast+
  moreover have "list_all (\<lambda>x. list_all (absorbs x) (filter (\<lambda>e. canonical_id e = ee_entity_id x) es)
        \<and> list_ex (\<lambda>e. canonical_id e = ee_entity_id x \<and> ee_confidence e = ee_confidence x) es) (map snd ?d)"
    using inv by (fastforce simp: merge_inv_def list_all_iff list_ex_iff)
  ultimately show ?thesis unfolding deduplicate_entities_def by metis
qed

end
