(* ===== verification/Ingestion_Pipeline.thy ===== *)
theory Ingestion_Pipeline
  imports Entity_Resolution
begin

section \<open>Quality assertions and the ingestion pipeline\<close>

text \<open>
  \<open>app/ingestion/validator.py\<close> and \<open>app/ingestion/pipeline.py\<close>: the data quality gate, the
  aggregation of extraction results, and the run from a parsed document to the load. The
  extractor, the loader, the splitter and SHA-256 are parameters. Sets are iterated in the order
  of first insertion.
\<close>

subsection \<open>The quality gate\<close>

datatype quality_error =
    IsolatedWithoutChunk str
  | IsolatedWithoutProperties str
  | NotUpperSnake str str str
  | EntityChunkUnknown str str
  | EntityWithoutChunk str
  | RelationChunkUnknown str relation_type str str
  | MetricMissing str str
  | WeightMissing str str
  | WeightOutOfRange pyval
  | WeightInvalid pyval
  | SequenceMissing str str
  | IdStrategyFails str

definition entity_isolated :: "extracted_relationship list \<Rightarrow> extracted_entity \<Rightarrow> bool" where
  "entity_isolated rels e \<longleftrightarrow> ee_entity_id e \<notin> set (map er_source_id rels) \<union> set (map er_target_id rels)"

definition assert_no_isolated_nodes ::
  "extracted_entity list \<Rightarrow> extracted_relationship list \<Rightarrow> quality_error list" where
  "assert_no_isolated_nodes es rels =
     concat (map (\<lambda>e.
         (if \<not> truthy_str (ee_chunk_id e) then [IsolatedWithoutChunk (ee_entity_id e)] else [])
         @ (if ee_display_name e = [] then [IsolatedWithoutProperties (ee_entity_id e)] else []))
       (filter (entity_isolated rels) (dedup_by ee_entity_id [] es)))"

definition upper_snake :: "str \<Rightarrow> bool" where
  "upper_snake s = (case s of [] \<Rightarrow> False
     | c # cs \<Rightarrow> is_upper c \<and> list_all (\<lambda>d. is_upper d \<or> is_digit d \<or> d = CHR ''_'') cs)"

definition assert_relationship_naming :: "extracted_relationship list \<Rightarrow> quality_error list" where
  "assert_relationship_naming rels =
     concat (map (\<lambda>r. if upper_snake (relation_value (er_relationship r)) then []
       else [NotUpperSnake (relation_value (er_relationship r)) (er_source_id r) (er_target_id r)]) rels)"

definition assert_chunk_traceability ::
  "extracted_entity list \<Rightarrow> extracted_relationship list \<Rightarrow> chunk_metadata list \<Rightarrow> quality_error list" where
  "assert_chunk_traceability es rels chunks =
     (let ids = map cm_chunk_id chunks in
      concat (map (\<lambda>e.
          (if truthy_str (ee_chunk_id e) \<and> the (ee_chunk_id e) \<notin> set ids
           then [EntityChunkUnknown (ee_entity_id e) (the (ee_chunk_id e))] else [])
          @ (if \<not> truthy_str (ee_chunk_id e) then [EntityWithoutChunk (ee_entity_id e)] else [])) es)
      @ concat (map (\<lambda>r.
          if truthy_str (er_chunk_id r) \<and> the (er_chunk_id r) \<notin> set ids
          then [RelationChunkUnknown (er_source_id r) (er_relationship r) (er_target_id r) (the (er_chunk_id r))]
          else []) rels))"

definition edge_property_errors :: "extracted_relationship \<Rightarrow> quality_error list" where
  "edge_property_errors r =
     (if er_relationship r = EXHIBITS_ANOMALY then
        (if has_prop ''metric'' r then [] else [MetricMissing (er_source_id r) (er_target_id r)])
        @ (case map_of (er_properties r) ''confidence_weight'' of
             None \<Rightarrow> [WeightMissing (er_source_id r) (er_target_id r)]
           | Some cw \<Rightarrow>
               (case to_float cw of
                  Inl _ \<Rightarrow> [WeightInvalid cw]
                | Inr w \<Rightarrow> if 0 \<le> w \<and> w \<le> 1 then [] else [WeightOutOfRange cw]))
      else [])
     @ (if er_relationship r = HAS_STEP \<and> \<not> has_prop ''sequence_number'' r
        then [SequenceMissing (er_source_id r) (er_target_id r)] else [])"

definition assert_required_edge_properties :: "extracted_relationship list \<Rightarrow> quality_error list" where
  "assert_required_edge_properties rels = concat (map edge_property_errors rels)"

definition id_strategy_errors :: "extracted_entity list \<Rightarrow> quality_error list" where
  "id_strategy_errors es = concat (map (\<lambda>e.
     if ee_entity_id e = [] \<or> CHR '':'' \<notin> set (ee_entity_id e) then [IdStrategyFails (ee_entity_id e)] else []) es)"

record quality_report =
  qr_passed :: bool
  qr_error_count :: nat
  qr_errors :: "quality_error list"
  qr_entity_count :: nat
  qr_relationship_count :: nat
  qr_chunk_count :: nat

definition run_quality_assertions ::
  "extracted_entity list \<Rightarrow> extracted_relationship list \<Rightarrow> chunk_metadata list \<Rightarrow> quality_report" where
  "run_quality_assertions es rels chunks =
     (let errors = assert_no_isolated_nodes es rels @ assert_relationship_naming rels
            @ assert_chunk_traceability es rels chunks @ assert_required_edge_properties rels
            @ id_strategy_errors es
      in \<lparr>qr_passed = (length errors = 0), qr_error_count = length errors, qr_errors = errors,
          qr_entity_count = length es, qr_relationship_count = length rels, qr_chunk_count = length chunks\<rparr>)"

subsection \<open>The pipeline\<close>

definition rel_key :: "extracted_relationship \<Rightarrow> str \<times> str \<times> str" where
  "rel_key r = (er_source_id r, relation_value (er_relationship r), er_target_id r)"

definition aggregate_results ::
  "extraction_result list \<Rightarrow> extracted_entity list \<times> extracted_relationship list \<times> str list" where
  "aggregate_results results =
     (deduplicate_entities (concat (map xr_entities results)),
      dedup_by rel_key [] (concat (map xr_relationships results)),
      map xr_chunk_id results)"

definition extract_batch ::
  "(chunk_metadata \<Rightarrow> str \<Rightarrow> extraction_result res) \<Rightarrow> chunk_metadata list \<Rightarrow> extraction_result list" where
  "extract_batch extract chunks =
     concat (map (\<lambda>c. case extract c (cm_text c) of Inl _ \<Rightarrow> [] | Inr r \<Rightarrow> [r]) chunks)"

record run_report =
  rp_success :: bool
  rp_document_id :: str
  rp_source_filename :: str
  rp_total_pages :: int
  rp_chunks :: nat
  rp_entities_extracted :: nat
  rp_relationships_extracted :: nat
  rp_validation :: "quality_report option"
  rp_load_report :: "bool option"
  rp_results :: "extraction_result list"

datatype run_outcome = NoChunksProduced | Ran run_report

text \<open>\<open>load_batch\<close> returns its report's success flag; with \<open>load\<close> off, or after a failed
  validation, it is not called and the report is empty.\<close>

definition pipeline_report ::
  "(chunk_metadata \<Rightarrow> str \<Rightarrow> extraction_result res)
   \<Rightarrow> (chunk_metadata list \<Rightarrow> extracted_entity list \<Rightarrow> extracted_relationship list \<Rightarrow> bool res)
   \<Rightarrow> bool \<Rightarrow> bool \<Rightarrow> parsed_document \<Rightarrow> chunk_metadata list \<Rightarrow> run_outcome res" where
  "pipeline_report extract load_batch validate load d chunks =
     (if chunks = [] then Inr NoChunksProduced
      else let results = extract_batch extract chunks in
        (case aggregate_results results of (es, rels, _) \<Rightarrow>
          let validation = (if validate then Some (run_quality_assertions es rels chunks) else None);
              passed = (case validation of None \<Rightarrow> True | Some v \<Rightarrow> qr_passed v)
          in bind_res (if load \<and> passed then map_sum id Some (load_batch chunks es rels) else Inr None) (\<lambda>report.
             Inr (Ran \<lparr>rp_success = (passed \<and> (if load then (case report of None \<Rightarrow> True | Some b \<Rightarrow> b) else True)),
               rp_document_id = pd_document_id d, rp_source_filename = pd_source_filename d,
               rp_total_pages = pd_total_pages d, rp_chunks = length chunks,
               rp_entities_extracted = length es, rp_relationships_extracted = length rels,
               rp_validation = validation, rp_load_report = report, rp_results = results\<rparr>))))"

definition pipeline_run ::
  "(str \<Rightarrow> str) \<Rightarrow> (str \<Rightarrow> str list res) option \<Rightarrow> chunker
   \<Rightarrow> (chunk_metadata \<Rightarrow> str \<Rightarrow> extraction_result res)
   \<Rightarrow> (chunk_metadata list \<Rightarrow> extracted_entity list \<Rightarrow> extracted_relationship list \<Rightarrow> bool res)
   \<Rightarrow> bool \<Rightarrow> bool \<Rightarrow> parsed_document \<Rightarrow> run_outcome res option" where
  "pipeline_run sha splitter cc extract load_batch validate load d =
     map_option (\<lambda>r. bind_res r (pipeline_report extract load_batch validate load d)) (chunk_document sha splitter cc d)"

subsection \<open>What the gate guarantees\<close>

definition edge_ok :: "str list \<Rightarrow> extracted_relationship \<Rightarrow> bool" where
  "edge_ok ids r \<longleftrightarrow>
     (truthy_str (er_chunk_id r) \<longrightarrow> the (er_chunk_id r) \<in> set ids)
     \<and> (er_relationship r = EXHIBITS_ANOMALY \<longrightarrow> has_prop ''metric'' r
          \<and> (\<exists>cw w. map_of (er_properties r) ''confidence_weight'' = Some cw \<and> to_float cw = Inr w \<and> 0 \<le> w \<and> w \<le> 1))
     \<and> (er_relationship r = HAS_STEP \<longrightarrow> has_prop ''sequence_number'' r)"

definition node_ok :: "str list \<Rightarrow> extracted_entity \<Rightarrow> bool" where
  "node_ok ids e \<longleftrightarrow> truthy_str (ee_chunk_id e) \<and> the (ee_chunk_id e) \<in> set ids \<and> CHR '':'' \<in> set (ee_entity_id e)"

lemma relation_names_upper_snake: "upper_snake (relation_value t)"
  by (cases t) (simp_all add: upper_snake_def char_class_defs)

lemma naming_never_fails: "assert_relationship_naming rels = []"
  by (simp add: assert_relationship_naming_def relation_names_upper_snake)

lemma traceability_Nil:
  "assert_chunk_traceability es rels chunks = [] \<longleftrightarrow>
     (\<forall>e \<in> set es. truthy_str (ee_chunk_id e) \<and> the (ee_chunk_id e) \<in> set (map cm_chunk_id chunks))
     \<and> (\<forall>r \<in> set rels. truthy_str (er_chunk_id r) \<longrightarrow> the (er_chunk_id r) \<in> set (map cm_chunk_id chunks))"
  by (auto simp: assert_chunk_traceability_def Let_def split: if_splits)

lemma edge_property_errors_Nil:
  "edge_property_errors r = [] \<longleftrightarrow>
     (er_relationship r = EXHIBITS_ANOMALY \<longrightarrow> has_prop ''metric'' r
        \<and> (\<exists>cw w. map_of (er_properties r) ''confidence_weight'' = Some cw \<and> to_float cw = Inr w \<and> 0 \<le> w \<and> w \<le> 1))
     \<and> (er_relationship r = HAS_STEP \<longrightarrow> has_prop ''sequence_number'' r)"
  by (auto simp: edge_property_errors_def split: option.splits sum.splits)

text \<open>The quality gate passes exactly when every entity names a chunk of the batch and has a
  qualified identifier, every edge that names a chunk names one of the batch and carries the
  properties its type requires (a metric and a weight in the unit interval for an anomaly, a
  sequence number for a step), and the first entity of each identifier without an edge has a name.\<close>

theorem quality_gate_exact:
  "qr_passed (run_quality_assertions es rels chunks) \<longleftrightarrow>
     list_all (node_ok (map cm_chunk_id chunks)) es \<and> list_all (edge_ok (map cm_chunk_id chunks)) rels
     \<and> list_all (\<lambda>e. ee_display_name e \<noteq> []) (filter (entity_isolated rels) (dedup_by ee_entity_id [] es))"
proof -
  let ?iso = "filter (entity_isolated rels) (dedup_by ee_entity_id [] es)"
  have sub: "set ?iso \<subseteq> set es" using dedup_by_subset [of ee_entity_id "[]" es] by auto
  have "assert_no_isolated_nodes es rels = [] \<longleftrightarrow>
      (\<forall>e \<in> set ?iso. truthy_str (ee_chunk_id e) \<and> ee_display_name e \<noteq> [])"
    by (auto simp: assert_no_isolated_nodes_def split: if_splits)
  moreover have "id_strategy_errors es = [] \<longleftrightarrow> (\<forall>e \<in> set es. CHR '':'' \<in> set (ee_entity_id e))"
    by (auto simp: id_strategy_errors_def split: if_splits)
  moreover have "assert_required_edge_properties rels = [] \<longleftrightarrow> (\<forall>r \<in> set rels. edge_property_errors r = [])"
    by (simp add: assert_required_edge_properties_def)
  ultimately have "qr_passed (run_quality_assertions es rels chunks) \<longleftrightarrow>
      (\<forall>e \<in> set ?iso. truthy_str (ee_chunk_id e) \<and> ee_display_name e \<noteq> [])
      \<and> (\<forall>e \<in> set es. truthy_str (ee_chunk_id e) \<and> the (ee_chunk_id e) \<in> set (map cm_chunk_id chunks))
      \<and> (\<forall>r \<in> set rels. truthy_str (er_chunk_id r) \<longrightarrow> the (er_chunk_id r) \<in> set (map cm_chunk_id chunks))
      \<and> (\<forall>r \<in> set rels. edge_property_errors r = []) \<and> (\<forall>e \<in> set es. CHR '':'' \<in> set (ee_entity_id e))"
    by (simp add: run_quality_assertions_def Let_def naming_never_fails traceability_Nil)
  moreover have "(\<forall>r \<in> set rels. truthy_str (er_chunk_id r) \<longrightarrow> the (er_chunk_id r) \<in> set (map cm_chunk_id chunks))
      \<and> (\<forall>r \<in> set rels. edge_property_errors r = []) \<longleftrightarrow> list_all (edge_ok (map cm_chunk_id chunks)) rels"
    unfolding edge_property_errors_Nil list_all_iff edge_ok_def by (simp only: ball_conj_distrib)
  moreover have "(\<forall>e \<in> set es. truthy_str (ee_chunk_id e) \<and> the (ee_chunk_id e) \<in> set (map cm_chunk_id chunks))
      \<and> (\<forall>e \<in> set es. CHR '':'' \<in> set (ee_entity_id e)) \<longleftrightarrow> list_all (node_ok (map cm_chunk_id chunks)) es"
    unfolding list_all_iff node_ok_def by blast
  moreover have "list_all (node_ok (map cm_chunk_id chunks)) es \<Longrightarrow> \<forall>e \<in> set ?iso. truthy_str (ee_chunk_id e)"
    using sub unfolding list_all_iff node_ok_def by blast
  moreover have "(\<forall>e \<in> set ?iso. truthy_str (ee_chunk_id e) \<and> ee_display_name e \<noteq> []) \<longleftrightarrow>
      (\<forall>e \<in> set ?iso. truthy_str (ee_chunk_id e)) \<and> list_all (\<lambda>e. ee_display_name e \<noteq> []) ?iso"
    unfolding list_all_iff by blast
  ultimately show ?thesis by argo
qed

subsection \<open>Aggregation\<close>

lemma dedup_ids: "set (map ee_entity_id (deduplicate_entities es)) = canonical_id ` set es"
proof -
  have inv: "merge_inv es (foldl add_entity [] es)" by (rule merge_inv)
  have "\<And>kx. kx \<in> set (foldl add_entity [] es) \<Longrightarrow> ee_entity_id (snd kx) = fst kx"
    using inv by (auto simp: merge_inv_def)
  then have "map ee_entity_id (deduplicate_entities es) = map fst (foldl add_entity [] es)"
    unfolding deduplicate_entities_def map_map by (intro map_cong) auto
  also have "\<dots> = map canonical_id (dedup_by canonical_id [] es)" using inv unfolding merge_inv_def by blast
  finally show ?thesis using dedup_by_keys [of canonical_id "[]" es] by simp
qed

text \<open>Aggregation keeps one edge per (source, type, target) and loses none of these keys, and
  keeps every entity identifier that is its own canonical identifier. (An entity whose identifier
  is replaced by a canonical one leaves the edges that name it dangling.)\<close>

theorem aggregate_results_keeps:
  "case aggregate_results results of (es, rels, ids) \<Rightarrow>
     distinct (map rel_key rels)
     \<and> rel_key ` set rels = rel_key ` set (concat (map xr_relationships results))
     \<and> set rels \<subseteq> set (concat (map xr_relationships results))
     \<and> set (map ee_entity_id (filter (\<lambda>e. canonical_id e = ee_entity_id e) (concat (map xr_entities results))))
         \<subseteq> set (map ee_entity_id es)
     \<and> ids = map xr_chunk_id results"
proof -
  let ?rels = "concat (map xr_relationships results)" and ?es = "concat (map xr_entities results)"
  have "set (map ee_entity_id (filter (\<lambda>e. canonical_id e = ee_entity_id e) ?es)) \<subseteq> canonical_id ` set ?es"
    by (auto simp del: set_concat intro: image_eqI [OF sym])
  moreover have "rel_key ` set (dedup_by rel_key [] ?rels) = rel_key ` set ?rels"
    using dedup_by_keys [of rel_key "[]" ?rels] by simp
  ultimately show ?thesis
    using dedup_by_distinct [of rel_key "[]" ?rels] dedup_by_subset [of rel_key "[]" ?rels]
    unfolding aggregate_results_def prod.case dedup_ids by blast
qed

definition plain_entity :: "str \<Rightarrow> entity_label \<Rightarrow> str \<Rightarrow> extracted_entity" where
  "plain_entity i l n = \<lparr>ee_entity_id = i, ee_label = l, ee_display_name = n, ee_confidence = F 0.9,
     ee_asset_type = None, ee_equipment_class = None, ee_component_type = None, ee_sensor_category = None,
     ee_metric = None, ee_unit = None, ee_severity_tier = None, ee_properties = [], ee_aliases = [],
     ee_chunk_id = Some ''chunk:1'', ee_source_span = None\<rparr>"

definition pump_result :: extraction_result where
  "pump_result = \<lparr>xr_chunk_id = ''chunk:1'', xr_document_id = ''d1'',
     xr_entities = [plain_entity ''asset:SRP:PUMP-A'' LAsset ''Pump A'', plain_entity ''component:SEAL'' LComponent ''Seal''],
     xr_relationships = [\<lparr>er_source_id = ''asset:SRP:PUMP-A'', er_source_label = LAsset, er_relationship = COMPRISED_OF,
       er_target_id = ''component:SEAL'', er_target_label = LComponent, er_confidence = F 0.9, er_properties = [],
       er_chunk_id = Some ''chunk:1'', er_evidence_text = None\<rparr>],
     xr_extraction_model = ''m'', xr_warnings = []\<rparr>"

text \<open>An extraction that satisfies the ontology constraints, after aggregation: the edge still names
  the pump by the identifier that the merge has replaced, and the quality gate lets it pass.\<close>

theorem aggregate_dangling_edge:
  "validate_ontology_constraints pump_result = []
   \<and> (case aggregate_results [pump_result] of (es, rels, _) \<Rightarrow>
        map ee_entity_id es = [''asset:SRP:P-101A'', ''component:SEAL'']
        \<and> map er_source_id rels = [''asset:SRP:PUMP-A'']
        \<and> assert_no_isolated_nodes es rels = [] \<and> id_strategy_errors es = [])"
  by code_simp

subsection \<open>The run\<close>

text \<open>C13. The gate checks what is loaded. A run with validation aggregates the extraction results of
  the chunks of its document and puts the aggregated entities and edges to the quality gate. When
  the gate passes and loading is on, it is these entities and edges, with the same chunks, that the
  loader receives, once; its verdict is the verdict of the run, and what it raises the run raises.
  In every other case the loader is not called (the run is the same with any other loader), nothing
  is reported as loaded and the run succeeds exactly when the gate passed. The report counts the
  chunks, the entities and the edges that were checked.\<close>

theorem pipeline_run_gated:
  assumes "chunk_document sha splitter cc d = Some (Inr chunks)" and "chunks \<noteq> []"
    and "aggregate_results (extract_batch extract chunks) = (es, rels, ids)"
    and "gate = run_quality_assertions es rels chunks"
  shows "(if load \<and> qr_passed gate then
       (case load_batch chunks es rels of
          Inl e \<Rightarrow> pipeline_run sha splitter cc extract load_batch True load d = Some (Inl e)
        | Inr b \<Rightarrow> (\<exists>rep. pipeline_run sha splitter cc extract load_batch True load d = Some (Inr (Ran rep))
            \<and> rp_validation rep = Some gate \<and> rp_load_report rep = Some b \<and> rp_success rep = b
            \<and> rp_chunks rep = length chunks \<and> rp_entities_extracted rep = length es
            \<and> rp_relationships_extracted rep = length rels))
     else (\<exists>rep. (\<forall>loader. pipeline_run sha splitter cc extract loader True load d = Some (Inr (Ran rep)))
            \<and> rp_validation rep = Some gate \<and> rp_load_report rep = None \<and> rp_success rep = qr_passed gate
            \<and> rp_chunks rep = length chunks \<and> rp_entities_extracted rep = length es
            \<and> rp_relationships_extracted rep = length rels))"
  using assms by (auto simp: pipeline_run_def pipeline_report_def Let_def split: sum.splits)

text \<open>A document of two sections of which each yields the pump and its seal with their edge.\<close>

definition seal_extractor :: "chunk_metadata \<Rightarrow> str \<Rightarrow> extraction_result res" where
  "seal_extractor c t = Inr (let ident = cm_chunk_id c in
     \<lparr>xr_chunk_id = ident, xr_document_id = cm_document_id c,
      xr_entities = [(plain_entity ''asset:SRP:P-101A'' LAsset ''Pump A'')\<lparr>ee_chunk_id := Some ident\<rparr>,
        (plain_entity ''component:SEAL'' LComponent ''Seal'')\<lparr>ee_chunk_id := Some ident\<rparr>],
      xr_relationships = [\<lparr>er_source_id = ''asset:SRP:P-101A'', er_source_label = LAsset, er_relationship = COMPRISED_OF,
        er_target_id = ''component:SEAL'', er_target_label = LComponent, er_confidence = F 0.9, er_properties = [],
        er_chunk_id = Some ident, er_evidence_text = None\<rparr>],
      xr_extraction_model = ''m'', xr_warnings = []\<rparr>)"

theorem pipeline_run_gated_witness:
  "\<exists>rep. pipeline_run (\<lambda>s. s) (Some (\<lambda>t. Inr [t])) default_chunker seal_extractor
       (\<lambda>cs es rels. Inr (length cs = 2 \<and> length es = 2 \<and> length rels = 1)) True True two_part_manual
       = Some (Inr (Ran rep))
     \<and> rp_success rep \<and> rp_load_report rep = Some True
     \<and> rp_entities_extracted rep = 2 \<and> rp_relationships_extracted rep = 1"
proof -
  have run: "case chunk_document (\<lambda>s. s) (Some (\<lambda>t. Inr [t])) default_chunker two_part_manual of
      Some (Inr chunks) \<Rightarrow>
        (case aggregate_results (extract_batch seal_extractor chunks) of (es, rels, ids) \<Rightarrow>
           length chunks = 2 \<and> length es = 2 \<and> length rels = 1 \<and> qr_passed (run_quality_assertions es rels chunks))
    | _ \<Rightarrow> False" by code_simp
  then obtain chunks where chunks: "chunk_document (\<lambda>s. s) (Some (\<lambda>t. Inr [t])) default_chunker two_part_manual = Some (Inr chunks)"
    by (auto split: option.splits sum.splits)
  obtain es rels ids where agg: "aggregate_results (extract_batch seal_extractor chunks) = (es, rels, ids)"
    using prod_cases3 by blast
  have facts: "length chunks = 2" "length es = 2" "length rels = 1" "qr_passed (run_quality_assertions es rels chunks)"
    using run unfolding chunks by (simp_all add: agg)
  then have "chunks \<noteq> []" by auto
  from pipeline_run_gated [OF chunks this agg refl, of True "\<lambda>cs es rels. Inr (length cs = 2 \<and> length es = 2 \<and> length rels = 1)"]
  show ?thesis using facts by auto
qed

end
