(* ===== verification/Context_Fusion.thy ===== *)
theory Context_Fusion
  imports Graphrag_Models
begin

section \<open>Context fusion\<close>

text \<open>
  \<open>app/graphrag/context_fusion.py\<close>: reciprocal rank fusion of the vector and graph channels, the
  weighted alternative, and the ranked, truncated result. Scores are floats, added in the order of
  the code. A hit is the dictionary the retriever builds, as a record; an optional field is one the
  code reads with a default.
\<close>

record vector_hit =
  vh_chunk_id :: str
  vh_text :: str
  vh_score :: float64
  vh_document_id :: "str option"
  vh_document_type :: "str option"
  vh_source_filename :: "str option"
  vh_section_title :: "str option"
  vh_page_start :: "int option"
  vh_payload :: "(str \<times> pyval) list"

record graph_hit =
  gh_node_id :: str
  gh_label :: str
  gh_display_name :: str
  gh_relevance_score :: float64
  gh_properties :: "(str \<times> pyval) list"
  gh_document_type :: "str option"
  gh_text :: str

record fusion_candidate =
  fc_candidate_id :: str
  fc_label :: str
  fc_source_type :: str
  fc_text :: str
  fc_score_vector :: float64
  fc_score_graph :: float64
  fc_rrf_score :: float64
  fc_metadata :: "(str \<times> pyval) list"
  fc_document_id :: "str option"
  fc_chunk_id :: "str option"
  fc_node_id :: "str option"
  fc_page_number :: "int option"
  fc_document_type :: "str option"
  fc_source_filename :: "str option"

definition fused_source_type :: "fusion_candidate \<Rightarrow> str" where
  "fused_source_type c =
     (if 0 < fc_score_vector c \<and> 0 < fc_score_graph c then ''both''
      else if 0 < fc_score_vector c then ''vector'' else ''graph'')"

record fusion_result =
  fr_candidates :: "fusion_candidate list"
  fr_total_vector :: nat
  fr_total_graph :: nat
  fr_method :: str
  fr_k :: nat

subsection \<open>Reciprocal rank fusion\<close>

definition rrf_term :: "nat \<Rightarrow> nat \<Rightarrow> float64" where
  "rrf_term k rank = F 1 / of_int64 (int (k + rank))"

text \<open>\<open>scores[candidate_id] += 1.0 / (k + rank)\<close> on a defaultdict; \<open>r\<close> is the 0-based rank.\<close>

fun rrf_list :: "nat \<Rightarrow> nat \<Rightarrow> (str \<times> float64) list \<Rightarrow> (str \<times> float64) list \<Rightarrow> (str \<times> float64) list" where
  "rrf_list k r [] scores = scores"
| "rrf_list k r ((cid, _) # hits) scores =
     rrf_list k (Suc r) hits (AList.update cid (dict_default scores cid 0 + rrf_term k (r + 1)) scores)"

definition reciprocal_rank_fusion :: "(str \<times> float64) list list \<Rightarrow> nat \<Rightarrow> (str \<times> float64) list" where
  "reciprocal_rank_fusion ranked_lists k =
     foldl (\<lambda>scores hits. rrf_list k 0 hits scores) [] ranked_lists"

subsection \<open>The engine\<close>

definition candidate_of_vector :: "vector_hit \<Rightarrow> fusion_candidate" where
  "candidate_of_vector h = \<lparr>
     fc_candidate_id = vh_chunk_id h,
     fc_label = (if truthy_str (vh_section_title h) then the (vh_section_title h)
                 else (case vh_document_type h of None \<Rightarrow> ''chunk'' | Some t \<Rightarrow> t)),
     fc_source_type = ''vector'', fc_text = vh_text h, fc_score_vector = vh_score h, fc_score_graph = 0,
     fc_rrf_score = 0, fc_metadata = vh_payload h, fc_document_id = vh_document_id h,
     fc_chunk_id = Some (vh_chunk_id h), fc_node_id = None, fc_page_number = vh_page_start h,
     fc_document_type = vh_document_type h, fc_source_filename = vh_source_filename h\<rparr>"

definition candidate_of_graph :: "graph_hit \<Rightarrow> fusion_candidate" where
  "candidate_of_graph h = \<lparr>
     fc_candidate_id = gh_node_id h,
     fc_label = (if gh_label h \<noteq> [] then gh_label h else gh_display_name h),
     fc_source_type = ''graph'', fc_text = (if gh_text h \<noteq> [] then gh_text h else gh_display_name h),
     fc_score_vector = 0, fc_score_graph = gh_relevance_score h, fc_rrf_score = 0,
     fc_metadata = gh_properties h, fc_document_id = None, fc_chunk_id = None, fc_node_id = Some (gh_node_id h),
     fc_page_number = None, fc_document_type = gh_document_type h, fc_source_filename = None\<rparr>"

definition add_vector :: "(str \<times> fusion_candidate) list \<Rightarrow> vector_hit \<Rightarrow> (str \<times> fusion_candidate) list" where
  "add_vector d h =
     (if vh_chunk_id h = [] then d else AList.update (vh_chunk_id h) (candidate_of_vector h) d)"

definition add_graph :: "(str \<times> fusion_candidate) list \<Rightarrow> graph_hit \<Rightarrow> (str \<times> fusion_candidate) list" where
  "add_graph d h =
     (if gh_node_id h = [] then d
      else (case map_of d (gh_node_id h) of
          Some c \<Rightarrow> AList.update (gh_node_id h)
            (c\<lparr>fc_score_graph := gh_relevance_score h, fc_source_type := ''both'', fc_node_id := Some (gh_node_id h)\<rparr>) d
        | None \<Rightarrow> AList.update (gh_node_id h) (candidate_of_graph h) d))"

definition vector_ranked :: "vector_hit list \<Rightarrow> (str \<times> float64) list" where
  "vector_ranked hits = map (\<lambda>h. (vh_chunk_id h, vh_score h)) (filter (\<lambda>h. vh_chunk_id h \<noteq> []) hits)"

definition graph_ranked :: "graph_hit list \<Rightarrow> (str \<times> float64) list" where
  "graph_ranked hits = map (\<lambda>h. (gh_node_id h, gh_relevance_score h)) (filter (\<lambda>h. gh_node_id h \<noteq> []) hits)"

definition apply_rrf ::
  "nat \<Rightarrow> vector_hit list \<Rightarrow> graph_hit list \<Rightarrow> (str \<times> fusion_candidate) list \<Rightarrow> (str \<times> fusion_candidate) list" where
  "apply_rrf k vs gs d =
     (let scores = reciprocal_rank_fusion [vector_ranked vs, graph_ranked gs] k
      in map (\<lambda>(cid, c). (cid, case map_of scores cid of Some s \<Rightarrow> c\<lparr>fc_rrf_score := s\<rparr> | None \<Rightarrow> c)) d)"

text \<open>Division by zero cannot happen: a zero total becomes 1.\<close>

definition apply_weighted ::
  "float64 \<Rightarrow> float64 \<Rightarrow> (str \<times> fusion_candidate) list \<Rightarrow> (str \<times> fusion_candidate) list" where
  "apply_weighted vector_weight graph_weight d =
     (let total = vector_weight + graph_weight;
          total_w = (if total \<noteq> 0 then total else F 1);
          vw = vector_weight / total_w; gw = graph_weight / total_w
      in map (\<lambda>(cid, c). (cid, c\<lparr>fc_rrf_score := vw * fc_score_vector c + gw * fc_score_graph c\<rparr>)) d)"

definition candidates_of :: "vector_hit list \<Rightarrow> graph_hit list \<Rightarrow> (str \<times> fusion_candidate) list" where
  "candidates_of vs gs = foldl add_graph (foldl add_vector [] vs) gs"

definition fuse ::
  "nat \<Rightarrow> vector_hit list \<Rightarrow> graph_hit list \<Rightarrow> str \<Rightarrow> nat \<Rightarrow> float64 \<Rightarrow> float64 \<Rightarrow> fusion_result res" where
  "fuse k vs gs meth max_candidates vector_weight graph_weight =
     (let d = candidates_of vs gs;
          scored = (if meth = ''rrf'' then Inr (apply_rrf k vs gs d)
            else if meth = ''weighted'' then Inr (apply_weighted vector_weight graph_weight d)
            else Inl (ValueErr (''Unknown fusion method: '' @ repr_str meth)))
      in bind_res scored (\<lambda>d'.
           Inr \<lparr>fr_candidates = take max_candidates
                  (sorted_desc (\<lambda>c. if meth = ''rrf'' then fc_rrf_score c else fc_score_vector c + fc_score_graph c)
                     (map snd d')),
                fr_total_vector = length vs, fr_total_graph = length gs, fr_method = meth, fr_k = k\<rparr>))"

definition compute_overlap :: "vector_hit list \<Rightarrow> graph_hit list \<Rightarrow> nat \<times> nat \<times> nat \<times> float64" where
  "compute_overlap vs gs =
     (let v = remdups (map vh_chunk_id vs); g = remdups (map gh_node_id gs);
          overlap = filter (\<lambda>i. i \<in> set g) v; both = remdups (v @ g)
      in (length v, length g, length overlap,
          of_int64 (int (length overlap)) / of_int64 (int (max (length both) 1))))"

subsection \<open>Scores by rank\<close>

text \<open>The contribution of one list: the term of the candidate's rank, or nothing.\<close>

fun rank_in :: "str \<Rightarrow> (str \<times> float64) list \<Rightarrow> nat option" where
  "rank_in cid [] = None"
| "rank_in cid ((i, _) # hits) = (if i = cid then Some 1 else map_option Suc (rank_in cid hits))"

definition rank_score :: "nat \<Rightarrow> nat option \<Rightarrow> float64" where
  "rank_score k r = (case r of None \<Rightarrow> 0 | Some n \<Rightarrow> rrf_term k n)"

lemma rank_in_None: "rank_in cid hits = None \<longleftrightarrow> cid \<notin> fst ` set hits"
  by (induction cid hits rule: rank_in.induct) auto

lemma rrf_list_absent: "cid \<notin> fst ` set hits \<Longrightarrow> map_of (rrf_list k r hits scores) cid = map_of scores cid"
  by (induction k r hits scores rule: rrf_list.induct) (auto simp: map_of_update)

lemma rrf_list_value:
  assumes "distinct (map fst hits)"
  shows "map_of (rrf_list k r hits scores) cid =
    (case rank_in cid hits of None \<Rightarrow> map_of scores cid
     | Some n \<Rightarrow> Some (dict_default scores cid 0 + rrf_term k (r + n)))"
  using assms
proof (induction k r hits scores rule: rrf_list.induct)
  case (2 k r i x hits scores)
  let ?scores = "AList.update i (dict_default scores i 0 + rrf_term k (r + 1)) scores"
  show ?case
  proof (cases "i = cid")
    case True
    then have "cid \<notin> fst ` set hits" using "2.prems" by simp
    from rrf_list_absent [OF this, of k "Suc r" ?scores] show ?thesis
      using True by (simp add: map_of_update)
  next
    case False
    then show ?thesis using 2
      by (auto simp: map_of_update dict_default_def split: option.splits)
  qed
qed simp

text \<open>Two channels without duplicates: the sum of the two contributions.\<close>

lemma rrf_two_lists:
  assumes "distinct (map fst V)" "distinct (map fst G)"
  shows "map_of (reciprocal_rank_fusion [V, G] k) cid =
    (if cid \<in> fst ` set V \<union> fst ` set G
     then Some (rank_score k (rank_in cid V) + rank_score k (rank_in cid G)) else None)"
proof -
  have v: "map_of (rrf_list k 0 V []) cid = (case rank_in cid V of None \<Rightarrow> None | Some n \<Rightarrow> Some (rrf_term k n))"
    using rrf_list_value [OF assms(1), of k 0 "[]" cid] by (simp add: dict_default_def split: option.splits)
  show ?thesis
    using rrf_list_value [OF assms(2), of k 0 "rrf_list k 0 V []" cid] v
      rank_in_None [of cid V] rank_in_None [of cid G]
    by (auto simp: reciprocal_rank_fusion_def rank_score_def dict_default_def split: option.splits)
qed

lemma rrf_term_antimono: "1 \<le> m \<Longrightarrow> m \<le> n \<Longrightarrow> rrf_term k n \<le> rrf_term k m"
  unfolding rrf_term_def of_int64_def
proof (rule f64_divide_left_antimono)
  assume "1 \<le> m" "m \<le> n"
  then show "F (of_int (int (k + m))) \<le> F (of_int (int (k + n)))" by (intro F_mono) simp
  have "1 \<le> F (of_int (int (k + m)))" using F_mono [of 1 "of_int (int (k + m))"] \<open>1 \<le> m\<close> by simp
  then show "0 < F (of_int (int (k + m)))" by (rule less_le_trans [OF f64_0_less_1(1)])
qed (simp add: F_nonneg)

lemma rrf_term_nonneg: "0 \<le> rrf_term k n"
  unfolding rrf_term_def of_int64_def by (intro f64_divide_nonneg F_nonneg) simp_all

lemma rank_in_pos: "rank_in cid hits = Some n \<Longrightarrow> 1 \<le> n"
  by (induction cid hits arbitrary: n rule: rank_in.induct) (auto split: if_splits)

definition at_least_as_good :: "nat option \<Rightarrow> nat option \<Rightarrow> bool" where
  "at_least_as_good r s = (case s of None \<Rightarrow> True | Some n \<Rightarrow> (case r of None \<Rightarrow> False | Some m \<Rightarrow> m \<le> n))"

lemma rank_score_mono:
  "at_least_as_good (rank_in a V) (rank_in b W) \<Longrightarrow> rank_score k (rank_in b W) \<le> rank_score k (rank_in a V)"
  using rank_in_pos [of a V]
  by (auto simp: at_least_as_good_def rank_score_def rrf_term_nonneg rrf_term_antimono split: option.splits)

text \<open>Reciprocal rank fusion of two channels without duplicates: a candidate's score is the sum
  of the terms of its ranks, and a candidate ranked at least as well as another in both channels
  (present wherever the other is) scores at least as much, in floats as computed.\<close>

theorem rrf_dominance:
  assumes "distinct (map fst V)" and "distinct (map fst G)"
    and "at_least_as_good (rank_in a V) (rank_in b V)" and "at_least_as_good (rank_in a G) (rank_in b G)"
    and "b \<in> fst ` set V \<union> fst ` set G"
  shows "\<exists>x y. map_of (reciprocal_rank_fusion [V, G] k) a = Some x \<and> map_of (reciprocal_rank_fusion [V, G] k) b = Some y
     \<and> x = rank_score k (rank_in a V) + rank_score k (rank_in a G) \<and> y \<le> x"
proof -
  have "a \<in> fst ` set V \<union> fst ` set G"
    using assms(3-5) rank_in_None [of a V] rank_in_None [of b V] rank_in_None [of a G] rank_in_None [of b G]
    by (auto simp: at_least_as_good_def split: option.splits)
  then show ?thesis using assms(5) f64_add_mono [OF rank_score_mono [OF assms(3)] rank_score_mono [OF assms(4)]]
    by (simp add: rrf_two_lists [OF assms(1,2)])
qed

theorem rrf_dominance_witness:
  "\<exists>x y. map_of (reciprocal_rank_fusion [[(''p'', F 0.9), (''q'', F 0.8)], [(''p'', F 0.8)]] 60) ''p'' = Some x
     \<and> map_of (reciprocal_rank_fusion [[(''p'', F 0.9), (''q'', F 0.8)], [(''p'', F 0.8)]] 60) ''q'' = Some y \<and> y \<le> x"
  using rrf_dominance [of "[(''p'', F 0.9), (''q'', F 0.8)]" "[(''p'', F 0.8)]" "''p''" "''q''" 60]
  by (auto simp: at_least_as_good_def)

subsection \<open>The fused ranking\<close>

text \<open>A candidate is stored under its identifier.\<close>

abbreviation cand_inv :: "(str \<times> fusion_candidate) list \<Rightarrow> bool" where
  "cand_inv \<equiv> dict_inv (\<lambda>i c. fc_candidate_id c = i)"

lemma candidates_inv: "cand_inv (candidates_of vs gs)"
proof -
  have v: "cand_inv (foldl add_vector [] vs)"
    by (rule foldl_keeps [where P = cand_inv]) (simp_all add: add_vector_def candidate_of_vector_def dict_inv_update)
  have g: "cand_inv (add_graph d h)" if d: "cand_inv d" for d h
  proof (cases "map_of d (gh_node_id h)")
    case None
    then show ?thesis using d by (simp add: add_graph_def candidate_of_graph_def dict_inv_update)
  next
    case (Some c)
    then have "fc_candidate_id c = gh_node_id h" using dict_inv_lookup [OF d] by blast
    then show ?thesis using Some d by (simp add: add_graph_def dict_inv_update)
  qed
  show ?thesis unfolding candidates_of_def
    by (rule foldl_keeps [where P = cand_inv, OF v g])
qed

lemma candidates_keys:
  "fst ` set (candidates_of vs gs) = (set (map vh_chunk_id vs) \<union> set (map gh_node_id gs)) - {[]}"
proof -
  have v: "fst ` set (foldl add_vector d vs) = fst ` set d \<union> (set (map vh_chunk_id vs) - {[]})" for d
    by (induction vs arbitrary: d) (auto simp: add_vector_def keys_update)
  have g: "fst ` set (foldl add_graph d gs) = fst ` set d \<union> (set (map gh_node_id gs) - {[]})" for d
    by (induction gs arbitrary: d) (auto simp: add_graph_def keys_update split: option.splits)
  show ?thesis unfolding candidates_of_def g v by auto
qed

lemma rrf_list_keys: "fst ` set (rrf_list k r hits scores) = fst ` set hits \<union> fst ` set scores"
  by (induction k r hits scores rule: rrf_list.induct) (auto simp: keys_update)

lemma rrf_keys: "fst ` set (reciprocal_rank_fusion [V, G] k) = fst ` set V \<union> fst ` set G"
  by (auto simp: reciprocal_rank_fusion_def rrf_list_keys)

lemma ranked_keys:
  "fst ` set (vector_ranked vs) = set (map vh_chunk_id vs) - {[]}"
  "fst ` set (graph_ranked gs) = set (map gh_node_id gs) - {[]}"
  by (force simp: vector_ranked_def, force simp: graph_ranked_def)

definition rrf_scores :: "nat \<Rightarrow> vector_hit list \<Rightarrow> graph_hit list \<Rightarrow> str \<Rightarrow> float64" where
  "rrf_scores k vs gs i = dict_default (reciprocal_rank_fusion [vector_ranked vs, graph_ranked gs] k) i 0"

lemma apply_rrf_scored:
  assumes "(i, c) \<in> set (apply_rrf k vs gs (candidates_of vs gs))"
  shows "fc_candidate_id c = i" "fc_rrf_score c = rrf_scores k vs gs i"
proof -
  let ?S = "reciprocal_rank_fusion [vector_ranked vs, graph_ranked gs] k"
  obtain c0 where c0: "(i, c0) \<in> set (candidates_of vs gs)"
    "c = (case map_of ?S i of Some s \<Rightarrow> c0\<lparr>fc_rrf_score := s\<rparr> | None \<Rightarrow> c0)"
    using assms by (auto simp: apply_rrf_def Let_def)
  have "i \<in> fst ` set ?S"
    using key_in_image [OF c0(1)] unfolding rrf_keys ranked_keys candidates_keys by auto
  then obtain x where "map_of ?S i = Some x" by (metis map_of_eq_None_iff not_None_eq)
  moreover have "fc_candidate_id c0 = i" using c0(1) candidates_inv [of vs gs] by (auto simp: dict_inv_def)
  ultimately show "fc_candidate_id c = i" "fc_rrf_score c = rrf_scores k vs gs i"
    using c0(2) by (simp_all add: rrf_scores_def dict_default_def)
qed

lemma apply_rrf_keys: "map fst (apply_rrf k vs gs d) = map fst d"
  by (simp add: apply_rrf_def Let_def comp_def case_prod_beta)

lemma sorted_wrt_take_drop:
  assumes "sorted_wrt P xs" "y \<in> set (take n xs)" "x \<in> set (drop n xs)"
  shows "P y x"
proof -
  have "sorted_wrt P (take n xs @ drop n xs)" using assms(1) by simp
  then show ?thesis using assms(2,3) unfolding sorted_wrt_append by blast
qed

text \<open>C14. Fusing with reciprocal ranks keeps the best candidates: every candidate carries the score
  of its identifier, the identifiers are those of the hits, each once, as many as asked for and
  available, in non-increasing order of score, and no identifier left out scores more than one kept.\<close>

theorem fuse_keeps_best:
  "case fuse k vs gs ''rrf'' n w1 w2 of Inl _ \<Rightarrow> False | Inr r \<Rightarrow>
     (let ids = map fc_candidate_id (fr_candidates r);
          found = remdups (filter (\<lambda>i. i \<noteq> []) (map vh_chunk_id vs @ map gh_node_id gs))
      in map fc_rrf_score (fr_candidates r) = map (rrf_scores k vs gs) ids
       \<and> distinct ids \<and> set ids \<subseteq> set found \<and> length ids = min n (length found)
       \<and> sorted_wrt (\<lambda>i j. rrf_scores k vs gs j \<le> rrf_scores k vs gs i) ids
       \<and> list_all (\<lambda>i. i \<in> set ids \<or> list_all (\<lambda>j. rrf_scores k vs gs i \<le> rrf_scores k vs gs j) ids) found)"
proof -
  define d where "d = apply_rrf k vs gs (candidates_of vs gs)"
  define cs where "cs = sorted_desc fc_rrf_score (map snd d)"
  define found where "found = remdups (filter (\<lambda>i. i \<noteq> []) (map vh_chunk_id vs @ map gh_node_id gs))"
  let ?s = "rrf_scores k vs gs"
  have r: "fuse k vs gs ''rrf'' n w1 w2 = Inr \<lparr>fr_candidates = take n cs, fr_total_vector = length vs,
      fr_total_graph = length gs, fr_method = ''rrf'', fr_k = k\<rparr>"
    by (simp add: fuse_def d_def cs_def Let_def)
  have scored: "fc_rrf_score c = ?s (fc_candidate_id c)" "fc_candidate_id c \<in> fst ` set d" if c: "c \<in> set cs" for c
  proof -
    obtain i where "(i, c) \<in> set d" using c by (auto simp: cs_def)
    then show "fc_rrf_score c = ?s (fc_candidate_id c)" "fc_candidate_id c \<in> fst ` set d"
      using apply_rrf_scored [of i c k vs gs] key_in_image by (auto simp: d_def)
  qed
  have ids: "map fc_candidate_id (map snd d) = map fst d"
    using apply_rrf_scored(1) unfolding map_map d_def by (intro map_cong) auto
  have keys: "set (map fst d) = set found" "distinct (map fst d)"
    using candidates_keys [of vs gs] candidates_inv [of vs gs]
    by (auto simp: d_def apply_rrf_keys found_def dict_inv_def wf_dict_def)
  have mset: "mset (map fc_candidate_id cs) = mset (map fst d)"
    unfolding arg_cong [OF ids, of mset, symmetric] by (simp add: cs_def multiset.map_comp)
  then have all: "set (map fc_candidate_id cs) = set found" "distinct (map fc_candidate_id cs)"
    using keys by (metis set_mset_mset, metis mset_eq_imp_distinct_iff)
  have len: "length cs = length found"
    using all distinct_card [of "map fc_candidate_id cs"] distinct_card [of found] by (simp add: found_def)
  have sorted: "sorted_wrt (\<lambda>a b. ?s (fc_candidate_id b) \<le> ?s (fc_candidate_id a)) cs"
    using sorted_desc_sorted [of fc_rrf_score "map snd d"] scored(1)
    by (fold cs_def) (auto elim: sorted_wrt_mono_rel [rotated])
  have best: "?s i \<le> ?s j" if i: "i \<in> set found" "i \<notin> fc_candidate_id ` set (take n cs)"
    and j: "j \<in> fc_candidate_id ` set (take n cs)" for i j
  proof -
    have "i \<in> fc_candidate_id ` set cs" using i(1) all(1) by simp
    then obtain x where x: "x \<in> set cs" "i = fc_candidate_id x" by blast
    obtain y where y: "y \<in> set (take n cs)" "j = fc_candidate_id y" using j by blast
    have "x \<in> set (take n cs) \<union> set (drop n cs)" using x(1) by (simp flip: set_append)
    then have "x \<in> set (drop n cs)" using i(2) x(2) by blast
    then show ?thesis using sorted_wrt_take_drop [OF sorted y(1)] x(2) y(2) by blast
  qed
  have "map fc_rrf_score (take n cs) = map ?s (map fc_candidate_id (take n cs))"
    using scored(1) by (auto dest: in_set_takeD)
  moreover have "distinct (map fc_candidate_id (take n cs))"
    using all(2) by (simp add: take_map [symmetric] distinct_take)
  moreover have "set (map fc_candidate_id (take n cs)) \<subseteq> set found"
    using all(1) by (auto dest: in_set_takeD)
  moreover have "sorted_wrt (\<lambda>i j. ?s j \<le> ?s i) (map fc_candidate_id (take n cs))"
    using sorted by (simp add: sorted_wrt_map sorted_wrt_take)
  moreover have "list_all (\<lambda>i. i \<in> set (map fc_candidate_id (take n cs))
      \<or> list_all (\<lambda>j. ?s i \<le> ?s j) (map fc_candidate_id (take n cs))) found"
    using best unfolding list_all_iff by auto
  ultimately show ?thesis using len unfolding r found_def [symmetric]
    by (simp add: Let_def min.commute del: set_filter)
qed

text \<open>The weighted method computes the weighted score but ranks by the plain sum of the two channels.\<close>

definition two_hits :: "vector_hit list \<times> graph_hit list" where
  "two_hits = ([\<lparr>vh_chunk_id = ''c'', vh_text = ''t'', vh_score = F 0.5, vh_document_id = None, vh_document_type = None,
     vh_source_filename = None, vh_section_title = None, vh_page_start = None, vh_payload = []\<rparr>],
   [\<lparr>gh_node_id = ''n'', gh_label = ''L'', gh_display_name = ''N'', gh_relevance_score = F 0.75, gh_properties = [],
     gh_document_type = None, gh_text = ''N''\<rparr>])"

theorem weighted_ranking_ignores_weights:
  "case fuse 60 (fst two_hits) (snd two_hits) ''weighted'' 5 (F 1) (F 0) of
     Inl _ \<Rightarrow> False
   | Inr r \<Rightarrow> map fc_candidate_id (fr_candidates r) = [''n'', ''c''] \<and> map fc_rrf_score (fr_candidates r) = [F 0, F 0.5]"
  by code_simp

end
