(* ===== verification/Citation_Engine.thy ===== *)
theory Citation_Engine
  imports Context_Fusion
begin

section \<open>Citations and provenance\<close>

text \<open>
  \<open>app/graphrag/citation_engine.py\<close>: one provenance record per fused candidate, the tag
  \<open>[Source #n]\<close> that stands for it in the prompt, and the way back from the tags of an answer
  to citations; with the audit of \<open>PromptBuilder.validate_citations_in_response\<close>
  (\<open>app/graphrag/prompt_templates.py\<close>). The hash of the provenance map is only logged and is
  left out.
\<close>

record provenance =
  pr_tag :: str
  pr_index :: nat
  pr_source_type :: str
  pr_chunk_id :: "str option"
  pr_document_id :: "str option"
  pr_document_type :: "str option"
  pr_source_filename :: "str option"
  pr_page_number :: "int option"
  pr_score :: float64
  pr_text_snippet :: str
  pr_node_id :: "str option"
  pr_node_label :: "str option"
  pr_node_properties :: "(str \<times> pyval) list"
  pr_url :: "str option"

definition to_citation :: "provenance \<Rightarrow> str \<Rightarrow> citation" where
  "to_citation p claim_span = \<lparr>ci_citation_id = pr_tag p, ci_claim_span = claim_span,
     ci_source_document = or_str (or_str (pr_source_filename p) (pr_document_id p)) (pr_node_id p),
     ci_source_type = or_str (pr_document_type p) (pr_node_label p),
     ci_source_node_id = pr_node_id p, ci_confidence_score = pr_score p,
     ci_page_number = pr_page_number p, ci_url = pr_url p\<rparr>"

definition make_tag :: "nat \<Rightarrow> str" where
  "make_tag i = ''[Source #'' @ str_nat i @ '']''"

text \<open>\<open>_truncate\<close>: the 200 of the default argument; no caller passes \<open>max_snippet_chars\<close>.\<close>

definition truncate_text :: "str \<Rightarrow> str" where
  "truncate_text t =
     (let s = map (\<lambda>c. if c = CHR 0x0A then CHR '' '' else c) (py_strip t)
      in if length s \<le> 200 then s else py_rstrip (take 197 s) @ ''...'')"

definition record_of_candidate :: "nat \<Rightarrow> fusion_candidate \<Rightarrow> provenance" where
  "record_of_candidate i c = \<lparr>pr_tag = make_tag i, pr_index = i, pr_source_type = fused_source_type c,
     pr_chunk_id = fc_chunk_id c, pr_document_id = fc_document_id c, pr_document_type = fc_document_type c,
     pr_source_filename = fc_source_filename c, pr_page_number = fc_page_number c,
     pr_score = max (fc_score_vector c) (fc_score_graph c), pr_text_snippet = truncate_text (fc_text c),
     pr_node_id = fc_node_id c, pr_node_label = Some (fc_label c), pr_node_properties = fc_metadata c,
     pr_url = None\<rparr>"

fun build_from :: "nat \<Rightarrow> fusion_candidate list \<Rightarrow> provenance list" where
  "build_from i [] = []"
| "build_from i (c # cs) = record_of_candidate i c # build_from (Suc i) cs"

definition build :: "fusion_candidate list \<Rightarrow> provenance list" where
  "build cs = build_from 1 cs"

definition record_of_chunk :: "nat \<Rightarrow> vector_hit \<Rightarrow> provenance" where
  "record_of_chunk i h = \<lparr>pr_tag = make_tag i, pr_index = i, pr_source_type = ''vector'',
     pr_chunk_id = Some (vh_chunk_id h), pr_document_id = vh_document_id h, pr_document_type = vh_document_type h,
     pr_source_filename = vh_source_filename h, pr_page_number = vh_page_start h, pr_score = vh_score h,
     pr_text_snippet = truncate_text (vh_text h), pr_node_id = None, pr_node_label = None,
     pr_node_properties = [], pr_url = None\<rparr>"

definition record_of_node :: "nat \<Rightarrow> graph_hit \<Rightarrow> provenance" where
  "record_of_node i h = \<lparr>pr_tag = make_tag i, pr_index = i, pr_source_type = ''graph'',
     pr_chunk_id = None, pr_document_id = None, pr_document_type = None, pr_source_filename = None,
     pr_page_number = None, pr_score = gh_relevance_score h,
     pr_text_snippet = truncate_text (gh_display_name h), pr_node_id = Some (gh_node_id h),
     pr_node_label = Some (gh_label h), pr_node_properties = gh_properties h, pr_url = None\<rparr>"

definition build_from_raw :: "vector_hit list \<Rightarrow> graph_hit list \<Rightarrow> provenance list" where
  "build_from_raw chunks nodes =
     (let n = length chunks
      in map (\<lambda>(i, h). record_of_chunk i h) (zip [1..<Suc n] chunks)
         @ map (\<lambda>(i, h). record_of_node i h) (zip [Suc n..<Suc (n + length nodes)] nodes))"

subsection \<open>Tags in a text\<close>

text \<open>The pattern \<open>[Source #(digits)]\<close> at the head of a text: its digits and the text after the match.\<close>

definition match_source_tag :: "str \<Rightarrow> (str \<times> str) option" where
  "match_source_tag s =
     (if starts_with ''[Source #'' s
      then let r = drop 9 s; ds = takeWhile is_digit r
           in (case dropWhile is_digit r of
                c # rest \<Rightarrow> if ds \<noteq> [] \<and> c = CHR '']'' then Some (ds, rest) else None
              | [] \<Rightarrow> None)
      else None)"

lemma match_source_tag_shorter: "match_source_tag s = Some (ds, rest) \<Longrightarrow> length rest < length s"
proof -
  assume "match_source_tag s = Some (ds, rest)"
  then obtain c where "dropWhile is_digit (drop 9 s) = c # rest"
    by (auto simp: match_source_tag_def Let_def split: if_splits list.splits)
  then have "length (c # rest) \<le> length (drop 9 s)" by (metis length_dropWhile_le)
  then show ?thesis by simp
qed

text \<open>\<open>re.findall\<close>: the digits of the matches, from left to right, without overlap.\<close>

function find_tags :: "str \<Rightarrow> str list" where
  "find_tags [] = []"
| "find_tags (c # cs) = (case match_source_tag (c # cs) of
     Some (ds, rest) \<Rightarrow> ds # find_tags rest | None \<Rightarrow> find_tags cs)"
  by pat_completeness auto
termination
  by (relation "measure length") (auto dest: match_source_tag_shorter)

definition extract_citation_tags :: "str \<Rightarrow> str list" where
  "extract_citation_tags s = dedup_by id [] (map (\<lambda>ds. ''[Source #'' @ ds @ '']'') (find_tags s))"

text \<open>\<open>prov_by_tag\<close> and the lookup of each tag.\<close>

definition prov_by_tag :: "provenance list \<Rightarrow> (str \<times> provenance) list" where
  "prov_by_tag ps = foldl (\<lambda>d p. AList.update (pr_tag p) p d) [] ps"

definition resolve_citations :: "str \<Rightarrow> provenance list \<Rightarrow> citation list" where
  "resolve_citations answer ps =
     List.map_filter (\<lambda>t. map_option (\<lambda>p. to_citation p []) (map_of (prov_by_tag ps) t)) (extract_citation_tags answer)"

subsection \<open>The audit of an answer\<close>

record citation_audit =
  au_found_tags :: "str list"
  au_valid_tags :: "str list"
  au_hallucinated_tags :: "str list"
  au_missing_tags :: "str list"
  au_compliance_ratio :: float64

text \<open>\<open>int(t.split("#")[1].rstrip("]"))\<close>.\<close>

definition tag_index :: "str \<Rightarrow> int" where
  "tag_index t =
     (let field = takeWhile (\<lambda>c. c \<noteq> CHR ''#'') (tl (dropWhile (\<lambda>c. c \<noteq> CHR ''#'') t))
      in digits_val (rev (dropWhile (\<lambda>c. c = CHR '']'') (rev field))))"

definition validate_citations_in_response :: "str \<Rightarrow> provenance list \<Rightarrow> citation_audit" where
  "validate_citations_in_response answer ps =
     (let found = extract_citation_tags answer;
          valid_tag_set = set (map pr_tag ps);
          valid = filter (\<lambda>t. t \<in> valid_tag_set) found;
          cited = map tag_index valid
      in \<lparr>au_found_tags = found, au_valid_tags = valid,
          au_hallucinated_tags = filter (\<lambda>t. t \<notin> valid_tag_set) found,
          au_missing_tags = map pr_tag (filter (\<lambda>p. int (pr_index p) \<notin> set cited) ps),
          au_compliance_ratio =
            py_round (of_int64 (int (length valid)) / of_int64 (int (max (length found) 1))) 3\<rparr>)"

subsection \<open>Rendering\<close>

definition str_or :: "str option \<Rightarrow> str \<Rightarrow> str" where
  "str_or a dflt = (if truthy_str a then the a else dflt)"

definition opt_text :: "str option \<Rightarrow> str" where
  "opt_text a = (case a of None \<Rightarrow> ''None'' | Some s \<Rightarrow> s)"

definition render_context_block :: "provenance \<Rightarrow> str" where
  "render_context_block p = join [CHR 0x0A] ([pr_tag p] @
     (if pr_source_type p = ''vector'' then
        [''  Source: '' @ str_or (or_str (pr_source_filename p) (pr_document_id p)) ''unknown'']
        @ (case pr_page_number p of Some n \<Rightarrow> if n \<noteq> 0 then [''  Page: '' @ str_int n] else [] | None \<Rightarrow> [])
        @ [''  Type: '' @ str_or (pr_document_type p) ''unknown'',
           ''  Score: '' @ fmt_fixed 3 (pr_score p), ''  Content: '' @ pr_text_snippet p]
      else if pr_source_type p = ''graph'' then
        [''  Node: '' @ str_or (pr_node_id p) ''unknown'', ''  Label: '' @ str_or (pr_node_label p) ''unknown'']
        @ (if pr_node_properties p \<noteq> []
           then [''  Properties: '' @ join '', '' (map (\<lambda>(k, v). k @ ''='' @ py_str v) (take 5 (pr_node_properties p)))]
           else [])
      else [''  Chunk: '' @ opt_text (pr_chunk_id p) @ '' | Node: '' @ opt_text (pr_node_id p),
            ''  Score: '' @ fmt_fixed 3 (pr_score p), ''  Content: '' @ pr_text_snippet p]))"

definition render_full_context :: "provenance list \<Rightarrow> str" where
  "render_full_context ps =
     (if ps = [] then ''(No context retrieved)''
      else join [CHR 0x0A, CHR 0x0A] (map render_context_block ps))"


subsection \<open>Numerals\<close>

lemma digit_char_digit: "0 \<le> d \<Longrightarrow> d < 10 \<Longrightarrow> is_digit (digit_char d) \<and> digit_val (digit_char d) = d"
proof -
  assume d: "0 \<le> d" "d < 10"
  then have n: "of_char (digit_char d) = (48 + d :: int)" by (simp add: digit_char_def)
  then have "int (of_char (digit_char d)) = 48 + d" by (simp only: of_nat_of_char)
  then show ?thesis using d n by (simp add: is_digit_def digit_val_def)
qed

lemma str_pos_digits: "0 \<le> n \<Longrightarrow> list_all is_digit (str_pos n)"
proof (induction n rule: str_pos.induct)
  case (1 n)
  then show ?case
    by (subst str_pos.simps) (auto simp: digit_char_digit)
qed

lemma digits_val_snoc: "digits_val (s @ [c]) = 10 * digits_val s + digit_val c"
  by (simp add: digits_val_def)

lemma digits_val_str_pos: "0 \<le> n \<Longrightarrow> digits_val (str_pos n) = n"
proof (induction n rule: str_pos.induct)
  case (1 n)
  show ?case
  proof (cases "n < 10")
    case True
    then show ?thesis using "1.prems" digit_char_digit [of n]
      by (subst str_pos.simps) (simp add: digits_val_def)
  next
    case False
    then have "digits_val (str_pos (n div 10)) = n div 10" by (intro "1.IH") auto
    then show ?thesis using False digit_char_digit [of "n mod 10"]
      by (subst str_pos.simps) (simp add: digits_val_snoc)
  qed
qed

lemma str_nat_digits: "list_all is_digit (str_nat n)" "str_nat n \<noteq> []" "digits_val (str_nat n) = int n"
  by (simp_all add: str_nat_def str_pos_digits digits_val_str_pos)

lemma not_digit [simp]: "\<not> is_digit (CHR '']'')" "\<not> is_digit (CHR ''#'')"
  by (simp_all add: is_digit_def)

lemma list_all_neq: "list_all is_digit ds \<Longrightarrow> \<not> is_digit c \<Longrightarrow> list_all (\<lambda>x. x \<noteq> c) ds"
  by (auto simp: list_all_iff)

lemma tag_index_make_tag [simp]: "tag_index (make_tag n) = int n"
proof -
  have hash: "takeWhile (\<lambda>c. c \<noteq> CHR ''#'') (str_nat n @ '']'') = str_nat n @ '']''"
    using list_all_neq [OF str_nat_digits(1)] by (simp add: list_all_iff takeWhile_append)
  have "dropWhile (\<lambda>c. c = CHR '']'') (rev (str_nat n)) = rev (str_nat n)"
    using list_all_neq [OF str_nat_digits(1), of "CHR '']''" n]
    by (simp add: dropWhile_eq_self_iff list_all_iff str_nat_digits(2) hd_rev)
  then show ?thesis
    by (simp add: tag_index_def make_tag_def hash str_nat_digits(3))
qed

lemma make_tag_inj: "make_tag m = make_tag n \<longleftrightarrow> m = n"
  by (auto simp: make_tag_def dest: str_nat_inj)

subsection \<open>Finding the tags\<close>

lemma match_make_tag: "match_source_tag (make_tag n @ r) = Some (str_nat n, r)"
  using str_nat_digits [of n]
  by (simp add: match_source_tag_def make_tag_def Let_def list_all_iff takeWhile_append dropWhile_append)

lemma find_make_tag: "find_tags (make_tag n @ r) = str_nat n # find_tags r"
proof -
  obtain cs where "make_tag n = CHR ''['' # cs" by (simp add: make_tag_def)
  then show ?thesis using match_make_tag [of n r] by simp
qed

lemma starts_with_stop: "c \<notin> set p \<Longrightarrow> starts_with p (s @ c # r) = starts_with p s"
  by (induction p s rule: starts_with.induct) auto

lemma find_tags_plain: "\<not> contains ''[Source #'' s \<Longrightarrow> find_tags s = []"
  by (induction s) (auto simp: match_source_tag_def simp del: starts_with.simps)

lemma find_tags_skip: "\<not> contains ''[Source #'' s \<Longrightarrow> find_tags (s @ CHR ''['' # r) = find_tags (CHR ''['' # r)"
proof (induction s)
  case (Cons c s)
  have "\<not> starts_with ''[Source #'' (c # s @ CHR ''['' # r)"
    using Cons.prems starts_with_stop [of "CHR ''[''" "''Source #''" s r] by auto
  then have "match_source_tag (c # s @ CHR ''['' # r) = None"
    by (simp add: match_source_tag_def del: starts_with.simps)
  then show ?case using Cons by simp
qed simp

text \<open>An answer as pieces of prose, each followed by a rendered tag, and a last piece.\<close>

fun cited_text :: "(str \<times> nat) list \<Rightarrow> str \<Rightarrow> str" where
  "cited_text [] s = s"
| "cited_text ((t, n) # parts) s = t @ make_tag n @ cited_text parts s"

lemma find_tags_cited:
  "list_all (\<lambda>(t, n). \<not> contains ''[Source #'' t) parts \<Longrightarrow> \<not> contains ''[Source #'' s \<Longrightarrow>
   find_tags (cited_text parts s) = map (\<lambda>(t, n). str_nat n) parts"
proof (induction parts)
  case (Cons x parts)
  obtain t n where x: "x = (t, n)" by fastforce
  obtain cs where cs: "make_tag n = CHR ''['' # cs" by (simp add: make_tag_def)
  have "find_tags (t @ make_tag n @ cited_text parts s) = find_tags (make_tag n @ cited_text parts s)"
    using Cons.prems find_tags_skip [of t "cs @ cited_text parts s"] by (simp add: x cs)
  then show ?case using Cons by (simp add: x find_make_tag)
qed (simp add: find_tags_plain)

lemma dedup_by_map_inj: "inj f \<Longrightarrow> dedup_by id (map f seen) (map f xs) = map f (dedup_by id seen xs)"
proof (induction "id :: 'a \<Rightarrow> 'a" seen xs rule: dedup_by.induct)
  case (2 seen x xs)
  have "f x \<in> f ` set seen \<longleftrightarrow> x \<in> set seen" using \<open>inj f\<close> by (simp add: inj_image_mem_iff)
  then show ?case using 2 by simp
qed simp

text \<open>C15. Tags survive the round trip through an answer: from prose that writes no tag of its own,
  with rendered tags in between, exactly those tags are extracted, once each, in order of first
  appearance, and each yields its index again.\<close>

theorem citation_tags_roundtrip:
  assumes "list_all (\<lambda>(t, n). \<not> contains ''[Source #'' t) parts" and "\<not> contains ''[Source #'' s"
  shows "extract_citation_tags (cited_text parts s) = map make_tag (dedup_by id [] (map snd parts))
    \<and> map tag_index (extract_citation_tags (cited_text parts s)) = map int (dedup_by id [] (map snd parts))"
proof -
  have "inj make_tag" by (simp add: inj_def make_tag_inj)
  moreover have "map (\<lambda>ds. ''[Source #'' @ ds @ '']'') (find_tags (cited_text parts s)) = map make_tag (map snd parts)"
    by (simp add: find_tags_cited [OF assms] make_tag_def case_prod_beta comp_def)
  ultimately have "extract_citation_tags (cited_text parts s) = map make_tag (dedup_by id [] (map snd parts))"
    unfolding extract_citation_tags_def using dedup_by_map_inj [of make_tag "[]" "map snd parts"] by simp
  then show ?thesis by (simp add: comp_def)
qed

theorem citation_tags_roundtrip_witness:
  "extract_citation_tags (cited_text [(''Wear '', 2), ('' and heat '', 1), ('' again '', 2)] ''.'')
     = [''[Source #2]'', ''[Source #1]'']"
  using citation_tags_roundtrip [of "[(''Wear '', 2), ('' and heat '', 1), ('' again '', 2)]" "''.''"]
  by (simp add: make_tag_def str_nat_def str_pos.simps) code_simp

subsection \<open>The provenance map\<close>

lemma build_from_tags: "map pr_tag (build_from i cs) = map make_tag [i..<i + length cs]"
  by (induction i cs rule: build_from.induct) (simp_all add: record_of_candidate_def upt_conv_Cons del: upt_Suc)

lemma build_from_nth: "j < length cs \<Longrightarrow> build_from i cs ! j = record_of_candidate (i + j) (cs ! j)"
  by (induction i cs arbitrary: j rule: build_from.induct) (auto simp: nth_Cons split: nat.split)

lemma build_from_length [simp]: "length (build_from i cs) = length cs"
  by (induction i cs rule: build_from.induct) simp_all

lemma build_tags: "map pr_tag (build cs) = map make_tag [1..<Suc (length cs)]" "distinct (map pr_tag (build cs))"
  by (simp_all add: build_def build_from_tags distinct_map inj_on_def make_tag_inj)

lemma build_nth: "j < length cs \<Longrightarrow> build cs ! j = record_of_candidate (Suc j) (cs ! j)"
  by (simp add: build_def build_from_nth)

lemma build_length [simp]: "length (build cs) = length cs" "build cs = [] \<longleftrightarrow> cs = []"
  by (simp_all add: build_def flip: length_0_conv)

text \<open>\<open>{p.tag: p for p in provenance}\<close>: the last record of a tag; with distinct tags, the record.\<close>

lemma prov_by_tag_lookup:
  "map_of (foldl (\<lambda>d p. AList.update (pr_tag p) p d) d ps) t =
   (if t \<in> pr_tag ` set ps then Some (last (filter (\<lambda>p. pr_tag p = t) ps)) else map_of d t)"
  by (induction ps arbitrary: d) (auto simp: map_of_update filter_empty_conv)

lemma filter_unique: "distinct (map f xs) \<Longrightarrow> x \<in> set xs \<Longrightarrow> filter (\<lambda>y. f y = f x) xs = [x]"
proof (induction xs)
  case (Cons a xs)
  show ?case
  proof (cases "x = a")
    case True
    then have "filter (\<lambda>y. f y = f x) xs = []" using Cons.prems by (auto simp: filter_empty_conv intro: rev_image_eqI)
    then show ?thesis using True by simp
  next
    case False
    then show ?thesis using Cons by auto
  qed
qed simp

lemma prov_by_tag_some:
  "distinct (map pr_tag ps) \<Longrightarrow> p \<in> set ps \<Longrightarrow> map_of (prov_by_tag ps) (pr_tag p) = Some p"
  by (simp add: prov_by_tag_def prov_by_tag_lookup filter_unique)

lemma prov_by_tag_None: "map_of (prov_by_tag ps) t = None \<longleftrightarrow> t \<notin> set (map pr_tag ps)"
  by (simp add: prov_by_tag_def prov_by_tag_lookup)

lemma prov_by_tag_mem:
  assumes "map_of (prov_by_tag ps) t = Some p" shows "p \<in> set ps \<and> pr_tag p = t"
proof -
  have "t \<in> pr_tag ` set ps" "p = last (filter (\<lambda>p. pr_tag p = t) ps)"
    using assms by (simp_all add: prov_by_tag_def prov_by_tag_lookup split: if_splits)
  moreover from this(1) have "filter (\<lambda>p. pr_tag p = t) ps \<noteq> []" by (auto simp: filter_empty_conv)
  ultimately have "p \<in> set (filter (\<lambda>p. pr_tag p = t) ps)" using last_in_set by metis
  then show ?thesis by simp
qed

lemma map_filter_map_option:
  "(\<And>x y. m x = Some y \<Longrightarrow> g y = h x) \<Longrightarrow> map g (List.map_filter m xs) = map h (filter (\<lambda>x. m x \<noteq> None) xs)"
  by (induction xs) (auto simp: List.map_filter_simps split: option.splits)

lemma map_filter_mem: "y \<in> set (List.map_filter m xs) \<Longrightarrow> \<exists>x. m x = Some y"
  by (auto simp: List.map_filter_def)

text \<open>Whatever the provenance, resolving keeps exactly the tags that have a record.\<close>

lemma resolve_ids:
  "map ci_citation_id (resolve_citations answer ps) =
   filter (\<lambda>t. t \<in> set (map pr_tag ps)) (extract_citation_tags answer)"
proof -
  let ?m = "\<lambda>t. map_option (\<lambda>p. to_citation p []) (map_of (prov_by_tag ps) t)"
  have "map ci_citation_id (resolve_citations answer ps) =
      map id (filter (\<lambda>t. ?m t \<noteq> None) (extract_citation_tags answer))"
    unfolding resolve_citations_def
    by (rule map_filter_map_option) (auto simp: to_citation_def dest: prov_by_tag_mem)
  then show ?thesis by (simp add: prov_by_tag_None)
qed

lemma resolve_sources:
  "c \<in> set (resolve_citations answer ps) \<Longrightarrow> \<exists>p. p \<in> set ps \<and> c = to_citation p []"
  unfolding resolve_citations_def by (drule map_filter_mem) (auto dest!: prov_by_tag_mem)

lemma extract_distinct: "distinct (extract_citation_tags s)"
  using dedup_by_distinct [of id "[]" "map (\<lambda>ds. ''[Source #'' @ ds @ '']'') (find_tags s)"]
  by (simp add: extract_citation_tags_def)

lemma ratio_unit: "a \<le> b \<Longrightarrow> 1 \<le> b \<Longrightarrow> 0 \<le> of_int64 (int a) / of_int64 (int b) \<and> of_int64 (int a) / of_int64 (int b) \<le> 1"
proof -
  assume ab: "a \<le> b" "1 \<le> b"
  have le: "of_int64 (int a) \<le> of_int64 (int b)" using ab by (simp add: of_int64_def F_mono)
  have "1 \<le> of_int64 (int b)" using F_mono [of 1 "of_int (int b)"] ab by (simp add: of_int64_def)
  then have pos: "0 < of_int64 (int b)" by (rule less_le_trans [OF f64_0_less_1(1)])
  show ?thesis using le pos f64_divide_le_1 [OF le pos] f64_divide_nonneg [of "of_int64 (int a)" "of_int64 (int b)"]
    by (simp add: of_int64_def F_nonneg)
qed

text \<open>C16. Citations are sound and the audit is exact: the citations of an answer are those of its
  tags that name a retrieved candidate, once each, in the order of the answer, each built from the
  candidate its number points at; the audit calls exactly these valid, the other tags hallucinated,
  and reports as missing the candidates whose tag does not occur; the ratio is in the unit interval.\<close>

theorem citations_sound:
  "let ps = build cs; found = extract_citation_tags answer; tags = map make_tag [1..<Suc (length cs)];
       cited = resolve_citations answer ps; audit = validate_citations_in_response answer ps
   in map ci_citation_id cited = filter (\<lambda>t. t \<in> set tags) found \<and> distinct found
    \<and> list_all (\<lambda>c. list_ex (\<lambda>i. c = to_citation (record_of_candidate (Suc i) (cs ! i)) []) [0..<length cs]) cited
    \<and> au_valid_tags audit = map ci_citation_id cited
    \<and> au_hallucinated_tags audit = filter (\<lambda>t. t \<notin> set tags) found
    \<and> au_missing_tags audit = filter (\<lambda>t. t \<notin> set found) tags
    \<and> 0 \<le> au_compliance_ratio audit \<and> au_compliance_ratio audit \<le> 1"
proof -
  let ?found = "extract_citation_tags answer"
  let ?valid = "filter (\<lambda>t. t \<in> set (map pr_tag (build cs))) ?found"
  have src: "list_ex (\<lambda>i. c = to_citation (record_of_candidate (Suc i) (cs ! i)) []) [0..<length cs]"
    if c: "c \<in> set (resolve_citations answer (build cs))" for c
  proof -
    obtain p where "p \<in> set (build cs)" "c = to_citation p []" using resolve_sources [OF c] by blast
    then obtain i where "i < length cs" "c = to_citation (build cs ! i) []" by (auto simp: in_set_conv_nth)
    then show ?thesis by (auto simp: list_ex_iff build_nth)
  qed
  have index: "int (pr_index p) \<in> tag_index ` set ?valid \<longleftrightarrow> pr_tag p \<in> set ?found" if p: "p \<in> set (build cs)" for p
  proof -
    obtain i where i: "i < length cs" "p = record_of_candidate (Suc i) (cs ! i)"
      using p by (auto simp: in_set_conv_nth build_nth)
    have p': "pr_tag p = make_tag (pr_index p)" using i by (simp add: record_of_candidate_def)
    show ?thesis
    proof
      assume "int (pr_index p) \<in> tag_index ` set ?valid"
      then obtain t where t: "t \<in> set ?valid" "int (pr_index p) = tag_index t" by blast
      then obtain j where "t = make_tag j" using build_tags(1) [of cs] by auto
      then show "pr_tag p \<in> set ?found" using t p' by simp
    next
      assume "pr_tag p \<in> set ?found"
      then have "pr_tag p \<in> set ?valid" using p by simp
      then show "int (pr_index p) \<in> tag_index ` set ?valid" using p' by (metis imageI tag_index_make_tag)
    qed
  qed
  have missing: "map pr_tag (filter (\<lambda>p. int (pr_index p) \<notin> set (map tag_index ?valid)) (build cs))
      = filter (\<lambda>t. t \<notin> set ?found) (map pr_tag (build cs))"
    using index by (simp add: filter_map comp_def cong: filter_cong)
  have ratio: "0 \<le> py_round (of_int64 (int (length ?valid)) / of_int64 (int (max (length ?found) 1))) 3
      \<and> py_round (of_int64 (int (length ?valid)) / of_int64 (int (max (length ?found) 1))) 3 \<le> 1"
  proof -
    have "length ?valid \<le> max (length ?found) 1" by (rule le_trans [OF length_filter_le]) simp
    from ratio_unit [OF this] show ?thesis by (simp add: py_round_nonneg py_round_le_1)
  qed
  show ?thesis
    unfolding Let_def validate_citations_in_response_def citation_audit.simps resolve_ids
      build_tags(1) [symmetric] missing
    using src ratio by (simp add: extract_distinct list_all_iff)
qed

end
