(* ===== verification/Prompt_Templates.thy ===== *)
theory Prompt_Templates
  imports Citation_Engine
begin

section \<open>Prompts and the offline language model\<close>

text \<open>
  \<open>app/graphrag/prompt_templates.py\<close> and \<open>app/graphrag/llm_client.py\<close>: the prompt builder with its
  12000 character budget, the deterministic mock provider and the choice of the provider. A bullet
  of the templates stands as the three bytes of its UTF-8 encoding. The OpenAI and Anthropic clients
  are third-party calls.
\<close>

subsection \<open>Templates\<close>

definition system_prompt_head_lines :: "str list" where
  "system_prompt_head_lines =
     [''You are an expert industrial operations analyst embedded in an AI-powered Knowledge Retrieval '' @
       ''system for an enterprise asset-management platform.'',
      [],
      ''## ROLE'',
      ''You receive structured context retrieved from two knowledge sources:'',
      ''  '' @ [CHR 0xE2, CHR 0x80, CHR 0xA2] @ '' Vector-searched text chunks from technical '' @
       ''documentation, SOPs, and     maintenance logs.'',
      ''  '' @ [CHR 0xE2, CHR 0x80, CHR 0xA2] @ '' Graph-traversed structural data from the enterprise '' @
       ''knowledge graph     (assets, components, failure modes, procedures).'',
      [],
      ''## STRICT CONSTRAINTS'',
      ''1. **GROUNDING**: You MUST answer the user'' @ [CHR 0x27] @ ''s query using ONLY the provided    '' @
       ''context below. Do NOT fabricate facts, invent data, or reference documents    not present in the context.'',
      ''2. **CITATIONS**: Every factual claim in your answer MUST include an inline    citation tag in the '' @
       ''format [Source #N] where N is the citation index from    the context. Multiple citations are '' @
       ''allowed: [Source #1] [Source #3].'',
      ''3. **TONE**: Use a clear, objective, industrial-technical tone. Avoid    conversational filler, '' @
       ''hedging language, or marketing speak.'',
      ''4. **COMPLETENESS**: If the provided context does not contain sufficient    information to fully '' @
       ''answer the query, explicitly state what is missing    rather than guessing.'',
      ''5. **STRUCTURE**: Begin with a direct answer, then provide supporting    technical details. Use '' @
       ''numbered lists for procedural steps.'',
      ''6. **SAFETY**: If the context reveals safety-critical information (hazards,    lockout procedures, '' @
       ''PPE requirements), always surface these prominently.'',
      [],
      ''## CONTEXT'']"

definition system_prompt_head :: str where
  "system_prompt_head = join [CHR 0x0A] (system_prompt_head_lines @ [[]])"

definition system_prompt_middle :: str where
  "system_prompt_middle = join [CHR 0x0A]
     [[],
      [],
      ''## USER QUERY'',
      []]"

definition system_prompt_tail :: str where
  "system_prompt_tail = join [CHR 0x0A]
     [[],
      [],
      ''## INSTRUCTIONS'',
      ''Provide a comprehensive, citation-backed technical answer to the user'' @ [CHR 0x27] @ ''s query. '' @
       ''Reference the context above using [Source #N] tags for every claim. If the context is '' @
       ''insufficient, state: '' @ [CHR 0x22] @ ''The available context does not fully address this query. '' @
       ''Additional information needed: [specify what is missing].'' @ [CHR 0x22],
      [],
      ''Respond now:'',
      []]"

definition user_query_head :: str where
  "user_query_head = join [CHR 0x0A]
     [''Based on the retrieved context, answer the following operational query:'',
      [],
      []]"

definition user_query_tail :: str where
  "user_query_tail = join [CHR 0x0A]
     [[],
      [],
      ''Remember: cite every claim with [Source #N] tags. Be technical, precise, and objective. If context '' @
       ''is insufficient, state what is missing.'',
      []]"

definition fallback_no_context :: str where
  "fallback_no_context = join [CHR 0x0A]
     [''The retrieval pipeline returned no relevant context for this query. This may indicate:'',
      ''  '' @ [CHR 0xE2, CHR 0x80, CHR 0xA2] @ '' The query references assets or procedures not yet '' @
       ''ingested into the     knowledge base.'',
      ''  '' @ [CHR 0xE2, CHR 0x80, CHR 0xA2] @ '' The semantic similarity threshold was too strict.'',
      ''  '' @ [CHR 0xE2, CHR 0x80, CHR 0xA2] @ '' The asset identifier in the query does not match any '' @
       ''indexed entity.'',
      [],
      ''Recommendation: Verify the asset identifier and broaden the search filters.'',
      []]"

subsection \<open>The prompt builder\<close>

definition max_context_chars :: nat where
  "max_context_chars = 12000"

definition prompt_context :: "provenance list \<Rightarrow> str option \<Rightarrow> str" where
  "prompt_context ps asset_id =
     (let full = render_full_context ps;
          block = (if max_context_chars < length full
            then take max_context_chars full @ [CHR 0x0A, CHR 0x0A] @ ''[... context truncated due to length ...]''
            else full)
      in if truthy_str asset_id then ''[Asset Context: '' @ the asset_id @ '']'' @ [CHR 0x0A, CHR 0x0A] @ block else block)"

definition build_system_prompt :: "str \<Rightarrow> provenance list \<Rightarrow> str option \<Rightarrow> str" where
  "build_system_prompt user_query ps asset_id =
     system_prompt_head @ prompt_context ps asset_id @ system_prompt_middle @ user_query @ system_prompt_tail"

definition build_user_message :: "str \<Rightarrow> str option \<Rightarrow> str" where
  "build_user_message user_query additional_instructions =
     user_query_head @ user_query @ user_query_tail
     @ (if truthy_str additional_instructions
        then [CHR 0x0A, CHR 0x0A] @ ''Additional instructions: '' @ the additional_instructions else [])"

subsection \<open>The mock provider\<close>

definition mock_opening :: str where
  "mock_opening = join [CHR 0x0A]
     [''Based on the retrieved context, the analysis indicates the following:'',
      [],
      ''The operational data confirms the reported anomaly pattern '']"

definition mock_middle :: str where
  "mock_middle = join [CHR 0x0A]
     [''. Structural relationships in the knowledge graph corroborate the vector-retrieved documentation '']"

definition mock_closing :: str where
  "mock_closing = join [CHR 0x0A]
     [''.'',
      [],
      ''Recommended action: Execute the referenced SOP procedure with standard safety precautions. Monitor '' @
       ''telemetry for confirmation of resolution.'']"

definition mock_no_context :: str where
  "mock_no_context = join [CHR 0x0A]
     [''The retrieval pipeline did not return sufficient context to generate a grounded response. Please '' @
       ''verify the query parameters and ensure relevant documents have been ingested into the knowledge base.'']"

text \<open>\<open>MockLLMProvider.complete\<close>: the generated text.\<close>

definition mock_complete :: "str \<Rightarrow> str" where
  "mock_complete system_prompt =
     (let unique_tags = take 5 (dedup_by id [] (find_tags system_prompt));
          refs = join '' '' (map (\<lambda>t. ''[Source #'' @ t @ '']'') (take 3 unique_tags))
      in if unique_tags \<noteq> [] then mock_opening @ refs @ mock_middle @ refs @ mock_closing else mock_no_context)"

text \<open>\<open>get_llm_provider\<close> with its module-level instance: an explicit name always builds a new
  provider and stores it; without a name the stored one is returned, else one is built and not stored.\<close>

datatype llm_provider = OpenAIProvider | AnthropicProvider | MockLLMProvider

record llm_env =
  lv_provider :: "str option"
  lv_openai_key :: "str option"
  lv_anthropic_key :: "str option"

definition get_llm_provider :: "llm_env \<Rightarrow> str option \<Rightarrow> llm_provider option \<Rightarrow> llm_provider \<times> llm_provider option" where
  "get_llm_provider env provider_name cached =
     (case (cached, provider_name) of
        (Some p, None) \<Rightarrow> (p, cached)
      | _ \<Rightarrow>
          (let name = (if truthy_str provider_name then the provider_name
                       else py_lower (case lv_provider env of None \<Rightarrow> [] | Some v \<Rightarrow> v));
               provider =
                 (if name = ''openai'' \<or> name = [] \<and> truthy_str (lv_openai_key env) then OpenAIProvider
                  else if name = ''anthropic'' \<or> name = [] \<and> truthy_str (lv_anthropic_key env) then AnthropicProvider
                  else MockLLMProvider)
           in (provider, if truthy_str provider_name then Some provider else cached)))"

definition reset_llm_provider :: "llm_provider option \<Rightarrow> llm_provider option" where
  "reset_llm_provider cached = None"

subsection \<open>Tags across pieces of a text\<close>

text \<open>A line break is no part of a tag, so the lines of a text are searched independently.\<close>

lemma match_source_tag_prefix:
  "match_source_tag (''[Source #'' @ t) = (case dropWhile is_digit t of
     c # rest \<Rightarrow> if takeWhile is_digit t \<noteq> [] \<and> c = CHR '']'' then Some (takeWhile is_digit t, rest) else None
   | [] \<Rightarrow> None)"
  by (simp add: match_source_tag_def Let_def)

lemma match_source_tag_line:
  "match_source_tag (s @ CHR 0x0A # r) =
     (case match_source_tag s of None \<Rightarrow> None | Some (ds, rest) \<Rightarrow> Some (ds, rest @ CHR 0x0A # r))"
proof (cases "starts_with ''[Source #'' s")
  case True
  then obtain t where s: "s = ''[Source #'' @ t" unfolding starts_with_iff by blast
  have nl: "\<not> is_digit (CHR 0x0A)" by (simp add: is_digit_def)
  show ?thesis
  proof (cases "dropWhile is_digit t")
    case Nil
    then have "list_all is_digit t" by (simp add: list_all_iff)
    then have "dropWhile is_digit (t @ CHR 0x0A # r) = CHR 0x0A # r"
      using nl by (simp add: list_all_iff dropWhile_append)
    then show ?thesis unfolding s append_assoc match_source_tag_prefix Nil by simp
  next
    case (Cons c cs)
    then have "\<not> list_all is_digit t" by (auto simp: list_all_iff simp flip: dropWhile_eq_Nil_conv)
    then have "takeWhile is_digit (t @ CHR 0x0A # r) = takeWhile is_digit t"
      "dropWhile is_digit (t @ CHR 0x0A # r) = dropWhile is_digit t @ CHR 0x0A # r"
      by (auto simp: list_all_iff takeWhile_append dropWhile_append)
    then show ?thesis unfolding s append_assoc match_source_tag_prefix Cons by simp
  qed
next
  case False
  then have "\<not> starts_with ''[Source #'' (s @ CHR 0x0A # r)" by (subst starts_with_stop) simp_all
  then show ?thesis using False by (simp add: match_source_tag_def del: starts_with.simps)
qed

lemma find_tags_line: "find_tags (s @ CHR 0x0A # r) = find_tags s @ find_tags r"
proof (induction s rule: find_tags.induct)
  case 1
  show ?case by (simp add: match_source_tag_def)
next
  case (2 c cs)
  then show ?case using match_source_tag_line [of "c # cs" r] by (auto split: option.splits)
qed

lemma find_tags_digits: "ds \<in> set (find_tags s) \<Longrightarrow> ds \<noteq> [] \<and> list_all is_digit ds"
proof (induction s rule: find_tags.induct)
  case (2 c cs)
  have "ds \<noteq> [] \<and> list_all is_digit ds" if "match_source_tag (c # cs) = Some (ds, rest)" for ds rest
    using that set_takeWhileD
    by (fastforce simp: match_source_tag_def Let_def list_all_iff split: if_splits list.splits)
  note head = this
  show ?case
  proof (cases "match_source_tag (c # cs)")
    case None
    then show ?thesis using 2 by simp
  next
    case (Some m)
    then obtain ds' rest where m: "match_source_tag (c # cs) = Some (ds', rest)" by (cases m) simp
    then have "ds = ds' \<or> ds \<in> set (find_tags rest)" using "2.prems" by simp
    then show ?thesis using head [OF m] "2.IH"(2) [OF m refl] by blast
  qed
qed simp

lemma find_tags_tag:
  assumes "ds \<noteq> []" "list_all is_digit ds"
  shows "find_tags (CHR ''['' # ''Source #'' @ ds @ CHR '']'' # r) = ds # find_tags r"
proof -
  have "match_source_tag (''[Source #'' @ ds @ CHR '']'' # r) = Some (ds, r)"
    using assms by (simp add: match_source_tag_def Let_def list_all_iff takeWhile_append dropWhile_append)
  then show ?thesis by simp
qed

definition joined_tags :: "str list \<Rightarrow> str" where
  "joined_tags ts = join '' '' (map (\<lambda>t. ''[Source #'' @ t @ '']'') ts)"

lemma find_tags_blank: "find_tags (CHR '' '' # s) = find_tags s"
  by (simp add: match_source_tag_def)

lemma find_joined_tags:
  "list_all (\<lambda>t. t \<noteq> [] \<and> list_all is_digit t) ts \<Longrightarrow> find_tags (joined_tags ts @ r) = ts @ find_tags r"
proof (induction ts)
  case (Cons t ts)
  show ?case
  proof (cases ts)
    case Nil
    then show ?thesis using Cons.prems find_tags_tag [of t r] by (simp add: joined_tags_def)
  next
    case (Cons u us)
    then have "joined_tags (t # ts) @ r = CHR ''['' # ''Source #'' @ t @ CHR '']'' # CHR '' '' # joined_tags ts @ r"
      by (simp add: joined_tags_def)
    then have "find_tags (joined_tags (t # ts) @ r) = t # find_tags (CHR '' '' # joined_tags ts @ r)"
      using Cons.prems find_tags_tag [of t] by simp
    then show ?thesis using Cons.IH Cons.prems by (simp add: find_tags_blank del: find_tags.simps)
  qed
qed (simp add: joined_tags_def)

lemma joined_tags_Cons: "ts \<noteq> [] \<Longrightarrow> \<exists>u. joined_tags ts = CHR ''['' # u"
  by (cases ts rule: list.exhaust; cases "tl ts") (auto simp: joined_tags_def)

lemma find_tags_before_joined:
  "\<not> contains ''[Source #'' s \<Longrightarrow> ts \<noteq> [] \<Longrightarrow> list_all (\<lambda>t. t \<noteq> [] \<and> list_all is_digit t) ts \<Longrightarrow>
   find_tags (s @ joined_tags ts @ r) = ts @ find_tags r"
proof -
  assume s: "\<not> contains ''[Source #'' s" and ts: "ts \<noteq> []" "list_all (\<lambda>t. t \<noteq> [] \<and> list_all is_digit t) ts"
  obtain u where "joined_tags ts = CHR ''['' # u" using joined_tags_Cons [OF ts(1)] by blast
  then show ?thesis using find_tags_skip [OF s, of "u @ r"] find_joined_tags [OF ts(2), of r] by simp
qed

lemma dedup_by_seen: "f ` set ys \<subseteq> set seen \<Longrightarrow> dedup_by f seen ys = []"
  by (induction ys) auto

lemma dedup_by_absorb: "f ` set ys \<subseteq> f ` set xs \<union> set seen \<Longrightarrow> dedup_by f seen (xs @ ys) = dedup_by f seen xs"
  by (induction f seen xs rule: dedup_by.induct) (auto simp: dedup_by_seen insert_absorb)

text \<open>The mock's answer cites the first three distinct tags of the prompt, whatever the prompt is.\<close>

lemma mock_pieces_plain:
  "\<not> contains ''[Source #'' mock_opening" "\<not> contains ''[Source #'' mock_middle"
  "\<not> contains ''[Source #'' mock_closing" "\<not> contains ''[Source #'' mock_no_context"
  by code_simp+

lemma mock_complete_tags:
  "extract_citation_tags (mock_complete p) = take 3 (extract_citation_tags p)"
proof -
  define ts where "ts = take 3 (dedup_by id [] (find_tags p))"
  let ?wrap = "\<lambda>t. ''[Source #'' @ t @ '']''"
  have inj: "inj ?wrap" by (simp add: inj_def)
  have wrapped: "extract_citation_tags s = map ?wrap (dedup_by id [] (find_tags s))" for s
    using dedup_by_map_inj [OF inj, of "[]"] by (simp add: extract_citation_tags_def)
  have digits: "list_all (\<lambda>t. t \<noteq> [] \<and> list_all is_digit t) ts"
    unfolding list_all_iff
  proof
    fix t assume "t \<in> set ts"
    then have "t \<in> set (find_tags p)"
      using dedup_by_subset [of id "[]" "find_tags p"] unfolding ts_def by (auto dest: in_set_takeD)
    from find_tags_digits [OF this] show "t \<noteq> [] \<and> Ball (set t) is_digit" by (simp add: list_all_iff)
  qed
  have "dedup_by id [] (find_tags (mock_complete p)) = ts"
  proof (cases "ts = []")
    case True
    then have "dedup_by id [] (find_tags p) = []" by (simp add: ts_def)
    then show ?thesis using True mock_pieces_plain(4) by (simp add: mock_complete_def find_tags_plain)
  next
    case False
    then have "mock_complete p = mock_opening @ joined_tags ts @ mock_middle @ joined_tags ts @ mock_closing"
      by (auto simp: mock_complete_def Let_def joined_tags_def ts_def)
    then have "find_tags (mock_complete p) = ts @ ts"
      using False digits mock_pieces_plain by (simp add: find_tags_before_joined find_tags_plain)
    moreover have "distinct ts" using dedup_by_distinct [of id "[]" "find_tags p"] by (simp add: ts_def)
    ultimately show ?thesis using dedup_by_absorb [of id ts ts "[]"] dedup_by_id [of id ts "[]"] by simp
  qed
  then show ?thesis unfolding wrapped by (simp add: ts_def take_map)
qed

subsection \<open>Tags of the instructions\<close>

lemma join_last: "join sep (ls @ [x]) @ s = join sep (ls @ [x @ s])"
  by (induction sep ls rule: join.induct) (auto simp: neq_Nil_conv)

lemma find_tags_lines: "find_tags (join [CHR 0x0A] ls) = concat (map find_tags ls)"
proof (induction "[CHR 0x0A]" ls rule: join.induct)
  case (3 x y ls)
  then show ?case using find_tags_line [of x "join [CHR 0x0A] (y # ls)"] by simp
qed simp_all

lemma head_lines_tags: "concat (map find_tags system_prompt_head_lines) = [''1'', ''3'']"
  by code_simp

lemma head_tags: "find_tags (system_prompt_head @ s) = [''1'', ''3''] @ find_tags s"
  by (simp only: system_prompt_head_def join_last find_tags_lines map_append concat_append head_lines_tags) simp

text \<open>The mock provider cites the first three distinct tags of the prompt. The instructions of
  every system prompt themselves contain the tags 1 and 3, so with one or two candidates its answer
  always cites \<open>[Source #3]\<close>, which the audit calls hallucinated.\<close>

theorem mock_cites_prompt_tags:
  "extract_citation_tags (mock_complete p) = take 3 (extract_citation_tags p)
   \<and> (length cs < 3 \<longrightarrow> ''[Source #3]'' \<in> set (au_hallucinated_tags
        (validate_citations_in_response (mock_complete (build_system_prompt q (build cs) a)) (build cs))))"
proof -
  have "\<exists>ts. extract_citation_tags (build_system_prompt q (build cs) a) = ''[Source #1]'' # ''[Source #3]'' # ts"
    by (simp add: extract_citation_tags_def build_system_prompt_def head_tags)
  then have found: "''[Source #3]'' \<in> set (extract_citation_tags (mock_complete (build_system_prompt q (build cs) a)))"
    by (auto simp: mock_complete_tags)
  have "make_tag 3 = ''[Source #3]''" by code_simp
  then have "''[Source #3]'' \<notin> set (map pr_tag (build cs))" if "length cs < 3"
    using that unfolding build_tags(1) by (auto simp: make_tag_inj simp flip: \<open>make_tag 3 = ''[Source #3]''\<close>)
  then show ?thesis using found mock_complete_tags by (simp add: validate_citations_in_response_def Let_def)
qed

theorem mock_cites_prompt_tags_witness:
  "''[Source #3]'' \<in> set (au_hallucinated_tags
     (validate_citations_in_response (mock_complete (build_system_prompt ''Why?'' (build []) None)) (build [])))"
  using mock_cites_prompt_tags [of "[]" "[]" "''Why?''" None] by simp

text \<open>The context reaches the model whole unless it exceeds the budget.\<close>

lemma prompt_shows_context:
  assumes "length (render_full_context ps) \<le> max_context_chars"
  shows "contains (render_full_context ps) (build_system_prompt q ps a)"
proof -
  let ?ctx = "render_full_context ps"
  have "prompt_context ps a =
      (if truthy_str a then ''[Asset Context: '' @ the a @ '']'' @ [CHR 0x0A, CHR 0x0A] else []) @ ?ctx"
    using assms by (simp add: prompt_context_def Let_def)
  then obtain l where "prompt_context ps a = l @ ?ctx" by blast
  then have "build_system_prompt q ps a =
      (system_prompt_head @ l) @ ?ctx @ (system_prompt_middle @ q @ system_prompt_tail)"
    by (simp add: build_system_prompt_def)
  then show ?thesis unfolding contains_iff by blast
qed

end
