(* ===== verification/Retrieval.thy ===== *)
theory Retrieval
  imports Context_Fusion
begin

section \<open>Hybrid retrieval\<close>

text \<open>
  \<open>app/graphrag/retrieval.py\<close>: the two channels of the retriever. The repository's \<open>_read\<close> is a
  parameter: it takes a Cypher text and its parameters and returns rows of plain data
  (\<open>record.data()\<close> in \<open>app/graph/graph_repository.py\<close> turns nodes into dictionaries and paths into
  lists), or raises. Identifiers and display names are whatever values the rows hold. The vector
  search service is a parameter as well.
\<close>

type_synonym props = "(str \<times> pyval) list"
type_synonym reader = "str \<Rightarrow> props \<Rightarrow> props list res"
type_synonym edge_map = "((str \<times> str \<times> str) \<times> graph_edge) list"

text \<open>A node as the retriever keeps it: identifier and display name as the database holds them.\<close>

record raw_node =
  nd_id :: pyval
  nd_label :: str
  nd_display_name :: pyval
  nd_properties :: "(str \<times> pyval) list"

type_synonym node_map = "(pyval \<times> raw_node) list"

text \<open>The key of a value in a dictionary: numbers and truth values that are equal are one key, lists
  and dictionaries cannot be hashed (\<open>None\<close>).\<close>

fun dict_key :: "pyval \<Rightarrow> pyval option" where
  "dict_key (VList xs) = None"
| "dict_key (VDict d) = None"
| "dict_key (VBool b) = Some (VInt (if b then 1 else 0))"
| "dict_key (VFloat x) = Some (if val x = of_int \<lfloor>val x\<rfloor> then VInt \<lfloor>val x\<rfloor> else VFloat x)"
| "dict_key v = Some v"

text \<open>The node as the response model takes it: the identifier is text and so is the name, unless it
  is empty (\<open>display_name or label\<close>); \<open>None\<close> if the model refuses it.\<close>

definition typed_node :: "raw_node \<Rightarrow> graph_node option" where
  "typed_node n = (case nd_id n of
     VStr i \<Rightarrow> (case nd_display_name n of
         VStr s \<Rightarrow> Some \<lparr>gn_id = i, gn_label = nd_label n, gn_display_name = s, gn_properties = nd_properties n\<rparr>
       | v \<Rightarrow> if truthy v then None
           else Some \<lparr>gn_id = i, gn_label = nd_label n, gn_display_name = [], gn_properties = nd_properties n\<rparr>)
   | _ \<Rightarrow> None)"

definition without_stamps :: "props \<Rightarrow> props" where
  "without_stamps d = filter (\<lambda>(k, v). k \<noteq> ''created_at'' \<and> k \<noteq> ''updated_at'') d"

subsection \<open>Search words\<close>

text \<open>\<open>re.findall\<close> of the pattern \<open>\b[A-Za-z][\w\-]{2,}\b\<close>: at a letter that follows no word
  character, the longest run of word characters and dashes that ends in a word character. A shorter
  match would be shorter than the one that failed, so there is no further backtracking.\<close>

definition word_at :: "str \<Rightarrow> str option" where
  "word_at s = (case s of [] \<Rightarrow> None | c # cs \<Rightarrow>
     (let run = takeWhile (\<lambda>d. is_word d \<or> d = CHR ''-'') cs;
          body = rev (dropWhile (\<lambda>d. d = CHR ''-'') (rev run))
      in if (is_upper c \<or> is_lower c) \<and> 2 \<le> length body then Some (c # body) else None))"

lemma word_at_length: "word_at s = Some w \<Longrightarrow> w \<noteq> [] \<and> length w \<le> length s"
proof -
  assume w: "word_at s = Some w"
  then obtain c cs where s: "s = c # cs" by (auto simp: word_at_def split: list.splits)
  have "length (dropWhile P (rev (takeWhile Q cs))) \<le> length cs" for P Q
    by (metis length_dropWhile_le length_rev length_takeWhile_le order_trans)
  then show ?thesis using w by (auto simp: s word_at_def Let_def split: if_splits)
qed

function find_words :: "bool \<Rightarrow> str \<Rightarrow> str list" where
  "find_words after_word [] = []"
| "find_words after_word (c # cs) =
     (case (if after_word then None else word_at (c # cs)) of
        Some w \<Rightarrow> w # find_words (is_word (last w)) (drop (length w) (c # cs))
      | None \<Rightarrow> find_words (is_word c) cs)"
  by pat_completeness auto
termination
  by (relation "measure (\<lambda>(_, s). length s)") (auto dest!: word_at_length split: if_splits)

definition stop_words :: "str list" where
  "stop_words = [''the'', ''and'', ''for'', ''why'', ''did'', ''what'', ''how'', ''list'',
     ''explain'', ''this'', ''that'', ''with'', ''from'', ''are'', ''was'']"

definition search_terms :: "str \<Rightarrow> str list" where
  "search_terms q = take 5 (filter (\<lambda>w. py_lower w \<notin> set stop_words) (find_words False q))"

subsection \<open>Queries\<close>

definition traversal_relationships :: str where
  "traversal_relationships = ''COMPRISED_OF|MONITORED_BY|EXHIBITS_ANOMALY|'' @
     ''MITIGATED_BY|TRIGGERED_BY|HAS_SYMPTOM|HAS_STEP|'' @ ''GROUNDS_ENTITY|MENTIONS''"

definition expand_path :: "int \<Rightarrow> str" where
  "expand_path hops = ''OPTIONAL MATCH path=(root)-[rels:'' @ traversal_relationships @ ''*1..'' @ str_int hops
     @ '']->(leaf) '' @ ''RETURN root, path''"

definition asset_cypher :: "int \<Rightarrow> str" where
  "asset_cypher hops = ''MATCH (root:Asset {id:$asset_id}) '' @ expand_path hops"

definition node_cypher :: "str \<Rightarrow> int \<Rightarrow> str" where
  "node_cypher label hops = ''MATCH (root:`'' @ label @ ''` {id:$node_id}) '' @ expand_path hops"

definition keyword_cypher :: "str \<Rightarrow> str" where
  "keyword_cypher label = ''MATCH (n:`'' @ label @ ''`) '' @
     ''WHERE toLower(n.display_name) CONTAINS toLower($term) '' @
     ''   OR toLower(n.id) CONTAINS toLower($term) '' @ ''RETURN n LIMIT $limit''"

subsection \<open>Nodes and edges of the rows\<close>

text \<open>\<open>_extract_node\<close> on plain data: a dictionary has no \<open>labels\<close>, so the label is \<open>Node\<close>; on
  anything else \<open>dict\<close> raises, and so does an identifier that cannot be hashed; both are caught.\<close>

definition extract_node :: "pyval \<Rightarrow> node_map \<Rightarrow> node_map" where
  "extract_node v out = (case v of
     VDict d \<Rightarrow>
       (let nid = dict_default d ''id'' (VStr [])
        in if truthy nid
           then (case dict_key nid of None \<Rightarrow> out
             | Some k \<Rightarrow> if k \<in> fst ` set out then out
                 else AList.update k \<lparr>nd_id = nid, nd_label = ''Node'',
                   nd_display_name = dict_default d ''display_name'' nid, nd_properties = without_stamps d\<rparr> out)
           else out)
   | _ \<Rightarrow> out)"

text \<open>\<open>_extract_edge\<close> on plain data: \<open>rel_obj.type\<close> raises, which is caught.\<close>

definition extract_edge :: "pyval \<Rightarrow> edge_map \<Rightarrow> edge_map" where
  "extract_edge v out = out"

text \<open>\<open>getattr(path, "nodes", lambda: [])()\<close>: plain data has no such attribute.\<close>

definition path_attribute :: "str \<Rightarrow> pyval \<Rightarrow> pyval list" where
  "path_attribute name path = []"

definition extract_row :: "node_map \<times> edge_map \<Rightarrow> props \<Rightarrow> node_map \<times> edge_map" where
  "extract_row st row = (case st of (nodes, edges) \<Rightarrow>
     (let root = (case map_of row ''root'' of Some v \<Rightarrow> v | None \<Rightarrow> VNone);
          path = (case map_of row ''path'' of Some v \<Rightarrow> v | None \<Rightarrow> VNone);
          nodes1 = (if truthy root then extract_node root nodes else nodes)
      in if path = VNone then (nodes1, edges)
         else (foldl (\<lambda>ns v. extract_node v ns) nodes1 (path_attribute ''nodes'' path),
               foldl (\<lambda>es v. extract_edge v es) edges (path_attribute ''relationships'' path))))"

definition expansion_of :: "props list \<Rightarrow> raw_node list \<times> graph_edge list" where
  "expansion_of rows = (case foldl extract_row ([], []) rows of (ns, es) \<Rightarrow> (map snd ns, map snd es))"

definition expand_asset_subgraph :: "reader \<Rightarrow> str \<Rightarrow> int \<Rightarrow> (raw_node list \<times> graph_edge list) res" where
  "expand_asset_subgraph read asset_id max_hops =
     (let hops = max 1 (min max_hops 5)
      in bind_res (read (asset_cypher hops) [(''asset_id'', VStr asset_id)]) (\<lambda>rows. Inr (expansion_of rows)))"

definition expand_from_node :: "reader \<Rightarrow> str \<Rightarrow> pyval \<Rightarrow> int \<Rightarrow> (raw_node list \<times> graph_edge list) res" where
  "expand_from_node read label node_id max_hops =
     (let hops = max 1 (min max_hops 3)
      in bind_res (read (node_cypher label hops) [(''node_id'', node_id)]) (\<lambda>rows. Inr (expansion_of rows)))"

text \<open>One keyword query: the rows are stored until one is no dictionary or has an identifier that
  cannot be hashed, which raises and ends this query; rows without an identifier are skipped.\<close>

definition keyword_row :: "str \<Rightarrow> props \<Rightarrow> node_map \<Rightarrow> node_map option" where
  "keyword_row label d nodes =
     (let nid = dict_default d ''id'' (VStr [])
      in if truthy nid
         then map_option (\<lambda>k. AList.update k \<lparr>nd_id = nid, nd_label = label,
             nd_display_name = dict_default d ''display_name'' nid, nd_properties = without_stamps d\<rparr> nodes) (dict_key nid)
         else Some nodes)"

fun add_keyword_rows :: "str \<Rightarrow> props list \<Rightarrow> node_map \<Rightarrow> node_map" where
  "add_keyword_rows label [] nodes = nodes"
| "add_keyword_rows label (row # rows) nodes =
     (case (case map_of row ''n'' of Some v \<Rightarrow> v | None \<Rightarrow> VDict []) of
        VDict d \<Rightarrow> (case keyword_row label d nodes of None \<Rightarrow> nodes
          | Some nodes' \<Rightarrow> add_keyword_rows label rows nodes')
      | _ \<Rightarrow> nodes)"

definition keyword_query :: "reader \<Rightarrow> str \<Rightarrow> node_map \<Rightarrow> str \<Rightarrow> node_map" where
  "keyword_query read label nodes term =
     (case read (keyword_cypher label) [(''term'', VStr term), (''limit'', VInt 5)] of
        Inl _ \<Rightarrow> nodes | Inr rows \<Rightarrow> add_keyword_rows label rows nodes)"

definition search_by_keywords :: "reader \<Rightarrow> str \<Rightarrow> raw_node list" where
  "search_by_keywords read q =
     (let terms = search_terms q
      in if terms = [] then []
         else take 10 (map snd (foldl (\<lambda>nodes label. foldl (keyword_query read label) nodes terms) []
                [''Asset'', ''Component'', ''FailureMode'', ''SOP''])))"

subsection \<open>The graph channel\<close>

text \<open>Every identifier that is kept was a key before, so it can be hashed.\<close>

definition put_node :: "node_map \<Rightarrow> raw_node \<Rightarrow> node_map" where
  "put_node nodes n = (case dict_key (nd_id n) of None \<Rightarrow> nodes
     | Some k \<Rightarrow> if truthy (nd_id n) then AList.update k n nodes else nodes)"

definition put_new_node :: "node_map \<Rightarrow> raw_node \<Rightarrow> node_map" where
  "put_new_node nodes n = (case dict_key (nd_id n) of None \<Rightarrow> nodes
     | Some k \<Rightarrow> if truthy (nd_id n) \<and> k \<notin> fst ` set nodes then AList.update k n nodes else nodes)"

definition put_edge :: "edge_map \<Rightarrow> graph_edge \<Rightarrow> edge_map" where
  "put_edge edges e = AList.update (ge_source_id e, ge_relationship e, ge_target_id e) e edges"

definition add_expansion :: "node_map \<times> edge_map \<Rightarrow> (raw_node list \<times> graph_edge list) res \<Rightarrow> node_map \<times> edge_map" where
  "add_expansion st r = (case r of Inl _ \<Rightarrow> st
     | Inr (ns, es) \<Rightarrow> (foldl put_node (fst st) ns, foldl put_edge (snd st) es))"

definition expand_keyword_node :: "reader \<Rightarrow> node_map \<times> edge_map \<Rightarrow> raw_node \<Rightarrow> node_map \<times> edge_map" where
  "expand_keyword_node read st n =
     (if truthy (nd_id n) then add_expansion st (expand_from_node read (nd_label n) (nd_id n) 1) else st)"

definition hit_of_node :: "graph_node \<Rightarrow> graph_hit" where
  "hit_of_node n = \<lparr>gh_node_id = gn_id n, gh_label = gn_label n,
     gh_display_name = gn_display_name n, gh_relevance_score = F 0.8, gh_properties = gn_properties n,
     gh_document_type = Some (gn_label n), gh_text = (if gn_display_name n \<noteq> [] then gn_display_name n else gn_id n)\<rparr>"

record graph_channel =
  gl_hits :: "graph_hit list"
  gl_nodes_raw :: "raw_node list"
  gl_edges_raw :: "graph_edge list"

definition no_graph :: graph_channel where
  "no_graph = \<lparr>gl_hits = [], gl_nodes_raw = [], gl_edges_raw = []\<rparr>"

text \<open>No repository (\<open>None\<close>): \<open>_get_graph_repo\<close> raises and the channel is empty. The hits are those
  of the nodes the response model takes; with any other node the query fails later on, when the
  response is built if not before.\<close>

definition typed_nodes :: "raw_node list \<Rightarrow> graph_node list" where
  "typed_nodes ns = List.map_filter typed_node ns"


definition retrieve_graph :: "reader option \<Rightarrow> str \<Rightarrow> str option \<Rightarrow> int \<Rightarrow> graph_channel" where
  "retrieve_graph repo q asset_id max_hops = (case repo of None \<Rightarrow> no_graph | Some read \<Rightarrow>
     (let st0 = (if truthy_str asset_id
                 then add_expansion ([], []) (expand_asset_subgraph read (the asset_id) max_hops) else ([], []));
          keyword_nodes = search_by_keywords read q;
          st1 = (foldl put_new_node (fst st0) keyword_nodes, snd st0);
          st2 = foldl (expand_keyword_node read) st1 (take 5 keyword_nodes)
      in \<lparr>gl_hits = map hit_of_node (typed_nodes (map snd (fst st2))), gl_nodes_raw = map snd (fst st2), gl_edges_raw = map snd (snd st2)\<rparr>))"

subsection \<open>The vector channel and the retriever\<close>

text \<open>A search result as the vector service returns it; the payload may be absent.\<close>

record search_result =
  sr_chunk_id :: str
  sr_text :: str
  sr_score :: float64
  sr_document_id :: "str option"
  sr_document_type :: "str option"
  sr_source_filename :: "str option"
  sr_section_title :: "str option"
  sr_payload :: "props option"

text \<open>The page of a payload, as the citation model reads it: an integer, a truth value, a float with an
  integral value or digits; on anything else the model raises when the chunk is cited.\<close>

fun as_opt_int :: "pyval \<Rightarrow> int option res" where
  "as_opt_int VNone = Inr None"
| "as_opt_int (VInt i) = Inr (Some i)"
| "as_opt_int (VBool b) = Inr (Some (if b then 1 else 0))"
| "as_opt_int (VFloat x) = (if val x = of_int \<lfloor>val x\<rfloor> then Inr (Some \<lfloor>val x\<rfloor>) else Inl (ValidationError ''int_from_float''))"
| "as_opt_int (VStr s) = (case parse_int s of Some i \<Rightarrow> Inr (Some i) | None \<Rightarrow> Inl (ValidationError ''int_parsing''))"
| "as_opt_int v = Inl (ValidationError ''int_type'')"

definition read_page :: "props option \<Rightarrow> int option res" where
  "read_page payload = (case payload of None \<Rightarrow> Inr None | Some d \<Rightarrow> as_opt_int (dict_default d ''page_start'' VNone))"

definition page_of :: "props option \<Rightarrow> int option" where
  "page_of payload = (case read_page payload of Inl _ \<Rightarrow> None | Inr p \<Rightarrow> p)"

definition vector_hit_of :: "search_result \<Rightarrow> vector_hit" where
  "vector_hit_of r = \<lparr>vh_chunk_id = sr_chunk_id r, vh_text = sr_text r, vh_score = sr_score r,
     vh_document_id = sr_document_id r, vh_document_type = sr_document_type r,
     vh_source_filename = sr_source_filename r, vh_section_title = sr_section_title r,
     vh_page_start = page_of (sr_payload r),
     vh_payload = (case sr_payload r of None \<Rightarrow> [] | Some d \<Rightarrow> d)\<rparr>"

record retrieval =
  rv_vector_hits :: "vector_hit list"
  rv_graph_hits :: "graph_hit list"
  rv_graph_nodes_raw :: "raw_node list"
  rv_graph_edges_raw :: "graph_edge list"
  rv_unread_pages :: "str list"

text \<open>The chunks with a page the citation model cannot read; of several results for a chunk the last one
  counts, as in the fusion.\<close>

definition unread_pages :: "search_result list \<Rightarrow> str list" where
  "unread_pages rs = map fst (filter (\<lambda>(c, unread). unread)
     (foldl (\<lambda>d r. AList.update (sr_chunk_id r) ((case read_page (sr_payload r) of Inl _ \<Rightarrow> True | Inr _ \<Rightarrow> False)) d) [] rs))"

text \<open>\<open>retrieve\<close>: both channels under \<open>gather(return_exceptions=True)\<close>; a channel that raised is
  empty. The graph channel catches everything itself.\<close>

definition retrieve ::
  "search_result list res \<Rightarrow> reader option \<Rightarrow> str \<Rightarrow> str option \<Rightarrow> int \<Rightarrow> retrieval" where
  "retrieve search repo q asset_id max_hops =
     (let g = retrieve_graph repo q asset_id max_hops
      in \<lparr>rv_vector_hits = (case search of Inl _ \<Rightarrow> [] | Inr rs \<Rightarrow> map vector_hit_of rs),
          rv_graph_hits = gl_hits g, rv_graph_nodes_raw = gl_nodes_raw g, rv_graph_edges_raw = gl_edges_raw g,
          rv_unread_pages = (case search of Inl _ \<Rightarrow> [] | Inr rs \<Rightarrow> unread_pages rs)\<rparr>)"


subsection \<open>What the graph channel returns\<close>

definition known_labels :: "str list" where
  "known_labels = [''Node'', ''Asset'', ''Component'', ''FailureMode'', ''SOP'']"

definition node_fits :: "pyval \<Rightarrow> raw_node \<Rightarrow> bool" where
  "node_fits k n \<longleftrightarrow> truthy (nd_id n) \<and> dict_key (nd_id n) = Some k \<and> nd_label n \<in> set known_labels"

definition fits_some :: "raw_node \<Rightarrow> bool" where
  "fits_some n \<longleftrightarrow> (\<exists>k. node_fits k n)"

lemma list_all_take: "list_all P xs \<Longrightarrow> list_all P (take n xs)"
  by (metis in_set_takeD list_all_iff)

lemma dict_inv_nodes: "dict_inv node_fits m \<Longrightarrow> list_all fits_some (map snd m)"
  by (fastforce simp: dict_inv_def fits_some_def list_all_iff)

text \<open>The loops keep the node map keyed by the identifiers and never meet an edge.\<close>

lemma extract_node_inv: "dict_inv node_fits out \<Longrightarrow> dict_inv node_fits (extract_node v out)"
  by (auto simp: extract_node_def Let_def node_fits_def known_labels_def intro!: dict_inv_update
      split: pyval.splits option.splits)

lemma extract_row_inv:
  "dict_inv node_fits (fst st) \<and> snd st = [] \<Longrightarrow>
   dict_inv node_fits (fst (extract_row st row)) \<and> snd (extract_row st row) = []"
  by (cases st) (auto simp: extract_row_def Let_def path_attribute_def extract_node_inv)

lemma expansion_nodes:
  "list_all fits_some (fst (expansion_of rows)) \<and> snd (expansion_of rows) = []"
proof -
  have "dict_inv node_fits (fst (foldl extract_row ([], []) rows)) \<and> snd (foldl extract_row ([], []) rows) = []"
    by (rule foldl_keeps [where P = "\<lambda>st. dict_inv node_fits (fst st) \<and> snd st = []"])
      (simp_all add: extract_row_inv)
  then show ?thesis
    using dict_inv_nodes by (auto simp: expansion_of_def split: prod.splits)
qed

lemma expansion_result:
  "expand_asset_subgraph read i h = Inr (ns, es) \<Longrightarrow> list_all fits_some ns \<and> es = []"
  "expand_from_node read l j h = Inr (ns, es) \<Longrightarrow> list_all fits_some ns \<and> es = []"
  using expansion_nodes
  by (auto simp: expand_asset_subgraph_def expand_from_node_def Let_def bind_res_Inr)
    (metis fst_conv snd_conv)+

lemma keyword_row_inv:
  "label \<in> set known_labels \<Longrightarrow> dict_inv node_fits nodes \<Longrightarrow> keyword_row label d nodes = Some nodes' \<Longrightarrow>
   dict_inv node_fits nodes'"
  by (auto simp: keyword_row_def Let_def node_fits_def dict_inv_update split: if_splits)

lemma add_keyword_rows_inv:
  "label \<in> set known_labels \<Longrightarrow> dict_inv node_fits nodes \<Longrightarrow> dict_inv node_fits (add_keyword_rows label rows nodes)"
proof (induction label rows nodes rule: add_keyword_rows.induct)
  case (2 label row rows nodes)
  then show ?case by (auto dest: keyword_row_inv split: pyval.splits option.splits)
qed simp

lemma search_by_keywords_nodes:
  "length (search_by_keywords read q) \<le> 10 \<and> list_all fits_some (search_by_keywords read q)"
proof -
  let ?labels = "[''Asset'', ''Component'', ''FailureMode'', ''SOP'']"
  have query: "dict_inv node_fits (keyword_query read label nodes term)"
    if "label \<in> set known_labels" "dict_inv node_fits nodes" for label nodes "term"
    using that by (auto simp: keyword_query_def add_keyword_rows_inv split: sum.splits)
  define found where
    "found = foldl (\<lambda>nodes label. foldl (keyword_query read label) nodes (search_terms q)) [] ?labels"
  have "dict_inv node_fits found" unfolding found_def
  proof (rule foldl_keeps [where P = "dict_inv node_fits"])
    fix nodes label
    assume "dict_inv node_fits nodes" "label \<in> set ?labels"
    then show "dict_inv node_fits (foldl (keyword_query read label) nodes (search_terms q))"
      by (intro foldl_keeps [where P = "dict_inv node_fits"] query) (auto simp: known_labels_def)
  qed simp
  then have "list_all fits_some (map snd found)" by (rule dict_inv_nodes)
  moreover have "search_by_keywords read q = (if search_terms q = [] then [] else take 10 (map snd found))"
    unfolding search_by_keywords_def found_def Let_def ..
  ultimately show ?thesis using list_all_take by (auto split: if_splits)
qed

definition channel_inv :: "node_map \<times> edge_map \<Rightarrow> bool" where
  "channel_inv st \<longleftrightarrow> dict_inv node_fits (fst st) \<and> snd st = []"

lemma put_nodes_inv:
  assumes "list_all fits_some ns" "dict_inv node_fits nodes"
  shows "dict_inv node_fits (foldl put_node nodes ns)" "dict_inv node_fits (foldl put_new_node nodes ns)"
  using assms
  by (auto intro!: foldl_keeps [where P = "dict_inv node_fits"] dict_inv_update
      simp: put_node_def put_new_node_def fits_some_def node_fits_def list_all_iff split: option.splits)

lemma add_expansion_inv:
  "channel_inv st \<Longrightarrow> channel_inv (add_expansion st (expand_asset_subgraph read i h))"
  "channel_inv st \<Longrightarrow> channel_inv (add_expansion st (expand_from_node read l j h))"
  by (auto simp: add_expansion_def channel_inv_def split: sum.splits dest!: expansion_result intro: put_nodes_inv)

lemma retrieve_graph_state:
  obtains st where "channel_inv st" and "retrieve_graph repo q asset_id max_hops =
    \<lparr>gl_hits = map hit_of_node (typed_nodes (map snd (fst st))), gl_nodes_raw = map snd (fst st), gl_edges_raw = map snd (snd st)\<rparr>"
proof (cases repo)
  case None
  then show ?thesis using that [of "([], [])"]
    by (simp add: retrieve_graph_def no_graph_def channel_inv_def typed_nodes_def List.map_filter_simps)
next
  case (Some read)
  define st0 where "st0 = (if truthy_str asset_id
      then add_expansion ([], []) (expand_asset_subgraph read (the asset_id) max_hops) else ([], []))"
  let ?kw = "search_by_keywords read q"
  have "channel_inv ([], [])" by (simp add: channel_inv_def)
  then have "channel_inv st0" unfolding st0_def by (simp add: add_expansion_inv)
  then have "channel_inv (foldl put_new_node (fst st0) ?kw, snd st0)"
    using search_by_keywords_nodes [of read q] by (simp add: channel_inv_def put_nodes_inv)
  then have "channel_inv (foldl (expand_keyword_node read) (foldl put_new_node (fst st0) ?kw, snd st0) (take 5 ?kw))"
    by (rule foldl_keeps [where P = channel_inv]) (simp add: expand_keyword_node_def add_expansion_inv)
  then show ?thesis by (rule that) (simp add: Some retrieve_graph_def st0_def Let_def)
qed

lemma typed_node_id: "typed_node n = Some g \<Longrightarrow> nd_id n = VStr (gn_id g) \<and> gn_label g = nd_label n"
  by (auto simp: typed_node_def split: pyval.splits if_splits)

lemma typed_nodes_all: "list_all (\<lambda>n. typed_node n \<noteq> None) ns \<Longrightarrow> map nd_id ns = map (VStr \<circ> gn_id) (typed_nodes ns)"
  by (induction ns) (auto simp: typed_nodes_def List.map_filter_simps typed_node_id)

lemma set_typed_nodes: "g \<in> set (typed_nodes ns) \<longleftrightarrow> (\<exists>n \<in> set ns. typed_node n = Some g)"
  by (force simp: typed_nodes_def List.map_filter_def)

lemma typed_nodes_distinct:
  assumes "distinct (map fst st)" "\<forall>(k, n) \<in> set st. node_fits k n"
  shows "distinct (map gn_id (typed_nodes (map snd st)))"
  using assms
proof (induction st)
  case (Cons kn st)
  obtain k n where kn: "kn = (k, n)" by fastforce
  have "gn_id g \<noteq> gn_id h" if gh: "typed_node n = Some g" "h \<in> set (typed_nodes (map snd st))" for g h
  proof
    assume eq: "gn_id g = gn_id h"
    obtain k' m where m: "(k', m) \<in> set st" "typed_node m = Some h" using gh(2) by (auto simp: set_typed_nodes)
    then have "node_fits k' m" "node_fits k n" using Cons.prems(2) kn by auto
    then have "dict_key (nd_id m) = Some k'" "dict_key (nd_id n) = Some k" by (simp_all add: node_fits_def)
    moreover have "nd_id m = nd_id n" using typed_node_id [OF gh(1)] typed_node_id [OF m(2)] eq by simp
    ultimately have "k' = k" by simp
    then show False using m(1) Cons.prems(1) kn by force
  qed
  then show ?case using Cons kn by (auto simp: typed_nodes_def List.map_filter_simps split: option.splits)
qed (simp add: typed_nodes_def List.map_filter_simps)

text \<open>The graph channel is consistent whatever the database answers: the hits are those of the nodes
  the response model takes, in order, with distinct non-empty identifiers, known labels, a text and
  the uniform score. Through the repository, whose rows are plain data, it never returns an edge: no
  path has the attributes the traversal looks for.\<close>

theorem graph_channel_consistent:
  "let g = retrieve_graph repo q asset_id max_hops
   in map gh_node_id (gl_hits g) = map gn_id (typed_nodes (gl_nodes_raw g)) \<and> distinct (map gh_node_id (gl_hits g))
    \<and> list_all (\<lambda>n. truthy (nd_id n) \<and> nd_label n \<in> set known_labels) (gl_nodes_raw g)
    \<and> list_all (\<lambda>h. gh_relevance_score h = F 0.8 \<and> gh_node_id h \<noteq> [] \<and> gh_text h \<noteq> []) (gl_hits g)
    \<and> gl_edges_raw g = []"
proof -
  obtain st where inv: "channel_inv st" and g: "retrieve_graph repo q asset_id max_hops =
      \<lparr>gl_hits = map hit_of_node (typed_nodes (map snd (fst st))), gl_nodes_raw = map snd (fst st),
       gl_edges_raw = map snd (snd st)\<rparr>"
    by (rule retrieve_graph_state)
  have st: "distinct (map fst (fst st))" "snd st = []" and fits: "\<forall>(k, n) \<in> set (fst st). node_fits k n"
    using inv by (auto simp: channel_inv_def dict_inv_def wf_dict_def)
  have ids: "map gh_node_id (map hit_of_node ns) = map gn_id ns" for ns by (simp add: hit_of_node_def)
  have ok: "gn_id h \<noteq> []" if typed: "h \<in> set (typed_nodes (map snd (fst st)))" for h
  proof -
    obtain k n where n: "(k, n) \<in> set (fst st)" "typed_node n = Some h" using typed by (auto simp: set_typed_nodes)
    then have "truthy (nd_id n)" using fits by (auto simp: node_fits_def)
    then show ?thesis using typed_node_id [OF n(2)] by auto
  qed
  have "list_all (\<lambda>n. truthy (nd_id n) \<and> nd_label n \<in> set known_labels) (map snd (fst st))"
    using fits by (auto simp: list_all_iff node_fits_def)
  moreover have "list_all (\<lambda>h. gh_relevance_score h = F 0.8 \<and> gh_node_id h \<noteq> [] \<and> gh_text h \<noteq> [])
      (map hit_of_node (typed_nodes (map snd (fst st))))"
    using ok by (auto simp: list_all_iff hit_of_node_def)
  ultimately show ?thesis
    using st ids typed_nodes_distinct [OF st(1) fits] by (simp add: g Let_def del: map_map)
qed

subsection \<open>The search terms\<close>

lemma contains_drop: "contains p (drop n s) \<Longrightarrow> contains p s"
  unfolding contains_iff by (metis append_assoc append_take_drop_id)

lemma word_at_prefix:
  assumes "word_at s = Some w"
  shows "starts_with w s" "3 \<le> length w" "is_upper (hd w) \<or> is_lower (hd w)" "is_word (last w)"
proof -
  obtain c cs where s: "s = c # cs" using assms by (auto simp: word_at_def split: list.splits)
  define run where "run = takeWhile (\<lambda>d. is_word d \<or> d = CHR ''-'') cs"
  define body where "body = rev (dropWhile (\<lambda>d. d = CHR ''-'') (rev run))"
  have w: "w = c # body" "2 \<le> length body" "is_upper c \<or> is_lower c"
    using assms by (auto simp: s word_at_def Let_def run_def body_def split: if_splits)
  have "rev run = takeWhile (\<lambda>d. d = CHR ''-'') (rev run) @ dropWhile (\<lambda>d. d = CHR ''-'') (rev run)" by simp
  then obtain t where "run = body @ t" unfolding body_def by (metis rev_append rev_rev_ident)
  moreover obtain u where "cs = run @ u" unfolding run_def by (metis takeWhile_dropWhile_id)
  ultimately have "s = w @ t @ u" by (simp add: s w(1))
  then show "starts_with w s" unfolding starts_with_iff by blast
  show "3 \<le> length w" "is_upper (hd w) \<or> is_lower (hd w)" using w by simp_all
  have "body \<noteq> []" using w(2) by auto
  then have ne: "dropWhile (\<lambda>d. d = CHR ''-'') (rev run) \<noteq> []" unfolding body_def by (metis rev.simps(1))
  then have "last body = hd (dropWhile (\<lambda>d. d = CHR ''-'') (rev run))" by (simp add: body_def last_rev)
  then have "last body \<noteq> CHR ''-''" using hd_dropWhile [OF ne] by simp
  moreover have "last body \<in> set run"
    using ne by (metis body_def last_rev hd_in_set set_dropWhileD set_rev rev_rev_ident)
  ultimately have "is_word (last body)" using set_takeWhileD by (fastforce simp: run_def)
  then show "is_word (last w)" using w(1,2) by auto
qed

lemma find_words_sound:
  "w \<in> set (find_words b s) \<Longrightarrow> contains w s \<and> 3 \<le> length w \<and> (is_upper (hd w) \<or> is_lower (hd w)) \<and> is_word (last w)"
proof (induction b s rule: find_words.induct)
  case (2 b c cs)
  show ?case
  proof (cases "if b then None else word_at (c # cs)")
    case None
    then have "w \<in> set (find_words (is_word c) cs)" using "2.prems" by simp
    then show ?thesis using "2.IH"(1) [OF None] by simp
  next
    case (Some v)
    then have v: "word_at (c # cs) = Some v" by (auto split: if_splits)
    have "w = v \<or> w \<in> set (find_words (is_word (last v)) (drop (length v) (c # cs)))"
      using "2.prems" Some by simp
    then show ?thesis
    proof
      assume "w = v"
      then show ?thesis using word_at_prefix [OF v] by simp
    next
      assume "w \<in> set (find_words (is_word (last v)) (drop (length v) (c # cs)))"
      from "2.IH"(2) [OF Some this] show ?thesis using contains_drop by blast
    qed
  qed
qed simp

text \<open>The keyword search looks for at most five words of the query: each occurs in it, has at least
  three characters, begins with a letter, ends in a word character and is no stop word; and at most
  ten nodes are kept.\<close>

theorem search_terms_sound:
  "length (search_terms q) \<le> 5 \<and> length (search_by_keywords read q) \<le> 10
   \<and> list_all (\<lambda>w. contains w q \<and> 3 \<le> length w \<and> (is_upper (hd w) \<or> is_lower (hd w)) \<and> is_word (last w)
       \<and> py_lower w \<notin> set stop_words) (search_terms q)"
proof -
  have "list_all (\<lambda>w. py_lower w \<notin> set stop_words \<and> w \<in> set (find_words False q)) (search_terms q)"
    unfolding search_terms_def by (rule list_all_take) (simp add: list_all_iff)
  then have "list_all (\<lambda>w. contains w q \<and> 3 \<le> length w \<and> (is_upper (hd w) \<or> is_lower (hd w)) \<and> is_word (last w)
       \<and> py_lower w \<notin> set stop_words) (search_terms q)"
    by (rule list.pred_mono_strong) (blast dest: find_words_sound)
  moreover have "length (search_terms q) \<le> 5" by (simp add: search_terms_def)
  ultimately show ?thesis using search_by_keywords_nodes [of read q] by blast
qed

end
