(* ===== verification/Graphrag_Service.thy ===== *)
theory Graphrag_Service
  imports Prompt_Templates Retrieval
begin

section \<open>The GraphRAG query pipeline\<close>

text \<open>
  \<open>app/graphrag/graph_rag_service.py\<close>: retrieval, fusion, citation, synthesis and the response. The
  vector search, the repository's reader and the language model are parameters; the model answers
  with a text or raises. Latencies, the time stamp and the logged hash are left out. A page that is no
  integer but reads as one is printed in the prompt as the integer. Python's
  \<open>sum\<close> adds floats from the left.
\<close>

record rag_request =
  rq_query_text :: str
  rq_top_k :: int
  rq_min_score :: float64
  rq_max_graph_hops :: int
  rq_asset_id :: "str option"

definition mk_rag_request :: "rag_request \<Rightarrow> rag_request res" where
  "mk_rag_request r =
     require (1 \<le> length (rq_query_text r) \<and> length (rq_query_text r) \<le> 2048) (ValidationError ''query_text'')
       (require (1 \<le> rq_top_k r \<and> rq_top_k r \<le> 50) (ValidationError ''top_k'')
       (require (0 \<le> rq_min_score r \<and> rq_min_score r \<le> 1) (ValidationError ''min_score'')
       (require (0 \<le> rq_max_graph_hops r \<and> rq_max_graph_hops r \<le> 5) (ValidationError ''max_graph_hops'') (Inr r))))"

record rag_env =
  rg_search :: "str \<Rightarrow> int \<Rightarrow> float64 \<Rightarrow> search_result list res"
  rg_repo :: "reader option"
  rg_complete :: "str \<Rightarrow> str \<Rightarrow> str res"
  rg_rrf_k :: nat
  rg_max_context_chunks :: nat
  rg_embedding_model :: str

subsection \<open>Building the response\<close>

definition chunk_of_candidate :: "fusion_candidate \<Rightarrow> context_chunk option" where
  "chunk_of_candidate c =
     (if fc_text c = [] \<and> \<not> truthy_str (fc_node_id c) then None
      else Some \<lparr>ck_chunk_id = (if truthy_str (fc_chunk_id c) then the (fc_chunk_id c) else fc_candidate_id c),
        ck_text = (if fc_text c \<noteq> [] then fc_text c else fc_label c),
        ck_score = (if fc_rrf_score c \<noteq> 0 then fc_rrf_score c else max (fc_score_vector c) (fc_score_graph c)),
        ck_document_type = (if truthy_str (fc_document_type c) then the (fc_document_type c)
          else if fc_source_type c \<noteq> [] then fc_source_type c else ''UNKNOWN''),
        ck_source = or_str (fc_source_filename c) (fc_document_id c)\<rparr>)"

definition build_context_chunks :: "fusion_result \<Rightarrow> context_chunk list" where
  "build_context_chunks r = List.map_filter chunk_of_candidate (fr_candidates r)"

text \<open>The weight is a float field: a value pydantic cannot read as a number is rejected.\<close>

definition rag_edge_of :: "graph_edge \<Rightarrow> rag_edge res" where
  "rag_edge_of e =
     (case to_float (dict_default (ge_properties e) ''confidence_weight'' (VFloat (F 1))) of
        Inl _ \<Rightarrow> Inl (ValidationError ''weight'')
      | Inr w \<Rightarrow> Inr \<lparr>re_source = ge_source_id e, re_target = ge_target_id e,
          re_relationship = ge_relationship e, re_weight = w\<rparr>)"

text \<open>The identifier and the label of a node are strict strings.\<close>

definition rag_node_of :: "raw_node \<Rightarrow> rag_node res" where
  "rag_node_of n = (case typed_node n of None \<Rightarrow> Inl (ValidationError ''string_type'') | Some g \<Rightarrow> Inr (node_of_graph g))"

definition build_graph_response :: "raw_node list \<Rightarrow> graph_edge list \<Rightarrow> (rag_node list \<times> rag_edge list) res" where
  "build_graph_response nodes edges =
     bind_res (map_res rag_node_of nodes) (\<lambda>ns. bind_res (map_res rag_edge_of edges) (\<lambda>es. Inr (ns, es)))"

definition float_sum :: "float64 list \<Rightarrow> float64" where
  "float_sum xs = foldl (+) 0 xs"

definition compute_overall_confidence :: "provenance list \<Rightarrow> str option \<Rightarrow> float64" where
  "compute_overall_confidence ps answer =
     (if \<not> truthy_str answer then 0
      else if ps = [] then 0
      else (let top_scores = map pr_score (take 3 ps);
                avg_top_score = (if top_scores \<noteq> [] then float_sum top_scores / of_int64 (int (length top_scores)) else 0);
                count_factor = min (of_int64 (int (length ps)) / F 5) (F 1);
                cross_modal = length (filter (\<lambda>p. pr_source_type p = ''both'') ps);
                overlap_bonus = min (of_int64 (int cross_modal) * F 0.05) (F 0.15);
                confidence = (avg_top_score * F 0.7 + count_factor * F 0.2 + overlap_bonus) * F 1
            in py_round (min confidence (F 1)) 3))"

subsection \<open>The query\<close>

text \<open>Synthesis: any exception of the model leaves no answer; without context the fallback text.\<close>

definition synthesize :: "rag_env \<Rightarrow> rag_request \<Rightarrow> provenance list \<Rightarrow> str option" where
  "synthesize env r ps =
     (if ps \<noteq> []
      then (case rg_complete env (build_system_prompt (rq_query_text r) ps (rq_asset_id r))
                   (build_user_message (rq_query_text r) None) of
              Inl _ \<Rightarrow> None | Inr generated \<Rightarrow> Some generated)
      else Some fallback_no_context)"

text \<open>The citations of an answer; the model of a citation refuses a page it cannot read as an integer.\<close>

definition cited_sources :: "str list \<Rightarrow> str option \<Rightarrow> provenance list \<Rightarrow> citation list res" where
  "cited_sources unread answer ps =
     (if \<not> truthy_str answer then Inr []
      else if list_ex (\<lambda>p. pr_tag p \<in> set (extract_citation_tags (the answer)) \<and> truthy_str (pr_chunk_id p)
                  \<and> the (pr_chunk_id p) \<in> set unread) ps
      then Inl (ValidationError ''page_number'')
      else Inr (resolve_citations (the answer) ps))"

definition retrieve_for :: "rag_env \<Rightarrow> rag_request \<Rightarrow> retrieval" where
  "retrieve_for env r = retrieve (rg_search env (rq_query_text r) (rq_top_k r) (rq_min_score r)) (rg_repo env)
     (rq_query_text r) (rq_asset_id r) (rq_max_graph_hops r)"

text \<open>The node that the response model refuses does so after the model of the language has answered; its
  identifier or name may make the fusion or the citation engine raise before. In both cases the query
  fails, and the first of them is the one here.\<close>

definition rag_query :: "rag_env \<Rightarrow> rag_request \<Rightarrow> rag_response res" where
  "rag_query env r =
     (let ret = retrieve_for env r
      in bind_res (fuse (rg_rrf_k env) (rv_vector_hits ret) (rv_graph_hits ret) ''rrf''
                     (rg_max_context_chunks env) (F 0.6) (F 0.4)) (\<lambda>fused.
         let ps = build (fr_candidates fused);
             answer = synthesize env r ps
         in bind_res (build_graph_response (rv_graph_nodes_raw ret) (rv_graph_edges_raw ret)) (\<lambda>(nodes, edges).
            bind_res (cited_sources (rv_unread_pages ret) answer ps) (\<lambda>citations.
         Inr \<lparr>rr_answer = answer, rr_context_chunks = build_context_chunks fused,
           rr_graph_nodes = nodes, rr_graph_edges = edges,
           rr_citations = citations,
           rr_overall_confidence = compute_overall_confidence ps answer,
           rr_graph_nodes_expanded = length (rv_graph_nodes_raw ret),
           rr_vector_hits = length (rv_vector_hits ret),
           rr_query_embedding_model = (if rv_vector_hits ret \<noteq> [] then rg_embedding_model env else [])\<rparr>))))"


subsection \<open>Scores\<close>

lemma retrieved_graph:
  "list_all (\<lambda>h. gh_relevance_score h = F 0.8) (rv_graph_hits (retrieve search repo q a h))"
  "rv_graph_edges_raw (retrieve search repo q a h) = []"
proof -
  obtain st where "channel_inv st" "retrieve_graph repo q a h =
      \<lparr>gl_hits = map hit_of_node (typed_nodes (map snd (fst st))), gl_nodes_raw = map snd (fst st),
       gl_edges_raw = map snd (snd st)\<rparr>"
    by (rule retrieve_graph_state)
  then show "list_all (\<lambda>h. gh_relevance_score h = F 0.8) (rv_graph_hits (retrieve search repo q a h))"
    "rv_graph_edges_raw (retrieve search repo q a h) = []"
    by (auto simp: retrieve_def Let_def channel_inv_def list_all_iff hit_of_node_def)
qed

definition scored_ok :: "fusion_candidate \<Rightarrow> bool" where
  "scored_ok c \<longleftrightarrow> 0 \<le> max (fc_score_vector c) (fc_score_graph c)"

lemma candidates_scored:
  assumes "list_all (\<lambda>h. 0 \<le> gh_relevance_score h) gs"
  shows "dict_inv (\<lambda>i c. scored_ok c) (candidates_of vs gs)"
proof -
  let ?inv = "dict_inv (\<lambda>i c. scored_ok c) :: (str \<times> fusion_candidate) list \<Rightarrow> bool"
  have v: "?inv (foldl add_vector [] vs)"
    by (rule foldl_keeps [where P = ?inv])
      (simp_all add: add_vector_def candidate_of_vector_def dict_inv_update scored_ok_def le_max_iff_disj)
  have g: "?inv (add_graph d h)" if d: "?inv d" and h: "h \<in> set gs" for d h
  proof (cases "map_of d (gh_node_id h)")
    case None
    then show ?thesis using d by (simp add: add_graph_def candidate_of_graph_def dict_inv_update scored_ok_def le_max_iff_disj)
  next
    case (Some c)
    have "0 \<le> gh_relevance_score h" using assms h by (simp add: list_all_iff)
    then show ?thesis using Some d by (simp add: add_graph_def dict_inv_update scored_ok_def le_max_iff_disj)
  qed
  show ?thesis unfolding candidates_of_def by (rule foldl_keeps [where P = ?inv, OF v g])
qed

text \<open>Fusing by reciprocal ranks never raises; the candidates it keeps have a non-negative best score.\<close>

lemma fuse_rrf:
  assumes "list_all (\<lambda>h. 0 \<le> gh_relevance_score h) gs"
  obtains fused where "fuse k vs gs ''rrf'' n wv wg = Inr fused" "list_all scored_ok (fr_candidates fused)"
    "length (fr_candidates fused) \<le> n" "vs = [] \<and> gs = [] \<longrightarrow> fr_candidates fused = []"
proof -
  define d where "d = apply_rrf k vs gs (candidates_of vs gs)"
  have d: "list_all scored_ok (map snd d)"
    using candidates_scored [OF assms, of vs]
    by (auto simp: d_def apply_rrf_def Let_def list_all_iff scored_ok_def dict_inv_def split: option.splits prod.splits)
  show ?thesis
  proof (rule that)
    show "fuse k vs gs ''rrf'' n wv wg = Inr \<lparr>fr_candidates = take n (sorted_desc fc_rrf_score (map snd d)),
        fr_total_vector = length vs, fr_total_graph = length gs, fr_method = ''rrf'', fr_k = k\<rparr>"
      by (simp add: fuse_def d_def Let_def)
    have "list_all scored_ok (sorted_desc fc_rrf_score (map snd d))" using d by (simp add: list_all_iff)
    then show "list_all scored_ok (fr_candidates \<lparr>fr_candidates = take n (sorted_desc fc_rrf_score (map snd d)),
        fr_total_vector = length vs, fr_total_graph = length gs, fr_method = ''rrf'', fr_k = k\<rparr>)"
      by (simp add: list_all_take)
  qed (auto simp: d_def apply_rrf_def candidates_of_def)
qed

lemma float_sum_nonneg: "list_all (\<lambda>x. 0 \<le> x) xs \<Longrightarrow> 0 \<le> float_sum xs"
proof -
  have "0 \<le> foldl (+) a xs" if "list_all (\<lambda>x. 0 \<le> x) xs" "0 \<le> a" for a
    using that by (induction xs arbitrary: a) (simp_all add: f64_add_nonneg)
  then show "list_all (\<lambda>x. 0 \<le> x) xs \<Longrightarrow> 0 \<le> float_sum xs" by (simp add: float_sum_def)
qed

lemma of_int64_nonneg: "0 \<le> of_int64 (int n)"
  by (simp add: of_int64_def F_nonneg)

lemma min_nonneg: "0 \<le> a \<Longrightarrow> 0 \<le> b \<Longrightarrow> 0 \<le> min a (b :: float64)"
  by simp

lemma overall_confidence_unit:
  assumes "list_all (\<lambda>p. 0 \<le> pr_score p) ps"
  shows "0 \<le> compute_overall_confidence ps answer" "compute_overall_confidence ps answer \<le> 1"
proof -
  have avg: "0 \<le> float_sum (map pr_score (take 3 ps)) / of_int64 (int (length (map pr_score (take 3 ps))))"
    using list_all_take [OF assms, of 3]
    by (intro f64_divide_nonneg float_sum_nonneg of_int64_nonneg) (simp add: list_all_iff)
  then show "0 \<le> compute_overall_confidence ps answer"
    unfolding compute_overall_confidence_def Let_def
    by (auto intro!: py_round_nonneg min_nonneg f64_add_nonneg f64_mult_nonneg f64_divide_nonneg of_int64_nonneg F_nonneg)
  show "compute_overall_confidence ps answer \<le> 1"
    unfolding compute_overall_confidence_def Let_def by (auto intro: py_round_le_1)
qed

subsection \<open>The query answers soundly\<close>

text \<open>The context of a query: the sources of the candidates that the fusion keeps.\<close>

definition query_context :: "rag_env \<Rightarrow> rag_request \<Rightarrow> provenance list" where
  "query_context env r = (let ret = retrieve_for env r in
     case fuse (rg_rrf_k env) (rv_vector_hits ret) (rv_graph_hits ret) ''rrf'' (rg_max_context_chunks env) (F 0.6) (F 0.4) of
       Inl _ \<Rightarrow> [] | Inr fused \<Rightarrow> build (fr_candidates fused))"

text \<open>What the database and the search returned is as the response model takes it: every node has an
  identifier that is text and a name that is text or empty, every page reads as an integer.\<close>

definition readable :: "rag_env \<Rightarrow> rag_request \<Rightarrow> bool" where
  "readable env r \<longleftrightarrow> list_all (\<lambda>n. typed_node n \<noteq> None) (rv_graph_nodes_raw (retrieve_for env r))
     \<and> rv_unread_pages (retrieve_for env r) = []"

lemma map_rag_nodes:
  "(\<exists>e. map_res rag_node_of ns = Inl e) \<and> \<not> list_all (\<lambda>n. typed_node n \<noteq> None) ns
   \<or> map_res rag_node_of ns = Inr (map node_of_graph (typed_nodes ns)) \<and> list_all (\<lambda>n. typed_node n \<noteq> None) ns"
  by (induction ns) (auto simp: rag_node_of_def typed_nodes_def List.map_filter_simps split: option.splits)

lemma typed_nodes_Nil: "list_all (\<lambda>n. typed_node n \<noteq> None) ns \<Longrightarrow> typed_nodes ns = [] \<longleftrightarrow> ns = []"
  by (cases ns) (auto simp: typed_nodes_def List.map_filter_simps)

lemma cited_sources_cases:
  "cited_sources unread answer ps = Inr (if truthy_str answer then resolve_citations (the answer) ps else [])
   \<or> (\<exists>e. cited_sources unread answer ps = Inl e) \<and> unread \<noteq> []"
  by (cases "unread = []") (auto simp: cited_sources_def list_ex_iff)

text \<open>The response of the query, in terms of the fused candidates.\<close>

lemma rag_query_response:
  obtains (failed) e where "rag_query env r = Inl e" "\<not> readable env r"
  | (answered) cs resp where "rag_query env r = Inr resp" "query_context env r = build cs"
    "list_all scored_ok cs" "length cs \<le> rg_max_context_chunks env"
    "list_all (\<lambda>n. typed_node n \<noteq> None) (rv_graph_nodes_raw (retrieve_for env r))"
    "rr_answer resp = synthesize env r (build cs)" "length (rr_context_chunks resp) \<le> length cs"
    "rr_citations resp = (if truthy_str (rr_answer resp) then resolve_citations (the (rr_answer resp)) (build cs) else [])"
    "rr_overall_confidence resp = compute_overall_confidence (build cs) (rr_answer resp)"
    "rr_graph_edges resp = []" "rr_vector_hits resp = 0 \<and> rr_graph_nodes resp = [] \<longrightarrow> cs = []"
proof -
  define ret where "ret = retrieve_for env r"
  have hits: "list_all (\<lambda>h. 0 \<le> gh_relevance_score h) (rv_graph_hits ret)" "rv_graph_edges_raw ret = []"
    using retrieved_graph F_nonneg [of "0.8"] unfolding ret_def retrieve_for_def list_all_iff by auto
  have empty: "rv_graph_nodes_raw ret = [] \<Longrightarrow> rv_graph_hits ret = []"
  proof -
    obtain st where "channel_inv st" and "retrieve_graph (rg_repo env) (rq_query_text r) (rq_asset_id r) (rq_max_graph_hops r) =
      \<lparr>gl_hits = map hit_of_node (typed_nodes (map snd (fst st))), gl_nodes_raw = map snd (fst st),
       gl_edges_raw = map snd (snd st)\<rparr>"
      by (rule retrieve_graph_state)
    then show "rv_graph_nodes_raw ret = [] \<Longrightarrow> rv_graph_hits ret = []"
      by (simp add: ret_def retrieve_for_def retrieve_def Let_def typed_nodes_def List.map_filter_simps)
  qed
  obtain fused where fused: "fuse (rg_rrf_k env) (rv_vector_hits ret) (rv_graph_hits ret) ''rrf''
      (rg_max_context_chunks env) (F 0.6) (F 0.4) = Inr fused" "list_all scored_ok (fr_candidates fused)"
    "length (fr_candidates fused) \<le> rg_max_context_chunks env"
    "rv_vector_hits ret = [] \<and> rv_graph_hits ret = [] \<longrightarrow> fr_candidates fused = []"
    by (rule fuse_rrf [OF hits(1), where k = "rg_rrf_k env" and vs = "rv_vector_hits ret"
        and n = "rg_max_context_chunks env" and wv = "F 0.6" and wg = "F 0.4"])
  have chunks: "length (build_context_chunks fused) \<le> length (fr_candidates fused)"
    by (simp add: build_context_chunks_def List.map_filter_def)
  have ctx: "query_context env r = build (fr_candidates fused)"
    using fused(1) by (simp add: query_context_def ret_def Let_def)
  let ?ps = "build (fr_candidates fused)"
  let ?answer = "synthesize env r ?ps"
  consider (node) e where "map_res rag_node_of (rv_graph_nodes_raw ret) = Inl e" "\<not> readable env r"
    | (page) e where "cited_sources (rv_unread_pages ret) ?answer ?ps = Inl e" "\<not> readable env r"
    | (fine) "map_res rag_node_of (rv_graph_nodes_raw ret) = Inr (map node_of_graph (typed_nodes (rv_graph_nodes_raw ret)))"
      "list_all (\<lambda>n. typed_node n \<noteq> None) (rv_graph_nodes_raw ret)"
      "cited_sources (rv_unread_pages ret) ?answer ?ps = Inr (if truthy_str ?answer then resolve_citations (the ?answer) ?ps else [])"
    using map_rag_nodes [of "rv_graph_nodes_raw ret"] cited_sources_cases [of "rv_unread_pages ret" ?answer ?ps]
    unfolding readable_def ret_def by blast
  then show ?thesis
  proof cases
    case node
    then have "rag_query env r = Inl e" using fused(1)
      by (simp add: rag_query_def ret_def [symmetric] Let_def build_graph_response_def)
    then show ?thesis using failed node(2) by blast
  next
    case page
    then have "\<exists>e. rag_query env r = Inl e" using fused(1) map_rag_nodes [of "rv_graph_nodes_raw ret"]
      by (auto simp: rag_query_def ret_def [symmetric] Let_def build_graph_response_def hits(2))
    then show ?thesis using failed page(2) by blast
  next
    case fine
    show ?thesis
      by (rule answered [OF _ ctx fused(2,3) fine(2) [unfolded ret_def]])
        (use fused empty chunks fine typed_nodes_Nil [OF fine(2)] in
          \<open>auto simp: rag_query_def Let_def ret_def [symmetric] hits(2) build_graph_response_def\<close>)
  qed
qed

lemma build_scored: "list_all scored_ok cs \<Longrightarrow> list_all (\<lambda>p. 0 \<le> pr_score p) (build cs)"
  by (auto simp: list_all_length build_nth record_of_candidate_def scored_ok_def)

text \<open>C17. A query fails only on what the database and the search returned, and then with an error: some
  node has an identifier or a name that is not text, or some page does not read as an integer. An
  exception of the search, the database or the language model never makes it fail. When it answers,
  every node retrieved had text for its identifier and, if not empty, its name; there are at most the
  configured number of context chunks and a confidence between 0 and 1, which is 0 without an answer or
  without context; and the response never holds a graph edge.\<close>

theorem rag_query_total:
  "case rag_query env r of Inl _ \<Rightarrow> \<not> readable env r | Inr resp \<Rightarrow>
     list_all (\<lambda>n. typed_node n \<noteq> None) (rv_graph_nodes_raw (retrieve_for env r))
     \<and> length (rr_context_chunks resp) \<le> rg_max_context_chunks env
     \<and> 0 \<le> rr_overall_confidence resp \<and> rr_overall_confidence resp \<le> 1
     \<and> (truthy_str (rr_answer resp) \<or> rr_overall_confidence resp = 0)
     \<and> (0 < rr_vector_hits resp \<or> 0 < length (rr_graph_nodes resp) \<or> rr_overall_confidence resp = 0)
     \<and> rr_graph_edges resp = []"
proof (cases rule: rag_query_response [of env r])
  case (answered cs resp)
  then show ?thesis using overall_confidence_unit [OF build_scored [OF answered(3)]]
    by (auto simp: compute_overall_confidence_def)
qed simp

text \<open>C18. The answer is grounded. When a query answers, its context has at most the configured number of
  sources and is empty if nothing was retrieved. Without context the answer is the fallback text.
  With context the language model is asked with the prompt built from exactly this context and the
  message of the query: the answer is the text it returns, and there is none if it raises. The
  citations are those the tags of the answer resolve to in this context: no tag twice, each in
  the answer and numbered within the configured number, scored non-negatively; without context there
  are none.\<close>

theorem rag_query_grounded:
  "case rag_query env r of Inl _ \<Rightarrow> True | Inr resp \<Rightarrow>
     (let ps = query_context env r; ids = map ci_citation_id (rr_citations resp) in
       length ps \<le> rg_max_context_chunks env
       \<and> (if rr_vector_hits resp = 0 \<and> rr_graph_nodes resp = [] then ps = [] else True)
       \<and> rr_answer resp = (if ps = [] then Some fallback_no_context
           else case rg_complete env (build_system_prompt (rq_query_text r) ps (rq_asset_id r))
                       (build_user_message (rq_query_text r) None) of
                  Inl _ \<Rightarrow> None | Inr generated \<Rightarrow> Some generated)
       \<and> rr_citations resp = (case rr_answer resp of None \<Rightarrow> [] | Some a \<Rightarrow> resolve_citations a ps)
       \<and> (if ps = [] then rr_citations resp = [] else True)
       \<and> distinct ids
       \<and> (case rr_answer resp of None \<Rightarrow> ids = []
          | Some a \<Rightarrow> set ids \<subseteq> set (extract_citation_tags a) \<inter> set (map make_tag [1..<Suc (rg_max_context_chunks env)]))
       \<and> list_all (\<lambda>c. 0 \<le> ci_confidence_score c) (rr_citations resp))"
proof (cases rule: rag_query_response [of env r])
  case (answered cs resp)
  have ids: "distinct (map ci_citation_id (resolve_citations a (build cs)))"
    "set (map ci_citation_id (resolve_citations a (build cs)))
      \<subseteq> set (extract_citation_tags a) \<inter> set (map make_tag [1..<Suc (rg_max_context_chunks env)])" for a
    using answered(4) unfolding resolve_ids build_tags(1) by (auto simp: extract_distinct)
  have scores: "list_all (\<lambda>c. 0 \<le> ci_confidence_score c) (resolve_citations a (build cs))" for a
    using build_scored [OF answered(3)] by (auto simp: list_all_iff to_citation_def dest!: resolve_sources)
  have none: "resolve_citations a [] = []" for a
    using resolve_ids [of a "[]"] by simp
  have "resolve_citations [] (build cs) = []"
    using resolve_ids [of "[]" "build cs"] by (simp add: extract_citation_tags_def)
  then have cites: "rr_citations resp = (case rr_answer resp of None \<Rightarrow> [] | Some a \<Rightarrow> resolve_citations a (build cs))"
    using answered(8) by (cases "rr_answer resp") auto
  show ?thesis
    unfolding answered(1) sum.case Let_def answered(2) cites
    using answered(4,6,11) ids scores none
    by (auto simp: synthesize_def build_def split: option.splits)
qed simp

text \<open>One stored node with a number for its identifier, matched by a word of the query, is enough: no
  answer, although the language model had been asked, and whatever else was retrieved.\<close>

definition numbered_store :: reader where
  "numbered_store cypher params = Inr (if cypher = keyword_cypher ''Asset''
     then [[(''n'', VDict [(''id'', VInt 7), (''display_name'', VStr ''Seal'')])]] else [])"

definition numbered_env :: rag_env where
  "numbered_env = \<lparr>rg_search = \<lambda>_ _ _. Inr [], rg_repo = Some numbered_store, rg_complete = \<lambda>_ _. Inr ''ok'',
     rg_rrf_k = 8, rg_max_context_chunks = 12, rg_embedding_model = []\<rparr>"

lemma numeric_identifier_fails:
  "rag_query numbered_env \<lparr>rq_query_text = ''seal'', rq_top_k = 8, rq_min_score = 0, rq_max_graph_hops = 2, rq_asset_id = None\<rparr>
   = Inl (ValidationError ''string_type'')"
  by code_simp

end
