(* ===== verification/Payload_Compare.thy ===== *)
theory Payload_Compare
  imports PyVal "HOL-Library.Word"
begin

section \<open>The byte-identical relay\<close>

text \<open>
  \<open>iob-integration/gateway_app/payload_compare.py\<close> and \<open>transparent_proxy.py\<close>: the comparison of raw
  payloads and headers, the comparison of decoded mappings, and the relay that returns the upstream
  body unchanged. A byte is a word of 8 bits. The upstream call is a parameter.
\<close>

type_synonym byte = "8 word"

subsection \<open>Raw payloads\<close>

datatype payload_value = Raw "byte list" | Decoded str | NoPayload str

text \<open>\<open>str.encode("utf-8")\<close> for characters below 256: one byte, or a lead byte with the two high
  bits and a continuation byte with the six low bits.\<close>

definition utf8_char :: "char \<Rightarrow> byte list" where
  "utf8_char c =
     (let n = of_char c
      in if n < 128 then [word_of_nat n] else [word_of_nat (192 + n div 64), word_of_nat (128 + n mod 64)])"

definition utf8_encode :: "str \<Rightarrow> byte list" where
  "utf8_encode s = concat (map utf8_char s)"

fun to_bytes :: "payload_value \<Rightarrow> byte list res" where
  "to_bytes (Decoded s) = Inr (utf8_encode s)"
| "to_bytes (Raw b) = Inr b"
| "to_bytes (NoPayload t) = Inl (TypeErr (''compare_payloads expected bytes/str, got '' @ t))"

text \<open>The index loop: the first position below the shorter length where the bytes differ.\<close>

fun first_diff_from :: "int \<Rightarrow> byte list \<Rightarrow> byte list \<Rightarrow> int" where
  "first_diff_from i (x # xs) (y # ys) = (if x \<noteq> y then i else first_diff_from (i + 1) xs ys)"
| "first_diff_from i xs ys = - 1"

definition first_diff_offset :: "byte list \<Rightarrow> byte list \<Rightarrow> int" where
  "first_diff_offset a b = first_diff_from 0 a b"

text \<open>One body a strict prefix of the other: they diverge at the shorter length.\<close>

definition diff_offset :: "byte list \<Rightarrow> byte list \<Rightarrow> nat" where
  "diff_offset e a =
     (let found = first_diff_offset e a in if found = - 1 then min (length e) (length a) else nat found)"

definition hex_byte :: "byte \<Rightarrow> str" where
  "hex_byte w = [hex_digit (unat w div 16), hex_digit (unat w mod 16)]"

definition hex_window :: "byte list \<Rightarrow> nat \<Rightarrow> str" where
  "hex_window data offset =
     (let start = offset - 8; stop = min (length data) (offset + 8 + 1)
      in join '' '' (map hex_byte (drop start (take stop data))))"

record payload_comparison =
  pc_identical :: bool
  pc_expected_len :: nat
  pc_actual_len :: nat
  pc_first_diff_offset :: int
  pc_expected_window :: "str option"
  pc_actual_window :: "str option"
  pc_header_diffs :: "str list"

definition window_text :: "str option \<Rightarrow> str" where
  "window_text w = (case w of None \<Rightarrow> ''None'' | Some s \<Rightarrow> s)"

definition reason :: "payload_comparison \<Rightarrow> str" where
  "reason c =
     (if pc_identical c then ''byte-identical''
      else let parts =
          (if pc_expected_len c \<noteq> pc_actual_len c
           then [''length differs (expected '' @ str_nat (pc_expected_len c) @ '', got '' @ str_nat (pc_actual_len c) @ '')'']
           else [])
          @ (if 0 \<le> pc_first_diff_offset c
             then [''first byte diff at offset '' @ str_int (pc_first_diff_offset c) @ '': expected ['' @
                   window_text (pc_expected_window c) @ ''] got ['' @ window_text (pc_actual_window c) @ '']'']
             else [])
          @ (if pc_header_diffs c \<noteq> [] then [''header diffs: '' @ join ''; '' (pc_header_diffs c)] else [])
        in if parts \<noteq> [] then join ''; '' parts else ''not identical'')"

subsection \<open>Headers\<close>

definition ignored_headers :: "str list" where
  "ignored_headers = [''connection'', ''keep-alive'', ''proxy-authenticate'', ''proxy-authorization'',
     ''te'', ''trailers'', ''transfer-encoding'', ''upgrade'', ''host'', ''content-length'',
     ''date'', ''server'', ''via'']"

text \<open>A dictionary comprehension: names that agree in lower case overwrite each other.\<close>

definition norm_headers :: "(str \<times> str) list \<Rightarrow> (str \<times> str) list" where
  "norm_headers d = foldl (\<lambda>h (k, v). if py_lower k \<in> set ignored_headers then h
     else AList.update (py_lower k) v h) [] d"

definition header_diff :: "(str \<times> str) list \<Rightarrow> (str \<times> str) list \<Rightarrow> str \<Rightarrow> str list" where
  "header_diff e a key =
     (case (map_of e key, map_of a key) of
        (_, None) \<Rightarrow> [''missing header '' @ [CHR 0x27] @ key @ [CHR 0x27]]
      | (None, Some _) \<Rightarrow> [''unexpected header '' @ [CHR 0x27] @ key @ [CHR 0x27]]
      | (Some v, Some w) \<Rightarrow> if v \<noteq> w then [''header '' @ [CHR 0x27] @ key @ [CHR 0x27] @ '' value differs''] else [])"

definition compare_headers :: "(str \<times> str) list option \<Rightarrow> (str \<times> str) list option \<Rightarrow> str list" where
  "compare_headers expected actual =
     (if expected = None \<and> actual = None then []
      else let e = norm_headers (case expected of None \<Rightarrow> [] | Some h \<Rightarrow> h);
               a = norm_headers (case actual of None \<Rightarrow> [] | Some h \<Rightarrow> h)
           in concat (map (header_diff e a) (sorted_set (map fst e @ map fst a))))"

definition compare_payloads ::
  "payload_value \<Rightarrow> payload_value \<Rightarrow> (str \<times> str) list option \<Rightarrow> (str \<times> str) list option \<Rightarrow> payload_comparison res" where
  "compare_payloads expected actual headers_expected headers_actual =
     bind_res (to_bytes expected) (\<lambda>e. bind_res (to_bytes actual) (\<lambda>a.
     let header_diffs = compare_headers headers_expected headers_actual
     in if e = a
        then Inr \<lparr>pc_identical = (header_diffs = []), pc_expected_len = length e, pc_actual_len = length a,
          pc_first_diff_offset = - 1, pc_expected_window = None, pc_actual_window = None,
          pc_header_diffs = header_diffs\<rparr>
        else let offset = diff_offset e a
             in Inr \<lparr>pc_identical = False, pc_expected_len = length e, pc_actual_len = length a,
               pc_first_diff_offset = int offset, pc_expected_window = Some (hex_window e offset),
               pc_actual_window = Some (hex_window a offset), pc_header_diffs = header_diffs\<rparr>))"

definition assert_byte_identical ::
  "payload_value \<Rightarrow> payload_value \<Rightarrow> (str \<times> str) list option \<Rightarrow> (str \<times> str) list option \<Rightarrow> unit res" where
  "assert_byte_identical expected actual headers_expected headers_actual =
     bind_res (compare_payloads expected actual headers_expected headers_actual) (\<lambda>r.
     if pc_identical r then Inr () else Inl (AssertionErr (''relay not byte-identical: '' @ reason r)))"

subsection \<open>Decoded mappings\<close>

text \<open>Python's \<open>==\<close> on decoded JSON: booleans, integers and floats compare as numbers.\<close>

fun number_of :: "pyval \<Rightarrow> rat option" where
  "number_of (VBool b) = Some (if b then 1 else 0)"
| "number_of (VInt i) = Some (of_int i)"
| "number_of (VFloat x) = Some (val x)"
| "number_of v = None"

fun py_eq :: "pyval \<Rightarrow> pyval \<Rightarrow> bool" where
  "py_eq (VList xs) (VList ys) = list_all2 py_eq xs ys"
| "py_eq (VDict d) (VDict e) = (length d = length e \<and>
     list_all (\<lambda>(k, v). case map_of e k of None \<Rightarrow> False | Some w \<Rightarrow> py_eq v w) d)"
| "py_eq VNone VNone = True"
| "py_eq (VStr s) (VStr t) = (s = t)"
| "py_eq a b = (number_of a \<noteq> None \<and> number_of a = number_of b)"

fun type_name :: "pyval \<Rightarrow> str" where
  "type_name VNone = ''NoneType''"
| "type_name (VBool b) = ''bool''"
| "type_name (VInt i) = ''int''"
| "type_name (VFloat x) = ''float''"
| "type_name (VStr s) = ''str''"
| "type_name (VList xs) = ''list''"
| "type_name (VDict d) = ''dict''"

record matrix_row =
  mr_property :: str
  mr_direct_value :: pyval
  mr_direct_type :: str
  mr_gateway_value :: pyval
  mr_gateway_type :: str
  mr_byte_identical :: bool
  mr_category :: str
  mr_failure_reason :: str

definition missing_value :: pyval where
  "missing_value = VStr ''<<MISSING>>''"

definition matrix_row_of :: "str list \<Rightarrow> str \<Rightarrow> pyval option \<Rightarrow> pyval option \<Rightarrow> matrix_row" where
  "matrix_row_of volatile_keys key d r =
     (let d_val = (case d of None \<Rightarrow> missing_value | Some v \<Rightarrow> v);
          r_val = (case r of None \<Rightarrow> missing_value | Some v \<Rightarrow> v);
          type_match = (type_name d_val = type_name r_val);
          present_match = (d \<noteq> None \<and> r \<noteq> None);
          value_match = py_eq d_val r_val;
          volatile = (key \<in> set volatile_keys)
      in \<lparr>mr_property = key, mr_direct_value = d_val, mr_direct_type = type_name d_val,
          mr_gateway_value = r_val, mr_gateway_type = type_name r_val,
          mr_byte_identical = (present_match \<and> type_match \<and> (volatile \<or> value_match)),
          mr_category = (if volatile then ''volatile'' else ''stable''),
          mr_failure_reason =
            (if \<not> present_match then ''FIELD_ADDED_OR_DROPPED''
             else if \<not> type_match then ''TYPE_CAST_DRIFT''
             else if \<not> value_match \<and> \<not> volatile then ''VALUE_MISMATCH'' else [])\<rparr>)"

definition added_rows :: "str list \<Rightarrow> (str \<times> pyval) list \<Rightarrow> (str \<times> pyval) list \<Rightarrow> matrix_row list" where
  "added_rows volatile_keys direct relayed =
     map (\<lambda>(k, v). matrix_row_of volatile_keys k None (Some v)) (filter (\<lambda>(k, v). k \<notin> fst ` set direct) relayed)"

text \<open>The loop over the keys of \<open>direct\<close>; the keys only \<open>relayed\<close> has come last.\<close>

function compare_entries ::
  "str list \<Rightarrow> (str \<times> pyval) list \<Rightarrow> (str \<times> pyval) list \<Rightarrow> bool \<times> matrix_row list" where
  "compare_entries volatile_keys [] relayed = (True, [])"
| "compare_entries volatile_keys ((key, v) # direct) relayed =
     (let (ok, rows) =
        (case (v, map_of relayed key) of
           (VDict d_sub, Some (VDict r_sub)) \<Rightarrow>
             (let (sub_ok, sub_rows) = compare_entries volatile_keys d_sub r_sub;
                  extra = added_rows volatile_keys d_sub r_sub
              in (sub_ok \<and> list_all mr_byte_identical extra,
                  map (\<lambda>row. row\<lparr>mr_property := key @ ''.'' @ mr_property row\<rparr>) (sub_rows @ extra)))
         | (_, r) \<Rightarrow>
             (let row = matrix_row_of volatile_keys key (Some v) r in (mr_byte_identical row, [row])));
          (rest_ok, rest) = compare_entries volatile_keys direct relayed
      in (ok \<and> rest_ok, rows @ rest))"
  by pat_completeness auto
termination
  by (relation "measure (\<lambda>(_, d, _). size (VDict d))") auto

definition compare_mappings ::
  "str list \<Rightarrow> (str \<times> pyval) list \<Rightarrow> (str \<times> pyval) list \<Rightarrow> bool \<times> matrix_row list" where
  "compare_mappings volatile_keys direct relayed =
     (let (ok, rows) = compare_entries volatile_keys direct relayed;
          extra = added_rows volatile_keys direct relayed
      in (ok \<and> list_all mr_byte_identical extra, rows @ extra))"

subsection \<open>The relay\<close>

datatype http_outcome = Timeout | ConnectionFailed | Response int "pyval option" str

definition upstream_url :: "str \<Rightarrow> str \<Rightarrow> str" where
  "upstream_url base path = (if starts_with ''/api/v1'' path then base @ path else base @ ''/api/v1'' @ path)"

definition transparent_relay_enabled :: "str option \<Rightarrow> bool" where
  "transparent_relay_enabled flag =
     (py_lower (case flag of None \<Rightarrow> ''false'' | Some s \<Rightarrow> s) \<in> set [''1'', ''true'', ''yes'', ''on''])"

text \<open>\<open>Response status json text\<close>: the decoded body if it is JSON.\<close>

definition relay_passthrough ::
  "(str \<Rightarrow> str \<Rightarrow> (str \<times> pyval) list option \<Rightarrow> http_outcome) \<Rightarrow> str \<Rightarrow> str \<Rightarrow> str \<Rightarrow> (str \<times> pyval) list option \<Rightarrow> pyval option" where
  "relay_passthrough http base meth path json_body =
     (let sent = (case json_body of None \<Rightarrow> None | Some d \<Rightarrow> if d = [] then None else Some d)
      in case http (if py_upper meth = ''POST'' then ''POST'' else ''GET'') (upstream_url base path) sent of
           Timeout \<Rightarrow> None
         | ConnectionFailed \<Rightarrow> None
         | Response status body raw \<Rightarrow>
             (if 500 \<le> status then None
              else (case body of Some b \<Rightarrow> Some b
                | None \<Rightarrow> Some (VDict [(''_raw_text'', VStr raw), (''_status'', VInt status)]))))"


subsection \<open>Raw comparison\<close>

lemma utf8_char_append:
  assumes "utf8_char c @ r = utf8_char d @ s" shows "c = d \<and> r = s"
proof -
  define m n where "m = (of_char c :: nat)" and "n = (of_char d :: nat)"
  have b: "m < 256" "n < 256" unfolding m_def n_def by (rule nat_of_char_less_256)+
  have small: "unat (word_of_nat k :: byte) = k" if "k < 256" for k
    using that by (simp add: unsigned_of_nat take_bit_nat_eq_self)
  have lead: "192 + m div 64 < 256" "192 + n div 64 < 256" "128 + m mod 64 < 256" "128 + n mod 64 < 256"
    using b by auto
  have "m = n \<and> r = s"
  proof (cases "m < 128")
    case True
    then have "n < 128 \<and> (word_of_nat m :: byte) = word_of_nat n \<and> r = s"
    proof (cases "n < 128")
      case False
      then have "(word_of_nat m :: byte) = word_of_nat (192 + n div 64)"
        using assms True by (simp add: utf8_char_def m_def [symmetric] n_def [symmetric])
      then have "m = 192 + n div 64" using small [OF b(1)] small [OF lead(2)] by metis
      then show ?thesis using True by simp
    qed (use assms True in \<open>simp add: utf8_char_def m_def [symmetric] n_def [symmetric]\<close>)
    then show ?thesis using small [OF b(1)] small [OF b(2)] by metis
  next
    case False
    then have n: "\<not> n < 128"
    proof (rule contrapos_nn)
      assume n: "n < 128"
      then have "(word_of_nat n :: byte) = word_of_nat (192 + m div 64)"
        using assms False by (simp add: utf8_char_def m_def [symmetric] n_def [symmetric])
      then have "n = 192 + m div 64" using small [OF b(2)] small [OF lead(1)] by metis
      then show "m < 128" using n by simp
    qed
    then have eq: "(word_of_nat (192 + m div 64) :: byte) = word_of_nat (192 + n div 64)"
      "(word_of_nat (128 + m mod 64) :: byte) = word_of_nat (128 + n mod 64)" "r = s"
      using assms False by (simp_all add: utf8_char_def m_def [symmetric] n_def [symmetric])
    have "192 + m div 64 = 192 + n div 64" using eq(1) small [OF lead(1)] small [OF lead(2)] by metis
    moreover have "128 + m mod 64 = 128 + n mod 64" using eq(2) small [OF lead(3)] small [OF lead(4)] by metis
    ultimately have "m div 64 = n div 64" "m mod 64 = n mod 64" by simp_all
    then show ?thesis using eq(3) by (metis div_mult_mod_eq)
  qed
  then show ?thesis unfolding m_def n_def by (metis char_of_char)
qed

lemma utf8_char_nonempty: "utf8_char c \<noteq> []"
  by (simp add: utf8_char_def Let_def)

lemma utf8_encode_inj: "utf8_encode s = utf8_encode t \<longleftrightarrow> s = t"
proof
  show "utf8_encode s = utf8_encode t \<Longrightarrow> s = t"
  proof (induction s arbitrary: t)
    case Nil
    then show ?case by (cases t) (simp_all add: utf8_encode_def utf8_char_nonempty)
  next
    case (Cons c s)
    then obtain d t' where t: "t = d # t'"
      by (cases t) (simp_all add: utf8_encode_def utf8_char_nonempty)
    have "utf8_char c @ utf8_encode s = utf8_char d @ utf8_encode t'"
      using Cons.prems by (simp add: t utf8_encode_def)
    from utf8_char_append [OF this] show ?case using Cons.IH by (simp add: t)
  qed
qed simp

text \<open>The position the loop finds: the bodies agree before it and differ at it.\<close>

lemma first_diff_from_spec:
  "first_diff_from i xs ys = - 1 \<and> 0 \<le> i \<and> take (min (length xs) (length ys)) xs = take (min (length xs) (length ys)) ys
   \<or> (\<exists>k. first_diff_from i xs ys = i + int k \<and> k < min (length xs) (length ys) \<and> take k xs = take k ys \<and> xs ! k \<noteq> ys ! k)"
  if "0 \<le> i"
  using that
proof (induction i xs ys rule: first_diff_from.induct)
  case (1 i x xs y ys)
  show ?case
  proof (cases "x = y")
    case False
    then show ?thesis by (intro disjI2 exI [of _ 0]) simp
  next
    case True
    from "1.IH" [OF _ ] True "1.prems"
    have "first_diff_from (i + 1) xs ys = - 1 \<and> take (min (length xs) (length ys)) xs = take (min (length xs) (length ys)) ys
      \<or> (\<exists>k. first_diff_from (i + 1) xs ys = i + 1 + int k \<and> k < min (length xs) (length ys) \<and> take k xs = take k ys \<and> xs ! k \<noteq> ys ! k)"
      by auto
    then show ?thesis
    proof
      assume "\<exists>k. first_diff_from (i + 1) xs ys = i + 1 + int k \<and> k < min (length xs) (length ys) \<and> take k xs = take k ys \<and> xs ! k \<noteq> ys ! k"
      then obtain k where "first_diff_from (i + 1) xs ys = i + 1 + int k" "k < min (length xs) (length ys)"
        "take k xs = take k ys" "xs ! k \<noteq> ys ! k" by blast
      then show ?thesis using True by (intro disjI2 exI [of _ "Suc k"]) simp
    qed (use True "1.prems" in simp)
  qed
qed simp_all

lemma same_prefix_length: "take (min (length xs) (length ys)) xs = take (min (length xs) (length ys)) ys \<Longrightarrow>
   length xs = length ys \<Longrightarrow> xs = ys"
  by simp

lemma diff_offset_spec:
  assumes "e \<noteq> a"
  shows "take (diff_offset e a) e = take (diff_offset e a) a" "diff_offset e a \<le> length e" "diff_offset e a \<le> length a"
    and "if diff_offset e a < length e \<and> diff_offset e a < length a
      then e ! diff_offset e a \<noteq> a ! diff_offset e a else length e \<noteq> length a"
  using first_diff_from_spec [of 0 e a] same_prefix_length [of e a] assms
  by (auto simp: diff_offset_def first_diff_offset_def Let_def)

subsection \<open>Headers\<close>

lemma header_diff_Nil: "key \<in> fst ` set e \<union> fst ` set a \<Longrightarrow> header_diff e a key = [] \<longleftrightarrow> map_of e key = map_of a key"
  using map_of_eq_None_iff [of e key] map_of_eq_None_iff [of a key]
  by (auto simp: header_diff_def split: option.splits)

lemma compare_headers_Nil:
  "compare_headers (Some e) (Some a) = [] \<longleftrightarrow> map_of (norm_headers e) = map_of (norm_headers a)"
proof -
  let ?e = "norm_headers e" and ?a = "norm_headers a"
  have "compare_headers (Some e) (Some a) = [] \<longleftrightarrow>
      (\<forall>key \<in> fst ` set ?e \<union> fst ` set ?a. header_diff ?e ?a key = [])"
    by (simp add: compare_headers_def Let_def)
  also have "\<dots> \<longleftrightarrow> (\<forall>key \<in> fst ` set ?e \<union> fst ` set ?a. map_of ?e key = map_of ?a key)"
    using header_diff_Nil by blast
  also have "\<dots> \<longleftrightarrow> map_of ?e = map_of ?a"
    by (metis (no_types, opaque_lifting) UnCI ext map_of_eq_None_iff)
  finally show ?thesis .
qed

text \<open>The raw comparison is exact: a value that is no payload is a type error; otherwise the
  result is identical exactly if the bodies are equal and no header differs, and for different bodies
  the reported offset is the length of their common prefix. Texts compare as their encodings do,
  which are equal only for equal texts, and two header sets compare as the maps of their
  lower case names without the hop-by-hop ones.\<close>

theorem compare_payloads_exact:
  "(case (to_bytes expected, to_bytes actual) of
     (Inl err, _) \<Rightarrow> compare_payloads expected actual he ha = Inl err
   | (Inr _, Inl err) \<Rightarrow> compare_payloads expected actual he ha = Inl err
   | (Inr e, Inr a) \<Rightarrow> (case compare_payloads expected actual he ha of Inl _ \<Rightarrow> False | Inr c \<Rightarrow>
        (pc_identical c \<longleftrightarrow> e = a \<and> compare_headers he ha = []) \<and> pc_header_diffs c = compare_headers he ha
        \<and> (if e = a then pc_first_diff_offset c = - 1
           else let k = nat (pc_first_diff_offset c)
             in 0 \<le> pc_first_diff_offset c \<and> take k e = take k a \<and> k \<le> min (length e) (length a)
              \<and> (if k < min (length e) (length a) then e ! k \<noteq> a ! k else length e \<noteq> length a))))
   \<and> (to_bytes (Decoded s) = to_bytes (Decoded t) \<longleftrightarrow> s = t)
   \<and> (compare_headers (Some h) (Some g) = [] \<longleftrightarrow> map_of (norm_headers h) = map_of (norm_headers g))"
proof (intro conjI)
  show "to_bytes (Decoded s) = to_bytes (Decoded t) \<longleftrightarrow> s = t" by (simp add: utf8_encode_inj)
  show "compare_headers (Some h) (Some g) = [] \<longleftrightarrow> map_of (norm_headers h) = map_of (norm_headers g)"
    by (rule compare_headers_Nil)
  show "case (to_bytes expected, to_bytes actual) of
     (Inl err, _) \<Rightarrow> compare_payloads expected actual he ha = Inl err
   | (Inr _, Inl err) \<Rightarrow> compare_payloads expected actual he ha = Inl err
   | (Inr e, Inr a) \<Rightarrow> (case compare_payloads expected actual he ha of Inl _ \<Rightarrow> False | Inr c \<Rightarrow>
        (pc_identical c \<longleftrightarrow> e = a \<and> compare_headers he ha = []) \<and> pc_header_diffs c = compare_headers he ha
        \<and> (if e = a then pc_first_diff_offset c = - 1
           else let k = nat (pc_first_diff_offset c)
             in 0 \<le> pc_first_diff_offset c \<and> take k e = take k a \<and> k \<le> min (length e) (length a)
              \<and> (if k < min (length e) (length a) then e ! k \<noteq> a ! k else length e \<noteq> length a)))"
    using diff_offset_spec by (cases "to_bytes expected"; cases "to_bytes actual")
      (auto simp: compare_payloads_def Let_def)
qed

subsection \<open>Decoded comparison\<close>

text \<open>What the comparison of decoded JSON objects looks for: the same keys, and under each key either
  two objects that agree in this sense, or two values of one type that Python holds equal, where a
  volatile key needs the type only. Python's equality is all that is asked inside a list.\<close>

function same_member :: "str list \<Rightarrow> str \<Rightarrow> pyval \<Rightarrow> pyval \<Rightarrow> bool" where
  "same_member volatile_keys key (VDict d) (VDict r) =
     (fst ` set d = fst ` set r
      \<and> list_all (\<lambda>(k, v). case map_of r k of None \<Rightarrow> False | Some w \<Rightarrow> same_member volatile_keys k v w) d)"
| "\<not> (\<exists>d r. a = VDict d \<and> b = VDict r) \<Longrightarrow> same_member volatile_keys key a b =
     (type_name a = type_name b \<and> (key \<in> set volatile_keys \<or> py_eq a b))"
  by (auto, metis)
termination
  by (relation "measure (\<lambda>(_, _, a, _). size a)") (auto simp: less_Suc_eq_le intro: size_list_estimation')

lemma matrix_row_of_ok:
  "mr_byte_identical (matrix_row_of volatile_keys key (Some v) None) = False"
  "mr_byte_identical (matrix_row_of volatile_keys key None r) = False"
  "mr_byte_identical (matrix_row_of volatile_keys key (Some v) (Some w)) =
     (type_name v = type_name w \<and> (key \<in> set volatile_keys \<or> py_eq v w))"
  by (simp_all add: matrix_row_of_def Let_def)

lemma added_rows_ok: "list_all mr_byte_identical (added_rows volatile_keys d r) \<longleftrightarrow> fst ` set r \<subseteq> fst ` set d"
  by (force simp: added_rows_def list_all_iff matrix_row_of_ok)

lemma renamed_rows_ok:
  "list_all mr_byte_identical (map (\<lambda>row. row\<lparr>mr_property := f row\<rparr>) rows) = list_all mr_byte_identical rows"
  by (simp add: list_all_iff)

lemma compare_entries_rows:
  "fst (compare_entries volatile_keys d r) = list_all mr_byte_identical (snd (compare_entries volatile_keys d r))"
proof (induction volatile_keys d r rule: compare_entries.induct)
  case (2 volatile_keys key v direct relayed)
  then show ?case
    by (auto simp: renamed_rows_ok case_prod_beta Let_def split: pyval.splits option.splits)
qed simp

lemma lookups_subset:
  assumes "list_all (\<lambda>(k, v). case map_of r k of None \<Rightarrow> False | Some w \<Rightarrow> P k v w) d"
  shows "fst ` set d \<subseteq> fst ` set r"
proof
  fix k assume "k \<in> fst ` set d"
  then obtain w where "map_of r k = Some w" using assms by (auto simp: list_all_iff split: option.splits)
  then show "k \<in> fst ` set r" by (metis map_of_SomeD key_in_image)
qed

lemma compare_entries_same:
  "fst (compare_entries volatile_keys d r) =
   list_all (\<lambda>(k, v). case map_of r k of None \<Rightarrow> False | Some w \<Rightarrow> same_member volatile_keys k v w) d"
proof (induction volatile_keys d r rule: compare_entries.induct)
  case (2 volatile_keys key v direct relayed)
  show ?case
  proof (cases "map_of relayed key")
    case None
    then show ?thesis by (cases v) (simp_all add: case_prod_beta Let_def matrix_row_of_ok)
  next
    case (Some w)
    note rest = "2.IH"(2)
    show ?thesis
    proof (cases "\<exists>d r. v = VDict d \<and> w = VDict r")
      case True
      then obtain d r where vw: "v = VDict d" "w = VDict r" by blast
      have "fst (compare_entries volatile_keys d r) =
          list_all (\<lambda>(k, v). case map_of r k of None \<Rightarrow> False | Some w \<Rightarrow> same_member volatile_keys k v w) d"
        using "2.IH"(1) Some vw by simp
      then show ?thesis using Some vw rest lookups_subset [of "same_member volatile_keys" r d]
        by (auto simp: case_prod_beta Let_def added_rows_ok)
    next
      case False
      then show ?thesis using Some rest
        by (cases v; cases w) (auto simp: case_prod_beta Let_def matrix_row_of_ok)
    qed
  qed
qed simp

text \<open>C19. The comparison of decoded objects is exact for what it looks for, whatever keys are volatile. Two
  objects pass exactly when, member by member through the objects nested in them, they have the same
  keys and, under a key that does not hold two objects, values of the same type that are equal for
  Python (under a volatile key only the type counts). It is strict on the members of objects only: of
  two lists it asks Python's equality and nothing about the types inside. The verdict is that every
  row of the report is identical.\<close>

theorem compare_mappings_strict:
  "fst (compare_mappings volatile_keys direct relayed) = same_member volatile_keys [] (VDict direct) (VDict relayed)
   \<and> fst (compare_mappings volatile_keys direct relayed)
     = list_all mr_byte_identical (snd (compare_mappings volatile_keys direct relayed))
   \<and> fst (compare_mappings [] [(key, VList xs)] [(key, VList ys)]) = list_all2 py_eq xs ys"
proof (intro conjI)
  show "fst (compare_mappings volatile_keys direct relayed) = same_member volatile_keys [] (VDict direct) (VDict relayed)"
    using lookups_subset [of "same_member volatile_keys" relayed direct]
    by (auto simp: compare_mappings_def case_prod_beta Let_def compare_entries_same added_rows_ok)
  show "fst (compare_mappings volatile_keys direct relayed)
     = list_all mr_byte_identical (snd (compare_mappings volatile_keys direct relayed))"
    by (simp add: compare_mappings_def case_prod_beta Let_def compare_entries_rows)
  show "fst (compare_mappings [] [(key, VList xs)] [(key, VList ys)]) = list_all2 py_eq xs ys"
    by (simp add: compare_mappings_def case_prod_beta Let_def added_rows_def matrix_row_of_ok)
qed

text \<open>Inside a list only Python's equality is checked: a change of type there goes unnoticed.\<close>

theorem list_type_drift_unnoticed:
  "compare_mappings [] [(''flags'', VList [VInt 1])] [(''flags'', VList [VBool True])] =
     (True, [matrix_row_of [] ''flags'' (Some (VList [VInt 1])) (Some (VList [VBool True]))])"
  by (simp add: compare_mappings_def added_rows_def matrix_row_of_def)

text \<open>The relay hands on a decoded body untouched.\<close>

lemma relay_untouched:
  "http (if py_upper m = ''POST'' then ''POST'' else ''GET'') (upstream_url base path)
     (case body of None \<Rightarrow> None | Some d \<Rightarrow> if d = [] then None else Some d) = Response st (Some b) raw \<Longrightarrow> st < 500 \<Longrightarrow>
   relay_passthrough http base m path body = Some b"
  by (simp add: relay_passthrough_def)

end
