(* ===== verification/Gateway.thy ===== *)
theory Gateway
  imports Payload_Compare
begin

section \<open>The integration gateway\<close>

text \<open>
  \<open>iob-integration/gateway_app\<close>: the in-memory store (\<open>store.py\<close>) with its tokens and alerts as a
  state machine, authentication, the local risk heuristic and the predictive endpoint
  (\<open>main.py\<close>, \<open>models.py\<close>). The upstream call is a parameter; identifiers and time stamps are
  arguments. The lock of the store makes each operation one step.
\<close>

subsection \<open>The store\<close>

record alert =
  al_id :: str
  al_alert_id :: str
  al_asset_id :: str
  al_metric :: str
  al_value :: float64
  al_severity :: str
  al_status :: str
  al_acknowledged :: bool
  al_timestamp :: str
  al_created_at :: str
  al_message :: str
  al_description :: str
  al_resolved :: "bool option"
  al_resolved_at :: "str option"

record gateway_store =
  gs_tokens :: "str list"
  gs_alerts :: "alert list"
  gs_simulator_live :: bool

definition initial_store :: gateway_store where
  "initial_store = \<lparr>gs_tokens = [], gs_alerts = [], gs_simulator_live = True\<rparr>"

definition add_token :: "str \<Rightarrow> gateway_store \<Rightarrow> gateway_store" where
  "add_token t s = s\<lparr>gs_tokens := List.insert t (gs_tokens s)\<rparr>"

definition is_valid_token :: "str \<Rightarrow> gateway_store \<Rightarrow> bool" where
  "is_valid_token t s = (if t = [] then False else t \<in> set (gs_tokens s) \<or> 10 < length t)"

definition new_alert :: "str \<Rightarrow> str \<Rightarrow> str \<Rightarrow> str \<Rightarrow> str \<Rightarrow> str \<Rightarrow> float64 \<Rightarrow> alert" where
  "new_alert i alert_id now created asset_id metric v = \<lparr>al_id = i, al_alert_id = alert_id, al_asset_id = asset_id,
     al_metric = metric, al_value = v, al_severity = ''CRITICAL'', al_status = ''ACTIVE'', al_acknowledged = False,
     al_timestamp = now, al_created_at = created, al_message = ''Critical tripwire: '' @ metric @ ''='' @ repr_float v @ '' on '' @ asset_id,
     al_description = ''Bearing temperature critical threshold breached '' @ repr_float v @ [CHR 0xB0, CHR ''C''],
     al_resolved = None, al_resolved_at = None\<rparr>"

definition inject_alert ::
  "str \<Rightarrow> str \<Rightarrow> str \<Rightarrow> str \<Rightarrow> str \<Rightarrow> str \<Rightarrow> float64 \<Rightarrow> gateway_store \<Rightarrow> alert \<times> gateway_store" where
  "inject_alert i alert_id now created asset_id metric v s =
     (let a = new_alert i alert_id now created asset_id metric v in (a, s\<lparr>gs_alerts := gs_alerts s @ [a]\<rparr>))"

definition is_active :: "alert \<Rightarrow> bool" where
  "is_active a \<longleftrightarrow> al_status a \<noteq> ''RESOLVED'' \<and> al_status a \<noteq> ''CLOSED''"

definition get_active_alerts :: "gateway_store \<Rightarrow> alert list" where
  "get_active_alerts s = filter is_active (gs_alerts s)"

definition alert_matches :: "str option \<Rightarrow> str option \<Rightarrow> alert \<Rightarrow> bool" where
  "alert_matches alert_id asset_id a \<longleftrightarrow>
     (\<not> truthy_str alert_id \<or> alert_id = Some (al_id a) \<or> alert_id = Some (al_alert_id a))
     \<and> (\<not> truthy_str asset_id \<or> asset_id = Some (al_asset_id a))"

definition resolved :: "str \<Rightarrow> alert \<Rightarrow> alert" where
  "resolved now a = a\<lparr>al_status := ''RESOLVED'', al_resolved := Some True, al_resolved_at := Some now\<rparr>"

fun resolve_loop :: "(alert \<Rightarrow> bool) \<Rightarrow> str \<Rightarrow> alert list \<Rightarrow> alert list \<times> alert list" where
  "resolve_loop matches now [] = ([], [])"
| "resolve_loop matches now (a # alerts) =
     (case resolve_loop matches now alerts of (finished, kept) \<Rightarrow>
        if matches a \<and> is_active a then (resolved now a # finished, resolved now a # kept) else (finished, a # kept))"

definition resolve_alerts :: "str option \<Rightarrow> str option \<Rightarrow> str \<Rightarrow> gateway_store \<Rightarrow> alert list \<times> gateway_store" where
  "resolve_alerts alert_id asset_id now s =
     (case resolve_loop (alert_matches alert_id asset_id) now (gs_alerts s) of
        (finished, alerts) \<Rightarrow> (finished, s\<lparr>gs_alerts := alerts\<rparr>))"

definition set_simulator_live :: "bool \<Rightarrow> gateway_store \<Rightarrow> gateway_store" where
  "set_simulator_live live s = s\<lparr>gs_simulator_live := live\<rparr>"

definition clear_alerts :: "gateway_store \<Rightarrow> gateway_store" where
  "clear_alerts s = s\<lparr>gs_alerts := []\<rparr>"

text \<open>Any interleaving of the operations, each atomic under the lock.\<close>

inductive store_step :: "gateway_store \<Rightarrow> gateway_store \<Rightarrow> bool" where
  step_token: "store_step s (add_token t s)"
| step_inject: "store_step s (snd (inject_alert i alert_id now created asset_id metric v s))"
| step_resolve: "store_step s (snd (resolve_alerts alert_id asset_id now s))"
| step_live: "store_step s (set_simulator_live live s)"
| step_clear: "store_step s (clear_alerts s)"

inductive store_reaches :: "gateway_store \<Rightarrow> bool" where
  reaches_initial: "store_reaches initial_store"
| reaches_step: "store_reaches s \<Longrightarrow> store_step s s' \<Longrightarrow> store_reaches s'"

inductive_cases store_stepE: "store_step s s'"

subsection \<open>Authentication\<close>

datatype http_error = HTTPException int str

definition login :: "str \<Rightarrow> str \<Rightarrow> str \<Rightarrow> gateway_store \<Rightarrow> http_error + (str \<times> gateway_store)" where
  "login uuid_hex username password s =
     (if username = ''demo_operator'' \<and> password = ''secure_password_2026''
      then let token = ''iob_demo_'' @ uuid_hex in Inr (token, add_token token s)
      else if 6 \<le> length password
      then let token = ''iob_'' @ uuid_hex in Inr (token, add_token token s)
      else Inl (HTTPException 401 ''Invalid credentials''))"

text \<open>\<open>str.split()\<close>: the maximal runs of other characters than blanks.\<close>

function split_blanks :: "str \<Rightarrow> str list" where
  "split_blanks s =
     (case dropWhile is_space s of [] \<Rightarrow> []
      | c # cs \<Rightarrow> (c # takeWhile (\<lambda>d. \<not> is_space d) cs) # split_blanks (dropWhile (\<lambda>d. \<not> is_space d) cs))"
  by pat_completeness auto
termination
proof (relation "measure length")
  fix s c cs assume "dropWhile is_space s = c # cs"
  then have "length (c # cs) \<le> length s" by (metis length_dropWhile_le)
  then show "(dropWhile (\<lambda>d. \<not> is_space d) cs, s) \<in> measure length"
    using length_dropWhile_le [of "\<lambda>d. \<not> is_space d" cs] by simp
qed simp

declare split_blanks.simps [simp del]

definition extract_token :: "str option \<Rightarrow> gateway_store \<Rightarrow> http_error + str" where
  "extract_token authorization s =
     (if \<not> truthy_str authorization then Inl (HTTPException 401 ''Missing Authorization header'')
      else let header = the authorization; parts = split_blanks header;
               token = (if length parts = 2 \<and> py_lower (parts ! 0) = ''bearer'' then parts ! 1 else header)
           in if \<not> is_valid_token token s \<and> length token < 10 then Inl (HTTPException 401 ''Invalid token'')
              else Inr token)"

subsection \<open>The risk heuristic\<close>

definition feature_vibration :: "(str \<times> float64) list \<Rightarrow> float64" where
  "feature_vibration features = dict_default features ''vibration'' (dict_default features ''vibration_rms'' (F 2))"

definition feature_temperature :: "(str \<times> float64) list \<Rightarrow> float64" where
  "feature_temperature features =
     (case map_of features ''bearing_temperature'' of Some t \<Rightarrow> t
      | None \<Rightarrow> dict_default features ''temperature''
          (dict_default features ''bearing_temp'' (dict_default features ''bearing_temperature'' (F 70))))"

definition risk_base :: "float64 \<Rightarrow> float64 \<Rightarrow> float64" where
  "risk_base vib temp =
     min (F 1) (max (F 0) ((vib - F 1) / F 7)) * F 0.55 + min (F 1) (max (F 0) ((temp - F 60) / F 60)) * F 0.45"

definition risk_boosted :: "float64 \<Rightarrow> float64 \<Rightarrow> float64" where
  "risk_boosted vib temp =
     (let risk = risk_base vib temp
      in if F 4 < vib \<and> F 85 < temp then min (F 0.97) (risk + F 0.25)
         else if F 3 < vib \<or> F 80 < temp then min (F 0.95) (risk + F 0.12) else risk)"

definition compute_risk_score :: "(str \<times> float64) list \<Rightarrow> float64" where
  "compute_risk_score features =
     py_round (max (F 0.05) (risk_boosted (feature_vibration features) (feature_temperature features))) 4"

subsection \<open>The predictive endpoint\<close>

record infer_body =
  ib_asset_id :: str
  ib_features :: "(str \<times> float64) list option"
  ib_vibration :: "float64 option"
  ib_temperature :: "float64 option"
  ib_history :: "pyval option"
  ib_component_id :: "str option"
  ib_horizon_hours :: int
  ib_extra :: "(str \<times> pyval) list"

text \<open>\<open>getattr(body, k)\<close>: a declared field or an extra one; \<open>None\<close> counts as absent.\<close>

definition body_attr :: "infer_body \<Rightarrow> str \<Rightarrow> pyval" where
  "body_attr b k =
     (if k = ''vibration'' then (case ib_vibration b of Some x \<Rightarrow> VFloat x | None \<Rightarrow> VNone)
      else if k = ''temperature'' then (case ib_temperature b of Some x \<Rightarrow> VFloat x | None \<Rightarrow> VNone)
      else dict_default (ib_extra b) k VNone)"

fun attr_features :: "infer_body \<Rightarrow> str list \<Rightarrow> (str \<times> float64) list \<Rightarrow> (str \<times> float64) list res" where
  "attr_features b [] d = Inr d"
| "attr_features b (k # ks) d =
     (if body_attr b k = VNone then attr_features b ks d
      else bind_res (to_float (body_attr b k)) (\<lambda>x. attr_features b ks (AList.update k x d)))"

text \<open>\<open>isinstance(v, (int, float))\<close>, which a boolean satisfies.\<close>

fun extra_features :: "(str \<times> pyval) list \<Rightarrow> (str \<times> float64) list \<Rightarrow> (str \<times> float64) list" where
  "extra_features [] d = d"
| "extra_features ((k, v) # vs) d =
     extra_features vs (case v of
         VBool b \<Rightarrow> if k = ''horizon_hours'' then d else AList.update k (if b then 1 else 0) d
       | VInt i \<Rightarrow> if k = ''horizon_hours'' then d else AList.update k (of_int64 i) d
       | VFloat x \<Rightarrow> if k = ''horizon_hours'' then d else AList.update k x d
       | _ \<Rightarrow> d)"

text \<open>The third attempt of the code scans \<open>model_dump()\<close> for numbers when the two loops found none;
  the numbers of a dump are those of the two loops, so it finds none either.\<close>

definition infer_features :: "infer_body \<Rightarrow> (str \<times> float64) list res" where
  "infer_features b =
     (case ib_features b of
        Some (f # fs) \<Rightarrow> Inr (f # fs)
      | _ \<Rightarrow> bind_res (attr_features b
            [''vibration'', ''temperature'', ''bearing_temperature'', ''bearing_temp'', ''pressure'', ''rpm''] []) (\<lambda>d.
          let found = extra_features (ib_extra b) d
          in Inr (if found = [] then [(''vibration'', F 4.2), (''temperature'', F 92.5)] else found)))"

text \<open>One reading of the clock stands for those of one request.\<close>

record gateway_env =
  ge_now :: str
  ge_uuid :: str
  ge_explanation_uuid :: str
  ge_ai_service_url :: str
  ge_fallback :: bool
  ge_strict_degrade :: bool

definition ai_unavailable_message :: str where
  "ai_unavailable_message = ''Advanced analytics and AI chat are temporarily offline. '' @
     ''Local rule-based telemetry monitoring remains operational.''"

definition ai_unavailable_envelope :: "gateway_env \<Rightarrow> str \<Rightarrow> pyval" where
  "ai_unavailable_envelope env endpoint = VDict [(''success'', VBool False), (''status'', VStr ''AI_UNAVAILABLE''),
     (''ui_message'', VStr ai_unavailable_message),
     (''data'', VDict [(''status'', VStr ''AI_UNAVAILABLE''), (''ui_message'', VStr ai_unavailable_message),
       (''endpoint'', VStr endpoint), (''generated_at'', VStr (ge_now env))]),
     (''error'', VNone), (''request_id'', VStr (ge_uuid env)), (''generated_at'', VStr (ge_now env))]"

text \<open>\<open>_try_proxy_ai\<close>: \<open>None\<close> when the call fails or the status is 500 or more.\<close>

type_synonym http = "str \<Rightarrow> str \<Rightarrow> pyval \<Rightarrow> http_outcome"

definition rstrip_slash :: "str \<Rightarrow> str" where
  "rstrip_slash s = rev (dropWhile (\<lambda>c. c = CHR ''/'') (rev s))"

definition try_proxy_ai :: "gateway_env \<Rightarrow> http \<Rightarrow> str \<Rightarrow> str \<Rightarrow> pyval \<Rightarrow> pyval" where
  "try_proxy_ai env http meth path json_body =
     (case http (if py_upper meth = ''POST'' then ''POST'' else ''GET'')
             (rstrip_slash (ge_ai_service_url env) @ ''/api/v1'' @ path) json_body of
        Response status body raw \<Rightarrow>
          (if status < 500 then (case body of Some b \<Rightarrow> b | None \<Rightarrow> VDict [(''raw'', VStr raw), (''status'', VInt status)])
           else VNone)
      | _ \<Rightarrow> VNone)"

definition opt_or :: "str option \<Rightarrow> str \<Rightarrow> pyval" where
  "opt_or x dflt = VStr (if truthy_str x then the x else dflt)"

definition reading :: "str \<Rightarrow> str \<Rightarrow> float64 \<Rightarrow> str \<Rightarrow> float64 \<Rightarrow> pyval" where
  "reading sensor_id metric v unit quality = VDict [(''sensor_id'', VStr sensor_id), (''metric'', VStr metric),
     (''value'', VFloat v), (''unit'', VStr unit), (''quality'', VFloat quality)]"

definition synthetic_history :: "gateway_env \<Rightarrow> infer_body \<Rightarrow> (str \<times> float64) list \<Rightarrow> pyval" where
  "synthetic_history env b features = VList [VDict [(''schema_version'', VStr ''1.0.0''), (''asset_id'', VStr (ib_asset_id b)),
     (''component_id'', opt_or (ib_component_id b) ''bearing''), (''timestamp'', VStr (ge_now env)),
     (''readings'', VList
       [reading ''vib-sensor-1'' ''vibration_rms'' (dict_default features ''vibration'' (F 4.2)) ''mm/s'' (F 0.98),
        reading ''temp-sensor-1'' ''bearing_temp'' (dict_default features ''temperature'' (F 92.5)) ''C'' (F 0.97)]),
     (''operating_mode'', VStr ''RUNNING''), (''metadata'', VDict [])]]"

definition infer_request :: "gateway_env \<Rightarrow> infer_body \<Rightarrow> (str \<times> float64) list \<Rightarrow> pyval" where
  "infer_request env b features = VDict [(''asset_id'', VStr (ib_asset_id b)),
     (''component_id'', opt_or (ib_component_id b) ''component-1''),
     (''history'', py_or (case ib_history b of None \<Rightarrow> VNone | Some h \<Rightarrow> h) (synthetic_history env b features)),
     (''horizon_hours'', VInt (ib_horizon_hours b))]"

definition standalone_payload :: "gateway_env \<Rightarrow> infer_body \<Rightarrow> float64 \<Rightarrow> bool \<Rightarrow> pyval" where
  "standalone_payload env b risk fallback_used =
     (let days = (\<lambda>floor_days span. VFloat (py_round (max floor_days ((F 1 - risk) * span)) 2)); high = (F 0.6 < risk)
      in VDict [(''asset_id'', VStr (ib_asset_id b)),
        (''component_id'', case ib_component_id b of None \<Rightarrow> VNone | Some c \<Rightarrow> VStr c),
        (''risk_score'', VFloat risk), (''failure_probability'', VFloat risk),
        (''rul'', VDict [(''value_days'', days (F 1) (F 60)), (''lower_bound_days'', days (F 0.5) (F 40)),
          (''upper_bound_days'', days (F 2) (F 80)), (''confidence_level'', VFloat (F 0.9)),
          (''model_name'', VStr ''xgboost_rul_v1''), (''model_version'', VStr ''1.0.0'')]),
        (''failure_probability_detail'', VDict [(''probability'', VFloat risk),
          (''failure_mode_id'', if high then VStr ''failuremode-bearing-overheat'' else VNone),
          (''failure_mode_label'', VStr (if high then ''Bearing Overheat'' else ''Normal Operation'')),
          (''model_name'', VStr ''xgboost_failure_classifier_v1'')]),
        (''anomaly_flags'', VList [VDict [(''sensor_id'', VStr ''vib-sensor-1''), (''metric'', VStr ''vibration_rms''),
          (''anomaly_score'', VFloat (if high then - F 0.12 else F 0.08)), (''is_anomalous'', VBool high),
          (''severity'', VStr (if F 0.7 < risk then ''HIGH'' else ''LOW''))]]),
        (''explanation_id'', VStr (ge_explanation_uuid env)), (''inference_latency_ms'', VFloat (F 18.4)),
        (''generated_at'', VStr (ge_now env)), (''fallback_used'', VBool fallback_used)])"

text \<open>\<open>d.setdefault(k, v)\<close>, and the mutation of an upstream answer.\<close>

definition set_default :: "str \<Rightarrow> pyval \<Rightarrow> (str \<times> pyval) list \<Rightarrow> (str \<times> pyval) list" where
  "set_default k v d = (if k \<in> fst ` set d then d else d @ [(k, v)])"

definition merge_proxy :: "float64 \<Rightarrow> (str \<times> pyval) list \<Rightarrow> (str \<times> pyval) list option" where
  "merge_proxy risk p =
     (let data = dict_default p ''data'' VNone;
          p1 = (if truthy data
                then (case data of VDict d \<Rightarrow>
                    AList.update ''data'' (VDict (set_default ''failure_probability'' (VFloat risk)
                      (set_default ''risk_score'' (VFloat risk) d))) p
                  | _ \<Rightarrow> p)
                else set_default ''risk_score'' (VFloat risk) p)
      in if ''data'' \<in> fst ` set p1
         then let p2 = (case dict_default p1 ''data'' VNone of
                  VDict d \<Rightarrow> AList.update ''data'' (VDict (AList.update ''risk_score'' (VFloat risk) d)) p1 | _ \<Rightarrow> p1)
              in Some (AList.update ''risk_score'' (VFloat risk) p2)
         else None)"

definition standalone_answer :: "gateway_env \<Rightarrow> infer_body \<Rightarrow> float64 \<Rightarrow> bool \<Rightarrow> pyval" where
  "standalone_answer env b risk fallback_used = VDict [(''success'', VBool True),
     (''data'', standalone_payload env b risk fallback_used), (''risk_score'', VFloat risk),
     (''request_id'', VStr (ge_uuid env)), (''generated_at'', VStr (ge_now env)), (''error'', VNone)]"

definition predictive_infer :: "gateway_env \<Rightarrow> http \<Rightarrow> bool \<Rightarrow> infer_body \<Rightarrow> pyval res" where
  "predictive_infer env http force_unavailable b =
     (if force_unavailable then Inr (ai_unavailable_envelope env ''predictive'')
      else bind_res (infer_features b) (\<lambda>features.
        let risk = compute_risk_score features;
            proxy = try_proxy_ai env http ''POST'' ''/predictive/infer'' (infer_request env b features)
        in if proxy = VNone \<and> (ge_strict_degrade env \<or> \<not> ge_fallback env)
           then Inr (ai_unavailable_envelope env ''predictive'')
           else let standalone = standalone_answer env b risk (proxy = VNone)
                in Inr (case proxy of
                     VDict p \<Rightarrow> if p = [] then standalone
                       else (case merge_proxy risk p of Some q \<Rightarrow> VDict q | None \<Rightarrow> standalone)
                   | _ \<Rightarrow> standalone)))"

subsection \<open>Queries and chat\<close>

definition is_out_of_domain :: "str \<Rightarrow> bool" where
  "is_out_of_domain q =
     (let lowered = py_lower q
      in list_ex (\<lambda>t. contains t lowered) [''recipe'', ''cookie'', ''cookies'', ''chocolate'', ''cake'', ''travel'',
           ''poem'', ''movie'', ''weather'', ''stock'', ''sports'', ''politics'']
         \<and> \<not> list_ex (\<lambda>t. contains t lowered) [''machine'', ''asset'', ''pump'', ''bearing'', ''centrifuge'', ''seal'',
           ''vibration'', ''maintenance'', ''threshold'', ''failure'', ''sop'', ''shutdown'',
           ''telemetry'', ''compressor'', ''turbine'', ''motor''])"

definition force_ai_unavailable :: "str option \<Rightarrow> bool" where
  "force_ai_unavailable header =
     (py_lower (case header of None \<Rightarrow> [] | Some h \<Rightarrow> h) \<in> set [''1'', ''true'', ''yes''])"

text \<open>The body of a request is \<open>None\<close> when it is no JSON; a body that is no object has no \<open>get\<close>.\<close>

definition body_dict :: "pyval option \<Rightarrow> (str \<times> pyval) list res" where
  "body_dict body = (case body of None \<Rightarrow> Inr [] | Some (VDict d) \<Rightarrow> Inr d | Some _ \<Rightarrow> Inl (AttributeErr ''get''))"

definition chat_request :: "(str \<times> pyval) list \<Rightarrow> pyval" where
  "chat_request d = VDict
     [(''message'', py_or (dict_default d ''prompt'' VNone) (py_or (dict_default d ''message'' VNone)
         (py_or (dict_default d ''query'' VNone) (VStr ''Operational diagnostic status'')))),
      (''history'', py_or (dict_default d ''history'' VNone) (VList [])), (''stream'', VBool False)]"

definition proxy_chat_or_unavailable :: "gateway_env \<Rightarrow> http \<Rightarrow> bool \<Rightarrow> pyval option \<Rightarrow> str \<Rightarrow> pyval res" where
  "proxy_chat_or_unavailable env http force_unavailable body endpoint =
     (if force_unavailable then Inr (ai_unavailable_envelope env endpoint)
      else bind_res (body_dict body) (\<lambda>d.
        Inr (py_or (try_proxy_ai env http ''POST'' ''/ai/agent/chat'' (chat_request d)) (ai_unavailable_envelope env endpoint))))"

record rag_body =
  rq_message :: "str option"
  rq_query_text :: "str option"
  rq_query :: "str option"
  rq_top_k :: int
  rq_min_score :: float64
  rq_max_graph_hops :: int
  rq_asset_id :: "str option"
  rq_filters :: pyval
  rq_include_telemetry :: bool

definition get_query :: "rag_body \<Rightarrow> str" where
  "get_query b = (if truthy_str (rq_message b) then the (rq_message b)
     else if truthy_str (rq_query_text b) then the (rq_query_text b)
     else if truthy_str (rq_query b) then the (rq_query b) else ''Show operational baseline'')"

definition rag_request :: "rag_body \<Rightarrow> str \<Rightarrow> str \<Rightarrow> pyval" where
  "rag_request b query_text asset_id = VDict [(''query_text'', VStr query_text), (''top_k'', VInt (rq_top_k b)),
     (''min_score'', VFloat (rq_min_score b)), (''max_graph_hops'', VInt (rq_max_graph_hops b)),
     (''asset_id'', VStr asset_id), (''filters'', rq_filters b), (''include_telemetry'', VBool (rq_include_telemetry b))]"

definition refusal :: str where
  "refusal = ''I do not possess domain information regarding recipes or non-industrial processes in my knowledge base.''"

definition refusal_answer :: "gateway_env \<Rightarrow> str \<Rightarrow> pyval" where
  "refusal_answer env query_text = VDict [(''success'', VBool True),
     (''data'', VDict [(''answer'', VStr refusal), (''query'', VStr query_text), (''citations'', VList []),
       (''context_chunks'', VList []), (''graph_nodes'', VList []), (''graph_edges'', VList []),
       (''overall_confidence'', VFloat (F 1)), (''out_of_domain'', VBool True), (''generated_at'', VStr (ge_now env))]),
     (''citations'', VList []), (''answer'', VStr refusal), (''request_id'', VStr (ge_uuid env)),
     (''generated_at'', VStr (ge_now env))]"

definition demo_citations :: "str \<Rightarrow> pyval list" where
  "demo_citations asset_id =
     [VDict [(''citation_id'', VStr ''[Source #1]''), (''claim_span'', VStr ''operational baseline parameters''),
        (''source_document'', VStr ''SOP-101-Bearing-Maintenance.pdf''), (''source_type'', VStr ''SOP''),
        (''source_node_id'', VStr (''asset-'' @ asset_id)), (''confidence_score'', VFloat (F 0.89)),
        (''page_number'', VInt 12), (''url'', VNone)],
      VDict [(''citation_id'', VStr ''[Source #2]''), (''claim_span'', VStr (''history of '' @ asset_id)),
        (''source_document'', VStr (''manual_'' @ asset_id @ ''_technical.pdf'')), (''source_type'', VStr ''MANUAL''),
        (''source_node_id'', VStr (''component-bearing-'' @ asset_id)), (''confidence_score'', VFloat (F 0.82)),
        (''page_number'', VInt 34)],
      VDict [(''citation_id'', VStr ''[Source #3]''), (''claim_span'', VStr ''temperature and vibration thresholds''),
        (''source_document'', VStr ''operational_knowledge_base''), (''source_type'', VStr ''SOP''),
        (''source_node_id'', VStr ''sop-042''), (''confidence_score'', VFloat (F 0.78))]]"

definition demo_answer :: "str \<Rightarrow> str" where
  "demo_answer asset_id =
     ''Based on retrieved context for '' @ asset_id @ '' [Source #1], the operational baseline parameters ''
     @ ''are: bearing temperature 65-75'' @ [CHR 0xB0] @ ''C nominal, vibration RMS <2.5 mm/s [Source #2]. ''
     @ ''Historical analysis shows 3 prior thermal events in the last 90 days, with maintenance performed per SOP-101 [Source #1]. ''
     @ ''Current telemetry indicates elevated conditions that exceed baseline thresholds defined in the technical manual [Source #2] and mitigation procedures in SOP-042 [Source #3]. ''
     @ ''Recommended action: execute bearing lubrication SOP-114 and schedule inspection within 24h.''"

definition demo_chunk :: "str \<Rightarrow> str \<Rightarrow> float64 \<Rightarrow> str \<Rightarrow> str \<Rightarrow> pyval" where
  "demo_chunk chunk_id body score document_type source = VDict [(''chunk_id'', VStr chunk_id), (''text'', VStr body),
     (''score'', VFloat score), (''document_type'', VStr document_type), (''source'', VStr source)]"

definition demo_node :: "str \<Rightarrow> str \<Rightarrow> str \<Rightarrow> (str \<times> pyval) list \<Rightarrow> pyval" where
  "demo_node i label kind props = VDict [(''id'', VStr i), (''label'', VStr label), (''type'', VStr kind),
     (''properties'', VDict props)]"

definition demo_edge :: "str \<Rightarrow> str \<Rightarrow> str \<Rightarrow> float64 \<Rightarrow> pyval" where
  "demo_edge source target relationship weight = VDict [(''source'', VStr source), (''target'', VStr target),
     (''relationship'', VStr relationship), (''weight'', VFloat weight)]"

definition demo_response :: "gateway_env \<Rightarrow> str \<Rightarrow> str \<Rightarrow> pyval" where
  "demo_response env query_text asset_id = VDict [(''success'', VBool True),
     (''data'', VDict [(''answer'', VStr (demo_answer asset_id)), (''query'', VStr query_text),
       (''citations'', VList (demo_citations asset_id)),
       (''context_chunks'', VList
         [demo_chunk ''chunk_1'' (''Operational baseline for '' @ asset_id @ '': nominal bearing temp 65-75C [Source #1]'')
            (F 0.92) ''SOP'' ''SOP-101-Bearing-Maintenance.pdf'',
          demo_chunk ''chunk_2'' (''Manual for '' @ asset_id @ '': history includes thermal events [Source #2]'')
            (F 0.85) ''MANUAL'' (''manual_'' @ asset_id @ ''.pdf'')]),
       (''graph_nodes'', VList
         [demo_node asset_id asset_id ''asset'' [(''type'', VStr ''PUMP'')],
          demo_node (''bearing-'' @ asset_id) ''Bearing Assembly'' ''component'' [],
          demo_node ''sop-101'' ''SOP-101'' ''procedure'' []]),
       (''graph_edges'', VList
         [demo_edge asset_id (''bearing-'' @ asset_id) ''COMPRISED_OF'' (F 1),
          demo_edge (''bearing-'' @ asset_id) ''sop-101'' ''MITIGATED_BY'' (F 0.9)]),
       (''overall_confidence'', VFloat (F 0.85)), (''vector_hits'', VInt 2), (''graph_nodes_expanded'', VInt 3),
       (''latency_ms'', VFloat (F 142.5)),
       (''query_embedding_model'', VStr ''sentence-transformers/all-mpnet-base-v2''),
       (''generated_at'', VStr (ge_now env))]),
     (''citations'', VList (demo_citations asset_id)), (''answer'', VStr (demo_answer asset_id)),
     (''request_id'', VStr (ge_uuid env)), (''generated_at'', VStr (ge_now env))]"

text \<open>The upstream answer is passed on only when its data hold citations.\<close>

definition cited_upstream :: "pyval \<Rightarrow> pyval option" where
  "cited_upstream proxy = (case proxy of
     VDict p \<Rightarrow> (case dict_default p ''data'' VNone of
         VDict d \<Rightarrow> if truthy (dict_default d ''citations'' VNone)
                    then Some (VDict (AList.update ''citations'' (dict_default d ''citations'' VNone) p)) else None
       | _ \<Rightarrow> None)
   | _ \<Rightarrow> None)"

definition graphrag_query :: "gateway_env \<Rightarrow> http \<Rightarrow> bool \<Rightarrow> rag_body \<Rightarrow> pyval" where
  "graphrag_query env http force_unavailable b =
     (let query_text = get_query b;
          asset_id = (if truthy_str (rq_asset_id b) then the (rq_asset_id b) else ''machine07'')
      in if is_out_of_domain query_text then refusal_answer env query_text
         else if force_unavailable then ai_unavailable_envelope env ''graphrag''
         else let proxy = try_proxy_ai env http ''POST'' ''/graphrag/query'' (rag_request b query_text asset_id)
              in case cited_upstream proxy of
                   Some v \<Rightarrow> v
                 | None \<Rightarrow> if proxy = VNone \<and> (ge_strict_degrade env \<or> \<not> ge_fallback env)
                           then ai_unavailable_envelope env ''graphrag''
                           else demo_response env query_text asset_id)"

subsection \<open>The endpoints of alarms\<close>

definition alert_json :: "alert \<Rightarrow> pyval" where
  "alert_json a = VDict ([(''id'', VStr (al_id a)), (''alert_id'', VStr (al_alert_id a)),
     (''asset_id'', VStr (al_asset_id a)), (''metric'', VStr (al_metric a)), (''value'', VFloat (al_value a)),
     (''severity'', VStr (al_severity a)), (''status'', VStr (al_status a)),
     (''acknowledged'', VBool (al_acknowledged a)), (''timestamp'', VStr (al_timestamp a)),
     (''created_at'', VStr (al_created_at a)), (''message'', VStr (al_message a)),
     (''description'', VStr (al_description a))]
     @ (case al_resolved a of None \<Rightarrow> [] | Some r \<Rightarrow> [(''resolved'', VBool r)])
     @ (case al_resolved_at a of None \<Rightarrow> [] | Some t \<Rightarrow> [(''resolved_at'', VStr t)]))"

definition inject_alarm_endpoint ::
  "gateway_env \<Rightarrow> str \<Rightarrow> str \<Rightarrow> str \<Rightarrow> str \<Rightarrow> float64 \<Rightarrow> gateway_store \<Rightarrow> pyval \<times> gateway_store" where
  "inject_alarm_endpoint env i alert_id asset_id metric v s =
     (case inject_alert i alert_id (ge_now env) (ge_now env) asset_id metric v s of (a, s') \<Rightarrow>
        (VDict [(''success'', VBool True), (''data'', alert_json a),
           (''message'', VStr ''Critical alarm state successfully registered''), (''request_id'', VStr (ge_uuid env))], s'))"

definition active_alerts_endpoint :: "gateway_env \<Rightarrow> gateway_store \<Rightarrow> pyval" where
  "active_alerts_endpoint env s =
     (let alerts = VList (map alert_json (get_active_alerts s))
      in VDict [(''success'', VBool True), (''data'', alerts), (''alerts'', alerts),
           (''total'', VInt (int (length (get_active_alerts s)))), (''generated_at'', VStr (ge_now env))])"

text \<open>A criterion that is no string is compared with the fields all the same, and never equal.\<close>

definition criterion :: "pyval \<Rightarrow> str option option" where
  "criterion v = (if \<not> truthy v then Some None else (case v of VStr t \<Rightarrow> Some (Some t) | _ \<Rightarrow> None))"

definition resolve_alert_endpoint ::
  "gateway_env \<Rightarrow> pyval option \<Rightarrow> gateway_store \<Rightarrow> (pyval \<times> gateway_store) res" where
  "resolve_alert_endpoint env body s =
     bind_res (body_dict body) (\<lambda>d.
       let (finished, s') =
             (case (criterion (py_or (dict_default d ''alert_id'' VNone) (dict_default d ''id'' VNone)),
                    criterion (dict_default d ''asset_id'' VNone)) of
                (Some alert_id, Some asset_id) \<Rightarrow> resolve_alerts alert_id asset_id (ge_now env) s
              | _ \<Rightarrow> ([], s));
           rows = VList (map alert_json finished)
       in Inr (VDict [(''success'', VBool True), (''status'', VStr ''RESOLVED''), (''data'', rows),
            (''resolved_alerts'', rows), (''resolved_count'', VInt (int (length finished))),
            (''active_count'', VInt (int (length (get_active_alerts s')))),
            (''generated_at'', VStr (ge_now env)), (''request_id'', VStr (ge_uuid env))], s'))"

section \<open>Properties\<close>

subsection \<open>The life cycle of alerts\<close>

lemma resolve_loop_eq:
  "resolve_loop matches now alerts =
     (map (resolved now) (filter (\<lambda>a. matches a \<and> is_active a) alerts),
      map (\<lambda>a. if matches a \<and> is_active a then resolved now a else a) alerts)"
  by (induction alerts) auto

lemma resolve_alerts_alerts:
  "gs_alerts (snd (resolve_alerts alert_id asset_id now s)) =
     map (\<lambda>a. if alert_matches alert_id asset_id a \<and> is_active a then resolved now a else a) (gs_alerts s)"
  by (simp add: resolve_alerts_def resolve_loop_eq)

lemma resolved_inactive [simp]: "\<not> is_active (resolved now a)"
  by (simp add: is_active_def resolved_def)

lemma filter_resolved:
  "filter is_active (map (\<lambda>a. if m a \<and> is_active a then resolved now a else a) xs)
     = filter (\<lambda>a. \<not> m a) (filter is_active xs)"
  by (induction xs) auto

text \<open>Resolving is exact: it returns the matching active alerts, resolved and in their order;
  the alerts that stay active are those that were active and do not match; every other alert keeps
  its place and its fields, the tokens and the simulator flag are untouched; and resolving by the
  same criteria again finds nothing and changes nothing.\<close>

theorem resolve_alerts_exact:
  "let hit = (\<lambda>a. alert_matches alert_id asset_id a \<and> is_active a);
       finished = fst (resolve_alerts alert_id asset_id now s);
       s' = snd (resolve_alerts alert_id asset_id now s)
   in finished = map (resolved now) (filter (alert_matches alert_id asset_id) (get_active_alerts s))
     \<and> get_active_alerts s' = filter (\<lambda>a. \<not> alert_matches alert_id asset_id a) (get_active_alerts s)
     \<and> s' = s\<lparr>gs_alerts := map (\<lambda>a. if hit a then resolved now a else a) (gs_alerts s)\<rparr>
     \<and> resolve_alerts alert_id asset_id later s' = ([], s')"
proof -
  let ?hit = "\<lambda>a. alert_matches alert_id asset_id a \<and> is_active a"
  let ?as = "map (\<lambda>a. if ?hit a then resolved now a else a) (gs_alerts s)"
  have s': "snd (resolve_alerts alert_id asset_id now s) = s\<lparr>gs_alerts := ?as\<rparr>"
    by (simp add: resolve_alerts_def resolve_loop_eq)
  have hits: "filter ?hit xs = filter (alert_matches alert_id asset_id) (filter is_active xs)" for xs
    by (induction xs) auto
  have none: "\<not> ?hit a" if "a \<in> set ?as" for a
    using that by (auto split: if_splits)
  then have "filter ?hit ?as = []" by (simp only: filter_empty_conv) blast
  moreover have "map (\<lambda>a. if ?hit a then resolved later a else a) ?as = ?as"
    using none by (intro map_idI) (simp only: if_False refl)
  ultimately have "resolve_alerts alert_id asset_id later (s\<lparr>gs_alerts := ?as\<rparr>) = ([], s\<lparr>gs_alerts := ?as\<rparr>)"
    by (simp only: resolve_alerts_def resolve_loop_eq gateway_store.simps gateway_store.select_convs list.map) simp
  then show ?thesis
    unfolding Let_def s'
    by (simp add: resolve_alerts_def resolve_loop_eq get_active_alerts_def hits filter_resolved)
qed

text \<open>An alert of the store is active and was never resolved, or resolved with a time.\<close>

definition alert_ok :: "alert \<Rightarrow> bool" where
  "alert_ok a \<longleftrightarrow> al_severity a = ''CRITICAL'' \<and>
     (if al_status a = ''ACTIVE'' then al_resolved a = None \<and> al_resolved_at a = None
      else al_status a = ''RESOLVED'' \<and> al_resolved a = Some True \<and> al_resolved_at a \<noteq> None)"

text \<open>What one operation may do to an alert it keeps: nothing, or resolve it while it is active.\<close>

definition alert_progress :: "alert \<Rightarrow> alert \<Rightarrow> bool" where
  "alert_progress a a' \<longleftrightarrow>
     (if al_status a = ''ACTIVE'' then a' = a \<or> a' = resolved (the (al_resolved_at a')) a else a' = a)"

lemma alert_ok_new [simp]: "alert_ok (new_alert i alert_id now created asset_id metric v)"
  by (simp add: alert_ok_def new_alert_def)

lemma alert_ok_resolved [simp]: "alert_ok a \<Longrightarrow> alert_ok (resolved now a)"
  by (simp add: alert_ok_def resolved_def split: if_splits)

lemma alert_ok_active: "alert_ok a \<Longrightarrow> is_active a \<longleftrightarrow> al_status a = ''ACTIVE''"
  by (auto simp: alert_ok_def is_active_def split: if_splits)

lemma alert_progress_refl [simp]: "alert_progress a a"
  by (simp add: alert_progress_def)

lemma alert_progress_resolved: "alert_ok a \<Longrightarrow> is_active a \<Longrightarrow> alert_progress a (resolved now a)"
  by (simp add: alert_progress_def alert_ok_active) (simp add: resolved_def)

lemmas store_defs = add_token_def inject_alert_def resolve_alerts_alerts set_simulator_live_def clear_alerts_def Let_def

lemma store_step_alerts:
  assumes "store_step s s'" and ok: "list_all alert_ok (gs_alerts s)"
  shows "list_all alert_ok (gs_alerts s')
    \<and> (gs_alerts s' = [] \<or> list_all2 alert_progress (gs_alerts s) (take (length (gs_alerts s)) (gs_alerts s')))"
  using assms(1)
proof cases
  case (step_resolve alert_id asset_id now)
  then show ?thesis
    using ok by (auto simp: resolve_alerts_alerts list.pred_set list_all2_conv_all_nth alert_progress_resolved)
qed (use ok in \<open>auto simp: store_defs list_all2_conv_all_nth\<close>)

lemma store_step_tokens: "store_step s s' \<Longrightarrow> distinct (gs_tokens s) \<Longrightarrow>
  distinct (gs_tokens s') \<and> set (gs_tokens s) \<subseteq> set (gs_tokens s')"
  by (erule store_step.cases) (auto simp: store_defs resolve_alerts_def split: prod.splits)

lemma store_reaches_ok: "store_reaches s \<Longrightarrow> list_all alert_ok (gs_alerts s) \<and> distinct (gs_tokens s)"
  by (induction rule: store_reaches.induct)
     (auto simp: initial_store_def dest: store_step_alerts store_step_tokens)

text \<open>C20. Whatever operations interleave, every alert of the store is active and unresolved or
  resolved with a time, one more operation empties the store or keeps every alert in its place,
  where an active alert may be resolved and nothing else changes, so that a resolved alert never
  becomes active again and keeps its time; and no token is ever revoked.\<close>

theorem alert_life_cycle:
  assumes "store_reaches s" and "store_step s s'"
  shows "list_all alert_ok (gs_alerts s) \<and> list_all alert_ok (gs_alerts s')
    \<and> (gs_alerts s' = [] \<or> list_all2 alert_progress (gs_alerts s) (take (length (gs_alerts s)) (gs_alerts s')))
    \<and> distinct (gs_tokens s') \<and> set (gs_tokens s) \<subseteq> set (gs_tokens s')"
  using store_reaches_ok [OF assms(1)] store_step_alerts [OF assms(2)] store_step_tokens [OF assms(2)] by blast

theorem alert_life_cycle_witness:
  "let s = snd (inject_alert ''i'' ''a'' ''t'' ''t'' ''pump'' ''temp'' 1 initial_store);
       s' = snd (resolve_alerts None (Some ''pump'') ''u'' s)
   in list_all alert_ok (gs_alerts s') \<and> map al_status (gs_alerts s') = [''RESOLVED''] \<and> get_active_alerts s' = []"
proof -
  let ?s = "snd (inject_alert ''i'' ''a'' ''t'' ''t'' ''pump'' ''temp'' 1 initial_store)"
  have "store_reaches ?s" by (rule reaches_step [OF reaches_initial step_inject])
  from alert_life_cycle [OF this step_resolve [of ?s None "Some ''pump''" "''u''"]] show ?thesis
    by (simp add: resolve_alerts_def resolve_loop_eq inject_alert_def new_alert_def initial_store_def
        alert_matches_def is_active_def resolved_def get_active_alerts_def Let_def)
qed

subsection \<open>The risk heuristic\<close>

lemma unit_clamp: "0 \<le> min (F 1) (max (F 0) x)" "min (F 1) (max (F 0) x) \<le> 1"
  by simp_all

lemma risk_base_mono: "vib \<le> vib' \<Longrightarrow> temp \<le> temp' \<Longrightarrow> risk_base vib temp \<le> risk_base vib' temp'"
  unfolding risk_base_def
  by (intro f64_add_mono f64_mult_right_mono min.mono max.mono f64_divide_right_mono f64_diff_mono order_refl F_nonneg) simp_all

lemma risk_base_nonneg: "0 \<le> risk_base vib temp"
  unfolding risk_base_def by (intro f64_add_nonneg f64_mult_nonneg unit_clamp F_nonneg) simp_all

text \<open>Up to 4.5 mm/s and 93.75 degrees, beyond where the boosts begin, the base stays far below the caps.\<close>

lemma unit_clamp_id: "0 \<le> q \<Longrightarrow> q \<le> 1 \<Longrightarrow> min (F 1) (max (F 0) (F q)) = F q"
  using F_mono [of 0 q] F_mono [of q 1] by (simp add: min_absorb2 max_absorb2)

lemma dyadic_steps:
  "F 4.5 - F 1 = F 3.5" "F 3.5 / F 7 = F 0.5" "F 93.75 - F 60 = F 33.75" "F 33.75 / F 60 = F 0.5625"
  "F 0.5 * F 0.5625 = F 0.28125" "F 0.5625 * F 0.5 = F 0.28125" "F 0.28125 + F 0.28125 = F 0.5625"
  "F 0.5625 + F 0.25 = F 0.8125" "py_round (F 0.8125) 4 = F 0.8125"
  by code_simp+

lemma rounder_base: "risk_base (F 4.5) (F 93.75) \<le> F 0.5625"
proof -
  have "min (F 1) (max (F 0) (F 0.5)) = F 0.5" "min (F 1) (max (F 0) (F 0.5625)) = F 0.5625"
    by (rule unit_clamp_id; simp)+
  then have "risk_base (F 4.5) (F 93.75) \<le> F 0.5 * F 0.5625 + F 0.5625 * F 0.5"
    unfolding risk_base_def dyadic_steps(1-4)
    by (simp only:) (intro f64_add_mono f64_mult_left_mono F_mono F_nonneg; simp)
  then show ?thesis by (simp only: dyadic_steps)
qed

lemma risk_base_unboosted: "vib \<le> F 3 \<Longrightarrow> temp \<le> F 80 \<Longrightarrow> risk_base vib temp \<le> F 0.5625"
  by (intro order_trans [OF risk_base_mono rounder_base]; rule order_trans, assumption, intro F_mono) simp_all

lemma thresholds: "F 3 < (F 4 :: float64)" "F 80 < (F 85 :: float64)" "F 0.5625 \<le> (F 0.95 :: float64)"
  "F 0.95 \<le> (F 0.97 :: float64)" "F 0.12 \<le> (F 0.25 :: float64)" "F 0.05 \<le> (F 0.97 :: float64)"
  by code_simp+

lemma risk_boosted_le: "risk_boosted vib temp \<le> F 0.97"
  using risk_base_unboosted [of vib temp] thresholds
  by (auto simp: risk_boosted_def Let_def not_less min_le_iff_disj)

lemma f64_le_add: "a \<le> b \<Longrightarrow> 0 \<le> c \<Longrightarrow> a \<le> (b + c :: float64)"
  using f64_add_mono [of a b 0 c] by simp

lemma risk_boosted_mono:
  assumes v: "vib \<le> vib'" and t: "temp \<le> temp'"
  shows "risk_boosted vib temp \<le> risk_boosted vib' temp'"
proof -
  note base = risk_base_mono [OF v t]
  consider (both) "F 4 < vib \<and> F 85 < temp" | (one) "\<not> (F 4 < vib \<and> F 85 < temp)" "F 3 < vib \<or> F 80 < temp"
    | (none) "vib \<le> F 3" "temp \<le> F 80" by fastforce
  then show ?thesis
  proof cases
    case both
    then have "F 4 < vib' \<and> F 85 < temp'" using v t by auto
    with both base show ?thesis
      by (simp add: risk_boosted_def Let_def) (intro conjI min.mono f64_add_mono min.coboundedI2 order_refl)
  next
    case one
    then have "F 3 < vib' \<or> F 80 < temp'" using v t by auto
    moreover have "min (F 0.95) (risk_base vib temp + F 0.12) \<le> min (F 0.97) (risk_base vib' temp' + F 0.25)"
      by (intro min.mono f64_add_mono base thresholds)
    moreover have "min (F 0.95) (risk_base vib temp + F 0.12) \<le> min (F 0.95) (risk_base vib' temp' + F 0.12)"
      by (intro min.mono f64_add_mono base order_refl)
    ultimately show ?thesis using one by (simp only: risk_boosted_def Let_def if_True if_False) (simp only: split: if_split, blast)
  next
    case none
    then have calm: "risk_base vib temp \<le> F 0.5625" by (rule risk_base_unboosted)
    have not: "\<not> F 4 < vib" "\<not> F 3 < vib" "\<not> F 80 < temp" using none thresholds by auto
    have up: "risk_base vib temp \<le> risk_base vib' temp' + F q" if "0 \<le> q" for q
      using base that by (intro f64_le_add F_nonneg)
    have "risk_base vib temp \<le> min (F 0.97) (risk_base vib' temp' + F 0.25)"
      using calm thresholds(3,4) up [of "0.25"] by (intro min.boundedI) simp_all
    moreover have "risk_base vib temp \<le> min (F 0.95) (risk_base vib' temp' + F 0.12)"
      using calm thresholds(3) up [of "0.12"] by (intro min.boundedI) simp_all
    ultimately show ?thesis using base not by (simp add: risk_boosted_def Let_def)
  qed
qed

lemma risk_rounded: "py_round (F 0.05) 4 = F 0.05" "py_round (F 0.97) 4 = F 0.97"
  by code_simp+

lemma compute_risk_score_bounds: "F 0.05 \<le> compute_risk_score features \<and> compute_risk_score features \<le> F 0.97"
proof -
  let ?r = "max (F 0.05) (risk_boosted (feature_vibration features) (feature_temperature features))"
  have "F 0.05 \<le> ?r" "?r \<le> F 0.97" using risk_boosted_le thresholds(6) by (simp_all del: F_0 F_1)
  from py_round_mono [OF this(1), of 4] py_round_mono [OF this(2), of 4] show ?thesis
    by (simp only: compute_risk_score_def risk_rounded simp_thms)
qed

text \<open>The heuristic risk lies between 0.05 and 0.97 for every set of features, with or without
  the two it reads, and never falls when vibration and temperature rise: no boost is lost on the way
  up, although each of the three branches has a cap of its own.\<close>

theorem risk_heuristic:
  assumes "feature_vibration features \<le> feature_vibration features'"
    and "feature_temperature features \<le> feature_temperature features'"
  shows "F 0.05 \<le> compute_risk_score features \<and> compute_risk_score features \<le> compute_risk_score features'
    \<and> compute_risk_score features' \<le> F 0.97"
  using compute_risk_score_bounds [of features] compute_risk_score_bounds [of features']
    py_round_mono [OF max.mono [OF order_refl risk_boosted_mono [OF assms]], of "F 0.05" 4]
  by (simp add: compute_risk_score_def)

theorem risk_heuristic_witness:
  "F 0.05 \<le> compute_risk_score [] \<and> compute_risk_score [] \<le> compute_risk_score [(''vibration'', F 5)]
     \<and> compute_risk_score [(''vibration'', F 5)] \<le> F 0.97"
proof (rule risk_heuristic)
  show "feature_vibration [] \<le> feature_vibration [(''vibration'', F 5)]" by code_simp
  show "feature_temperature [] \<le> feature_temperature [(''vibration'', F 5)]" by code_simp
qed

text \<open>The example of the documentation, ``vibration 4.2 + temp 92.5 => ~0.85 risk'', scores less.\<close>

theorem documented_example:
  "compute_risk_score [(''vibration'', F 4.2), (''temperature'', F 92.5)] \<le> F 0.8125"
proof -
  have "risk_base (F 4.2) (F 92.5) \<le> risk_base (F 4.5) (F 93.75)"
    by (intro risk_base_mono F_mono) simp_all
  then have "risk_base (F 4.2) (F 92.5) + F 0.25 \<le> F 0.8125"
    using f64_add_mono [OF order_trans [OF _ rounder_base] order_refl, of _ "F 0.25"] by (simp only: dyadic_steps)
  moreover have "F 4 < (F 4.2 :: float64)" "F 85 < (F 92.5 :: float64)" "F 0.05 \<le> (F 0.8125 :: float64)" by code_simp+
  ultimately have "max (F 0.05) (risk_boosted (F 4.2) (F 92.5)) \<le> F 0.8125"
    by (simp only: risk_boosted_def Let_def simp_thms if_True max.bounded_iff) (simp add: min_le_iff_disj)
  from py_round_mono [OF this, of 4] show ?thesis
    by (simp add: compute_risk_score_def feature_vibration_def feature_temperature_def dict_default_def
        dyadic_steps(9) [simplified])
qed

subsection \<open>The predictive endpoint\<close>

definition reports_risk :: "float64 \<Rightarrow> pyval \<Rightarrow> bool" where
  "reports_risk risk v = (case v of
     VDict d \<Rightarrow> map_of d ''risk_score'' = Some (VFloat risk)
       \<and> (case map_of d ''data'' of
            None \<Rightarrow> False
          | Some (VDict e) \<Rightarrow> map_of e ''risk_score'' = Some (VFloat risk)
          | Some _ \<Rightarrow> True)
   | _ \<Rightarrow> False)"

lemma reports_risk_merged:
  assumes "''data'' \<in> fst ` set p"
  shows "reports_risk risk (VDict (AList.update ''risk_score'' (VFloat risk)
    (case dict_default p ''data'' VNone of
       VDict d \<Rightarrow> AList.update ''data'' (VDict (AList.update ''risk_score'' (VFloat risk) d)) p | _ \<Rightarrow> p)))"
proof -
  obtain v where "map_of p ''data'' = Some v" using assms by (metis map_of_eq_None_iff option.exhaust)
  then show ?thesis by (cases v) (simp_all add: reports_risk_def update_conv' dict_default_def)
qed

lemma merge_proxy_reports: "merge_proxy risk p = Some q \<Longrightarrow> reports_risk risk (VDict q)"
  unfolding merge_proxy_def Let_def by (simp only: split: if_splits) (auto intro: reports_risk_merged)

lemma standalone_reports [simp]: "reports_risk risk (standalone_answer env b risk u)"
  by (simp add: reports_risk_def standalone_answer_def)
     (simp add: standalone_payload_def Let_def)

definition no_stand_in :: "gateway_env \<Rightarrow> bool" where
  "no_stand_in env \<longleftrightarrow> ge_strict_degrade env \<or> \<not> ge_fallback env"

text \<open>Unless the service is declared unavailable, the endpoint answers with the risk of the local
  heuristic, at the top level and inside the data, whatever the upstream service answered; it raises
  exactly when a feature of the request is no number; and it declares unavailability exactly when
  forced to, or when the upstream fails and the gateway may not stand in for it.\<close>

theorem predictive_infer_reports_local_risk:
  "if force_unavailable then predictive_infer env http force_unavailable b = Inr (ai_unavailable_envelope env ''predictive'')
   else case infer_features b of
     Inl e \<Rightarrow> predictive_infer env http force_unavailable b = Inl e
   | Inr features \<Rightarrow>
       (if try_proxy_ai env http ''POST'' ''/predictive/infer'' (infer_request env b features) = VNone
           \<and> no_stand_in env
        then predictive_infer env http force_unavailable b = Inr (ai_unavailable_envelope env ''predictive'')
        else case predictive_infer env http force_unavailable b of
          Inl e \<Rightarrow> False | Inr v \<Rightarrow> reports_risk (compute_risk_score features) v)"
proof (cases "force_unavailable")
  case False
  let ?proxy = "\<lambda>fs. try_proxy_ai env http ''POST'' ''/predictive/infer'' (infer_request env b fs)"
  have answer: "reports_risk r (case proxy of
      VDict p \<Rightarrow> if p = [] then standalone_answer env b r u
        else (case merge_proxy r p of Some q \<Rightarrow> VDict q | None \<Rightarrow> standalone_answer env b r u)
    | _ \<Rightarrow> standalone_answer env b r u)" for proxy r u
    by (auto split: pyval.split option.split dest: merge_proxy_reports)
  show ?thesis
  proof (cases "infer_features b")
    case (Inr fs)
    with False show ?thesis
      by (cases "?proxy fs = VNone \<and> (ge_strict_degrade env \<or> \<not> ge_fallback env)")
         (simp_all only: no_stand_in_def predictive_infer_def Let_def bind_res_simps sum.case if_True if_False simp_thms answer)
  qed (use False in \<open>simp add: predictive_infer_def\<close>)
qed (simp add: predictive_infer_def)

text \<open>So the score of the model behind the upstream is lost.\<close>

lemma upstream_risk_overwritten:
  "merge_proxy risk [(''data'', VDict [(''risk_score'', VFloat model_risk)])]
     = Some [(''data'', VDict [(''risk_score'', VFloat risk), (''failure_probability'', VFloat risk)]),
         (''risk_score'', VFloat risk)]"
  by (simp add: merge_proxy_def dict_default_def set_default_def Let_def)

text \<open>Authentication accepts every credential of ten characters or more, issued or not.\<close>

lemma long_credentials_accepted:
  assumes "10 \<le> length t" and "list_all (\<lambda>c. \<not> is_space c) t"
  shows "extract_token (Some t) s = Inr t"
proof -
  obtain c cs where t: "t = c # cs" using assms(1) by (cases t) auto
  have "dropWhile is_space t = t" and "takeWhile (\<lambda>d. \<not> is_space d) cs = cs" and rest: "dropWhile (\<lambda>d. \<not> is_space d) cs = []"
    using assms(2) by (auto simp: t list_all_iff takeWhile_eq_all_conv dropWhile_eq_Nil_conv)
  then have "split_blanks t = [t]"
    using assms(2) by (simp add: rest split_blanks.simps [of "c # cs"] split_blanks.simps [of "[]"] t)
  then show ?thesis using assms(1) by (auto simp: extract_token_def t)
qed

subsection \<open>The query and alarm endpoints\<close>

text \<open>The upstream pipeline answers a question without evidence by an answer without citations; the
  gateway does not pass it on, but answers with fixed text, three fixed citations and a recommended
  action.\<close>

theorem uncited_answer_replaced:
  assumes "\<not> is_out_of_domain (get_query b)"
    and "try_proxy_ai env http ''POST'' ''/graphrag/query''
      (rag_request b (get_query b) (if truthy_str (rq_asset_id b) then the (rq_asset_id b) else ''machine07''))
      = VDict [(''data'', VDict [(''answer'', VStr honest), (''citations'', VList [])])]"
  shows "graphrag_query env http False b
    = demo_response env (get_query b) (if truthy_str (rq_asset_id b) then the (rq_asset_id b) else ''machine07'')"
  using assms by (simp add: graphrag_query_def Let_def cited_upstream_def dict_default_def)

text \<open>A request to resolve whose body is no JSON, or names neither an alert nor an asset, resolves
  every active alert.\<close>

theorem unreadable_body_resolves_everything:
  "map_sum id (\<lambda>(v, s'). get_active_alerts s') (resolve_alert_endpoint env None s) = Inr []"
proof -
  have "get_active_alerts (snd (resolve_alerts None None now s)) = []" for now
    using filter_resolved [of "\<lambda>_. True" now "gs_alerts s"]
    by (simp add: get_active_alerts_def resolve_alerts_alerts alert_matches_def)
  then show ?thesis
    by (simp add: resolve_alert_endpoint_def body_dict_def dict_default_def py_or_def criterion_def Let_def split: prod.split)
       (metis snd_conv)
qed

end
