(* ===== verification/Gateway_Views.thy ===== *)
theory Gateway_Views
  imports Gateway
begin

section \<open>The read-only views of the integration gateway\<close>

text \<open>
  \<open>iob-integration/gateway_app\<close>, the rest of \<open>store.py\<close> and \<open>main.py\<close>: the seeded asset registry and
  its lookup, the dashboard with its counters over the alert store of \<open>Gateway\<close>, the SHAP-style
  explanation of the predictive endpoint, and health. Python's salted \<open>hash\<close> of a string is a
  parameter, and the microsecond of the clock an argument.
\<close>

subsection \<open>The asset registry\<close>

record plant_asset =
  pa_id :: str
  pa_asset_id :: str
  pa_name :: str
  pa_type :: str
  pa_asset_type :: str
  pa_status :: str
  pa_location :: str
  pa_criticality :: "str option"
  pa_components :: "str list option"

definition seeded :: "str \<Rightarrow> str \<Rightarrow> str \<Rightarrow> str \<Rightarrow> str \<Rightarrow> str option \<Rightarrow> str list option \<Rightarrow> plant_asset" where
  "seeded i name kind status location criticality components = \<lparr>pa_id = i, pa_asset_id = i, pa_name = name,
     pa_type = kind, pa_asset_type = kind, pa_status = status, pa_location = location,
     pa_criticality = criticality, pa_components = components\<rparr>"

definition plant_assets :: "plant_asset list" where
  "plant_assets =
    [seeded ''machine07'' ''Pump-007 Bearing Assembly'' ''PUMP'' ''OPERATIONAL'' ''Plant-A / Sector-3''
       (Some ''HIGH'') (Some [''bearing'', ''seal'', ''impeller'']),
     seeded ''machine01'' ''Compressor-001'' ''COMPRESSOR'' ''DEGRADED'' ''Plant-A / Sector-1'' (Some ''CRITICAL'') None,
     seeded ''machine02'' ''Turbine-002'' ''TURBINE'' ''OPERATIONAL'' ''Plant-B / Sector-2'' None None,
     seeded ''pump101'' ''Pump-101 Main Feed'' ''PUMP'' ''OPERATIONAL'' ''Plant-A'' None None,
     seeded ''asset-101'' ''Motor Assembly 101'' ''MOTOR'' ''OPERATIONAL'' ''Plant-C'' None None]"

definition get_assets :: "plant_asset list" where
  "get_assets = plant_assets"

definition get_asset_by_id :: "str \<Rightarrow> plant_asset option" where
  "get_asset_by_id i = List.find (\<lambda>a. pa_id a = i \<or> pa_asset_id a = i) plant_assets"

definition is_simulator_live :: "gateway_store \<Rightarrow> bool" where
  "is_simulator_live s = gs_simulator_live s"

definition asset_json :: "plant_asset \<Rightarrow> pyval" where
  "asset_json a = VDict ([(''id'', VStr (pa_id a)), (''asset_id'', VStr (pa_asset_id a)), (''name'', VStr (pa_name a)),
     (''type'', VStr (pa_type a)), (''asset_type'', VStr (pa_asset_type a)), (''status'', VStr (pa_status a)),
     (''location'', VStr (pa_location a))]
     @ (case pa_criticality a of None \<Rightarrow> [] | Some c \<Rightarrow> [(''criticality'', VStr c)])
     @ (case pa_components a of None \<Rightarrow> [] | Some cs \<Rightarrow> [(''components'', VList (map VStr cs))]))"

subsection \<open>The dashboard and the asset endpoints\<close>

definition vcount :: "'a list \<Rightarrow> pyval" where
  "vcount xs = VInt (int (length xs))"

definition with_status :: "str \<Rightarrow> plant_asset list \<Rightarrow> plant_asset list" where
  "with_status status assets = filter (\<lambda>a. pa_status a = status) assets"

text \<open>\<open>by_type\<close> is a literal of the code, not a count.\<close>

definition declared_by_type :: "(str \<times> int) list" where
  "declared_by_type = [(''PUMP'', 2), (''COMPRESSOR'', 1), (''TURBINE'', 1), (''MOTOR'', 1)]"

definition dashboard_overview :: "gateway_env \<Rightarrow> gateway_store \<Rightarrow> pyval" where
  "dashboard_overview env s =
     (let assets = get_assets; alerts = get_active_alerts s;
          nominal = with_status ''OPERATIONAL'' assets; degraded = with_status ''DEGRADED'' assets;
          rows = (\<lambda>xs. VList (map asset_json xs))
      in VDict [(''success'', VBool True),
        (''data'', VDict [(''total_assets'', vcount assets), (''operational_assets'', vcount nominal),
           (''critical_alerts'', vcount (filter (\<lambda>a. al_severity a = ''CRITICAL'') alerts)),
           (''degraded_assets'', vcount degraded), (''simulator_live'', VBool (is_simulator_live s)),
           (''last_updated'', VStr (ge_now env)), (''assets'', rows assets), (''nominal_assets'', rows nominal),
           (''degraded_asset_rows'', rows degraded)]),
        (''assets'', rows assets), (''nominal_assets'', rows nominal),
        (''assets_summary'', VDict [(''total'', vcount assets),
           (''by_type'', VDict (map (\<lambda>(k, n). (k, VInt n)) declared_by_type))])])"

definition list_assets :: "gateway_env \<Rightarrow> pyval" where
  "list_assets env =
     (let rows = VList (map asset_json get_assets)
      in VDict [(''success'', VBool True), (''data'', rows), (''assets'', rows), (''total'', vcount get_assets),
           (''generated_at'', VStr (ge_now env))])"

definition get_asset :: "str \<Rightarrow> http_error + pyval" where
  "get_asset i =
     (case get_asset_by_id i of
        None \<Rightarrow> Inl (HTTPException 404 (''Asset '' @ i @ '' not found''))
      | Some a \<Rightarrow> Inr (VDict [(''success'', VBool True), (''data'', asset_json a), (''asset'', asset_json a)]))"

text \<open>\<open>Depends(_extract_token)\<close> runs before every endpoint but the health checks.\<close>

definition depends_token :: "str option \<Rightarrow> gateway_store \<Rightarrow> http_error + 'a \<Rightarrow> http_error + 'a" where
  "depends_token authorization s answer =
     (case extract_token authorization s of Inl e \<Rightarrow> Inl e | Inr _ \<Rightarrow> answer)"

definition health :: pyval where
  "health = VDict [(''status'', VStr ''ok''), (''service'', VStr ''iob-gateway''), (''version'', VStr ''5.0.0'')]"

definition health_v1 :: "gateway_store \<Rightarrow> pyval" where
  "health_v1 s = VDict [(''status'', VStr ''ok''),
     (''components'', VDict [(''gateway'', VStr ''ok''), (''simulator_live'', VBool (is_simulator_live s))])]"

definition gateway_root :: pyval where
  "gateway_root = VDict [(''service'', VStr ''IOB Phase-5A Integration Gateway''), (''version'', VStr ''5.0.0''),
     (''docs'', VStr ''/docs''), (''api_prefix'', VStr ''/api/v1''),
     (''stages'', VDict [(''1_auth'', VStr ''/api/v1/auth/login''), (''2_assets'', VStr ''/api/v1/assets''),
        (''3_telemetry_ws'', VStr ''ws://localhost:8001/stream''), (''4_predictive'', VStr ''/api/v1/predictive/infer''),
        (''5_alerts'', VStr ''/api/v1/alerts/active'')])]"

subsection \<open>The explanation endpoint\<close>

record shap_feature =
  sf_name :: str
  sf_weight :: float64
  sf_value :: float64
  sf_rank :: int

definition shap_jitter :: "int \<Rightarrow> int \<Rightarrow> float64" where
  "shap_jitter microsecond hashed =
     of_int64 (microsecond mod 997) / F 9970 + of_int64 (\<bar>hashed\<bar> mod 13) / F 1000"

definition vib_weight :: "float64 \<Rightarrow> float64 \<Rightarrow> float64" where
  "vib_weight risk jitter = py_round (min (F 0.92) (F 0.34 + risk * F 0.10 + jitter)) 4"

definition temp_weight :: "float64 \<Rightarrow> float64 \<Rightarrow> float64" where
  "temp_weight risk jitter = py_round (min (F 0.82) (F 0.24 + risk * F 0.08 + jitter / F 2)) 4"

definition grad_weight :: "float64 \<Rightarrow> float64" where
  "grad_weight jitter = py_round (max (F 0.05) (F 0.18 + jitter / F 3)) 4"

definition pressure_weight :: "float64 \<Rightarrow> float64 \<Rightarrow> float64" where
  "pressure_weight risk jitter =
     py_round (max (F 0.02) (F 1 - vib_weight risk jitter - temp_weight risk jitter - grad_weight jitter)) 4"

definition shap_rows :: "float64 \<Rightarrow> float64 \<Rightarrow> shap_feature list" where
  "shap_rows risk jitter =
    [\<lparr>sf_name = ''vibration_rms_6h_mean'', sf_weight = vib_weight risk jitter,
       sf_value = py_round (F 3.6 + risk + jitter) 4, sf_rank = 1\<rparr>,
     \<lparr>sf_name = ''bearing_temp_1h_mean'', sf_weight = temp_weight risk jitter,
       sf_value = py_round (F 82 + risk * F 15 + jitter * F 10) 4, sf_rank = 2\<rparr>,
     \<lparr>sf_name = ''bearing_temp_grad_per_hr'', sf_weight = grad_weight jitter,
       sf_value = py_round (F 0.9 + jitter * F 3) 4, sf_rank = 3\<rparr>,
     \<lparr>sf_name = ''pressure_6h_std'', sf_weight = pressure_weight risk jitter,
       sf_value = py_round (F 0.22 + jitter) 4, sf_rank = 4\<rparr>]"

definition build_dynamic_shap_features :: "int \<Rightarrow> int \<Rightarrow> float64 \<Rightarrow> shap_feature list" where
  "build_dynamic_shap_features microsecond hashed risk =
     sorted_desc (\<lambda>f. fabs (sf_weight f)) (shap_rows risk (shap_jitter microsecond hashed))"

definition shap_json :: "shap_feature \<Rightarrow> pyval" where
  "shap_json f = VDict [(''feature_name'', VStr (sf_name f)), (''impact_weight'', VFloat (sf_weight f)),
     (''feature_value'', VFloat (sf_value f)), (''rank'', VInt (sf_rank f))]"

definition shap_narrative :: "shap_feature list \<Rightarrow> str" where
  "shap_narrative features = ''SHAP analysis ranks '' @ sf_name (features ! 0) @
     '' as the current primary driver with '' @ repr_float (sf_weight (features ! 0)) @
     '' impact weight, followed by '' @ sf_name (features ! 1) @
     ''. The pattern matches bearing-overheat failure mode evidence.''"

text \<open>The upstream answer of \<open>GET /xai/explain\<close> is bound and not used.\<close>

definition predictive_explain :: "gateway_env \<Rightarrow> http \<Rightarrow> (str \<Rightarrow> int) \<Rightarrow> int \<Rightarrow> str \<Rightarrow> pyval" where
  "predictive_explain env http hash_of microsecond asset_id =
     (let ai_proxy = try_proxy_ai env http ''GET'' ''/xai/explain'' VNone;
          features = build_dynamic_shap_features microsecond (hash_of asset_id) (F 0.82);
          rows = VList (map shap_json features)
      in VDict [(''success'', VBool True),
        (''data'', VDict [(''explanation_id'', VStr (ge_explanation_uuid env)), (''asset_id'', VStr asset_id),
           (''method'', VStr ''SHAP''), (''scope'', VStr ''LOCAL''), (''base_value'', VFloat (F 0.15)),
           (''predicted_value'', VFloat (F 0.82)), (''local_feature_importance'', rows), (''features'', rows),
           (''global_feature_importance'', VNone),
           (''root_cause'', VDict [
              (''headline'', VStr ''Bearing Overheat driven by elevated vibration and temperature''),
              (''narrative'', VStr (shap_narrative features)),
              (''contributing_failure_modes'', VList [VStr ''failuremode-bearing-overheat''])]),
           (''confidence_matrix'', VList [
              VDict [(''label'', VStr ''Bearing Overheat''), (''confidence'', VFloat (F 0.82))],
              VDict [(''label'', VStr ''Normal Operation''), (''confidence'', VFloat (F 0.18))]]),
           (''model_name'', VStr ''xgboost_failure_classifier_v1''), (''model_version'', VStr ''1.0.0''),
           (''generated_at'', VStr (ge_now env))]),
        (''features'', rows), (''request_id'', VStr (ge_uuid env))])"

section \<open>Properties\<close>

subsection \<open>Assets and the dashboard\<close>

lemma seeded_sel [simp]:
  "pa_id (seeded i name kind status location criticality components) = i"
  "pa_asset_id (seeded i name kind status location criticality components) = i"
  "pa_type (seeded i name kind status location criticality components) = kind"
  "pa_status (seeded i name kind status location criticality components) = status"
  by (simp_all add: seeded_def)

lemma registry_ids: "distinct (map pa_id plant_assets)" "\<forall>a \<in> set plant_assets. pa_asset_id a = pa_id a"
  by (simp_all add: plant_assets_def)

lemma get_asset_by_id_exact: "get_asset_by_id i = Some a \<longleftrightarrow> a \<in> set get_assets \<and> pa_id a = i"
proof
  assume "get_asset_by_id i = Some a"
  then show "a \<in> set get_assets \<and> pa_id a = i"
    using registry_ids(2) by (auto simp: get_asset_by_id_def get_assets_def find_Some_iff)
next
  assume a: "a \<in> set get_assets \<and> pa_id a = i"
  have same: "b = a" if "b \<in> set plant_assets" "pa_id b = i" for b
    using a that registry_ids(1) by (auto simp: get_assets_def distinct_map dest: inj_onD)
  show "get_asset_by_id i = Some a"
  proof (cases "get_asset_by_id i")
    case None
    then show ?thesis using a by (auto simp: get_asset_by_id_def get_assets_def find_None_iff)
  next
    case (Some b)
    then have "b \<in> set plant_assets" "pa_id b = i"
      using registry_ids(2) by (auto simp: get_asset_by_id_def find_Some_iff)
    with Some same show ?thesis by simp
  qed
qed

lemma unknown_asset_404: "get_asset_by_id i = None \<longleftrightarrow> i \<notin> pa_id ` set get_assets"
proof (cases "get_asset_by_id i")
  case (Some a)
  then show ?thesis using get_asset_by_id_exact [of i a] by auto
qed (use get_asset_by_id_exact [of i] in auto)

text \<open>The statuses partition the registry, and the literal counts by type are those of the registry.\<close>

lemma registry_counts:
  "length get_assets = length (with_status ''OPERATIONAL'' get_assets) + length (with_status ''DEGRADED'' get_assets)"
  "list_all (\<lambda>(k, n). n = int (length (filter (\<lambda>a. pa_type a = k) get_assets))) declared_by_type"
  "map pa_type get_assets \<in> lists (fst ` set declared_by_type)"
  by (simp_all add: get_assets_def plant_assets_def with_status_def declared_by_type_def)

definition counter :: "str \<Rightarrow> pyval \<Rightarrow> int option" where
  "counter k v = (case v of VDict d \<Rightarrow> (case map_of d k of Some (VInt n) \<Rightarrow> Some n | _ \<Rightarrow> None) | _ \<Rightarrow> None)"

definition answer_data :: "pyval \<Rightarrow> pyval" where
  "answer_data v = (case v of VDict d \<Rightarrow> dict_default d ''data'' VNone | _ \<Rightarrow> VNone)"

text \<open>In every store the operations can reach, the dashboard agrees with the other endpoints:
  its critical alerts are all the alerts \<open>/alerts/active\<close> lists, because no alert is of another
  severity, its total is the total of \<open>/assets\<close> and the sum of its operational and degraded
  assets; and an asset is found by its identifier exactly when the list has it, and answered 404
  otherwise.\<close>

theorem dashboard_consistent:
  assumes "store_reaches s"
  shows "counter ''critical_alerts'' (answer_data (dashboard_overview env s)) = counter ''total'' (active_alerts_endpoint env s)
    \<and> counter ''total_assets'' (answer_data (dashboard_overview env s)) = counter ''total'' (list_assets env)
    \<and> counter ''total_assets'' (answer_data (dashboard_overview env s)) =
        Some (the (counter ''operational_assets'' (answer_data (dashboard_overview env s)))
          + the (counter ''degraded_assets'' (answer_data (dashboard_overview env s))))
    \<and> (if i \<in> pa_id ` set get_assets
       then \<exists>a \<in> set get_assets. pa_id a = i \<and>
         get_asset i = Inr (VDict [(''success'', VBool True), (''data'', asset_json a), (''asset'', asset_json a)])
       else get_asset i = Inl (HTTPException 404 (''Asset '' @ i @ '' not found'')))"
proof -
  have "list_all alert_ok (gs_alerts s)" using store_reaches_ok [OF assms] ..
  then have "filter (\<lambda>a. al_severity a = ''CRITICAL'') (get_active_alerts s) = get_active_alerts s"
    by (intro filter_True) (auto simp: get_active_alerts_def list_all_iff alert_ok_def)
  moreover have "\<exists>a \<in> set get_assets. pa_id a = i \<and> get_asset_by_id i = Some a" if "i \<in> pa_id ` set get_assets"
    using that get_asset_by_id_exact by blast
  ultimately show ?thesis
    using registry_counts(1) unknown_asset_404 [of i]
    by (auto simp: counter_def answer_data_def dashboard_overview_def active_alerts_endpoint_def list_assets_def
        vcount_def Let_def dict_default_def get_asset_def)
qed

theorem dashboard_consistent_witness:
  "let s = snd (inject_alert ''i'' ''a'' ''t'' ''t'' ''machine07'' ''temp'' 1 initial_store);
       env = \<lparr>ge_now = ''t'', ge_uuid = ''u'', ge_explanation_uuid = ''e'', ge_ai_service_url = ''http://ai'',
         ge_fallback = True, ge_strict_degrade = False\<rparr>
   in counter ''critical_alerts'' (answer_data (dashboard_overview env s)) = Some 1"
proof -
  let ?s = "snd (inject_alert ''i'' ''a'' ''t'' ''t'' ''machine07'' ''temp'' 1 initial_store)"
  let ?env = "\<lparr>ge_now = ''t'', ge_uuid = ''u'', ge_explanation_uuid = ''e'', ge_ai_service_url = ''http://ai'',
         ge_fallback = True, ge_strict_degrade = False\<rparr>"
  have "store_reaches ?s" by (rule reaches_step [OF reaches_initial step_inject])
  from dashboard_consistent [OF this, of ?env] have
    "counter ''critical_alerts'' (answer_data (dashboard_overview ?env ?s)) = counter ''total'' (active_alerts_endpoint ?env ?s)"
    by (rule conjunct1)
  also have "\<dots> = Some 1"
    by (simp add: counter_def active_alerts_endpoint_def inject_alert_def new_alert_def initial_store_def
        get_active_alerts_def is_active_def Let_def)
  finally show ?thesis by (simp only: Let_def)
qed

subsection \<open>The ranking of the explanation\<close>

lemma sorted_desc_id: "sorted_wrt (\<lambda>a b. f b \<le> f a) xs \<Longrightarrow> sorted_desc f xs = xs"
  by (subst sorted_desc_def, subst sort_key_id_if_sorted) (simp_all add: sorted_map sorted_wrt_rev)

lemma shap_jitter_bounds: "0 \<le> shap_jitter m h" "shap_jitter m h \<le> F 0.2"
proof -
  have small: "of_int64 (k mod n) / F d \<le> F (of_int (n - 1)) / F d" "0 \<le> of_int64 (k mod n) / F d"
    if "0 < n" "0 \<le> d" for k n d
    using that by (auto simp: of_int64_def simp del: of_int_diff intro!: f64_divide_right_mono f64_divide_nonneg F_nonneg F_mono)
  have "F 996 / F 9970 \<le> F 0.1" "F 12 / F 1000 \<le> F 0.1" "F 0.1 + F 0.1 = F 0.2" by code_simp+
  then show "shap_jitter m h \<le> F 0.2"
    using f64_add_mono [OF order_trans [OF small(1) [of 997 9970 m]] order_trans [OF small(1) [of 13 1000 "\<bar>h\<bar>"]], of "F 0.1" "F 0.1"]
    by (simp add: shap_jitter_def)
  show "0 \<le> shap_jitter m h"
    unfolding shap_jitter_def by (intro f64_add_nonneg small(2)) simp_all
qed

text \<open>The constant parts of the weights at the risk of the handler.\<close>

lemma weight_thresholds:
  "F 0.82 \<le> (F 0.92 :: float64)" "F 0.42 \<le> (F 0.92 :: float64)" "F 0.3 \<le> (F 0.82 :: float64)"
  "F 0.02 \<le> (F 0.18 :: float64)" "F 0.05 \<le> (F 0.82 :: float64)" "0 \<le> (F 0.02 :: float64)"
  by (intro F_mono F_nonneg; simp)+

lemma weight_base: "F 0.24 + F 0.82 * F 0.08 \<le> F 0.34 + F 0.82 * F 0.10"
  by (intro f64_add_mono f64_mult_left_mono F_mono F_nonneg) simp_all

lemma weight_rounded: "py_round (F 0.42) 4 = F 0.42" "py_round (F 0.3) 4 = F 0.3" "py_round (F 0.18) 4 = F 0.18"
  by code_simp+

lemma weight_sums: "F 0.42 \<le> F 0.34 + F 0.82 * F 0.10" "F 0.3 \<le> F 0.24 + F 0.82 * F 0.08"
  "F 1 - F 0.42 - F 0.3 - F 0.18 \<le> F 0.18"
  by code_simp+

lemma weight_cap: "F 0.18 + F 0.2 / F 3 \<le> F 0.82"
  by code_simp

text \<open>Whatever the jitter, each weight is at most the one before it.\<close>

lemma weights_descend:
  assumes j: "0 \<le> j" "j \<le> F 0.2"
  shows "temp_weight (F 0.82) j \<le> vib_weight (F 0.82) j" "grad_weight j \<le> temp_weight (F 0.82) j"
    "pressure_weight (F 0.82) j \<le> grad_weight j" "0 \<le> pressure_weight (F 0.82) j"
proof -
  have half: "j / F 2 \<le> j" "j / F 3 \<le> j / F 2" "0 \<le> j / F 3" "0 \<le> j / F 2"
    using f64_divide_left_antimono [OF j(1), of 1 "F 2"] f64_divide_left_antimono [OF j(1), of "F 2" "F 3"]
      F_mono [of 1 2] F_mono [of 2 3] f64_divide_nonneg [OF j(1) F_nonneg [of 2]] f64_divide_nonneg [OF j(1) F_nonneg [of 3]]
    by (auto intro: less_le_trans [OF f64_0_less_1(1)])
  show "temp_weight (F 0.82) j \<le> vib_weight (F 0.82) j"
    unfolding temp_weight_def vib_weight_def
    by (intro py_round_mono min.mono f64_add_mono weight_base weight_thresholds half)
  have third: "F 0.18 + j / F 3 \<le> F 0.82"
    by (rule order_trans [OF f64_add_mono weight_cap]) (intro f64_divide_right_mono j F_nonneg order_refl; simp)+
  have temp: "F 0.18 + j / F 3 \<le> F 0.24 + F 0.82 * F 0.08 + j / F 2"
    by (intro f64_add_mono half order_trans [OF _ weight_sums(2)] F_mono) simp
  have low: "F 0.05 \<le> F 0.24 + F 0.82 * F 0.08 + j / F 2"
    by (rule f64_le_add [OF order_trans [OF F_mono weight_sums(2)] half(4)]) simp
  show "grad_weight j \<le> temp_weight (F 0.82) j"
    unfolding grad_weight_def temp_weight_def
    by (intro py_round_mono max.boundedI min.boundedI weight_thresholds third temp low)
  have "F 0.42 \<le> vib_weight (F 0.82) j"
    unfolding vib_weight_def by (subst weight_rounded(1) [symmetric], intro py_round_mono min.boundedI weight_thresholds
      f64_le_add weight_sums j)
  moreover have "F 0.3 \<le> temp_weight (F 0.82) j"
    unfolding temp_weight_def by (subst weight_rounded(2) [symmetric], intro py_round_mono min.boundedI weight_thresholds
      f64_le_add weight_sums half)
  moreover have "F 0.18 \<le> grad_weight j"
    unfolding grad_weight_def by (subst weight_rounded(3) [symmetric], intro py_round_mono max.coboundedI2
      f64_le_add order_refl half)
  ultimately have "F 1 - vib_weight (F 0.82) j - temp_weight (F 0.82) j - grad_weight j \<le> F 0.18"
    by (intro order_trans [OF _ weight_sums(3)] f64_diff_mono order_refl)
  then have "max (F 0.02) (F 1 - vib_weight (F 0.82) j - temp_weight (F 0.82) j - grad_weight j)
      \<le> max (F 0.05) (F 0.18 + j / F 3)"
    by (intro max.boundedI max.coboundedI2 f64_le_add [OF _ half(3)] weight_thresholds)
  then show "pressure_weight (F 0.82) j \<le> grad_weight j"
    unfolding pressure_weight_def grad_weight_def by (rule py_round_mono)
  show "0 \<le> pressure_weight (F 0.82) j"
    unfolding pressure_weight_def by (intro py_round_nonneg max.coboundedI1 weight_thresholds)
qed

lemma fabs_nonneg: "0 \<le> x \<Longrightarrow> fabs x = x"
  by (auto simp: fabs_def dest: leD)

lemma shap_rows_descend:
  assumes "0 \<le> j" "j \<le> F 0.2"
  shows "sorted_wrt (\<lambda>a b. fabs (sf_weight b) \<le> fabs (sf_weight a)) (shap_rows (F 0.82) j)"
    and "list_all (\<lambda>f. 0 \<le> sf_weight f) (shap_rows (F 0.82) j)"
proof -
  note w = weights_descend [OF assms]
  have pos: "0 \<le> grad_weight j" "0 \<le> temp_weight (F 0.82) j" "0 \<le> vib_weight (F 0.82) j"
    using w by order+
  show "sorted_wrt (\<lambda>a b. fabs (sf_weight b) \<le> fabs (sf_weight a)) (shap_rows (F 0.82) j)"
    using w pos by (auto simp: shap_rows_def fabs_nonneg intro: order_trans)
  show "list_all (\<lambda>f. 0 \<le> sf_weight f) (shap_rows (F 0.82) j)"
    using w pos by (simp add: shap_rows_def)
qed

text \<open>The explanation the gateway builds is a ranking: the weights are nonnegative and descend,
  and the rank each feature carries is its place in the list. It is the same ranking for every
  asset, hash seed and instant: the jitter never reorders the features, so vibration is the primary
  driver of every asset, whatever its telemetry, and the narrative that names it is fixed up to the
  printed weight; and the answer of the upstream explainer has no influence on it.\<close>

theorem explanation_ranking_fixed:
  "let fs = build_dynamic_shap_features microsecond hashed (F 0.82)
   in map sf_rank fs = [1, 2, 3, 4]
     \<and> map sf_name fs = [''vibration_rms_6h_mean'', ''bearing_temp_1h_mean'', ''bearing_temp_grad_per_hr'', ''pressure_6h_std'']
     \<and> list_all (\<lambda>f. 0 \<le> sf_weight f) fs \<and> sorted_wrt (\<lambda>a b. sf_weight b \<le> sf_weight a) fs
     \<and> predictive_explain env http hash_of microsecond asset_id = predictive_explain env http' hash_of microsecond asset_id"
proof -
  let ?j = "shap_jitter microsecond hashed"
  note rows = shap_rows_descend [OF shap_jitter_bounds [of microsecond hashed]]
  have fs: "build_dynamic_shap_features microsecond hashed (F 0.82) = shap_rows (F 0.82) ?j"
    unfolding build_dynamic_shap_features_def by (rule sorted_desc_id [OF rows(1)])
  have "sorted_wrt (\<lambda>a b. sf_weight b \<le> sf_weight a) (shap_rows (F 0.82) ?j)"
    using rows(1) by (rule sorted_wrt_mono_rel [rotated]) (use rows(2) in \<open>auto simp: list_all_iff fabs_nonneg\<close>)
  then show ?thesis
    using rows(2) unfolding Let_def fs
    by (intro conjI; (assumption | (simp only: predictive_explain_def Let_def; fail) | simp add: shap_rows_def))
qed

text \<open>\<open>_build_dynamic_shap_features\<close> promises impacts that vary by asset; the narrative does not.\<close>

lemma narrative_always_vibration:
  "starts_with ''SHAP analysis ranks vibration_rms_6h_mean as the current primary driver''
     (shap_narrative (build_dynamic_shap_features microsecond hashed (F 0.82)))"
proof -
  have "build_dynamic_shap_features microsecond hashed (F 0.82) = shap_rows (F 0.82) (shap_jitter microsecond hashed)"
    unfolding build_dynamic_shap_features_def
    by (rule sorted_desc_id [OF shap_rows_descend(1) [OF shap_jitter_bounds]])
  then show ?thesis by (simp add: shap_narrative_def shap_rows_def starts_with_iff)
qed

end
