(* ===== verification/Extractor.thy ===== *)
theory Extractor
  imports Ingestion_Pipeline
begin

section \<open>The extraction engine\<close>

text \<open>
  \<open>app/ingestion/extractor.py\<close>: the deterministic extractor, the model-backed extractor with its
  fallback, and the post-processing both share. The call of the language model is a parameter that
  may raise; the time stamp of a result is left out.
\<close>

subsection \<open>Relationships and messages\<close>

definition mk_extracted_relationship :: "extracted_relationship \<Rightarrow> extracted_relationship res" where
  "mk_extracted_relationship r =
     (let r1 = r\<lparr>er_source_id := py_strip (er_source_id r), er_target_id := py_strip (er_target_id r),
            er_chunk_id := map_option py_strip (er_chunk_id r), er_evidence_text := map_option py_strip (er_evidence_text r)\<rparr>
      in require (0 \<le> er_confidence r1 \<and> er_confidence r1 \<le> 1) (ValidationError ''confidence'') (Inr r1))"

fun ontology_message :: "ontology_error \<Rightarrow> str" where
  "ontology_message (SourceMissing i) = ''Relationship source '' @ i @ '' not in extracted entities''"
| "ontology_message (TargetMissing i) = ''Relationship target '' @ i @ '' not in extracted entities''"
| "ontology_message (TripleNotAllowed (s, r, t)) =
     ''Triple not in RELATIONSHIP_CATALOG: ('' @ join '', '' (map repr_str [s, r, t]) @ '')''"
| "ontology_message (AnomalyPropsMissing s t) = ''EXHIBITS_ANOMALY missing required props: '' @ s @ ''->'' @ t"
| "ontology_message (StepNumberMissing s t) = ''HAS_STEP missing sequence_number: '' @ s @ ''->'' @ t"

subsection \<open>What the text mentions\<close>

text \<open>\<open>\bP-?101A\b\<close>, matched against the text in lower case as the code does.\<close>

definition match_pump_tag :: "char option \<Rightarrow> str \<Rightarrow> unit option" where
  "match_pump_tag prev s =
     (if word_starts prev
         \<and> (starts_with ''P-101A'' s \<and> word_ends (drop 6 s) \<or> starts_with ''P101A'' s \<and> word_ends (drop 5 s))
      then Some () else None)"

text \<open>\<open>\bstep\s*1\b|1\.\s*isolate\<close>.\<close>

definition match_step_one :: "char option \<Rightarrow> str \<Rightarrow> unit option" where
  "match_step_one prev s =
     (let r = dropWhile is_space (drop 4 s)
      in if word_starts prev \<and> starts_with ''step'' s \<and> starts_with ''1'' r \<and> word_ends (drop 1 r)
            \<or> starts_with ''1.'' s \<and> starts_with ''isolate'' (dropWhile is_space (drop 2 s))
         then Some () else None)"

definition mentions_pump :: "str \<Rightarrow> bool" where
  "mentions_pump lt \<longleftrightarrow> re_search match_pump_tag None lt \<noteq> None
     \<or> list_ex (\<lambda>w. contains w lt) [''pumpa'', ''pump a'', ''pump-a'', ''centrifugal pump'']"

definition bearing_position :: "str \<Rightarrow> str" where
  "bearing_position lt =
     (if contains ''drive'' lt \<or> contains ''de'' lt then ''DE''
      else if contains ''nde'' lt \<or> contains ''non-drive'' lt then ''NDE'' else ''DE'')"

definition mentions_any :: "str list \<Rightarrow> str \<Rightarrow> bool" where
  "mentions_any ws lt = list_ex (\<lambda>w. contains w lt) ws"

text \<open>The detections in the order of the code: condition, identifier, label, name, properties.\<close>

type_synonym detection = "bool \<times> str \<times> entity_label \<times> str \<times> (str \<times> pyval) list"

definition pump_id :: str where "pump_id = ''asset:SRP:P-101A''"
definition bearing_id :: str where "bearing_id = ''component:P-101A:BEARING:DE''"
definition temperature_id :: str where "temperature_id = ''sensor:SRP:TE-101A-DE''"
definition vibration_id :: str where "vibration_id = ''sensor:SRP:VE-101A-DE''"
definition overheat_id :: str where "overheat_id = ''failuremode:ROTARY_EQUIPMENT:BEARING:overheat''"
definition imbalance_id :: str where "imbalance_id = ''failuremode:ROTARY_EQUIPMENT:BEARING:imbalance''"
definition lubrication_id :: str where "lubrication_id = ''rootcause:MAINTENANCE:under_lubrication''"
definition sop_id :: str where "sop_id = ''sop:SOP-114:REV-C''"
definition sop_step_id :: str where "sop_step_id = ''sopstep:sop:SOP-114:REV-C:1''"
definition tool_id :: str where "tool_id = ''tooling:TORQUE-WRENCH-50NM''"

lemmas mock_ids = pump_id_def bearing_id_def temperature_id_def vibration_id_def overheat_id_def imbalance_id_def
  lubrication_id_def sop_id_def sop_step_id_def tool_id_def

definition detections :: "str \<Rightarrow> detection list" where
  "detections lt =
     (let pos = bearing_position lt; sop = mentions_any [''sop'', ''lubrication'', ''procedure''] lt
      in [(mentions_pump lt, pump_id, LAsset, ''Pump P-101A'',
             [(''asset_type'', VStr ''PUMP''), (''equipment_class'', VStr ''ROTARY_EQUIPMENT'')]),
          (contains ''bearing'' lt, ''component:P-101A:BEARING:'' @ pos, LComponent,
             if pos = ''DE'' then ''Drive-end bearing'' else ''Bearing'', [(''component_type'', VStr ''BEARING'')]),
          (mentions_any [''te-101a'', ''temperature sensor'', ''rtd'', ''bearing_temp''] lt, temperature_id, LSensor,
             ''Drive-end bearing RTD'',
             [(''sensor_category'', VStr ''THERMAL''), (''metric'', VStr ''bearing_temp''), (''unit'', VStr ''CELSIUS'')]),
          (mentions_any [''vibration'', ''accelerometer'', ''ve-''] lt, vibration_id, LSensor, ''Drive-end vibration probe'',
             [(''sensor_category'', VStr ''VIBRATION''), (''metric'', VStr ''vibration_rms''), (''unit'', VStr ''MM_S'')]),
          (mentions_any [''overheat'', ''high temperature'', ''bearing_temp''] lt, overheat_id, LFailureMode, ''Bearing overheat'',
             [(''severity_tier'', VStr ''DEGRADED'')]),
          (mentions_any [''imbalance'', ''vibration''] lt \<and> contains ''imbalance'' lt, imbalance_id, LFailureMode,
             ''Bearing imbalance'', [(''severity_tier'', VStr ''DEGRADED'')]),
          (contains ''lubricat'' lt, lubrication_id, LRootCause, ''Under-lubrication'', []),
          (sop, sop_id, LSop, ''SOP-114 Bearing Lubrication'', []),
          (sop \<and> re_search match_step_one None lt \<noteq> None, sop_step_id, LSopStep, ''Isolate pump'', []),
          (mentions_any [''torque'', ''wrench'', ''tool''] lt, tool_id, LTooling, ''50 Nm torque wrench'', [])])"

definition mock_entity :: "chunk_metadata \<Rightarrow> str \<Rightarrow> str \<times> entity_label \<times> str \<times> (str \<times> pyval) list \<Rightarrow> extracted_entity res" where
  "mock_entity chunk s d = (case d of (i, label, name, props) \<Rightarrow>
     mk_extracted_entity \<lparr>ee_entity_id = i, ee_label = label, ee_display_name = name, ee_confidence = F 0.92,
       ee_asset_type = None, ee_equipment_class = None, ee_component_type = None, ee_sensor_category = None,
       ee_metric = None, ee_unit = None, ee_severity_tier = None, ee_properties = props, ee_aliases = [],
       ee_chunk_id = Some (cm_chunk_id chunk), ee_source_span = Some (take 240 s)\<rparr>)"

fun add_detected ::
  "chunk_metadata \<Rightarrow> str \<Rightarrow> detection list \<Rightarrow> extracted_entity list \<Rightarrow> extracted_entity list res" where
  "add_detected chunk s [] es = Inr es"
| "add_detected chunk s ((found, d) # ds) es =
     (if found \<and> fst d \<notin> set (map ee_entity_id es)
      then bind_res (mock_entity chunk s d) (\<lambda>e. add_detected chunk s ds (es @ [e]))
      else add_detected chunk s ds es)"

subsection \<open>The edges between them\<close>

type_synonym edge_rule = "str \<times> entity_label \<times> relation_type \<times> str \<times> entity_label \<times> (str \<times> pyval) list"

definition edge_rules :: "edge_rule list" where
  "edge_rules =
     [(pump_id, LAsset, COMPRISED_OF, bearing_id, LComponent, []),
      (bearing_id, LComponent, MONITORED_BY, temperature_id, LSensor, []),
      (bearing_id, LComponent, MONITORED_BY, vibration_id, LSensor, []),
      (temperature_id, LSensor, EXHIBITS_ANOMALY, overheat_id, LFailureMode,
         [(''metric'', VStr ''bearing_temp''), (''confidence_weight'', VFloat (F 0.87))]),
      (vibration_id, LSensor, EXHIBITS_ANOMALY, imbalance_id, LFailureMode,
         [(''metric'', VStr ''vibration_rms''), (''confidence_weight'', VFloat (F 0.82))]),
      (overheat_id, LFailureMode, TRIGGERED_BY, lubrication_id, LRootCause, []),
      (overheat_id, LFailureMode, MITIGATED_BY, sop_id, LSop, [(''effectiveness'', VFloat (F 0.91))]),
      (sop_id, LSop, REQUIRES_TOOL, tool_id, LTooling, [(''quantity'', VInt 1)]),
      (sop_id, LSop, HAS_STEP, sop_step_id, LSopStep, [(''sequence_number'', VInt 1)])]"

definition mock_edge :: "chunk_metadata \<Rightarrow> str \<Rightarrow> edge_rule \<Rightarrow> extracted_relationship res" where
  "mock_edge chunk s d = (case d of (sid, slabel, rel, tid, tlabel, props) \<Rightarrow>
     mk_extracted_relationship \<lparr>er_source_id = sid, er_source_label = slabel, er_relationship = rel,
       er_target_id = tid, er_target_label = tlabel, er_confidence = F 0.9, er_properties = props,
       er_chunk_id = Some (cm_chunk_id chunk), er_evidence_text = Some (take 200 s)\<rparr>)"

definition relate :: "chunk_metadata \<Rightarrow> str \<Rightarrow> str list \<Rightarrow> edge_rule list \<Rightarrow> extracted_relationship list res" where
  "relate chunk s ids rules =
     map_res (mock_edge chunk s) (filter (\<lambda>(sid, _, _, tid, _). sid \<in> set ids \<and> tid \<in> set ids) rules)"

definition mock_extract :: "chunk_metadata \<Rightarrow> str \<Rightarrow> extraction_result res" where
  "mock_extract chunk s =
     bind_res (add_detected chunk s (detections (py_lower s)) []) (\<lambda>es.
     bind_res (relate chunk s (map ee_entity_id es) edge_rules) (\<lambda>rels.
     Inr \<lparr>xr_chunk_id = cm_chunk_id chunk, xr_document_id = cm_document_id chunk, xr_entities = es,
       xr_relationships = rels, xr_extraction_model = ''phase3-mock-deterministic-v1'',
       xr_warnings = (if es \<noteq> [] then [] else [''no_industrial_entities_detected''])\<rparr>))"

subsection \<open>The engine\<close>

text \<open>\<open>engine_llm = None\<close> when there is no client.\<close>

record engine =
  en_use_mock :: bool
  en_llm :: "(chunk_metadata \<Rightarrow> str \<Rightarrow> extraction_result res) option"

definition llm_extract :: "engine \<Rightarrow> chunk_metadata \<Rightarrow> str \<Rightarrow> extraction_result res" where
  "llm_extract en chunk s =
     (case en_llm en of
        None \<Rightarrow> mock_extract chunk s
      | Some llm \<Rightarrow>
          (case llm chunk s of
             Inr r \<Rightarrow> Inr (r\<lparr>xr_chunk_id := cm_chunk_id chunk, xr_document_id := cm_document_id chunk\<rparr>)
           | Inl e \<Rightarrow> bind_res (mock_extract chunk s) (\<lambda>r.
               Inr (r\<lparr>xr_warnings := xr_warnings r @ [''llm_fallback: '' @ err_text e]\<rparr>))))"

definition postprocess :: "extraction_result \<Rightarrow> extraction_result" where
  "postprocess r =
     (let r1 = r\<lparr>xr_entities := deduplicate_entities (xr_entities r)\<rparr>
      in r1\<lparr>xr_warnings := xr_warnings r1 @ map ontology_message (validate_ontology_constraints r1)\<rparr>)"

definition extract_entities :: "engine \<Rightarrow> chunk_metadata \<Rightarrow> str \<Rightarrow> extraction_result res" where
  "extract_entities en chunk given =
     (let s = (if given \<noteq> [] then given else cm_text chunk)
      in if s = []
         then Inr \<lparr>xr_chunk_id = cm_chunk_id chunk, xr_document_id = cm_document_id chunk, xr_entities = [],
           xr_relationships = [], xr_extraction_model = ''phase3-industrial-ie-v1'', xr_warnings = [''empty_chunk_text'']\<rparr>
         else map_sum id postprocess (if en_use_mock en then mock_extract chunk s else llm_extract en chunk s))"

section \<open>Properties\<close>

subsection \<open>Dead conditions\<close>

lemma contains_suffix: "contains (a @ p) s \<Longrightarrow> contains p s"
  unfolding contains_iff by (metis append.assoc)

text \<open>The position of a bearing is always the drive end: ``nde'' contains ``de'' and ``non-drive''
  contains ``drive'', so the second test is never reached with a match.\<close>

theorem bearing_position_is_drive_end: "bearing_position lt = ''DE''"
  using contains_suffix [of "''n''" "''de''" lt] contains_suffix [of "''non-''" "''drive''" lt]
  by (auto simp: bearing_position_def)

text \<open>The tag pattern has capital letters and the text was put in lower case: it never matches, so a
  text that names the pump by its tag alone mentions no asset.\<close>

theorem pump_tag_never_matches: "re_search match_pump_tag prev (py_lower s) = None"
proof -
  have "CHR ''P'' \<noteq> lower_char c" for c
  proof
    assume "CHR ''P'' = lower_char c"
    then have "(of_char (lower_char c) :: nat) = 80" by (simp flip: \<open>CHR ''P'' = lower_char c\<close>)
    moreover have "(of_char c :: nat) < 256" by (rule nat_of_char_less_256)
    ultimately show False by (auto simp: lower_char_def Let_def split: if_splits)
  qed
  then have none: "match_pump_tag q (py_lower t) = None" for q t
    by (cases t) (simp_all add: match_pump_tag_def py_lower_def)
  show ?thesis
  proof (induction s arbitrary: prev)
    case (Cons c s)
    then show ?case using none [of prev "c # s"] by (simp add: py_lower_def)
  qed (simp add: none [of _ "[]", unfolded py_lower_def, simplified] py_lower_def)
qed

subsection \<open>The detections\<close>

definition detected_ids :: "str list" where
  "detected_ids = [pump_id, bearing_id, temperature_id, vibration_id, overheat_id, imbalance_id, lubrication_id,
     sop_id, sop_step_id, tool_id]"

lemma distinct_detected_ids: "distinct detected_ids"
  by code_simp

text \<open>The identifier strategy of the ontology: the label in lower case, a colon, and the rest.\<close>

definition labelled :: "str \<Rightarrow> entity_label \<Rightarrow> bool" where
  "labelled i l \<longleftrightarrow> starts_with (py_lower (label_value l) @ '':'') i"

definition settled :: "extracted_entity \<Rightarrow> bool" where
  "settled e \<longleftrightarrow> canonical_id e = ee_entity_id e \<and> labelled (ee_entity_id e) (ee_label e)"

text \<open>What the rest of the engine needs of one detection.\<close>

definition good_detection :: "str \<times> entity_label \<times> str \<times> (str \<times> pyval) list \<Rightarrow> bool" where
  "good_detection d = (case d of (i, label, name, props) \<Rightarrow>
     py_strip i = i \<and> py_strip name = name \<and> CHR '':'' \<in> set i \<and> 5 \<le> length i
     \<and> 1 \<le> length name \<and> length name \<le> 256
     \<and> dict_default canonical_alias_map (normalize_surface_form name) i = i
     \<and> labelled i label)"

lemma bearing_detection: "''component:P-101A:BEARING:'' @ ''DE'' = bearing_id"
  by (simp add: bearing_id_def)

lemma detections_ids: "map (\<lambda>(found, i, _). i) (detections lt) = detected_ids"
  by (simp add: detections_def detected_ids_def Let_def bearing_position_is_drive_end bearing_id_def)

lemma detections_good: "list_all (\<lambda>(found, d). good_detection d) (detections lt)"
  unfolding detections_def Let_def bearing_position_is_drive_end list.pred_inject prod.case
  by (intro conjI TrueI; code_simp)

lemma mock_entity_ok:
  assumes "good_detection d"
  obtains e where "mock_entity chunk s d = Inr e" "ee_entity_id e = fst d" "settled e"
proof -
  have "(0 :: float64) \<le> F 0.92" "F 0.92 \<le> (1 :: float64)" by code_simp+
  then show ?thesis
    using that assms by (cases d) (auto simp: mock_entity_def mk_extracted_entity_def Let_def good_detection_def canonical_id_def
        settled_def)
qed

text \<open>The entities found: the detections that apply, in order, each by its own identifier.\<close>

definition found_ids :: "detection list \<Rightarrow> str list" where
  "found_ids ds = map (\<lambda>(found, i, _). i) (filter fst ds)"

lemma add_detected_ok:
  assumes "list_all (\<lambda>(found, d). good_detection d) ds"
    and "distinct (map ee_entity_id es @ map (\<lambda>(found, i, _). i) ds)"
    and "list_all settled es"
  shows "\<exists>es'. add_detected chunk s ds es = Inr es' \<and> map ee_entity_id es' = map ee_entity_id es @ found_ids ds
    \<and> list_all settled es'"
  using assms
proof (induction ds arbitrary: es)
  case (Cons a ds)
  obtain found d where a: "a = (found, d)" by (cases a)
  have "good_detection d" using Cons.prems(1) by (simp add: a)
  then obtain e where e: "mock_entity chunk s d = Inr e" "ee_entity_id e = fst d" "settled e" by (rule mock_entity_ok)
  show ?case
  proof (cases found)
    case True
    have "\<exists>es'. add_detected chunk s ds (es @ [e]) = Inr es'
      \<and> map ee_entity_id es' = map ee_entity_id (es @ [e]) @ found_ids ds
      \<and> list_all settled es'"
      using Cons.prems e by (intro Cons.IH) (auto simp: a split: prod.splits)
    then show ?thesis
      using Cons.prems(2) True e by (cases d) (auto simp: a found_ids_def)
  next
    case False
    then show ?thesis
      using Cons.IH [of es] Cons.prems by (auto simp: a found_ids_def split: prod.splits)
  qed
qed (auto simp: found_ids_def)

subsection \<open>The edges\<close>

definition good_edge :: "edge_rule \<Rightarrow> bool" where
  "good_edge d = (case d of (sid, slabel, rel, tid, tlabel, props) \<Rightarrow>
     py_strip sid = sid \<and> py_strip tid = tid
     \<and> (label_value slabel, relation_value rel, label_value tlabel) \<in> set allowed_triples
     \<and> labelled sid slabel \<and> labelled tid tlabel
     \<and> (if rel = EXHIBITS_ANOMALY then ''metric'' \<in> fst ` set props \<and> ''confidence_weight'' \<in> fst ` set props else True)
     \<and> (if rel = HAS_STEP then ''sequence_number'' \<in> fst ` set props else True))"

lemma edge_rules_good: "list_all good_edge edge_rules"
  unfolding edge_rules_def list.pred_inject by (intro conjI TrueI; code_simp)

definition edge_settled :: "str list \<Rightarrow> extracted_relationship \<Rightarrow> bool" where
  "edge_settled ids r \<longleftrightarrow> relationship_errors ids r = []
     \<and> labelled (er_source_id r) (er_source_label r) \<and> labelled (er_target_id r) (er_target_label r)"

lemma mock_edge_ok:
  assumes "good_edge d" and "fst d \<in> set ids" and "fst (snd (snd (snd d))) \<in> set ids"
  obtains r where "mock_edge chunk s d = Inr r" "edge_settled ids r"
    "er_source_id r = fst d" "er_target_id r = fst (snd (snd (snd d)))"
proof -
  have "(0 :: float64) \<le> F 0.9" "F 0.9 \<le> (1 :: float64)" by code_simp+
  then show ?thesis
    using that assms
    by (cases d) (auto simp: mock_edge_def mk_extracted_relationship_def Let_def good_edge_def edge_settled_def relationship_errors_def
        triple_key_def has_prop_def split: if_splits)
qed

lemma relate_ok:
  assumes "list_all good_edge rules"
  shows "\<exists>rs. relate chunk s ids rules = Inr rs \<and> list_all (edge_settled ids) rs
    \<and> map (\<lambda>r. (er_source_id r, er_target_id r)) rs
        = filter (\<lambda>(i, j). i \<in> set ids \<and> j \<in> set ids) (map (\<lambda>(i, _, _, j, _). (i, j)) rules)"
  using assms
proof (induction rules)
  case (Cons d rules)
  obtain sid slabel rel tid tlabel props where d: "d = (sid, slabel, rel, tid, tlabel, props)" by (cases d)
  show ?case
  proof (cases "sid \<in> set ids \<and> tid \<in> set ids")
    case True
    then obtain r where "mock_edge chunk s d = Inr r" "edge_settled ids r"
        "er_source_id r = fst d" "er_target_id r = fst (snd (snd (snd d)))"
      using Cons.prems by (auto intro: mock_edge_ok [of d ids chunk s] simp: d)
    then show ?thesis using Cons True by (auto simp: relate_def d)
  qed (use Cons in \<open>auto simp: relate_def d\<close>)
qed (simp add: relate_def)

subsection \<open>The result\<close>

lemma foldl_add_entity:
  assumes "distinct (map fst d @ map ee_entity_id es)" and "list_all settled es"
  shows "foldl add_entity d es = d @ map (\<lambda>e. (ee_entity_id e, first_seen e)) es"
  using assms
proof (induction es arbitrary: d)
  case (Cons e es)
  then have new: "ee_entity_id e \<notin> fst ` set d" by auto
  then have "map_of d (ee_entity_id e) = None" by (simp add: map_of_eq_None_iff)
  then have "add_entity d e = d @ [(ee_entity_id e, first_seen e)]"
    using Cons.prems(2) new by (simp add: add_entity_def settled_def update_new)
  moreover have "foldl add_entity (d @ [(ee_entity_id e, first_seen e)]) es
      = (d @ [(ee_entity_id e, first_seen e)]) @ map (\<lambda>e. (ee_entity_id e, first_seen e)) es"
    using Cons.prems by (intro Cons.IH) auto
  ultimately show ?case by simp
qed simp

lemma deduplicate_settled:
  "distinct (map ee_entity_id es) \<Longrightarrow> list_all settled es \<Longrightarrow> deduplicate_entities es = map first_seen es"
  using foldl_add_entity [of "[]" es] by (simp add: deduplicate_entities_def comp_def)

lemma first_seen_settled: "settled e \<Longrightarrow> ee_entity_id (first_seen e) = ee_entity_id e \<and> ee_label (first_seen e) = ee_label e"
  by (simp add: first_seen_def settled_def Let_def)

definition edge_pairs :: "(str \<times> str) list" where
  "edge_pairs = map (\<lambda>(i, _, _, j, _). (i, j)) edge_rules"

text \<open>The text an extraction reads.\<close>

definition extraction_text :: "chunk_metadata \<Rightarrow> str \<Rightarrow> str" where
  "extraction_text chunk given = (if given \<noteq> [] then given else cm_text chunk)"

lemma mock_extract_ok:
  obtains es rs where "mock_extract chunk s = Inr \<lparr>xr_chunk_id = cm_chunk_id chunk, xr_document_id = cm_document_id chunk,
      xr_entities = es, xr_relationships = rs, xr_extraction_model = ''phase3-mock-deterministic-v1'',
      xr_warnings = (if es \<noteq> [] then [] else [''no_industrial_entities_detected''])\<rparr>"
    "map ee_entity_id es = found_ids (detections (py_lower s))" "distinct (map ee_entity_id es)" "list_all settled es"
    "list_all (edge_settled (map ee_entity_id es)) rs"
    "map (\<lambda>r. (er_source_id r, er_target_id r)) rs
       = filter (\<lambda>(i, j). i \<in> set (map ee_entity_id es) \<and> j \<in> set (map ee_entity_id es)) edge_pairs"
proof -
  let ?ds = "detections (py_lower s)"
  obtain es where es: "add_detected chunk s ?ds [] = Inr es" "map ee_entity_id es = found_ids ?ds" "list_all settled es"
    using add_detected_ok [of ?ds "[]" chunk s] detections_good [of "py_lower s"] distinct_detected_ids
    by (auto simp: detections_ids)
  obtain rs where rs: "relate chunk s (map ee_entity_id es) edge_rules = Inr rs"
    "list_all (edge_settled (map ee_entity_id es)) rs"
    "map (\<lambda>r. (er_source_id r, er_target_id r)) rs
       = filter (\<lambda>(i, j). i \<in> set (map ee_entity_id es) \<and> j \<in> set (map ee_entity_id es)) edge_pairs"
    using relate_ok [OF edge_rules_good, of chunk s "map ee_entity_id es"] by (auto simp: edge_pairs_def)
  have "distinct (found_ids ?ds)"
    unfolding found_ids_def using distinct_map_filter [of "\<lambda>(found, i, _). i" ?ds fst] distinct_detected_ids
    by (simp add: detections_ids)
  then show ?thesis using that [of es rs] es rs by (simp add: mock_extract_def)
qed

text \<open>C21. For every chunk the deterministic extractor returns a result that satisfies the ontology:
  it holds exactly the entities its detections find in the text, once each, under identifiers that
  begin with their label and that resolution keeps, and exactly the edges of its rules between them,
  every one an allowed triple with its endpoints among the entities and its required properties; so
  no warning is added, and an empty text is reported as such.\<close>

theorem mock_extraction_valid:
  "case extract_entities \<lparr>en_use_mock = True, en_llm = llm\<rparr> chunk given of
     Inl e \<Rightarrow> False
   | Inr r \<Rightarrow> xr_chunk_id r = cm_chunk_id chunk \<and> xr_document_id r = cm_document_id chunk
       \<and> (let s = extraction_text chunk given; ids = found_ids (detections (py_lower s))
          in if s = [] then xr_entities r = [] \<and> xr_relationships r = [] \<and> xr_warnings r = [''empty_chunk_text'']
             else map ee_entity_id (xr_entities r) = ids \<and> distinct ids
               \<and> list_all (\<lambda>x. labelled (ee_entity_id x) (ee_label x)) (xr_entities r)
               \<and> list_all (edge_settled ids) (xr_relationships r) \<and> validate_ontology_constraints r = []
               \<and> map (\<lambda>r. (er_source_id r, er_target_id r)) (xr_relationships r)
                   = filter (\<lambda>(i, j). i \<in> set ids \<and> j \<in> set ids) edge_pairs
               \<and> xr_warnings r = (if ids = [] then [''no_industrial_entities_detected''] else []))"
proof (cases "extraction_text chunk given = []")
  case False
  let ?s = "extraction_text chunk given"
  obtain es rs where m: "mock_extract chunk ?s = Inr \<lparr>xr_chunk_id = cm_chunk_id chunk, xr_document_id = cm_document_id chunk,
      xr_entities = es, xr_relationships = rs, xr_extraction_model = ''phase3-mock-deterministic-v1'',
      xr_warnings = (if es \<noteq> [] then [] else [''no_industrial_entities_detected''])\<rparr>"
    and ids: "map ee_entity_id es = found_ids (detections (py_lower ?s))" and dist: "distinct (map ee_entity_id es)"
    and set: "list_all settled es" and rs: "list_all (edge_settled (map ee_entity_id es)) rs"
    "map (\<lambda>r. (er_source_id r, er_target_id r)) rs
       = filter (\<lambda>(i, j). i \<in> set (map ee_entity_id es) \<and> j \<in> set (map ee_entity_id es)) edge_pairs"
    by (rule mock_extract_ok)
  have same: "map ee_entity_id (map first_seen es) = map ee_entity_id es"
    using set by (auto simp: list_all_iff first_seen_settled)
  have lab: "list_all (\<lambda>x. labelled (ee_entity_id x) (ee_label x)) (map first_seen es)"
    using set by (auto simp: list_all_iff first_seen_settled settled_def)
  have valid: "concat (map (relationship_errors (map ee_entity_id es)) rs) = []"
    using rs(1) by (auto simp: list_all_iff edge_settled_def)
  have "es = [] \<longleftrightarrow> found_ids (detections (py_lower ?s)) = []" using ids by (metis map_is_Nil_conv)
  then show ?thesis
    using False m ids dist rs lab valid same
    by (simp add: extract_entities_def extraction_text_def [symmetric] postprocess_def deduplicate_settled [OF dist set]
        validate_ontology_constraints_def Let_def del: map_map)
       metis
qed (simp add: extract_entities_def extraction_text_def Let_def)

end
