(* ===== verification/Graph_Repository.thy ===== *)
theory Graph_Repository
  imports PyVal
begin

section \<open>The graph repository\<close>

text \<open>
  \<open>app/graph/graph_repository.py\<close>: the serialisation of properties, the statement builders and the
  repository on top of a database session. A statement is a value; \<open>cypher\<close> is the text the driver
  is given. The session is a parameter that maps a statement, its parameters and a graph to rows or
  an exception, and the next graph. What the callers rely on is the locale \<open>graph_database\<close>.
\<close>

subsection \<open>Properties\<close>

text \<open>\<open>json.dumps\<close> with compact separators: characters outside printable ASCII are escaped.\<close>

definition json_char :: "char \<Rightarrow> str" where
  "json_char c =
     (let n = (of_char c :: nat)
      in if n = 34 \<or> n = 92 then [CHR 0x5C, c]
         else if n = 10 then [CHR 0x5C, CHR ''n'']
         else if n = 13 then [CHR 0x5C, CHR ''r'']
         else if n = 9 then [CHR 0x5C, CHR ''t'']
         else if n = 8 then [CHR 0x5C, CHR ''b'']
         else if n = 12 then [CHR 0x5C, CHR ''f'']
         else if n < 32 \<or> 126 < n then [CHR 0x5C, CHR ''u'', CHR ''0'', CHR ''0'', hex_digit (n div 16), hex_digit n]
         else [c])"

definition json_str :: "str \<Rightarrow> str" where
  "json_str s = [CHR 0x22] @ concat (map json_char s) @ [CHR 0x22]"

fun jsonify :: "pyval \<Rightarrow> str" where
  "jsonify VNone = ''null''"
| "jsonify (VBool b) = (if b then ''true'' else ''false'')"
| "jsonify (VInt i) = str_int i"
| "jsonify (VFloat x) = repr_float x"
| "jsonify (VStr s) = json_str s"
| "jsonify (VList xs) = ''['' @ join '','' (map jsonify xs) @ '']''"
| "jsonify (VDict d) = ''{'' @ join '','' (map (\<lambda>kv. json_str (fst kv) @ '':'' @ jsonify (snd kv)) d) @ ''}''"

fun is_scalar :: "pyval \<Rightarrow> bool" where
  "is_scalar (VStr s) = True"
| "is_scalar (VInt i) = True"
| "is_scalar (VFloat x) = True"
| "is_scalar (VBool b) = True"
| "is_scalar v = False"

definition graph_value :: "pyval \<Rightarrow> pyval" where
  "graph_value v =
     (if is_scalar v then v
      else case v of
        VList xs \<Rightarrow> if xs \<noteq> [] \<and> list_all is_scalar xs then v else VStr (jsonify v)
      | _ \<Rightarrow> VStr (jsonify v))"

definition to_graph_props :: "(str \<times> pyval) list \<Rightarrow> (str \<times> pyval) list" where
  "to_graph_props payload = map (\<lambda>(k, v). (k, graph_value v)) (filter (\<lambda>(k, v). v \<noteq> VNone) payload)"

subsection \<open>Statements\<close>

datatype statement =
    UpsertNode str
  | UpdateNode str
  | GetNode str
  | DeleteNode str
  | EndpointPresence str str
  | LinkNodes str str str
  | EndpointCheck str

fun cypher :: "statement \<Rightarrow> str" where
  "cypher (UpsertNode l) = ''MERGE (n:`'' @ l @ ''` {id:$id}) '' @
     ''ON CREATE SET n = $props, n.created_at = datetime() '' @
     ''ON MATCH SET n += $props, n.updated_at = datetime() '' @ ''RETURN n {.*} AS node''"
| "cypher (UpdateNode l) = ''MATCH (n:`'' @ l @ ''` {id:$id}) '' @
     ''SET n += $props, n.updated_at = datetime() '' @ ''RETURN n {.*} AS node''"
| "cypher (GetNode l) = ''MATCH (n:`'' @ l @ ''` {id:$id}) RETURN n {.*} AS node LIMIT 1''"
| "cypher (DeleteNode l) = ''MATCH (n:`'' @ l @ ''` {id:$id}) DETACH DELETE n RETURN count(n) AS deleted''"
| "cypher (EndpointPresence s t) = ''MATCH (a:`'' @ s @ ''` {id:$source_id}) '' @
     ''MATCH (b:`'' @ t @ ''` {id:$target_id}) '' @
     ''RETURN a IS NOT NULL AS source_present, b IS NOT NULL AS target_present''"
| "cypher (LinkNodes s r t) = ''MATCH (a:`'' @ s @ ''` {id:$source_id}) '' @
     ''MATCH (b:`'' @ t @ ''` {id:$target_id}) '' @ ''MERGE (a)-[r:`'' @ r @ ''`]->(b) '' @
     ''ON CREATE SET r = $props, r.created_at = datetime() '' @
     ''ON MATCH SET r += $props, r.updated_at = datetime() '' @
     ''RETURN startNode(r).id AS source_id, endNode(r).id AS target_id, '' @
     ''type(r) AS type, properties(r) AS properties''"
| "cypher (EndpointCheck l) = ''MATCH (n:`'' @ l @ ''` {id:$id}) RETURN count(n) AS c''"

type_synonym props = "(str \<times> pyval) list"
type_synonym query = "statement \<times> (str \<times> pyval) list"

text \<open>The identifier is carried into the property bag.\<close>

definition build_upsert_node_query :: "str \<Rightarrow> str \<Rightarrow> props \<Rightarrow> query" where
  "build_upsert_node_query l i ps = (UpsertNode l, [(''id'', VStr i), (''props'', VDict (AList.update ''id'' (VStr i) ps))])"

definition build_update_node_query :: "str \<Rightarrow> str \<Rightarrow> props \<Rightarrow> query" where
  "build_update_node_query l i ps = (UpdateNode l, [(''id'', VStr i), (''props'', VDict ps)])"

definition build_get_node_query :: "str \<Rightarrow> str \<Rightarrow> query" where
  "build_get_node_query l i = (GetNode l, [(''id'', VStr i)])"

definition build_delete_node_query :: "str \<Rightarrow> str \<Rightarrow> query" where
  "build_delete_node_query l i = (DeleteNode l, [(''id'', VStr i)])"

definition build_endpoint_presence_query :: "str \<Rightarrow> str \<Rightarrow> str \<Rightarrow> str \<Rightarrow> query" where
  "build_endpoint_presence_query sl si dl di = (EndpointPresence sl dl, [(''source_id'', VStr si), (''target_id'', VStr di)])"

definition build_link_query :: "str \<Rightarrow> str \<Rightarrow> str \<Rightarrow> str \<Rightarrow> str \<Rightarrow> props option \<Rightarrow> query" where
  "build_link_query sl si r dl di ps =
     (LinkNodes sl r dl, [(''source_id'', VStr si), (''target_id'', VStr di),
        (''props'', VDict (case ps of None \<Rightarrow> [] | Some d \<Rightarrow> d))])"

definition build_endpoint_check_query :: "str \<Rightarrow> str \<Rightarrow> query" where
  "build_endpoint_check_query l i = (EndpointCheck l, [(''id'', VStr i)])"

subsection \<open>The repository\<close>

type_synonym 'g session = "query \<Rightarrow> 'g \<Rightarrow> props list res \<times> 'g"

definition row_item :: "props \<Rightarrow> str \<Rightarrow> pyval res" where
  "row_item row k = (case map_of row k of Some v \<Rightarrow> Inr v | None \<Rightarrow> Inl (KeyErr k))"

text \<open>\<open>records[0][k] if records else default\<close>.\<close>

definition first_item :: "str \<Rightarrow> pyval \<Rightarrow> props list \<Rightarrow> pyval res" where
  "first_item k dflt rows = (case rows of [] \<Rightarrow> Inr dflt | row # _ \<Rightarrow> row_item row k)"

definition with_rows :: "(props list \<Rightarrow> 'a res) \<Rightarrow> props list res \<times> 'g \<Rightarrow> 'a res \<times> 'g" where
  "with_rows f out = (bind_res (fst out) f, snd out)"

definition upsert_node :: "'g session \<Rightarrow> str \<Rightarrow> str \<Rightarrow> props \<Rightarrow> 'g \<Rightarrow> pyval res \<times> 'g" where
  "upsert_node run l i ps g = with_rows (first_item ''node'' (VDict [])) (run (build_upsert_node_query l i ps) g)"

definition update_node :: "'g session \<Rightarrow> str \<Rightarrow> str \<Rightarrow> props \<Rightarrow> 'g \<Rightarrow> pyval res \<times> 'g" where
  "update_node run l i ps g = with_rows (first_item ''node'' VNone) (run (build_update_node_query l i ps) g)"

definition get_node :: "'g session \<Rightarrow> str \<Rightarrow> str \<Rightarrow> 'g \<Rightarrow> pyval res \<times> 'g" where
  "get_node run l i g = with_rows (first_item ''node'' VNone) (run (build_get_node_query l i) g)"

definition node_exists :: "'g session \<Rightarrow> str \<Rightarrow> str \<Rightarrow> 'g \<Rightarrow> bool res \<times> 'g" where
  "node_exists run l i g = with_rows (\<lambda>rows. bind_res (first_item ''c'' (VInt 0) rows)
     (\<lambda>c. case c of VInt n \<Rightarrow> Inr (0 < n) | _ \<Rightarrow> Inl (TypeErr ''c''))) (run (build_endpoint_check_query l i) g)"

definition delete_node :: "'g session \<Rightarrow> str \<Rightarrow> str \<Rightarrow> 'g \<Rightarrow> int res \<times> 'g" where
  "delete_node run l i g = with_rows (\<lambda>rows. bind_res (first_item ''deleted'' (VInt 0) rows)
     (\<lambda>c. case c of VInt n \<Rightarrow> Inr n | _ \<Rightarrow> Inl (TypeErr ''deleted''))) (run (build_delete_node_query l i) g)"

definition quoted :: "str \<Rightarrow> str" where
  "quoted s = [CHR 0x27] @ s @ [CHR 0x27]"

text \<open>\<open>GraphLinkError\<close> is a \<open>RuntimeError\<close>.\<close>

definition link_nodes ::
  "'g session \<Rightarrow> str \<Rightarrow> str \<Rightarrow> str \<Rightarrow> str \<Rightarrow> str \<Rightarrow> props option \<Rightarrow> 'g \<Rightarrow> props res \<times> 'g" where
  "link_nodes run sl si r dl di ps g =
     (case run (build_endpoint_presence_query sl si dl di) g of
        (Inl e, g1) \<Rightarrow> (Inl e, g1)
      | (Inr present, g1) \<Rightarrow>
          (let row = (case present of [] \<Rightarrow> [] | row # _ \<Rightarrow> row)
           in if \<not> truthy (dict_default row ''source_present'' VNone)
              then (Inl (RuntimeErr (''Source :'' @ sl @ '' '' @ quoted si @ '' not found.'')), g1)
              else if \<not> truthy (dict_default row ''target_present'' VNone)
              then (Inl (RuntimeErr (''Target :'' @ dl @ '' '' @ quoted di @ '' not found.'')), g1)
              else with_rows (\<lambda>records. case records of
                  [] \<Rightarrow> Inl (RuntimeErr (''Could not link :'' @ sl @ '' '' @ quoted si @ '' -[:'' @ r @ '']-> :'' @ dl
                           @ '' '' @ quoted di @ ''.''))
                | record # _ \<Rightarrow> Inr record) (run (build_link_query sl si r dl di ps) g1)))"

text \<open>The typed helpers: the direction of the edge, whatever the order of the arguments.\<close>

definition link_component_to_asset :: "'g session \<Rightarrow> str \<Rightarrow> str \<Rightarrow> props option \<Rightarrow> 'g \<Rightarrow> props res \<times> 'g" where
  "link_component_to_asset run component_id asset_id ps =
     link_nodes run ''Asset'' asset_id ''COMPRISED_OF'' ''Component'' component_id ps"

definition link_sensor_to_component :: "'g session \<Rightarrow> str \<Rightarrow> str \<Rightarrow> props option \<Rightarrow> 'g \<Rightarrow> props res \<times> 'g" where
  "link_sensor_to_component run sensor_id component_id ps =
     link_nodes run ''Component'' component_id ''MONITORED_BY'' ''Sensor'' sensor_id ps"

definition link_asset_to_location :: "'g session \<Rightarrow> str \<Rightarrow> str \<Rightarrow> props option \<Rightarrow> 'g \<Rightarrow> props res \<times> 'g" where
  "link_asset_to_location run asset_id location_id ps =
     link_nodes run ''Asset'' asset_id ''LOCATED_IN'' ''Location'' location_id ps"

definition link_sensor_anomaly_to_failure_mode ::
  "'g session \<Rightarrow> str \<Rightarrow> str \<Rightarrow> props option \<Rightarrow> 'g \<Rightarrow> props res \<times> 'g" where
  "link_sensor_anomaly_to_failure_mode run sensor_id failure_mode_id ps =
     link_nodes run ''Sensor'' sensor_id ''EXHIBITS_ANOMALY'' ''FailureMode'' failure_mode_id ps"

definition link_failure_mode_to_root_cause ::
  "'g session \<Rightarrow> str \<Rightarrow> str \<Rightarrow> props option \<Rightarrow> 'g \<Rightarrow> props res \<times> 'g" where
  "link_failure_mode_to_root_cause run failure_mode_id root_cause_id ps =
     link_nodes run ''FailureMode'' failure_mode_id ''TRIGGERED_BY'' ''RootCause'' root_cause_id ps"

definition link_failure_mode_to_sop :: "'g session \<Rightarrow> str \<Rightarrow> str \<Rightarrow> props option \<Rightarrow> 'g \<Rightarrow> props res \<times> 'g" where
  "link_failure_mode_to_sop run failure_mode_id sop_id ps =
     link_nodes run ''FailureMode'' failure_mode_id ''MITIGATED_BY'' ''SOP'' sop_id ps"

definition link_sop_to_step :: "'g session \<Rightarrow> str \<Rightarrow> str \<Rightarrow> props option \<Rightarrow> 'g \<Rightarrow> props res \<times> 'g" where
  "link_sop_to_step run sop_id sop_step_id ps =
     link_nodes run ''SOP'' sop_id ''HAS_STEP'' ''SOPStep'' sop_step_id ps"

definition link_sop_to_tool :: "'g session \<Rightarrow> str \<Rightarrow> str \<Rightarrow> props option \<Rightarrow> 'g \<Rightarrow> props res \<times> 'g" where
  "link_sop_to_tool run sop_id tooling_id ps =
     link_nodes run ''SOP'' sop_id ''REQUIRES_TOOL'' ''Tooling'' tooling_id ps"

section \<open>What the callers rely on\<close>

subsection \<open>The interface\<close>

type_synonym vertex = "str \<times> str"
type_synonym connection = "vertex \<times> str \<times> vertex"

text \<open>
  A database that is up: \<open>MERGE\<close> finds or creates and is one transaction, so that it either succeeds
  or raises and leaves the graph as it was; a \<open>MATCH\<close> of two patterns has a row only when both
  match, \<open>DETACH DELETE\<close> removes a vertex with its edges. The database may refuse a property bag:
  nested values cannot be stored, and constraints of the schema may ask for a property. Of the bags in
  \<open>accepts_node\<close> (for a label) and \<open>accepts_edge\<close> (for a type) it is known that it takes them; of
  the others nothing is known but that each write takes effect or not. \<open>vertices\<close> are the
  pairs of label and identifier, \<open>connections\<close> the typed edges between them.
\<close>

locale graph_database =
  fixes run :: "query \<Rightarrow> 'g \<Rightarrow> props list res \<times> 'g"
    and vertices :: "'g \<Rightarrow> vertex set"
    and connections :: "'g \<Rightarrow> connection set"
    and accepts_node :: "str \<Rightarrow> props \<Rightarrow> bool"
    and accepts_edge :: "str \<Rightarrow> props \<Rightarrow> bool"
  assumes merge_node: "(\<exists>node g'. run (build_upsert_node_query l i ps) g = (Inr [[(''node'', node)]], g')
          \<and> vertices g' = insert (l, i) (vertices g) \<and> connections g' = connections g)
        \<or> \<not> accepts_node l ps \<and> (\<exists>e g'. run (build_upsert_node_query l i ps) g = (Inl e, g')
          \<and> vertices g' = vertices g \<and> connections g' = connections g)"
    and match_two: "run (build_endpoint_presence_query sl si dl di) g =
        (Inr (if (sl, si) \<in> vertices g \<and> (dl, di) \<in> vertices g
              then [[(''source_present'', VBool True), (''target_present'', VBool True)]] else []), g)"
    and merge_edge: "(sl, si) \<in> vertices g \<Longrightarrow> (dl, di) \<in> vertices g \<Longrightarrow>
        (\<exists>row g'. run (build_link_query sl si r dl di opt) g = (Inr [row], g')
          \<and> vertices g' = vertices g \<and> connections g' = insert ((sl, si), r, (dl, di)) (connections g))
        \<or> \<not> accepts_edge r (case opt of None \<Rightarrow> [] | Some d \<Rightarrow> d)
          \<and> (\<exists>e g'. run (build_link_query sl si r dl di opt) g = (Inl e, g')
            \<and> vertices g' = vertices g \<and> connections g' = connections g)"
    and detach_delete: "\<exists>g'. run (build_delete_node_query l i) g =
          (Inr [[(''deleted'', VInt (if (l, i) \<in> vertices g then 1 else 0))]], g')
        \<and> vertices g' = vertices g - {(l, i)}
        \<and> connections g' = {(a, r, b) \<in> connections g. a \<noteq> (l, i) \<and> b \<noteq> (l, i)}"
begin

lemma upsert_cases:
  obtains (stored) v g' where "upsert_node run l i ps g = (Inr v, g')" "vertices g' = insert (l, i) (vertices g)"
    "connections g' = connections g"
  | (refused) e g' where "upsert_node run l i ps g = (Inl e, g')" "vertices g' = vertices g"
    "connections g' = connections g" "\<not> accepts_node l ps"
  using merge_node [of l i ps g] that by (auto simp: upsert_node_def with_rows_def first_item_def row_item_def)

lemma upsert_effect:
  assumes "accepts_node l ps"
  obtains v g' where "upsert_node run l i ps g = (Inr v, g')" "vertices g' = insert (l, i) (vertices g)"
    "connections g' = connections g"
  using assms upsert_cases [of l i ps g] by metis

lemma link_cases:
  assumes "(sl, si) \<in> vertices g" and "(dl, di) \<in> vertices g"
  obtains (linked) row g' where "link_nodes run sl si r dl di ps g = (Inr row, g')" "vertices g' = vertices g"
    "connections g' = insert ((sl, si), r, (dl, di)) (connections g)"
  | (refused) e g' where "link_nodes run sl si r dl di ps g = (Inl e, g')" "vertices g' = vertices g"
    "connections g' = connections g" "\<not> accepts_edge r (case ps of None \<Rightarrow> [] | Some d \<Rightarrow> d)"
  using merge_edge [OF assms, of r ps] that assms
  by (auto simp: link_nodes_def match_two with_rows_def dict_default_def)

lemma link_effect:
  assumes "(sl, si) \<in> vertices g" and "(dl, di) \<in> vertices g" and "accepts_edge r (case ps of None \<Rightarrow> [] | Some d \<Rightarrow> d)"
  obtains row g' where "link_nodes run sl si r dl di ps g = (Inr row, g')" "vertices g' = vertices g"
    "connections g' = insert ((sl, si), r, (dl, di)) (connections g)"
  using assms(3) link_cases [OF assms(1,2), of r ps] by metis

text \<open>Whichever endpoint is missing, the presence query has no row and the source is blamed.\<close>

lemma link_missing:
  assumes "\<not> ((sl, si) \<in> vertices g \<and> (dl, di) \<in> vertices g)"
  shows "link_nodes run sl si r dl di ps g = (Inl (RuntimeErr (''Source :'' @ sl @ '' '' @ quoted si @ '' not found.'')), g)"
  using assms by (auto simp: link_nodes_def match_two dict_default_def)

lemma delete_effect:
  obtains g' where "delete_node run l i g = (Inr (if (l, i) \<in> vertices g then 1 else 0), g')"
    "vertices g' = vertices g - {(l, i)}"
    "connections g' = {(a, r, b) \<in> connections g. a \<noteq> (l, i) \<and> b \<noteq> (l, i)}"
  using detach_delete [of l i g] that
  by (auto simp: delete_node_def with_rows_def first_item_def row_item_def)

definition no_dangling :: "'g \<Rightarrow> bool" where
  "no_dangling g \<longleftrightarrow> (\<forall>(a, r, b) \<in> connections g. a \<in> vertices g \<and> b \<in> vertices g)"

lemma no_dangling_upsert: "no_dangling g \<Longrightarrow> no_dangling (snd (upsert_node run l i ps g))"
  by (rule upsert_cases [of l i ps g]) (auto simp: no_dangling_def)

lemma no_dangling_link: "no_dangling g \<Longrightarrow> no_dangling (snd (link_nodes run sl si r dl di ps g))"
proof (cases "(sl, si) \<in> vertices g \<and> (dl, di) \<in> vertices g")
  case True
  then have "(sl, si) \<in> vertices g" "(dl, di) \<in> vertices g" by simp_all
  then show "no_dangling g \<Longrightarrow> ?thesis" using True
    by (cases rule: link_cases [of sl si g dl di r ps]) (auto simp: no_dangling_def)
qed (simp add: link_missing)

lemma no_dangling_delete: "no_dangling g \<Longrightarrow> no_dangling (snd (delete_node run l i g))"
  by (rule delete_effect [of l i g]) (auto simp: no_dangling_def)

end

subsection \<open>A reference database in memory\<close>

text \<open>
  The statements on association lists of vertices and edges with their properties; the time stamps
  the database sets itself are left out. A bag with a nested value is refused. It is no model of code
  of the repository and shows only that the interface can be met.
\<close>

record memory_graph =
  mg_nodes :: "(vertex \<times> props) list"
  mg_edges :: "(connection \<times> props) list"

definition param_str :: "str \<Rightarrow> props \<Rightarrow> str" where
  "param_str k ps = (case map_of ps k of Some (VStr s) \<Rightarrow> s | _ \<Rightarrow> [])"

definition param_props :: "props \<Rightarrow> props" where
  "param_props ps = (case map_of ps ''props'' of Some (VDict d) \<Rightarrow> d | _ \<Rightarrow> [])"

text \<open>A value that can be stored: a scalar or a list of scalars; a null removes the property.\<close>

fun accepted_value :: "pyval \<Rightarrow> bool" where
  "accepted_value (VList xs) = list_all is_scalar xs"
| "accepted_value (VDict d) = False"
| "accepted_value v = True"

definition flat_bag :: "props \<Rightarrow> bool" where
  "flat_bag ps = list_all (\<lambda>(k, v). accepted_value v) ps"

text \<open>\<open>SET n += $props\<close>: later values win.\<close>

definition set_props :: "props \<Rightarrow> props \<Rightarrow> props" where
  "set_props new old = foldl (\<lambda>d (k, v). if v = VNone then AList.delete k d else AList.update k v d) old new"

definition merge_into :: "'k \<Rightarrow> props \<Rightarrow> ('k \<times> props) list \<Rightarrow> ('k \<times> props) list" where
  "merge_into k ps d = AList.update k (set_props ps (case map_of d k of None \<Rightarrow> [] | Some old \<Rightarrow> old)) d"

definition refused_bag :: py_error where
  "refused_bag = RuntimeErr ''Property values can only be of primitive types or arrays thereof''"

fun memory_run :: "query \<Rightarrow> memory_graph \<Rightarrow> props list res \<times> memory_graph" where
  "memory_run (UpsertNode l, ps) g =
     (let g' = g\<lparr>mg_nodes := merge_into (l, param_str ''id'' ps) (param_props ps) (mg_nodes g)\<rparr>
      in if \<not> flat_bag (param_props ps) then (Inl refused_bag, g) else (Inr [[(''node'', VDict (the (map_of (mg_nodes g') (l, param_str ''id'' ps))))]], g'))"
| "memory_run (UpdateNode l, ps) g =
     (case map_of (mg_nodes g) (l, param_str ''id'' ps) of
        None \<Rightarrow> (Inr [], g)
      | Some old \<Rightarrow> (let new = set_props (param_props ps) old
                     in if \<not> flat_bag (param_props ps) then (Inl refused_bag, g) else (Inr [[(''node'', VDict new)]],
                         g\<lparr>mg_nodes := AList.update (l, param_str ''id'' ps) new (mg_nodes g)\<rparr>)))"
| "memory_run (GetNode l, ps) g =
     (Inr (case map_of (mg_nodes g) (l, param_str ''id'' ps) of None \<Rightarrow> [] | Some d \<Rightarrow> [[(''node'', VDict d)]]), g)"
| "memory_run (EndpointCheck l, ps) g =
     (Inr [[(''c'', VInt (if (l, param_str ''id'' ps) \<in> fst ` set (mg_nodes g) then 1 else 0))]], g)"
| "memory_run (DeleteNode l, ps) g =
     (let v = (l, param_str ''id'' ps)
      in (Inr [[(''deleted'', VInt (if v \<in> fst ` set (mg_nodes g) then 1 else 0))]],
          g\<lparr>mg_nodes := filter (\<lambda>(k, _). k \<noteq> v) (mg_nodes g),
            mg_edges := filter (\<lambda>((a, _, b), _). a \<noteq> v \<and> b \<noteq> v) (mg_edges g)\<rparr>))"
| "memory_run (EndpointPresence sl dl, ps) g =
     (Inr (if (sl, param_str ''source_id'' ps) \<in> fst ` set (mg_nodes g)
              \<and> (dl, param_str ''target_id'' ps) \<in> fst ` set (mg_nodes g)
           then [[(''source_present'', VBool True), (''target_present'', VBool True)]] else []), g)"
| "memory_run (LinkNodes sl r dl, ps) g =
     (let si = param_str ''source_id'' ps; di = param_str ''target_id'' ps; e = ((sl, si), r, (dl, di))
      in if (sl, si) \<in> fst ` set (mg_nodes g) \<and> (dl, di) \<in> fst ` set (mg_nodes g)
         then let g' = g\<lparr>mg_edges := merge_into e (param_props ps) (mg_edges g)\<rparr>
              in if \<not> flat_bag (param_props ps) then (Inl refused_bag, g) else
                 (Inr [[(''source_id'', VStr si), (''target_id'', VStr di), (''type'', VStr r),
                        (''properties'', VDict (the (map_of (mg_edges g') e)))]], g')
         else (Inr [], g))"

definition memory_vertices :: "memory_graph \<Rightarrow> vertex set" where
  "memory_vertices g = fst ` set (mg_nodes g)"

definition memory_connections :: "memory_graph \<Rightarrow> connection set" where
  "memory_connections g = fst ` set (mg_edges g)"

lemma merge_into_keys [simp]: "fst ` set (merge_into k ps d) = insert k (fst ` set d)"
  by (simp add: merge_into_def keys_update)

lemma param_simps [simp]:
  "param_str ''id'' ((''id'', VStr i) # ps) = i"
  "param_str ''source_id'' ((''source_id'', VStr i) # ps) = i"
  "param_str ''target_id'' ((''source_id'', v) # (''target_id'', VStr i) # ps) = i"
  "param_props [(''id'', v), (''props'', VDict d)] = d"
  "param_props [(''source_id'', v), (''target_id'', w), (''props'', VDict d)] = d"
  by (simp_all add: param_str_def param_props_def)

lemma flat_bag_update: "accepted_value v \<Longrightarrow> flat_bag ps \<Longrightarrow> flat_bag (AList.update k v ps)"
  by (induction ps) (auto simp: flat_bag_def)

interpretation memory: graph_database memory_run memory_vertices memory_connections "\<lambda>l. flat_bag" "\<lambda>r. flat_bag"
  by unfold_locales
     (auto simp: build_upsert_node_query_def build_endpoint_presence_query_def build_link_query_def
       build_delete_node_query_def memory_vertices_def memory_connections_def Let_def image_iff flat_bag_update)

subsection \<open>Stored properties\<close>

text \<open>What the serialisation produces: a scalar, or a list of scalars that is not empty.\<close>

fun storable :: "pyval \<Rightarrow> bool" where
  "storable (VList xs) = (0 < length xs \<and> list_all is_scalar xs)"
| "storable v = is_scalar v"

lemma graph_value_storable: "storable (graph_value v)"
  by (cases v) (auto simp: graph_value_def)

lemma graph_value_id: "storable v \<Longrightarrow> graph_value v = v"
  by (cases v) (auto simp: graph_value_def)

lemma graph_value_some: "graph_value v \<noteq> VNone"
  by (cases v) (auto simp: graph_value_def)

lemma props_flat:
  "list_all (\<lambda>(k, v). storable v) (to_graph_props p) \<and> to_graph_props (to_graph_props p) = to_graph_props p
   \<and> map fst (to_graph_props p) = map fst (filter (\<lambda>(k, v). v \<noteq> VNone) p)"
proof -
  have "filter (\<lambda>(k, v). v \<noteq> VNone) (to_graph_props p) = to_graph_props p"
    by (auto simp: to_graph_props_def graph_value_some intro!: filter_True)
  moreover have "map (\<lambda>(k, v). (k, graph_value v)) (to_graph_props p) = to_graph_props p"
    by (auto simp: to_graph_props_def graph_value_id graph_value_storable)
  ultimately have "to_graph_props (to_graph_props p) = to_graph_props p" by (simp add: to_graph_props_def)
  then show ?thesis by (auto simp: to_graph_props_def list_all_iff graph_value_storable)
qed

end
