(* ===== verification/Graph_Loader.thy ===== *)
theory Graph_Loader
  imports Graph_Repository Ingestion_Pipeline
begin

section \<open>Loading a batch into the graph\<close>

text \<open>
  \<open>app/ingestion/graph_loader.py\<close>. The state is the loader's counters and the graph behind the
  repository. \<open>None\<close> for the session is the dry run. The steps of \<open>load_batch\<close> swallow
  exceptions the way the code does; an entry of the error list is the edge and the exception.
\<close>

record loader =
  ld_nodes_upserted :: nat
  ld_relationships_created :: nat
  ld_chunks_stored :: nat

definition fresh_loader :: loader where
  "fresh_loader = \<lparr>ld_nodes_upserted = 0, ld_relationships_created = 0, ld_chunks_stored = 0\<rparr>"

definition label_map :: "(str \<times> str) list" where
  "label_map = [(''Asset'', ''Asset''), (''Component'', ''Component''), (''Sensor'', ''Sensor''),
     (''FailureMode'', ''FailureMode''), (''RootCause'', ''RootCause''), (''SOP'', ''SOP''), (''SOPStep'', ''SOPStep''),
     (''Tooling'', ''Tooling''), (''SafetyHazard'', ''SafetyHazard''), (''Location'', ''Location''),
     (''MaintenanceTask'', ''MaintenanceTask''), (''FailureSymptom'', ''FailureSymptom''),
     (''OperatorRole'', ''OperatorRole''), (''TelemetryStream'', ''TelemetryStream''), (''TextChunk'', ''TextChunk'')]"

definition graph_label :: "entity_label \<Rightarrow> str" where
  "graph_label l = dict_default label_map (label_value l) (label_value l)"

definition opt_str :: "str option \<Rightarrow> pyval" where
  "opt_str x = (case x of None \<Rightarrow> VNone | Some s \<Rightarrow> VStr s)"

definition update_all :: "props \<Rightarrow> props \<Rightarrow> props" where
  "update_all new old = foldl (\<lambda>d (k, v). AList.update k v d) old new"

text \<open>Typed attributes that are set, then the free-form properties, then the empty ones are dropped.\<close>

definition typed_props :: "extracted_entity \<Rightarrow> props" where
  "typed_props e = concat (map (\<lambda>(k, x). if truthy_str x then [(k, VStr (the x))] else [])
     [(''asset_type'', ee_asset_type e), (''equipment_class'', ee_equipment_class e),
      (''component_type'', ee_component_type e), (''sensor_category'', ee_sensor_category e),
      (''metric'', ee_metric e), (''unit'', ee_unit e), (''severity_tier'', ee_severity_tier e)])"

definition entity_props :: "extracted_entity \<Rightarrow> props" where
  "entity_props e =
     filter (\<lambda>(k, v). v \<noteq> VNone)
       (update_all (ee_properties e)
         ([(''display_name'', VStr (ee_display_name e)), (''confidence'', VFloat (ee_confidence e)),
           (''ontology_version'', VStr ''1.0.0''), (''aliases'', VList (map VStr (ee_aliases e))),
           (''source_span'', opt_str (ee_source_span e)), (''chunk_id'', opt_str (ee_chunk_id e))] @ typed_props e))"

definition upsert_entity ::
  "'g session option \<Rightarrow> extracted_entity \<Rightarrow> loader \<times> 'g \<Rightarrow> pyval res \<times> loader \<times> 'g" where
  "upsert_entity repo e s =
     (case s of (ld, g) \<Rightarrow>
       (case repo of
          None \<Rightarrow> (Inr (VDict [(''id'', VStr (ee_entity_id e)), (''dry_run'', VBool True)]),
                   ld\<lparr>ld_nodes_upserted := ld_nodes_upserted ld + 1\<rparr>, g)
        | Some run \<Rightarrow>
            (case upsert_node run (graph_label (ee_label e)) (ee_entity_id e) (entity_props e) g of
               (Inl err, g') \<Rightarrow> (Inl err, ld, g')
             | (Inr v, g') \<Rightarrow> (Inr v, ld\<lparr>ld_nodes_upserted := ld_nodes_upserted ld + 1\<rparr>, g'))))"

definition chunk_props :: "chunk_metadata \<Rightarrow> str option \<Rightarrow> props" where
  "chunk_props c given = [(''chunk_id'', VStr (cm_chunk_id c)), (''source_document_id'', VStr (cm_document_id c)),
     (''source_document'', VStr (cm_source_filename c)), (''source_type'', VStr (cm_document_category c)),
     (''text'', VStr (if truthy_str given then the given else take 8000 (cm_text c))),
     (''page_number'', case cm_page_start c of None \<Rightarrow> VNone | Some p \<Rightarrow> VInt p),
     (''section_heading'', opt_str (cm_section_title c)), (''asset_ids'', VList []), (''asset_types'', VList []),
     (''token_count'', VInt (int (cm_token_count c))), (''char_count'', VInt (int (cm_char_count c))),
     (''chunk_index'', VInt (int (cm_chunk_index c))), (''hash'', VStr (cm_hash c)),
     (''display_name'', VStr (''Chunk '' @ str_nat (cm_chunk_index c) @ [CHR '' '', CHR 0xE2, CHR 0x80, CHR 0x94, CHR '' '']
        @ cm_source_filename c)),
     (''ontology_version'', VStr ''1.0.0'')]"

definition store_chunk_node ::
  "'g session option \<Rightarrow> chunk_metadata \<Rightarrow> str option \<Rightarrow> loader \<times> 'g \<Rightarrow> pyval res \<times> loader \<times> 'g" where
  "store_chunk_node repo c given s =
     (case s of (ld, g) \<Rightarrow>
       (case repo of
          None \<Rightarrow> (Inr (VDict [(''id'', VStr (cm_chunk_id c)), (''dry_run'', VBool True)]),
                   ld\<lparr>ld_chunks_stored := ld_chunks_stored ld + 1\<rparr>, g)
        | Some run \<Rightarrow>
            (case upsert_node run ''TextChunk'' (cm_chunk_id c) (chunk_props c given) g of
               (Inl err, g') \<Rightarrow> (Inl err, ld, g')
             | (Inr v, g') \<Rightarrow> (Inr v, ld\<lparr>ld_chunks_stored := ld_chunks_stored ld + 1\<rparr>, g'))))"

definition edge_props :: "extracted_relationship \<Rightarrow> props" where
  "edge_props r =
     (let p = AList.update ''confidence'' (VFloat (er_confidence r)) (er_properties r);
          p = (if truthy_str (er_evidence_text r)
               then AList.update ''evidence_text'' (VStr (take 2000 (the (er_evidence_text r)))) p else p)
      in if truthy_str (er_chunk_id r) then AList.update ''chunk_id'' (VStr (the (er_chunk_id r))) p else p)"

text \<open>The result of a dry run, a dump of the relationship, is not used: an empty row stands for it.\<close>

definition link_relationship ::
  "'g session option \<Rightarrow> extracted_relationship \<Rightarrow> loader \<times> 'g \<Rightarrow> props res \<times> loader \<times> 'g" where
  "link_relationship repo r s =
     (case s of (ld, g) \<Rightarrow>
       (case repo of
          None \<Rightarrow> (Inr [], ld\<lparr>ld_relationships_created := ld_relationships_created ld + 1\<rparr>, g)
        | Some run \<Rightarrow>
            (case link_nodes run (graph_label (er_source_label r)) (er_source_id r) (relation_value (er_relationship r))
                    (graph_label (er_target_label r)) (er_target_id r) (Some (edge_props r)) g of
               (Inl err, g') \<Rightarrow> (Inl err, ld, g')
             | (Inr v, g') \<Rightarrow> (Inr v, ld\<lparr>ld_relationships_created := ld_relationships_created ld + 1\<rparr>, g'))))"

definition mention_props :: "str option \<Rightarrow> float64 \<Rightarrow> props" where
  "mention_props claim_field confidence = [(''confidence_score'', VFloat confidence), (''confidence'', VFloat confidence)]
     @ (if truthy_str claim_field then [(''claim_field'', VStr (the claim_field))] else [])"

text \<open>Failures of a mention are returned as an error entry, never raised.\<close>

definition link_chunk_mentions ::
  "'g session option \<Rightarrow> str \<Rightarrow> str \<Rightarrow> str \<Rightarrow> float64 \<Rightarrow> str option \<Rightarrow> str \<Rightarrow> loader \<times> 'g \<Rightarrow> props \<times> loader \<times> 'g" where
  "link_chunk_mentions repo chunk_id entity_id entity_label confidence claim_field relationship s =
     (case s of (ld, g) \<Rightarrow>
       (case repo of
          None \<Rightarrow> ([(''dry_run'', VBool True)], ld\<lparr>ld_relationships_created := ld_relationships_created ld + 1\<rparr>, g)
        | Some run \<Rightarrow>
            (case link_nodes run ''TextChunk'' chunk_id relationship
                    (dict_default label_map entity_label entity_label) entity_id
                    (Some (mention_props claim_field confidence)) g of
               (Inl err, g') \<Rightarrow> ([(''error'', VStr (err_text err))], ld, g')
             | (Inr v, g') \<Rightarrow> (v, ld, g'))))"

subsection \<open>The batch\<close>

definition link_step ::
  "'g session option \<Rightarrow> extracted_relationship \<Rightarrow> (extracted_relationship \<times> py_error) list \<times> loader \<times> 'g
   \<Rightarrow> (extracted_relationship \<times> py_error) list \<times> loader \<times> 'g" where
  "link_step repo r acc =
     (case acc of (errs, s) \<Rightarrow>
       (case link_relationship repo r s of (Inl e, s') \<Rightarrow> (errs @ [(r, e)], s') | (Inr _, s') \<Rightarrow> (errs, s')))"

definition mentions_chunk :: "str list \<Rightarrow> extracted_entity \<Rightarrow> bool" where
  "mentions_chunk chunk_ids e \<longleftrightarrow> truthy_str (ee_chunk_id e) \<and> the (ee_chunk_id e) \<in> set chunk_ids"

definition grounding_labels :: "str list" where
  "grounding_labels = [''FailureMode'', ''SOP'', ''SOPStep'', ''SafetyHazard'']"

definition grounds_chunk :: "extracted_entity \<Rightarrow> bool" where
  "grounds_chunk e \<longleftrightarrow> label_value (ee_label e) \<in> set grounding_labels \<and> truthy_str (ee_chunk_id e)"

definition mention_step ::
  "'g session option \<Rightarrow> str option \<Rightarrow> str \<Rightarrow> extracted_entity \<Rightarrow> nat \<times> loader \<times> 'g \<Rightarrow> nat \<times> loader \<times> 'g" where
  "mention_step repo claim_field relationship e acc =
     (case acc of (n, s) \<Rightarrow>
       (n + 1, snd (link_chunk_mentions repo (the (ee_chunk_id e)) (ee_entity_id e) (label_value (ee_label e))
                      (ee_confidence e) claim_field relationship s)))"

record load_report =
  lr_chunks_stored :: nat
  lr_nodes_upserted :: nat
  lr_relationships_created :: nat
  lr_mentions_created :: nat
  lr_relationship_errors :: "(extracted_relationship \<times> py_error) list"
  lr_success :: bool

definition load_batch ::
  "'g session option \<Rightarrow> chunk_metadata list \<Rightarrow> extracted_entity list \<Rightarrow> extracted_relationship list \<Rightarrow> bool
   \<Rightarrow> 'g \<Rightarrow> load_report \<times> loader \<times> 'g" where
  "load_batch repo chunks entities relationships create_mentions g =
     (let s1 = fold (\<lambda>c s. snd (store_chunk_node repo c None s)) chunks (fresh_loader, g);
          unique_entities = dedup_by ee_entity_id [] entities;
          s2 = fold (\<lambda>e s. snd (upsert_entity repo e s)) unique_entities s1;
          (rel_errors, s3) = fold (link_step repo) relationships ([], s2);
          (mentions, s4) =
            (if create_mentions
             then fold (mention_step repo (Some ''display_name'') ''GROUNDS_ENTITY'') (filter grounds_chunk unique_entities)
                    (fold (mention_step repo None ''MENTIONS'')
                      (filter (mentions_chunk (map cm_chunk_id chunks)) unique_entities) (0, s3))
             else (0, s3));
          ld = fst s4
      in (\<lparr>lr_chunks_stored = ld_chunks_stored ld, lr_nodes_upserted = ld_nodes_upserted ld,
           lr_relationships_created = ld_relationships_created ld, lr_mentions_created = mentions,
           lr_relationship_errors = rel_errors, lr_success = (rel_errors = [])\<rparr>, s4))"

section \<open>Properties\<close>

subsection \<open>Accounting, whatever the database does\<close>

lemma fresh_loader_simps [simp]:
  "ld_nodes_upserted fresh_loader = 0" "ld_relationships_created fresh_loader = 0" "ld_chunks_stored fresh_loader = 0"
  by (simp_all add: fresh_loader_def)

lemma store_chunk_counts:
  "ld_chunks_stored (fst (snd (store_chunk_node repo c given (ld, g)))) \<le> ld_chunks_stored ld + 1
   \<and> ld_nodes_upserted (fst (snd (store_chunk_node repo c given (ld, g)))) = ld_nodes_upserted ld
   \<and> ld_relationships_created (fst (snd (store_chunk_node repo c given (ld, g)))) = ld_relationships_created ld"
  by (auto simp: store_chunk_node_def split: option.split prod.split sum.split)

lemma upsert_entity_counts:
  "ld_nodes_upserted (fst (snd (upsert_entity repo e (ld, g)))) \<le> ld_nodes_upserted ld + 1
   \<and> ld_chunks_stored (fst (snd (upsert_entity repo e (ld, g)))) = ld_chunks_stored ld
   \<and> ld_relationships_created (fst (snd (upsert_entity repo e (ld, g)))) = ld_relationships_created ld"
  by (auto simp: upsert_entity_def split: option.split prod.split sum.split)

lemma link_step_counts:
  "case link_step repo r (errs, ld, g) of (errs', ld', _) \<Rightarrow>
     ld_relationships_created ld' + length errs' = ld_relationships_created ld + length errs + 1
     \<and> ld_nodes_upserted ld' = ld_nodes_upserted ld \<and> ld_chunks_stored ld' = ld_chunks_stored ld
     \<and> (\<exists>new. errs' = errs @ new \<and> fst ` set new \<subseteq> {r})"
  by (auto simp: link_step_def link_relationship_def split: option.split prod.split sum.split)

lemma mention_step_counts:
  "case mention_step repo claim rel e (n, ld, g) of (n', ld', _) \<Rightarrow> n' = n + 1
     \<and> ld_relationships_created ld' = ld_relationships_created ld + (if repo = None then 1 else 0)
     \<and> ld_nodes_upserted ld' = ld_nodes_upserted ld \<and> ld_chunks_stored ld' = ld_chunks_stored ld"
  by (auto simp: mention_step_def link_chunk_mentions_def split: option.split prod.split sum.split)

lemma store_fold_counts:
  "case fold (\<lambda>c s. snd (store_chunk_node repo c None s)) cs (ld, g) of (ld', _) \<Rightarrow>
     ld_chunks_stored ld' \<le> ld_chunks_stored ld + length cs \<and> ld_nodes_upserted ld' = ld_nodes_upserted ld
     \<and> ld_relationships_created ld' = ld_relationships_created ld"
proof (induction cs arbitrary: ld g)
  case (Cons c cs)
  obtain ld1 g1 where "snd (store_chunk_node repo c None (ld, g)) = (ld1, g1)" by (cases "snd (store_chunk_node repo c None (ld, g))")
  then show ?case using Cons.IH [where ld = ld1 and g = g1]
      store_chunk_counts [where repo = repo and c = c and given = None and ld = ld and g = g] by (auto split: prod.splits)
qed simp

lemma upsert_fold_counts:
  "case fold (\<lambda>e s. snd (upsert_entity repo e s)) es (ld, g) of (ld', _) \<Rightarrow>
     ld_nodes_upserted ld' \<le> ld_nodes_upserted ld + length es \<and> ld_chunks_stored ld' = ld_chunks_stored ld
     \<and> ld_relationships_created ld' = ld_relationships_created ld"
proof (induction es arbitrary: ld g)
  case (Cons e es)
  obtain ld1 g1 where "snd (upsert_entity repo e (ld, g)) = (ld1, g1)" by (cases "snd (upsert_entity repo e (ld, g))")
  then show ?case using Cons.IH [where ld = ld1 and g = g1]
      upsert_entity_counts [where repo = repo and e = e and ld = ld and g = g] by (auto split: prod.splits)
qed simp

lemma link_fold_counts:
  "case fold (link_step repo) rs (errs, ld, g) of (errs', ld', _) \<Rightarrow>
     ld_relationships_created ld' + length errs' = ld_relationships_created ld + length errs + length rs
     \<and> ld_nodes_upserted ld' = ld_nodes_upserted ld \<and> ld_chunks_stored ld' = ld_chunks_stored ld
     \<and> (\<exists>new. errs' = errs @ new \<and> fst ` set new \<subseteq> set rs)"
proof (induction rs arbitrary: errs ld g)
  case (Cons r rs)
  obtain errs1 ld1 g1 where "link_step repo r (errs, ld, g) = (errs1, ld1, g1)" by (cases "link_step repo r (errs, ld, g)")
  then show ?case using Cons.IH [where errs = errs1 and ld = ld1 and g = g1]
      link_step_counts [where repo = repo and r = r and errs = errs and ld = ld and g = g]
    by (fastforce split: prod.splits)
qed simp

lemma mention_fold_counts:
  "case fold (mention_step repo claim rel) es (n, ld, g) of (n', ld', _) \<Rightarrow> n' = n + length es
     \<and> ld_relationships_created ld' = ld_relationships_created ld + (if repo = None then length es else 0)
     \<and> ld_nodes_upserted ld' = ld_nodes_upserted ld \<and> ld_chunks_stored ld' = ld_chunks_stored ld"
proof (induction es arbitrary: n ld g)
  case (Cons e es)
  obtain n1 ld1 g1 where "mention_step repo claim rel e (n, ld, g) = (n1, ld1, g1)"
    by (cases "mention_step repo claim rel e (n, ld, g)")
  then show ?case using Cons.IH [where n = n1 and ld = ld1 and g = g1]
      mention_step_counts [where repo = repo and claim = claim and rel = rel and e = e and n = n and ld = ld and g = g] by (auto split: prod.splits)
qed simp

lemmas fold_counts = store_fold_counts upsert_fold_counts link_fold_counts mention_fold_counts

lemma load_batch_accounts:
  "case load_batch repo chunks es rels create_mentions g of (rep, _) \<Rightarrow>
     lr_relationships_created rep + length (lr_relationship_errors rep)
       = length rels + (if repo = None then lr_mentions_created rep else 0)
     \<and> fst ` set (lr_relationship_errors rep) \<subseteq> set rels
     \<and> lr_chunks_stored rep \<le> length chunks \<and> lr_nodes_upserted rep \<le> length (dedup_by ee_entity_id [] es)
     \<and> lr_mentions_created rep = (if create_mentions
          then length (filter (mentions_chunk (map cm_chunk_id chunks)) (dedup_by ee_entity_id [] es))
               + length (filter grounds_chunk (dedup_by ee_entity_id [] es)) else 0)"
proof -
  let ?uniq = "dedup_by ee_entity_id [] es"
  obtain ld1 g1 where s1: "fold (\<lambda>c s. snd (store_chunk_node repo c None s)) chunks (fresh_loader, g) = (ld1, g1)"
    by (metis surj_pair)
  obtain ld2 g2 where s2: "fold (\<lambda>e s. snd (upsert_entity repo e s)) ?uniq (ld1, g1) = (ld2, g2)" by (metis surj_pair)
  obtain errs ld3 g3 where s3: "fold (link_step repo) rels ([], ld2, g2) = (errs, ld3, g3)" by (metis surj_pair)
  obtain n4 ld4 g4 where s4: "fold (mention_step repo None ''MENTIONS'')
      (filter (mentions_chunk (map cm_chunk_id chunks)) ?uniq) (0, ld3, g3) = (n4, ld4, g4)" by (metis surj_pair)
  obtain n5 ld5 g5 where s5: "fold (mention_step repo (Some ''display_name'') ''GROUNDS_ENTITY'') (filter grounds_chunk ?uniq)
      (n4, ld4, g4) = (n5, ld5, g5)" by (metis surj_pair)
  have eq: "load_batch repo chunks es rels create_mentions g =
      (let (n, ld, g') = (if create_mentions then (n5, ld5, g5) else (0, ld3, g3))
       in (\<lparr>lr_chunks_stored = ld_chunks_stored ld, lr_nodes_upserted = ld_nodes_upserted ld,
         lr_relationships_created = ld_relationships_created ld, lr_mentions_created = n,
         lr_relationship_errors = errs, lr_success = (errs = [])\<rparr>, ld, g'))"
    by (simp add: load_batch_def Let_def s1 s2 s3 s4 s5)
  note counts = store_fold_counts [where repo = repo and cs = chunks and ld = fresh_loader and g = g, unfolded s1]
    upsert_fold_counts [where repo = repo and es = ?uniq and ld = ld1 and g = g1, unfolded s2]
    link_fold_counts [where repo = repo and rs = rels and errs = "[]" and ld = ld2 and g = g2, unfolded s3]
    mention_fold_counts [where repo = repo and claim = None and rel = "''MENTIONS''"
      and es = "filter (mentions_chunk (map cm_chunk_id chunks)) ?uniq" and n = 0 and ld = ld3 and g = g3, unfolded s4]
    mention_fold_counts [where repo = repo and claim = "Some ''display_name''" and rel = "''GROUNDS_ENTITY''"
      and es = "filter grounds_chunk ?uniq" and n = n4 and ld = ld4 and g = g4, unfolded s5]
  show ?thesis using counts unfolding eq by (cases create_mentions) auto
qed

subsection \<open>The specification of a load\<close>

text \<open>What a batch contributes: a vertex per chunk and entity, an edge per relationship and mention.\<close>

definition chunk_vertex :: "chunk_metadata \<Rightarrow> vertex" where
  "chunk_vertex c = (''TextChunk'', cm_chunk_id c)"

definition entity_vertex :: "extracted_entity \<Rightarrow> vertex" where
  "entity_vertex e = (graph_label (ee_label e), ee_entity_id e)"

definition relationship_connection :: "extracted_relationship \<Rightarrow> connection" where
  "relationship_connection r = ((graph_label (er_source_label r), er_source_id r), relation_value (er_relationship r),
     (graph_label (er_target_label r), er_target_id r))"

definition mention_connection :: "str \<Rightarrow> extracted_entity \<Rightarrow> connection" where
  "mention_connection relationship e = ((''TextChunk'', the (ee_chunk_id e)), relationship, entity_vertex e)"

definition attachable :: "vertex set \<Rightarrow> connection \<Rightarrow> bool" where
  "attachable V c = (case c of (a, _, b) \<Rightarrow> a \<in> V \<and> b \<in> V)"

definition link_failure :: "extracted_relationship \<Rightarrow> extracted_relationship \<times> py_error" where
  "link_failure r = (r, RuntimeErr (''Source :'' @ graph_label (er_source_label r) @ '' ''
     @ quoted (er_source_id r) @ '' not found.''))"

definition spec_vertices :: "chunk_metadata list \<Rightarrow> extracted_entity list \<Rightarrow> vertex set" where
  "spec_vertices chunks es = chunk_vertex ` set chunks \<union> entity_vertex ` set (dedup_by ee_entity_id [] es)"

definition spec_mentions :: "bool \<Rightarrow> chunk_metadata list \<Rightarrow> extracted_entity list \<Rightarrow> connection list" where
  "spec_mentions create_mentions chunks es =
     (if create_mentions
      then map (mention_connection ''MENTIONS'') (filter (mentions_chunk (map cm_chunk_id chunks)) (dedup_by ee_entity_id [] es))
           @ map (mention_connection ''GROUNDS_ENTITY'') (filter grounds_chunk (dedup_by ee_entity_id [] es))
      else [])"

definition spec_report ::
  "vertex set \<Rightarrow> chunk_metadata list \<Rightarrow> extracted_entity list \<Rightarrow> extracted_relationship list \<Rightarrow> bool \<Rightarrow> load_report" where
  "spec_report V chunks es rels create_mentions =
     \<lparr>lr_chunks_stored = length chunks, lr_nodes_upserted = length (dedup_by ee_entity_id [] es),
      lr_relationships_created = length (filter (\<lambda>r. attachable V (relationship_connection r)) rels),
      lr_mentions_created = length (spec_mentions create_mentions chunks es),
      lr_relationship_errors = map link_failure (filter (\<lambda>r. \<not> attachable V (relationship_connection r)) rels),
      lr_success = list_all (\<lambda>r. attachable V (relationship_connection r)) rels\<rparr>"

text \<open>The property bags of a batch.\<close>

definition node_bags :: "chunk_metadata list \<Rightarrow> extracted_entity list \<Rightarrow> (str \<times> props) list" where
  "node_bags chunks es = map (\<lambda>c. (''TextChunk'', chunk_props c None)) chunks
     @ map (\<lambda>e. (graph_label (ee_label e), entity_props e)) (dedup_by ee_entity_id [] es)"

definition edge_bags :: "extracted_entity list \<Rightarrow> extracted_relationship list \<Rightarrow> (str \<times> props) list" where
  "edge_bags es rels = map (\<lambda>r. (relation_value (er_relationship r), edge_props r)) rels
     @ map (\<lambda>e. (''MENTIONS'', mention_props None (ee_confidence e))) es
     @ map (\<lambda>e. (''GROUNDS_ENTITY'', mention_props (Some ''display_name'') (ee_confidence e))) es"

text \<open>The database is known to take every bag of the batch.\<close>

definition batch_accepted ::
  "(str \<Rightarrow> props \<Rightarrow> bool) \<Rightarrow> (str \<Rightarrow> props \<Rightarrow> bool) \<Rightarrow> chunk_metadata list \<Rightarrow> extracted_entity list
   \<Rightarrow> extracted_relationship list \<Rightarrow> bool" where
  "batch_accepted accepts_node accepts_edge chunks es rels \<longleftrightarrow>
     list_all (\<lambda>(l, ps). accepts_node l ps) (node_bags chunks es)
     \<and> list_all (\<lambda>(r, ps). accepts_edge r ps) (edge_bags es rels)"

context graph_database begin

lemma store_fold:
  "list_all (\<lambda>c. accepts_node ''TextChunk'' (chunk_props c None)) cs \<Longrightarrow>
   \<exists>g'. fold (\<lambda>c s. snd (store_chunk_node (Some run) c None s)) cs (ld, g)
      = (ld\<lparr>ld_chunks_stored := ld_chunks_stored ld + length cs\<rparr>, g')
    \<and> vertices g' = vertices g \<union> chunk_vertex ` set cs \<and> connections g' = connections g"
proof (induction cs arbitrary: ld g)
  case (Cons c cs)
  obtain v g1 where "upsert_node run ''TextChunk'' (cm_chunk_id c) (chunk_props c None) g = (Inr v, g1)"
    "vertices g1 = insert (chunk_vertex c) (vertices g)" "connections g1 = connections g"
    unfolding chunk_vertex_def using Cons.prems by (auto intro: upsert_effect)
  then show ?case
    using Cons.IH [where ld = "ld\<lparr>ld_chunks_stored := ld_chunks_stored ld + 1\<rparr>" and g = g1]
      Cons.prems by (auto simp: store_chunk_node_def)
qed simp

lemma upsert_fold:
  "list_all (\<lambda>e. accepts_node (graph_label (ee_label e)) (entity_props e)) es \<Longrightarrow>
   \<exists>g'. fold (\<lambda>e s. snd (upsert_entity (Some run) e s)) es (ld, g)
      = (ld\<lparr>ld_nodes_upserted := ld_nodes_upserted ld + length es\<rparr>, g')
    \<and> vertices g' = vertices g \<union> entity_vertex ` set es \<and> connections g' = connections g"
proof (induction es arbitrary: ld g)
  case (Cons e es)
  obtain v g1 where "upsert_node run (graph_label (ee_label e)) (ee_entity_id e) (entity_props e) g = (Inr v, g1)"
    "vertices g1 = insert (entity_vertex e) (vertices g)" "connections g1 = connections g"
    unfolding entity_vertex_def using Cons.prems by (auto intro: upsert_effect)
  then show ?case
    using Cons.IH [where ld = "ld\<lparr>ld_nodes_upserted := ld_nodes_upserted ld + 1\<rparr>" and g = g1]
      Cons.prems by (auto simp: upsert_entity_def)
qed simp

text \<open>A link adds its edge when both endpoints are there and the bag is taken, and leaves the graph alone
  otherwise.\<close>

lemma link_nodes_any:
  "\<exists>out g'. link_nodes run sl si r dl di ps g = (out, g') \<and> vertices g' = vertices g
    \<and> ((\<exists>row. out = Inr row) \<and> attachable (vertices g) ((sl, si), r, (dl, di))
         \<and> connections g' = insert ((sl, si), r, (dl, di)) (connections g)
       \<or> (\<exists>e. out = Inl e) \<and> connections g' = connections g)"
proof (cases "attachable (vertices g) ((sl, si), r, (dl, di))")
  case True
  then have "(sl, si) \<in> vertices g" "(dl, di) \<in> vertices g" by (simp_all add: attachable_def)
  then show ?thesis using True by (cases rule: link_cases [of sl si g dl di r ps]) auto
qed (simp add: attachable_def link_missing)

lemma link_nodes_effect:
  assumes "accepts_edge r (case ps of None \<Rightarrow> [] | Some d \<Rightarrow> d)"
  shows "\<exists>out g'. link_nodes run sl si r dl di ps g = (out, g') \<and> vertices g' = vertices g
    \<and> (if attachable (vertices g) ((sl, si), r, (dl, di))
       then (\<exists>row. out = Inr row) \<and> connections g' = insert ((sl, si), r, (dl, di)) (connections g)
       else out = Inl (RuntimeErr (''Source :'' @ sl @ '' '' @ quoted si @ '' not found.'')) \<and> connections g' = connections g)"
proof (cases "attachable (vertices g) ((sl, si), r, (dl, di))")
  case True
  then have "(sl, si) \<in> vertices g" "(dl, di) \<in> vertices g" by (simp_all add: attachable_def)
  then obtain row g' where "link_nodes run sl si r dl di ps g = (Inr row, g')" "vertices g' = vertices g"
    "connections g' = insert ((sl, si), r, (dl, di)) (connections g)" using assms by (rule link_effect)
  then show ?thesis using True by auto
qed (simp add: attachable_def link_missing)

lemma link_fold:
  "list_all (\<lambda>r. accepts_edge (relation_value (er_relationship r)) (edge_props r)) rs \<Longrightarrow>
   \<exists>g'. fold (link_step (Some run)) rs (errs, ld, g) =
      (errs @ map link_failure (filter (\<lambda>r. \<not> attachable (vertices g) (relationship_connection r)) rs),
       ld\<lparr>ld_relationships_created := ld_relationships_created ld
          + length (filter (\<lambda>r. attachable (vertices g) (relationship_connection r)) rs)\<rparr>, g')
    \<and> vertices g' = vertices g
    \<and> connections g' = connections g \<union> {c \<in> relationship_connection ` set rs. attachable (vertices g) c}"
proof (induction rs arbitrary: errs ld g)
  case (Cons r rs)
  let ?link = "link_nodes run (graph_label (er_source_label r)) (er_source_id r) (relation_value (er_relationship r))
    (graph_label (er_target_label r)) (er_target_id r) (Some (edge_props r)) g"
  have acc: "accepts_edge (relation_value (er_relationship r)) (case Some (edge_props r) of None \<Rightarrow> [] | Some d \<Rightarrow> d)"
    using Cons.prems by simp
  obtain out g1 where link: "?link = (out, g1)" "vertices g1 = vertices g"
    and eff: "if attachable (vertices g) (relationship_connection r)
      then (\<exists>row. out = Inr row) \<and> connections g1 = insert (relationship_connection r) (connections g)
      else out = Inl (snd (link_failure r)) \<and> connections g1 = connections g"
    unfolding relationship_connection_def link_failure_def snd_conv
    using link_nodes_effect [OF acc] by blast
  show ?case
  proof (cases "attachable (vertices g) (relationship_connection r)")
    case True
    then show ?thesis
      using eff link Cons.IH [where errs = errs and g = g1 and ld = "ld\<lparr>ld_relationships_created := ld_relationships_created ld + 1\<rparr>"]
        Cons.prems by (auto simp: link_step_def link_relationship_def)
  next
    case False
    then show ?thesis
      using eff link Cons.IH [where errs = "errs @ [link_failure r]" and g = g1 and ld = ld]
        Cons.prems by (auto simp: link_step_def link_relationship_def link_failure_def)
  qed
qed simp

lemma mention_fold:
  "list_all (\<lambda>e. accepts_edge rel (mention_props claim (ee_confidence e))) es \<Longrightarrow>
   \<exists>g'. fold (mention_step (Some run) claim rel) es (n, ld, g) = (n + length es, ld, g') \<and> vertices g' = vertices g
    \<and> connections g' = connections g \<union> {c \<in> mention_connection rel ` set es. attachable (vertices g) c}"
proof (induction es arbitrary: n g)
  case (Cons e es)
  let ?p = "mention_props claim (ee_confidence e)"
  let ?link = "link_nodes run ''TextChunk'' (the (ee_chunk_id e)) rel (graph_label (ee_label e)) (ee_entity_id e) (Some ?p) g"
  have acc: "accepts_edge rel (case Some ?p of None \<Rightarrow> [] | Some d \<Rightarrow> d)" using Cons.prems by simp
  obtain out g1 where link: "?link = (out, g1)" "vertices g1 = vertices g"
    and eff: "if attachable (vertices g) (mention_connection rel e)
      then (\<exists>row. out = Inr row) \<and> connections g1 = insert (mention_connection rel e) (connections g)
      else (\<exists>err. out = Inl err) \<and> connections g1 = connections g"
    unfolding mention_connection_def entity_vertex_def
    using link_nodes_effect [OF acc, of "''TextChunk''" "the (ee_chunk_id e)" "graph_label (ee_label e)" "ee_entity_id e" g]
    by (metis (no_types, lifting))
  have step: "mention_step (Some run) claim rel e (n, ld, g) = (n + 1, ld, g1)"
    using link(1) by (cases out) (simp_all add: mention_step_def link_chunk_mentions_def graph_label_def)
  obtain g' where "fold (mention_step (Some run) claim rel) es (n + 1, ld, g1) = (n + 1 + length es, ld, g')"
      "vertices g' = vertices g1"
      "connections g' = connections g1 \<union> {c \<in> mention_connection rel ` set es. attachable (vertices g1) c}"
    using Cons.IH [where n = "n + 1" and g = g1] Cons.prems by auto
  then show ?case using eff link(2) by (auto simp: step split: if_splits)
qed simp

lemma load_spec:
  fixes g :: 'g and chunks :: "chunk_metadata list" and es :: "extracted_entity list"
  defines "V \<equiv> vertices g \<union> spec_vertices chunks es"
  assumes accepted: "batch_accepted accepts_node accepts_edge chunks es rels"
  shows "\<exists>ld g'. load_batch (Some run) chunks es rels create_mentions g =
      (spec_report V chunks es rels create_mentions, ld, g')
    \<and> vertices g' = V
    \<and> connections g' = connections g
        \<union> {c \<in> relationship_connection ` set rels \<union> set (spec_mentions create_mentions chunks es). attachable V c}"
proof -
  let ?uniq = "dedup_by ee_entity_id [] es"
  let ?ok = "\<lambda>r. attachable V (relationship_connection r)"
  let ?mentioned = "filter (mentions_chunk (map cm_chunk_id chunks)) ?uniq"
  let ?grounded = "filter grounds_chunk ?uniq"
  have "set ?uniq \<subseteq> set es" using dedup_by_subset [of ee_entity_id "[]" es] by auto
  then have acc: "list_all (\<lambda>c. accepts_node ''TextChunk'' (chunk_props c None)) chunks"
    "list_all (\<lambda>e. accepts_node (graph_label (ee_label e)) (entity_props e)) ?uniq"
    "list_all (\<lambda>r. accepts_edge (relation_value (er_relationship r)) (edge_props r)) rels"
    "list_all (\<lambda>e. accepts_edge ''MENTIONS'' (mention_props None (ee_confidence e))) ?mentioned"
    "list_all (\<lambda>e. accepts_edge ''GROUNDS_ENTITY'' (mention_props (Some ''display_name'') (ee_confidence e))) ?grounded"
    using accepted unfolding batch_accepted_def node_bags_def edge_bags_def list_all_append list.pred_map
    by (auto simp: list_all_iff)
  obtain g1 where s1: "fold (\<lambda>c s. snd (store_chunk_node (Some run) c None s)) chunks (fresh_loader, g)
        = (fresh_loader\<lparr>ld_chunks_stored := length chunks\<rparr>, g1)"
      "vertices g1 = vertices g \<union> chunk_vertex ` set chunks" "connections g1 = connections g"
    using store_fold [OF acc(1), where ld = fresh_loader and g = g] by auto
  let ?ld2 = "fresh_loader\<lparr>ld_chunks_stored := length chunks, ld_nodes_upserted := length ?uniq\<rparr>"
  obtain g2 where s2: "fold (\<lambda>e s. snd (upsert_entity (Some run) e s)) ?uniq
        (fresh_loader\<lparr>ld_chunks_stored := length chunks\<rparr>, g1) = (?ld2, g2)"
      "vertices g2 = V" "connections g2 = connections g"
    using upsert_fold [where ld = "fresh_loader\<lparr>ld_chunks_stored := length chunks\<rparr>" and g = g1, OF acc(2)] s1
    by (auto simp: V_def spec_vertices_def Un_assoc)
  let ?ld3 = "?ld2\<lparr>ld_relationships_created := length (filter ?ok rels)\<rparr>"
  let ?errs = "map link_failure (filter (\<lambda>r. \<not> ?ok r) rels)"
  obtain g3 where s3: "fold (link_step (Some run)) rels ([], ?ld2, g2) = (?errs, ?ld3, g3)" "vertices g3 = V"
      "connections g3 = connections g \<union> {c \<in> relationship_connection ` set rels. attachable V c}"
    using link_fold [OF acc(3), where errs = "[]" and ld = ?ld2 and g = g2] s2 by auto
  obtain g4 where s4: "fold (mention_step (Some run) None ''MENTIONS'') ?mentioned (0, ?ld3, g3)
        = (length ?mentioned, ?ld3, g4)" "vertices g4 = V"
      "connections g4 = connections g3 \<union> {c \<in> mention_connection ''MENTIONS'' ` set ?mentioned. attachable V c}"
    using mention_fold [OF acc(4), where n = 0 and ld = ?ld3 and g = g3] s3
    by auto
  obtain g5 where s5: "fold (mention_step (Some run) (Some ''display_name'') ''GROUNDS_ENTITY'') ?grounded
        (length ?mentioned, ?ld3, g4) = (length ?mentioned + length ?grounded, ?ld3, g5)" "vertices g5 = V"
      "connections g5 = connections g4 \<union> {c \<in> mention_connection ''GROUNDS_ENTITY'' ` set ?grounded. attachable V c}"
    using mention_fold [OF acc(5), where n = "length ?mentioned" and ld = ?ld3 and g = g4] s4
    by auto
  have none: "filter (\<lambda>r. \<not> ?ok r) rels = [] \<longleftrightarrow> list_all ?ok rels" by (auto simp: filter_empty_conv list_all_iff)
  show ?thesis
  proof (cases create_mentions)
    case True
    then have "load_batch (Some run) chunks es rels create_mentions g = (spec_report V chunks es rels create_mentions, ?ld3, g5)"
      by (simp add: load_batch_def Let_def s1(1) s2(1) s3(1) s4(1) s5(1) spec_report_def spec_mentions_def none)
    then show ?thesis using True s3 s4 s5 by (auto simp: spec_mentions_def)
  next
    case False
    then have "load_batch (Some run) chunks es rels create_mentions g = (spec_report V chunks es rels create_mentions, ?ld3, g3)"
      by (simp add: load_batch_def Let_def s1(1) s2(1) s3(1) spec_report_def spec_mentions_def none)
    then show ?thesis using False s3 by (auto simp: spec_mentions_def)
  qed
qed

lemma load_exact:
  assumes "batch_accepted accepts_node accepts_edge chunks es rels"
  shows "\<exists>ld g'. load_batch (Some run) chunks es rels create_mentions g =
        (spec_report (vertices g') chunks es rels create_mentions, ld, g')
     \<and> vertices g' = vertices g \<union> spec_vertices chunks es
     \<and> connections g' = connections g \<union> {c \<in> relationship_connection ` set rels
          \<union> set (spec_mentions create_mentions chunks es). attachable (vertices g') c}
     \<and> (\<exists>ld' g''. load_batch (Some run) chunks es rels create_mentions g' =
            (spec_report (vertices g') chunks es rels create_mentions, ld', g'')
          \<and> vertices g'' = vertices g' \<and> connections g'' = connections g')"
proof -
  let ?cs = "relationship_connection ` set rels \<union> set (spec_mentions create_mentions chunks es)"
  obtain ld g' where one: "load_batch (Some run) chunks es rels create_mentions g =
        (spec_report (vertices g \<union> spec_vertices chunks es) chunks es rels create_mentions, ld, g')"
      "vertices g' = vertices g \<union> spec_vertices chunks es"
      "connections g' = connections g \<union> {c \<in> ?cs. attachable (vertices g \<union> spec_vertices chunks es) c}"
    using load_spec [OF assms] by blast
  have same: "vertices g' \<union> spec_vertices chunks es = vertices g'" using one(2) by blast
  obtain ld' g'' where two: "load_batch (Some run) chunks es rels create_mentions g' =
        (spec_report (vertices g') chunks es rels create_mentions, ld', g'')" "vertices g'' = vertices g'"
      "connections g'' = connections g' \<union> {c \<in> ?cs. attachable (vertices g') c}"
    using load_spec [OF assms, of create_mentions g'] unfolding same by blast
  have "connections g'' = connections g'" using two(3) one(3) unfolding one(2) by blast
  then show ?thesis using one two(1,2) unfolding one(2) [symmetric] by blast
qed

text \<open>Whatever bags the database refuses.\<close>

lemma store_fold_any:
  "\<exists>ld' g'. fold (\<lambda>c s. snd (store_chunk_node (Some run) c None s)) cs (ld, g) = (ld', g')
    \<and> vertices g \<subseteq> vertices g' \<and> vertices g' \<subseteq> vertices g \<union> chunk_vertex ` set cs \<and> connections g' = connections g"
proof (induction cs arbitrary: ld g)
  case (Cons c cs)
  obtain ld1 g1 where "snd (store_chunk_node (Some run) c None (ld, g)) = (ld1, g1)"
    "vertices g1 = vertices g \<or> vertices g1 = insert (chunk_vertex c) (vertices g)" "connections g1 = connections g"
    by (rule upsert_cases [of "''TextChunk''" "cm_chunk_id c" "chunk_props c None" g])
      (auto simp: store_chunk_node_def chunk_vertex_def)
  then show ?case using Cons.IH [where ld = ld1 and g = g1] by fastforce
qed simp

lemma upsert_fold_any:
  "\<exists>ld' g'. fold (\<lambda>e s. snd (upsert_entity (Some run) e s)) es (ld, g) = (ld', g')
    \<and> vertices g \<subseteq> vertices g' \<and> vertices g' \<subseteq> vertices g \<union> entity_vertex ` set es \<and> connections g' = connections g"
proof (induction es arbitrary: ld g)
  case (Cons e es)
  obtain ld1 g1 where "snd (upsert_entity (Some run) e (ld, g)) = (ld1, g1)"
    "vertices g1 = vertices g \<or> vertices g1 = insert (entity_vertex e) (vertices g)" "connections g1 = connections g"
    by (rule upsert_cases [of "graph_label (ee_label e)" "ee_entity_id e" "entity_props e" g])
      (auto simp: upsert_entity_def entity_vertex_def)
  then show ?case using Cons.IH [where ld = ld1 and g = g1] by fastforce
qed simp

lemma link_fold_any:
  "\<exists>new ld' g'. fold (link_step (Some run)) rs (errs, ld, g) = (errs @ new, ld', g') \<and> vertices g' = vertices g
    \<and> connections g \<subseteq> connections g'
    \<and> connections g' \<subseteq> connections g \<union> {c \<in> relationship_connection ` set rs. attachable (vertices g) c}
    \<and> list_all (\<lambda>r. r \<in> fst ` set new \<or> relationship_connection r \<in> connections g') rs"
proof (induction rs arbitrary: errs ld g)
  case (Cons r rs)
  let ?link = "link_nodes run (graph_label (er_source_label r)) (er_source_id r) (relation_value (er_relationship r))
    (graph_label (er_target_label r)) (er_target_id r) (Some (edge_props r)) g"
  obtain out g1 where link: "?link = (out, g1)" "vertices g1 = vertices g"
    and eff: "(\<exists>row. out = Inr row) \<and> attachable (vertices g) (relationship_connection r)
        \<and> connections g1 = insert (relationship_connection r) (connections g)
      \<or> (\<exists>e. out = Inl e) \<and> connections g1 = connections g"
    unfolding relationship_connection_def using link_nodes_any by blast
  show ?case
  proof (cases out)
    case (Inr row)
    let ?ld = "ld\<lparr>ld_relationships_created := ld_relationships_created ld + 1\<rparr>"
    obtain new ld' g' where "fold (link_step (Some run)) rs (errs, ?ld, g1) = (errs @ new, ld', g')" "vertices g' = vertices g1"
        "connections g1 \<subseteq> connections g'"
        "connections g' \<subseteq> connections g1 \<union> {c \<in> relationship_connection ` set rs. attachable (vertices g1) c}"
        "list_all (\<lambda>r. r \<in> fst ` set new \<or> relationship_connection r \<in> connections g') rs"
      using Cons.IH [where errs = errs and g = g1 and ld = ?ld] by blast
    moreover have "link_step (Some run) r (errs, ld, g) = (errs, ?ld, g1)"
      using link(1) Inr by (simp add: link_step_def link_relationship_def)
    ultimately show ?thesis using eff link(2) Inr by (intro exI [of _ new]) auto
  next
    case (Inl e)
    obtain new ld' g' where "fold (link_step (Some run)) rs (errs @ [(r, e)], ld, g1) = (errs @ [(r, e)] @ new, ld', g')"
        "vertices g' = vertices g1" "connections g1 \<subseteq> connections g'"
        "connections g' \<subseteq> connections g1 \<union> {c \<in> relationship_connection ` set rs. attachable (vertices g1) c}"
        "list_all (\<lambda>r. r \<in> fst ` set new \<or> relationship_connection r \<in> connections g') rs"
      using Cons.IH [where errs = "errs @ [(r, e)]" and g = g1 and ld = ld] by auto
    moreover have "link_step (Some run) r (errs, ld, g) = (errs @ [(r, e)], ld, g1)"
      using link(1) Inl by (simp add: link_step_def link_relationship_def)
    ultimately show ?thesis using eff link(2) Inl by (intro exI [of _ "(r, e) # new"]) (auto simp: list_all_iff)
  qed
qed simp

lemma mention_fold_any:
  "\<exists>n' g'. fold (mention_step (Some run) claim rel) es (n, ld, g) = (n', ld, g') \<and> vertices g' = vertices g
    \<and> connections g \<subseteq> connections g'
    \<and> connections g' \<subseteq> connections g \<union> {c \<in> mention_connection rel ` set es. attachable (vertices g) c}"
proof (induction es arbitrary: n g)
  case (Cons e es)
  let ?p = "mention_props claim (ee_confidence e)"
  let ?link = "link_nodes run ''TextChunk'' (the (ee_chunk_id e)) rel (graph_label (ee_label e)) (ee_entity_id e) (Some ?p) g"
  obtain out g1 where link: "?link = (out, g1)" "vertices g1 = vertices g"
    and eff: "attachable (vertices g) (mention_connection rel e)
        \<and> connections g1 = insert (mention_connection rel e) (connections g) \<or> connections g1 = connections g"
    unfolding mention_connection_def entity_vertex_def using link_nodes_any by blast
  have step: "mention_step (Some run) claim rel e (n, ld, g) = (n + 1, ld, g1)"
    using link(1) by (cases out) (simp_all add: mention_step_def link_chunk_mentions_def graph_label_def)
  obtain n' g' where "fold (mention_step (Some run) claim rel) es (n + 1, ld, g1) = (n', ld, g')"
      "vertices g' = vertices g1" "connections g1 \<subseteq> connections g'"
      "connections g' \<subseteq> connections g1 \<union> {c \<in> mention_connection rel ` set es. attachable (vertices g1) c}"
    using Cons.IH [where n = "n + 1" and g = g1] by blast
  then show ?case using eff link(2) by (auto simp: step)
qed simp

lemma load_any:
  "\<exists>rep ld g'. load_batch (Some run) chunks es rels create_mentions g = (rep, ld, g')
    \<and> vertices g \<subseteq> vertices g' \<and> vertices g' \<subseteq> vertices g \<union> spec_vertices chunks es
    \<and> connections g \<subseteq> connections g'
    \<and> connections g' \<subseteq> connections g \<union> {c \<in> relationship_connection ` set rels
        \<union> set (spec_mentions create_mentions chunks es). attachable (vertices g') c}
    \<and> list_all (\<lambda>r. r \<in> fst ` set (lr_relationship_errors rep) \<or> relationship_connection r \<in> connections g') rels
    \<and> lr_success rep = (lr_relationship_errors rep = [])"
proof -
  let ?uniq = "dedup_by ee_entity_id [] es"
  let ?mentioned = "filter (mentions_chunk (map cm_chunk_id chunks)) ?uniq"
  let ?grounded = "filter grounds_chunk ?uniq"
  obtain ld1 g1 where s1: "fold (\<lambda>c s. snd (store_chunk_node (Some run) c None s)) chunks (fresh_loader, g) = (ld1, g1)"
      "vertices g \<subseteq> vertices g1" "vertices g1 \<subseteq> vertices g \<union> chunk_vertex ` set chunks" "connections g1 = connections g"
    using store_fold_any by blast
  obtain ld2 g2 where s2: "fold (\<lambda>e s. snd (upsert_entity (Some run) e s)) ?uniq (ld1, g1) = (ld2, g2)"
      "vertices g1 \<subseteq> vertices g2" "vertices g2 \<subseteq> vertices g1 \<union> entity_vertex ` set ?uniq" "connections g2 = connections g1"
    using upsert_fold_any by blast
  obtain errs ld3 g3 where s3: "fold (link_step (Some run)) rels ([], ld2, g2) = (errs, ld3, g3)" "vertices g3 = vertices g2"
      "connections g2 \<subseteq> connections g3"
      "connections g3 \<subseteq> connections g2 \<union> {c \<in> relationship_connection ` set rels. attachable (vertices g2) c}"
      "list_all (\<lambda>r. r \<in> fst ` set errs \<or> relationship_connection r \<in> connections g3) rels"
    using link_fold_any [where errs = "[]" and rs = rels and ld = ld2 and g = g2] by auto
  obtain n4 g4 where s4: "fold (mention_step (Some run) None ''MENTIONS'') ?mentioned (0, ld3, g3) = (n4, ld3, g4)"
      "vertices g4 = vertices g3" "connections g3 \<subseteq> connections g4"
      "connections g4 \<subseteq> connections g3 \<union> {c \<in> mention_connection ''MENTIONS'' ` set ?mentioned. attachable (vertices g3) c}"
    using mention_fold_any by blast
  obtain n5 g5 where s5: "fold (mention_step (Some run) (Some ''display_name'') ''GROUNDS_ENTITY'') ?grounded (n4, ld3, g4)
        = (n5, ld3, g5)" "vertices g5 = vertices g4" "connections g4 \<subseteq> connections g5"
      "connections g5 \<subseteq> connections g4 \<union> {c \<in> mention_connection ''GROUNDS_ENTITY'' ` set ?grounded. attachable (vertices g4) c}"
    using mention_fold_any by blast
  let ?n = "if create_mentions then n5 else 0" and ?g = "if create_mentions then g5 else g3"
  have run: "load_batch (Some run) chunks es rels create_mentions g =
      (\<lparr>lr_chunks_stored = ld_chunks_stored ld3, lr_nodes_upserted = ld_nodes_upserted ld3,
        lr_relationships_created = ld_relationships_created ld3, lr_mentions_created = ?n,
        lr_relationship_errors = errs, lr_success = (errs = [])\<rparr>, ld3, ?g)"
    by (simp add: load_batch_def Let_def s1(1) s2(1) s3(1) s4(1) s5(1))
  have V: "vertices ?g = vertices g2" using s3(2) s4(2) s5(2) by simp
  have "vertices g \<subseteq> vertices ?g" "vertices ?g \<subseteq> vertices g \<union> spec_vertices chunks es"
    unfolding V spec_vertices_def using s1(2,3) s2(2,3) by blast+
  moreover have "connections g \<subseteq> connections ?g" using s1(4) s2(4) s3(3) s4(3) s5(3) by auto
  moreover have "connections ?g \<subseteq> connections g \<union> {c \<in> relationship_connection ` set rels
        \<union> set (spec_mentions create_mentions chunks es). attachable (vertices ?g) c}"
    unfolding V spec_mentions_def using s1(4) s2(4) s3(2,4) s4(2,4) s5(4) by (cases create_mentions) auto
  moreover have "connections g3 \<subseteq> connections ?g" using s4(3) s5(3) by auto
  then have "list_all (\<lambda>r. r \<in> fst ` set errs \<or> relationship_connection r \<in> connections ?g) rels"
    using s3(5) unfolding list_all_iff by blast
  ultimately show ?thesis
    by - (rule exI, rule exI, rule exI, intro conjI, rule run, simp_all)
qed

end

text \<open>C22. On a database that is up, whatever property bags it refuses, a load is sound: no vertex and no edge is
  lost, each new vertex is of a chunk or an entity of the batch, each new edge is of a relationship or
  mention of the batch and has both ends in the graph, every relationship is either in the graph or
  named among the errors, and the load reports success exactly when there are no errors, so then every
  relationship is in the graph. When the database takes all bags of the batch, the load refines its
  specification: the vertices are the old ones with those of the batch, the edges the old ones with
  every relationship and mention whose endpoints are then there, the report is exact, and it is
  idempotent, as documented: loading the batch again gives a report and leaves vertices and edges as
  they are.\<close>

theorem load_batch_refines:
  assumes "graph_database run vertices connections accepts_node accepts_edge"
  shows "\<exists>rep ld g'. load_batch (Some run) chunks es rels create_mentions g = (rep, ld, g')
     \<and> vertices g \<subseteq> vertices g' \<and> vertices g' \<subseteq> vertices g \<union> spec_vertices chunks es
     \<and> connections g \<subseteq> connections g'
     \<and> connections g' \<subseteq> connections g \<union> {c \<in> relationship_connection ` set rels
          \<union> set (spec_mentions create_mentions chunks es). attachable (vertices g') c}
     \<and> list_all (\<lambda>r. r \<in> fst ` set (lr_relationship_errors rep) \<or> relationship_connection r \<in> connections g') rels
     \<and> lr_success rep = (lr_relationship_errors rep = [])
     \<and> (if batch_accepted accepts_node accepts_edge chunks es rels
        then rep = spec_report (vertices g') chunks es rels create_mentions
          \<and> vertices g' = vertices g \<union> spec_vertices chunks es
          \<and> connections g' = connections g \<union> {c \<in> relationship_connection ` set rels
               \<union> set (spec_mentions create_mentions chunks es). attachable (vertices g') c}
          \<and> (\<exists>ld' g''. load_batch (Some run) chunks es rels create_mentions g' = (rep, ld', g'')
               \<and> vertices g'' = vertices g' \<and> connections g'' = connections g')
        else True)"
proof -
  note any = graph_database.load_any [OF assms, of chunks es rels create_mentions g]
  show ?thesis
  proof (cases "batch_accepted accepts_node accepts_edge chunks es rels")
    case True
    from graph_database.load_exact [OF assms True, of create_mentions g] any True show ?thesis by auto
  next
    case False
    with any show ?thesis by auto
  qed
qed

definition empty_memory :: memory_graph where
  "empty_memory = \<lparr>mg_nodes = [], mg_edges = []\<rparr>"

theorem load_batch_refines_witness:
  "case load_batch (Some memory_run) [] (xr_entities pump_result) (xr_relationships pump_result) True empty_memory of
     (rep, ld, g) \<Rightarrow> lr_success rep \<and> memory_vertices g = {(''Asset'', ''asset:SRP:PUMP-A''), (''Component'', ''component:SEAL'')}"
proof -
  let ?es = "xr_entities pump_result" and ?rels = "xr_relationships pump_result"
  have acc: "batch_accepted (\<lambda>l. flat_bag) (\<lambda>r. flat_bag) [] ?es ?rels"
    by code_simp
  have V: "memory_vertices empty_memory \<union> spec_vertices [] ?es
      = {(''Asset'', ''asset:SRP:PUMP-A''), (''Component'', ''component:SEAL'')}"
    by (simp add: memory_vertices_def empty_memory_def spec_vertices_def pump_result_def plain_entity_def entity_vertex_def
        graph_label_def label_map_def dict_default_def)
  have "list_all (\<lambda>r. attachable {(''Asset'', ''asset:SRP:PUMP-A''), (''Component'', ''component:SEAL'')}
      (relationship_connection r)) ?rels"
    by (simp add: pump_result_def attachable_def relationship_connection_def graph_label_def label_map_def dict_default_def)
  moreover obtain rep ld g' where "load_batch (Some memory_run) [] ?es ?rels True empty_memory = (rep, ld, g')"
    "rep = spec_report (memory_vertices g') [] ?es ?rels True"
    "memory_vertices g' = memory_vertices empty_memory \<union> spec_vertices [] ?es"
    using load_batch_refines [OF memory.graph_database_axioms, of "[]" ?es ?rels True empty_memory] acc by auto
  ultimately show ?thesis by (simp add: V spec_report_def)
qed

text \<open>A free-form property that is nested is sent as it is, so a database that holds flat properties only refuses the
  node; the loader logs it, and the load of the batch is a success.\<close>

definition nested_entity :: extracted_entity where
  "nested_entity = (plain_entity ''asset:SRP:PUMP-A'' LAsset ''Pump A'')
     \<lparr>ee_properties := [(''envelope'', VDict [(''max_temp'', VInt 90)])]\<rparr>"

lemma nested_property_lost:
  "case load_batch (Some memory_run) [] [nested_entity] [] True empty_memory of
     (rep, ld, g) \<Rightarrow> lr_success rep \<and> lr_nodes_upserted rep = 0 \<and> memory_vertices g = {}"
  by code_simp

end
