(* ===== verification/Response_Shaping.thy ===== *)
theory Response_Shaping
  imports PyVal
begin

section \<open>Response shaping\<close>

text \<open>
  \<open>app/ai_service/integration/adapters/response_shaping.py\<close>: the rewriting of keys, the removal of
  nulls from arrays, the top-level risk, the vocabulary of the graph panel, its execution log, the
  explanation methods and the order of features. Objects read by \<open>getattr\<close> are attribute
  dictionaries, tuples are lists, and a mapping has text keys.
\<close>

subsection \<open>Keys\<close>

text \<open>\<open>re.compile("_+([a-zA-Z0-9])").sub\<close>: a run of underscores before a letter or digit is
  replaced by that character in upper case; any other underscore stays.\<close>

abbreviation underscore :: char where
  "underscore \<equiv> CHR ''_''"

lemma length_dropWhile_less [termination_simp]: "length (dropWhile p xs) < Suc (length xs)"
  by (simp add: le_imp_less_Suc length_dropWhile_le)

lemma dropWhile_Cons_less: "dropWhile p xs = y # ys \<Longrightarrow> length ys < length xs"
  by (metis Suc_le_lessD length_Cons length_dropWhile_le)

function (sequential) snake_sub :: "str \<Rightarrow> str" where
  "snake_sub [] = []"
| "snake_sub (c # cs) =
     (if c = underscore then
        (case dropWhile ((=) underscore) cs of
           [] \<Rightarrow> c # snake_sub cs
         | d # rest \<Rightarrow> if is_alnum d then upper_char d # snake_sub rest else c # snake_sub cs)
      else c # snake_sub cs)"
  by pat_completeness auto
termination
  by (relation "measure length") (auto dest: dropWhile_Cons_less)

definition to_camel_case :: "str \<Rightarrow> str" where
  "to_camel_case name =
     (if underscore \<notin> set name then name
      else py_lower (takeWhile ((\<noteq>) underscore) name) @ snake_sub (dropWhile ((\<noteq>) underscore) name))"

text \<open>The regular expression of a lower camel-case key; \<open>$\<close> also matches before a final newline.\<close>

fun camel_tail :: "str \<Rightarrow> bool" where
  "camel_tail [] = True"
| "camel_tail (c # cs) = (is_alnum c \<and> camel_tail cs \<or> c = char_of (10 :: nat) \<and> cs = [])"

definition camel_key :: "str \<Rightarrow> bool" where
  "camel_key s = (case s of [] \<Rightarrow> False | c # cs \<Rightarrow> is_lower c \<and> camel_tail cs)"

text \<open>A dictionary comprehension: keys that become equal overwrite each other.\<close>

definition dict_of :: "('k \<times> 'v) list \<Rightarrow> ('k \<times> 'v) list" where
  "dict_of kvs = foldl (\<lambda>d kv. AList.update (fst kv) (snd kv) d) [] kvs"

fun camelize_keys :: "pyval \<Rightarrow> pyval" where
  "camelize_keys (VDict d) = VDict (dict_of (map (\<lambda>kv. (to_camel_case (fst kv), camelize_keys (snd kv))) d))"
| "camelize_keys (VList xs) = VList (map camelize_keys xs)"
| "camelize_keys v = v"

definition path_of :: "str \<Rightarrow> str \<Rightarrow> str" where
  "path_of path key = (if path \<noteq> [] then path @ ''.'' @ key else key)"

definition index_path :: "str \<Rightarrow> nat \<Rightarrow> str" where
  "index_path path i = path @ ''['' @ str_nat i @ '']''"

lemma enumerate_size_less [termination_simp]:
  "(i, x) \<in> set (enumerate n xs) \<Longrightarrow> size x < Suc (size_list size xs)"
  by (induction xs arbitrary: n) (auto simp: less_Suc_eq_le trans_le_add1 trans_le_add2 less_imp_le_nat)

fun find_non_camel_keys :: "str \<Rightarrow> pyval \<Rightarrow> str list" where
  "find_non_camel_keys path (VDict d) =
     concat (map (\<lambda>kv. let here = path_of path (fst kv)
       in (if camel_key (fst kv) then [] else [here]) @ find_non_camel_keys here (snd kv)) d)"
| "find_non_camel_keys path (VList xs) =
     concat (map (\<lambda>(i, x). find_non_camel_keys (index_path path i) x) (enumerate 0 xs))"
| "find_non_camel_keys path v = []"

subsection \<open>Arrays\<close>

definition array_key_hints :: "str list" where
  "array_key_hints = [''history'', ''frames'', ''metrics'', ''readings'', ''logs'',
     ''nodes'', ''edges'', ''highlightedNodes'', ''highlightedEdges'',
     ''citations'', ''chunks'', ''supportingNodes'', ''supportingEdges'',
     ''features'', ''confidenceMatrix'', ''bars'', ''positive'', ''negative'',
     ''contributingFailureModes'', ''globalFeatureImportance'',
     ''anomalyFlags'', ''anomalousSensors'', ''recommendations'', ''actions'',
     ''states'', ''events'', ''series'', ''points'']"

fun walk :: "str list \<Rightarrow> str option \<Rightarrow> pyval \<Rightarrow> pyval" where
  "walk keys key VNone = (if key \<in> Some ` set keys then VList [] else VNone)"
| "walk keys key (VDict d) = VDict (map (\<lambda>kv. (fst kv, walk keys (Some (fst kv)) (snd kv))) d)"
| "walk keys key (VList xs) = VList (map (walk keys None) (filter (\<lambda>x. x \<noteq> VNone) xs))"
| "walk keys key v = v"

definition sanitize_arrays :: "str list option \<Rightarrow> pyval \<Rightarrow> pyval" where
  "sanitize_arrays array_keys v = walk (case array_keys of None \<Rightarrow> array_key_hints | Some ks \<Rightarrow> ks) None v"

subsection \<open>The top-level risk\<close>

definition clamp_risk_score :: "float64 \<Rightarrow> pyval \<Rightarrow> float64" where
  "clamp_risk_score dflt v = (case to_float v of
       Inl e \<Rightarrow> dflt
     | Inr x \<Rightarrow> max 0 (min (F 100) x))"

text \<open>\<open>getattr(o, name, None)\<close>.\<close>

definition attr :: "pyval \<Rightarrow> str \<Rightarrow> pyval" where
  "attr v name = (case v of VDict d \<Rightarrow> dict_default d name VNone | _ \<Rightarrow> VNone)"

definition compute_top_level_risk_score :: "pyval \<Rightarrow> pyval \<Rightarrow> float64 res" where
  "compute_top_level_risk_score inference telemetry_risk_score =
     (let probability = attr (attr inference ''failure_probability'') ''probability''
      in if inference \<noteq> VNone \<and> probability \<noteq> VNone
         then bind_res (to_float probability) (\<lambda>p. Inr (clamp_risk_score 0 (VFloat (p * F 100))))
         else if telemetry_risk_score \<noteq> VNone then Inr (clamp_risk_score 0 telemetry_risk_score)
         else Inr 0)"


subsection \<open>The vocabulary of the graph panel\<close>

definition frontend_node_types :: "str list" where
  "frontend_node_types = [''asset'', ''component'', ''anomaly'', ''procedure'', ''record'']"

definition node_type_synonyms :: "(str \<times> str) list" where
  "node_type_synonyms = [
     (''asset'', ''asset''), (''equipment'', ''asset''), (''machine'', ''asset''), (''system'', ''asset''),
     (''component'', ''component''), (''part'', ''component''), (''subassembly'', ''component''),
     (''sensor'', ''component''), (''bearing'', ''component''),
     (''anomaly'', ''anomaly''), (''failure_mode'', ''anomaly''), (''failuremode'', ''anomaly''),
     (''failure'', ''anomaly''), (''fault'', ''anomaly''), (''defect'', ''anomaly''), (''alert'', ''anomaly''),
     (''procedure'', ''procedure''), (''sop'', ''procedure''), (''standard_operating_procedure'', ''procedure''),
     (''workinstruction'', ''procedure''), (''work_instruction'', ''procedure''),
     (''record'', ''record''), (''incident'', ''record''), (''workorder'', ''record''), (''work_order'', ''record''),
     (''event'', ''record''), (''maintenance_record'', ''record''), (''document'', ''record'')]"

definition default_node_type :: str where
  "default_node_type = ''component''"

text \<open>\<open>re.sub("[...]+", r, s)\<close> for a class of characters: every maximal run becomes \<open>r\<close>.\<close>

function (sequential) sub_runs :: "(char \<Rightarrow> bool) \<Rightarrow> str \<Rightarrow> str \<Rightarrow> str" where
  "sub_runs p r [] = []"
| "sub_runs p r (c # cs) = (if p c then r @ sub_runs p r (dropWhile p cs) else c # sub_runs p r cs)"
  by pat_completeness auto
termination
  by (relation "measure (\<lambda>(p, r, s). length s)") (auto simp: length_dropWhile_less)

definition space_or_dash :: "char \<Rightarrow> bool" where
  "space_or_dash c \<longleftrightarrow> is_space c \<or> c = CHR ''-''"

text \<open>\<open>str(value or "")\<close>.\<close>

definition text_or_empty :: "pyval \<Rightarrow> str" where
  "text_or_empty v = py_str (py_or v (VStr []))"

definition drop_underscores :: "str \<Rightarrow> str" where
  "drop_underscores s = filter (\<lambda>c. c \<noteq> underscore) s"

definition validate_node_type :: "pyval \<Rightarrow> str" where
  "validate_node_type raw_type =
     (let token = sub_runs space_or_dash [underscore] (py_lower (py_strip (text_or_empty raw_type)));
          mapped = or_str (map_of node_type_synonyms token) (map_of node_type_synonyms (drop_underscores token))
      in case mapped of
           Some t \<Rightarrow> if t \<in> set frontend_node_types then t else default_node_type
         | None \<Rightarrow> default_node_type)"

definition collapse_spaces :: "pyval \<Rightarrow> str" where
  "collapse_spaces v = py_strip (sub_runs is_space '' '' (text_or_empty v))"

definition normalize_node_id :: "pyval \<Rightarrow> str" where
  "normalize_node_id raw_id = collapse_spaces raw_id"

definition after_last_colon :: "str \<Rightarrow> str" where
  "after_last_colon s = rev (takeWhile (\<lambda>c. c \<noteq> CHR '':'') (rev s))"

definition normalize_node_label :: "pyval \<Rightarrow> str \<Rightarrow> str" where
  "normalize_node_label raw_label node_id =
     (let label = collapse_spaces raw_label;
          local_name = (if CHR '':'' \<in> set node_id then after_last_colon node_id else node_id)
      in if label \<noteq> [] then label else if local_name \<noteq> [] then local_name else ''node'')"

definition relation_synonyms :: "(str \<times> str) list" where
  "relation_synonyms = [(''MITIGATES'', ''MITIGATED_BY''), (''FIXED_BY'', ''RESOLVED_BY''),
     (''HAS_FAULT'', ''HAS_FAILURE_MODE''), (''HAS_FAILURE'', ''HAS_FAILURE_MODE''), (''CHILD_OF'', ''PART_OF'')]"

definition strip_underscores :: "str \<Rightarrow> str" where
  "strip_underscores s =
     rev (dropWhile ((=) underscore) (rev (dropWhile ((=) underscore) s)))"

definition normalize_relation_name :: "pyval \<Rightarrow> str" where
  "normalize_relation_name raw =
     (let token0 = sub_runs space_or_dash [underscore] (py_upper (py_strip (text_or_empty raw)));
          token1 = strip_underscores (sub_runs ((=) underscore) [underscore] token0);
          token = dict_default relation_synonyms token1 token1
      in if token = [] then ''RELATED_TO'' else token)"

subsection \<open>The execution log\<close>

text \<open>\<open>_emit\<close>: the lines are numbered in the order they are emitted.\<close>

definition numbered_steps :: "str list \<Rightarrow> str list" where
  "numbered_steps texts = map (\<lambda>(i, t). ''STEP '' @ str_nat i @ '': '' @ t) (enumerate 1 texts)"

text \<open>\<open>f"{v:.2f}"\<close> accepts numbers only.\<close>

fun format_number :: "nat \<Rightarrow> pyval \<Rightarrow> str res" where
  "format_number n (VStr s) = Inl (ValueErr ''Unknown format code'')"
| "format_number n v = bind_res (to_float v) (\<lambda>x. Inr (fmt_fixed n x))"

definition citation_step :: "nat \<times> pyval \<Rightarrow> str res" where
  "citation_step ic = (case ic of (i, c) \<Rightarrow>
     let label = py_or (attr c ''source_type'') (py_or (attr c ''source_document'') (VStr ''citation''));
         confidence = py_or (attr c ''confidence_score'') (VFloat 0)
     in bind_res (format_number 2 confidence) (\<lambda>x.
        Inr (''citation_binding: ['' @ str_nat (i + 1) @ ''] '' @ py_str label @ '' (confidence='' @ x @ '')'')))"

definition build_graphrag_execution_logs ::
  "str option \<Rightarrow> int \<Rightarrow> int \<Rightarrow> int \<Rightarrow> int \<Rightarrow> bool \<Rightarrow> float64 option \<Rightarrow> str list \<Rightarrow> pyval list \<Rightarrow>
   float64 option \<Rightarrow> str list res" where
  "build_graphrag_execution_logs query vector_hits node_count edge_count citation_count answer_ready
      overall_confidence remapped_types citations latency_ms =
     bind_res (map_res citation_step (enumerate 0 (take 5 citations))) (\<lambda>bound.
     Inr (numbered_steps (
       [''vector_search: embedded query'' @
          (case query of Some q \<Rightarrow> if q \<noteq> [] then '' '' @ [CHR 0x27] @ q @ [CHR 0x27] else [] | None \<Rightarrow> []),
        ''vector_search: '' @ str_int vector_hits @ '' chunk hit(s) retrieved'',
        ''graph_traversal: expanded '' @ str_int node_count @ '' node(s) / '' @ str_int edge_count @ '' edge(s) from seed hits'',
        (if remapped_types \<noteq> []
         then ''node_type_validation: remapped raw ontology type(s) ['' @ join '', '' (sorted_set remapped_types) @
              ''] into panel vocabulary''
         else ''node_type_validation: all node types within panel vocabulary''),
        ''citation_binding: attached '' @ str_int citation_count @ '' citation(s)'']
       @ bound
       @ [if answer_ready
          then ''llm_synthesis: answer drafted'' @
               (case overall_confidence of None \<Rightarrow> [] | Some x \<Rightarrow> '', overall_confidence='' @ fmt_fixed 2 x)
          else ''llm_synthesis: awaiting response context'']
       @ (case latency_ms of None \<Rightarrow> [] | Some x \<Rightarrow> [''completed: total latency '' @ fmt_fixed 1 x @ '' ms'']))))"

subsection \<open>Explanation methods and feature order\<close>

definition supported_explain_methods :: "str list" where
  "supported_explain_methods = [''SHAP'', ''LIME'', ''INTEGRATED_GRADIENTS'', ''PERMUTATION'']"

definition explain_method_aliases :: "(str \<times> str) list" where
  "explain_method_aliases = [(''shap'', ''SHAP''), (''lime'', ''LIME''),
     (''integrated_gradients'', ''INTEGRATED_GRADIENTS''), (''integratedgradients'', ''INTEGRATED_GRADIENTS''),
     (''integrated-gradients'', ''INTEGRATED_GRADIENTS''), (''integrated gradients'', ''INTEGRATED_GRADIENTS''),
     (''ig'', ''INTEGRATED_GRADIENTS''), (''gradcam'', ''INTEGRATED_GRADIENTS''),
     (''permutation'', ''PERMUTATION''), (''permutation_importance'', ''PERMUTATION'')]"

definition unsupported_explain_method :: "pyval \<Rightarrow> py_error" where
  "unsupported_explain_method method =
     ValueErr (''Unsupported explainability method '' @ py_repr method @ ''. Supported methods: '' @
               join '', '' supported_explain_methods @ ''.'')"

definition resolve_explain_method :: "pyval \<Rightarrow> str res" where
  "resolve_explain_method raw =
     (if raw = VNone \<or> py_strip (py_str raw) = [] then Inr ''SHAP''
      else let token = py_lower (py_strip (py_str raw))
           in case or_str (map_of explain_method_aliases token) (map_of explain_method_aliases (drop_underscores token)) of
                None \<Rightarrow> Inl (unsupported_explain_method raw)
              | Some canonical \<Rightarrow> Inr canonical)"

definition method_descriptors :: "(str \<times> str) list" where
  "method_descriptors = [(''SHAP'', ''SHAP contribution''), (''LIME'', ''LIME local linear weight''),
     (''INTEGRATED_GRADIENTS'', ''Integrated-gradients attribution''), (''PERMUTATION'', ''Permutation importance'')]"

definition method_descriptor :: "str \<Rightarrow> str" where
  "method_descriptor canonical = dict_default method_descriptors (py_upper canonical) ''Feature contribution''"

definition magnitude :: "(str \<times> pyval) list \<Rightarrow> float64" where
  "magnitude feature =
     (case to_float (py_or (dict_default feature ''shapValue'' (VFloat 0)) (VFloat 0)) of
        Inl e \<Rightarrow> 0 | Inr x \<Rightarrow> fabs x)"

definition sort_features_by_impact :: "(str \<times> pyval) list list \<Rightarrow> (str \<times> pyval) list list" where
  "sort_features_by_impact features = sorted_desc magnitude features"

subsection \<open>Keys: what the rewriting reaches\<close>

text \<open>The texts whose rest, after the first character, becomes camel case: words whose underscores
  are followed by something.\<close>

fun snake_tail :: "str \<Rightarrow> bool" where
  "snake_tail [] = True"
| "snake_tail (c # cs) =
     (is_alnum c \<and> snake_tail cs \<or> c = char_of (10 :: nat) \<and> cs = [] \<or>
      c = underscore \<and> cs \<noteq> [] \<and> cs \<noteq> [char_of (10 :: nat)] \<and> snake_tail cs)"

definition wire_key :: "str \<Rightarrow> bool" where
  "wire_key s \<longleftrightarrow> s \<noteq> [] \<and> snake_tail (tl s) \<and>
     (if underscore \<in> set s then is_lower (hd s) \<or> is_upper (hd s) else is_lower (hd s))"

lemma underscore_classes [simp]:
  "\<not> is_alnum underscore" "\<not> is_lower underscore" "\<not> is_upper underscore" "underscore \<noteq> char_of (10 :: nat)"
  by (simp_all add: char_class_defs) (simp add: char_of_def)

lemma newline_classes [simp]: "\<not> is_alnum (char_of (10 :: nat))"
  by (simp add: char_class_defs)

lemma alnum_upper_char [simp]: "is_alnum (upper_char c) = is_alnum c"
  by (auto simp: upper_char_def char_class_defs)

lemma not_lower_upper_char [simp]: "\<not> is_lower (upper_char c)"
  by (auto simp: upper_char_def char_class_defs)

lemma alnum_lower_char [simp]: "is_alnum (lower_char c) = is_alnum c"
  by (auto simp: lower_char_def char_class_defs)

lemma is_lower_lower_char [simp]: "is_lower (lower_char c) \<longleftrightarrow> is_lower c \<or> is_upper c"
  by (auto simp: lower_char_def char_class_defs)

lemma snake_tail_drop:
  "snake_tail (underscore # cs) \<longleftrightarrow>
     (case dropWhile ((=) underscore) cs of [] \<Rightarrow> False | d # rest \<Rightarrow> is_alnum d \<and> snake_tail rest)"
  by (induction cs) auto

lemma camel_tail_snake_sub: "camel_tail (snake_sub s) \<longleftrightarrow> snake_tail s"
proof (induction s rule: snake_sub.induct)
  case 1
  show ?case by simp
next
  case (2 c cs)
  show ?case
  proof (cases "c = underscore")
    case True
    show ?thesis
    proof (cases "dropWhile ((=) underscore) cs")
      case Nil
      with True show ?thesis by (simp add: snake_tail_drop del: snake_tail.simps(2) dropWhile_eq_Nil_conv)
    next
      case (Cons d rest)
      with True "2.IH"(2) [OF True Cons] show ?thesis
        by (auto simp: snake_tail_drop simp del: snake_tail.simps(2))
    qed
  next
    case False
    have "snake_sub cs = [] \<longleftrightarrow> cs = []"
      by (cases cs) (auto split: list.splits)
    with False "2.IH" show ?thesis by auto
  qed
qed

lemma snake_tail_append:
  "rest \<noteq> [] \<Longrightarrow> underscore \<notin> set hs \<Longrightarrow> hd rest = underscore \<Longrightarrow>
   snake_tail (hs @ rest) \<longleftrightarrow> list_all is_alnum hs \<and> snake_tail rest"
  by (induction hs) auto

lemma camel_tail_append: "rest \<noteq> [] \<Longrightarrow> camel_tail (hs @ rest) \<longleftrightarrow> list_all is_alnum hs \<and> camel_tail rest"
  by (induction hs) auto

lemma list_all_alnum_lower [simp]: "list_all is_alnum (py_lower hs) = list_all is_alnum hs"
  by (induction hs) (simp_all add: py_lower_def)

lemma snake_sub_not_Nil [simp]: "snake_sub (c # cs) \<noteq> []"
  by (auto split: list.splits)

lemma snake_sub_underscore_head: "\<not> camel_key (snake_sub (underscore # cs))"
  by (auto simp: camel_key_def split: list.splits)

lemma no_underscore_tail: "underscore \<notin> set s \<Longrightarrow> snake_tail s \<longleftrightarrow> camel_tail s"
  by (induction s) auto

lemma split_at_underscore:
  "underscore \<in> set s \<Longrightarrow> \<exists>cs. dropWhile ((\<noteq>) underscore) s = underscore # cs"
  by (induction s) auto

text \<open>The rewritten key is lower camel case exactly for these texts.\<close>

lemma camel_key_to_camel_case: "camel_key (to_camel_case s) \<longleftrightarrow> wire_key s"
proof (cases "underscore \<in> set s")
  case False
  then show ?thesis
    by (cases s) (auto simp: to_camel_case_def camel_key_def wire_key_def no_underscore_tail)
next
  case True
  define hs where "hs = takeWhile ((\<noteq>) underscore) s"
  obtain cs where rest: "dropWhile ((\<noteq>) underscore) s = underscore # cs"
    using split_at_underscore [OF True] by blast
  have s: "s = hs @ underscore # cs" unfolding hs_def rest [symmetric] by simp
  have fresh: "underscore \<notin> set hs" unfolding hs_def by (metis set_takeWhileD)
  show ?thesis
  proof (cases hs)
    case Nil
    then have "\<not> camel_key (to_camel_case s)"
      using True rest snake_sub_underscore_head by (simp add: to_camel_case_def hs_def py_lower_def)
    moreover have "\<not> wire_key s" using Nil s by (simp add: wire_key_def)
    ultimately show ?thesis by simp
  next
    case (Cons h hs')
    have "to_camel_case s = lower_char h # py_lower hs' @ snake_sub (underscore # cs)"
      using True rest Cons by (simp add: to_camel_case_def hs_def py_lower_def)
    then have "camel_key (to_camel_case s) \<longleftrightarrow>
        (is_lower h \<or> is_upper h) \<and> list_all is_alnum hs' \<and> snake_tail (underscore # cs)"
      by (simp add: camel_key_def camel_tail_append camel_tail_snake_sub
          del: snake_sub.simps snake_tail.simps)
    moreover have "wire_key s \<longleftrightarrow> (is_lower h \<or> is_upper h) \<and> list_all is_alnum hs' \<and> snake_tail (underscore # cs)"
      using True s Cons fresh by (simp add: wire_key_def snake_tail_append conj_commute conj_left_commute
          del: snake_tail.simps)
    ultimately show ?thesis by simp
  qed
qed

lemma camel_tail_no_underscore: "camel_tail s \<Longrightarrow> underscore \<notin> set s"
  by (induction s) auto

lemma camel_key_no_underscore: "camel_key s \<Longrightarrow> underscore \<notin> set s"
  using camel_tail_no_underscore [of "tl s"] by (cases s) (auto simp: camel_key_def)

lemma to_camel_case_id: "camel_key s \<Longrightarrow> to_camel_case s = s"
  by (simp add: to_camel_case_def camel_key_no_underscore)

text \<open>Every key, and every dictionary, at any depth.\<close>

fun all_keys :: "(str \<Rightarrow> bool) \<Rightarrow> pyval \<Rightarrow> bool" where
  "all_keys P (VDict d) = list_all (\<lambda>kv. P (fst kv) \<and> all_keys P (snd kv)) d"
| "all_keys P (VList xs) = list_all (all_keys P) xs"
| "all_keys P v = True"

fun all_dicts :: "pyval \<Rightarrow> bool" where
  "all_dicts (VDict d) = (wf_dict d \<and> list_all (\<lambda>kv. all_dicts (snd kv)) d)"
| "all_dicts (VList xs) = list_all all_dicts xs"
| "all_dicts v = True"

lemma list_all_enumerate: "list_all P xs \<longleftrightarrow> (\<forall>p \<in> set (enumerate n xs). P (snd p))"
  by (induction xs arbitrary: n) simp_all

lemma find_non_camel_keys_none: "find_non_camel_keys path v = [] \<longleftrightarrow> all_keys camel_key v"
proof (induction path v rule: find_non_camel_keys.induct)
  case (1 path d)
  then show ?case by (auto simp: list_all_iff Let_def)
next
  case (2 path xs)
  have "find_non_camel_keys path (VList xs) = [] \<longleftrightarrow>
      (\<forall>p \<in> set (enumerate 0 xs). find_non_camel_keys (index_path path (fst p)) (snd p) = [])"
    by (simp add: split_beta)
  also have "\<dots> \<longleftrightarrow> (\<forall>p \<in> set (enumerate 0 xs). all_keys camel_key (snd p))"
  proof (rule ball_cong [OF refl])
    fix p assume "p \<in> set (enumerate 0 xs)"
    then show "find_non_camel_keys (index_path path (fst p)) (snd p) = [] \<longleftrightarrow> all_keys camel_key (snd p)"
      using "2" [of p "fst p" "snd p"] by simp
  qed
  also have "\<dots> \<longleftrightarrow> all_keys camel_key (VList xs)"
    by (simp only: all_keys.simps list_all_enumerate [where n = 0])
  finally show ?case .
qed simp_all

lemma wf_dict_of [dict_simps]: "wf_dict (dict_of kvs)"
  unfolding dict_of_def by (rule foldl_keeps [where P = wf_dict]) (simp_all add: wf_dict_update)

lemma dict_of_subset: "set (dict_of kvs) \<subseteq> set kvs"
proof -
  have "wf_dict (dict_of kvs) \<and> set (dict_of kvs) \<subseteq> set kvs"
    unfolding dict_of_def
    by (rule foldl_keeps [where P = "\<lambda>d. wf_dict d \<and> set d \<subseteq> set kvs"])
      (auto simp: wf_dict_update dest: update_cases)
  then show ?thesis by simp
qed

lemma foldl_update_distinct:
  "distinct (map fst kvs) \<Longrightarrow> fst ` set kvs \<inter> fst ` set d = {} \<Longrightarrow>
   foldl (\<lambda>d kv. AList.update (fst kv) (snd kv) d) d kvs = d @ kvs"
  by (induction kvs arbitrary: d) (auto simp: update_new)

lemma dict_of_distinct: "wf_dict kvs \<Longrightarrow> dict_of kvs = kvs"
  unfolding dict_of_def wf_dict_def by (simp add: foldl_update_distinct)

lemma map_fst_pair: "map fst (map (\<lambda>kv. (f (fst kv), g (snd kv))) d) = map (f \<circ> fst) d"
  by simp

lemma camelize_all_keys: "all_keys (\<lambda>k. P (to_camel_case k)) v \<Longrightarrow> all_keys P (camelize_keys v)"
proof (induction v rule: camelize_keys.induct)
  case (1 d)
  then show ?case
    using dict_of_subset [of "map (\<lambda>kv. (to_camel_case (fst kv), camelize_keys (snd kv))) d"]
    by (fastforce simp: list_all_iff)
next
  case (2 xs)
  then show ?case by (simp add: list_all_iff)
qed simp_all

lemma camelize_all_dicts: "all_dicts (camelize_keys v)"
proof (induction v rule: camelize_keys.induct)
  case (1 d)
  then show ?case
    using dict_of_subset [of "map (\<lambda>kv. (to_camel_case (fst kv), camelize_keys (snd kv))) d"]
    by (fastforce simp: list_all_iff wf_dict_of)
next
  case (2 xs)
  then show ?case by (simp add: list_all_iff)
qed simp_all

lemma camelize_fixed: "all_keys camel_key v \<Longrightarrow> all_dicts v \<Longrightarrow> camelize_keys v = v"
proof (induction v rule: camelize_keys.induct)
  case (1 d)
  have "map (\<lambda>kv. (to_camel_case (fst kv), camelize_keys (snd kv))) d = d"
    using 1 by (intro map_idI) (auto simp: list_all_iff to_camel_case_id)
  then show ?case using "1.prems" by (simp add: dict_of_distinct)
next
  case (2 xs)
  then show ?case by (simp add: list_all_iff map_idI)
qed simp_all

text \<open>The wire keys. A payload all of whose keys are words (they start with a letter, hold letters,
  digits and underscores, and end in no underscore) leaves \<open>camelize_keys\<close> without an offender
  of \<open>find_non_camel_keys\<close>, and a second pass changes nothing. For one key the condition is exact:
  a key is lower camel case after the rewriting if and only if it is such a word, so a leading or
  trailing underscore, a dash or a capital without underscore stays an offender.
\<close>

theorem camelize_wire:
  assumes "all_keys wire_key v"
  shows "find_non_camel_keys [] (camelize_keys v) = [] \<and> camelize_keys (camelize_keys v) = camelize_keys v \<and>
         (camel_key (to_camel_case s) \<longleftrightarrow> wire_key s)"
proof -
  have "all_keys camel_key (camelize_keys v)"
    using assms by (intro camelize_all_keys) (simp add: camel_key_to_camel_case)
  then show ?thesis
    by (simp add: find_non_camel_keys_none camelize_fixed camelize_all_dicts camel_key_to_camel_case)
qed

theorem camelize_wire_witness:
  "find_non_camel_keys [] (camelize_keys (VDict [(''shap_value'', VList [VDict [(''Citation_id'', VInt 1)]])])) = []"
  by (rule conjunct1 [OF camelize_wire])
    (simp add: wire_key_def char_class_defs)

text \<open>Keys that collide lose a value; a private key comes out with a capital; a capitalised snake-case
  key keeps its capitals.\<close>

lemma camel_collision:
  "camelize_keys (VDict [(''shap_value'', VInt 1), (''shapValue'', VInt 2)]) = VDict [(''shapValue'', VInt 2)]"
  by code_simp

lemma private_key_capitalised:
  "find_non_camel_keys [] (camelize_keys (VDict [(''_id'', VInt 1)])) = [''Id'']"
  by code_simp

lemma screaming_key: "to_camel_case ''MAX_SPEED'' = ''maxSPEED''"
  by code_simp

subsection \<open>Arrays, risk, vocabulary and order\<close>

fun array_clean :: "str list \<Rightarrow> str option \<Rightarrow> pyval \<Rightarrow> bool" where
  "array_clean keys key VNone = (key \<notin> Some ` set keys)"
| "array_clean keys key (VDict d) = list_all (\<lambda>kv. array_clean keys (Some (fst kv)) (snd kv)) d"
| "array_clean keys key (VList xs) = (VNone \<notin> set xs \<and> list_all (array_clean keys None) xs)"
| "array_clean keys key v = True"

lemma walk_VNone: "walk keys None v = VNone \<longleftrightarrow> v = VNone"
  by (cases v) auto

lemma walk_clean: "array_clean keys key (walk keys key v)"
proof (induction keys key v rule: walk.induct)
  case (3 keys key xs)
  have "VNone \<notin> walk keys None ` {x \<in> set xs. x \<noteq> VNone}"
    by (metis (mono_tags, lifting) imageE mem_Collect_eq walk_VNone)
  with 3 show ?case by (auto simp: list_all_iff)
qed (auto simp: list_all_iff)

lemma walk_fixed: "array_clean keys key v \<Longrightarrow> walk keys key v = v"
proof (induction keys key v rule: walk.induct)
  case (2 keys key d)
  then show ?case by (auto simp: list_all_iff intro!: map_idI)
next
  case (3 keys key xs)
  then have "filter (\<lambda>x. x \<noteq> VNone) xs = xs" by (auto simp: filter_id_conv)
  with 3 show ?case by (auto simp: list_all_iff intro!: map_idI)
qed auto

text \<open>Strict arrays. Whatever the payload, the sanitised one has no null under an array key and
  none inside a list; the payloads that the sanitiser leaves alone are exactly those that are clean
  already, so a second pass changes nothing; and a dictionary keeps its keys in their order.
\<close>

theorem sanitize_exact:
  "array_clean ks None (sanitize_arrays (Some ks) v) \<and>
   (sanitize_arrays (Some ks) v = v \<longleftrightarrow> array_clean ks None v) \<and>
   sanitize_arrays (Some ks) (sanitize_arrays (Some ks) v) = sanitize_arrays (Some ks) v \<and>
   sanitize_arrays None v = sanitize_arrays (Some array_key_hints) v \<and>
   (case sanitize_arrays (Some ks) (VDict d) of VDict d' \<Rightarrow> map fst d' = map fst d | _ \<Rightarrow> False)"
  unfolding sanitize_arrays_def using walk_clean [of ks None v] walk_fixed [of ks None]
  by (auto simp: o_def)

lemma clamp_risk_score_range: "0 \<le> clamp_risk_score 0 v \<and> clamp_risk_score 0 v \<le> F 100"
  using F_nonneg [of 100] by (auto simp: clamp_risk_score_def split: sum.splits)

lemma top_level_risk_range:
  "compute_top_level_risk_score inference telemetry = Inr r \<Longrightarrow> 0 \<le> r \<and> r \<le> F 100"
  using clamp_risk_score_range F_nonneg [of 100]
  by (auto simp: compute_top_level_risk_score_def Let_def bind_res_Inr split: if_splits)

text \<open>The vocabulary of the panel is closed, and every term of it maps to itself.\<close>

lemma validate_node_type_closed: "validate_node_type v \<in> set frontend_node_types"
  by (auto simp: validate_node_type_def Let_def default_node_type_def frontend_node_types_def split: option.splits)

lemma frontend_types_fixed: "list_all (\<lambda>t. validate_node_type (VStr t) = t) frontend_node_types"
  by code_simp

lemma node_label_nonempty: "normalize_node_label v node_id \<noteq> []"
  by (simp add: normalize_node_label_def Let_def)

lemma relation_name_nonempty: "normalize_relation_name v \<noteq> []"
  by (simp add: normalize_relation_name_def Let_def)

lemma explain_aliases_supported: "list_all (\<lambda>kv. snd kv \<in> set supported_explain_methods) explain_method_aliases"
  by code_simp

lemma resolve_explain_method_closed:
  "case resolve_explain_method v of
     Inr m \<Rightarrow> m \<in> set supported_explain_methods
   | Inl e \<Rightarrow> e = unsupported_explain_method v"
proof (cases "v = VNone \<or> py_strip (py_str v) = []")
  case True
  then show ?thesis by (simp add: resolve_explain_method_def supported_explain_methods_def)
next
  case False
  define t where "t = py_lower (py_strip (py_str v))"
  have "m \<in> set supported_explain_methods"
    if "or_str (map_of explain_method_aliases t) (map_of explain_method_aliases (drop_underscores t)) = Some m" for m
  proof -
    note found = that
    obtain k where "map_of explain_method_aliases k = Some m"
      using found by (auto simp: or_str_def split: if_splits)
    from map_of_SomeD [OF this] show ?thesis
      using explain_aliases_supported unfolding list_all_iff by force
  qed
  then show ?thesis using False by (auto simp: resolve_explain_method_def t_def Let_def split: option.splits)
qed

lemma known_methods_resolve:
  "list_all (\<lambda>m. resolve_explain_method (VStr m) = Inr m) supported_explain_methods"
  by code_simp

lemma numbered_steps_nth:
  "i < length texts \<Longrightarrow> numbered_steps texts ! i = ''STEP '' @ str_nat (Suc i) @ '': '' @ texts ! i"
  by (simp add: numbered_steps_def nth_enumerate_eq)

lemma length_numbered_steps [simp]: "length (numbered_steps texts) = length texts"
  by (simp add: numbered_steps_def)

lemma numbered_steps_append: "take (length xs) (numbered_steps (xs @ ys)) = numbered_steps xs"
  by (simp add: numbered_steps_def enumerate_append_eq)

lemma execution_log_length:
  "build_graphrag_execution_logs q v n e c ready conf types cs latency = Inr logs \<Longrightarrow>
   length logs = 6 + min 5 (length cs) + (if latency = None then 0 else 1)"
  by (auto simp: build_graphrag_execution_logs_def bind_res_Inr dest!: map_res_length split: option.splits)

text \<open>The order of the features. The result is a permutation of the features in which the absolute
  contributions do not increase, and features of equal contribution keep their order; a value that
  is no number counts as zero.
\<close>

theorem sort_features_stable_desc:
  "mset (sort_features_by_impact fs) = mset fs \<and>
   sorted_wrt (\<lambda>a b. magnitude b \<le> magnitude a) (sort_features_by_impact fs) \<and>
   filter (\<lambda>f. magnitude f = k) (sort_features_by_impact fs) = filter (\<lambda>f. magnitude f = k) fs \<and>
   (case to_float (dict_default f ''shapValue'' (VFloat 0)) of Inl e \<Rightarrow> magnitude f = 0 | Inr x \<Rightarrow> magnitude f = fabs x)"
proof -
  have empty: "parse_decimal [] = None" by code_simp
  have "case to_float (dict_default f ''shapValue'' (VFloat 0)) of Inl e \<Rightarrow> magnitude f = 0 | Inr x \<Rightarrow> magnitude f = fabs x"
    by (cases "dict_default f ''shapValue'' (VFloat 0)")
      (auto simp: magnitude_def py_or_def fabs_def of_int64_def empty split: sum.splits option.splits)
  then show ?thesis
    by (simp add: sort_features_by_impact_def sorted_desc_sorted sorted_desc_stable)
qed

end
