(* ===== verification/Prediction_Service.thy ===== *)
theory Prediction_Service
  imports PyVal
begin

section \<open>The prediction service\<close>

text \<open>
  \<open>app/predictive/prediction_service.py\<close> with the response of \<open>app/models/predictive.py\<close> and the
  frame validation of \<open>feature_engineering.py\<close>, and \<open>data_drift_checker.py\<close>. The data frame of
  engineered features (pandas), the two models, numpy's exponential and the means of the live data
  are parameters, and all but the exponential may raise; a row of features is a partial function from
  column names. Time stamps count microseconds since 1970, in UTC; latencies and identifiers are left
  out.
\<close>

subsection \<open>Contracts\<close>

record sensor_reading =
  sr_sensor_id :: str
  sr_metric :: str
  sr_value :: float64

record telemetry_frame =
  tf_asset_id :: str
  tf_component_id :: "str option"
  tf_timestamp :: int
  tf_readings :: "sensor_reading list"

record predict_request =
  pq_asset_id :: str
  pq_component_id :: "str option"
  pq_history :: "telemetry_frame list"
  pq_horizon_hours :: int

datatype anomaly_severity = SEV_LOW | SEV_MEDIUM | SEV_HIGH | SEV_CRITICAL

record sensor_flag =
  sf_sensor_id :: str
  sf_metric :: str
  sf_anomaly_score :: float64
  sf_is_anomalous :: bool
  sf_severity :: anomaly_severity

record rul_estimate =
  ru_value_days :: float64
  ru_lower_bound_days :: float64
  ru_upper_bound_days :: float64
  ru_model_version :: str

definition mk_rul_estimate :: "rul_estimate \<Rightarrow> rul_estimate res" where
  "mk_rul_estimate r =
     require (0 \<le> ru_value_days r) (ValidationError ''value_days'')
     (require (0 \<le> ru_lower_bound_days r) (ValidationError ''lower_bound_days'')
     (require (0 \<le> ru_upper_bound_days r) (ValidationError ''upper_bound_days'') (Inr r)))"

record failure_probability =
  fp_probability :: float64
  fp_earliest :: int
  fp_latest :: int
  fp_most_likely :: int
  fp_failure_mode_id :: "str option"
  fp_failure_mode_label :: "str option"

definition mk_failure_probability :: "failure_probability \<Rightarrow> failure_probability res" where
  "mk_failure_probability p =
     require (0 \<le> fp_probability p \<and> fp_probability p \<le> 1) (ValidationError ''probability'') (Inr p)"

record predict_response =
  pp_asset_id :: str
  pp_component_id :: "str option"
  pp_rul :: rul_estimate
  pp_failure_probability :: failure_probability
  pp_anomaly_flags :: "sensor_flag list"
  pp_anomalous_sensors :: "str list"
  pp_fallback_used :: bool

subsection \<open>Validation\<close>

definition canonical_metrics :: "str list" where
  "canonical_metrics = [''bearing_temp'', ''vibration_rms'', ''pressure'', ''flow_rate'', ''rpm'', ''load_kw'']"

definition validate_request :: "predict_request \<Rightarrow> unit res" where
  "validate_request r =
     (if pq_history r = [] then Inl (ValueErr ''InferenceRequest.history must contain at least one frame.'')
      else case filter (\<lambda>f. tf_asset_id f \<noteq> pq_asset_id r) (pq_history r) of
        [] \<Rightarrow> Inr ()
      | f # _ \<Rightarrow> Inl (ValueErr (''Frame asset_id '' @ [CHR 0x27] @ tf_asset_id f @ [CHR 0x27] @
          '' does not match request asset_id '' @ [CHR 0x27] @ pq_asset_id r @ [CHR 0x27] @ ''.'')))"

text \<open>Every value of the model is finite, so the check of the values never fires.\<close>

definition validate_frames :: "telemetry_frame list \<Rightarrow> unit res" where
  "validate_frames frames =
     (if frames = [] then Inl (ValueErr ''Telemetry history is empty: at least one TelemetryReading frame is required.'')
      else if 1 < length (remdups (map tf_asset_id frames))
      then Inl (ValueErr (''Telemetry history mixes multiple assets '' @ py_repr (VList (map VStr (sorted_set (map tf_asset_id frames)))) @
        ''; one InferenceRequest must reference exactly one asset.''))
      else if list_ex (\<lambda>f. tf_readings f = []) frames
      then Inl (ValueErr ''TelemetryReading contains no sensor readings.'')
      else Inr ())"

type_synonym feature_row = "str \<Rightarrow> float64 option"

text \<open>What the regression model returns: \<open>max\<close> leaves a NaN as it is, and minus infinity is a negative
  number like any other.\<close>

datatype model_output = Number float64 | Not_A_Number | Positive_Infinity

text \<open>The stored evaluation report: absent, read as the report model, or kept as the JSON value it is
  because the model refused it.\<close>

datatype stored_report = No_Report | Evaluated str | Plain_Report pyval

record predictor_env =
  pe_features :: "telemetry_frame list \<Rightarrow> feature_row res"
  pe_artifacts_available :: bool
  pe_rul_predict :: "feature_row \<Rightarrow> model_output res"
  pe_anomaly_score :: "feature_row \<Rightarrow> float64 res"
  pe_anomaly_label :: "feature_row \<Rightarrow> int res"
  pe_report :: stored_report
  pe_exp :: "float64 \<Rightarrow> float64"
  pe_fallback_mode :: str

definition row_get :: "feature_row \<Rightarrow> str \<Rightarrow> float64 \<Rightarrow> float64" where
  "row_get row k d = (case row k of Some x \<Rightarrow> x | None \<Rightarrow> d)"

subsection \<open>Flags of single sensors\<close>

text \<open>A dictionary comprehension over the readings of the last frame: the last sensor of a metric.\<close>

definition sensor_by_metric :: "telemetry_frame \<Rightarrow> (str \<times> str) list" where
  "sensor_by_metric f = foldl (\<lambda>d r. if sr_metric r \<in> set canonical_metrics
     then AList.update (sr_metric r) (sr_sensor_id r) d else d) [] (tf_readings f)"

definition z_score :: "feature_row \<Rightarrow> str \<Rightarrow> float64" where
  "z_score row metric =
     (let mean24 = row_get row (metric @ ''_24h_mean'') 0; std24 = row_get row (metric @ ''_24h_std'') 0
      in if F (1 / 10 ^ 9) < std24 then fabs (row_get row metric 0 - mean24) / std24 else 0)"

definition z_by_metric :: "feature_row \<Rightarrow> (str \<times> str) list \<Rightarrow> (str \<times> float64) list" where
  "z_by_metric row sensors =
     map (\<lambda>m. (m, z_score row m)) (filter (\<lambda>m. m \<in> fst ` set sensors) canonical_metrics)"

text \<open>\<open>max(d, key=d.get)\<close>: the first key of the largest value.\<close>

fun max_key :: "(str \<times> float64) list \<Rightarrow> str" where
  "max_key [] = []"
| "max_key [(m, z)] = m"
| "max_key ((m, z) # (m', z') # zs) = (if z < z' then max_key ((m', z') # zs) else max_key ((m, z) # zs))"

definition implicated :: "bool \<Rightarrow> (str \<times> float64) list \<Rightarrow> str list" where
  "implicated anomalous zs =
     (let over = (if anomalous then map fst (filter (\<lambda>mz. F 2 \<le> snd mz) zs) else [])
      in if anomalous \<and> over = [] \<and> zs \<noteq> [] then [max_key zs] else over)"

definition severity :: "float64 \<Rightarrow> float64 \<Rightarrow> bool \<Rightarrow> anomaly_severity" where
  "severity score z anomalous =
     (if \<not> anomalous then SEV_LOW
      else if score < - F 0.15 \<or> F 4 \<le> z then SEV_CRITICAL
      else if score < - F 0.05 \<or> F 3 \<le> z then SEV_HIGH
      else SEV_MEDIUM)"

definition per_sensor_flags :: "feature_row \<Rightarrow> telemetry_frame \<Rightarrow> float64 \<Rightarrow> bool \<Rightarrow> sensor_flag list" where
  "per_sensor_flags row f score anomalous =
     (let sensors = sensor_by_metric f; zs = z_by_metric row sensors; named = implicated anomalous zs
      in map (\<lambda>(m, z). \<lparr>sf_sensor_id = the (map_of sensors m), sf_metric = m,
           sf_anomaly_score = py_round score 6, sf_is_anomalous = (m \<in> set named),
           sf_severity = severity score z (m \<in> set named)\<rparr>) zs)"

subsection \<open>Models and heuristics\<close>

text \<open>Both models may be missing, unreadable or raise on the row.\<close>

definition predict_rul :: "predictor_env \<Rightarrow> feature_row \<Rightarrow> model_output res" where
  "predict_rul env row = bind_res (pe_rul_predict env row) (\<lambda>out. Inr (case out of Number x \<Rightarrow> Number (max x 0) | _ \<Rightarrow> out))"

definition score_anomaly ::
  "predictor_env \<Rightarrow> feature_row \<Rightarrow> telemetry_frame \<Rightarrow> (float64 \<times> bool \<times> sensor_flag list) res" where
  "score_anomaly env row f =
     bind_res (pe_anomaly_score env row) (\<lambda>score.
     bind_res (pe_anomaly_label env row) (\<lambda>label.
     let anomalous = (label = - 1) in Inr (score, anomalous, per_sensor_flags row f score anomalous)))"

definition heuristic_rul :: "feature_row \<Rightarrow> float64" where
  "heuristic_rul row =
     (let temp = row_get row ''bearing_temp'' (F 65); vib = row_get row ''vibration_rms'' (F 1.8);
          temp_stress = max (temp - F 60) 0 / F 40; vib_stress = max (vib - F 1.5) 0 / F 6;
          stress = min (max temp_stress vib_stress) 1
      in (1 - stress) * F 24 * F 60)"

definition heuristic_anomaly :: "feature_row \<Rightarrow> telemetry_frame \<Rightarrow> float64 \<times> bool \<times> sensor_flag list" where
  "heuristic_anomaly row f =
     (let temp_grad = row_get row ''bearing_temp_grad_per_hr'' 0; vib_p2p = row_get row ''vibration_rms_p2p_24h'' 0;
          anomalous = (F 2 < temp_grad \<or> F 2.5 < vib_p2p);
          score = (if anomalous then - F 0.05 else F 0.1)
      in (score, anomalous, per_sensor_flags row f score anomalous))"

subsection \<open>The response\<close>

text \<open>\<open>timedelta(hours=x)\<close>: the whole hours exactly, the fraction in binary arithmetic, then the sum
  to the nearest microsecond.\<close>

definition timedelta_hours :: "float64 \<Rightarrow> int" where
  "timedelta_hours x =
     (let whole = trunc (val x)
      in round_even (of_int (whole * 3600000000) + val (F 3600000000 * F (val x - of_int whole))))"

definition failure_chance :: "predictor_env \<Rightarrow> int \<Rightarrow> float64 \<Rightarrow> float64 \<Rightarrow> bool \<Rightarrow> float64" where
  "failure_chance env horizon_hours rul_hours score anomalous =
     (let base = 1 / (1 + pe_exp env ((rul_hours - of_int64 horizon_hours) / F 72));
          lifted = (if anomalous then max base (min (F 0.5 + fabs score * F 2) (F 0.95)) else base)
      in max 0 (min lifted 1))"

text \<open>\<open>report.rul_model_version if report else "1.0.0"\<close>: a report kept as plain JSON has no such attribute,
  unless it is empty.\<close>

definition model_version :: "predictor_env \<Rightarrow> str res" where
  "model_version env = (case if pe_artifacts_available env then pe_report env else No_Report of
     No_Report \<Rightarrow> Inr ''1.0.0''
   | Evaluated v \<Rightarrow> Inr v
   | Plain_Report j \<Rightarrow> if truthy j then Inl (AttributeErr ''rul_model_version'') else Inr ''1.0.0'')"

text \<open>An estimate that is no number is refused by its model, an infinite one has no \<open>timedelta\<close>.\<close>

definition finite_hours :: "model_output \<Rightarrow> float64 res" where
  "finite_hours out = (case out of
     Number x \<Rightarrow> Inr x
   | Not_A_Number \<Rightarrow> Inl (ValidationError ''value_days'')
   | Positive_Infinity \<Rightarrow> Inl (OtherErr ''OverflowError'' ''cannot convert float infinity to integer''))"

text \<open>The end of the year 9999. A sum beyond it overflows, and so does a \<open>timedelta\<close> of a billion
  days, which is longer.\<close>

definition last_stamp :: int where
  "last_stamp = 253402300799999999"

definition after_hours :: "int \<Rightarrow> float64 \<Rightarrow> int res" where
  "after_hours stamp hours =
     require (stamp + timedelta_hours hours \<le> last_stamp) (OtherErr ''OverflowError'' ''date value out of range'')
       (Inr (stamp + timedelta_hours hours))"

definition build_response ::
  "predictor_env \<Rightarrow> predict_request \<Rightarrow> model_output \<Rightarrow> float64 \<times> bool \<times> sensor_flag list \<Rightarrow> bool \<Rightarrow> predict_response res" where
  "build_response env r predicted anomaly fallback_used =
     (case anomaly of (score, anomalous, flags) \<Rightarrow>
      bind_res (model_version env) (\<lambda>version.
      bind_res (finite_hours predicted) (\<lambda>rul_hours.
      let rul_days = rul_hours / F 24; frame = last (pq_history r) in
      bind_res (mk_rul_estimate \<lparr>ru_value_days = py_round rul_days 2,
        ru_lower_bound_days = py_round (max (rul_days * (1 - F 0.3)) 0) 2,
        ru_upper_bound_days = py_round (rul_days * (1 + F 0.3)) 2, ru_model_version = version\<rparr>) (\<lambda>rul.
      bind_res (after_hours (tf_timestamp frame) rul_hours) (\<lambda>most_likely.
      bind_res (after_hours (tf_timestamp frame) (rul_hours * (1 - F 0.3))) (\<lambda>earliest.
      bind_res (after_hours (tf_timestamp frame) (rul_hours * (1 + F 0.3))) (\<lambda>latest.
      bind_res (mk_failure_probability \<lparr>
        fp_probability = py_round (failure_chance env (pq_horizon_hours r) rul_hours score anomalous) 4,
        fp_earliest = earliest, fp_latest = latest, fp_most_likely = most_likely,
        fp_failure_mode_id = (if anomalous then Some ''failuremode-bearing-overheat'' else None),
        fp_failure_mode_label = (if anomalous then Some ''Bearing Overheat'' else None)\<rparr>) (\<lambda>failure.
      Inr \<lparr>pp_asset_id = pq_asset_id r, pp_component_id = or_str (pq_component_id r) (tf_component_id frame),
        pp_rul = rul, pp_failure_probability = failure, pp_anomaly_flags = flags,
        pp_anomalous_sensors = map sf_sensor_id (filter sf_is_anomalous flags), pp_fallback_used = fallback_used\<rparr>))))))))"

text \<open>When both models raise, either exception may come first; here it is the one of the regression model.\<close>

definition infer :: "predictor_env \<Rightarrow> predict_request \<Rightarrow> predict_response res" where
  "infer env r =
     bind_res (validate_request r) (\<lambda>_.
     bind_res (validate_frames (pq_history r)) (\<lambda>_.
     bind_res (pe_features env (pq_history r)) (\<lambda>row.
     let frame = last (pq_history r) in
     if pe_artifacts_available env
     then bind_res (predict_rul env row) (\<lambda>predicted. bind_res (score_anomaly env row frame) (\<lambda>anomaly.
       build_response env r predicted anomaly False))
     else if pe_fallback_mode env = ''reject''
     then Inl (ServiceUnavailable (''Predictive model artifacts are not available and fallback mode is '' @ repr_str ''reject'' @
       ''. Train models via `python -m app.predictive.train_predictive_models`.''))
     else build_response env r (Number (heuristic_rul row)) (heuristic_anomaly row frame) True)))"

text \<open>\<open>predict_batch\<close>: a life that is not finite counts as 500 hours; a model that raises on a row ends the
  batch, but the score of a row that raises is zero.\<close>

definition predict_batch ::
  "predictor_env \<Rightarrow> (feature_row \<Rightarrow> float64 res) \<Rightarrow> feature_row list \<Rightarrow> (float64 \<times> float64) list res" where
  "predict_batch env decision rows =
     (if \<not> pe_artifacts_available env
      then Inl (OtherErr ''FileNotFoundError'' ''Models not trained yet in this environment.'')
      else map_res (\<lambda>row. bind_res (predict_rul env row) (\<lambda>predicted.
             let hours = (case predicted of Number x \<Rightarrow> x | _ \<Rightarrow> F 500) in
             Inr (max 0 (hours / F 24), case decision row of Inl _ \<Rightarrow> 0 | Inr s \<Rightarrow> s))) rows)"

subsection \<open>Data drift\<close>

record baseline_stats =
  bs_mean :: float64
  bs_std :: float64

record drift_warning =
  dw_feature :: str
  dw_live_mean :: float64
  dw_baseline_mean :: float64
  dw_z_score :: float64

datatype drift_report = DriftSkipped | DriftChecked str "drift_warning list"

definition drift_z :: "float64 \<Rightarrow> baseline_stats \<Rightarrow> float64" where
  "drift_z live s = fabs (live - bs_mean s) / (bs_std s + F (1 / 10 ^ 9))"

definition drift_warning_of ::
  "(str \<Rightarrow> float64 option) \<Rightarrow> float64 \<Rightarrow> str \<times> baseline_stats \<Rightarrow> drift_warning option" where
  "drift_warning_of live_mean threshold fs = (case fs of (feature, s) \<Rightarrow>
     case live_mean feature of
       None \<Rightarrow> None
     | Some m \<Rightarrow> if threshold < drift_z m s
         then Some \<lparr>dw_feature = feature, dw_live_mean = m, dw_baseline_mean = bs_mean s, dw_z_score = drift_z m s\<rparr>
         else None)"

definition check_drift :: "(str \<times> baseline_stats) list \<Rightarrow> (str \<Rightarrow> float64 option) \<Rightarrow> float64 \<Rightarrow> drift_report" where
  "check_drift baseline live_mean threshold =
     (if baseline = [] then DriftSkipped
      else let warnings = List.map_filter (drift_warning_of live_mean threshold) baseline
           in DriftChecked (if warnings \<noteq> [] then ''drifting'' else ''stable'') warnings)"

subsection \<open>Flags\<close>

lemma wf_sensor_by_metric: "wf_dict (sensor_by_metric f)"
  unfolding sensor_by_metric_def by (rule foldl_keeps [where P = wf_dict]) (auto simp: wf_dict_update)

lemma sensor_fold_keys:
  "fst ` set (foldl (\<lambda>d r. if sr_metric r \<in> set canonical_metrics
     then AList.update (sr_metric r) (sr_sensor_id r) d else d) d rs) =
   fst ` set d \<union> (sr_metric ` set rs \<inter> set canonical_metrics)"
  by (induction rs arbitrary: d) (auto simp: keys_update)

lemma sensor_by_metric_keys: "fst ` set (sensor_by_metric f) = sr_metric ` set (tf_readings f) \<inter> set canonical_metrics"
  unfolding sensor_by_metric_def by (simp add: sensor_fold_keys)

lemma sensor_fold_values:
  "(\<And>m s. map_of d m = Some s \<Longrightarrow> \<exists>r \<in> R. sr_metric r = m \<and> sr_sensor_id r = s) \<Longrightarrow> set rs \<subseteq> R \<Longrightarrow>
   map_of (foldl (\<lambda>d r. if sr_metric r \<in> set canonical_metrics
     then AList.update (sr_metric r) (sr_sensor_id r) d else d) d rs) m = Some s \<Longrightarrow>
   \<exists>r \<in> R. sr_metric r = m \<and> sr_sensor_id r = s"
proof (induction rs arbitrary: d)
  case Nil
  then show ?case by simp
next
  case (Cons x rs)
  show ?case
  proof (rule Cons.IH [where d = "if sr_metric x \<in> set canonical_metrics then AList.update (sr_metric x) (sr_sensor_id x) d else d"])
    show "\<exists>r\<in>R. sr_metric r = m' \<and> sr_sensor_id r = s'"
      if "map_of (if sr_metric x \<in> set canonical_metrics then AList.update (sr_metric x) (sr_sensor_id x) d else d) m' = Some s'" for m' s'
      using that Cons.prems(1,2) by (fastforce simp: map_of_update split: if_splits)
  qed (use Cons.prems in auto)
qed

lemma sensor_by_metric_value:
  "map_of (sensor_by_metric f) m = Some s \<Longrightarrow> \<exists>r \<in> set (tf_readings f). sr_metric r = m \<and> sr_sensor_id r = s"
  unfolding sensor_by_metric_def by (rule sensor_fold_values [where d = "[]"]) simp_all

lemma z_by_metric_keys: "fst ` set (z_by_metric row ss) = fst ` set ss \<inter> set canonical_metrics"
  unfolding z_by_metric_def by force

lemma max_key_in: "zs \<noteq> [] \<Longrightarrow> max_key zs \<in> fst ` set zs"
proof (induction zs rule: max_key.induct)
  case (3 m z m' z' zs)
  then show ?case by (cases "z < z'") auto
qed simp_all

lemma implicated_subset: "set (implicated a zs) \<subseteq> fst ` set zs"
  using max_key_in [of zs] by (auto simp: implicated_def Let_def)

lemma implicated_named: "implicated a zs \<noteq> [] \<longleftrightarrow> a \<and> zs \<noteq> []"
  by (auto simp: implicated_def Let_def)

lemma flag_in: "g \<in> set (per_sensor_flags row f score a) \<Longrightarrow>
   sf_metric g \<in> fst ` set (z_by_metric row (sensor_by_metric f)) \<and>
   sf_sensor_id g = the (map_of (sensor_by_metric f) (sf_metric g)) \<and>
   (sf_is_anomalous g \<longleftrightarrow> sf_metric g \<in> set (implicated a (z_by_metric row (sensor_by_metric f)))) \<and>
   (\<exists>z. sf_severity g = severity score z (sf_is_anomalous g))"
  unfolding per_sensor_flags_def Let_def by force

lemma flag_of_metric: "m \<in> fst ` set (z_by_metric row (sensor_by_metric f)) \<Longrightarrow>
   \<exists>g \<in> set (per_sensor_flags row f score a). sf_metric g = m"
  by (auto simp: per_sensor_flags_def Let_def intro!: bexI)

text \<open>Attribution of an anomaly. Some sensor of the last frame is flagged exactly when the global
  verdict is anomalous and the frame has a reading of a canonical metric; a flagged sensor is one of
  the frame's readings of that metric; and a sensor that is not flagged has severity low.
\<close>

theorem anomaly_attributed:
  "(list_ex sf_is_anomalous (per_sensor_flags row f score a) \<longleftrightarrow>
      a \<and> list_ex (\<lambda>r. sr_metric r \<in> set canonical_metrics) (tf_readings f)) \<and>
   list_all (\<lambda>g. list_ex (\<lambda>r. sr_metric r = sf_metric g \<and> sr_sensor_id r = sf_sensor_id g) (tf_readings f) \<and>
       (if sf_is_anomalous g then True else sf_severity g = SEV_LOW)) (per_sensor_flags row f score a)"
proof -
  let ?zs = "z_by_metric row (sensor_by_metric f)" and ?fs = "per_sensor_flags row f score a"
  have keys: "fst ` set ?zs = sr_metric ` set (tf_readings f) \<inter> set canonical_metrics"
    by (auto simp: z_by_metric_keys sensor_by_metric_keys)
  have "list_ex sf_is_anomalous ?fs \<longleftrightarrow> implicated a ?zs \<noteq> []"
  proof
    assume "list_ex sf_is_anomalous ?fs"
    then show "implicated a ?zs \<noteq> []" using flag_in by (fastforce simp: list_ex_iff)
  next
    assume "implicated a ?zs \<noteq> []"
    then obtain m where m: "m \<in> set (implicated a ?zs)" by (cases "implicated a ?zs") auto
    then obtain g where "g \<in> set ?fs" "sf_metric g = m"
      using implicated_subset flag_of_metric by (metis subsetD)
    with m flag_in show "list_ex sf_is_anomalous ?fs" by (fastforce simp: list_ex_iff)
  qed
  also have "\<dots> \<longleftrightarrow> a \<and> list_ex (\<lambda>r. sr_metric r \<in> set canonical_metrics) (tf_readings f)"
  proof -
    have "?zs \<noteq> [] \<longleftrightarrow> fst ` set ?zs \<noteq> {}" by simp
    then show ?thesis unfolding keys implicated_named list_ex_iff by blast
  qed
  finally have first: "list_ex sf_is_anomalous ?fs \<longleftrightarrow> a \<and> list_ex (\<lambda>r. sr_metric r \<in> set canonical_metrics) (tf_readings f)" .
  have "list_ex (\<lambda>r. sr_metric r = sf_metric g \<and> sr_sensor_id r = sf_sensor_id g) (tf_readings f) \<and>
      (\<not> sf_is_anomalous g \<longrightarrow> sf_severity g = SEV_LOW)" if "g \<in> set ?fs" for g
  proof -
    have "sf_metric g \<in> fst ` set (sensor_by_metric f)"
      using flag_in [OF that] by (auto simp: z_by_metric_keys)
    then obtain s where "map_of (sensor_by_metric f) (sf_metric g) = Some s"
      by (metis (no_types, lifting) imageE map_of_eq_None_iff not_None_eq image_eqI)
    then show ?thesis using flag_in [OF that] sensor_by_metric_value
      by (fastforce simp: list_ex_iff severity_def)
  qed
  then show ?thesis using first by (auto simp: list_all_iff)
qed

subsection \<open>Bounds\<close>

lemma val_hour: "val (F 3600000000) = 3600000000"
  by simp

lemma trunc_nonneg: "0 \<le> x \<Longrightarrow> trunc x = \<lfloor>x\<rfloor>"
  by (simp add: trunc_def)

text \<open>The microseconds of a fraction of an hour.\<close>

definition fraction_us :: "float64 \<Rightarrow> rat" where
  "fraction_us x = val (F 3600000000 * F (val x - of_int \<lfloor>val x\<rfloor>))"

lemma fraction_us_range: "0 \<le> fraction_us x \<and> fraction_us x \<le> 3600000000"
proof -
  let ?f = "F (val x - of_int \<lfloor>val x\<rfloor>)"
  have "val x - of_int \<lfloor>val x\<rfloor> \<le> 1" by linarith
  then have "0 \<le> ?f" "?f \<le> 1"
    using F_nonneg [of "val x - of_int \<lfloor>val x\<rfloor>"] F_mono [of "val x - of_int \<lfloor>val x\<rfloor>" 1] by simp_all
  then have "0 \<le> F 3600000000 * ?f" "F 3600000000 * ?f \<le> F 3600000000 * 1"
    using F_nonneg [of 3600000000] by (intro f64_mult_nonneg f64_mult_left_mono; simp)+
  then show ?thesis unfolding fraction_us_def
    by (metis f64_mult_1(1) val_hour val_le zero_float64.rep_eq)
qed

lemma timedelta_hours_nonneg: "0 \<le> x \<Longrightarrow>
   timedelta_hours x = round_even (of_int (\<lfloor>val x\<rfloor> * 3600000000) + fraction_us x)"
  by (simp add: timedelta_hours_def fraction_us_def trunc_nonneg val_le Let_def)

lemma timedelta_hours_mono:
  assumes "0 \<le> x" "x \<le> y"
  shows "timedelta_hours x \<le> timedelta_hours y"
proof -
  have y: "0 \<le> y" using assms by simp
  have le: "\<lfloor>val x\<rfloor> \<le> \<lfloor>val y\<rfloor>" using assms by (simp add: val_le floor_mono)
  have "of_int (\<lfloor>val x\<rfloor> * 3600000000) + fraction_us x \<le> of_int (\<lfloor>val y\<rfloor> * 3600000000) + fraction_us y"
  proof (cases "\<lfloor>val x\<rfloor> = \<lfloor>val y\<rfloor>")
    case True
    then have "F (val x - of_int \<lfloor>val x\<rfloor>) \<le> F (val y - of_int \<lfloor>val y\<rfloor>)"
      using assms by (intro F_mono) (simp add: val_le)
    then have "F 3600000000 * F (val x - of_int \<lfloor>val x\<rfloor>) \<le> F 3600000000 * F (val y - of_int \<lfloor>val y\<rfloor>)"
      using F_nonneg [of 3600000000] by (intro f64_mult_left_mono) simp_all
    then show ?thesis using True by (simp add: fraction_us_def val_le)
  next
    case False
    with le have "\<lfloor>val x\<rfloor> + 1 \<le> \<lfloor>val y\<rfloor>" by simp
    then have "(\<lfloor>val x\<rfloor> + 1) * 3600000000 \<le> \<lfloor>val y\<rfloor> * 3600000000" by simp
    then have "of_int ((\<lfloor>val x\<rfloor> + 1) * 3600000000) \<le> (of_int (\<lfloor>val y\<rfloor> * 3600000000) :: rat)"
      by (simp only: of_int_le_iff)
    then have "of_int (\<lfloor>val x\<rfloor> * 3600000000) + 3600000000 \<le> (of_int (\<lfloor>val y\<rfloor> * 3600000000) :: rat)"
      by (simp add: algebra_simps)
    with fraction_us_range [of x] fraction_us_range [of y] show ?thesis by linarith
  qed
  then show ?thesis using assms y by (simp add: timedelta_hours_nonneg round_even_mono)
qed

lemma shrink_factor: "0 \<le> (1 :: float64) - F 0.3" "(1 :: float64) - F 0.3 \<le> 1" "1 \<le> (1 :: float64) + F 0.3"
proof -
  have a: "0 \<le> F 0.3" by (rule F_nonneg) simp
  have b: "F 0.3 \<le> 1" using F_mono [of "0.3" 1] by simp
  show "0 \<le> (1 :: float64) - F 0.3" using b by (rule f64_diff_nonneg)
  show "(1 :: float64) - F 0.3 \<le> 1"
    using f64_diff_mono [OF order_refl a, of 1] by (simp add: val_inject_iff val_le)
  show "1 \<le> (1 :: float64) + F 0.3" using f64_add_mono [OF order_refl a, of 1] by simp
qed

lemma shrink: "0 \<le> x \<Longrightarrow> 0 \<le> x * (1 - F 0.3) \<and> x * (1 - F 0.3) \<le> x"
  using shrink_factor by (intro conjI f64_mult_nonneg f64_mult_le_left) simp_all

lemma grow: "0 \<le> x \<Longrightarrow> x \<le> x * (1 + F 0.3)"
  using f64_mult_left_mono [OF shrink_factor(3), of x] by simp

lemma failure_chance_range: "0 \<le> failure_chance env h r s a \<and> failure_chance env h r s a \<le> 1"
  by (simp add: failure_chance_def Let_def)

lemma heuristic_rul_nonneg: "0 \<le> heuristic_rul row"
  unfolding heuristic_rul_def Let_def
  by (intro f64_mult_nonneg f64_diff_nonneg F_nonneg) simp_all

text \<open>What a response promises its consumers.\<close>

definition response_sound :: "predict_response \<Rightarrow> bool" where
  "response_sound p \<longleftrightarrow>
     0 \<le> ru_lower_bound_days (pp_rul p) \<and> ru_lower_bound_days (pp_rul p) \<le> ru_value_days (pp_rul p) \<and>
     ru_value_days (pp_rul p) \<le> ru_upper_bound_days (pp_rul p) \<and>
     0 \<le> fp_probability (pp_failure_probability p) \<and> fp_probability (pp_failure_probability p) \<le> 1 \<and>
     fp_earliest (pp_failure_probability p) \<le> fp_most_likely (pp_failure_probability p) \<and>
     fp_most_likely (pp_failure_probability p) \<le> fp_latest (pp_failure_probability p) \<and>
     pp_anomalous_sensors p = map sf_sensor_id (filter sf_is_anomalous (pp_anomaly_flags p))"

text \<open>The window of a life of these hours ends after the last date there is.\<close>

definition past_9999 :: "predict_request \<Rightarrow> float64 \<Rightarrow> bool" where
  "past_9999 r hours \<longleftrightarrow> last_stamp < tf_timestamp (last (pq_history r)) + timedelta_hours (hours * (1 + F 0.3))"

lemma window_order:
  assumes "0 \<le> hours"
  shows "timedelta_hours (hours * (1 - F 0.3)) \<le> timedelta_hours hours"
    "timedelta_hours hours \<le> timedelta_hours (hours * (1 + F 0.3))"
  using shrink [OF assms] grow [OF assms] assms by (auto intro: timedelta_hours_mono)

lemma build_response_sound:
  assumes "0 \<le> hours"
  shows "case build_response env r (Number hours) (s, a, flags) fb of
      Inl e \<Rightarrow> model_version env = Inl e \<or> past_9999 r hours
    | Inr p \<Rightarrow> response_sound p \<and> (\<exists>v. model_version env = Inr v) \<and> \<not> past_9999 r hours"
proof -
  have days: "0 \<le> hours / F 24" using assms F_nonneg [of 24] by (intro f64_divide_nonneg) simp_all
  let ?d = "hours / F 24"
  have lower: "max (?d * (1 - F 0.3)) 0 \<le> ?d" "0 \<le> max (?d * (1 - F 0.3)) 0" using shrink [OF days] by simp_all
  have upper: "?d \<le> ?d * (1 + F 0.3)" "0 \<le> ?d * (1 + F 0.3)" using grow [OF days] days by simp_all
  note window = window_order [OF assms]
  have chance: "0 \<le> py_round (failure_chance env (pq_horizon_hours r) hours s a) 4"
    "py_round (failure_chance env (pq_horizon_hours r) hours s a) 4 \<le> 1"
    using failure_chance_range [of env "pq_horizon_hours r" hours s a] by (auto intro: py_round_nonneg py_round_le_1)
  have rounds: "py_round (max (?d * (1 - F 0.3)) 0) 2 \<le> py_round ?d 2" "py_round ?d 2 \<le> py_round (?d * (1 + F 0.3)) 2"
    "0 \<le> py_round ?d 2" "0 \<le> py_round (max (?d * (1 - F 0.3)) 0) 2" "0 \<le> py_round (?d * (1 + F 0.3)) 2"
    using lower upper days by (auto intro: py_round_mono py_round_nonneg)
  show ?thesis
  proof (cases "model_version env")
    case (Inl e)
    then show ?thesis by (simp add: build_response_def)
  next
    case (Inr v)
    show ?thesis
    proof (cases "past_9999 r hours")
      case True
      then have "after_hours (tf_timestamp (last (pq_history r))) (hours * (1 + F 0.3))
          = Inl (OtherErr ''OverflowError'' ''date value out of range'')"
        by (simp add: after_hours_def past_9999_def require_def)
      then have "build_response env r (Number hours) (s, a, flags) fb \<noteq> Inr p" for p
        by (auto simp: build_response_def Let_def bind_res_Inr finite_hours_def)
      then show ?thesis using True by (simp split: sum.split)
    next
      case False
      then have after: "after_hours (tf_timestamp (last (pq_history r))) h = Inr (tf_timestamp (last (pq_history r)) + timedelta_hours h)"
        if "h = hours \<or> h = hours * (1 - F 0.3) \<or> h = hours * (1 + F 0.3)" for h
        using that window unfolding past_9999_def after_hours_def require_def by auto
      show ?thesis using window chance rounds Inr False
        by (simp add: build_response_def Let_def mk_rul_estimate_def mk_failure_probability_def response_sound_def
            finite_hours_def after)
    qed
  qed
qed

text \<open>The requests that are refused before any model runs.\<close>

definition request_refused :: "predict_request \<Rightarrow> bool" where
  "request_refused r \<longleftrightarrow>
     (case validate_request r of Inl _ \<Rightarrow> True | Inr _ \<Rightarrow>
        case validate_frames (pq_history r) of Inl _ \<Rightarrow> True | Inr _ \<Rightarrow> False)"

text \<open>What makes the models fail a row: one of them raises, the predicted life is not finite or its window
  ends after the year 9999, or the stored report is plain JSON.\<close>

definition models_fail :: "predictor_env \<Rightarrow> predict_request \<Rightarrow> feature_row \<Rightarrow> bool" where
  "models_fail env r row \<longleftrightarrow>
     (case pe_rul_predict env row of Inr (Number x) \<Rightarrow> past_9999 r (max x 0) | _ \<Rightarrow> True)
     \<or> (case pe_anomaly_score env row of Inl _ \<Rightarrow> True | Inr _ \<Rightarrow> False)
     \<or> (case pe_anomaly_label env row of Inl _ \<Rightarrow> True | Inr _ \<Rightarrow> False)
     \<or> (case pe_report env of Plain_Report j \<Rightarrow> truthy j | _ \<Rightarrow> False)"

lemma model_version_fails: "pe_artifacts_available env \<Longrightarrow>
   (\<exists>e. model_version env = Inl e) \<longleftrightarrow> (case pe_report env of Plain_Report j \<Rightarrow> truthy j | _ \<Rightarrow> False)"
  by (auto simp: model_version_def split: stored_report.splits)

text \<open>Inference with the models.\<close>

lemma models_sound:
  assumes "pe_artifacts_available env"
  shows "case bind_res (predict_rul env row) (\<lambda>predicted. bind_res (score_anomaly env row frame) (\<lambda>anomaly.
       build_response env r predicted anomaly False)) of
     Inl e \<Rightarrow> models_fail env r row | Inr p \<Rightarrow> \<not> models_fail env r row \<and> response_sound p"
proof (cases "pe_rul_predict env row")
  case (Inl e)
  then show ?thesis by (simp add: predict_rul_def models_fail_def)
next
  case (Inr predicted)
  show ?thesis
  proof (cases "score_anomaly env row frame")
    case (Inl e)
    then have "models_fail env r row"
      by (auto simp: score_anomaly_def models_fail_def Let_def bind_res_def split: sum.splits)
    then show ?thesis using Inl Inr by (simp add: predict_rul_def)
  next
    case sc: (Inr anomaly)
    obtain s a flags where anomaly: "anomaly = (s, a, flags)" by (metis surj_pair)
    obtain sc' lab where fine: "pe_anomaly_score env row = Inr sc'" "pe_anomaly_label env row = Inr lab"
      using sc by (auto simp: score_anomaly_def bind_res_Inr)
    show ?thesis
    proof (cases predicted)
      case (Number x)
      then have "predict_rul env row = Inr (Number (max x 0))" using Inr by (simp add: predict_rul_def)
      moreover have "models_fail env r row \<longleftrightarrow> past_9999 r (max x 0) \<or> (\<exists>e. model_version env = Inl e)"
        using Inr Number fine model_version_fails [OF assms] by (simp add: models_fail_def)
      ultimately show ?thesis
        using build_response_sound [of "max x 0" env r s a flags False] sc anomaly by (auto split: sum.splits)
    qed (use Inr sc anomaly in \<open>auto simp: predict_rul_def models_fail_def build_response_def finite_hours_def bind_res_def
        split: sum.splits\<close>)
  qed
qed

text \<open>C23. Inference fails exactly when it must, and otherwise its response is consistent. Whatever the
  features, the models and the exponential are or raise, a request fails exactly if its history is
  malformed, the feature engineering raises, or: with the artifacts, one of the models cannot be loaded
  or raises, the predicted life is not finite, its window ends after the year 9999, or the stored
  evaluation report is JSON that the report model had refused; without them, the fallback mode is
  reject or the window of the heuristic life ends after the year 9999. A response has ordered bounds around
  the remaining life, a probability, a failure window in order, and names exactly the flagged sensors.\<close>

theorem infer_sound:
  "let failing = (if request_refused r then True else case pe_features env (pq_history r) of
       Inl _ \<Rightarrow> True
     | Inr row \<Rightarrow> if pe_artifacts_available env then models_fail env r row
         else pe_fallback_mode env = ''reject'' \<or> past_9999 r (heuristic_rul row))
   in case infer env r of
     Inl e \<Rightarrow> failing
   | Inr p \<Rightarrow> \<not> failing \<and> response_sound p \<and> pp_asset_id p = pq_asset_id r \<and>
       pp_fallback_used p = (\<not> pe_artifacts_available env)"
proof -
  have kept: "pp_asset_id p = pq_asset_id r \<and> pp_fallback_used p = fb" if "build_response env r x y fb = Inr p" for x y fb p
    using that by (auto simp: build_response_def Let_def bind_res_Inr split: prod.splits)
  show ?thesis
  proof (cases "request_refused r")
    case True
    then have "\<exists>e. infer env r = Inl e" by (auto simp: infer_def request_refused_def bind_res_def split: sum.splits)
    then show ?thesis using True by auto
  next
    case False
    then obtain u v where valid: "validate_request r = Inr u" "validate_frames (pq_history r) = Inr v"
      by (auto simp: request_refused_def split: sum.splits)
    show ?thesis
    proof (cases "pe_features env (pq_history r)")
      case (Inl e)
      then show ?thesis by (simp add: infer_def valid)
    next
      case (Inr row)
      let ?f = "last (pq_history r)"
      obtain s a flags where heur: "heuristic_anomaly row ?f = (s, a, flags)" by (metis surj_pair)
      show ?thesis
      proof (cases "pe_artifacts_available env")
        case True
        then have run: "infer env r = bind_res (predict_rul env row) (\<lambda>predicted. bind_res (score_anomaly env row ?f) (\<lambda>anomaly.
            build_response env r predicted anomaly False))" by (simp add: infer_def valid Inr)
        then have "infer env r = Inr p \<Longrightarrow> pp_asset_id p = pq_asset_id r \<and> pp_fallback_used p = False" for p
          by (auto simp: bind_res_Inr dest!: kept)
        then show ?thesis using models_sound [OF True, of r row ?f] True Inr False
          unfolding run [symmetric] by (auto split: sum.splits)
      next
        case no: False
        have "model_version env = Inr ''1.0.0''" using no by (simp add: model_version_def)
        then show ?thesis
          using build_response_sound [OF heuristic_rul_nonneg, of env r row s a flags True] no False Inr
          by (auto simp: infer_def valid heur dest!: kept split: sum.splits)
      qed
    qed
  qed
qed

subsection \<open>Monotonicity\<close>

text \<open>What is used of the exponential: it is not negative and does not decrease.\<close>

definition exp_ok :: "predictor_env \<Rightarrow> bool" where
  "exp_ok env \<longleftrightarrow> (\<forall>x. 0 \<le> pe_exp env x) \<and> (\<forall>x y. x \<le> y \<longrightarrow> pe_exp env x \<le> pe_exp env y)"

lemma failure_chance_antitone:
  assumes "exp_ok env" "r \<le> r'"
  shows "failure_chance env h r' s a \<le> failure_chance env h r s a"
proof -
  let ?e = "\<lambda>r. pe_exp env ((r - of_int64 h) / F 72)"
  have "(r - of_int64 h) / F 72 \<le> (r' - of_int64 h) / F 72"
    using assms(2) F_nonneg [of 72] by (intro f64_divide_right_mono f64_diff_mono) simp_all
  then have "?e r \<le> ?e r'" "0 \<le> ?e r" using assms(1) by (auto simp: exp_ok_def)
  then have "1 + ?e r \<le> 1 + ?e r'" "0 < 1 + ?e r"
    using f64_add_mono [OF order_refl, of "?e r" "?e r'" 1] f64_add_mono [OF order_refl, of 0 "?e r" 1]
    using f64_0_less_1(1) by (auto intro: less_le_trans simp del: f64_0_less_1)
  then have "1 / (1 + ?e r') \<le> 1 / (1 + ?e r)" by (intro f64_divide_left_antimono) simp_all
  then show ?thesis unfolding failure_chance_def Let_def
    by (cases a) (simp_all only: if_True if_False max.mono min.mono order_refl)
qed

lemma heuristic_rul_antitone:
  assumes "row_get row ''bearing_temp'' (F 65) \<le> row_get row' ''bearing_temp'' (F 65)"
    and "row_get row ''vibration_rms'' (F 1.8) \<le> row_get row' ''vibration_rms'' (F 1.8)"
  shows "heuristic_rul row' \<le> heuristic_rul row"
proof -
  have "max (row_get row ''bearing_temp'' (F 65) - F 60) 0 / F 40 \<le> max (row_get row' ''bearing_temp'' (F 65) - F 60) 0 / F 40"
    "max (row_get row ''vibration_rms'' (F 1.8) - F 1.5) 0 / F 6 \<le> max (row_get row' ''vibration_rms'' (F 1.8) - F 1.5) 0 / F 6"
    using assms F_nonneg [of 40] F_nonneg [of 6]
    by (auto intro!: f64_divide_right_mono max.mono f64_diff_mono)
  then have "min (max (max (row_get row ''bearing_temp'' (F 65) - F 60) 0 / F 40)
                   (max (row_get row ''vibration_rms'' (F 1.8) - F 1.5) 0 / F 6)) 1
      \<le> min (max (max (row_get row' ''bearing_temp'' (F 65) - F 60) 0 / F 40)
                   (max (row_get row' ''vibration_rms'' (F 1.8) - F 1.5) 0 / F 6)) 1"
    by (intro min.mono max.mono order_refl)
  then show ?thesis unfolding heuristic_rul_def Let_def
    using F_nonneg [of 24] F_nonneg [of 60]
    by (intro f64_mult_right_mono f64_diff_mono order_refl) simp_all
qed

lemma heuristic_rul_at_most_60_days: "heuristic_rul row \<le> F 1440"
proof -
  define st where "st = min (max (max (row_get row ''bearing_temp'' (F 65) - F 60) 0 / F 40)
                   (max (row_get row ''vibration_rms'' (F 1.8) - F 1.5) 0 / F 6)) 1"
  have "0 \<le> max (row_get row ''bearing_temp'' (F 65) - F 60) 0 / F 40"
    using F_nonneg [of 40] by (intro f64_divide_nonneg) simp_all
  then have "0 \<le> st" by (simp add: st_def le_max_iff_disj)
  then have "1 - st \<le> 1"
    using f64_diff_mono [OF order_refl, of 0 st 1] by (simp add: val_inject_iff val_le)
  then have "(1 - st) * F 24 \<le> 1 * F 24" using F_nonneg [of 24] by (intro f64_mult_right_mono) simp_all
  then have "(1 - st) * F 24 * F 60 \<le> F 24 * F 60" using F_nonneg [of 60] by (intro f64_mult_right_mono) simp_all
  moreover have "F 24 * F 60 = F 1440" by (simp add: val_inject_iff)
  ultimately show ?thesis by (simp add: heuristic_rul_def Let_def st_def)
qed

text \<open>Degradation never looks healthier. With an exponential that is not negative and does not
  decrease, a longer remaining life never has a higher failure probability, whatever the horizon, the
  score and the verdict; and the heuristic life, at most 60 days, does not increase when the bearing
  temperature and the vibration do not decrease.
\<close>

theorem degradation_monotone:
  assumes "exp_ok env" and "r \<le> r'"
    and "row_get row ''bearing_temp'' (F 65) \<le> row_get row' ''bearing_temp'' (F 65)"
    and "row_get row ''vibration_rms'' (F 1.8) \<le> row_get row' ''vibration_rms'' (F 1.8)"
  shows "failure_chance env h r' s a \<le> failure_chance env h r s a \<and>
    heuristic_rul row' \<le> heuristic_rul row \<and> heuristic_rul row \<le> F 1440"
  using failure_chance_antitone [OF assms(1,2)] heuristic_rul_antitone [OF assms(3,4)] heuristic_rul_at_most_60_days
  by blast

definition sample_env :: predictor_env where
  "sample_env = \<lparr>pe_features = (\<lambda>_. Inr (\<lambda>_. None)), pe_artifacts_available = False, pe_rul_predict = (\<lambda>_. Inr (Number 0)),
     pe_anomaly_score = (\<lambda>_. Inr 0), pe_anomaly_label = (\<lambda>_. Inr 1), pe_report = No_Report,
     pe_exp = (\<lambda>x. if 0 \<le> x then F 2 else 0), pe_fallback_mode = ''heuristic''\<rparr>"

theorem degradation_monotone_witness:
  "failure_chance sample_env 24 (F 100) 0 False \<le> failure_chance sample_env 24 (F 10) 0 False \<and>
   heuristic_rul [''bearing_temp'' \<mapsto> F 90] \<le> heuristic_rul [''bearing_temp'' \<mapsto> F 70] \<and>
   heuristic_rul [''bearing_temp'' \<mapsto> F 70] \<le> F 1440"
proof (rule degradation_monotone)
  have "0 \<le> F 2" by (rule F_nonneg) simp
  then show "exp_ok sample_env" by (auto simp: exp_ok_def sample_env_def)
qed (simp_all add: row_get_def val_le)

text \<open>Whatever the offending sensor, an anomalous verdict names the same failure mode.\<close>

theorem anomaly_always_bearing:
  assumes "build_response env r rul (s, True, flags) fb = Inr p"
  shows "fp_failure_mode_label (pp_failure_probability p) = Some ''Bearing Overheat''"
  using assms by (auto simp: build_response_def Let_def bind_res_Inr mk_failure_probability_def)

text \<open>A stored report that does not fit the report model breaks every inference, although it only
  labels the response.\<close>

lemma plain_report_breaks_inference:
  assumes "pe_artifacts_available env" and "pe_report env = Plain_Report (VDict [(''metrics'', VStr ''stub'')])"
  shows "build_response env r predicted anomaly fb = Inl (AttributeErr ''rul_model_version'')"
  using assms by (cases anomaly) (simp add: build_response_def model_version_def)

end
