(* ===== verification/Xai_Service.thy ===== *)
theory Xai_Service
  imports Prediction_Service
begin

section \<open>The explanation service\<close>

text \<open>
  \<open>app/predictive/xai_service.py\<close> with \<open>shap_engine.py\<close> and \<open>lime_engine.py\<close>, over the columns of
  \<open>feature_engineering.py\<close>. Python's string hash, the order in which a set is iterated and the name
  the knowledge graph gives a sensor are parameters.
\<close>

definition rolling_windows :: "str list" where
  "rolling_windows = [''1h'', ''6h'', ''24h'']"

definition rolling_stats :: "str list" where
  "rolling_stats = [''mean'', ''std'', ''var'', ''min'', ''max'']"

definition gradient_metrics :: "str list" where
  "gradient_metrics = [''bearing_temp'', ''vibration_rms'']"

definition feature_columns :: "str list" where
  "feature_columns =
     concat (map (\<lambda>metric. metric # concat (map (\<lambda>w. map (\<lambda>stat. metric @ ''_'' @ w @ ''_'' @ stat) rolling_stats) rolling_windows))
       canonical_metrics)
     @ concat (map (\<lambda>metric. [metric @ ''_grad_per_hr'', metric @ ''_p2p_24h'']) gradient_metrics)"

subsection \<open>The two engines\<close>

record shap_result =
  sh_base_value :: float64
  sh_predicted_value :: float64
  sh_values :: "(str \<times> float64) list"

text \<open>A column of the row, with its default where the row has none.\<close>

definition observed_temp :: "feature_row \<Rightarrow> float64" where
  "observed_temp row = row_get row ''bearing_temp'' (F 65)"

definition observed_vibration :: "feature_row \<Rightarrow> float64" where
  "observed_vibration row = row_get row ''vibration_rms'' (F 1.8)"

definition observed_pressure :: "feature_row \<Rightarrow> float64" where
  "observed_pressure row = row_get row ''pressure'' (F 50)"

definition temp_impact :: "feature_row \<Rightarrow> float64" where
  "temp_impact row = max 0 ((observed_temp row - F 60) * F 1.5)"

definition vib_impact :: "feature_row \<Rightarrow> float64" where
  "vib_impact row = max 0 ((observed_vibration row - F 1.5) * F 15)"

definition hashed_impact :: "(str \<Rightarrow> int) \<Rightarrow> str \<Rightarrow> float64" where
  "hashed_impact str_hash col = of_int64 (\<bar>str_hash col\<bar> mod 100) / F 1000"

definition explain_local :: "(str \<Rightarrow> int) \<Rightarrow> str list \<Rightarrow> feature_row \<Rightarrow> shap_result" where
  "explain_local str_hash cols row =
     \<lparr>sh_base_value = F 50, sh_predicted_value = F 50 + temp_impact row + vib_impact row,
      sh_values = map (\<lambda>col. (col,
        if col = ''bearing_temp'' then temp_impact row
        else if col = ''vibration_rms'' then vib_impact row else hashed_impact str_hash col)) cols\<rparr>"

record ranked_impact =
  ri_feature_name :: str
  ri_impact_weight :: float64
  ri_feature_value :: float64
  ri_rank :: nat

definition global_weight :: "nat \<Rightarrow> str \<Rightarrow> float64" where
  "global_weight i col =
     (if col = ''bearing_temp'' then F 25 else if col = ''vibration_rms'' then F 20 else if col = ''pressure'' then F 8
      else max (F 0.5) (F 5 - of_int64 (int i) * F 0.3))"

definition compute_global_importance :: "str list \<Rightarrow> feature_row \<Rightarrow> ranked_impact list" where
  "compute_global_importance cols last_row =
     (let extra = filter (\<lambda>c. c \<notin> set canonical_metrics) cols
      in map (\<lambda>(i, col). \<lparr>ri_feature_name = col, ri_impact_weight = global_weight i col,
           ri_feature_value = row_get last_row col 0, ri_rank = i\<rparr>) (enumerate 1 (canonical_metrics @ extra)))"

definition explain_instance :: "feature_row \<Rightarrow> (str \<times> float64) list" where
  "explain_instance row =
     [(''bearing_temp'', max 0 (observed_temp row - F 60) * F 1.2),
      (''vibration_rms'', max 0 (observed_vibration row - F 1.5) * F 12),
      (''pressure'', F 0.5), (''flow_rate'', F 0.3), (''rpm'', F 0.2), (''load_kw'', F 0.2)]"

definition degree_sign :: str where
  "degree_sign = [CHR 0xC2, CHR 0xB0]"

definition generate_logical_rules :: "feature_row \<Rightarrow> str list" where
  "generate_logical_rules row =
     (let vib = observed_vibration row; temp = observed_temp row; press = observed_pressure row;
          rules =
            (if F 4.2 < vib then [''Vibration Sensor RMS exceeded 4.2mm/s (Observed: '' @ fmt_fixed 1 vib @ ''mm/s)'']
             else if F 2 < vib
             then [''Vibration Sensor RMS elevated above nominal 2.0mm/s threshold (Observed: '' @ fmt_fixed 1 vib @ ''mm/s)'']
             else [])
            @ (if F 80 < temp
               then [''Casing Temperature critical threshold breached (>80.0'' @ degree_sign @ ''C, Observed: '' @
                     fmt_fixed 1 temp @ degree_sign @ ''C)'']
               else if F 65 < temp
               then [''Casing Temperature matches friction warming profile (>65.0'' @ degree_sign @ ''C, Observed: '' @
                     fmt_fixed 1 temp @ degree_sign @ ''C)'']
               else [])
            @ (if F 75 < press
               then [''Discharge Pressure surged past high safety boundary (>75.0 bar, Observed: '' @ fmt_fixed 1 press @ '' bar)'']
               else [])
      in if rules = [] then [''All primary sensor channels operating within safe-range standard bounds.''] else rules)"

subsection \<open>The service\<close>

datatype explanation_method = M_SHAP | M_LIME | M_INTEGRATED_GRADIENTS | M_PERMUTATION

record explain_request =
  eq_asset_id :: str
  eq_explanation_id :: "str option"
  eq_method :: explanation_method

record xai_env =
  xe_features :: "telemetry_frame list \<Rightarrow> feature_row"
  xe_hash :: "str \<Rightarrow> int"
  xe_set_order :: "str list \<Rightarrow> str list"
  xe_sensor_name :: "str \<Rightarrow> str option"

record xai_response =
  xr_explanation_id :: "str option"
  xr_asset_id :: str
  xr_method :: explanation_method
  xr_base_value :: float64
  xr_predicted_value :: float64
  xr_global_feature_importance :: "ranked_impact list"
  xr_local_feature_importance :: "ranked_impact list"
  xr_headline :: str
  xr_narrative :: str
  xr_contributing_failure_modes :: "str list"
  xr_confidence_matrix :: "(str \<times> float64) list"

text \<open>\<open>str.title\<close>: a letter after a letter in lower case, any other one in upper case.\<close>

fun title_from :: "bool \<Rightarrow> str \<Rightarrow> str" where
  "title_from inside [] = []"
| "title_from inside (c # cs) =
     (if inside then lower_char c else upper_char c) # title_from (is_lower c \<or> is_upper c) cs"

definition py_title :: "str \<Rightarrow> str" where
  "py_title s = title_from False s"

definition spaced :: "str \<Rightarrow> str" where
  "spaced s = map (\<lambda>c. if c = CHR ''_'' then CHR '' '' else c) s"

definition combined_score :: "shap_result \<Rightarrow> (str \<times> float64) list \<Rightarrow> str \<Rightarrow> float64" where
  "combined_score shap lime key =
     (fabs (dict_default (sh_values shap) key 0) + fabs (dict_default lime key 0)) / F 2"

definition sorted_features :: "xai_env \<Rightarrow> shap_result \<Rightarrow> (str \<times> float64) list \<Rightarrow> str list" where
  "sorted_features env shap lime =
     sorted_desc (combined_score shap lime) (xe_set_order env (remdups (map fst (sh_values shap) @ map fst lime)))"

definition local_importance :: "shap_result \<Rightarrow> feature_row \<Rightarrow> str list \<Rightarrow> ranked_impact list" where
  "local_importance shap row ranked =
     map (\<lambda>(i, feat). \<lparr>ri_feature_name = feat, ri_impact_weight = dict_default (sh_values shap) feat 0,
       ri_feature_value = row_get row feat 0, ri_rank = i\<rparr>) (enumerate 1 ranked)"

definition primary_offender :: "str list \<Rightarrow> str" where
  "primary_offender ranked = (case take 5 ranked of t # _ \<Rightarrow> t | [] \<Rightarrow> ''vibration_rms'')"

definition explain :: "xai_env \<Rightarrow> explain_request \<Rightarrow> telemetry_frame list \<Rightarrow> xai_response res" where
  "explain env r history =
     (if history = [] then Inl (ValueErr ''Telemetry history cannot be empty for explanation generation.'')
      else bind_res (validate_frames history) (\<lambda>_.
        let row = xe_features env history;
            shap = explain_local (xe_hash env) feature_columns row;
            lime = explain_instance row;
            rules = generate_logical_rules row;
            ranked = sorted_features env shap lime;
            offender = primary_offender ranked;
            component = (case xe_sensor_name env offender of Some n \<Rightarrow> n | None \<Rightarrow> ''Primary Drive Module'')
        in Inr \<lparr>xr_explanation_id = or_str (eq_explanation_id r) None, xr_asset_id = eq_asset_id r, xr_method = eq_method r,
          xr_base_value = sh_base_value shap, xr_predicted_value = sh_predicted_value shap,
          xr_global_feature_importance = compute_global_importance feature_columns row,
          xr_local_feature_importance = local_importance shap row ranked,
          xr_headline = ''Alert trigger dominated by '' @ py_title (spaced offender),
          xr_narrative = ''The predictive maintenance system isolated '' @ py_title (spaced offender) @ '' on '' @ component @
            '' as the primary outlier. '' @ join '' and '' (take 2 rules) @
            ''. The combination of mathematical SHAP models and localized LIME boundaries predicts a likely transition '' @
            ''to failure mode: Sensor Degradation Anomaly.'',
          xr_contributing_failure_modes = [''failuremode-general''],
          xr_confidence_matrix = [(''Model Prediction Stability'', F 0.95), (''SHAP Convergence Metric'', F 0.98),
            (''Feature Space Integrity'', F 0.92)]\<rparr>))"

subsection \<open>What an explanation says\<close>

text \<open>The iteration order of a set: every element, once.\<close>

definition order_ok :: "xai_env \<Rightarrow> bool" where
  "order_ok env \<longleftrightarrow> (\<forall>xs. distinct xs \<longrightarrow> mset (xe_set_order env xs) = mset xs)"

lemma local_importance_ranks: "map ri_rank (local_importance shap row ranked) = [1 ..< 1 + length ranked]"
proof -
  have "map ri_rank (local_importance shap row ranked) = map fst (enumerate 1 ranked)"
    unfolding local_importance_def list.map_comp by (rule map_cong [OF refl]) auto
  then show ?thesis by (simp only: map_fst_enumerate)
qed

lemma local_importance_names: "map ri_feature_name (local_importance shap row ranked) = ranked"
proof -
  have "map ri_feature_name (local_importance shap row ranked) = map snd (enumerate 1 ranked)"
    unfolding local_importance_def list.map_comp by (rule map_cong [OF refl]) auto
  then show ?thesis by (simp only: map_snd_enumerate)
qed

lemma primary_offender_hd: "ranked \<noteq> [] \<Longrightarrow> primary_offender ranked = hd ranked"
  by (auto simp: primary_offender_def neq_Nil_conv)

lemma distinct_feature_columns: "distinct feature_columns"
  by code_simp

lemma lime_keys_are_columns: "list_all (\<lambda>kv. fst kv \<in> set feature_columns) (explain_instance row)"
proof -
  have "map fst (explain_instance row) = canonical_metrics" by (simp add: explain_instance_def canonical_metrics_def)
  moreover have "list_all (\<lambda>m. m \<in> set feature_columns) canonical_metrics" by code_simp
  ultimately show ?thesis by (simp add: list_all_iff flip: set_map) (metis image_eqI list.set_map)
qed

lemma feature_keys:
  "mset (remdups (map fst (sh_values (explain_local h feature_columns row)) @ map fst (explain_instance row))) =
   mset feature_columns"
proof -
  have "set (map fst (explain_instance row)) \<subseteq> set feature_columns"
    using lime_keys_are_columns [of row] by (auto simp: list_all_iff)
  then have "set (map fst (sh_values (explain_local h feature_columns row)) @ map fst (explain_instance row)) = set feature_columns"
    by (auto simp: explain_local_def)
  then show ?thesis
    by (metis distinct_feature_columns distinct_remdups set_eq_iff_mset_eq_distinct set_remdups)
qed

text \<open>The ranking of an explanation. Whatever the iteration order of Python's sets, the local
  importance lists every engineered column exactly once, with ranks 1, 2, 3 and so on, in the order of
  the average of the two engines' absolute weights; its first entry is the offender the headline names.
\<close>

theorem explain_ranking:
  assumes "order_ok env" and "explain env r history = Inr x"
  shows "let shap = explain_local (xe_hash env) feature_columns (xe_features env history);
             lime = explain_instance (xe_features env history);
             names = map ri_feature_name (xr_local_feature_importance x)
         in mset names = mset feature_columns \<and>
            map ri_rank (xr_local_feature_importance x) = [1 ..< 1 + length feature_columns] \<and>
            sorted_wrt (\<lambda>a b. combined_score shap lime b \<le> combined_score shap lime a) names \<and>
            xr_headline x = ''Alert trigger dominated by '' @ py_title (spaced (hd names))"
proof -
  define row shap lime ranked where defs: "row = xe_features env history"
    "shap = explain_local (xe_hash env) feature_columns row" "lime = explain_instance row"
    "ranked = sorted_features env shap lime"
  have ms: "mset ranked = mset feature_columns"
    using assms(1) feature_keys [of "xe_hash env" row]
    by (simp add: defs(2,3,4) sorted_features_def order_ok_def del: remdups_append)
  then have len: "length ranked = length feature_columns" by (rule mset_eq_length)
  have "feature_columns \<noteq> []" by (simp add: feature_columns_def canonical_metrics_def)
  then have ne: "ranked \<noteq> []" using len by auto
  have importance: "xr_local_feature_importance x = local_importance shap row ranked"
    and head: "xr_headline x = ''Alert trigger dominated by '' @ py_title (spaced (hd ranked))"
    using assms(2) by (auto simp: explain_def Let_def bind_res_Inr defs [symmetric] primary_offender_hd [OF ne] split: if_splits)
  have names: "map ri_feature_name (xr_local_feature_importance x) = ranked"
    and ranks: "map ri_rank (xr_local_feature_importance x) = [1 ..< 1 + length ranked]"
    by (simp_all only: importance local_importance_names local_importance_ranks)
  show ?thesis unfolding Let_def defs(1-3) [symmetric] names ranks head
    using ms len by (simp add: defs(4) sorted_features_def sorted_desc_sorted)
qed

definition sample_xai :: xai_env where
  "sample_xai = \<lparr>xe_features = (\<lambda>_. [''bearing_temp'' \<mapsto> F 90]), xe_hash = (\<lambda>_. 7), xe_set_order = rev,
     xe_sensor_name = (\<lambda>_. None)\<rparr>"

definition sample_history :: "telemetry_frame list" where
  "sample_history = [\<lparr>tf_asset_id = ''P-101A'', tf_component_id = None, tf_timestamp = 0,
     tf_readings = [\<lparr>sr_sensor_id = ''s1'', sr_metric = ''bearing_temp'', sr_value = F 90\<rparr>]\<rparr>]"

definition sample_explanation :: xai_response where
  "sample_explanation = projr (explain sample_xai
     \<lparr>eq_asset_id = ''P-101A'', eq_explanation_id = None, eq_method = M_LIME\<rparr> sample_history)"

theorem explain_ranking_witness:
  "mset (map ri_feature_name (xr_local_feature_importance sample_explanation)) = mset feature_columns \<and>
   xr_headline sample_explanation = ''Alert trigger dominated by '' @
     py_title (spaced (hd (map ri_feature_name (xr_local_feature_importance sample_explanation))))"
proof -
  have "order_ok sample_xai" by (simp add: order_ok_def sample_xai_def)
  moreover have "explain sample_xai \<lparr>eq_asset_id = ''P-101A'', eq_explanation_id = None, eq_method = M_LIME\<rparr> sample_history
      = Inr sample_explanation"
    by (simp add: sample_explanation_def explain_def sample_history_def validate_frames_def Let_def)
  ultimately show ?thesis using explain_ranking unfolding Let_def by blast
qed

text \<open>The requested method only changes the label.\<close>

theorem explanation_ignores_method:
  "explain env (r\<lparr>eq_method := m\<rparr>) history = map_sum id (\<lambda>x. x\<lparr>xr_method := m\<rparr>) (explain env r history)"
  by (cases "validate_frames history") (simp_all add: explain_def Let_def)

text \<open>The explained value rises with temperature and vibration, while the heuristic life falls.\<close>

theorem explained_value_rises:
  assumes "observed_temp row \<le> observed_temp row'" "observed_vibration row \<le> observed_vibration row'"
  shows "sh_predicted_value (explain_local h cols row) \<le> sh_predicted_value (explain_local h cols row')"
proof -
  have "temp_impact row \<le> temp_impact row'" "vib_impact row \<le> vib_impact row'"
    unfolding temp_impact_def vib_impact_def using assms F_nonneg [of "1.5"] F_nonneg [of 15]
    by (intro max.mono f64_mult_right_mono f64_diff_mono order_refl; simp)+
  then show ?thesis by (auto simp: explain_local_def intro!: f64_add_mono)
qed

lemma map_of_tabulate: "map_of (map (\<lambda>c. (c, g c)) cs) c = (if c \<in> set cs then Some (g c) else None)"
  by (induction cs) auto

text \<open>The contributions of the other columns depend on the string hash and are not in the prediction.\<close>

theorem hashed_contributions_outside_prediction:
  "sh_predicted_value (explain_local h cols row) = sh_predicted_value (explain_local h' cols row) \<and>
   (if col \<in> set cols \<and> col \<notin> {''bearing_temp'', ''vibration_rms''}
    then map_of (sh_values (explain_local h cols row)) col = Some (of_int64 (\<bar>h col\<bar> mod 100) / F 1000) else True)"
  by (simp add: explain_local_def hashed_impact_def map_of_tabulate)

end
