(* ===== verification/Frontend_Adapters.thy ===== *)
theory Frontend_Adapters
  imports Decision_Service Graphrag_Models Xai_Service
begin

section \<open>The front-end adapters\<close>

text \<open>
  \<open>app/ai_service/integration/adapters/frontend_adapters.py\<close> with the records of \<open>ui_schemas.py\<close>:
  predictions, the graph panel, the digital twin, explanations and action cards. The inputs are the
  responses of the other components; time stamps are formatted by a parameter and the clock is left
  out. \<open>str\<close> of an enumeration member is its qualified name.
\<close>

subsection \<open>Telemetry status\<close>

datatype telemetry_status = TS_OK | TS_WARNING | TS_CRITICAL | TS_OFFLINE

definition warn_anomalies :: "str list" where
  "warn_anomalies = [''MEDIUM'', ''WARNING'']"

definition crit_anomalies :: "str list" where
  "crit_anomalies = [''HIGH'', ''CRITICAL'', ''FATAL'']"

definition upper_or_empty :: "str option \<Rightarrow> str" where
  "upper_or_empty v = (case v of None \<Rightarrow> [] | Some s \<Rightarrow> py_upper s)"

definition telemetry_status_of :: "str option \<Rightarrow> str option \<Rightarrow> float64 option \<Rightarrow> telemetry_status" where
  "telemetry_status_of asset_status highest_severity rul_days =
     (if truthy_str asset_status \<and> py_upper (the asset_status) \<in> {''OFFLINE'', ''FAULT'', ''MAINTENANCE''} then TS_OFFLINE
      else if truthy_str asset_status \<and> py_upper (the asset_status) = ''CRITICAL'' then TS_CRITICAL
      else if upper_or_empty highest_severity \<in> set crit_anomalies then TS_CRITICAL
      else if upper_or_empty highest_severity \<in> set warn_anomalies then TS_WARNING
      else case rul_days of
        None \<Rightarrow> TS_OK
      | Some d \<Rightarrow> if d < F 7 then TS_CRITICAL else if d < F 14 then TS_WARNING else TS_OK)"

definition dominant_anomaly_token :: "str option \<Rightarrow> str option \<Rightarrow> str list \<Rightarrow> str option" where
  "dominant_anomaly_token failure_mode_id failure_mode_label anomalous_sensors =
     (let label = py_lower (case or_str (or_str failure_mode_label failure_mode_id) None of Some s \<Rightarrow> s | None \<Rightarrow> []);
          blob = py_lower (join '' '' anomalous_sensors)
      in if contains ''bearing'' label \<or> contains ''wear'' label then Some ''bearing-wear''
         else if contains ''surge'' label \<or> contains ''compressor-surge'' label then Some ''compressor-surge''
         else if contains ''trip'' label \<or> contains ''electrical'' label \<or> contains ''breaker'' label then Some ''electrical-trip''
         else if contains ''leak'' label \<or> contains ''seal'' label then Some ''leakage''
         else if contains ''vib'' blob \<or> contains ''bearing'' blob then Some ''bearing-wear''
         else if contains ''press'' blob then Some ''compressor-surge''
         else if contains ''flow'' blob then Some ''leakage''
         else None)"

subsection \<open>Enumerations as text\<close>

fun severity_member :: "anomaly_severity \<Rightarrow> str" where
  "severity_member SEV_LOW = ''LOW''"
| "severity_member SEV_MEDIUM = ''MEDIUM''"
| "severity_member SEV_HIGH = ''HIGH''"
| "severity_member SEV_CRITICAL = ''CRITICAL''"

definition str_severity :: "anomaly_severity \<Rightarrow> str" where
  "str_severity s = ''AnomalySeverity.'' @ severity_member s"

definition str_priority :: "priority_level \<Rightarrow> str" where
  "str_priority p = ''PriorityLevel.'' @ priority_value p"

definition str_tier :: "severity_tier \<Rightarrow> str" where
  "str_tier t = ''SeverityTier.'' @ tier_value t"

definition str_action :: "action_type \<Rightarrow> str" where
  "str_action a = ''MaintenanceActionType.'' @ action_value a"

definition priority_map :: "(str \<times> priority_level) list" where
  "priority_map = [(''LOW'', LOW), (''MEDIUM'', MEDIUM), (''HIGH'', HIGH), (''CRITICAL'', CRITICAL)]"

definition tier_map :: "(str \<times> severity_tier) list" where
  "tier_map = [(''IMMINENT'', IMMINENT), (''SCHEDULED'', SCHEDULED), (''MONITOR'', MONITOR)]"

subsection \<open>Predictions\<close>

record ui_prediction =
  up_id :: str
  up_asset_id :: str
  up_remaining_days :: float64
  up_failure_probability :: float64
  up_mechanism :: str

definition adapt_inference_to_prediction :: "str \<Rightarrow> predict_response \<Rightarrow> ui_prediction" where
  "adapt_inference_to_prediction prediction_id p =
     (let fp = pp_failure_probability p;
          named = (case or_str (fp_failure_mode_label fp) (fp_failure_mode_id fp) of Some s \<Rightarrow> s | None \<Rightarrow> []);
          flags = sorted_desc (\<lambda>f. fabs (sf_anomaly_score f)) (pp_anomaly_flags p);
          fault = (if named \<noteq> [] then named else case flags of f # _ \<Rightarrow> ''Anomalous '' @ sf_metric f | [] \<Rightarrow> [])
      in \<lparr>up_id = prediction_id, up_asset_id = pp_asset_id p, up_remaining_days = ru_value_days (pp_rul p),
          up_failure_probability = fp_probability fp, up_mechanism = (if fault \<noteq> [] then fault else ''Unknown'')\<rparr>)"

subsection \<open>The graph panel\<close>

datatype panel_type = P_ASSET | P_COMPONENT | P_ANOMALY | P_PROCEDURE | P_RECORD

definition panel_types :: "panel_type list" where
  "panel_types = [P_ASSET, P_COMPONENT, P_ANOMALY, P_PROCEDURE, P_RECORD]"

definition node_type_vocab :: "(str \<times> panel_type) list" where
  "node_type_vocab = [(''asset'', P_ASSET), (''component'', P_COMPONENT), (''anomaly'', P_ANOMALY),
     (''failure_mode'', P_ANOMALY), (''failuremode'', P_ANOMALY), (''fault'', P_ANOMALY), (''failure'', P_ANOMALY),
     (''procedure'', P_PROCEDURE), (''sop'', P_PROCEDURE), (''record'', P_RECORD), (''incident'', P_RECORD),
     (''workorder'', P_RECORD), (''work_order'', P_RECORD), (''event'', P_RECORD)]"

definition panel_type_of :: "rag_node \<Rightarrow> panel_type" where
  "panel_type_of n = dict_default node_type_vocab (py_lower (rn_type n)) P_COMPONENT"

fun column_x :: "panel_type \<Rightarrow> int" where
  "column_x P_ASSET = 60"
| "column_x P_COMPONENT = 200"
| "column_x P_ANOMALY = 320"
| "column_x P_PROCEDURE = 440"
| "column_x P_RECORD = 540"

definition column_members :: "rag_node list \<Rightarrow> panel_type \<Rightarrow> rag_node list" where
  "column_members nodes t = sort_key rn_id (filter (\<lambda>n. panel_type_of n = t) nodes)"

definition column_cells :: "rag_node list \<Rightarrow> panel_type \<Rightarrow> (str \<times> int \<times> int) list" where
  "column_cells nodes t =
     map (\<lambda>(idx, n). (rn_id n, column_x t, 60 + int idx * 80)) (enumerate 0 (column_members nodes t))"

text \<open>The positions, in whole pixels: the cells are assigned in order, so a repeated identifier keeps the last.\<close>

definition project_graph_layout :: "rag_node list \<Rightarrow> (str \<times> int \<times> int) list" where
  "project_graph_layout nodes =
     foldl (\<lambda>d (k, xy). AList.update k xy d) [] (concat (map (column_cells nodes) panel_types))"

record panel_node =
  pn_id :: str
  pn_label :: str
  pn_type :: panel_type
  pn_x :: float64
  pn_y :: float64
  pn_details :: str

definition node_details :: "rag_node \<Rightarrow> str" where
  "node_details n =
     (case map_of (rn_properties n) ''description'' of
        Some v \<Rightarrow> rn_label n @ '' '' @ em_dash @ '' '' @ py_str v
      | None \<Rightarrow> (case map_of (rn_properties n) ''status'' of
          Some v \<Rightarrow> rn_label n @ '' (status: '' @ py_str v @ '')''
        | None \<Rightarrow> rn_label n))"

definition panel_node_of :: "(str \<times> int \<times> int) list \<Rightarrow> rag_node \<Rightarrow> panel_node" where
  "panel_node_of layout n =
     (let (x, y) = dict_default layout (rn_id n) (60, 60)
      in \<lparr>pn_id = rn_id n, pn_label = rn_label n, pn_type = panel_type_of n,
          pn_x = of_int64 x, pn_y = of_int64 y, pn_details = node_details n\<rparr>)"

record panel_edge =
  pg_source :: str
  pg_target :: str
  pg_label :: str
  pg_highlighted :: bool

definition highlighted_nodes :: "citation list \<Rightarrow> str list" where
  "highlighted_nodes cs = foldl (\<lambda>hl c. case ci_source_node_id c of
       None \<Rightarrow> hl
     | Some i \<Rightarrow> if i \<noteq> [] \<and> i \<notin> set hl then hl @ [i] else hl) [] cs"

definition edge_ends_in :: "str list \<Rightarrow> rag_edge \<Rightarrow> bool" where
  "edge_ends_in hl e \<longleftrightarrow> re_source e \<in> set hl \<and> re_target e \<in> set hl"

definition panel_edge_of :: "str list \<Rightarrow> rag_edge \<Rightarrow> panel_edge" where
  "panel_edge_of hl e = \<lparr>pg_source = re_source e, pg_target = re_target e, pg_label = re_relationship e,
     pg_highlighted = edge_ends_in hl e\<rparr>"

definition edge_id :: "rag_edge \<Rightarrow> str" where
  "edge_id e = re_source e @ ''-'' @ re_target e"

definition highlighted_edges :: "str list \<Rightarrow> rag_edge list \<Rightarrow> str list" where
  "highlighted_edges hl es = dedup_by (\<lambda>i. i) [] (map edge_id (filter (edge_ends_in hl) es))"

definition citation_log :: "nat \<times> citation \<Rightarrow> str" where
  "citation_log ic = (case ic of (idx, c) \<Rightarrow>
     ''Citation '' @ str_nat (idx + 1) @ '': '' @
     (case or_str (ci_source_type c) (or_str (ci_source_document c) None) of Some s \<Rightarrow> s | None \<Rightarrow> ''citation'') @
     '' (confidence='' @ fmt_fixed 2 (ci_confidence_score c) @ '')'')"

definition ellipsis :: str where
  "ellipsis = [CHR 0xE2, CHR 0x80, CHR 0xA6]"

definition panel_logs :: "str option \<Rightarrow> rag_response \<Rightarrow> str list" where
  "panel_logs query r =
     [if truthy_str query then ''Vector search initiated: '' @ [CHR 0x27] @ the query @ [CHR 0x27] else ''Vector search initiated'']
     @ (if rr_vector_hits r \<noteq> 0 then [''Vector hits: '' @ str_nat (rr_vector_hits r) @ '' chunks''] else [])
     @ map citation_log (enumerate 0 (take 5 (rr_citations r)))
     @ (if rr_graph_nodes r \<noteq> []
        then [''Sub-graph projected: '' @ str_nat (length (rr_graph_nodes r)) @ '' nodes / '' @
              str_nat (length (rr_graph_edges r)) @ '' edges'']
        else [])
     @ [if truthy_str (rr_answer r) then ''Synthesizing response context via LLM...''
        else ''Awaiting LLM synthesis'' @ ellipsis]"

record panel_payload =
  py_answer :: str
  py_logs :: "str list"
  py_nodes :: "panel_node list"
  py_edges :: "panel_edge list"
  py_highlighted_nodes :: "str list"
  py_highlighted_edges :: "str list"
  py_citations :: "citation list"
  py_vector_hits :: nat
  py_confidence :: float64

definition adapt_graphrag_payload :: "rag_response \<Rightarrow> str option \<Rightarrow> panel_payload" where
  "adapt_graphrag_payload r query =
     (let layout = project_graph_layout (rr_graph_nodes r); hl = highlighted_nodes (rr_citations r)
      in \<lparr>py_answer = (case rr_answer r of None \<Rightarrow> [] | Some a \<Rightarrow> a), py_logs = panel_logs query r,
          py_nodes = map (panel_node_of layout) (rr_graph_nodes r),
          py_edges = map (panel_edge_of hl) (rr_graph_edges r),
          py_highlighted_nodes = hl, py_highlighted_edges = highlighted_edges hl (rr_graph_edges r),
          py_citations = rr_citations r, py_vector_hits = rr_vector_hits r,
          py_confidence = rr_overall_confidence r\<rparr>)"

subsection \<open>The digital twin\<close>

record ui_telemetry =
  ut_speed :: float64
  ut_vibration :: float64
  ut_pressure :: float64
  ut_temperature :: float64
  ut_flow_rate :: float64
  ut_load :: float64
  ut_risk_score :: float64
  ut_status :: telemetry_status

definition reading_map :: "telemetry_frame \<Rightarrow> (str \<times> float64) list" where
  "reading_map f = foldl (\<lambda>d r. AList.update (sr_metric r) (sr_value r) d) [] (tf_readings f)"

definition safe_metric :: "(str \<times> float64) list \<Rightarrow> str \<Rightarrow> float64 \<Rightarrow> float64" where
  "safe_metric d k dflt = dict_default d k dflt"

definition telemetry_of :: "telemetry_frame \<Rightarrow> float64 \<Rightarrow> telemetry_status \<Rightarrow> ui_telemetry" where
  "telemetry_of f risk status =
     (let d = reading_map f
      in \<lparr>ut_speed = safe_metric d ''rpm'' 0, ut_vibration = safe_metric d ''vibration_rms'' 0,
          ut_pressure = safe_metric d ''pressure'' 0, ut_temperature = safe_metric d ''bearing_temp'' 0,
          ut_flow_rate = safe_metric d ''flow_rate'' 0, ut_load = safe_metric d ''load_kw'' 0,
          ut_risk_score = risk, ut_status = status\<rparr>)"

definition frame_to_telemetry :: "telemetry_frame \<Rightarrow> ui_telemetry" where
  "frame_to_telemetry f = telemetry_of f 0 TS_OK"

definition blank_telemetry :: ui_telemetry where
  "blank_telemetry = \<lparr>ut_speed = 0, ut_vibration = 0, ut_pressure = 0, ut_temperature = 0, ut_flow_rate = 0,
     ut_load = 0, ut_risk_score = 0, ut_status = TS_OK\<rparr>"

definition build_telemetry_chart_series :: "(int \<Rightarrow> str) \<Rightarrow> telemetry_frame list \<Rightarrow> str \<Rightarrow> (str \<times> float64) list" where
  "build_telemetry_chart_series stamp history metric_key =
     map (\<lambda>f. (stamp (tf_timestamp f), safe_metric (reading_map f) metric_key 0)) history"

datatype asset_status = OPERATIONAL | DEGRADED | ASSET_CRITICAL | OFFLINE

fun asset_status_value :: "asset_status \<Rightarrow> str" where
  "asset_status_value OPERATIONAL = ''OPERATIONAL''"
| "asset_status_value DEGRADED = ''DEGRADED''"
| "asset_status_value ASSET_CRITICAL = ''CRITICAL''"
| "asset_status_value OFFLINE = ''OFFLINE''"

definition asset_status_of :: "str \<Rightarrow> asset_status res" where
  "asset_status_of s = (case map_of (map (\<lambda>a. (asset_status_value a, a)) [OPERATIONAL, DEGRADED, ASSET_CRITICAL, OFFLINE]) s of
       Some a \<Rightarrow> Inr a | None \<Rightarrow> Inl (ValueErr (repr_str s @ '' is not a valid UIAssetStatus'')))"

record asset_fields =
  aa_id :: str
  aa_name :: str
  aa_type :: str
  aa_status :: str
  aa_parent_id :: "str option"

text \<open>An asset is an object with these attributes, or a dictionary, which has none of them: each
  \<open>getattr\<close> then yields its default. The status is the value of the enumeration or a text.\<close>

datatype asset_arg = AssetObject asset_fields | AssetDict "(str \<times> pyval) list"

definition attributes_of :: "asset_arg \<Rightarrow> asset_fields" where
  "attributes_of a = (case a of
       AssetObject o1 \<Rightarrow> o1
     | AssetDict d \<Rightarrow> \<lparr>aa_id = [], aa_name = [], aa_type = ''GENERIC'', aa_status = ''OPERATIONAL'', aa_parent_id = None\<rparr>)"

record ui_asset =
  ua_id :: str
  ua_name :: str
  ua_type :: str
  ua_status :: asset_status
  ua_parent_id :: "str option"

definition ui_asset_of :: "asset_fields \<Rightarrow> ui_asset res" where
  "ui_asset_of a = bind_res (asset_status_of (aa_status a)) (\<lambda>st.
     Inr \<lparr>ua_id = aa_id a, ua_name = aa_name a, ua_type = aa_type a, ua_status = st, ua_parent_id = or_str (aa_parent_id a) None\<rparr>)"

text \<open>\<open>max(flags, key=...)\<close>: the first flag of the highest order.\<close>

definition severity_order :: "(str \<times> nat) list" where
  "severity_order = [(''LOW'', 0), (''MEDIUM'', 1), (''HIGH'', 2), (''CRITICAL'', 3)]"

definition flag_order :: "sensor_flag \<Rightarrow> nat" where
  "flag_order f = dict_default severity_order (py_upper (str_severity (sf_severity f))) 0"

fun first_max :: "('a \<Rightarrow> nat) \<Rightarrow> 'a \<Rightarrow> 'a list \<Rightarrow> 'a" where
  "first_max k best [] = best"
| "first_max k best (x # xs) = first_max k (if k best < k x then x else best) xs"

definition highest_severity :: "sensor_flag list \<Rightarrow> str option" where
  "highest_severity flags = (case flags of
       [] \<Rightarrow> None | f # fs \<Rightarrow> Some (str_severity (sf_severity (first_max flag_order f fs))))"

record history_frame =
  hf_timestamp :: str
  hf_telemetry :: ui_telemetry

text \<open>A history frame validates its risk score, the telemetry copied by \<open>model_copy\<close> does not.\<close>

definition mk_history_frame :: "history_frame \<Rightarrow> history_frame res" where
  "mk_history_frame f =
     require (0 \<le> ut_risk_score (hf_telemetry f) \<and> ut_risk_score (hf_telemetry f) \<le> F 100) (ValidationError ''riskScore'') (Inr f)"

record twin_payload =
  tw_asset :: ui_asset
  tw_telemetry :: ui_telemetry
  tw_history :: "history_frame list"
  tw_active_anomaly :: "str option"

definition adapt_digital_twin_payload ::
  "(int \<Rightarrow> str) \<Rightarrow> asset_arg \<Rightarrow> predict_response option \<Rightarrow> telemetry_frame list \<Rightarrow> twin_payload res" where
  "adapt_digital_twin_payload stamp asset inference history =
     bind_res (ui_asset_of (attributes_of asset)) (\<lambda>a.
     let status_text = Some (asset_status_value (ua_status a));
         base = (if history = [] then blank_telemetry else frame_to_telemetry (last history));
         risk = (case inference of None \<Rightarrow> ut_risk_score base
           | Some i \<Rightarrow> py_round (fp_probability (pp_failure_probability i) * F 100) 2);
         status = telemetry_status_of status_text
           (case inference of None \<Rightarrow> None | Some i \<Rightarrow> highest_severity (pp_anomaly_flags i))
           (map_option (\<lambda>i. ru_value_days (pp_rul i)) inference);
         telemetry = base\<lparr>ut_risk_score := risk, ut_status := status\<rparr>
     in bind_res (map_res (\<lambda>f. mk_history_frame \<lparr>hf_timestamp = stamp (tf_timestamp f),
            hf_telemetry = telemetry_of f risk (telemetry_status_of status_text None None)\<rparr>) history) (\<lambda>frames.
        Inr \<lparr>tw_asset = a, tw_telemetry = telemetry, tw_history = frames,
          tw_active_anomaly = (case inference of
              None \<Rightarrow> dominant_anomaly_token None None []
            | Some i \<Rightarrow> dominant_anomaly_token (fp_failure_mode_id (pp_failure_probability i))
                (fp_failure_mode_label (pp_failure_probability i))
                (map sf_sensor_id (filter sf_is_anomalous (pp_anomaly_flags i))))\<rparr>))"

subsection \<open>Explanations\<close>

text \<open>\<open>f"{x:g}"\<close>: six significant digits without trailing zeros, with an exponent outside 1e-4 .. 1e6.\<close>

definition strip_zeros :: "str \<Rightarrow> str" where
  "strip_zeros d = rev (dropWhile ((=) (CHR ''0'')) (rev d))"

definition point :: "str \<Rightarrow> str \<Rightarrow> str" where
  "point whole fraction = (if strip_zeros fraction = [] then whole else whole @ ''.'' @ strip_zeros fraction)"

definition fmt_g :: "float64 \<Rightarrow> str" where
  "fmt_g x =
     (if val x = 0 then ''0''
      else let e0 = ilog10 \<bar>val x\<bar>; m0 = round_even (\<bar>val x\<bar> * 10 powi (5 - e0));
               (m, e) = (if m0 = 1000000 then (100000, e0 + 1) else (m0, e0)); d = str_int m
           in (if x < 0 then ''-'' else [])
              @ (if -4 \<le> e \<and> e < 0 then point ''0'' (replicate (nat (- e - 1)) (CHR ''0'') @ d)
                 else if 0 \<le> e \<and> e < 6 then point (take (nat (e + 1)) d) (drop (nat (e + 1)) d)
                 else point (take 1 d) (drop 1 d) @ ''e'' @ (if e < 0 then ''-'' else ''+'') @ zfill 2 (str_int \<bar>e\<bar>)))"

definition unit_map :: "(str \<times> str) list" where
  "unit_map = [(''vibration_rms'', ''mm/s''), (''bearing_temp'', degree_sign @ ''C''), (''rpm'', ''RPM''),
     (''pressure'', ''bar''), (''flow_rate'', ''L/m''), (''load_kw'', ''kW'')]"

record shap_feature =
  xf_name :: str
  xf_value :: str
  xf_shap_value :: float64
  xf_desc :: str

definition shap_feature_of :: "ranked_impact \<Rightarrow> shap_feature" where
  "shap_feature_of fi =
     (let u = dict_default unit_map (ri_feature_name fi) []; w = ri_impact_weight fi;
          shown = fmt_g (ri_feature_value fi) @ u
      in \<lparr>xf_name = ri_feature_name fi, xf_value = shown, xf_shap_value = w,
          xf_desc = ''SHAP contribution '' @ (if 0 \<le> w then ''+'' else []) @ fmt_fixed 2 w @ '' (rank '' @
            str_nat (ri_rank fi) @ '', observed '' @ shown @ '')''\<rparr>)"

record explanation_payload =
  xp_prediction_id :: str
  xp_asset_id :: str
  xp_method :: explanation_method
  xp_base_value :: float64
  xp_prediction_value :: float64
  xp_features :: "shap_feature list"
  xp_confidence_matrix :: "(str \<times> float64) list"
  xp_headline :: str
  xp_narrative :: str
  xp_failure_modes :: "str list"

definition adapt_explainability_payload :: "xai_response \<Rightarrow> str \<Rightarrow> str \<Rightarrow> explanation_payload" where
  "adapt_explainability_payload x prediction_id asset_id =
     \<lparr>xp_prediction_id = prediction_id, xp_asset_id = asset_id, xp_method = xr_method x,
      xp_base_value = xr_base_value x, xp_prediction_value = xr_predicted_value x,
      xp_features = map shap_feature_of (sorted_desc (\<lambda>fi. fabs (ri_impact_weight fi)) (xr_local_feature_importance x)),
      xp_confidence_matrix = xr_confidence_matrix x, xp_headline = xr_headline x, xp_narrative = xr_narrative x,
      xp_failure_modes = xr_contributing_failure_modes x\<rparr>"

subsection \<open>Action cards\<close>

record ui_sop_linkage =
  us_sop_id :: str
  us_title :: str
  us_revision :: "str option"
  us_effectiveness :: float64

record action_card =
  ac_action_id :: str
  ac_action_type :: str
  ac_title :: str
  ac_description :: str
  ac_priority :: priority_level
  ac_severity_tier :: severity_tier
  ac_risk_score :: float64
  ac_cost_avoidance :: float64
  ac_completion_by :: str
  ac_sop :: "ui_sop_linkage option"
  ac_rank :: nat

definition mk_action_card :: "action_card \<Rightarrow> action_card res" where
  "mk_action_card c =
     require (0 \<le> ac_risk_score c \<and> ac_risk_score c \<le> 1) (ValidationError ''riskScoreIfIgnored'')
     (require (0 \<le> ac_cost_avoidance c) (ValidationError ''estimatedCostAvoidanceUsd'')
     (require (1 \<le> ac_rank c) (ValidationError ''rank'') (Inr c)))"

definition ui_sop_of :: "sop_linkage \<Rightarrow> ui_sop_linkage" where
  "ui_sop_of l = \<lparr>us_sop_id = lk_sop_id l, us_title = lk_title l, us_revision = lk_revision l,
     us_effectiveness = (if lk_effectiveness l = 0 then F 0.75 else lk_effectiveness l)\<rparr>"

definition action_card_of :: "(int \<Rightarrow> str) \<Rightarrow> recommendation \<Rightarrow> action_card res" where
  "action_card_of stamp r =
     mk_action_card \<lparr>ac_action_id = rc_action_id r, ac_action_type = str_action (rc_action_type r),
       ac_title = py_title (str_action (rc_action_type r)) @ '' Recommendation'', ac_description = rc_description r,
       ac_priority = dict_default priority_map (py_upper (str_priority (rc_priority r))) MEDIUM,
       ac_severity_tier = dict_default tier_map (py_upper (str_tier (rc_severity_tier r))) MONITOR,
       ac_risk_score = rc_risk_score_if_ignored r, ac_cost_avoidance = rc_cost_avoidance_usd r,
       ac_completion_by = stamp (rc_completion_by r), ac_sop = map_option ui_sop_of (rc_sop_linkage r),
       ac_rank = (if rc_rank r = 0 then 1 else rc_rank r)\<rparr>"

definition adapt_recommendations_to_actions :: "(int \<Rightarrow> str) \<Rightarrow> recommendation_response \<Rightarrow> action_card list res" where
  "adapt_recommendations_to_actions stamp r = map_res (action_card_of stamp) (rs_recommendations r)"

subsection \<open>Assets, alerts and the envelope\<close>

definition adapt_asset :: "asset_arg \<Rightarrow> ui_asset res" where
  "adapt_asset asset =
     (let a = attributes_of asset in ui_asset_of (if aa_name a \<noteq> [] then a else a\<lparr>aa_name := aa_id a\<rparr>))"

text \<open>An error of the envelope: a legacy text becomes an object.\<close>

datatype envelope_error = LegacyError str | ErrorObject pyval

record ui_envelope =
  en_success :: bool
  en_data :: pyval
  en_request_id :: "str option"
  en_error :: pyval

definition api_error_to_ui_error :: "str \<Rightarrow> str \<Rightarrow> pyval \<Rightarrow> pyval" where
  "api_error_to_ui_error code msg details = VDict [(''code'', VStr code), (''message'', VStr msg), (''details'', details)]"

definition to_ui_api_envelope :: "bool \<Rightarrow> pyval \<Rightarrow> str option \<Rightarrow> envelope_error option \<Rightarrow> ui_envelope" where
  "to_ui_api_envelope success data request_id error =
     \<lparr>en_success = success, en_data = data, en_request_id = request_id,
      en_error = (case error of
          None \<Rightarrow> VNone
        | Some (LegacyError m) \<Rightarrow> api_error_to_ui_error ''AI_SERVICE_ERROR'' m VNone
        | Some (ErrorObject v) \<Rightarrow> v)\<rparr>"

subsection \<open>Enumerations never reach the tables\<close>

lemma severity_text_unknown:
  "py_upper (str_severity s) \<notin> set crit_anomalies" "py_upper (str_severity s) \<notin> set warn_anomalies"
  "map_of severity_order (py_upper (str_severity s)) = None"
  by (simp_all add: str_severity_def py_upper_def upper_char_def crit_anomalies_def warn_anomalies_def severity_order_def Let_def)

lemma priority_text_unknown: "map_of priority_map (py_upper (str_priority p)) = None"
  by (simp add: str_priority_def py_upper_def upper_char_def priority_map_def Let_def)

lemma tier_text_unknown: "map_of tier_map (py_upper (str_tier t)) = None"
  by (simp add: str_tier_def py_upper_def upper_char_def tier_map_def Let_def)

lemma highest_severity_text: "highest_severity flags = None \<or> (\<exists>s. highest_severity flags = Some (str_severity s))"
  by (auto simp: highest_severity_def split: list.splits)

lemma status_ignores_severity: "telemetry_status_of a (highest_severity flags) r = telemetry_status_of a None r"
proof -
  have none: "upper_or_empty None \<notin> set crit_anomalies" "upper_or_empty None \<notin> set warn_anomalies"
    by (simp_all add: upper_or_empty_def crit_anomalies_def warn_anomalies_def)
  have "upper_or_empty (highest_severity flags) \<notin> set crit_anomalies" "upper_or_empty (highest_severity flags) \<notin> set warn_anomalies"
    using highest_severity_text [of flags] none severity_text_unknown by (auto simp: upper_or_empty_def)
  with none show ?thesis unfolding telemetry_status_of_def by (auto simp only: if_False)
qed

text \<open>Whatever anomaly the flags report, the status shown is the same.\<close>

theorem severity_never_raises_status:
  "map_sum id tw_telemetry (adapt_digital_twin_payload stamp asset (Some (p\<lparr>pp_anomaly_flags := flags\<rparr>)) history) =
   map_sum id tw_telemetry (adapt_digital_twin_payload stamp asset (Some p) history)"
proof (cases "ui_asset_of (attributes_of asset)")
  case (Inl e)
  then show ?thesis by (simp add: adapt_digital_twin_payload_def)
next
  case (Inr a)
  show ?thesis
    by (cases "map_res (\<lambda>f. mk_history_frame \<lparr>hf_timestamp = stamp (tf_timestamp f),
            hf_telemetry = telemetry_of f (py_round (fp_probability (pp_failure_probability p) * F 100) 2)
              (telemetry_status_of (Some (asset_status_value (ua_status a))) None None)\<rparr>) history")
      (simp_all add: adapt_digital_twin_payload_def Inr Let_def status_ignores_severity)
qed

lemma card_fields: "action_card_of stamp r = Inr c \<Longrightarrow>
   ac_action_id c = rc_action_id r \<and> ac_priority c = MEDIUM \<and> ac_severity_tier c = MONITOR \<and>
   ac_risk_score c = rc_risk_score_if_ignored r"
  by (auto simp: action_card_of_def mk_action_card_def dict_default_def priority_text_unknown tier_text_unknown)

lemma map_res_fields:
  "map_res f xs = Inr ys \<Longrightarrow> (\<And>x y. f x = Inr y \<Longrightarrow> g y = h x \<and> P y) \<Longrightarrow> map g ys = map h xs \<and> list_all P ys"
  by (induction xs arbitrary: ys) (auto simp: bind_res_Inr)

subsection \<open>The panel\<close>

lemma highlighted_fold:
  "distinct hl \<Longrightarrow> (let r = foldl (\<lambda>hl c. case ci_source_node_id c of
       None \<Rightarrow> hl | Some i \<Rightarrow> if i \<noteq> [] \<and> i \<notin> set hl then hl @ [i] else hl) hl cs
     in distinct r \<and> set r = set hl \<union> {i. i \<noteq> [] \<and> Some i \<in> ci_source_node_id ` set cs})"
proof (induction cs arbitrary: hl)
  case Nil
  then show ?case by simp
next
  case (Cons c cs)
  define hl' where "hl' = (case ci_source_node_id c of
       None \<Rightarrow> hl | Some i \<Rightarrow> if i \<noteq> [] \<and> i \<notin> set hl then hl @ [i] else hl)"
  have "distinct hl'" "set hl' = set hl \<union> {i. i \<noteq> [] \<and> Some i = ci_source_node_id c}"
    using Cons.prems by (auto simp: hl'_def split: option.splits)
  with Cons.IH [of hl'] show ?case by (auto simp: hl'_def [symmetric] Let_def)
qed

lemma highlighted_nodes_exact:
  "distinct (highlighted_nodes cs)" "set (highlighted_nodes cs) = {i. i \<noteq> [] \<and> Some i \<in> ci_source_node_id ` set cs}"
  using highlighted_fold [of "[]" cs] by (simp_all add: highlighted_nodes_def Let_def)

lemma highlighted_edges_exact:
  "distinct (highlighted_edges hl es)"
  "set (highlighted_edges hl es) = edge_id ` {e \<in> set es. edge_ends_in hl e}"
proof -
  show "distinct (highlighted_edges hl es)"
    using dedup_by_distinct [of "\<lambda>i. i" "[]"] by (simp add: highlighted_edges_def)
  show "set (highlighted_edges hl es) = edge_id ` {e \<in> set es. edge_ends_in hl e}"
    using dedup_by_keys [of "\<lambda>i. i" "[]" "map edge_id (filter (edge_ends_in hl) es)"]
    by (simp add: highlighted_edges_def)
qed

lemma layout_fold:
  "wf_dict d \<Longrightarrow> (let r = foldl (\<lambda>d (k, xy). AList.update k xy d) d kvs
     in wf_dict r \<and> fst ` set r = fst ` set d \<union> fst ` set kvs \<and> set r \<subseteq> set d \<union> set kvs)"
proof (induction kvs arbitrary: d)
  case Nil
  then show ?case by simp
next
  case (Cons kv kvs)
  obtain k xy where kv: "kv = (k, xy)" by force
  have "set (AList.update k xy d) \<subseteq> insert (k, xy) (set d)"
    using update_cases [OF Cons.prems, of _ _ k xy] by force
  with Cons.IH [of "AList.update k xy d"] show ?case
    using Cons.prems by (auto simp: kv Let_def wf_dict_update keys_update)
qed

lemma column_members_set [simp]: "set (column_members nodes t) = {n \<in> set nodes. panel_type_of n = t}"
  by (auto simp: column_members_def)

lemma column_cells_keys: "fst ` set (column_cells nodes t) = rn_id ` {n \<in> set nodes. panel_type_of n = t}"
proof -
  have "map fst (column_cells nodes t) = map (rn_id \<circ> snd) (enumerate 0 (column_members nodes t))"
    by (simp add: column_cells_def split_beta comp_def)
  also have "\<dots> = map rn_id (column_members nodes t)" by (simp flip: map_map)
  finally have "set (map fst (column_cells nodes t)) = set (map rn_id (column_members nodes t))" by simp
  then show ?thesis by (simp only: list.set_map column_members_set)
qed

lemma layout_keys: "fst ` set (project_graph_layout nodes) = rn_id ` set nodes"
proof -
  have "fst ` set (project_graph_layout nodes) = fst ` set (concat (map (column_cells nodes) panel_types))"
    using layout_fold [of "[]" "concat (map (column_cells nodes) panel_types)"]
    by (simp add: project_graph_layout_def Let_def)
  also have "\<dots> = (\<Union>t \<in> set panel_types. rn_id ` {n \<in> set nodes. panel_type_of n = t})"
    by (simp add: image_UN column_cells_keys)
  also have "\<dots> = rn_id ` set nodes"
  proof -
    have "t \<in> set panel_types" for t by (cases t) (simp_all add: panel_types_def)
    then show ?thesis by blast
  qed
  finally show ?thesis .
qed

lemma wf_layout: "wf_dict (project_graph_layout nodes)"
  using layout_fold [of "[]" "concat (map (column_cells nodes) panel_types)"]
  by (simp add: project_graph_layout_def Let_def)

text \<open>One cell, one identifier: the cells of a column differ in their row, the columns in their place.\<close>

lemma column_x_inj: "column_x t = column_x t' \<longleftrightarrow> t = t'"
  by (cases t; cases t') simp_all

lemma column_cell_key:
  "(k, xy) \<in> set (column_cells nodes t) \<Longrightarrow> (k', xy) \<in> set (column_cells nodes t) \<Longrightarrow> k = k'"
  by (auto simp: column_cells_def in_set_enumerate_eq)

lemma layout_cell_key:
  assumes "(k, xy) \<in> set (project_graph_layout nodes)" "(k', xy) \<in> set (project_graph_layout nodes)"
  shows "k = k'"
proof -
  have sub: "set (project_graph_layout nodes) \<subseteq> set (concat (map (column_cells nodes) panel_types))"
    using layout_fold [of "[]" "concat (map (column_cells nodes) panel_types)"]
    by (simp add: project_graph_layout_def Let_def)
  obtain t where t: "(k, xy) \<in> set (column_cells nodes t)" using assms(1) sub by auto
  obtain t' where t': "(k', xy) \<in> set (column_cells nodes t')" using assms(2) sub by auto
  have "fst xy = column_x t" "fst xy = column_x t'" using t t' by (auto simp: column_cells_def)
  then have "t = t'" by (metis column_x_inj)
  with t t' column_cell_key show ?thesis by blast
qed

lemma layout_cell_range:
  assumes "(k, x, y) \<in> set (project_graph_layout nodes)"
  shows "\<bar>x\<bar> \<le> 540 \<and> 60 \<le> y \<and> y < 60 + 80 * int (length nodes)"
proof -
  have sub: "set (project_graph_layout nodes) \<subseteq> set (concat (map (column_cells nodes) panel_types))"
    using layout_fold [of "[]" "concat (map (column_cells nodes) panel_types)"]
    by (simp add: project_graph_layout_def Let_def)
  obtain t where "(k, x, y) \<in> set (column_cells nodes t)" using assms sub by auto
  then obtain i where "x = column_x t" "y = 60 + int i * 80" "i < length (column_members nodes t)"
    by (auto simp: column_cells_def in_set_enumerate_eq)
  moreover have "length (column_members nodes t) \<le> length nodes" by (simp add: column_members_def)
  moreover have "\<bar>column_x t\<bar> \<le> 540" by (cases t) simp_all
  ultimately show ?thesis by simp
qed

lemma of_int64_inj: "\<bar>i\<bar> < 2 ^ 53 \<Longrightarrow> \<bar>j\<bar> < 2 ^ 53 \<Longrightarrow> of_int64 i = of_int64 j \<Longrightarrow> i = j"
  by (simp add: of_int64_def val_inject_iff fl_of_int)

lemma layout_lookup:
  assumes "n \<in> set nodes"
  obtains x y where "(rn_id n, x, y) \<in> set (project_graph_layout nodes)"
    "dict_default (project_graph_layout nodes) (rn_id n) (60, 60) = (x, y)"
proof -
  have "rn_id n \<in> fst ` set (project_graph_layout nodes)" using assms by (simp add: layout_keys)
  then obtain xy where "(rn_id n, xy) \<in> set (project_graph_layout nodes)" by force
  moreover from this have "map_of (project_graph_layout nodes) (rn_id n) = Some xy"
    using wf_layout [of nodes] by (simp add: wf_dict_def)
  ultimately show thesis by (intro that [of "fst xy" "snd xy"]) (simp_all add: dict_default_def)
qed

text \<open>No two nodes overlap. In a graph of fewer than 2^40 nodes, two nodes with different identifiers
  are drawn at different positions, each inside the five columns and below the top margin.
\<close>

theorem panel_positions_distinct:
  assumes "n \<in> set nodes" "n' \<in> set nodes" "rn_id n \<noteq> rn_id n'" "length nodes < 2 ^ 40"
  shows "let p = panel_node_of (project_graph_layout nodes) n; p' = panel_node_of (project_graph_layout nodes) n'
    in (pn_x p, pn_y p) \<noteq> (pn_x p', pn_y p') \<and> F 60 \<le> pn_y p \<and> pn_x p \<in> of_int64 ` {60, 200, 320, 440, 540}"
proof -
  obtain x y where xy: "(rn_id n, x, y) \<in> set (project_graph_layout nodes)"
    "dict_default (project_graph_layout nodes) (rn_id n) (60, 60) = (x, y)" using layout_lookup assms(1) by blast
  obtain x' y' where xy': "(rn_id n', x', y') \<in> set (project_graph_layout nodes)"
    "dict_default (project_graph_layout nodes) (rn_id n') (60, 60) = (x', y')" using layout_lookup assms(2) by blast
  have ne: "(x, y) \<noteq> (x', y')" using layout_cell_key xy(1) xy'(1) assms(3) by metis
  have small: "\<bar>x\<bar> < 2 ^ 53" "\<bar>y\<bar> < 2 ^ 53" "\<bar>x'\<bar> < 2 ^ 53" "\<bar>y'\<bar> < 2 ^ 53"
    using layout_cell_range [OF xy(1)] layout_cell_range [OF xy'(1)] assms(4) by simp_all
  have "(of_int64 x, of_int64 y) \<noteq> (of_int64 x', of_int64 y')"
    using ne of_int64_inj [OF small(1,3)] of_int64_inj [OF small(2,4)] by auto
  moreover have "F 60 \<le> of_int64 y" unfolding of_int64_def
    using layout_cell_range [OF xy(1)] by (intro F_mono) (metis of_int_le_iff of_int_numeral)
  moreover have "x \<in> {60, 200, 320, 440, 540}"
  proof -
    obtain t where "(rn_id n, x, y) \<in> set (column_cells nodes t)"
      using xy(1) layout_fold [of "[]" "concat (map (column_cells nodes) panel_types)"]
      by (auto simp: project_graph_layout_def Let_def)
    then have "x = column_x t" by (auto simp: column_cells_def)
    then show ?thesis by (cases t) simp_all
  qed
  ultimately show ?thesis by (auto simp: panel_node_of_def xy(2) xy'(2))
qed

definition sample_nodes :: "rag_node list" where
  "sample_nodes = [\<lparr>rn_id = ''asset:P-101A'', rn_label = ''Pump'', rn_type = ''Asset'', rn_properties = []\<rparr>,
     \<lparr>rn_id = ''sop:1'', rn_label = ''Alignment'', rn_type = ''SOP'', rn_properties = []\<rparr>]"

theorem panel_positions_distinct_witness:
  "(pn_x (panel_node_of (project_graph_layout sample_nodes) (sample_nodes ! 0)),
    pn_y (panel_node_of (project_graph_layout sample_nodes) (sample_nodes ! 0))) \<noteq>
   (pn_x (panel_node_of (project_graph_layout sample_nodes) (sample_nodes ! 1)),
    pn_y (panel_node_of (project_graph_layout sample_nodes) (sample_nodes ! 1)))"
  using panel_positions_distinct [where nodes = sample_nodes and n = "sample_nodes ! 0" and n' = "sample_nodes ! 1"]
  by (simp add: sample_nodes_def Let_def)

text \<open>The highlighted nodes are the nodes that citations name, the highlighted edges those between two
  of them, and the identifiers of both lists are distinct.\<close>

theorem panel_highlights_exact:
  "let p = adapt_graphrag_payload r q; hl = {i. i \<noteq> [] \<and> Some i \<in> ci_source_node_id ` set (rr_citations r)}
   in set (py_highlighted_nodes p) = hl \<and> distinct (py_highlighted_nodes p) \<and> distinct (py_highlighted_edges p) \<and>
      map pg_highlighted (py_edges p) = map (\<lambda>e. re_source e \<in> hl \<and> re_target e \<in> hl) (rr_graph_edges r) \<and>
      set (py_highlighted_edges p) = edge_id ` {e \<in> set (rr_graph_edges r). re_source e \<in> hl \<and> re_target e \<in> hl}"
  by (simp add: adapt_graphrag_payload_def Let_def highlighted_nodes_exact highlighted_edges_exact
      edge_ends_in_def panel_edge_of_def comp_def)

text \<open>The cards keep the recommendations' order and identifiers, but priority and tier are lost: every
  card is MEDIUM and MONITOR.\<close>

theorem every_card_medium_monitor:
  assumes "adapt_recommendations_to_actions stamp r = Inr cards"
  shows "map ac_action_id cards = map rc_action_id (rs_recommendations r) \<and>
    list_all (\<lambda>c. ac_priority c = MEDIUM \<and> ac_severity_tier c = MONITOR) cards"
  using assms card_fields unfolding adapt_recommendations_to_actions_def
  by (intro map_res_fields [where f = "action_card_of stamp"]) blast+

end
