(* ===== verification/Payload_Formatters.thy ===== *)
theory Payload_Formatters
  imports Frontend_Adapters
begin

section \<open>Chart payloads, confidence badges and origins\<close>

text \<open>
  \<open>app/ai_service/integration/formatters/payload_formatters.py\<close> and \<open>confidence_badge.py\<close>, and
  \<open>integration/cors_headers.py\<close>. Logging, packet identifiers and time stamps are left out.
\<close>

subsection \<open>Series\<close>

definition metric_value :: "telemetry_frame \<Rightarrow> str \<Rightarrow> float64" where
  "metric_value f metric = dict_default (reading_map f) metric 0"

record line_series =
  ls_data_key :: str
  ls_name :: str
  ls_color :: str
  ls_data :: "(str \<times> float64) list"

definition format_time_series_points :: "(int \<Rightarrow> str) \<Rightarrow> telemetry_frame list \<Rightarrow> str \<Rightarrow> (str \<times> float64) list" where
  "format_time_series_points stamp history metric =
     map (\<lambda>f. (stamp (tf_timestamp f), metric_value f metric)) history"

definition format_recharts_line_series ::
  "(int \<Rightarrow> str) \<Rightarrow> telemetry_frame list \<Rightarrow> str \<Rightarrow> str option \<Rightarrow> str \<Rightarrow> line_series" where
  "format_recharts_line_series stamp history metric display_name color_token =
     \<lparr>ls_data_key = metric, ls_name = (case or_str display_name None of Some n \<Rightarrow> n | None \<Rightarrow> metric),
      ls_color = color_token, ls_data = map (\<lambda>f. (stamp (tf_timestamp f), metric_value f metric)) history\<rparr>"

definition metric_display_names :: "(str \<times> str) list" where
  "metric_display_names = [(''rpm'', ''Rotational Speed''), (''vibration_rms'', ''Vibration''),
     (''bearing_temp'', ''Casing Temp''), (''pressure'', ''Discharge Pressure''), (''flow_rate'', ''Flow Rate''),
     (''load_kw'', ''Electrical Load'')]"

definition ceilings :: "(str \<times> float64) list" where
  "ceilings = [(''rpm'', F 6000), (''vibration_rms'', F 12), (''bearing_temp'', F 120), (''pressure'', F 80),
     (''flow_rate'', F 5000), (''load_kw'', F 1500)]"

record radar_point =
  rp_metric :: str
  rp_raw :: float64
  rp_normalised :: float64

definition radar_point_of :: "telemetry_frame \<Rightarrow> str \<Rightarrow> radar_point" where
  "radar_point_of f metric =
     (let raw = metric_value f metric; ceiling = dict_default ceilings metric 1
      in \<lparr>rp_metric = dict_default metric_display_names metric metric, rp_raw = raw,
          rp_normalised = py_round (max 0 (min 1 (raw / ceiling))) 4\<rparr>)"

definition format_recharts_radar_series :: "telemetry_frame \<Rightarrow> str list \<Rightarrow> radar_point list" where
  "format_recharts_radar_series f metrics = map (radar_point_of f) metrics"

subsection \<open>Contributions\<close>

type_synonym feature = "(str \<times> pyval) list"

definition delta_of :: "feature \<Rightarrow> float64 res" where
  "delta_of f = to_float (py_or (dict_default f ''shapValue'' (VFloat 0)) (VFloat 0))"

text \<open>The features of largest contribution, with it; a contribution that is no number raises.\<close>

definition top_features :: "feature list \<Rightarrow> nat \<Rightarrow> (feature \<times> float64) list res" where
  "top_features features max_steps =
     bind_res (map_res (\<lambda>f. bind_res (delta_of f) (\<lambda>d. Inr (f, d))) features) (\<lambda>fds.
     Inr (take max_steps (sorted_desc (\<lambda>fd. fabs (snd fd)) fds)))"

definition text_field :: "feature \<Rightarrow> str \<Rightarrow> str \<Rightarrow> str" where
  "text_field f k dflt = py_str (dict_default f k (VStr dflt))"

record waterfall_bar =
  wb_feature :: str
  wb_value :: str
  wb_delta :: float64
  wb_start :: float64
  wb_end :: float64
  wb_positive :: bool

fun waterfall_bars :: "float64 \<Rightarrow> (feature \<times> float64) list \<Rightarrow> waterfall_bar list" where
  "waterfall_bars cumulative [] = []"
| "waterfall_bars cumulative ((f, delta) # fds) =
     \<lparr>wb_feature = text_field f ''name'' ''feature'', wb_value = text_field f ''value'' [],
      wb_delta = py_round delta 4, wb_start = py_round cumulative 4, wb_end = py_round (cumulative + delta) 4,
      wb_positive = (0 \<le> delta)\<rparr> # waterfall_bars (cumulative + delta) fds"

record waterfall =
  wf_base_value :: float64
  wf_final_value :: float64
  wf_bars :: "waterfall_bar list"

definition format_shap_waterfall :: "feature list \<Rightarrow> float64 \<Rightarrow> nat \<Rightarrow> waterfall res" where
  "format_shap_waterfall features base_value max_steps =
     bind_res (top_features features max_steps) (\<lambda>fds.
     Inr \<lparr>wf_base_value = py_round base_value 4, wf_final_value = py_round (foldl (+) base_value (map snd fds)) 4,
       wf_bars = waterfall_bars base_value fds\<rparr>)"

record force_arrow =
  fo_feature :: str
  fo_value :: str
  fo_weight :: float64
  fo_positive :: bool

record force_plot =
  fo_base_value :: float64
  fo_prediction_value :: float64
  fo_positives :: "force_arrow list"
  fo_negatives :: "force_arrow list"

definition force_arrow_of :: "feature \<times> float64 \<Rightarrow> force_arrow" where
  "force_arrow_of fd = (case fd of (f, delta) \<Rightarrow>
     \<lparr>fo_feature = text_field f ''name'' ''feature'', fo_value = text_field f ''value'' [],
      fo_weight = fabs (py_round delta 4), fo_positive = (0 \<le> delta)\<rparr>)"

definition format_shap_force_plot :: "feature list \<Rightarrow> float64 \<Rightarrow> float64 \<Rightarrow> nat \<Rightarrow> force_plot res" where
  "format_shap_force_plot features base_value prediction_value max_steps =
     bind_res (top_features features max_steps) (\<lambda>fds.
     Inr \<lparr>fo_base_value = py_round base_value 4, fo_prediction_value = py_round prediction_value 4,
       fo_positives = map force_arrow_of (filter (\<lambda>fd. 0 \<le> snd fd) fds),
       fo_negatives = map force_arrow_of (filter (\<lambda>fd. \<not> 0 \<le> snd fd) fds)\<rparr>)"

subsection \<open>The network view\<close>

record vis_node =
  vn_id :: str
  vn_label :: str
  vn_x :: pyval
  vn_y :: pyval
  vn_title :: str
  vn_color :: str
  vn_border_width :: nat
  vn_shape :: str

definition color_map :: "(str \<times> str) list" where
  "color_map = [(''asset'', ''#22c55e''), (''component'', ''#3b82f6''), (''anomaly'', ''#ef4444''),
     (''procedure'', ''#f59e0b''), (''record'', ''#a855f7'')]"

definition vis_node_of :: "str list \<Rightarrow> feature \<Rightarrow> vis_node" where
  "vis_node_of highlighted n =
     (let nid = text_field n ''id'' []; ntype = py_lower (text_field n ''type'' ''component'')
      in \<lparr>vn_id = nid, vn_label = text_field n ''label'' nid, vn_x = dict_default n ''x'' VNone,
          vn_y = dict_default n ''y'' VNone, vn_title = text_field n ''details'' [],
          vn_color = dict_default color_map ntype ''#3b82f6'',
          vn_border_width = (if nid \<in> set highlighted then 3 else 1),
          vn_shape = (if ntype \<in> {''procedure'', ''record''} then ''box'' else ''ellipse'')\<rparr>)"

record vis_edge =
  ve_id :: str
  ve_from :: str
  ve_to :: str
  ve_label :: str
  ve_color :: str
  ve_width :: nat

definition vis_edge_of :: "str list \<Rightarrow> nat \<times> feature \<Rightarrow> vis_edge" where
  "vis_edge_of highlighted ie = (case ie of (idx, e) \<Rightarrow>
     let eid = py_str (py_or (dict_default e ''id'' VNone)
           (VStr (''edge-'' @ str_nat idx @ ''-'' @ text_field e ''source'' [] @ ''-'' @ text_field e ''target'' [])))
     in \<lparr>ve_id = eid, ve_from = text_field e ''source'' [], ve_to = text_field e ''target'' [],
         ve_label = text_field e ''label'' [],
         ve_color = (if eid \<in> set highlighted then ''#fbbf24'' else ''#94a3b8''),
         ve_width = (if eid \<in> set highlighted \<or> truthy (dict_default e ''highlighted'' VNone) then 3 else 1)\<rparr>)"

definition format_vis_network_elements ::
  "feature list \<Rightarrow> feature list \<Rightarrow> str list \<Rightarrow> str list \<Rightarrow> vis_node list \<times> vis_edge list" where
  "format_vis_network_elements nodes edges highlight_node_ids highlight_edge_ids =
     (map (vis_node_of highlight_node_ids) nodes, map (vis_edge_of highlight_edge_ids) (enumerate 0 edges))"

subsection \<open>Badges\<close>

datatype badge = VERY_LOW | BADGE_LOW | BADGE_MEDIUM | BADGE_HIGH | VERY_HIGH

definition thresholds :: "(float64 \<times> badge) list" where
  "thresholds = [(F 0.95, VERY_HIGH), (F 0.8, BADGE_HIGH), (F 0.6, BADGE_MEDIUM), (F 0.3, BADGE_LOW), (0, VERY_LOW)]"

fun first_reached :: "float64 \<Rightarrow> (float64 \<times> badge) list \<Rightarrow> badge" where
  "first_reached c [] = VERY_LOW"
| "first_reached c ((t, b) # ts) = (if t \<le> c then b else first_reached c ts)"

definition confidence_to_badge :: "float64 \<Rightarrow> badge" where
  "confidence_to_badge confidence = first_reached (max 0 (min 1 confidence)) thresholds"

fun badge_to_color :: "badge \<Rightarrow> str \<times> str \<times> str" where
  "badge_to_color VERY_HIGH = (''#16a34a'', ''text-green-700'', ''bg-green-100'')"
| "badge_to_color BADGE_HIGH = (''#22c55e'', ''text-green-600'', ''bg-green-50'')"
| "badge_to_color BADGE_MEDIUM = (''#f59e0b'', ''text-amber-600'', ''bg-amber-50'')"
| "badge_to_color BADGE_LOW = (''#f97316'', ''text-orange-600'', ''bg-orange-50'')"
| "badge_to_color VERY_LOW = (''#ef4444'', ''text-red-600'', ''bg-red-50'')"

definition confidence_to_color :: "float64 \<Rightarrow> str \<times> str \<times> str" where
  "confidence_to_color confidence = badge_to_color (confidence_to_badge confidence)"

definition confidence_to_warning_level :: "float64 \<Rightarrow> str" where
  "confidence_to_warning_level confidence =
     (let b = confidence_to_badge confidence
      in if b \<in> {VERY_HIGH, BADGE_HIGH} then ''industrial-status-ok''
         else if b = BADGE_MEDIUM then ''industrial-status-warning'' else ''industrial-status-critical'')"

subsection \<open>Origins\<close>

definition default_frontend_origins :: "str list" where
  "default_frontend_origins = [''http://localhost:3000'', ''http://127.0.0.1:3000'', ''https://app.iob.enterprise.internal'']"

definition ui_allowed_methods :: "str list" where
  "ui_allowed_methods = [''GET'', ''POST'', ''OPTIONS'']"

definition ui_allowed_headers :: "str list" where
  "ui_allowed_headers = [''accept'', ''accept-language'', ''authorization'', ''content-type'', ''x-request-id'',
     ''x-correlation-id'', ''x-feature-flags'']"

definition ui_exposed_headers :: "str list" where
  "ui_exposed_headers = [''content-type'', ''x-request-id'', ''x-correlation-id'', ''x-ai-module'', ''x-ai-version'']"

definition build_ui_preflight_headers :: "str option \<Rightarrow> (str \<times> str) list" where
  "build_ui_preflight_headers origin =
     [(''Access-Control-Allow-Methods'', join '', '' ui_allowed_methods),
      (''Access-Control-Allow-Headers'', join '', '' ui_allowed_headers),
      (''Access-Control-Expose-Headers'', join '', '' ui_exposed_headers),
      (''Access-Control-Max-Age'', ''600''), (''Vary'', ''Origin'')]
     @ (if truthy_str origin then [(''Access-Control-Allow-Origin'', the origin)] else [])"

definition stripped_origins :: "str list \<Rightarrow> str list" where
  "stripped_origins origins = map py_strip (filter (\<lambda>o1. py_strip o1 \<noteq> []) origins)"

definition verify_cors_configuration :: "str list \<Rightarrow> str list option \<Rightarrow> bool res" where
  "verify_cors_configuration configured_origins required_origins =
     (let required = (case required_origins of Some (r # rs) \<Rightarrow> r # rs | _ \<Rightarrow> default_frontend_origins);
          missing = filter (\<lambda>o1. o1 \<notin> set (stripped_origins configured_origins)) required
      in if missing \<noteq> []
         then Inl (RuntimeErr (''CORS allow-list is missing Next.js frontend origins: '' @ py_repr (VList (map VStr missing)) @
           ''. Add them to the CORS_ALLOW_ORIGINS env var (comma-separated) on the FastAPI service and re-deploy. '' @
           ''See docs/AI_CORS_INTEGRATION.md for the full allow-list.''))
         else Inr True)"

definition safe_cors_origin :: "str option \<Rightarrow> str list \<Rightarrow> str option" where
  "safe_cors_origin request_origin allowed =
     (if truthy_str request_origin \<and> the request_origin \<in> set (stripped_origins allowed) then request_origin else None)"

subsection \<open>Charts\<close>

lemma radar_normalised: "0 \<le> rp_normalised (radar_point_of f m) \<and> rp_normalised (radar_point_of f m) \<le> 1"
  by (simp add: radar_point_of_def Let_def py_round_nonneg py_round_le_1)

lemma waterfall_bars_chain:
  "map wb_start (waterfall_bars c fds) @ [py_round (foldl (+) c (map snd fds)) 4] = py_round c 4 # map wb_end (waterfall_bars c fds)"
  by (induction c fds rule: waterfall_bars.induct) simp_all

lemma length_waterfall_bars [simp]: "length (waterfall_bars c fds) = length fds"
  by (induction c fds rule: waterfall_bars.induct) simp_all

lemma top_features_length: "top_features fs n = Inr fds \<Longrightarrow> length fds = min n (length fs)"
  by (auto simp: top_features_def bind_res_Inr min.commute dest!: map_res_length)

lemma top_features_sorted: "top_features fs n = Inr fds \<Longrightarrow> sorted_wrt (\<lambda>a b. fabs (snd b) \<le> fabs (snd a)) fds"
  using sorted_desc_sorted by (fastforce simp: top_features_def bind_res_Inr intro: sorted_wrt_take)

text \<open>The bars of a waterfall hang together: the first starts at the base value, each one starts where
  the one before ends, and the last ends at the final value; there are at most as many as asked for.\<close>

theorem waterfall_connected:
  assumes "format_shap_waterfall fs base n = Inr w"
  shows "map wb_start (wf_bars w) @ [wf_final_value w] = wf_base_value w # map wb_end (wf_bars w) \<and>
    length (wf_bars w) = min n (length fs)"
  using assms by (auto simp: format_shap_waterfall_def bind_res_Inr waterfall_bars_chain dest: top_features_length)

text \<open>A force plot shows each of the top features once, on the side of its sign.\<close>

theorem force_plot_partition:
  assumes "format_shap_force_plot fs base pred_value n = Inr p"
  shows "list_all fo_positive (fo_positives p) \<and> list_all (\<lambda>a. \<not> fo_positive a) (fo_negatives p) \<and>
    length (fo_positives p) + length (fo_negatives p) = min n (length fs)"
proof -
  obtain fds where fds: "top_features fs n = Inr fds"
    and p: "fo_positives p = map force_arrow_of (filter (\<lambda>fd. 0 \<le> snd fd) fds)"
      "fo_negatives p = map force_arrow_of (filter (\<lambda>fd. \<not> 0 \<le> snd fd) fds)"
    using assms by (auto simp: format_shap_force_plot_def bind_res_Inr)
  have "length (filter (\<lambda>fd. 0 \<le> snd fd) fds) + length (filter (\<lambda>fd. \<not> 0 \<le> snd fd) fds) = length fds"
    by (rule sum_length_filter_compl)
  then show ?thesis using top_features_length [OF fds]
    by (auto simp: p list_all_iff force_arrow_of_def)
qed

fun badge_rank :: "badge \<Rightarrow> nat" where
  "badge_rank VERY_LOW = 0"
| "badge_rank BADGE_LOW = 1"
| "badge_rank BADGE_MEDIUM = 2"
| "badge_rank BADGE_HIGH = 3"
| "badge_rank VERY_HIGH = 4"

lemma first_reached_bound: "list_all (\<lambda>tb. badge_rank (snd tb) \<le> r) ts \<Longrightarrow> badge_rank (first_reached c ts) \<le> r"
  by (induction c ts rule: first_reached.induct) auto

lemma first_reached_mono:
  "sorted_wrt (\<lambda>x y. badge_rank (snd y) \<le> badge_rank (snd x)) ts \<Longrightarrow> c \<le> c' \<Longrightarrow>
   badge_rank (first_reached c ts) \<le> badge_rank (first_reached c' ts)"
proof (induction c ts rule: first_reached.induct)
  case (2 c t b ts)
  then show ?case using first_reached_bound [of "badge_rank b" ts c] by (auto simp: list_all_iff)
qed simp

lemma badge_monotone: "c \<le> c' \<Longrightarrow> badge_rank (confidence_to_badge c) \<le> badge_rank (confidence_to_badge c')"
proof -
  assume "c \<le> c'"
  then have "max 0 (min 1 c) \<le> max 0 (min 1 c')" by (intro max.mono min.mono order_refl)
  then show ?thesis unfolding confidence_to_badge_def
    by (rule first_reached_mono [rotated]) (simp add: thresholds_def)
qed

subsection \<open>Origins\<close>

text \<open>An origin is granted only if the allow-list has it, and when the configuration passes the check,
  every documented front-end origin is granted.\<close>

theorem cors_grants_exactly_allowed:
  "(case safe_cors_origin request_origin configured of
      None \<Rightarrow> True | Some x \<Rightarrow> request_origin = Some x \<and> x \<in> py_strip ` set configured) \<and>
   (case verify_cors_configuration configured None of
      Inl e \<Rightarrow> list_ex (\<lambda>x. safe_cors_origin (Some x) configured = None) default_frontend_origins
    | Inr b \<Rightarrow> list_all (\<lambda>x. safe_cors_origin (Some x) configured = Some x) default_frontend_origins)"
proof -
  have "x \<noteq> []" if "x \<in> set default_frontend_origins" for x using that by (auto simp: default_frontend_origins_def)
  then have "(case verify_cors_configuration configured None of
      Inl e \<Rightarrow> list_ex (\<lambda>x. safe_cors_origin (Some x) configured = None) default_frontend_origins
    | Inr b \<Rightarrow> list_all (\<lambda>x. safe_cors_origin (Some x) configured = Some x) default_frontend_origins)"
    by (auto simp: verify_cors_configuration_def safe_cors_origin_def Let_def list_ex_iff list_all_iff filter_empty_conv)
  then show ?thesis by (auto simp: safe_cors_origin_def stripped_origins_def elim: truthy_strE)
qed

end
