(* ===== verification/Chat_Stream.thy ===== *)
theory Chat_Stream
  imports Decision_Service Graphrag_Service "HOL-Library.Sublist"
begin

section \<open>The diagnostic chat and its event stream\<close>

text \<open>
  \<open>app/ai_service/agent_runtime.py\<close> (one chat turn), \<open>integration/adapters/chat_event_adapter.py\<close>
  with the records of \<open>chat_event_schemas.py\<close> (its stream of events) and the two chat handlers of
  \<open>integration/ui_router.py\<close>. The engines are parameters; random identifiers are arguments and time
  stamps are left out. A generator that raises is the list of events it has yielded with the
  exception.
\<close>

subsection \<open>One turn\<close>

datatype agent_role = ROLE_USER | ROLE_ASSISTANT | ROLE_SYSTEM | ROLE_TOOL

datatype agent_state_name = RECEIVED | TRIAGED | GRAPHRAG_RETRIEVED | DECISION_EVALUATED | STATE_FINAL | STATE_ERROR

fun agent_state_value :: "agent_state_name \<Rightarrow> str" where
  "agent_state_value RECEIVED = ''received''"
| "agent_state_value TRIAGED = ''triaged''"
| "agent_state_value GRAPHRAG_RETRIEVED = ''graphrag_retrieved''"
| "agent_state_value DECISION_EVALUATED = ''decision_evaluated''"
| "agent_state_value STATE_FINAL = ''final''"
| "agent_state_value STATE_ERROR = ''error''"

fun agent_state_member :: "agent_state_name \<Rightarrow> str" where
  "agent_state_member RECEIVED = ''RECEIVED''"
| "agent_state_member TRIAGED = ''TRIAGED''"
| "agent_state_member GRAPHRAG_RETRIEVED = ''GRAPHRAG_RETRIEVED''"
| "agent_state_member DECISION_EVALUATED = ''DECISION_EVALUATED''"
| "agent_state_member STATE_FINAL = ''FINAL''"
| "agent_state_member STATE_ERROR = ''ERROR''"

text \<open>The state field holds a member of the enumeration; other callers of the adapter pass text.
  \<open>str\<close> of a member is its qualified name, not its value.\<close>

datatype state_tag = Member agent_state_name | Plain str

fun str_state :: "state_tag \<Rightarrow> str" where
  "str_state (Member s) = ''AgentStateName.'' @ agent_state_member s"
| "str_state (Plain t) = t"

record turn_state =
  ts_state :: state_tag
  ts_message :: str
  ts_payload :: "(str \<times> pyval) list"

record chat_request =
  cr_session_id :: "str option"
  cr_asset_id :: "str option"
  cr_messages :: "(agent_role \<times> str) list"
  cr_include_graph_context :: bool
  cr_include_recommendations :: bool

record chat_response =
  cp_session_id :: str
  cp_asset_id :: "str option"
  cp_final_answer :: str
  cp_states :: "turn_state list"

record agent_engines =
  ae_graphrag :: "(rag_request \<Rightarrow> rag_response res) option"
  ae_decision :: "(recommendation_request \<Rightarrow> recommendation_response res) option"

definition last_user_text :: "(agent_role \<times> str) list \<Rightarrow> str res" where
  "last_user_text messages =
     (case filter (\<lambda>m. fst m = ROLE_USER) (rev messages) of
        m # ms \<Rightarrow> Inr (snd m)
      | [] \<Rightarrow> if messages = [] then Inl (IndexErr ''list index out of range'') else Inr (snd (last messages)))"

definition agent_state_of :: "agent_state_name \<Rightarrow> str \<Rightarrow> (str \<times> pyval) list \<Rightarrow> turn_state" where
  "agent_state_of s m p = \<lparr>ts_state = Member s, ts_message = m, ts_payload = p\<rparr>"

definition degraded_payload :: "py_error \<Rightarrow> (str \<times> pyval) list" where
  "degraded_payload e = [(''degraded'', VBool True), (''reason'', VStr (error_type e))]"

definition graphrag_state :: "rag_response \<Rightarrow> turn_state" where
  "graphrag_state r = agent_state_of GRAPHRAG_RETRIEVED ''Retrieved fused vector/graph context.''
     [(''answer_preview'', VStr (take 280 (case rr_answer r of None \<Rightarrow> [] | Some a \<Rightarrow> a))),
      (''vector_hits'', VInt (int (rr_vector_hits r))),
      (''graph_nodes'', VInt (int (length (rr_graph_nodes r)))),
      (''citations'', VInt (int (length (rr_citations r))))]"

text \<open>The tool steps: the states they append and what they leave of the answer.\<close>

definition chat_graphrag :: "agent_engines \<Rightarrow> chat_request \<Rightarrow> str \<Rightarrow> turn_state list \<times> str option" where
  "chat_graphrag eng rq prompt =
     (case ae_graphrag eng of
        None \<Rightarrow> ([], None)
      | Some query \<Rightarrow>
          if \<not> cr_include_graph_context rq then ([], None)
          else (case bind_res (mk_rag_request \<lparr>rq_query_text = prompt, rq_top_k = 5, rq_min_score = F 0.55,
                   rq_max_graph_hops = 2, rq_asset_id = cr_asset_id rq\<rparr>) query of
              Inl e \<Rightarrow> ([agent_state_of GRAPHRAG_RETRIEVED
                  ''GraphRAG tool degraded; continuing with diagnostic state.'' (degraded_payload e)], None)
            | Inr r \<Rightarrow> ([graphrag_state r], rr_answer r)))"

definition decision_state :: "recommendation_response \<Rightarrow> turn_state" where
  "decision_state r = agent_state_of DECISION_EVALUATED ''Evaluated risk-ranked maintenance actions.''
     [(''recommendations'', VInt (int (length (rs_recommendations r)))),
      (''overall_risk_score'', VFloat (rs_overall_risk_score r))]"

definition chat_decision :: "agent_engines \<Rightarrow> chat_request \<Rightarrow> turn_state list \<times> recommendation list" where
  "chat_decision eng rq =
     (case ae_decision eng of
        None \<Rightarrow> ([], [])
      | Some decide \<Rightarrow>
          if \<not> cr_include_recommendations rq \<or> \<not> truthy_str (cr_asset_id rq) then ([], [])
          else (case bind_res (mk_recommendation_request (the (cr_asset_id rq)) None 30 3) decide of
              Inl e \<Rightarrow> ([agent_state_of DECISION_EVALUATED
                  ''Decision engine degraded; returning available diagnostic context.'' (degraded_payload e)], [])
            | Inr r \<Rightarrow> ([decision_state r], rs_recommendations r)))"

definition triage_only_answer :: str where
  "triage_only_answer =
     ''Diagnostic triage completed. Provide recent telemetry or an asset id to enrich the '' @
     ''answer with GraphRAG context and risk-ranked recommendations.''"

definition final_text :: "str option \<Rightarrow> recommendation list \<Rightarrow> str" where
  "final_text answer recs =
     (if truthy_str answer then the answer
      else case recs of
        rec # _ \<Rightarrow> ''Recommended next action: '' @ rc_description rec
      | [] \<Rightarrow> triage_only_answer)"

definition run_agent_chat :: "str \<Rightarrow> agent_engines \<Rightarrow> chat_request \<Rightarrow> chat_response res" where
  "run_agent_chat uuid eng rq =
     bind_res (last_user_text (cr_messages rq)) (\<lambda>prompt.
     let session_id = (case or_str (cr_session_id rq) None of Some s \<Rightarrow> s | None \<Rightarrow> ''agent-'' @ uuid);
         opening = [agent_state_of RECEIVED ''Accepted diagnostic chat turn.''
                      [(''messages'', VInt (int (length (cr_messages rq))))],
                    agent_state_of TRIAGED ''Identified asset and selected GraphRAG/decision tools.''
                      [(''asset_id'', opt_str_val (cr_asset_id rq))]];
         g = chat_graphrag eng rq prompt;
         d = chat_decision eng rq;
         final = final_text (snd g) (snd d)
     in Inr \<lparr>cp_session_id = session_id, cp_asset_id = cr_asset_id rq, cp_final_answer = final,
          cp_states = opening @ fst g @ fst d @
            [agent_state_of STATE_FINAL ''Diagnostic turn completed.''
               [(''response_length'', VInt (int (length final)))]]\<rparr>)"

subsection \<open>Events\<close>

datatype stream_event_type = EV_STATE | EV_TOOL | EV_CITATION | EV_SUBGRAPH | EV_FINAL | EV_ERROR | EV_HEARTBEAT

record citation_ref =
  cf_citation_id :: str
  cf_claim_span :: str
  cf_source_document :: "str option"
  cf_source_type :: "str option"
  cf_confidence_score :: float64
  cf_page_number :: "int option"
  cf_url :: "str option"

record tool_event =
  tv_tool_name :: str
  tv_duration_ms :: float64
  tv_status :: str
  tv_summary :: str
  tv_result_count :: int

record subgraph_packet =
  sp_operation :: str
  sp_nodes :: "pyval list"
  sp_edges :: "pyval list"
  sp_highlight_node_ids :: "str list"
  sp_narrative :: str

record log_entry =
  lg_level :: str
  lg_message :: str
  lg_context :: "(str \<times> pyval) list"

record stream_event =
  ev_sequence :: int
  ev_session_id :: str
  ev_asset_id :: "str option"
  ev_type :: stream_event_type
  ev_state :: "str option"
  ev_message :: str
  ev_payload :: "(str \<times> pyval) list"
  ev_tools :: "tool_event list"
  ev_citations :: "citation_ref list"
  ev_subgraph :: "subgraph_packet option"
  ev_logs :: "log_entry list"
  ev_is_final :: bool
  ev_is_error :: bool

definition state_to_event_type :: "(str \<times> stream_event_type) list" where
  "state_to_event_type = [(''received'', EV_STATE), (''triaged'', EV_STATE), (''graphrag_retrieved'', EV_STATE),
     (''decision_evaluated'', EV_STATE), (''final'', EV_FINAL), (''error'', EV_ERROR)]"

text \<open>\<open>payload.get(k)\<close>, and \<open>payload.get(k) or payload.get(k')\<close>.\<close>

definition got :: "(str \<times> pyval) list \<Rightarrow> str \<Rightarrow> pyval" where
  "got d k = dict_default d k VNone"

definition either :: "(str \<times> pyval) list \<Rightarrow> str \<Rightarrow> str \<Rightarrow> pyval" where
  "either d k k' = py_or (got d k) (got d k')"

text \<open>An optional integer field of pydantic.\<close>

definition citation_data :: "nat \<Rightarrow> pyval \<Rightarrow> (str \<times> pyval) list" where
  "citation_data idx c = (case c of
       VDict d \<Rightarrow> d
     | _ \<Rightarrow> [(''citationId'', VStr (''cit-'' @ str_nat idx)), (''claimSpan'', VStr (py_str c))])"

definition citation_ref_of :: "str \<Rightarrow> nat \<times> pyval \<Rightarrow> citation_ref res" where
  "citation_ref_of uuid8 ic = (case ic of (idx, c) \<Rightarrow>
     let data = citation_data idx c in
     bind_res (to_float (py_or (either data ''confidence_score'' ''confidenceScore'') (VFloat 0))) (\<lambda>conf.
     bind_res (as_opt_str (either data ''source_document'' ''sourceDocument'')) (\<lambda>doc.
     bind_res (as_opt_str (either data ''source_type'' ''sourceType'')) (\<lambda>kind.
     bind_res (as_opt_int (either data ''page_number'' ''pageNumber'')) (\<lambda>page.
     bind_res (as_opt_str (got data ''url'')) (\<lambda>url.
     Inr \<lparr>cf_citation_id = py_str (py_or (either data ''citation_id'' ''citationId'') (VStr (''cit-'' @ uuid8))),
       cf_claim_span = py_str (py_or (either data ''claim_span'' ''claimSpan'') (VStr [])),
       cf_source_document = doc, cf_source_type = kind, cf_confidence_score = conf,
       cf_page_number = page, cf_url = url\<rparr>))))))"

definition extract_citations :: "str \<Rightarrow> (str \<times> pyval) list \<Rightarrow> citation_ref list res" where
  "extract_citations uuid8 payload =
     bind_res (iterate (py_or (either payload ''citations'' ''vector_citations'') (VList []))) (\<lambda>raw.
     map_res (citation_ref_of uuid8) (enumerate 0 raw))"

definition tool_by_state :: "(str \<times> str) list" where
  "tool_by_state = [(''graphrag_retrieved'', ''vector_search''), (''decision_evaluated'', ''decision_eval''),
     (''triaged'', ''graph_traversal'')]"

definition extract_tools :: "str \<Rightarrow> (str \<times> pyval) list \<Rightarrow> tool_event list res" where
  "extract_tools state_name payload =
     (case map_of tool_by_state state_name of
        None \<Rightarrow> Inr []
      | Some name \<Rightarrow>
          bind_res (to_float (py_or (either payload ''latency_ms'' ''latencyMs'') (VFloat 0))) (\<lambda>duration.
          let status = (if truthy (got payload ''degraded'') then ''degraded'' else ''succeeded'');
              summary = (if status = ''succeeded'' then name @ '' completed in '' @ fmt_fixed 1 duration @ '' ms''
                else name @ '' degraded ('' @ py_str (dict_default payload ''reason'' (VStr ''unknown'')) @ '')'')
          in bind_res (to_int (py_or (either payload ''vector_hits'' ''recommendations'') (VInt 0))) (\<lambda>count.
             Inr [\<lparr>tv_tool_name = name, tv_duration_ms = duration, tv_status = status, tv_summary = summary,
               tv_result_count = count\<rparr>])))"

fun is_dict :: "pyval \<Rightarrow> bool" where
  "is_dict (VDict d) = True"
| "is_dict v = False"

definition listed :: "pyval \<Rightarrow> pyval list" where
  "listed v = (case v of VList xs \<Rightarrow> xs | _ \<Rightarrow> [])"

definition highlight_id :: "pyval \<Rightarrow> str" where
  "highlight_id n = (case n of VDict d \<Rightarrow> py_str (got d ''id'') | _ \<Rightarrow> py_str n)"

definition extract_subgraph :: "str \<Rightarrow> (str \<times> pyval) list \<Rightarrow> subgraph_packet option res" where
  "extract_subgraph state_name payload =
     (if state_name \<noteq> ''graphrag_retrieved'' \<or> truthy (got payload ''degraded'') then Inr None
      else let nodes = py_or (either payload ''subgraph_nodes'' ''graph_nodes'') (VList []);
               edges = py_or (either payload ''subgraph_edges'' ''graph_edges'') (VList [])
           in require (list_all is_dict (listed nodes)) (ValidationError ''nodes'')
             (require (list_all is_dict (listed edges)) (ValidationError ''edges'')
               (Inr (Some \<lparr>sp_operation = (if truthy nodes then ''add_node'' else ''add_edge''),
                 sp_nodes = listed nodes, sp_edges = listed edges,
                 sp_highlight_node_ids = map highlight_id (listed nodes),
                 sp_narrative = ''Sub-graph context for the current diagnostic turn.''\<rparr>))))"

definition extract_logs :: "str \<Rightarrow> (str \<times> pyval) list \<Rightarrow> log_entry list" where
  "extract_logs state_name payload =
     [\<lparr>lg_level = (if state_name = ''error'' then ''error'' else ''info''),
       lg_message = py_str (py_or (got payload ''message'') (VStr state_name)),
       lg_context = [(''state'', VStr state_name)]\<rparr>]"

subsection \<open>The stream\<close>

definition plain_event :: "str \<Rightarrow> str option \<Rightarrow> int \<Rightarrow> stream_event_type \<Rightarrow> str option \<Rightarrow> str \<Rightarrow> bool \<Rightarrow> stream_event" where
  "plain_event session_id asset_id sequence ty state msg fin =
     \<lparr>ev_sequence = sequence, ev_session_id = session_id, ev_asset_id = asset_id, ev_type = ty, ev_state = state,
      ev_message = msg, ev_payload = [], ev_tools = [], ev_citations = [], ev_subgraph = None, ev_logs = [],
      ev_is_final = fin, ev_is_error = False\<rparr>"

definition heartbeat_event :: "str \<Rightarrow> str option \<Rightarrow> stream_event" where
  "heartbeat_event session_id asset_id =
     plain_event session_id asset_id 0 EV_HEARTBEAT None ''Agent runtime connected.'' False"

definition synthesised_final :: "str \<Rightarrow> str option \<Rightarrow> int \<Rightarrow> stream_event" where
  "synthesised_final session_id asset_id sequence =
     plain_event session_id asset_id sequence EV_FINAL (Some ''final'')
       ''Diagnostic turn completed (synthesised final event).'' True"

definition to_chat_event_block :: "str \<Rightarrow> str \<Rightarrow> str option \<Rightarrow> int \<Rightarrow> turn_state \<Rightarrow> stream_event res" where
  "to_chat_event_block uuid8 session_id asset_id sequence s =
     (let state_name = str_state (ts_state s); payload = ts_payload s in
      bind_res (extract_tools state_name payload) (\<lambda>tools.
      bind_res (extract_citations uuid8 payload) (\<lambda>cits.
      bind_res (extract_subgraph state_name payload) (\<lambda>sub.
      require (0 \<le> sequence) (ValidationError ''sequence'')
        (Inr \<lparr>ev_sequence = sequence, ev_session_id = session_id, ev_asset_id = asset_id,
          ev_type = dict_default state_to_event_type state_name EV_STATE, ev_state = Some state_name,
          ev_message = ts_message s, ev_payload = payload, ev_tools = tools, ev_citations = cits,
          ev_subgraph = sub, ev_logs = extract_logs state_name payload,
          ev_is_final = (state_name = ''final''), ev_is_error = (state_name = ''error'')\<rparr>)))))"

fun emit_blocks ::
  "str \<Rightarrow> str \<Rightarrow> str option \<Rightarrow> int \<Rightarrow> bool \<Rightarrow> turn_state list \<Rightarrow> stream_event list \<times> py_error option" where
  "emit_blocks uuid8 session_id asset_id idx saw_final [] =
     (if saw_final then ([], None) else ([synthesised_final session_id asset_id idx], None))"
| "emit_blocks uuid8 session_id asset_id idx saw_final (s # ss) =
     (case to_chat_event_block uuid8 session_id asset_id idx s of
        Inl e \<Rightarrow> ([], Some e)
      | Inr block \<Rightarrow>
          (case emit_blocks uuid8 session_id asset_id (idx + 1) (saw_final \<or> ev_is_final block) ss of
             (events, e) \<Rightarrow> (block # events, e)))"

definition to_chat_event_stream ::
  "str \<Rightarrow> str \<Rightarrow> str option \<Rightarrow> turn_state list \<Rightarrow> stream_event list \<times> py_error option" where
  "to_chat_event_stream uuid8 session_id asset_id states =
     (case emit_blocks uuid8 session_id asset_id 1 False states of
        (events, e) \<Rightarrow> (heartbeat_event session_id asset_id # events, e))"

subsection \<open>The chat handlers\<close>

record ui_chat_request =
  uc_session_id :: "str option"
  uc_asset_id :: "str option"
  uc_messages :: "(str \<times> str) list"
  uc_include_graph_context :: bool
  uc_include_recommendations :: bool

definition agent_role_names :: "(str \<times> agent_role) list" where
  "agent_role_names = [(''user'', ROLE_USER), (''assistant'', ROLE_ASSISTANT), (''system'', ROLE_SYSTEM), (''tool'', ROLE_TOOL)]"

definition agent_role_of :: "str \<Rightarrow> agent_role res" where
  "agent_role_of r = (case map_of agent_role_names r of
       Some role \<Rightarrow> Inr role | None \<Rightarrow> Inl (ValueErr (repr_str r @ '' is not a valid AgentRole'')))"

definition chat_messages :: "(str \<times> str) list \<Rightarrow> (agent_role \<times> str) list res" where
  "chat_messages ms = map_res (\<lambda>m. bind_res (agent_role_of (py_lower (fst m))) (\<lambda>r. Inr (r, snd m)))
     (filter (\<lambda>m. py_strip (snd m) \<noteq> []) ms)"

definition no_engines :: agent_engines where
  "no_engines = \<lparr>ae_graphrag = None, ae_decision = None\<rparr>"

definition session_or :: "str \<Rightarrow> str option \<Rightarrow> str" where
  "session_or uuid s = (case or_str s None of Some t \<Rightarrow> t | None \<Rightarrow> uuid)"

text \<open>One line of the response: the event and the fields the handler adds.\<close>

record stream_line =
  sl_event :: stream_event
  sl_seq :: nat
  sl_type :: str
  sl_metadata :: "(str \<times> pyval) list option"
  sl_content :: "str option"

definition label_line :: "nat \<times> stream_event \<Rightarrow> stream_line" where
  "label_line ne = (case ne of (n, e) \<Rightarrow>
     if ev_type e = EV_HEARTBEAT
     then \<lparr>sl_event = e, sl_seq = n, sl_type = ''ping'', sl_metadata = None, sl_content = None\<rparr>
     else if n = 1 \<or> n = 2
     then \<lparr>sl_event = e, sl_seq = n, sl_type = ''start'', sl_metadata = None, sl_content = None\<rparr>
     else if ev_is_final e \<or> ev_type e = EV_FINAL
     then \<lparr>sl_event = e, sl_seq = n, sl_type = ''done'', sl_metadata = Some (ev_payload e), sl_content = None\<rparr>
     else \<lparr>sl_event = e, sl_seq = n, sl_type = ''delta'', sl_metadata = None, sl_content = Some (ev_message e)\<rparr>)"

datatype stream_reply = StreamLines "stream_line list" "py_error option" | StreamRefused str

definition agent_chat_stream :: "str \<Rightarrow> str \<Rightarrow> ui_chat_request \<Rightarrow> stream_reply" where
  "agent_chat_stream uuid uuid8 body =
     (case bind_res (chat_messages (uc_messages body)) (\<lambda>messages.
        run_agent_chat uuid no_engines
          \<lparr>cr_session_id = Some (session_or uuid (uc_session_id body)), cr_asset_id = uc_asset_id body,
           cr_messages = messages, cr_include_graph_context = True, cr_include_recommendations = True\<rparr>) of
        Inl e \<Rightarrow> StreamRefused (err_text e)
      | Inr response \<Rightarrow>
          (case to_chat_event_stream uuid8 (cp_session_id response) (cp_asset_id response) (cp_states response) of
             (events, e) \<Rightarrow> StreamLines (map label_line (enumerate 1 events)) e))"

record ui_chat_message =
  um_message_id :: str
  um_sender :: str
  um_payload :: str

definition to_ui_chat_message :: "chat_response \<Rightarrow> str \<Rightarrow> str \<Rightarrow> ui_chat_message" where
  "to_ui_chat_message response sender fallback_message =
     \<lparr>um_message_id = ''msg-'' @ cp_session_id response, um_sender = sender,
      um_payload = (if cp_final_answer response \<noteq> [] then cp_final_answer response else fallback_message)\<rparr>"

text \<open>The envelope of a UI response: data, or an error with its code and message.\<close>

datatype 'a ui_reply = UiData 'a | UiError str str

record ui_chat_reply =
  uy_message :: ui_chat_message
  uy_session_id :: str
  uy_reply :: str
  uy_states :: "turn_state list"

definition agent_chat :: "str \<Rightarrow> ui_chat_request \<Rightarrow> ui_chat_reply ui_reply" where
  "agent_chat uuid body =
     (if uc_messages body = [] then UiError ''INVALID_REQUEST'' ''messages must not be empty''
      else if list_all (\<lambda>m. py_strip (snd m) = []) (uc_messages body)
      then UiError ''INVALID_REQUEST'' ''messages content blank''
      else (let session_id = session_or uuid (uc_session_id body) in
        case bind_res (chat_messages (uc_messages body)) (\<lambda>messages.
          run_agent_chat uuid no_engines
            \<lparr>cr_session_id = Some session_id, cr_asset_id = uc_asset_id body, cr_messages = messages,
             cr_include_graph_context = uc_include_graph_context body,
             cr_include_recommendations = uc_include_recommendations body\<rparr>) of
          Inl e \<Rightarrow> UiError ''AGENT_FAILED'' (err_text e)
        | Inr response \<Rightarrow>
            UiData \<lparr>uy_message = (to_ui_chat_message response ''AI_ENGINE'' []) \<lparr>um_payload := cp_final_answer response\<rparr>,
              uy_session_id = session_id, uy_reply = cp_final_answer response, uy_states = cp_states response\<rparr>))"

subsection \<open>The turn\<close>

lemma final_text_nonempty: "final_text answer recs \<noteq> []"
  by (auto simp: final_text_def triage_only_answer_def split: list.splits elim: truthy_strE)

lemma last_user_text_Inl: "last_user_text ms = Inl e \<longleftrightarrow> ms = [] \<and> e = IndexErr ''list index out of range''"
  by (auto simp: last_user_text_def split: list.splits)

lemma chat_graphrag_states:
  "map ts_state (fst (chat_graphrag eng rq prompt)) = [] \<or>
   map ts_state (fst (chat_graphrag eng rq prompt)) = [Member GRAPHRAG_RETRIEVED]"
  by (auto simp: chat_graphrag_def agent_state_of_def graphrag_state_def split: option.splits sum.splits)

lemma chat_decision_states:
  "map ts_state (fst (chat_decision eng rq)) = [] \<or>
   map ts_state (fst (chat_decision eng rq)) = [Member DECISION_EVALUATED]"
  by (auto simp: chat_decision_def agent_state_of_def decision_state_def split: option.splits sum.splits)

text \<open>The states of a turn, in the order of the workflow.\<close>

definition turn_ok :: "chat_response \<Rightarrow> bool" where
  "turn_ok r \<longleftrightarrow>
     cp_final_answer r \<noteq> [] \<and>
     take 2 (map ts_state (cp_states r)) = [Member RECEIVED, Member TRIAGED] \<and>
     subseq (map ts_state (cp_states r))
       (map Member [RECEIVED, TRIAGED, GRAPHRAG_RETRIEVED, DECISION_EVALUATED, STATE_FINAL]) \<and>
     ts_state (last (cp_states r)) = Member STATE_FINAL \<and>
     map_of (ts_payload (last (cp_states r))) ''response_length'' = Some (VInt (int (length (cp_final_answer r))))"

text \<open>C24. A chat turn is total. Whatever the engines answer or raise, a turn with at least one message
  gives a response with an answer that is not empty, its states are a subsequence of received,
  triaged, retrieved, evaluated, final that starts with the first two and ends in the last, and the
  last state carries the length of the answer; a turn without a message raises.
\<close>

theorem run_agent_chat_total:
  "case run_agent_chat uuid eng rq of
     Inr r \<Rightarrow> cr_messages rq \<noteq> [] \<and> turn_ok r
   | Inl e \<Rightarrow> cr_messages rq = [] \<and> e = IndexErr ''list index out of range''"
proof (cases "last_user_text (cr_messages rq)")
  case (Inl e)
  then show ?thesis using last_user_text_Inl [of "cr_messages rq" e] by (simp add: run_agent_chat_def)
next
  case (Inr prompt)
  then have "cr_messages rq \<noteq> []" by (auto simp: last_user_text_def)
  moreover have "final_text a rs \<noteq> []" for a rs by (rule final_text_nonempty)
  ultimately show ?thesis
    using chat_graphrag_states [of eng rq prompt] chat_decision_states [of eng rq] Inr
    by (auto simp: run_agent_chat_def turn_ok_def Let_def agent_state_of_def)
qed

subsection \<open>The stream: order, end, and what reaches the client\<close>

lemma block_sequence: "to_chat_event_block u sid a i s = Inr b \<Longrightarrow>
   ev_sequence b = i \<and> ev_session_id b = sid \<and> (ev_is_final b \<longleftrightarrow> str_state (ts_state s) = ''final'') \<and>
   (ev_is_final b \<longleftrightarrow> ev_type b = EV_FINAL) \<and> ev_type b \<noteq> EV_HEARTBEAT"
  by (auto simp: to_chat_event_block_def Let_def bind_res_Inr dict_default_def state_to_event_type_def
      split: if_splits option.splits)

text \<open>What the rest of a stream promises, from its next number on.\<close>

definition rest_ok :: "str \<Rightarrow> int \<Rightarrow> bool \<Rightarrow> turn_state list \<Rightarrow> stream_event list \<Rightarrow> py_error option \<Rightarrow> bool" where
  "rest_ok sid i saw ss events e \<longleftrightarrow>
     map ev_sequence events = [i .. i + int (length events) - 1] \<and>
     list_all (\<lambda>b. ev_session_id b = sid \<and> ev_type b \<noteq> EV_HEARTBEAT) events \<and>
     (if e = None
      then (saw \<or> list_ex ev_is_final events) \<and>
           length events = length ss + (if saw \<or> (\<exists>s \<in> set ss. str_state (ts_state s) = ''final'') then 0 else 1)
      else length events < length ss)"

lemma emit_blocks_ok: "emit_blocks u sid a i saw ss = (events, e) \<Longrightarrow> rest_ok sid i saw ss events e"
proof (induction u sid a i saw ss arbitrary: events e rule: emit_blocks.induct)
  case (1 u sid a i saw)
  then show ?case by (auto simp: rest_ok_def synthesised_final_def plain_event_def upto_rec1 split: if_splits)
next
  case (2 u sid a i saw s ss)
  show ?case
  proof (cases "to_chat_event_block u sid a i s")
    case (Inl x)
    with "2.prems" show ?thesis by (auto simp: rest_ok_def)
  next
    case (Inr b)
    obtain evs e' where rest: "emit_blocks u sid a (i + 1) (saw \<or> ev_is_final b) ss = (evs, e')"
      by (metis surj_pair)
    have "events = b # evs" "e = e'" using "2.prems" Inr rest by auto
    moreover have "rest_ok sid (i + 1) (saw \<or> ev_is_final b) ss evs e'" using "2.IH" [OF Inr rest] .
    moreover have "[i .. i + int (length evs)] = i # [i + 1 .. i + int (length evs)]"
      by (rule upto_rec1) simp
    ultimately show ?thesis using block_sequence [OF Inr]
      by (auto simp: rest_ok_def algebra_simps)
  qed
qed

text \<open>C25. The stream starts and ends. For any states, the stream begins with the one heartbeat, its
  events are numbered 0, 1, 2 and so on without a gap, and if no state makes the adapter raise, the
  client receives a final event: one event per state and, when no state is final, one more. A stream
  that breaks has yielded at most one event per state.
\<close>

theorem stream_delivers_final:
  "case to_chat_event_stream u sid a ss of (events, e) \<Rightarrow>
     map ev_sequence events = [0 .. int (length events) - 1] \<and>
     hd events = heartbeat_event sid a \<and> list_all (\<lambda>b. ev_type b \<noteq> EV_HEARTBEAT) (tl events) \<and>
     (if e = None
      then list_ex ev_is_final events \<and>
           length events = 1 + length ss + (if list_ex (\<lambda>s. str_state (ts_state s) = ''final'') ss then 0 else 1)
      else length events \<le> length ss)"
proof -
  obtain evs e where blocks: "emit_blocks u sid a 1 False ss = (evs, e)" by (metis surj_pair)
  have "rest_ok sid 1 False ss evs e" using emit_blocks_ok [OF blocks] .
  moreover have "[0 .. int (length evs)] = 0 # [1 .. int (length evs)]"
    using upto_rec1 [of 0 "int (length evs)"] by simp
  moreover have "ev_sequence (heartbeat_event sid a) = 0 \<and> \<not> ev_is_final (heartbeat_event sid a)"
    by (simp add: heartbeat_event_def plain_event_def)
  ultimately show ?thesis
    by (auto simp: to_chat_event_stream_def blocks rest_ok_def list_all_iff list_ex_iff)
qed

text \<open>The chat messages of a request that has one: known roles only, at least one text.\<close>

definition chat_request_ok :: "ui_chat_request \<Rightarrow> bool" where
  "chat_request_ok body \<longleftrightarrow>
     (case chat_messages (uc_messages body) of Inl _ \<Rightarrow> False | Inr ms \<Rightarrow> ms \<noteq> [])"

lemma member_never_named [simp]:
  "str_state (Member st) \<noteq> ''final''" "str_state (Member st) \<noteq> ''error''"
  "str_state (Member st) \<noteq> ''graphrag_retrieved''" "map_of tool_by_state (str_state (Member st)) = None"
  "map_of state_to_event_type (str_state (Member st)) = None"
  by (simp_all add: tool_by_state_def state_to_event_type_def)

lemma member_tools [simp]: "extract_tools (str_state (Member st)) payload = Inr []"
  by (simp add: extract_tools_def del: str_state.simps)

lemma member_subgraph [simp]: "extract_subgraph (str_state (Member st)) payload = Inr None"
  by (simp add: extract_subgraph_def del: str_state.simps)

lemma no_citations:
  "got payload ''citations'' = VNone \<Longrightarrow> got payload ''vector_citations'' = VNone \<Longrightarrow> extract_citations u payload = Inr []"
  by (simp add: extract_citations_def either_def py_or_def iterate_def)

lemma quiet_state_block:
  "to_chat_event_block u sid a i (agent_state_of st m payload) =
     Inr \<lparr>ev_sequence = i, ev_session_id = sid, ev_asset_id = a, ev_type = EV_STATE,
       ev_state = Some (str_state (Member st)), ev_message = m, ev_payload = payload, ev_tools = [],
       ev_citations = [], ev_subgraph = None, ev_logs = extract_logs (str_state (Member st)) payload,
       ev_is_final = False, ev_is_error = False\<rparr>"
  if "0 \<le> i" and "got payload ''citations'' = VNone" and "got payload ''vector_citations'' = VNone"
  using that
  by (simp add: to_chat_event_block_def agent_state_of_def no_citations dict_default_def Let_def
      del: str_state.simps)

text \<open>What a streaming client sees. The handler answers a request exactly when its roles are known
  and a message is not blank, and then with exactly five lines: ping, start, two deltas and done. No
  line carries a tool, a citation or a sub-graph, the state named final is one of the deltas, because
  its name arrives as AgentStateName.FINAL, and the line marked done has empty metadata. The five
  messages are constants: the answer itself is in none of them.
\<close>

theorem agent_chat_stream_exact:
  "case agent_chat_stream uuid u body of
     StreamRefused m \<Rightarrow> \<not> chat_request_ok body
   | StreamLines ls e \<Rightarrow> chat_request_ok body \<and> e = None \<and>
       map sl_type ls = [''ping'', ''start'', ''delta'', ''delta'', ''done''] \<and>
       map sl_seq ls = [1, 2, 3, 4, 5] \<and>
       map (ev_state \<circ> sl_event) ls =
         [None, Some ''AgentStateName.RECEIVED'', Some ''AgentStateName.TRIAGED'', Some ''AgentStateName.FINAL'', Some ''final''] \<and>
       map (ev_message \<circ> sl_event) ls =
         [''Agent runtime connected.'', ''Accepted diagnostic chat turn.'',
          ''Identified asset and selected GraphRAG/decision tools.'', ''Diagnostic turn completed.'',
          ''Diagnostic turn completed (synthesised final event).''] \<and>
       list_all (\<lambda>l. ev_tools (sl_event l) = [] \<and> ev_citations (sl_event l) = [] \<and> ev_subgraph (sl_event l) = None) ls \<and>
       sl_metadata (last ls) = Some []"
proof (cases "chat_messages (uc_messages body)")
  case (Inl e)
  then show ?thesis by (simp add: agent_chat_stream_def chat_request_ok_def)
next
  case (Inr ms)
  show ?thesis
  proof (cases "last_user_text ms")
    case (Inl e)
    then show ?thesis
      using Inr last_user_text_Inl [of ms e] by (simp add: agent_chat_stream_def chat_request_ok_def run_agent_chat_def)
  next
    case (Inr prompt)
    then have "ms \<noteq> []" by (auto simp: last_user_text_def)
    with Inr show ?thesis
      using \<open>chat_messages (uc_messages body) = Inr ms\<close>
      by (simp add: agent_chat_stream_def chat_request_ok_def run_agent_chat_def Let_def no_engines_def
          chat_graphrag_def chat_decision_def to_chat_event_stream_def quiet_state_block label_line_def got_def dict_default_def
          synthesised_final_def heartbeat_event_def plain_event_def)
  qed
qed

text \<open>With a retrieval engine connected, an answer with citations breaks the stream: the state carries
  their number, and the adapter iterates over it.\<close>

theorem citations_break_stream:
  assumes "rr_citations r \<noteq> []"
  shows "to_chat_event_block u sid a i (graphrag_state r) = Inl (TypeErr ''not iterable'')"
  using assms
  by (simp add: to_chat_event_block_def graphrag_state_def agent_state_of_def Let_def
      extract_citations_def either_def got_def dict_default_def py_or_def iterate_def del: str_state.simps)

end
