(* ===== verification/Ui_Router.thy ===== *)
theory Ui_Router
  imports Payload_Formatters Chat_Stream
begin

section \<open>The UI boundary\<close>

text \<open>
  \<open>app/ai_service/responses.py\<close> (the envelope), \<open>middleware.py\<close> (the route wrapper), the error
  mapping of \<open>main_router.py\<close> and \<open>exceptions.py\<close>, and the handlers of \<open>integration/ui_router.py\<close>
  that connect the engines with the adapters. The simulated episode of telemetry, the engines and the
  clock are parameters; the JSON encoding of the adapters' records is left out.
\<close>

subsection \<open>Arrays of a payload\<close>

definition known_array_fields :: "str list" where
  "known_array_fields = [''edges'', ''history'', ''logs'', ''nodes'', ''highlightedNodes'', ''highlightedEdges'', ''citations'',
     ''features'', ''confidenceMatrix'', ''highlightNodeIds'', ''highlightEdgeIds'', ''tools'', ''toolingRequired'',
     ''tooling_required'', ''hazards'', ''requiredPpe'', ''required_ppe'', ''triggeredRules'', ''triggered_rules'',
     ''recommendations'', ''sopSteps'', ''sop_steps'', ''decisionLog'', ''decision_log'', ''rootNodeIds'', ''root_node_ids'',
     ''contextChunks'', ''context_chunks'', ''graphNodes'', ''graph_nodes'', ''graphEdges'', ''graph_edges'',
     ''anomalyFlags'', ''anomaly_flags'', ''anomalousSensors'', ''anomalous_sensors'', ''featureImportance'',
     ''feature_importance'', ''featureColumns'', ''feature_columns'', ''contributingFailureModes'',
     ''contributing_failure_modes'', ''globalFeatureImportance'', ''global_feature_importance'',
     ''localFeatureImportance'', ''local_feature_importance'', ''items'', ''results'', ''data_points'', ''dataPoints'',
     ''actions'', ''messages'', ''states'', ''sensors'', ''warnings'', ''errors'', ''readings'', ''allowedOrigins'',
     ''exposedHeaders'', ''endpoints'']"

definition ends_with :: "str \<Rightarrow> str \<Rightarrow> bool" where
  "ends_with s p \<longleftrightarrow> starts_with (rev p) (rev s)"

definition looks_like_array_key :: "str \<Rightarrow> bool" where
  "looks_like_array_key key \<longleftrightarrow>
     list_ex (ends_with (py_lower key)) [''ids'', ''_ids'', ''list'', ''_list'', ''arr'', ''_array'']"

definition array_key :: "str \<Rightarrow> bool" where
  "array_key key \<longleftrightarrow> key \<in> set known_array_fields \<or> looks_like_array_key key"

fun sanitize_payload :: "pyval \<Rightarrow> pyval" where
  "sanitize_payload (VDict d) =
     VDict (map (\<lambda>kv. (fst kv, if snd kv = VNone \<and> array_key (fst kv) then VList [] else sanitize_payload (snd kv))) d)"
| "sanitize_payload (VList xs) = VList (map sanitize_payload xs)"
| "sanitize_payload v = v"

subsection \<open>The envelope\<close>

datatype error_arg = ErrorText str | ErrorMap "(str \<times> pyval) list"

text \<open>\<open>UIAPIErrorPayload(**payload)\<close>: a code, a message and details, nothing else.\<close>

definition mk_error_payload :: "(str \<times> pyval) list \<Rightarrow> pyval res" where
  "mk_error_payload d =
     (if \<not> list_all (\<lambda>kv. fst kv \<in> {''code'', ''message'', ''details''}) d then Inl (ValidationError ''extra_forbidden'')
      else bind_res (as_str (dict_default d ''code'' (VStr ''AI_SERVICE_ERROR''))) (\<lambda>c.
           bind_res (as_str (dict_default d ''message'' (VStr ''An unspecified error occurred.''))) (\<lambda>m.
           Inr (VDict [(''code'', VStr c), (''message'', VStr m), (''details'', dict_default d ''details'' VNone)]))))"

fun coerce_error :: "error_arg \<Rightarrow> pyval res" where
  "coerce_error (ErrorText m) = mk_error_payload [(''code'', VStr ''AI_SERVICE_ERROR''), (''message'', VStr m)]"
| "coerce_error (ErrorMap d) = mk_error_payload d"

record http_response =
  hr_status :: nat
  hr_headers :: "(str \<times> str) list"
  hr_body :: pyval

definition create_ui_response ::
  "str \<Rightarrow> str \<Rightarrow> bool \<Rightarrow> pyval option \<Rightarrow> error_arg option \<Rightarrow> str \<Rightarrow> nat option \<Rightarrow> (str \<times> str) list \<Rightarrow> http_response res" where
  "create_ui_response now request_id success data error module_name status_code extra_headers =
     (let d = (case data of None \<Rightarrow> VNone | Some v \<Rightarrow> sanitize_payload v);
          err = (if success then None
                 else Some (case error of None \<Rightarrow> ErrorText ''An unspecified error occurred.'' | Some e \<Rightarrow> e))
      in bind_res (case err of None \<Rightarrow> Inr VNone | Some e \<Rightarrow> coerce_error e) (\<lambda>payload.
         Inr \<lparr>hr_status = (case status_code of Some c \<Rightarrow> if c = 0 then (if success then 200 else 503) else c
                | None \<Rightarrow> if success then 200 else 503),
           hr_headers = AList.update ''x-ai-module'' module_name (AList.update ''x-request-id'' request_id extra_headers),
           hr_body = VDict [(''requestId'', VStr request_id), (''generatedAt'', VStr now), (''success'', VBool success),
             (''error'', payload), (''data'', d)]\<rparr>))"

subsection \<open>The route\<close>

definition resolve_request_id :: "str \<Rightarrow> str option \<Rightarrow> str option \<Rightarrow> str" where
  "resolve_request_id uuid request_header correlation_header =
     (case or_str request_header (or_str correlation_header (Some uuid)) of Some s \<Rightarrow> s | None \<Rightarrow> uuid)"

definition get_request_id :: "str \<Rightarrow> str option \<Rightarrow> str option \<Rightarrow> str option \<Rightarrow> str" where
  "get_request_id uuid cached request_header correlation_header =
     (if truthy_str cached then the cached else resolve_request_id uuid request_header correlation_header)"

text \<open>What the wrapped handler does: it answers, its request is invalid, or it raises.\<close>

datatype handler_outcome = Answered http_response | InvalidRequest pyval | Raised

definition validation_failed :: str where
  "validation_failed = ''Request validation failed. Check payload shape, field types, and allowed values.''"

definition route_response :: "str \<Rightarrow> str \<Rightarrow> str \<Rightarrow> handler_outcome \<Rightarrow> http_response res" where
  "route_response now request_id module_name outcome = (case outcome of
       Answered r \<Rightarrow> Inr r
     | InvalidRequest errors \<Rightarrow> create_ui_response now request_id False None
         (Some (ErrorMap [(''code'', VStr ''VALIDATION_ERROR''), (''message'', VStr validation_failed), (''details'', errors)]))
         module_name (Some 422) []
     | Raised \<Rightarrow> create_ui_response now request_id False None
         (Some (ErrorMap [(''code'', VStr ''INTERNAL_SERVER_ERROR''),
           (''message'', VStr ''An unexpected UI service error occurred.''), (''details'', VNone)]))
         module_name (Some 500) [])"

definition custom_route_handler :: "str \<Rightarrow> str \<Rightarrow> str \<Rightarrow> handler_outcome \<Rightarrow> http_response res" where
  "custom_route_handler now request_id module_name outcome =
     bind_res (route_response now request_id module_name outcome) (\<lambda>r.
     let h = AList.update ''x-request-id'' request_id (hr_headers r)
     in Inr (r\<lparr>hr_headers := (if ''x-ai-module'' \<in> fst ` set h then h else h @ [(''x-ai-module'', module_name)])\<rparr>))"

subsection \<open>The engines' endpoints\<close>

text \<open>The status, the code and the message the exception handlers give an engine's exception: pydantic's
  error is a \<open>ValueError\<close>. The handler answers with the public message of the class.\<close>

record ai_error =
  ae_status :: nat
  ae_code :: str
  ae_message :: str
  ae_engine :: str

fun is_value_error :: "py_error \<Rightarrow> bool" where
  "is_value_error (ValueErr s) = True"
| "is_value_error (ValidationError s) = True"
| "is_value_error e = False"

definition ai_error_of :: "str \<Rightarrow> py_error \<Rightarrow> ai_error" where
  "ai_error_of engine e =
     (if is_value_error e
      then \<lparr>ae_status = 422, ae_code = ''AI_INVALID_REQUEST'',
            ae_message = ''The AI request is invalid for this operation.'', ae_engine = engine\<rparr>
      else \<lparr>ae_status = 503, ae_code = ''AI_DEPENDENCY_UNAVAILABLE'',
            ae_message = ''A required AI dependency is temporarily unavailable.'', ae_engine = engine\<rparr>)"

definition ai_endpoint :: "str \<Rightarrow> 'a res \<Rightarrow> ai_error + 'a" where
  "ai_endpoint engine result = (case result of Inl e \<Rightarrow> Inl (ai_error_of engine e) | Inr x \<Rightarrow> Inr x)"

definition query_graphrag :: "rag_env \<Rightarrow> rag_request \<Rightarrow> ai_error + rag_response" where
  "query_graphrag env body = ai_endpoint ''graphrag'' (rag_query env body)"

definition predict_maintenance :: "predictor_env \<Rightarrow> predict_request \<Rightarrow> ai_error + predict_response" where
  "predict_maintenance env body = ai_endpoint ''predictive'' (infer env body)"

definition explain_prediction :: "xai_env \<Rightarrow> telemetry_frame list \<Rightarrow> str \<Rightarrow> str \<Rightarrow> explanation_method \<Rightarrow> ai_error + xai_response" where
  "explain_prediction env episode prediction_id asset_id meth =
     ai_endpoint ''xai'' (explain env \<lparr>eq_asset_id = asset_id, eq_explanation_id = Some prediction_id, eq_method = meth\<rparr>
       (take 24 episode))"

definition recommend_actions ::
  "settings \<Rightarrow> nat \<Rightarrow> decision_env \<Rightarrow> recommendation_request \<Rightarrow> ai_error + recommendation_response" where
  "recommend_actions g max_sops env body = ai_endpoint ''decision'' (recommend g max_sops env body)"

subsection \<open>The UI handlers\<close>

definition mk_predict_request :: "str \<Rightarrow> telemetry_frame list \<Rightarrow> int \<Rightarrow> predict_request res" where
  "mk_predict_request asset_id history horizon_hours =
     require (asset_id \<noteq> []) (ValidationError ''asset_id'')
     (require (history \<noteq> []) (ValidationError ''history'')
     (require (1 \<le> horizon_hours \<and> horizon_hours \<le> 24 * 90) (ValidationError ''horizon_hours'')
       (Inr \<lparr>pq_asset_id = asset_id, pq_component_id = None, pq_history = history, pq_horizon_hours = horizon_hours\<rparr>)))"

definition last_frames :: "nat \<Rightarrow> telemetry_frame list \<Rightarrow> telemetry_frame list" where
  "last_frames n frames = drop (length frames - n) frames"

definition digital_twin ::
  "(int \<Rightarrow> str) \<Rightarrow> (str \<Rightarrow> telemetry_frame list) \<Rightarrow> (predict_request \<Rightarrow> predict_response res) option \<Rightarrow>
   str \<Rightarrow> nat \<Rightarrow> bool \<Rightarrow> twin_payload ui_reply" where
  "digital_twin stamp episode engine asset_id horizon include_inference =
     (let history = last_frames horizon (episode asset_id);
          inference = (case engine of
              None \<Rightarrow> None
            | Some call \<Rightarrow> if include_inference
                then (case bind_res (mk_predict_request asset_id history (int (min horizon 72))) call of
                        Inl e \<Rightarrow> None | Inr p \<Rightarrow> Some p)
                else None);
          asset = AssetDict [(''id'', VStr asset_id), (''name'', VStr asset_id), (''type'', VStr ''PUMP''),
            (''status'', VStr ''OPERATIONAL''), (''parentId'', VNone)]
      in case adapt_digital_twin_payload stamp asset inference history of
           Inl e \<Rightarrow> UiError ''DIGITAL_TWIN_FAILED'' (err_text e)
         | Inr payload \<Rightarrow> UiData payload)"

record panel_reply =
  pr_payload :: panel_payload
  pr_badge :: badge
  pr_warning_level :: str
  pr_color :: "str \<times> str \<times> str"

definition graphrag_query ::
  "(rag_request \<Rightarrow> rag_response res) \<Rightarrow> str option \<Rightarrow> str option \<Rightarrow> int \<Rightarrow> panel_reply ui_reply" where
  "graphrag_query engine query_text asset_id top_k =
     (let resolved = py_strip (case query_text of None \<Rightarrow> [] | Some q \<Rightarrow> q);
          text = (if resolved \<noteq> [] then resolved else ''diagnose asset'')
      in case bind_res (bind_res (mk_rag_request \<lparr>rq_query_text = text, rq_top_k = top_k, rq_min_score = F 0.55,
                 rq_max_graph_hops = 2, rq_asset_id = asset_id\<rparr>) engine) (\<lambda>r.
               require (0 \<le> rr_overall_confidence r \<and> rr_overall_confidence r \<le> 1) (ValidationError ''confidence'') (Inr r)) of
           Inl e \<Rightarrow> UiError ''GRAPHRAG_FAILED'' (err_text e)
         | Inr r \<Rightarrow> (let payload = adapt_graphrag_payload r (Some text)
             in UiData \<lparr>pr_payload = payload, pr_badge = confidence_to_badge (py_confidence payload),
                  pr_warning_level = confidence_to_warning_level (py_confidence payload),
                  pr_color = confidence_to_color (py_confidence payload)\<rparr>))"

record explain_reply =
  er_payload :: explanation_payload
  er_waterfall :: waterfall
  er_force_plot :: force_plot

definition feature_dict :: "shap_feature \<Rightarrow> feature" where
  "feature_dict f = [(''name'', VStr (xf_name f)), (''value'', VStr (xf_value f)), (''shapValue'', VFloat (xf_shap_value f)),
     (''desc'', VStr (xf_desc f))]"

definition explain_ui :: "xai_env \<Rightarrow> (str \<Rightarrow> telemetry_frame list) \<Rightarrow> str \<Rightarrow> str \<Rightarrow> explanation_method \<Rightarrow> explain_reply ui_reply" where
  "explain_ui env episode prediction_id asset_id meth =
     (case bind_res (explain env \<lparr>eq_asset_id = asset_id, eq_explanation_id = Some prediction_id, eq_method = meth\<rparr>
             (take 24 (episode asset_id))) (\<lambda>x.
        let payload = adapt_explainability_payload x prediction_id asset_id; features = map feature_dict (xp_features payload)
        in bind_res (format_shap_waterfall features (xp_base_value payload) 10) (\<lambda>w.
           bind_res (format_shap_force_plot features (xp_base_value payload) (xp_prediction_value payload) 10) (\<lambda>p.
           Inr \<lparr>er_payload = payload, er_waterfall = w, er_force_plot = p\<rparr>))) of
        Inl e \<Rightarrow> UiError ''XAI_FAILED'' (err_text e)
      | Inr reply \<Rightarrow> UiData reply)"

definition recommendations_ui ::
  "(int \<Rightarrow> str) \<Rightarrow> (recommendation_request \<Rightarrow> recommendation_response res) \<Rightarrow> str \<Rightarrow> str option \<Rightarrow> int \<Rightarrow> nat \<Rightarrow> action_card list ui_reply" where
  "recommendations_ui stamp engine asset_id component_id risk_horizon_days max_recommendations =
     (case bind_res (bind_res (mk_recommendation_request asset_id component_id risk_horizon_days max_recommendations) engine)
             (adapt_recommendations_to_actions stamp) of
        Inl e \<Rightarrow> UiError ''RECOMMEND_FAILED'' (err_text e)
      | Inr cards \<Rightarrow> UiData cards)"

definition cors_check :: "str list \<Rightarrow> str list ui_reply" where
  "cors_check origins = (case verify_cors_configuration origins None of
       Inl e \<Rightarrow> UiError ''CORS_MISCONFIGURED'' (err_text e) | Inr _ \<Rightarrow> UiData origins)"

definition preflight :: "str \<Rightarrow> str option \<Rightarrow> str list \<Rightarrow> (str \<times> str) list" where
  "preflight request_id request_origin origins =
     filter (\<lambda>h. fst h \<notin> {''Vary'', ''vary''})
       (AList.update ''x-ai-module'' ''phase-11-ui'' (AList.update ''x-request-id'' request_id
         (build_ui_preflight_headers (safe_cors_origin request_origin origins))))"

subsection \<open>The header contract\<close>

lemma error_payload_ok: "mk_error_payload [(''code'', VStr c), (''message'', VStr m), (''details'', v)] =
   Inr (VDict [(''code'', VStr c), (''message'', VStr m), (''details'', v)])"
  by (simp add: mk_error_payload_def dict_default_def as_str_def)

lemma route_response_cases:
  "route_response now rid m outcome = Inr (case outcome of
     Answered r \<Rightarrow> r
   | InvalidRequest errors \<Rightarrow> \<lparr>hr_status = 422,
       hr_headers = [(''x-request-id'', rid), (''x-ai-module'', m)],
       hr_body = VDict [(''requestId'', VStr rid), (''generatedAt'', VStr now), (''success'', VBool False),
         (''error'', VDict [(''code'', VStr ''VALIDATION_ERROR''), (''message'', VStr validation_failed), (''details'', errors)]),
         (''data'', VNone)]\<rparr>
   | Raised \<Rightarrow> \<lparr>hr_status = 500,
       hr_headers = [(''x-request-id'', rid), (''x-ai-module'', m)],
       hr_body = VDict [(''requestId'', VStr rid), (''generatedAt'', VStr now), (''success'', VBool False),
         (''error'', VDict [(''code'', VStr ''INTERNAL_SERVER_ERROR''),
           (''message'', VStr ''An unexpected UI service error occurred.''), (''details'', VNone)]),
         (''data'', VNone)]\<rparr>)"
  by (cases outcome) (simp_all add: route_response_def create_ui_response_def error_payload_ok Let_def)

text \<open>C26. Every UI response keeps the header contract. Whether the handler answers, rejects its input or
  raises, there is a response; it echoes the request identifier and names a module; an answer keeps its
  status and body; a rejected input becomes 422 and an exception 500, both with an envelope that carries
  the identifier, no data and the error's code.
\<close>

theorem route_contract:
  "case custom_route_handler now rid m outcome of
     Inl e \<Rightarrow> False
   | Inr r \<Rightarrow> map_of (hr_headers r) ''x-request-id'' = Some rid \<and> ''x-ai-module'' \<in> fst ` set (hr_headers r) \<and>
       (case outcome of
          Answered a \<Rightarrow> hr_status r = hr_status a \<and> hr_body r = hr_body a
        | InvalidRequest errors \<Rightarrow> hr_status r = 422 \<and>
            hr_body r = VDict [(''requestId'', VStr rid), (''generatedAt'', VStr now), (''success'', VBool False),
              (''error'', VDict [(''code'', VStr ''VALIDATION_ERROR''), (''message'', VStr validation_failed), (''details'', errors)]),
              (''data'', VNone)]
        | Raised \<Rightarrow> hr_status r = 500 \<and>
            hr_body r = VDict [(''requestId'', VStr rid), (''generatedAt'', VStr now), (''success'', VBool False),
              (''error'', VDict [(''code'', VStr ''INTERNAL_SERVER_ERROR''),
                (''message'', VStr ''An unexpected UI service error occurred.''), (''details'', VNone)]),
              (''data'', VNone)])"
proof -
  have "map_of (AList.update ''x-request-id'' rid h) ''x-request-id'' = Some rid" for h
    by (simp add: map_of_update)
  then show ?thesis
    by (cases outcome) (simp_all add: custom_route_handler_def route_response_cases Let_def map_add_def)
qed

text \<open>Nulls under array keys become empty arrays; a key counts by its ending too.\<close>

fun arrays_filled :: "pyval \<Rightarrow> bool" where
  "arrays_filled (VDict d) = list_all (\<lambda>kv. \<not> (snd kv = VNone \<and> array_key (fst kv)) \<and> arrays_filled (snd kv)) d"
| "arrays_filled (VList xs) = list_all arrays_filled xs"
| "arrays_filled v = True"

lemma sanitize_payload_VNone: "sanitize_payload v = VNone \<longleftrightarrow> v = VNone"
  by (cases v) simp_all

lemma sanitize_payload_filled: "arrays_filled (sanitize_payload v)"
  by (induction v rule: sanitize_payload.induct) (auto simp: list_all_iff sanitize_payload_VNone)

lemma scalar_key_emptied:
  "sanitize_payload (VDict [(''waitlist'', VNone)]) = VDict [(''waitlist'', VList [])]"
  by code_simp

subsection \<open>The digital twin endpoint\<close>

lemma risk_in_scale:
  assumes "0 \<le> p" "p \<le> 1"
  shows "0 \<le> py_round (p * F 100) 2 \<and> py_round (p * F 100) 2 \<le> F 100"
proof -
  have "0 \<le> p * F 100" using assms F_nonneg [of 100] by (intro f64_mult_nonneg) simp_all
  moreover have "p * F 100 \<le> 1 * F 100" using assms F_nonneg [of 100] by (intro f64_mult_right_mono) simp_all
  then have "py_round (p * F 100) 2 \<le> py_round (F 100) 2" by (intro py_round_mono) simp
  moreover have "py_round (F 100) 2 = F 100"
    using py_round_of_int [of 100 2] by (simp add: of_int64_def)
  ultimately show ?thesis by (simp add: py_round_nonneg)
qed

lemma history_frames_ok:
  assumes "0 \<le> risk" "risk \<le> F 100"
  shows "map_res (\<lambda>f. mk_history_frame \<lparr>hf_timestamp = stamp (tf_timestamp f), hf_telemetry = telemetry_of f risk st\<rparr>) fs =
    Inr (map (\<lambda>f. \<lparr>hf_timestamp = stamp (tf_timestamp f), hf_telemetry = telemetry_of f risk st\<rparr>) fs)"
  using assms by (intro map_res_map) (simp add: mk_history_frame_def telemetry_of_def Let_def)

lemma build_response_probability:
  assumes "build_response env r rul a fb = Inr p"
  shows "0 \<le> fp_probability (pp_failure_probability p) \<and> fp_probability (pp_failure_probability p) \<le> 1"
  using assms by (auto simp: build_response_def Let_def bind_res_Inr mk_failure_probability_def split: prod.splits)

lemma infer_probability:
  "infer env r = Inr p \<Longrightarrow> 0 \<le> fp_probability (pp_failure_probability p) \<and> fp_probability (pp_failure_probability p) \<le> 1"
  by (auto simp: infer_def Let_def bind_res_Inr split: if_splits dest!: build_response_probability)

lemma telemetry_of_risk [simp]: "ut_risk_score (telemetry_of f risk st) = risk"
  by (simp add: telemetry_of_def Let_def)

lemma dict_asset: "ui_asset_of (attributes_of (AssetDict d)) =
   Inr \<lparr>ua_id = [], ua_name = [], ua_type = ''GENERIC'', ua_status = OPERATIONAL, ua_parent_id = None\<rparr>"
  by (simp add: ui_asset_of_def attributes_of_def asset_status_of_def or_str_def)

text \<open>What the payload of a dictionary asset looks like.\<close>

definition twin_reply_ok :: "(int \<Rightarrow> str) \<Rightarrow> telemetry_frame list \<Rightarrow> twin_payload \<Rightarrow> bool" where
  "twin_reply_ok stamp history t \<longleftrightarrow>
     map hf_timestamp (tw_history t) = map (stamp \<circ> tf_timestamp) history \<and>
     0 \<le> ut_risk_score (tw_telemetry t) \<and> ut_risk_score (tw_telemetry t) \<le> F 100 \<and>
     list_all (\<lambda>f. ut_risk_score (hf_telemetry f) = ut_risk_score (tw_telemetry t)) (tw_history t) \<and>
     ua_id (tw_asset t) = [] \<and> ua_name (tw_asset t) = [] \<and> ua_type (tw_asset t) = ''GENERIC''"

lemma adapt_dict_asset:
  assumes "\<And>p. inference = Some p \<Longrightarrow>
    0 \<le> fp_probability (pp_failure_probability p) \<and> fp_probability (pp_failure_probability p) \<le> 1"
  shows "case adapt_digital_twin_payload stamp (AssetDict d) inference history of
    Inl e \<Rightarrow> False | Inr t \<Rightarrow> twin_reply_ok stamp history t"
proof -
  define base where "base = (if history = [] then blank_telemetry else frame_to_telemetry (last history))"
  have base: "ut_risk_score base = 0"
    by (simp add: base_def blank_telemetry_def frame_to_telemetry_def telemetry_of_def Let_def)
  show ?thesis
  proof (cases inference)
    case None
    have "(0 :: float64) \<le> 0" "0 \<le> F 100" by (simp_all add: F_nonneg)
    then show ?thesis
      by (simp add: adapt_digital_twin_payload_def dict_asset Let_def None base base_def [symmetric] history_frames_ok
          twin_reply_ok_def comp_def list_all_iff)
  next
    case (Some p)
    have "0 \<le> py_round (fp_probability (pp_failure_probability p) * F 100) 2"
      "py_round (fp_probability (pp_failure_probability p) * F 100) 2 \<le> F 100"
      using risk_in_scale assms [OF Some] by blast+
    then show ?thesis
      by (simp add: adapt_digital_twin_payload_def dict_asset Let_def Some base_def [symmetric] history_frames_ok
          twin_reply_ok_def comp_def list_all_iff)
  qed
qed

text \<open>The digital twin endpoint always answers. For any asset, episode and prediction environment, even
  one without models, the reply is a payload with one history frame per frame of the window, in
  order, and a risk between 0 and 100. Its identity is always the same, though: the handler passes a
  dictionary to an adapter that reads attributes, so identifier and name are empty and the type is GENERIC.
\<close>

theorem digital_twin_answers:
  "case digital_twin stamp episode (Some (infer env)) asset_id horizon include_inference of
     UiError code m \<Rightarrow> False
   | UiData t \<Rightarrow>
       map hf_timestamp (tw_history t) = map (stamp \<circ> tf_timestamp) (last_frames horizon (episode asset_id)) \<and>
       0 \<le> ut_risk_score (tw_telemetry t) \<and> ut_risk_score (tw_telemetry t) \<le> F 100 \<and>
       list_all (\<lambda>f. ut_risk_score (hf_telemetry f) = ut_risk_score (tw_telemetry t)) (tw_history t) \<and>
       ua_id (tw_asset t) = [] \<and> ua_name (tw_asset t) = [] \<and> ua_type (tw_asset t) = ''GENERIC''"
proof -
  define history where "history = last_frames horizon (episode asset_id)"
  define inference where "inference = (if include_inference
    then (case bind_res (mk_predict_request asset_id history (int (min horizon 72))) (infer env) of
            Inl e \<Rightarrow> None | Inr p \<Rightarrow> Some p) else None)"
  have "0 \<le> fp_probability (pp_failure_probability p) \<and> fp_probability (pp_failure_probability p) \<le> 1"
    if "inference = Some p" for p
    using that infer_probability by (auto simp: inference_def bind_res_Inr split: if_splits sum.splits)
  note adapted = adapt_dict_asset [where inference = inference, OF this]
  show ?thesis
    using adapted [where stamp = stamp and history = history and
      d = "[(''id'', VStr asset_id), (''name'', VStr asset_id), (''type'', VStr ''PUMP''),
        (''status'', VStr ''OPERATIONAL''), (''parentId'', VNone)]"]
    unfolding digital_twin_def Let_def option.case history_def [symmetric] inference_def [symmetric]
    by (auto simp: twin_reply_ok_def split: sum.splits)
qed

text \<open>The UI accepts up to 50 recommendations, the engine's request 20.\<close>

theorem more_than_twenty_refused:
  assumes "20 < n" "asset_id \<noteq> []" "1 \<le> h" "h \<le> 365"
  shows "recommendations_ui stamp engine asset_id c h n = UiError ''RECOMMEND_FAILED'' ''max_recommendations''"
  using assms by (simp add: recommendations_ui_def mk_recommendation_request_def)

end
