(* ===== verification/Vector_Search.thy ===== *)
theory Vector_Search
  imports Graphrag_Service Agent_Nodes "HOL-Library.Sublist"
begin

section \<open>Embeddings and semantic search\<close>

text \<open>
  \<open>app/vector\<close>: the embedding engine (\<open>embedding_engine.py\<close>), its configuration checks
  (\<open>embedding_validator.py\<close>, \<open>app/core/config.py\<close>), the models (\<open>models.py\<close>,
  \<open>schema.py\<close>) and the search service (\<open>search_service.py\<close>) with its callers: the endpoint
  \<open>app/api/v1/vector_search.py\<close>, the vector channel of the retriever and the retrieval tool of the
  agents. The sentence transformer, the hash and the Qdrant client are parameters. A vector is the
  list of its components.
\<close>

type_synonym vector = "float64 list"

subsection \<open>Model catalogue and configuration\<close>

definition embedding_dimensions :: "(str \<times> int) list" where
  "embedding_dimensions = [(''sentence-transformers/all-MiniLM-L6-v2'', 384),
     (''sentence-transformers/all-mpnet-base-v2'', 768), (''BAAI/bge-large-en-v1.5'', 1024)]"

definition resolve_model_dimensions :: "str \<Rightarrow> int" where
  "resolve_model_dimensions name = dict_default embedding_dimensions name 768"

definition model_dimensions :: "(str \<times> int) list" where
  "model_dimensions = [(''all-minilm-l6-v2'', 384), (''all-MiniLM-L6-v2'', 384),
     (''sentence-transformers/all-MiniLM-L6-v2'', 384), (''all-mpnet-base-v2'', 768),
     (''sentence-transformers/all-mpnet-base-v2'', 768), (''bge-large-en-v1.5'', 1024),
     (''BAAI/bge-large-en-v1.5'', 1024), (''bge-base-en-v1.5'', 768), (''bge-small-en-v1.5'', 384)]"

definition resolve_embedding_dim :: "str \<Rightarrow> int option" where
  "resolve_embedding_dim model_name = (let name = py_lower model_name in
     if contains ''mpnet'' name then Some 768
     else if contains ''minilm'' name \<or> contains ''mini-lm'' name then Some 384
     else if contains ''bge-large'' name then Some 1024
     else if contains ''bge-base'' name then Some 768
     else if contains ''bge-small'' name then Some 384
     else map_of model_dimensions model_name)"

definition validate_embedding_config :: "str \<Rightarrow> int \<Rightarrow> bool \<times> str" where
  "validate_embedding_config name dm = (case resolve_embedding_dim name of
       None \<Rightarrow> (True, ''Unknown model '' @ name @ '', skipping strict check (got '' @ str_int dm @ ''d)'')
     | Some expected \<Rightarrow>
         if expected \<noteq> dm
         then (False, ''Dimension mismatch! '' @ name @ '' requires '' @ str_int expected @ '' dimensions, got ''
                 @ str_int dm @ ''.'')
         else (True, ''OK '' @ em_dash @ '' '' @ name @ '' / '' @ str_int dm @ ''d''))"

definition assert_embedding_config :: "str \<Rightarrow> int \<Rightarrow> bool res" where
  "assert_embedding_config name dm = (case validate_embedding_config name dm of
     (ok, m) \<Rightarrow> require ok (ValueErr m) (Inr True))"

text \<open>The validator of the settings; unlike \<open>resolve_embedding_dim\<close> it has no table of names.\<close>

definition expected_dim :: "str \<Rightarrow> int option" where
  "expected_dim model_name = (let model = py_lower model_name in
     if contains ''mpnet'' model then Some 768
     else if contains ''minilm'' model \<or> contains ''mini-lm'' model then Some 384
     else if contains ''bge-large'' model then Some 1024
     else if contains ''bge-base'' model then Some 768
     else if contains ''bge-small'' model then Some 384
     else None)"

definition validate_embedding_dimensions :: "str \<Rightarrow> int \<Rightarrow> unit res" where
  "validate_embedding_dimensions name dm =
     require (case expected_dim name of None \<Rightarrow> True | Some e \<Rightarrow> dm = e)
       (ValueErr (''Dimension mismatch! '' @ name @ '' requires '' @ str_int (case expected_dim name of None \<Rightarrow> 0 | Some e \<Rightarrow> e)
          @ '' dimensions, got '' @ str_int dm @ ''. Update QDRANT_VECTOR_SIZE / qdrant_vector_size to match.''))
     (require (dm \<in> {384, 768, 1024})
       (ValueErr (''QDRANT_VECTOR_SIZE='' @ str_int dm @ '' is not a supported embedding dimension. ''
          @ ''Supported: 384 (MiniLM), 768 (mpnet/bge-base), 1024 (bge-large)''))
     (Inr ()))"

subsection \<open>The embedding engine\<close>

text \<open>The engine after construction. The transformer encodes a batch of texts or raises; it may report
  its dimension.\<close>

record embedding_engine =
  ee_model_name :: str
  ee_transform :: "str list \<Rightarrow> vector list res"
  ee_reported_dim :: "int option"

definition effective_model :: "str \<Rightarrow> str" where
  "effective_model name =
     (if contains ''MiniLM'' name then ''sentence-transformers/all-mpnet-base-v2'' else name)"

definition vector_dim :: "embedding_engine \<Rightarrow> int" where
  "vector_dim eng = (case ee_reported_dim eng of Some d \<Rightarrow> d | None \<Rightarrow> resolve_model_dimensions (ee_model_name eng))"

definition clean_text :: "str \<Rightarrow> str" where
  "clean_text t = (let s = py_strip t in if s = [] then ''[EMPTY]'' else take 8192 s)"

definition empty_text :: "str \<Rightarrow> bool" where
  "empty_text t \<longleftrightarrow> py_strip t = []"

text \<open>The rows of empty texts become zero; a row that is missing raises.\<close>

fun zero_rows :: "bool list \<Rightarrow> vector list \<Rightarrow> vector list res" where
  "zero_rows [] vs = Inr vs"
| "zero_rows (m # ms) [] = (if m then Inl (IndexErr ''index out of bounds'') else zero_rows ms [])"
| "zero_rows (m # ms) (v # vs) =
     bind_res (zero_rows ms vs) (\<lambda>rest. Inr ((if m then map (\<lambda>_. 0) v else v) # rest))"

definition encode :: "embedding_engine \<Rightarrow> str list \<Rightarrow> vector list res" where
  "encode eng texts = (if texts = [] then Inr []
     else bind_res (ee_transform eng (map clean_text texts)) (\<lambda>vs. zero_rows (map empty_text texts) vs))"

definition encode_query :: "embedding_engine \<Rightarrow> str \<Rightarrow> vector res" where
  "encode_query eng q = (let text = py_strip q in
     require (text \<noteq> []) (ValueErr ''query_text must be non-empty'')
     (bind_res (encode eng [if contains ''bge'' (py_lower (ee_model_name eng))
          then ''Represent this sentence for searching relevant passages: '' @ text else text])
       (\<lambda>vs. case vs of v # _ \<Rightarrow> Inr v | [] \<Rightarrow> Inl (IndexErr ''index 0 is out of bounds''))))"

text \<open>The fingerprint hashes the concatenation of model name, identifier and text.\<close>

definition chunk_fingerprint :: "(str \<Rightarrow> str) \<Rightarrow> embedding_engine \<Rightarrow> str \<Rightarrow> str option \<Rightarrow> str" where
  "chunk_fingerprint sha eng text cid =
     sha (ee_model_name eng @ (case cid of None \<Rightarrow> [] | Some c \<Rightarrow> c) @ text)"

definition chunk_id_at :: "str list option \<Rightarrow> nat \<Rightarrow> str option" where
  "chunk_id_at ids i = (case ids of None \<Rightarrow> None | Some xs \<Rightarrow> if i < length xs then Some (xs ! i) else None)"

definition fingerprints :: "(str \<Rightarrow> str) \<Rightarrow> embedding_engine \<Rightarrow> str list \<Rightarrow> str list option \<Rightarrow> str list" where
  "fingerprints sha eng texts ids =
     map (\<lambda>(i, t). chunk_fingerprint sha eng t (chunk_id_at ids i)) (enumerate 0 texts)"

definition kept_indices :: "str list \<Rightarrow> str list \<Rightarrow> nat list" where
  "kept_indices fps skip = filter (\<lambda>i. fps ! i \<notin> set skip) [0..<length fps]"

definition embed_chunks ::
  "(str \<Rightarrow> str) \<Rightarrow> embedding_engine \<Rightarrow> str list \<Rightarrow> str list option \<Rightarrow> str list
   \<Rightarrow> (vector list \<times> nat list \<times> str list) res" where
  "embed_chunks sha eng texts ids skip =
     (let fps = fingerprints sha eng texts ids; keep = kept_indices fps skip
      in if keep = [] then Inr ([], [], fps)
         else bind_res (encode eng (map (\<lambda>i. texts ! i) keep)) (\<lambda>vs. Inr (vs, keep, fps)))"

subsection \<open>Filters\<close>

text \<open>A filter field holds nothing, one text or a list of texts.\<close>

datatype filter_value = No_Filter | One_Of str | Any_Of "str list"

record search_filters =
  fi_document_type :: filter_value
  fi_asset_type :: filter_value
  fi_document_id :: filter_value
  fi_source_filename :: filter_value
  fi_section_title :: "str option"
  fi_chunk_ids :: "str list option"
  fi_min_token_count :: "int option"
  fi_max_token_count :: "int option"

fun filter_truthy :: "filter_value \<Rightarrow> bool" where
  "filter_truthy No_Filter = False"
| "filter_truthy (One_Of s) = (s \<noteq> [])"
| "filter_truthy (Any_Of xs) = (xs \<noteq> [])"

definition truthy_list :: "'a list option \<Rightarrow> bool" where
  "truthy_list v \<longleftrightarrow> (case v of None \<Rightarrow> False | Some xs \<Rightarrow> xs \<noteq> [])"

definition truthy_int :: "int option \<Rightarrow> bool" where
  "truthy_int v \<longleftrightarrow> (case v of None \<Rightarrow> False | Some n \<Rightarrow> n \<noteq> 0)"

definition is_empty :: "search_filters \<Rightarrow> bool" where
  "is_empty f \<longleftrightarrow> \<not> (filter_truthy (fi_document_type f) \<or> filter_truthy (fi_asset_type f)
     \<or> filter_truthy (fi_document_id f) \<or> filter_truthy (fi_source_filename f)
     \<or> truthy_str (fi_section_title f) \<or> truthy_list (fi_chunk_ids f)
     \<or> truthy_int (fi_min_token_count f) \<or> truthy_int (fi_max_token_count f))"

fun normalize_list_filter :: "filter_value \<Rightarrow> str list option" where
  "normalize_list_filter No_Filter = None"
| "normalize_list_filter (One_Of s) = Some [s]"
| "normalize_list_filter (Any_Of xs) = Some xs"

text \<open>The conditions of a Qdrant filter.\<close>

datatype condition = Match_Value str str | Match_Any str "str list" | Match_Text str str
  | In_Range str "int option" "int option"

definition add_match :: "str \<Rightarrow> filter_value \<Rightarrow> condition list" where
  "add_match field values = (case normalize_list_filter values of
       None \<Rightarrow> []
     | Some [] \<Rightarrow> []
     | Some [v] \<Rightarrow> [Match_Value field v]
     | Some vals \<Rightarrow> [Match_Any field vals])"

definition must_conditions :: "search_filters \<Rightarrow> condition list" where
  "must_conditions f =
     add_match ''document_type'' (fi_document_type f) @ add_match ''asset_type'' (fi_asset_type f)
     @ add_match ''document_id'' (fi_document_id f) @ add_match ''source_filename'' (fi_source_filename f)
     @ (if truthy_list (fi_chunk_ids f) then [Match_Any ''chunk_id'' (the (fi_chunk_ids f))] else [])
     @ (if truthy_str (fi_section_title f) then [Match_Text ''section_title'' (the (fi_section_title f))] else [])
     @ (if fi_min_token_count f \<noteq> None \<or> fi_max_token_count f \<noteq> None
        then [In_Range ''token_count'' (fi_min_token_count f) (fi_max_token_count f)] else [])"

definition build_qdrant_filter :: "bool \<Rightarrow> search_filters option \<Rightarrow> condition list option" where
  "build_qdrant_filter has_models filters = (case filters of
       None \<Rightarrow> None
     | Some f \<Rightarrow> if is_empty f \<or> \<not> has_models then None
         else if must_conditions f = [] then None else Some (must_conditions f))"

subsection \<open>Models\<close>

text \<open>
  A pydantic model is validated from keyword arguments: extra keys are rejected where the model
  forbids them, a missing field takes its default or is rejected, and every given value passes the
  check of its type. The instance is the dictionary of its fields.
\<close>

type_synonym model_field = "str \<times> pyval option \<times> (pyval \<Rightarrow> pyval res)"

definition read_field :: "(str \<times> pyval) list \<Rightarrow> model_field \<Rightarrow> (str \<times> pyval) res" where
  "read_field kw fld = (case fld of (name, dflt, check) \<Rightarrow>
     (case map_of kw name of
        Some v \<Rightarrow> bind_res (check v) (\<lambda>v'. Inr (name, v'))
      | None \<Rightarrow> (case dflt of Some d \<Rightarrow> Inr (name, d) | None \<Rightarrow> Inl (ValidationError name))))"

definition no_extra :: "model_field list \<Rightarrow> (str \<times> pyval) list \<Rightarrow> bool" where
  "no_extra fs kw \<longleftrightarrow> list_all (\<lambda>kv. fst kv \<in> set (map fst fs)) kw"

definition model_init :: "model_field list \<Rightarrow> (str \<times> pyval) list \<Rightarrow> (str \<times> pyval) list res" where
  "model_init fs kw = require (no_extra fs kw) (ValidationError ''extra_forbidden'')
     (map_res (read_field kw) fs)"

definition check_str :: "pyval \<Rightarrow> pyval res" where
  "check_str v = bind_res (as_str v) (\<lambda>s. Inr (VStr s))"

definition check_optional :: "(pyval \<Rightarrow> pyval res) \<Rightarrow> pyval \<Rightarrow> pyval res" where
  "check_optional c v = (if v = VNone then Inr VNone else c v)"

text \<open>Whole numbers pass as integers, in any of the forms pydantic accepts.\<close>

fun check_int :: "pyval \<Rightarrow> pyval res" where
  "check_int (VInt i) = Inr (VInt i)"
| "check_int (VBool b) = Inr (VInt (if b then 1 else 0))"
| "check_int (VFloat x) = (if of_int (trunc (val x)) = val x then Inr (VInt (trunc (val x)))
     else Inl (ValidationError ''int_from_float''))"
| "check_int (VStr s) = (case parse_int s of Some i \<Rightarrow> Inr (VInt i) | None \<Rightarrow> Inl (ValidationError ''int_parsing''))"
| "check_int v = Inl (ValidationError ''int_type'')"

definition check_float :: "pyval \<Rightarrow> pyval res" where
  "check_float v = (case to_float v of Inl e \<Rightarrow> Inl (ValidationError ''float_type'') | Inr x \<Rightarrow> Inr (VFloat x))"

fun check_str_or_int :: "pyval \<Rightarrow> pyval res" where
  "check_str_or_int (VStr s) = Inr (VStr s)"
| "check_str_or_int (VInt i) = Inr (VInt i)"
| "check_str_or_int v = Inl (ValidationError ''id'')"

fun check_list :: "pyval \<Rightarrow> pyval res" where
  "check_list (VList xs) = Inr (VList xs)"
| "check_list v = Inl (ValidationError ''list_type'')"

fun check_dict :: "pyval \<Rightarrow> pyval res" where
  "check_dict (VDict d) = Inr (VDict d)"
| "check_dict v = Inl (ValidationError ''dict_type'')"

definition clamp_score :: "pyval \<Rightarrow> pyval res" where
  "clamp_score v = (case to_float v of Inl e \<Rightarrow> Inl (ValidationError ''score'')
     | Inr x \<Rightarrow> Inr (VFloat (max 0 (min 1 x))))"

definition optional_field :: "str \<Rightarrow> (pyval \<Rightarrow> pyval res) \<Rightarrow> model_field" where
  "optional_field name c = (name, Some VNone, check_optional c)"

definition vector_search_result :: "model_field list" where
  "vector_search_result = [(''id'', None, check_str_or_int), (''score'', None, clamp_score),
     (''chunk_id'', None, check_str), (''document_id'', None, check_str), (''document_type'', None, check_str),
     optional_field ''asset_type'' check_str, optional_field ''section_title'' check_str,
     (''text'', None, check_str), optional_field ''token_count'' check_int,
     optional_field ''chunk_index'' check_int, optional_field ''source_filename'' check_str,
     (''payload'', Some (VDict []), check_dict)]"

definition vector_search_response :: "model_field list" where
  "vector_search_response = [(''query'', None, check_str), (''top_k'', None, check_int),
     (''returned'', None, check_int), (''score_threshold'', None, check_float), (''latency_ms'', None, check_float),
     (''results'', None, check_list), optional_field ''filters_applied'' check_dict,
     (''collection'', None, check_str), (''embedding_model'', None, check_str),
     optional_field ''total_candidates_scanned'' check_int]"

subsection \<open>The search service\<close>

record scored_point =
  pt_id :: pyval
  pt_score :: float64
  pt_payload :: "(str \<times> pyval) list option"

text \<open>The service after construction, with the client's search over collection, vector, filter, limit
  and threshold, and the time that passes.\<close>

record search_env =
  ss_has_qdrant :: bool
  ss_has_models :: bool
  ss_embedding :: "embedding_engine option"
  ss_client_search :: "str \<Rightarrow> vector \<Rightarrow> condition list option \<Rightarrow> int \<Rightarrow> float64 option \<Rightarrow> scored_point list res"
  ss_collection_name :: str
  ss_default_top_k :: int
  ss_score_threshold :: float64
  ss_latency_ms :: float64

text \<open>The first 2000 characters of a text; other values are not sliced.\<close>

fun first_2000 :: "pyval \<Rightarrow> pyval res" where
  "first_2000 (VStr s) = Inr (VStr (take 2000 s))"
| "first_2000 (VList xs) = Inr (VList (take 2000 xs))"
| "first_2000 v = Inl (TypeErr ''object is not subscriptable'')"

definition result_of_point :: "scored_point \<Rightarrow> pyval res" where
  "result_of_point p = (let payload = (case pt_payload p of None \<Rightarrow> [] | Some d \<Rightarrow> d) in
     bind_res (first_2000 (dict_default payload ''text'' (VStr []))) (\<lambda>text.
     bind_res (model_init vector_search_result
       [(''id'', pt_id p), (''score'', VFloat (pt_score p)),
        (''chunk_id'', dict_default payload ''chunk_id'' (VStr (py_str (pt_id p)))),
        (''document_id'', dict_default payload ''document_id'' (VStr ''unknown'')),
        (''document_type'', dict_default payload ''document_type'' (VStr ''SOP'')),
        (''asset_type'', dict_default payload ''asset_type'' VNone),
        (''section_title'', dict_default payload ''section_title'' VNone),
        (''text'', text),
        (''source_filename'', dict_default payload ''source_filename'' VNone),
        (''page_number'', dict_default payload ''page_number'' VNone),
        (''token_count'', dict_default payload ''token_count'' (VInt 0))]) (\<lambda>r. Inr (VDict r))))"

definition search_response_of :: "search_env \<Rightarrow> str \<Rightarrow> pyval list \<Rightarrow> float64 \<Rightarrow> str \<Rightarrow> (str \<times> pyval) list res" where
  "search_response_of env q results threshold coll = model_init vector_search_response
     [(''query_text'', VStr q), (''results'', VList results), (''total_found'', VInt (int (length results))),
      (''score_threshold'', VFloat threshold), (''collection'', VStr coll), (''latency_ms'', VFloat (ss_latency_ms env))]"

text \<open>\<open>semantic_search\<close>; filters are validated, and payloads, approximate search and no vectors are
  what every caller asks for.\<close>

definition semantic_search ::
  "search_env \<Rightarrow> str \<Rightarrow> int option \<Rightarrow> search_filters option \<Rightarrow> float64 option \<Rightarrow> str option
   \<Rightarrow> (str \<times> pyval) list res" where
  "semantic_search env q top_k filters score_threshold collection =
     require (py_strip q \<noteq> []) (ValueErr ''query_text must be non-empty'')
     (let k = min (if truthy_int top_k then the top_k else ss_default_top_k env) 50;
          threshold = (case score_threshold of Some t \<Rightarrow> t | None \<Rightarrow> ss_score_threshold env);
          coll = (if truthy_str collection then the collection else ss_collection_name env)
      in case ss_embedding env of
           None \<Rightarrow> search_response_of env q [] threshold coll
         | Some eng \<Rightarrow>
             if \<not> ss_has_qdrant env then search_response_of env q [] threshold coll
             else bind_res (encode_query eng q) (\<lambda>v.
               bind_res (require (ss_has_models env) (AttributeErr ''SearchParams'')
                   (ss_client_search env coll v (build_qdrant_filter (ss_has_models env) filters) k
                      (if 0 < threshold then Some threshold else None))) (\<lambda>points.
               bind_res (map_res result_of_point (filter (\<lambda>p. \<not> pt_score p < threshold) points)) (\<lambda>results.
               search_response_of env q results threshold coll))))"

subsection \<open>The callers of the search\<close>

text \<open>The vector channel of the retriever (\<open>retrieval.py\<close>): results become flat hits. The retrieval
  tool of the agents (\<open>tools.py\<close>).\<close>

definition text_field :: "(str \<times> pyval) list \<Rightarrow> str \<Rightarrow> str res" where
  "text_field d k = as_str (dict_default d k VNone)"

fun search_result_of :: "pyval \<Rightarrow> search_result res" where
  "search_result_of (VDict d) =
     bind_res (text_field d ''chunk_id'') (\<lambda>cid. bind_res (text_field d ''text'') (\<lambda>t.
     bind_res (to_float (dict_default d ''score'' VNone)) (\<lambda>sc.
     bind_res (as_opt_str (dict_default d ''document_id'' VNone)) (\<lambda>did.
     bind_res (as_opt_str (dict_default d ''document_type'' VNone)) (\<lambda>dt.
     bind_res (as_opt_str (dict_default d ''source_filename'' VNone)) (\<lambda>fn.
     bind_res (as_opt_str (dict_default d ''section_title'' VNone)) (\<lambda>st.
       Inr \<lparr>sr_chunk_id = cid, sr_text = t, sr_score = sc, sr_document_id = did, sr_document_type = dt,
         sr_source_filename = fn, sr_section_title = st,
         sr_payload = (case dict_default d ''payload'' VNone of VDict p \<Rightarrow> Some p | _ \<Rightarrow> None)\<rparr>)))))))"
| "search_result_of v = Inl (AttributeErr ''chunk_id'')"

definition results_in :: "(str \<times> pyval) list \<Rightarrow> pyval list res" where
  "results_in resp = iterate (dict_default resp ''results'' (VList []))"

definition vector_search :: "search_env \<Rightarrow> search_filters option \<Rightarrow> str \<Rightarrow> int \<Rightarrow> float64 \<Rightarrow> search_result list res" where
  "vector_search env filters q top_k min_score =
     bind_res (semantic_search env q (Some top_k) filters (Some min_score) None) (\<lambda>resp.
     bind_res (results_in resp) (map_res search_result_of))"

definition tool_hit_of :: "search_result \<Rightarrow> search_hit" where
  "tool_hit_of r = \<lparr>sh_chunk_id = sr_chunk_id r, sh_text = sr_text r, sh_score = sr_score r,
     sh_document_type = (case sr_document_type r of None \<Rightarrow> [] | Some d \<Rightarrow> d),
     sh_source_filename = sr_source_filename r,
     sh_document_id = (case sr_document_id r of None \<Rightarrow> [] | Some d \<Rightarrow> d)\<rparr>"

definition tool_search :: "search_env \<Rightarrow> nat \<Rightarrow> str \<Rightarrow> int \<Rightarrow> float64 \<Rightarrow> search_response res" where
  "tool_search env i q k min_score =
     bind_res (semantic_search env q (Some k) None (Some min_score) None) (\<lambda>resp.
     bind_res (results_in resp) (\<lambda>rs. bind_res (map_res search_result_of rs) (\<lambda>hits.
     bind_res (to_int (dict_default resp ''returned'' VNone)) (\<lambda>n.
     bind_res (text_field resp ''embedding_model'') (\<lambda>m.
       Inr \<lparr>se_results = map tool_hit_of hits, se_returned = nat n, se_embedding_model = m\<rparr>)))))"

text \<open>The two endpoints of \<open>vector_search.py\<close>, over a validated body.\<close>

record vector_query =
  vq_query_text :: str
  vq_top_k :: int
  vq_filters :: "search_filters option"
  vq_min_score :: float64

definition mk_vector_query :: "vector_query \<Rightarrow> vector_query res" where
  "mk_vector_query b =
     require (1 \<le> length (vq_query_text b) \<and> length (vq_query_text b) \<le> 2048) (ValidationError ''query_text'')
     (require (1 \<le> vq_top_k b \<and> vq_top_k b \<le> 50) (ValidationError ''top_k'')
     (require (0 \<le> vq_min_score b \<and> vq_min_score b \<le> 1) (ValidationError ''min_score'') (Inr b)))"

datatype http_reply = Http_Ok "(str \<times> pyval) list" | Http_Error nat str

text \<open>Pydantic's validation error is a \<open>ValueError\<close>.\<close>

fun value_error :: "py_error \<Rightarrow> bool" where
  "value_error (ValidationError s) = True"
| "value_error (ValueErr s) = True"
| "value_error e = False"

definition semantic_search_endpoint :: "search_env \<Rightarrow> vector_query \<Rightarrow> http_reply" where
  "semantic_search_endpoint env b =
     (case semantic_search env (vq_query_text b) (Some (vq_top_k b)) (vq_filters b) (Some (vq_min_score b)) None of
        Inr resp \<Rightarrow> Http_Ok resp
      | Inl e \<Rightarrow> if value_error e then Http_Error 400 (err_text e)
          else Http_Error 500 (''search failed: '' @ err_text e))"

definition as_filter :: "str option \<Rightarrow> filter_value" where
  "as_filter v = (case v of None \<Rightarrow> No_Filter | Some s \<Rightarrow> One_Of s)"

definition no_filters :: search_filters where
  "no_filters = \<lparr>fi_document_type = No_Filter, fi_asset_type = No_Filter, fi_document_id = No_Filter,
     fi_source_filename = No_Filter, fi_section_title = None, fi_chunk_ids = None,
     fi_min_token_count = None, fi_max_token_count = None\<rparr>"

definition semantic_search_get ::
  "search_env \<Rightarrow> str \<Rightarrow> int \<Rightarrow> str option \<Rightarrow> str option \<Rightarrow> float64 \<Rightarrow> (str \<times> pyval) list res" where
  "semantic_search_get env q top_k document_type asset_type min_score =
     (let filt = (if truthy_str document_type \<or> truthy_str asset_type
        then Some (no_filters\<lparr>fi_document_type := as_filter document_type, fi_asset_type := as_filter asset_type\<rparr>)
        else None)
      in semantic_search env q (Some top_k) filt (Some min_score) None)"

subsection \<open>No search ever answers\<close>

lemma response_rejected: "search_response_of env q rs t c = Inl (ValidationError ''extra_forbidden'')"
  by (simp add: search_response_of_def model_init_def no_extra_def vector_search_response_def optional_field_def)

lemma result_rejected: "result_of_point p \<noteq> Inr r"
  by (auto simp: result_of_point_def Let_def model_init_def no_extra_def vector_search_result_def
      optional_field_def bind_res_Inr)

lemma search_raises: "\<exists>e. semantic_search env q k f t c = Inl e"
proof (cases "semantic_search env q k f t c")
  case (Inr r)
  then show ?thesis
    by (auto simp: semantic_search_def Let_def bind_res_Inr response_rejected split: option.splits if_splits)
qed blast

lemma search_raises_case [simp]: "bind_res (semantic_search env q k f t c) g = Inr x \<longleftrightarrow> False"
  using search_raises [of env q k f t c] by auto

text \<open>C27. Semantic search never answers. The response is built with keywords its model forbids, so every
  search that gets that far raises a validation error, with or without a database: a blank query is
  refused, the degraded service raises, the endpoint replies with an error status, the vector channel
  of the retriever is always empty, the retrieval tool always falls back to its fixed chunk, and a
  GraphRAG query answers as if its vector store were empty.\<close>

theorem semantic_search_never_answers:
  "(case semantic_search env q k f t c of Inr r \<Rightarrow> False
    | Inl e \<Rightarrow> (if py_strip q = [] then e = ValueErr ''query_text must be non-empty''
        else if ss_embedding env = None \<or> ss_has_qdrant env = False
             then e = ValidationError ''extra_forbidden'' else True)) \<and>
   (case semantic_search_endpoint env b of Http_Ok r \<Rightarrow> False | Http_Error status m \<Rightarrow> status \<in> {400, 500}) \<and>
   rv_vector_hits (retrieve (vector_search env f q n s) repo q a h) = [] \<and>
   semantic_retrieve (sv\<lparr>sv_search := tool_search env\<rparr>) i (q, n, asset) =
     Inr \<lparr>vr_context_chunks = [fallback_chunk asset], vr_vector_hits = 1,
          vr_query_embedding_model = [], vr_fallback_used = True\<rparr> \<and>
   rag_query (rag\<lparr>rg_search := vector_search env f\<rparr>) r = rag_query (rag\<lparr>rg_search := \<lambda>_ _ _. Inr []\<rparr>) r"
proof (intro conjI)
  have hits: "retrieve (vector_search env f q n s) repo q' a h = retrieve (Inr []) repo q' a h" for q n s repo q' a h
    using search_raises [of env q "Some n" f "Some s" None] by (auto simp: vector_search_def retrieve_def unread_pages_def)
  show "rv_vector_hits (retrieve (vector_search env f q n s) repo q a h) = []"
    unfolding hits by (simp add: retrieve_def Let_def)
  show "rag_query (rag\<lparr>rg_search := vector_search env f\<rparr>) r = rag_query (rag\<lparr>rg_search := \<lambda>_ _ _. Inr []\<rparr>) r"
    by (simp add: rag_query_def retrieve_for_def hits synthesize_def Let_def cong: if_cong)
  show "semantic_retrieve (sv\<lparr>sv_search := tool_search env\<rparr>) i (q, n, asset) =
     Inr \<lparr>vr_context_chunks = [fallback_chunk asset], vr_vector_hits = 1,
          vr_query_embedding_model = [], vr_fallback_used = True\<rparr>"
    using search_raises [of env q "Some n" None "Some (F 0.55)" None]
    by (auto simp: semantic_retrieve_def tool_search_def)
  show "case semantic_search_endpoint env b of Http_Ok r \<Rightarrow> False | Http_Error status m \<Rightarrow> status \<in> {400, 500}"
    using search_raises [of env "vq_query_text b" "Some (vq_top_k b)" "vq_filters b" "Some (vq_min_score b)" None]
    by (auto simp: semantic_search_endpoint_def)
  show "case semantic_search env q k f t c of Inr r \<Rightarrow> False
    | Inl e \<Rightarrow> (if py_strip q = [] then e = ValueErr ''query_text must be non-empty''
        else if ss_embedding env = None \<or> ss_has_qdrant env = False
             then e = ValidationError ''extra_forbidden'' else True)"
    using search_raises [of env q k f t c]
    by (auto simp: semantic_search_def Let_def response_rejected require_def split: option.splits)
qed

subsection \<open>Filters\<close>

definition field_of :: "condition \<Rightarrow> str" where
  "field_of c = (case c of Match_Value f v \<Rightarrow> f | Match_Any f vs \<Rightarrow> f | Match_Text f v \<Rightarrow> f | In_Range f l h \<Rightarrow> f)"

lemma add_match_fields: "map field_of (add_match field v) = (if normalize_list_filter v \<in> {None, Some []} then [] else [field])"
  by (cases v) (auto simp: add_match_def field_of_def split: list.splits)

lemma add_match_Nil: "add_match field v = [] \<Longrightarrow> \<not> filter_truthy v"
  by (cases v) (auto simp: add_match_def split: list.splits)

text \<open>A filter has at most one condition per field. It is dropped exactly when every field is blank, and
  then a limit of no tokens at all counts as blank.\<close>

theorem qdrant_filter_exact:
  "(case build_qdrant_filter has_models filters of
      None \<Rightarrow> has_models = False \<or> filters = None \<or> list_ex is_empty (case filters of None \<Rightarrow> [] | Some f \<Rightarrow> [f])
    | Some cs \<Rightarrow> cs \<noteq> [] \<and> distinct (map field_of cs) \<and> has_models \<and> filters \<noteq> None) \<and>
   build_qdrant_filter has_models (Some (no_filters\<lparr>fi_max_token_count := Some 0\<rparr>)) = None"
proof -
  have "distinct (map field_of (must_conditions f))" for f
  proof -
    have "subseq (map field_of (must_conditions f)) ([''document_type''] @ [''asset_type''] @ [''document_id'']
      @ [''source_filename''] @ [''chunk_id''] @ [''section_title''] @ [''token_count''])"
      unfolding must_conditions_def map_append
      by (intro list_emb_append_mono) (simp_all add: add_match_fields field_of_def)
    then obtain N where "map field_of (must_conditions f) = nths ([''document_type''] @ [''asset_type'']
      @ [''document_id''] @ [''source_filename''] @ [''chunk_id''] @ [''section_title''] @ [''token_count'']) N"
      by (auto simp: subseq_conv_nths)
    then show ?thesis by (simp only: distinct_nthsI) (simp add: distinct_nthsI)
  qed
  moreover have "must_conditions f \<noteq> []" if "\<not> is_empty f" for f
  proof
    assume "must_conditions f = []"
    then have parts: "add_match ''document_type'' (fi_document_type f) = []" "add_match ''asset_type'' (fi_asset_type f) = []"
      "add_match ''document_id'' (fi_document_id f) = []" "add_match ''source_filename'' (fi_source_filename f) = []"
      "\<not> truthy_list (fi_chunk_ids f)" "\<not> truthy_str (fi_section_title f)"
      "fi_min_token_count f = None" "fi_max_token_count f = None"
      unfolding must_conditions_def append_is_Nil_conv by (simp_all split: if_splits)
    with parts(1-4) [THEN add_match_Nil] that show False by (simp add: is_empty_def truthy_int_def)
  qed
  ultimately show ?thesis
    by (auto simp: build_qdrant_filter_def no_filters_def is_empty_def truthy_int_def truthy_list_def
        split: option.splits)
qed

subsection \<open>Embedding\<close>

lemma zero_rows_ok:
  "length vs = length ms \<Longrightarrow> zero_rows ms vs = Inr (map2 (\<lambda>m v. if m then map (\<lambda>_. 0) v else v) ms vs)"
proof (induction ms vs rule: zero_rows.induct)
  case (3 m ms v vs)
  then show ?case by simp
qed auto

text \<open>Embedding a batch is exact when the transformer returns one row per text: one vector per text in
  order, the row of the transformer for a text with visible characters and zero for a blank one. \<open>embed_chunks\<close>
  without known fingerprints embeds every chunk, and a second run over the fingerprints that the first
  one returned encodes nothing.\<close>

theorem encode_exact:
  assumes "ee_transform eng (map clean_text texts) = Inr rows" "length rows = length texts"
  shows "encode eng texts = Inr (map2 (\<lambda>t v. if empty_text t then map (\<lambda>_. 0) v else v) texts rows) \<and>
    embed_chunks sha eng texts ids [] = (if texts = [] then Inr ([], [], []) else
      Inr (map2 (\<lambda>t v. if empty_text t then map (\<lambda>_. 0) v else v) texts rows, [0..<length texts],
           fingerprints sha eng texts ids)) \<and>
    embed_chunks sha eng texts ids (fingerprints sha eng texts ids) = Inr ([], [], fingerprints sha eng texts ids)"
proof -
  have enc: "encode eng texts = Inr (map2 (\<lambda>t v. if empty_text t then map (\<lambda>_. 0) v else v) texts rows)"
    using assms zero_rows_ok [of rows "map empty_text texts"]
    by (auto simp: encode_def zip_map1 case_prod_unfold comp_def)
  have fps: "length (fingerprints sha eng texts ids) = length texts" by (simp add: fingerprints_def)
  have "kept_indices (fingerprints sha eng texts ids) [] = [0..<length texts]"
    by (simp add: kept_indices_def fps)
  moreover have "kept_indices fps fps = []" for fps :: "str list"
    by (auto simp: kept_indices_def filter_empty_conv)
  moreover have "map (\<lambda>i. texts ! i) [0..<length texts] = texts" by (rule map_nth)
  ultimately show ?thesis using enc by (auto simp: embed_chunks_def Let_def fingerprints_def)
qed

theorem encode_exact_witness:
  "encode \<lparr>ee_model_name = [], ee_transform = (\<lambda>ts. Inr (map (\<lambda>t. [1]) ts)), ee_reported_dim = None\<rparr>
     [''pump'', '' ''] = Inr [[1], [0]]"
  using conjunct1 [OF encode_exact [where texts = "[''pump'', '' '']" and rows = "[[1], [1]]"
    and eng = "\<lparr>ee_model_name = [], ee_transform = (\<lambda>ts. Inr (map (\<lambda>t. [1]) ts)), ee_reported_dim = None\<rparr>"]]
  by (simp add: empty_text_def py_strip_def py_rstrip_def is_space_def)

text \<open>The fingerprint has no separators, so moving a letter from the text to the identifier keeps it.\<close>

theorem fingerprint_boundary:
  "chunk_fingerprint sha eng (c # text) (Some cid) = chunk_fingerprint sha eng text (Some (cid @ [c]))"
  by (simp add: chunk_fingerprint_def)

subsection \<open>Configuration\<close>

text \<open>The table of names in the validator is never consulted to effect: it and the settings agree on
  every name, so accepted settings always pass the shared check.\<close>

lemma resolve_by_rules:
  "resolve_embedding_dim name =
     (case expected_dim name of None \<Rightarrow> map_of model_dimensions name | Some d \<Rightarrow> Some d)"
  unfolding resolve_embedding_dim_def expected_dim_def Let_def
  by (cases "contains ''mpnet'' (py_lower name)"; cases "contains ''minilm'' (py_lower name) \<or> contains ''mini-lm'' (py_lower name)";
      cases "contains ''bge-large'' (py_lower name)"; cases "contains ''bge-base'' (py_lower name)";
      cases "contains ''bge-small'' (py_lower name)"; simp)

lemma validators_agree: "resolve_embedding_dim name = expected_dim name"
proof (cases "expected_dim name")
  case None
  have "list_all (\<lambda>n. expected_dim n \<noteq> None) (map fst model_dimensions)" by code_simp
  with None have "name \<notin> fst ` set model_dimensions" by (auto simp: list_all_iff)
  then have "map_of model_dimensions name = None" by (simp add: map_of_eq_None_iff)
  with None show ?thesis by (simp add: resolve_by_rules)
qed (simp add: resolve_by_rules)

theorem settings_pass_shared_check:
  "case validate_embedding_dimensions name d of Inl e \<Rightarrow> True
   | Inr u \<Rightarrow> assert_embedding_config name d = Inr True \<and> d \<in> {384, 768, 1024}"
proof (cases "(case expected_dim name of None \<Rightarrow> True | Some e \<Rightarrow> d = e) \<and> d \<in> {384, 768, 1024}")
  case True
  then have "assert_embedding_config name d = Inr True"
    by (cases "expected_dim name") (auto simp: assert_embedding_config_def validate_embedding_config_def validators_agree)
  with True show ?thesis by (simp add: validate_embedding_dimensions_def)
next
  case False
  then have "validate_embedding_dimensions name d \<noteq> Inr u" for u
    by (simp only: validate_embedding_dimensions_def require_Inr) blast
  then show ?thesis by (cases "validate_embedding_dimensions name d") auto
qed

text \<open>The legacy model with its own dimension passes every check, and the engine replaces it by one of
  another dimension.\<close>

theorem legacy_model_mismatch:
  "validate_embedding_dimensions ''sentence-transformers/all-MiniLM-L6-v2'' 384 = Inr () \<and>
   vector_dim \<lparr>ee_model_name = effective_model ''sentence-transformers/all-MiniLM-L6-v2'',
     ee_transform = tr, ee_reported_dim = None\<rparr> = 768"
proof
  show "validate_embedding_dimensions ''sentence-transformers/all-MiniLM-L6-v2'' 384 = Inr ()" by code_simp
  have "effective_model ''sentence-transformers/all-MiniLM-L6-v2'' = ''sentence-transformers/all-mpnet-base-v2''"
    by code_simp
  then show "vector_dim \<lparr>ee_model_name = effective_model ''sentence-transformers/all-MiniLM-L6-v2'',
     ee_transform = tr, ee_reported_dim = None\<rparr> = 768"
    by (simp add: vector_dim_def resolve_model_dimensions_def dict_default_def embedding_dimensions_def)
qed

end
