(* ===== verification/Vector_Ingest.thy ===== *)
theory Vector_Ingest
  imports Vector_Search
begin

section \<open>Ingestion into the vector store\<close>

text \<open>
  \<open>app/vector/pipeline.py\<close>, \<open>repository.py\<close> and \<open>qdrant_manager.py\<close>: chunks are read from the
  graph, those already stored are skipped, the rest is embedded and upserted in batches, and every
  chunk is accounted for. The client is a parameter that threads its state \<open>'db\<close>; its scroll may go on
  forever, so looking up the stored chunks is a \<open>partial_function\<close> whose value \<open>None\<close> is not
  returning. A chunk is a dictionary; clock and latency are arguments or left out.
\<close>

type_synonym chunk = "(str \<times> pyval) list"

subsection \<open>Payloads\<close>

text \<open>\<open>ChunkPayload\<close>: text fields are stripped, the type is put in upper case, other keys are allowed.\<close>

definition check_stripped :: "pyval \<Rightarrow> pyval res" where
  "check_stripped v = bind_res (as_str v) (\<lambda>s. Inr (VStr (py_strip s)))"

definition check_nonempty :: "pyval \<Rightarrow> pyval res" where
  "check_nonempty v = bind_res (as_str v) (\<lambda>s.
     require (py_strip s \<noteq> []) (ValidationError ''string_too_short'') (Inr (VStr (py_strip s))))"

definition normalize_doc_type :: "pyval \<Rightarrow> pyval res" where
  "normalize_doc_type v = bind_res (as_str v) (\<lambda>s. Inr (VStr (py_upper (py_strip s))))"

definition chunk_payload :: "model_field list" where
  "chunk_payload = [(''chunk_id'', None, check_stripped), (''document_id'', None, check_stripped),
     (''document_type'', None, normalize_doc_type), optional_field ''asset_type'' check_stripped,
     optional_field ''section_title'' check_stripped, optional_field ''source_filename'' check_stripped,
     (''chunk_index'', Some (VInt 0), check_int), optional_field ''token_count'' check_int,
     optional_field ''char_count'' check_int, optional_field ''page_start'' check_int,
     optional_field ''page_end'' check_int, (''text'', None, check_nonempty),
     optional_field ''embedding_model'' check_stripped, optional_field ''embedding_timestamp'' check_stripped,
     optional_field ''hash'' check_stripped]"

definition chunk_payload_init :: "(str \<times> pyval) list \<Rightarrow> (str \<times> pyval) list res" where
  "chunk_payload_init kw = bind_res (map_res (read_field kw) chunk_payload)
     (\<lambda>d. Inr (d @ filter (\<lambda>kv. fst kv \<notin> set (map fst chunk_payload)) kw))"

definition chunk_get :: "chunk \<Rightarrow> str \<Rightarrow> pyval" where
  "chunk_get ch k = dict_default ch k VNone"

fun text_length :: "pyval \<Rightarrow> pyval res" where
  "text_length (VStr s) = Inr (VInt (int (length s)))"
| "text_length (VList xs) = Inr (VInt (int (length xs)))"
| "text_length (VDict d) = Inr (VInt (int (length d)))"
| "text_length v = Inl (TypeErr ''object has no len()'')"

definition char_count_of :: "chunk \<Rightarrow> pyval res" where
  "char_count_of ch = (if truthy (chunk_get ch ''char_count'') then Inr (chunk_get ch ''char_count'')
     else text_length (dict_default ch ''text'' (VStr [])))"

definition payload_dict :: "str \<Rightarrow> str \<Rightarrow> chunk \<Rightarrow> (str \<times> pyval) list res" where
  "payload_dict model now ch = bind_res (char_count_of ch) (\<lambda>n. Inr
     [(''chunk_id'', chunk_get ch ''chunk_id''),
      (''document_id'', dict_default ch ''document_id'' (VStr ''unknown'')),
      (''document_type'', py_or (py_or (chunk_get ch ''document_type'') (chunk_get ch ''source_type'')) (VStr ''MANUAL'')),
      (''asset_type'', chunk_get ch ''asset_type''),
      (''section_title'', chunk_get ch ''section_title''),
      (''source_filename'', py_or (chunk_get ch ''source_filename'') (chunk_get ch ''source_document'')),
      (''chunk_index'', dict_default ch ''chunk_index'' (VInt 0)),
      (''token_count'', chunk_get ch ''token_count''),
      (''char_count'', n),
      (''page_start'', chunk_get ch ''page_start''), (''page_end'', chunk_get ch ''page_end''),
      (''text'', dict_default ch ''text'' (VStr [])), (''hash'', chunk_get ch ''hash''),
      (''embedding_model'', VStr model), (''embedding_timestamp'', VStr now)])"

definition given_fields :: "(str \<times> pyval) list \<Rightarrow> (str \<times> pyval) list" where
  "given_fields d = filter (\<lambda>kv. snd kv \<noteq> VNone \<or> fst kv \<in> {''chunk_id'', ''document_id'', ''document_type'', ''text''}) d"

subsection \<open>The client\<close>

record point =
  po_id :: str
  po_vector :: vector
  po_payload :: "(str \<times> pyval) list"

text \<open>Scrolling takes the identifiers asked for and an offset, and gives a page of payloads with the
  next offset; an upsert may raise.\<close>

record 'db ingest_env =
  ie_engine :: embedding_engine
  ie_scroll :: "'db \<Rightarrow> pyval list \<Rightarrow> str option \<Rightarrow> ((str \<times> pyval) list option list \<times> str option) res"
  ie_upsert :: "'db \<Rightarrow> point list \<Rightarrow> unit res \<times> 'db"
  ie_uuid5 :: "str \<Rightarrow> str"
  ie_now :: str
  ie_batch_size :: int

definition stable_point_id :: "'db ingest_env \<Rightarrow> str \<Rightarrow> str" where
  "stable_point_id env cid = ie_uuid5 env cid"

fun hashable :: "pyval \<Rightarrow> bool" where
  "hashable (VList xs) = False"
| "hashable (VDict d) = False"
| "hashable v = True"

definition add_found :: "(str \<times> pyval) list option \<Rightarrow> pyval list \<Rightarrow> pyval list res" where
  "add_found payload found = (let cid = chunk_get (case payload of None \<Rightarrow> [] | Some d \<Rightarrow> d) ''chunk_id'' in
     if truthy cid then require (hashable cid) (TypeErr ''unhashable type'') (Inr (cid # found)) else Inr found)"

fun add_page :: "(str \<times> pyval) list option list \<Rightarrow> pyval list \<Rightarrow> pyval list res" where
  "add_page [] found = Inr found"
| "add_page (p # ps) found = bind_res (add_found p found) (add_page ps)"

partial_function (option) scroll_loop ::
  "(str option \<Rightarrow> ((str \<times> pyval) list option list \<times> str option) res) \<Rightarrow> pyval list \<Rightarrow> str option
   \<Rightarrow> pyval list res option" where
  "scroll_loop scroll found offset = (case scroll offset of
       Inl e \<Rightarrow> Some (Inl e)
     | Inr page \<Rightarrow> (case add_page (fst page) found of
           Inl e \<Rightarrow> Some (Inl e)
         | Inr found' \<Rightarrow> if snd page = None then Some (Inr found') else scroll_loop scroll found' (snd page)))"

definition existing_point_ids :: "'db ingest_env \<Rightarrow> 'db \<Rightarrow> pyval list \<Rightarrow> pyval list option" where
  "existing_point_ids env db ids = (if ids = [] then Some []
     else case scroll_loop (ie_scroll env db ids) [] None of
       None \<Rightarrow> None
     | Some (Inl e) \<Rightarrow> Some []
     | Some (Inr found) \<Rightarrow> Some found)"

subsection \<open>Batches\<close>

function chunked :: "nat \<Rightarrow> 'a list \<Rightarrow> 'a list list" where
  "chunked n xs = (if xs = [] \<or> n = 0 then [] else take n xs # chunked n (drop n xs))"
  by pat_completeness auto
termination by (relation "measure (length \<circ> snd)") auto

declare chunked.simps [simp del]

text \<open>Slices of a list at \<open>range(0, len(xs), step)\<close>.\<close>

definition slices :: "int \<Rightarrow> 'a list \<Rightarrow> 'a list list res" where
  "slices step xs = require (step \<noteq> 0) (ValueErr ''range() arg 3 must not be zero'')
     (Inr (if step < 0 then [] else chunked (nat step) xs))"

record 'db ingest_state =
  ig_db :: 'db
  ig_embedded :: nat
  ig_upserted :: nat
  ig_failed :: nat
  ig_errors :: "str list"

text \<open>\<open>t and t.strip()\<close>.\<close>

fun visible :: "pyval \<Rightarrow> bool res" where
  "visible (VStr s) = Inr (py_strip s \<noteq> [])"
| "visible v = (if truthy v then Inl (AttributeErr ''strip'') else Inr False)"

fun valid_chunks :: "chunk list \<Rightarrow> chunk list res" where
  "valid_chunks [] = Inr []"
| "valid_chunks (c # cs) = bind_res (visible (dict_default c ''text'' (VStr []))) (\<lambda>v.
     bind_res (valid_chunks cs) (\<lambda>vs. Inr (if v then c # vs else vs)))"

definition point_of :: "'db ingest_env \<Rightarrow> chunk \<Rightarrow> vector \<Rightarrow> point res" where
  "point_of env ch v = bind_res (payload_dict (ee_model_name (ie_engine env)) (ie_now env) ch) (\<lambda>d.
     bind_res (chunk_payload_init (given_fields d)) (\<lambda>cp.
     bind_res (as_str (chunk_get cp ''chunk_id'')) (\<lambda>cid.
       Inr \<lparr>po_id = stable_point_id env cid, po_vector = v, po_payload = cp\<rparr>)))"

text \<open>The points of a batch, with the errors of the payloads that were rejected.\<close>

fun build_points :: "'db ingest_env \<Rightarrow> (chunk \<times> vector) list \<Rightarrow> point list \<times> str list" where
  "build_points env [] = ([], [])"
| "build_points env ((ch, v) # rest) = (case build_points env rest of (ps, es) \<Rightarrow>
     (case point_of env ch v of
        Inr p \<Rightarrow> (p # ps, es)
      | Inl e \<Rightarrow> (ps, (''payload build '' @ py_str (chunk_get ch ''chunk_id'') @ '': '' @ err_text e) # es)))"

fun upsert_slices :: "'db ingest_env \<Rightarrow> point list list \<Rightarrow> 'db ingest_state \<Rightarrow> 'db ingest_state" where
  "upsert_slices env [] s = s"
| "upsert_slices env (sub # subs) s = (case ie_upsert env (ig_db s) sub of
       (Inr u, db) \<Rightarrow> upsert_slices env subs (s\<lparr>ig_db := db, ig_upserted := ig_upserted s + length sub\<rparr>)
     | (Inl e, db) \<Rightarrow> upsert_slices env subs (s\<lparr>ig_db := db, ig_failed := ig_failed s + length sub,
           ig_errors := ig_errors s @ [take 500 (err_text e)]\<rparr>))"

definition fail_batch :: "nat \<Rightarrow> py_error \<Rightarrow> 'db ingest_state \<Rightarrow> 'db ingest_state" where
  "fail_batch n e s = s\<lparr>ig_failed := ig_failed s + n, ig_errors := ig_errors s @ [take 500 (err_text e)]\<rparr>"

text \<open>One batch of chunks with visible text. Whatever raises after the embedding fails the whole batch.\<close>

definition ingest_batch :: "'db ingest_env \<Rightarrow> int \<Rightarrow> chunk list \<Rightarrow> 'db ingest_state \<Rightarrow> 'db ingest_state" where
  "ingest_batch env upsert_batch_size valid s =
     (case map_res (\<lambda>c. as_str (dict_default c ''text'' (VStr []))) valid of
        Inl e \<Rightarrow> fail_batch (length valid) e s
      | Inr texts \<Rightarrow> (case encode (ie_engine env) texts of
          Inl e \<Rightarrow> fail_batch (length valid) e s
        | Inr vectors \<Rightarrow> (case build_points env (zip valid vectors) of (points, errs) \<Rightarrow>
            (let s1 = s\<lparr>ig_embedded := ig_embedded s + length valid, ig_failed := ig_failed s + length errs,
                 ig_errors := ig_errors s @ errs\<rparr>
             in case slices upsert_batch_size points of
                  Inl e \<Rightarrow> fail_batch (length valid) e s1
                | Inr subs \<Rightarrow> upsert_slices env subs s1))))"

fun ingest_batches :: "'db ingest_env \<Rightarrow> int \<Rightarrow> chunk list list \<Rightarrow> 'db ingest_state \<Rightarrow> 'db ingest_state res" where
  "ingest_batches env u [] s = Inr s"
| "ingest_batches env u (b # bs) s = bind_res (valid_chunks b) (\<lambda>valid.
     ingest_batches env u bs (if valid = [] then s else ingest_batch env u valid s))"

text \<open>\<open>EmbeddingBatchResult\<close>, without latency.\<close>

record batch_result =
  br_total_requested :: nat
  br_embedded :: nat
  br_skipped_existing :: nat
  br_upserted :: nat
  br_failed :: nat
  br_vector_dim :: int
  br_errors :: "str list"

fun keep_new :: "pyval list \<Rightarrow> chunk list \<Rightarrow> chunk list res" where
  "keep_new existing [] = Inr []"
| "keep_new existing (c # cs) =
     require (hashable (chunk_get c ''chunk_id'')) (TypeErr ''unhashable type'')
     (bind_res (keep_new existing cs) (\<lambda>rest.
       Inr (if chunk_get c ''chunk_id'' \<in> set existing then rest else c # rest)))"

definition chunk_ids_of :: "chunk list \<Rightarrow> pyval list" where
  "chunk_ids_of chunks = filter truthy (map (\<lambda>c. chunk_get c ''chunk_id'') chunks)"

definition ingest_new :: "'db ingest_env \<Rightarrow> 'db \<Rightarrow> chunk list \<Rightarrow> pyval list \<Rightarrow> int \<Rightarrow> (batch_result \<times> 'db) res" where
  "ingest_new env db chunks existing u =
     bind_res (keep_new existing chunks) (\<lambda>to_process.
     bind_res (slices (ie_batch_size env) to_process) (\<lambda>bs.
     bind_res (ingest_batches env u bs
       \<lparr>ig_db = db, ig_embedded = 0, ig_upserted = 0, ig_failed = 0, ig_errors = []\<rparr>) (\<lambda>s.
       Inr (\<lparr>br_total_requested = length chunks, br_embedded = ig_embedded s,
              br_skipped_existing = length chunks - length to_process, br_upserted = ig_upserted s,
              br_failed = ig_failed s, br_vector_dim = vector_dim (ie_engine env),
              br_errors = take 10 (ig_errors s)\<rparr>, ig_db s))))"

definition ingest_chunks ::
  "'db ingest_env \<Rightarrow> 'db \<Rightarrow> chunk list \<Rightarrow> bool \<Rightarrow> int \<Rightarrow> (batch_result \<times> 'db) res option" where
  "ingest_chunks env db chunks skip_existing upsert_batch_size =
     (if chunks = [] then Some (Inr (\<lparr>br_total_requested = 0, br_embedded = 0, br_skipped_existing = 0,
          br_upserted = 0, br_failed = 0, br_vector_dim = vector_dim (ie_engine env), br_errors = []\<rparr>, db))
      else case (if skip_existing then existing_point_ids env db (chunk_ids_of chunks) else Some []) of
        None \<Rightarrow> None
      | Some existing \<Rightarrow> Some (ingest_new env db chunks existing upsert_batch_size))"

subsection \<open>Every chunk is accounted for\<close>

lemma concat_chunked: "0 < n \<Longrightarrow> concat (chunked n xs) = xs"
  by (induction n xs rule: chunked.induct) (subst chunked.simps, auto)

lemma chunked_ne: "[] \<notin> set (chunked n xs)"
  by (induction n xs rule: chunked.induct) (subst chunked.simps, auto)

lemma slices_pos: "0 < n \<Longrightarrow> slices n xs = Inr (chunked (nat n) xs)"
  by (simp add: slices_def)

lemma zero_rows_length: "zero_rows ms vs = Inr ws \<Longrightarrow> length ws = length vs"
  by (induction ms vs arbitrary: ws rule: zero_rows.induct) (auto simp: bind_res_Inr split: if_splits)

text \<open>A transformer that returns one row per text.\<close>

definition row_faithful :: "embedding_engine \<Rightarrow> bool" where
  "row_faithful eng \<longleftrightarrow> (\<forall>texts rows. ee_transform eng texts = Inr rows \<longrightarrow> length rows = length texts)"

lemma encode_length: "row_faithful eng \<Longrightarrow> encode eng texts = Inr vs \<Longrightarrow> length vs = length texts"
  by (auto simp: encode_def row_faithful_def bind_res_Inr dest: zero_rows_length split: if_splits)

lemma build_points_length:
  "build_points env xs = (ps, es) \<Longrightarrow> length ps + length es = length xs"
  by (induction env xs arbitrary: ps es rule: build_points.induct) (auto split: prod.splits sum.splits)

lemma upsert_slices_counts:
  "ig_upserted (upsert_slices env bs s) + ig_failed (upsert_slices env bs s)
     = ig_upserted s + ig_failed s + length (concat bs) \<and>
   ig_embedded (upsert_slices env bs s) = ig_embedded s \<and>
   ig_upserted (upsert_slices env bs s) \<le> ig_upserted s + length (concat bs)"
proof (induction bs arbitrary: s)
  case (Cons sub subs)
  obtain r db where up: "ie_upsert env (ig_db s) sub = (r, db)" by (metis surj_pair)
  show ?case
    using Cons.IH [of "s\<lparr>ig_db := db, ig_upserted := ig_upserted s + length sub\<rparr>"]
      Cons.IH [of "s\<lparr>ig_db := db, ig_failed := ig_failed s + length sub, ig_errors := ig_errors s @ [take 500 (err_text (projl r))]\<rparr>"]
    by (cases r) (simp_all add: up)
qed simp

text \<open>The counters never exceed the chunks seen, and they cover them when no row is missing.\<close>

definition counts_ok :: "bool \<Rightarrow> nat \<Rightarrow> 'db ingest_state \<Rightarrow> bool" where
  "counts_ok faithful n s \<longleftrightarrow> ig_upserted s + ig_failed s \<le> n \<and> ig_upserted s \<le> ig_embedded s \<and> ig_embedded s \<le> n
     \<and> (faithful \<longrightarrow> ig_upserted s + ig_failed s = n)"

lemma ingest_batch_counts:
  assumes ok: "counts_ok f n s" and f: "f \<longrightarrow> row_faithful (ie_engine env)" and u: "0 < u"
  shows "counts_ok f (n + length valid) (ingest_batch env u valid s)"
proof (cases "map_res (\<lambda>c. as_str (dict_default c ''text'' (VStr []))) valid")
  case (Inl e)
  with ok show ?thesis by (simp add: ingest_batch_def fail_batch_def counts_ok_def)
next
  case texts: (Inr texts)
  show ?thesis
  proof (cases "encode (ie_engine env) texts")
    case (Inl e)
    with ok texts show ?thesis by (simp add: ingest_batch_def fail_batch_def counts_ok_def)
  next
    case vectors: (Inr vectors)
    obtain ps es where pts: "build_points env (zip valid vectors) = (ps, es)" by (metis surj_pair)
    define s1 where "s1 = s\<lparr>ig_embedded := ig_embedded s + length valid, ig_failed := ig_failed s + length es,
      ig_errors := ig_errors s @ es\<rparr>"
    let ?subs = "chunked (nat u) ps"
    have eq: "ingest_batch env u valid s = upsert_slices env ?subs s1"
      using texts vectors pts by (simp add: ingest_batch_def s1_def Let_def slices_pos u)
    have sum: "length ps + length es = length (zip valid vectors)" using build_points_length [OF pts] .
    have full: "f \<Longrightarrow> length (zip valid vectors) = length valid"
      using f encode_length vectors map_res_length [OF texts] by fastforce
    have part: "length (zip valid vectors) \<le> length valid" by simp
    have "length (concat ?subs) = length ps" using u by (simp add: concat_chunked)
    with upsert_slices_counts [of env ?subs s1] ok sum full part
    show ?thesis unfolding eq by (auto simp: counts_ok_def s1_def)
  qed
qed

lemma valid_chunks_length: "valid_chunks b = Inr v \<Longrightarrow> length v \<le> length b"
  by (induction b arbitrary: v) (auto simp: bind_res_Inr le_SucI split: if_splits)

definition visible_text :: "chunk \<Rightarrow> bool" where
  "visible_text c \<longleftrightarrow> visible (dict_default c ''text'' (VStr [])) = Inr True"

lemma valid_chunks_all: "list_all visible_text b \<Longrightarrow> valid_chunks b = Inr b"
  by (induction b) (simp_all add: visible_text_def)

lemma ingest_batches_counts:
  assumes "f \<longrightarrow> row_faithful (ie_engine env) \<and> list_all visible_text (concat bs)" and u: "0 < u"
  shows "counts_ok f n s \<Longrightarrow> ingest_batches env u bs s = Inr s' \<Longrightarrow> counts_ok f (n + length (concat bs)) s'"
  using assms(1)
proof (induction bs arbitrary: n s)
  case (Cons b bs)
  from Cons.prems(2) obtain v where v: "valid_chunks b = Inr v"
    and rest: "ingest_batches env u bs (if v = [] then s else ingest_batch env u v s) = Inr s'"
    by (auto simp: bind_res_Inr)
  have "counts_ok f (n + length b) (if v = [] then s else ingest_batch env u v s)"
  proof -
    have full: "f \<Longrightarrow> v = b" using Cons.prems(3) v valid_chunks_all [of b] by simp
    have "counts_ok f (n + length v) (if v = [] then s else ingest_batch env u v s)"
      using Cons.prems(1,3) ingest_batch_counts [of f n s env u v] u by simp
    then show ?thesis using valid_chunks_length [OF v] full by (auto simp: counts_ok_def)
  qed
  from Cons.IH [OF this rest] Cons.prems(3) show ?case by (simp add: add.assoc)
qed simp

lemma keep_new_length: "keep_new ex cs = Inr new \<Longrightarrow> length new \<le> length cs \<and> set new \<subseteq> set cs"
  by (induction ex cs arbitrary: new rule: keep_new.induct) (auto simp: bind_res_Inr split: if_splits)

lemma concat_slices: "slices n xs = Inr bs \<Longrightarrow> concat bs = (if n < 0 then [] else xs)"
  using concat_chunked [of "nat n" xs] by (auto simp: slices_def)

definition account_ok :: "bool \<Rightarrow> nat \<Rightarrow> batch_result \<Rightarrow> bool" where
  "account_ok covered n r \<longleftrightarrow> br_total_requested r = n \<and>
     br_skipped_existing r + br_upserted r + br_failed r \<le> n \<and> br_upserted r \<le> br_embedded r \<and>
     br_skipped_existing r + br_embedded r \<le> n \<and> length (br_errors r) \<le> 10 \<and>
     (covered \<longrightarrow> br_skipped_existing r + br_upserted r + br_failed r = n)"

lemma ingest_new_account:
  assumes res: "ingest_new env db chunks existing u = Inr (r, db')"
    and f: "f \<longrightarrow> row_faithful (ie_engine env) \<and> list_all visible_text chunks \<and> 0 < ie_batch_size env" and u: "0 < u"
  shows "account_ok f (length chunks) r"
proof -
  obtain new bs s where new: "keep_new existing chunks = Inr new" and bs: "slices (ie_batch_size env) new = Inr bs"
    and run: "ingest_batches env u bs
      \<lparr>ig_db = db, ig_embedded = 0, ig_upserted = 0, ig_failed = 0, ig_errors = []\<rparr> = Inr s"
    and r: "r = \<lparr>br_total_requested = length chunks, br_embedded = ig_embedded s,
              br_skipped_existing = length chunks - length new, br_upserted = ig_upserted s,
              br_failed = ig_failed s, br_vector_dim = vector_dim (ie_engine env),
              br_errors = take 10 (ig_errors s)\<rparr>"
    using res by (auto simp: ingest_new_def bind_res_Inr)
  have le: "length new \<le> length chunks" "set new \<subseteq> set chunks" using keep_new_length [OF new] by auto
  have cat: "concat bs = (if ie_batch_size env < 0 then [] else new)" using concat_slices [OF bs] .
  have "counts_ok f (0 + length (concat bs)) s"
    by (rule ingest_batches_counts [OF _ u _ run]) (use f le cat in \<open>auto simp: counts_ok_def list_all_iff\<close>)
  moreover have "f \<Longrightarrow> concat bs = new" using f cat by auto
  moreover have "length (concat bs) \<le> length new" using cat by auto
  ultimately show ?thesis using le(1) by (auto simp: account_ok_def counts_ok_def r)
qed

text \<open>C28. Every chunk is accounted for at most once: with any embedding model, database and clock, the chunks
  skipped, upserted and failed are together at most the chunks requested, those skipped or embedded too,
  and at most ten errors are kept, for a positive size of the upsert batches (64 unless the caller says
  otherwise). When the model returns a row per text, no text is blank and the size of the embedding
  batches is positive too, skipped, upserted and failed add up to all of them.\<close>

theorem ingest_accounts:
  "case ingest_chunks env db chunks skip (int (Suc u)) of
     None \<Rightarrow> skip
   | Some (Inl e) \<Rightarrow> chunks \<noteq> []
   | Some (Inr (r, db')) \<Rightarrow>
       account_ok (row_faithful (ie_engine env) \<and> list_all visible_text chunks \<and> 0 < ie_batch_size env)
         (length chunks) r"
proof -
  have "account_ok (row_faithful (ie_engine env) \<and> list_all visible_text chunks \<and> 0 < ie_batch_size env)
      (length chunks) r" if "ingest_new env db chunks ex (int (Suc u)) = Inr (r, db')" for r db' ex
    using ingest_new_account [OF that] by simp
  then show ?thesis
    by (auto simp: ingest_chunks_def account_ok_def split: option.splits sum.splits)
qed

subsection \<open>A second run is free\<close>

definition payload_id :: "(str \<times> pyval) list \<Rightarrow> str" where
  "payload_id p = (case chunk_get p ''chunk_id'' of VStr t \<Rightarrow> t | _ \<Rightarrow> [])"

definition id_of :: "chunk \<Rightarrow> str" where
  "id_of c = payload_id c"

text \<open>Identifiers without surrounding blanks: the payload strips them, the lookup does not.\<close>

definition clean_id :: "chunk \<Rightarrow> bool" where
  "clean_id c \<longleftrightarrow> chunk_get c ''chunk_id'' = VStr (id_of c) \<and> id_of c \<noteq> [] \<and> py_strip (id_of c) = id_of c"

definition good_point :: "(str \<Rightarrow> str) \<Rightarrow> point \<Rightarrow> bool" where
  "good_point uuid p \<longleftrightarrow> chunk_get (po_payload p) ''chunk_id'' = VStr (payload_id (po_payload p)) \<and>
     payload_id (po_payload p) \<noteq> [] \<and> po_id p = uuid (payload_id (po_payload p))"

lemma point_of_good:
  assumes p: "point_of env c v = Inr p" and c: "clean_id c"
  shows "good_point (ie_uuid5 env) p \<and> payload_id (po_payload p) = id_of c"
proof -
  obtain d cp cid where d: "payload_dict (ee_model_name (ie_engine env)) (ie_now env) c = Inr d"
    and cp: "chunk_payload_init (given_fields d) = Inr cp"
    and cid: "as_str (chunk_get cp ''chunk_id'') = Inr cid"
    and p: "p = \<lparr>po_id = stable_point_id env cid, po_vector = v, po_payload = cp\<rparr>"
    using p by (auto simp: point_of_def bind_res_Inr)
  have "map_of (given_fields d) ''chunk_id'' = Some (VStr (id_of c))"
    using d c by (auto simp: payload_dict_def bind_res_Inr given_fields_def clean_id_def)
  then have "chunk_get cp ''chunk_id'' = VStr (id_of c)"
    using cp c by (auto simp: chunk_payload_init_def bind_res_Inr chunk_payload_def read_field_def check_stripped_def
        chunk_get_def dict_default_def clean_id_def as_str_def)
  with cid c show ?thesis
    by (simp add: good_point_def p payload_id_def stable_point_id_def as_str_def clean_id_def)
qed

lemma build_points_good:
  "build_points env (zip cs vs) = (ps, []) \<Longrightarrow> list_all clean_id cs \<Longrightarrow> length vs = length cs \<Longrightarrow>
   list_all (good_point (ie_uuid5 env)) ps \<and> map (payload_id \<circ> po_payload) ps = map id_of cs"
proof (induction cs arbitrary: vs ps)
  case (Cons c cs)
  then obtain v vs' where vs: "vs = v # vs'" by (cases vs) auto
  obtain ps' es where rest: "build_points env (zip cs vs') = (ps', es)" by (metis surj_pair)
  from Cons.prems(1) obtain p where "point_of env c v = Inr p" "ps = p # ps'" "es = []"
    by (auto simp: vs rest split: sum.splits)
  with Cons.IH [of vs' ps'] Cons.prems(2,3) point_of_good [of env c v p] rest vs show ?case by simp
qed simp

lemma upsert_slices_failed: "ig_failed s \<le> ig_failed (upsert_slices env bs s)"
proof (induction bs arbitrary: s)
  case (Cons b bs)
  obtain r db where up: "ie_upsert env (ig_db s) b = (r, db)" by (metis surj_pair)
  show ?case
    using Cons.IH [of "s\<lparr>ig_db := db, ig_upserted := ig_upserted s + length b\<rparr>"]
      Cons.IH [of "s\<lparr>ig_db := db, ig_failed := ig_failed s + length b, ig_errors := ig_errors s @ [take 500 (err_text (projl r))]\<rparr>"]
    by (cases r) (simp_all add: up)
qed simp

lemma ingest_batch_failed: "ig_failed s \<le> ig_failed (ingest_batch env u valid s)"
proof -
  have "ig_failed s \<le> ig_failed (upsert_slices env bs (s\<lparr>ig_embedded := x, ig_failed := ig_failed s + n, ig_errors := es\<rparr>))"
    for bs x n es
    using upsert_slices_failed [of "s\<lparr>ig_embedded := x, ig_failed := ig_failed s + n, ig_errors := es\<rparr>" env bs] by simp
  then show ?thesis
    by (auto simp: ingest_batch_def fail_batch_def Let_def split: sum.splits prod.splits)
qed

lemma ingest_batches_failed: "ingest_batches env u bs s = Inr s' \<Longrightarrow> ig_failed s \<le> ig_failed s'"
proof (induction bs arbitrary: s)
  case (Cons b bs)
  then obtain v where "ingest_batches env u bs (if v = [] then s else ingest_batch env u v s) = Inr s'"
    by (auto simp: bind_res_Inr)
  from Cons.IH [OF this] show ?case using ingest_batch_failed [of s env u v] by (auto split: if_splits)
qed simp

lemma ingest_batches_returns: "list_all visible_text (concat bs) \<Longrightarrow> \<exists>s'. ingest_batches env u bs s = Inr s'"
proof (induction bs arbitrary: s)
  case (Cons b bs)
  then show ?case by (simp add: valid_chunks_all)
qed simp

lemma chunk_ids_clean: "list_all clean_id chunks \<Longrightarrow> chunk_ids_of chunks = map VStr (map id_of chunks)"
  by (induction chunks) (auto simp: chunk_ids_of_def clean_id_def)

lemma keep_new_clean:
  "list_all clean_id cs \<Longrightarrow> keep_new ex cs = Inr (filter (\<lambda>c. VStr (id_of c) \<notin> set ex) cs)"
  by (induction cs) (simp_all add: clean_id_def)

text \<open>The pages of a scroll, each linked to the next by the offset it returns.\<close>

inductive pages ::
  "(str option \<Rightarrow> ((str \<times> pyval) list option list \<times> str option) res) \<Rightarrow> str option
   \<Rightarrow> (str \<times> pyval) list option list \<Rightarrow> bool" for scroll where
  last_page: "scroll offset = Inr (ps, None) \<Longrightarrow> pages scroll offset ps"
| next_page: "scroll offset = Inr (ps, Some offset') \<Longrightarrow> pages scroll (Some offset') rest \<Longrightarrow> pages scroll offset (ps @ rest)"

definition page_id :: "(str \<times> pyval) list option \<Rightarrow> pyval" where
  "page_id p = chunk_get (case p of None \<Rightarrow> [] | Some d \<Rightarrow> d) ''chunk_id''"

lemma add_page_ids:
  "\<forall>p \<in> set ps. \<exists>t. page_id p = VStr t \<and> t \<noteq> [] \<Longrightarrow>
   \<exists>found'. add_page ps found = Inr found' \<and> set found' = page_id ` set ps \<union> set found"
proof (induction ps arbitrary: found)
  case (Cons p ps)
  then have "add_found p found = Inr (page_id p # found)" by (auto simp: add_found_def page_id_def Let_def)
  with Cons.IH [of "page_id p # found"] Cons.prems show ?case by auto
qed simp

lemma scroll_pages:
  "pages scroll offset ps \<Longrightarrow> \<forall>p \<in> set ps. \<exists>t. page_id p = VStr t \<and> t \<noteq> [] \<Longrightarrow>
   \<exists>found'. scroll_loop scroll found offset = Some (Inr found') \<and> set found' = page_id ` set ps \<union> set found"
proof (induction arbitrary: found rule: pages.induct)
  case (last_page offset ps)
  then show ?case using add_page_ids [of ps found] by (auto simp: scroll_loop.simps [of scroll found offset])
next
  case (next_page offset ps offset' rest)
  obtain found1 where f1: "add_page ps found = Inr found1" "set found1 = page_id ` set ps \<union> set found"
    using add_page_ids [of ps found] next_page.prems by auto
  obtain found2 where f2: "scroll_loop scroll found1 (Some offset') = Some (Inr found2)"
    "set found2 = page_id ` set rest \<union> set found1"
    using next_page.IH [of found1] next_page.prems by auto
  show ?case using next_page.hyps(1) f1 f2 by (auto simp: scroll_loop.simps [of scroll found offset])
qed

text \<open>What a collection holds, by point identifier, and the identifiers of its chunks. In a collection that only
  the pipeline has written every payload names its chunk and lies under the chunk's point identifier.\<close>

type_synonym content = "str \<Rightarrow> (str \<times> pyval) list option"

definition chunk_ids_in :: "content \<Rightarrow> str set" where
  "chunk_ids_in m = payload_id ` ran m"

definition content_ok :: "(str \<Rightarrow> str) \<Rightarrow> content \<Rightarrow> bool" where
  "content_ok uuid m \<longleftrightarrow> (\<forall>k p. m k = Some p \<longrightarrow>
     chunk_get p ''chunk_id'' = VStr (payload_id p) \<and> payload_id p \<noteq> [] \<and> k = uuid (payload_id p))"

definition put_point :: "content \<Rightarrow> point \<Rightarrow> content" where
  "put_point m p = m(po_id p \<mapsto> po_payload p)"

lemma put_point_ok:
  assumes m: "content_ok uuid m" and p: "good_point uuid p"
    and inj: "inj_on uuid (insert (payload_id (po_payload p)) (chunk_ids_in m))"
  shows "content_ok uuid (put_point m p) \<and> chunk_ids_in (put_point m p) = insert (payload_id (po_payload p)) (chunk_ids_in m)"
proof
  show "content_ok uuid (put_point m p)" using m p by (auto simp: content_ok_def put_point_def good_point_def)
  have "payload_id q = payload_id (po_payload p)" if "m (po_id p) = Some q" for q
  proof -
    have "uuid (payload_id q) = uuid (payload_id (po_payload p))"
      using m p that by (metis content_ok_def good_point_def)
    moreover have "payload_id q \<in> chunk_ids_in m" using that by (auto simp: chunk_ids_in_def ran_def)
    ultimately show ?thesis using inj_onD [OF inj, of "payload_id q" "payload_id (po_payload p)"] by simp
  qed
  then show "chunk_ids_in (put_point m p) = insert (payload_id (po_payload p)) (chunk_ids_in m)"
    by (auto simp: chunk_ids_in_def put_point_def ran_def image_iff) metis+
qed

lemma put_points_ok:
  "content_ok uuid m \<Longrightarrow> list_all (good_point uuid) ps \<Longrightarrow>
   inj_on uuid (chunk_ids_in m \<union> (payload_id \<circ> po_payload) ` set ps) \<Longrightarrow>
   content_ok uuid (foldl put_point m ps) \<and>
   chunk_ids_in (foldl put_point m ps) = chunk_ids_in m \<union> (payload_id \<circ> po_payload) ` set ps"
proof (induction ps arbitrary: m)
  case (Cons p ps)
  have "inj_on uuid (insert (payload_id (po_payload p)) (chunk_ids_in m))"
    by (rule inj_on_subset [OF Cons.prems(3)]) auto
  from put_point_ok [OF Cons.prems(1) _ this] Cons.prems(2)
  have one: "content_ok uuid (put_point m p)"
    "chunk_ids_in (put_point m p) = insert (payload_id (po_payload p)) (chunk_ids_in m)" by simp_all
  have "inj_on uuid (chunk_ids_in (put_point m p) \<union> (payload_id \<circ> po_payload) ` set ps)"
    unfolding one(2) by (rule inj_on_subset [OF Cons.prems(3)]) auto
  from Cons.IH [OF one(1) _ this] Cons.prems(2) one(2) show ?case by simp
qed simp

text \<open>
  What the pipeline relies on of the client. A scroll with the filter \<open>MatchAny\<close> ends, and its pages
  together show the chunk identifiers of the matching points, however the store splits them; an upsert
  either overwrites by point identifier, point after point, or raises, in which case nothing is known
  of the collection.
\<close>

locale vector_store =
  fixes env :: "'db ingest_env" and points :: "'db \<Rightarrow> content"
  assumes scrolls: "\<exists>ps. pages (ie_scroll env db ids) None ps \<and>
      page_id ` set ps = {i \<in> (\<lambda>p. chunk_get p ''chunk_id'') ` ran (points db). i \<in> set ids}"
    and upserts: "case ie_upsert env db new of (Inl e, db') \<Rightarrow> True
      | (Inr u, db') \<Rightarrow> points db' = foldl put_point (points db) new"
begin

abbreviation ids_in :: "'db \<Rightarrow> str set" where
  "ids_in db \<equiv> chunk_ids_in (points db)"

abbreviation ok :: "'db \<Rightarrow> bool" where
  "ok db \<equiv> content_ok (ie_uuid5 env) (points db)"

lemma finds:
  assumes "ok db"
  shows "\<exists>found. existing_point_ids env db (map VStr ids) = Some found \<and> set found = VStr ` (set ids \<inter> ids_in db)"
proof (cases "ids = []")
  case False
  obtain ps where ps: "pages (ie_scroll env db (map VStr ids)) None ps"
    "page_id ` set ps = {i \<in> (\<lambda>p. chunk_get p ''chunk_id'') ` ran (points db). i \<in> set (map VStr ids)}"
    using scrolls by blast
  have held: "chunk_get p ''chunk_id'' = VStr (payload_id p) \<and> payload_id p \<noteq> []" if "p \<in> ran (points db)" for p
    using assms that by (auto simp: content_ok_def ran_def)
  then have all: "(\<lambda>p. chunk_get p ''chunk_id'') ` ran (points db) = VStr ` ids_in db"
    unfolding chunk_ids_in_def image_image by (intro image_cong) auto
  have "\<forall>p \<in> set ps. \<exists>t. page_id p = VStr t \<and> t \<noteq> []"
  proof
    fix p assume "p \<in> set ps"
    then have "page_id p \<in> (\<lambda>p. chunk_get p ''chunk_id'') ` ran (points db)" using ps(2) by blast
    then show "\<exists>t. page_id p = VStr t \<and> t \<noteq> []" using held by auto
  qed
  from scroll_pages [OF ps(1) this, of "[]"] obtain found where
    "scroll_loop (ie_scroll env db (map VStr ids)) [] None = Some (Inr found)" "set found = page_id ` set ps" by auto
  moreover have "page_id ` set ps = VStr ` (set ids \<inter> ids_in db)" unfolding ps(2) all by auto
  ultimately show ?thesis using False by (auto simp: existing_point_ids_def)
qed (simp add: existing_point_ids_def)

lemma upsert_slices_stores:
  "ok (ig_db s) \<Longrightarrow> list_all (list_all (good_point (ie_uuid5 env))) bs \<Longrightarrow> [] \<notin> set bs \<Longrightarrow>
   inj_on (ie_uuid5 env) (ids_in (ig_db s) \<union> (payload_id \<circ> po_payload) ` set (concat bs)) \<Longrightarrow>
   ig_failed s < ig_failed (upsert_slices env bs s) \<or>
   ok (ig_db (upsert_slices env bs s)) \<and> ig_failed (upsert_slices env bs s) = ig_failed s \<and>
   ids_in (ig_db (upsert_slices env bs s)) = ids_in (ig_db s) \<union> (payload_id \<circ> po_payload) ` set (concat bs)"
proof (induction bs arbitrary: s)
  case (Cons b bs)
  obtain out db where up: "ie_upsert env (ig_db s) b = (out, db)" by (metis surj_pair)
  show ?case
  proof (cases out)
    case (Inl e)
    let ?s = "s\<lparr>ig_db := db, ig_failed := ig_failed s + length b, ig_errors := ig_errors s @ [take 500 (err_text e)]\<rparr>"
    have "ig_failed s < ig_failed ?s" using Cons.prems(3) by auto
    also have "\<dots> \<le> ig_failed (upsert_slices env bs ?s)" by (rule upsert_slices_failed)
    finally show ?thesis using up Inl by simp
  next
    case (Inr u)
    let ?s = "s\<lparr>ig_db := db, ig_upserted := ig_upserted s + length b\<rparr>"
    have db: "points db = foldl put_point (points (ig_db s)) b" using upserts [of "ig_db s" b] up Inr by simp
    have "inj_on (ie_uuid5 env) (ids_in (ig_db s) \<union> (payload_id \<circ> po_payload) ` set b)"
      by (rule inj_on_subset [OF Cons.prems(4)]) auto
    then have one: "ok db" "ids_in db = ids_in (ig_db s) \<union> (payload_id \<circ> po_payload) ` set b"
      using put_points_ok [OF Cons.prems(1), of b] Cons.prems(2) unfolding db by simp_all
    have "inj_on (ie_uuid5 env) (ids_in db \<union> (payload_id \<circ> po_payload) ` set (concat bs))"
      unfolding one(2) by (rule inj_on_subset [OF Cons.prems(4)]) auto
    then have inj: "inj_on (ie_uuid5 env) (ids_in (ig_db ?s) \<union> (payload_id \<circ> po_payload) ` set (concat bs))" by simp
    have run: "upsert_slices env (b # bs) s = upsert_slices env bs ?s" "ig_failed s = ig_failed ?s" using up Inr by simp_all
    have ids: "ids_in (ig_db s) \<union> (payload_id \<circ> po_payload) ` set (concat (b # bs))
        = ids_in (ig_db ?s) \<union> (payload_id \<circ> po_payload) ` set (concat bs)"
      using one(2) by (simp add: image_Un Un_assoc del: set_concat)
    have "ok (ig_db ?s)" "list_all (list_all (good_point (ie_uuid5 env))) bs" "[] \<notin> set bs"
      using one(1) Cons.prems(2,3) by simp_all
    from Cons.IH [OF this inj] show ?thesis unfolding run(1) ids by (simp only: run(2))
  qed
qed simp

lemma ingest_batch_stores:
  assumes faithful: "row_faithful (ie_engine env)" and u: "0 < u" and clean: "list_all clean_id valid"
    and s: "ok (ig_db s)" and ne: "valid \<noteq> []"
    and inj: "inj_on (ie_uuid5 env) (ids_in (ig_db s) \<union> id_of ` set valid)"
  shows "ig_failed s < ig_failed (ingest_batch env u valid s) \<or>
    ig_failed (ingest_batch env u valid s) = ig_failed s \<and> ok (ig_db (ingest_batch env u valid s)) \<and>
    ids_in (ig_db (ingest_batch env u valid s)) = ids_in (ig_db s) \<union> id_of ` set valid"
proof (cases "map_res (\<lambda>c. as_str (dict_default c ''text'' (VStr []))) valid")
  case (Inl e)
  with ne show ?thesis by (simp add: ingest_batch_def fail_batch_def)
next
  case texts: (Inr texts)
  show ?thesis
  proof (cases "encode (ie_engine env) texts")
    case (Inl e)
    with ne texts show ?thesis by (simp add: ingest_batch_def fail_batch_def)
  next
    case vectors: (Inr vectors)
    have len: "length vectors = length valid"
      using encode_length [OF faithful vectors] map_res_length [OF texts] by simp
    obtain ps es where pts: "build_points env (zip valid vectors) = (ps, es)" by (metis surj_pair)
    define s1 where "s1 = s\<lparr>ig_embedded := ig_embedded s + length valid, ig_failed := ig_failed s + length es,
      ig_errors := ig_errors s @ es\<rparr>"
    have eq: "ingest_batch env u valid s = upsert_slices env (chunked (nat u) ps) s1"
      using texts vectors pts by (simp add: ingest_batch_def s1_def Let_def slices_pos u)
    show ?thesis
    proof (cases "es = []")
      case True
      have good: "list_all (good_point (ie_uuid5 env)) ps" "map (payload_id \<circ> po_payload) ps = map id_of valid"
        using build_points_good [OF pts [unfolded True] clean len] by simp_all
      have ids: "(payload_id \<circ> po_payload) ` set ps = id_of ` set valid" using arg_cong [OF good(2), of set] by simp
      have cat: "concat (chunked (nat u) ps) = ps" using u by (simp add: concat_chunked)
      then have "list_all (list_all (good_point (ie_uuid5 env))) (chunked (nat u) ps)"
        using good(1) by (metis (no_types, lifting) UN_I list_all_iff set_concat)
      moreover have kept: "ig_db s1 = ig_db s" "ig_failed s1 = ig_failed s" by (simp_all add: s1_def True)
      moreover have "inj_on (ie_uuid5 env) (ids_in (ig_db s1) \<union> (payload_id \<circ> po_payload) ` set (concat (chunked (nat u) ps)))"
        unfolding cat ids kept by (rule inj)
      moreover have "ok (ig_db s1)" unfolding kept by (rule s)
      ultimately show ?thesis
        using upsert_slices_stores [of s1 "chunked (nat u) ps", OF _ _ chunked_ne] unfolding eq cat ids kept by blast
    next
      case False
      then have "ig_failed s < ig_failed s1" by (simp add: s1_def)
      also have "\<dots> \<le> ig_failed (ingest_batch env u valid s)" unfolding eq by (rule upsert_slices_failed)
      finally show ?thesis by simp
    qed
  qed
qed

lemma ingest_batches_stores:
  assumes "row_faithful (ie_engine env)" "0 < u"
  shows "ingest_batches env u bs s = Inr s' \<Longrightarrow> ok (ig_db s) \<Longrightarrow> list_all clean_id (concat bs) \<Longrightarrow>
    list_all visible_text (concat bs) \<Longrightarrow> inj_on (ie_uuid5 env) (ids_in (ig_db s) \<union> id_of ` set (concat bs)) \<Longrightarrow>
    ig_failed s < ig_failed s' \<or>
    ig_failed s' = ig_failed s \<and> ok (ig_db s') \<and> ids_in (ig_db s') = ids_in (ig_db s) \<union> id_of ` set (concat bs)"
proof (induction bs arbitrary: s)
  case (Cons b bs)
  let ?s = "if b = [] then s else ingest_batch env u b s"
  have vis: "list_all visible_text b" "list_all visible_text (concat bs)" "list_all clean_id b" "list_all clean_id (concat bs)"
    using Cons.prems(3,4) by simp_all
  have run: "ingest_batches env u bs ?s = Inr s'" using Cons.prems(1) valid_chunks_all [OF vis(1)] by simp
  have inj: "inj_on (ie_uuid5 env) (ids_in (ig_db s) \<union> id_of ` set b)"
    by (rule inj_on_subset [OF Cons.prems(5)]) auto
  consider "ig_failed s < ig_failed ?s" | "ig_failed ?s = ig_failed s" "ok (ig_db ?s)"
    "ids_in (ig_db ?s) = ids_in (ig_db s) \<union> id_of ` set b"
    using ingest_batch_stores [OF assms vis(3) Cons.prems(2) _ inj] Cons.prems(2) by (cases "b = []") auto
  then show ?case
  proof cases
    case 1
    with ingest_batches_failed [OF run] show ?thesis by simp
  next
    case 2
    have "inj_on (ie_uuid5 env) (ids_in (ig_db ?s) \<union> id_of ` set (concat bs))"
      unfolding 2(3) by (rule inj_on_subset [OF Cons.prems(5)]) auto
    with Cons.IH [OF run 2(2) vis(4,2)] 2 show ?thesis by (simp add: image_Un Un_assoc del: set_concat)
  qed
qed simp

lemma ingest_returns:
  assumes "ok db" "list_all clean_id chunks" "list_all visible_text chunks" "0 < ie_batch_size env"
  shows "\<exists>r db'. ingest_chunks env db chunks True u = Some (Inr (r, db'))"
proof -
  obtain found where found: "existing_point_ids env db (chunk_ids_of chunks) = Some found"
    using finds [OF assms(1), of "map id_of chunks"] unfolding chunk_ids_clean [OF assms(2)] by auto
  have "list_all visible_text (filter P chunks)" for P using assms(3) by (auto simp: list_all_iff)
  then have "list_all visible_text (concat (chunked (nat (ie_batch_size env)) (filter P chunks)))" for P
    using assms(4) by (simp add: concat_chunked)
  from ingest_batches_returns [OF this] obtain s where
    "ingest_batches env u (chunked (nat (ie_batch_size env)) (filter (\<lambda>c. VStr (id_of c) \<notin> set found) chunks))
      \<lparr>ig_db = db, ig_embedded = 0, ig_upserted = 0, ig_failed = 0, ig_errors = []\<rparr> = Inr s" by blast
  then show ?thesis
    using found keep_new_clean [OF assms(2)] assms(4)
    by (simp add: ingest_chunks_def ingest_new_def slices_pos)
qed

lemma second_run:
  assumes first: "ingest_chunks env db chunks True (int (Suc u)) = Some (Inr (r, db'))" and db: "ok db"
    and eng: "row_faithful (ie_engine env)" and size: "0 < ie_batch_size env"
    and clean: "list_all clean_id chunks" and vis: "list_all visible_text chunks" and fine: "br_failed r = 0"
    and ne: "chunks \<noteq> []" and inj: "inj_on (ie_uuid5 env) (ids_in db \<union> id_of ` set chunks)"
  shows "ok db' \<and> ids_in db' = ids_in db \<union> id_of ` set chunks \<and>
    ingest_chunks env db' chunks True v = Some (Inr (\<lparr>br_total_requested = length chunks, br_embedded = 0,
      br_skipped_existing = length chunks, br_upserted = 0, br_failed = 0,
      br_vector_dim = vector_dim (ie_engine env), br_errors = []\<rparr>, db'))"
proof -
  note ids = chunk_ids_clean [OF clean] and keep = keep_new_clean [OF clean]
  obtain found where found: "existing_point_ids env db (chunk_ids_of chunks) = Some found"
    "set found = VStr ` (id_of ` set chunks \<inter> ids_in db)"
    using finds [OF db, of "map id_of chunks"] unfolding ids by auto
  let ?new = "filter (\<lambda>c. VStr (id_of c) \<notin> set found) chunks"
  obtain s where run: "ingest_batches env (int (Suc u)) (chunked (nat (ie_batch_size env)) ?new)
      \<lparr>ig_db = db, ig_embedded = 0, ig_upserted = 0, ig_failed = 0, ig_errors = []\<rparr> = Inr s"
    "br_failed r = ig_failed s" "db' = ig_db s"
    using first found(1) ne keep size
    by (auto simp: ingest_chunks_def ingest_new_def bind_res_Inr slices_pos)
  have cat: "concat (chunked (nat (ie_batch_size env)) ?new) = ?new" using size by (simp add: concat_chunked)
  have sub: "inj_on (ie_uuid5 env) (ids_in db \<union> id_of ` set ?new)" by (rule inj_on_subset [OF inj]) auto
  have "list_all clean_id ?new" "list_all visible_text ?new" using clean vis by (auto simp: list_all_iff)
  then have "ok db' \<and> ids_in db' = ids_in db \<union> id_of ` set ?new"
    using ingest_batches_stores [OF eng _ run(1)] db fine sub unfolding cat run(2,3) by simp
  moreover have "id_of ` set ?new \<union> ids_in db = ids_in db \<union> id_of ` set chunks" using found(2) by auto
  ultimately have db': "ok db'" "ids_in db' = ids_in db \<union> id_of ` set chunks" by auto
  obtain found' where found': "existing_point_ids env db' (chunk_ids_of chunks) = Some found'"
    "set found' = VStr ` (id_of ` set chunks \<inter> ids_in db')"
    using finds [OF db'(1), of "map id_of chunks"] unfolding ids by auto
  have none: "keep_new found' chunks = Inr []"
    using keep [of found'] found'(2) db'(2) by (simp add: filter_empty_conv)
  have "chunked n ([] :: chunk list) = []" for n by (subst chunked.simps) simp
  with db' found'(1) none ne size show ?thesis
    by (simp add: ingest_chunks_def ingest_new_def slices_pos)
qed

end

subsection \<open>A store in memory\<close>

text \<open>The collection as a dictionary from point identifiers to payloads. It is no model of code of the
  repository and shows only that the interface can be met: a scroll gives one point per page, the offset
  counts the points seen, and an upsert overwrites by identifier. Identifiers of different chunks differ.\<close>

type_synonym memory_db = "(str \<times> (str \<times> pyval) list) list"

definition memory_scroll ::
  "memory_db \<Rightarrow> pyval list \<Rightarrow> str option \<Rightarrow> ((str \<times> pyval) list option list \<times> str option) res" where
  "memory_scroll db ids offset =
     (let ps = filter (\<lambda>p. chunk_get p ''chunk_id'' \<in> set ids) (map (the \<circ> map_of db) (remdups (map fst db)));
          seen = (case offset of None \<Rightarrow> 0 | Some o' \<Rightarrow> length o')
      in Inr (map Some (take 1 (drop seen ps)),
              if Suc seen < length ps then Some (replicate (Suc seen) CHR ''.'') else None))"

definition memory_upsert :: "memory_db \<Rightarrow> point list \<Rightarrow> unit res \<times> memory_db" where
  "memory_upsert db ps = (Inr (), foldl (\<lambda>d p. AList.update (po_id p) (po_payload p) d) db ps)"

definition memory_env :: "embedding_engine \<Rightarrow> str \<Rightarrow> int \<Rightarrow> memory_db ingest_env" where
  "memory_env eng now batch_size = \<lparr>ie_engine = eng, ie_scroll = memory_scroll, ie_upsert = memory_upsert,
     ie_uuid5 = (\<lambda>t. ''urn:'' @ t), ie_now = now, ie_batch_size = batch_size\<rparr>"

lemma memory_pages:
  fixes db :: memory_db and ids :: "pyval list"
  defines "ps \<equiv> filter (\<lambda>p. chunk_get p ''chunk_id'' \<in> set ids) (map (the \<circ> map_of db) (remdups (map fst db)))"
  shows "seen < length ps \<Longrightarrow> pages (memory_scroll db ids) (Some (replicate seen CHR ''.'')) (map Some (drop seen ps))"
proof (induction "length ps - seen" arbitrary: seen rule: less_induct)
  case less
  then obtain p rest where drop: "drop seen ps = p # rest" by (metis Cons_nth_drop_Suc)
  then have rest: "rest = drop (Suc seen) ps" by (metis drop_Suc list.sel(3) tl_drop)
  show ?case
  proof (cases "Suc seen < length ps")
    case True
    have "pages (memory_scroll db ids) (Some (replicate (Suc seen) CHR ''.'')) (map Some (drop (Suc seen) ps))"
      using less.hyps [of "Suc seen"] less.prems True by simp
    then have "pages (memory_scroll db ids) (Some (replicate seen CHR ''.'')) ([Some p] @ map Some (drop (Suc seen) ps))"
      using True drop by (intro next_page) (simp_all add: memory_scroll_def ps_def [symmetric])
    then show ?thesis using drop rest by simp
  next
    case False
    then have "rest = []" using rest by simp
    then show ?thesis using drop False by (intro last_page) (simp add: memory_scroll_def ps_def [symmetric])
  qed
qed

lemma pages_same: "scroll p = scroll q \<Longrightarrow> pages scroll q ps \<Longrightarrow> pages scroll p ps"
  by (erule pages.cases) (auto intro: pages.intros)

lemma image_filter_mem: "f ` {p \<in> A. f p \<in> B} = {i \<in> f ` A. i \<in> B}"
  by auto

lemma memory_scrolls:
  "\<exists>ps. pages (memory_scroll db ids) None ps \<and>
     page_id ` set ps = {i \<in> (\<lambda>p. chunk_get p ''chunk_id'') ` ran (map_of db). i \<in> set ids}"
proof -
  define ps where "ps = filter (\<lambda>p. chunk_get p ''chunk_id'' \<in> set ids) (map (the \<circ> map_of db) (remdups (map fst db)))"
  have scroll: "pages (memory_scroll db ids) None (map Some ps)"
    if "pages (memory_scroll db ids) (Some (replicate 0 CHR ''.'')) (map Some ps)"
    using pages_same [OF _ that, of None] by (simp add: memory_scroll_def)
  have "pages (memory_scroll db ids) (Some (replicate 0 CHR ''.'')) (map Some ps)"
  proof (cases "ps = []")
    case True
    then show ?thesis by (intro last_page) (simp add: memory_scroll_def ps_def [symmetric])
  next
    case False
    then show ?thesis using memory_pages [of 0 ids db] unfolding ps_def [symmetric] by simp
  qed
  moreover have "ran (map_of db) = set (map (the \<circ> map_of db) (remdups (map fst db)))"
  proof -
    have "ran (map_of db) = (the \<circ> map_of db) ` dom (map_of db)" by (force simp: ran_def dom_def image_iff)
    then show ?thesis by (simp add: dom_map_of_conv_image_fst)
  qed
  then have "set ps = {p \<in> ran (map_of db). chunk_get p ''chunk_id'' \<in> set ids}"
    unfolding ps_def set_filter by (simp only:)
  then have "page_id ` set (map Some ps) = {i \<in> (\<lambda>p. chunk_get p ''chunk_id'') ` ran (map_of db). i \<in> set ids}"
    using image_filter_mem [of "\<lambda>p. chunk_get p ''chunk_id''" "ran (map_of db)" "set ids"]
    by (simp only: set_map image_image page_id_def option.case)
  ultimately show ?thesis using scroll by blast
qed

lemma memory_upserts: "map_of (foldl (\<lambda>d p. AList.update (po_id p) (po_payload p) d) db new) = foldl put_point (map_of db) new"
  by (induction new arbitrary: db) (simp_all add: put_point_def update_conv')

interpretation memory: vector_store "memory_env eng now b" map_of
proof
  show "\<exists>ps. pages (ie_scroll (memory_env eng now b) db ids) None ps \<and>
      page_id ` set ps = {i \<in> (\<lambda>p. chunk_get p ''chunk_id'') ` ran (map_of db). i \<in> set ids}" for db ids
    using memory_scrolls by (simp add: memory_env_def)
  show "case ie_upsert (memory_env eng now b) db new of (Inl e, db') \<Rightarrow> True
      | (Inr u, db') \<Rightarrow> map_of db' = foldl put_point (map_of db) new" for db new
    by (simp add: memory_env_def memory_upsert_def memory_upserts)
qed

text \<open>C29. A second run is free. The store may split a scroll into pages as it likes, refuse an upsert, and
  otherwise overwrites by point identifier; the collection holds what the pipeline wrote, and the
  identifiers of the chunks in it and in the run have different point identifiers; the embedding model
  gives one vector per text, and both batch sizes are positive. Then a run over chunks with clean
  identifiers and visible text returns, and if nothing failed in it, the collection holds the
  chunks of the run beside those it held, and the same run again finds them on whatever page they are,
  skips every chunk, embeds and upserts nothing and leaves the store as it is.\<close>

theorem ingest_idempotent:
  assumes "vector_store env points" and "content_ok (ie_uuid5 env) (points db)"
    and "inj_on (ie_uuid5 env) (chunk_ids_in (points db) \<union> id_of ` set chunks)"
    and "row_faithful (ie_engine env)" and "0 < ie_batch_size env"
    and "list_all clean_id chunks" and "list_all visible_text chunks" and "chunks \<noteq> []"
  shows "case ingest_chunks env db chunks True (int (Suc u)) of
       Some (Inr (r, db')) \<Rightarrow>
         if br_failed r = 0 then chunk_ids_in (points db') = chunk_ids_in (points db) \<union> id_of ` set chunks \<and>
           ingest_chunks env db' chunks True (int (Suc u)) =
             Some (Inr (\<lparr>br_total_requested = length chunks, br_embedded = 0, br_skipped_existing = length chunks,
               br_upserted = 0, br_failed = 0, br_vector_dim = vector_dim (ie_engine env), br_errors = []\<rparr>, db'))
         else br_failed r \<le> length chunks
     | _ \<Rightarrow> False"
proof -
  obtain r db' where run: "ingest_chunks env db chunks True (int (Suc u)) = Some (Inr (r, db'))"
    using vector_store.ingest_returns [OF assms(1,2,6,7,5)] by blast
  have "account_ok False (length chunks) r"
    using run ingest_new_account [of env db chunks _ "int (Suc u)" r db' False] assms(8)
    by (auto simp: ingest_chunks_def split: option.splits)
  then have "br_failed r \<le> length chunks" by (simp add: account_ok_def)
  with vector_store.second_run [OF assms(1) run assms(2,4,5,6,7) _ assms(8,3)] show ?thesis
    by (simp add: run del: of_nat_Suc)
qed

text \<open>Two chunks in a store that shows one point per page.\<close>

definition unit_engine :: embedding_engine where
  "unit_engine = \<lparr>ee_model_name = [], ee_transform = (\<lambda>ts. Inr (map (\<lambda>t. [1]) ts)), ee_reported_dim = Some 1\<rparr>"

definition two_chunks :: "chunk list" where
  "two_chunks = [[(''chunk_id'', VStr ''c1''), (''text'', VStr ''check seal'')],
     [(''chunk_id'', VStr ''c2''), (''text'', VStr ''stop pump'')]]"

theorem ingest_idempotent_witness:
  "case ingest_chunks (memory_env unit_engine [] 2) [] two_chunks True 1 of
     Some (Inr (r, db')) \<Rightarrow> chunk_ids_in (map_of db') = {''c1'', ''c2''} \<and>
       ingest_chunks (memory_env unit_engine [] 2) db' two_chunks True 1 =
         Some (Inr (\<lparr>br_total_requested = 2, br_embedded = 0, br_skipped_existing = 2,
           br_upserted = 0, br_failed = 0, br_vector_dim = 1, br_errors = []\<rparr>, db'))
   | _ \<Rightarrow> False"
proof -
  let ?env = "memory_env unit_engine [] 2"
  have env: "ie_uuid5 ?env = (\<lambda>t. ''urn:'' @ t)" "ie_engine ?env = unit_engine" "ie_batch_size ?env = 2"
    by (simp_all add: memory_env_def)
  have "content_ok (ie_uuid5 ?env) (map_of [])" by (simp add: content_ok_def)
  moreover have "inj_on (ie_uuid5 ?env) A" for A by (simp add: env inj_on_def)
  moreover have "row_faithful (ie_engine ?env)" unfolding env by (auto simp: row_faithful_def unit_engine_def)
  moreover have "0 < ie_batch_size ?env" by (simp add: env)
  moreover have "list_all clean_id two_chunks" "list_all visible_text two_chunks" "two_chunks \<noteq> []" by code_simp+
  ultimately have run: "case ingest_chunks ?env [] two_chunks True (int (Suc 0)) of
       Some (Inr (r, db')) \<Rightarrow>
         if br_failed r = 0 then chunk_ids_in (map_of db') = chunk_ids_in (map_of []) \<union> id_of ` set two_chunks \<and>
           ingest_chunks ?env db' two_chunks True (int (Suc 0)) =
             Some (Inr (\<lparr>br_total_requested = length two_chunks, br_embedded = 0, br_skipped_existing = length two_chunks,
               br_upserted = 0, br_failed = 0, br_vector_dim = vector_dim (ie_engine ?env), br_errors = []\<rparr>, db'))
         else br_failed r \<le> length two_chunks
     | _ \<Rightarrow> False"
    by (intro ingest_idempotent [OF memory.vector_store_axioms])
  have none: "existing_point_ids ?env [] ids = Some []" for ids
    by (simp add: existing_point_ids_def memory_env_def memory_scroll_def scroll_loop.simps [of _ _ None])
  have two: "(two_chunks = []) = False" "id_of ` set two_chunks = {''c1'', ''c2''}" "length two_chunks = 2"
    "vector_dim unit_engine = 1" by code_simp+
  have "case ingest_new ?env [] two_chunks [] 1 of Inr (r, db') \<Rightarrow> br_failed r = 0 | _ \<Rightarrow> False" by code_simp
  then obtain r db' where new: "ingest_new ?env [] two_chunks [] 1 = Inr (r, db')" "br_failed r = 0"
    by (auto split: sum.splits)
  have "ingest_chunks ?env [] two_chunks True 1 = Some (Inr (r, db'))"
    by (simp only: ingest_chunks_def if_True if_False none option.case two(1) new(1))
  moreover have "chunk_ids_in (map_of []) = {}" by (simp add: chunk_ids_in_def)
  ultimately show ?thesis using run new(2) by (simp add: env two)
qed

text \<open>An identifier with surrounding blanks is stored without them, and never found again.\<close>

lemma blank_id_not_found:
  "existing_point_ids (memory_env eng now b) [(''urn:c1'', [(''chunk_id'', VStr ''c1'')])] [VStr '' c1''] = Some []"
  by (simp add: existing_point_ids_def memory_env_def memory_scroll_def scroll_loop.simps [of _ _ None]
      chunk_get_def dict_default_def)

text \<open>A run of the pipeline on one chunk.\<close>

lemma ingest_example:
  "ingest_chunks (memory_env \<lparr>ee_model_name = [], ee_transform = (\<lambda>ts. Inr (map (\<lambda>t. [1]) ts)), ee_reported_dim = Some 1\<rparr> [] 2)
     [] [[(''chunk_id'', VStr ''c1''), (''text'', VStr ''check seal'')]] False 64 =
   Some (Inr (\<lparr>br_total_requested = 1, br_embedded = 1, br_skipped_existing = 0, br_upserted = 1, br_failed = 0,
     br_vector_dim = 1, br_errors = []\<rparr>,
     [(''urn:c1'', [(''chunk_id'', VStr ''c1''), (''document_id'', VStr ''unknown''), (''document_type'', VStr ''MANUAL''),
       (''asset_type'', VNone), (''section_title'', VNone), (''source_filename'', VNone), (''chunk_index'', VInt 0),
       (''token_count'', VNone), (''char_count'', VInt 10), (''page_start'', VNone), (''page_end'', VNone),
       (''text'', VStr ''check seal''), (''embedding_model'', VStr []), (''embedding_timestamp'', VStr []),
       (''hash'', VNone)])]))"
  by code_simp

subsection \<open>Reading chunks from the graph\<close>

definition chunk_cypher_projection :: str where
  "chunk_cypher_projection = [CHR 0x0A] @ ''n.chunk_id AS chunk_id,'' @ [CHR 0x0A]
     @ ''coalesce(n.source_document_id, n.document_id) AS document_id,'' @ [CHR 0x0A]
     @ ''coalesce(n.source_type, n.document_type, '' @ [CHR 0x27] @ ''MANUAL'' @ [CHR 0x27] @ '') AS document_type,'' @ [CHR 0x0A]
     @ ''coalesce(n.asset_type, null) AS asset_type,'' @ [CHR 0x0A] @ ''n.section_title AS section_title,'' @ [CHR 0x0A]
     @ ''n.source_document AS source_filename,'' @ [CHR 0x0A] @ ''n.chunk_index AS chunk_index,'' @ [CHR 0x0A]
     @ ''n.token_count AS token_count,'' @ [CHR 0x0A] @ ''n.char_count AS char_count,'' @ [CHR 0x0A]
     @ ''n.text AS text,'' @ [CHR 0x0A] @ ''n.hash AS hash,'' @ [CHR 0x0A] @ ''n.page_start AS page_start,'' @ [CHR 0x0A]
     @ ''n.page_end AS page_end'' @ [CHR 0x0A]"

definition where_clauses :: "str option \<Rightarrow> str option \<Rightarrow> str list" where
  "where_clauses document_type asset_type =
     (if truthy_str document_type then [''n.source_type = $document_type OR n.document_type = $document_type''] else [])
     @ (if truthy_str asset_type then [''n.asset_type = $asset_type''] else [])"

definition where_sql :: "str option \<Rightarrow> str option \<Rightarrow> str" where
  "where_sql document_type asset_type = (let cs = where_clauses document_type asset_type in
     if cs = [] then [] else ''WHERE '' @ join '' AND '' cs)"

definition fetch_query :: "str option \<Rightarrow> str option \<Rightarrow> str" where
  "fetch_query document_type asset_type =
     [CHR 0x0A] @ ''        MATCH (n:TextChunk)'' @ [CHR 0x0A] @ ''        '' @ where_sql document_type asset_type
     @ [CHR 0x0A] @ ''        RETURN '' @ chunk_cypher_projection @ [CHR 0x0A] @ ''        ORDER BY n.chunk_index ASC''
     @ [CHR 0x0A] @ ''        SKIP $offset LIMIT $limit'' @ [CHR 0x0A] @ ''        ''"

definition fetch_params :: "int \<Rightarrow> int \<Rightarrow> str option \<Rightarrow> str option \<Rightarrow> (str \<times> pyval) list" where
  "fetch_params limit offset document_type asset_type =
     [(''limit'', VInt limit), (''offset'', VInt offset)]
     @ (if truthy_str document_type then [(''document_type'', VStr (the document_type))] else [])
     @ (if truthy_str asset_type then [(''asset_type'', VStr (the asset_type))] else [])"

text \<open>The graph handle: a driver, or a method that runs a query.\<close>

record graph_handle =
  gh_driver :: "(str \<Rightarrow> (str \<times> pyval) list \<Rightarrow> chunk list res) option"
  gh_run_query :: "(str \<Rightarrow> (str \<times> pyval) list \<Rightarrow> chunk list res) option"

definition fetch_chunks :: "graph_handle option \<Rightarrow> int \<Rightarrow> int \<Rightarrow> str option \<Rightarrow> str option \<Rightarrow> chunk list" where
  "fetch_chunks repo limit offset document_type asset_type = (case repo of
       None \<Rightarrow> []
     | Some g \<Rightarrow>
         (case (case gh_driver g of Some run \<Rightarrow> Some run | None \<Rightarrow> gh_run_query g) of
            None \<Rightarrow> []
          | Some run \<Rightarrow>
              (case run (fetch_query document_type asset_type) (fetch_params limit offset document_type asset_type) of
                 Inl e \<Rightarrow> []
               | Inr records \<Rightarrow> records)))"

text \<open>\<open>ingest_from_graph\<close>, with the defaults of the fetch and of the upsert batches.\<close>

definition ingest_from_graph ::
  "'db ingest_env \<Rightarrow> 'db \<Rightarrow> graph_handle option \<Rightarrow> int \<Rightarrow> str option \<Rightarrow> (batch_result \<times> 'db) res option" where
  "ingest_from_graph env db repo limit document_type =
     ingest_chunks env db (fetch_chunks repo limit 0 document_type None) True 64"

text \<open>With both filters the disjunction has no parentheses: \<open>AND\<close> binds tighter in Cypher, so the asset filter
  does not restrict the first alternative.\<close>

lemma unparenthesised_filter:
  "where_sql (Some ''SOP'') (Some ''PUMP'') =
   ''WHERE n.source_type = $document_type OR n.document_type = $document_type AND n.asset_type = $asset_type''"
  by (simp add: where_sql_def where_clauses_def)

lemma unreachable_graph_ingests_nothing:
  "ingest_from_graph env db None limit dt = Some (Inr (\<lparr>br_total_requested = 0, br_embedded = 0, br_skipped_existing = 0,
     br_upserted = 0, br_failed = 0, br_vector_dim = vector_dim (ie_engine env), br_errors = []\<rparr>, db))"
  by (simp add: ingest_from_graph_def fetch_chunks_def ingest_chunks_def)

subsection \<open>Collections\<close>

definition payload_indexed_fields :: "str list" where
  "payload_indexed_fields = [''chunk_id'', ''document_id'', ''document_type'', ''asset_type'', ''source_filename'']"

text \<open>The client as the manager of one collection sees it, and the calls the manager makes.\<close>

record qdrant_env =
  qe_exists :: "bool res"
  qe_delete :: "unit res"
  qe_current_size :: "int res"
  qe_create :: "unit res"
  qe_index :: "str \<Rightarrow> unit res"

datatype qdrant_call = Delete_Collection | Create_Collection int | Create_Index str

definition manager_vector_size :: "int option \<Rightarrow> int \<Rightarrow> int option \<Rightarrow> int" where
  "manager_vector_size explicit settings engine = (case engine of
       Some d \<Rightarrow> d
     | None \<Rightarrow> if truthy_int explicit then the explicit else if settings \<noteq> 0 then settings else 768)"

definition ensure_payload_indexes :: "qdrant_env \<Rightarrow> qdrant_call list \<times> str list" where
  "ensure_payload_indexes env = (map Create_Index payload_indexed_fields,
     filter (\<lambda>f. qe_index env f = Inr ()) payload_indexed_fields)"

definition size_checked :: "qdrant_env \<Rightarrow> str \<Rightarrow> int \<Rightarrow> unit res" where
  "size_checked env name vector_size = bind_res (qe_current_size env) (\<lambda>current.
     require (current = vector_size) (ValueErr (''Collection '' @ name @ '' vector size mismatch: ''
       @ str_int current @ '' != '' @ str_int vector_size)) (Inr ()))"

text \<open>\<open>ensure_collection\<close>: whether it created the collection and the size it reports, with the calls made.
  An existing collection is validated inside a \<open>try\<close> whose handler only logs. When it is to be recreated
  it does not exist any more at that point, so the recursion of the mismatch is not reached.\<close>

definition ensure_collection :: "qdrant_env \<Rightarrow> str \<Rightarrow> int \<Rightarrow> bool \<Rightarrow> qdrant_call list \<times> (bool \<times> int) res" where
  "ensure_collection env name vector_size recreate = (case qe_exists env of
       Inl e \<Rightarrow> ([], Inl e)
     | Inr exists \<Rightarrow>
         if exists \<and> \<not> recreate
         then (case size_checked env name vector_size of
             Inl e \<Rightarrow> (fst (ensure_payload_indexes env), Inr (False, vector_size))
           | Inr u \<Rightarrow> (fst (ensure_payload_indexes env), Inr (False, vector_size)))
         else let calls = (if exists then [Delete_Collection] else []) in
           (case (if exists then qe_delete env else Inr ()) of
              Inl e \<Rightarrow> (calls, Inl e)
            | Inr u \<Rightarrow> (case qe_create env of
                Inl e \<Rightarrow> (calls @ [Create_Collection vector_size], Inl e)
              | Inr u' \<Rightarrow> (calls @ [Create_Collection vector_size] @ fst (ensure_payload_indexes env),
                  Inr (True, vector_size)))))"

definition wipe :: "qdrant_env \<Rightarrow> bool \<Rightarrow> qdrant_call list \<times> bool res" where
  "wipe env confirm = (if \<not> confirm then ([], Inl (ValueErr ''wipe requires confirm=True''))
     else case qe_exists env of
       Inl e \<Rightarrow> ([], Inl e)
     | Inr exists \<Rightarrow> if exists then ([Delete_Collection], bind_res (qe_delete env) (\<lambda>u. Inr True))
         else ([], Inr False))"

definition default_collections :: "str list" where
  "default_collections = [''operational_knowledge_v4'', ''sop_documents'', ''technical_manuals'', ''incident_reports'']"

definition init_default_collections ::
  "(str \<Rightarrow> qdrant_env) \<Rightarrow> int \<Rightarrow> bool \<Rightarrow> (str \<times> (bool \<times> int) res) list" where
  "init_default_collections envs vector_size recreate =
     map (\<lambda>name. (name, snd (ensure_collection (envs name) name vector_size recreate))) default_collections"

text \<open>A collection is deleted only on request. An existing one is kept whatever the size of its vectors, and
  the size that the manager reports is its own.\<close>

theorem ensure_collection_exact:
  "(Delete_Collection \<in> set (fst (ensure_collection env name n recreate)) \<longleftrightarrow> recreate \<and> qe_exists env = Inr True) \<and>
   (case snd (ensure_collection env name n recreate) of
      Inl e \<Rightarrow> e \<in> {e. qe_exists env = Inl e \<or> qe_delete env = Inl e \<or> qe_create env = Inl e}
    | Inr (created, sz) \<Rightarrow> sz = n \<and> created = (recreate \<or> qe_exists env = Inr False)) \<and>
   ensure_collection (env\<lparr>qe_current_size := current\<rparr>) name n recreate = ensure_collection env name n recreate"
  by (auto simp: ensure_collection_def ensure_payload_indexes_def Let_def split: sum.splits if_splits)

end
