(* ===== verification/Graph_Services.thy ===== *)
theory Graph_Services
  imports Graph_Repository Graphrag_Models
begin

section \<open>Graph services\<close>

text \<open>
  \<open>app/graph/graph_services.py\<close>: CRUD over the repository, the integrity audit, and the expansion of the
  sub-graph of an asset into the context map of the public contract. Reading is a parameter: a Cypher
  text and its parameters give rows of plain data, or raise. Rows are dynamic values, and whatever an
  attribute of them lacks raises.
\<close>

type_synonym cypher_reader = "str \<Rightarrow> props \<Rightarrow> props list res"

subsection \<open>CRUD\<close>

definition upsert_entity :: "'g session \<Rightarrow> str \<Rightarrow> str \<Rightarrow> props \<Rightarrow> 'g \<Rightarrow> pyval res \<times> 'g" where
  "upsert_entity run label entity_id fs = upsert_node run label entity_id (to_graph_props fs)"

definition patch_entity :: "'g session \<Rightarrow> str \<Rightarrow> str \<Rightarrow> props \<Rightarrow> 'g \<Rightarrow> pyval res \<times> 'g" where
  "patch_entity run label entity_id fs = update_node run label entity_id (to_graph_props fs)"

definition get_entity :: "'g session \<Rightarrow> str \<Rightarrow> str \<Rightarrow> 'g \<Rightarrow> pyval res \<times> 'g" where
  "get_entity run label entity_id = get_node run label entity_id"

definition delete_entity :: "'g session \<Rightarrow> str \<Rightarrow> str \<Rightarrow> 'g \<Rightarrow> int res \<times> 'g" where
  "delete_entity run label entity_id = delete_node run label entity_id"

subsection \<open>The integrity audit\<close>

record integrity_check =
  ic_check_name :: str
  ic_label :: str
  ic_where :: str
  ic_severity :: str

definition integrity_checks :: "integrity_check list" where
  "integrity_checks = [
     \<lparr>ic_check_name = ''sensor_without_monitoring'', ic_label = ''Sensor'',
       ic_where = ''NOT EXISTS { MATCH (n)<-[:MONITORED_BY]-(:Component) }'', ic_severity = ''HIGH''\<rparr>,
     \<lparr>ic_check_name = ''component_without_owning_asset'', ic_label = ''Component'',
       ic_where = ''NOT EXISTS { MATCH (n)<-[:COMPRISED_OF]-(:Asset) }'', ic_severity = ''HIGH''\<rparr>,
     \<lparr>ic_check_name = ''asset_without_location'', ic_label = ''Asset'',
       ic_where = ''NOT EXISTS { MATCH (n)-[:LOCATED_IN]->(:Location) } '' @
         ''AND NOT EXISTS { MATCH (n)<-[:CONTAINS]-(:Location) }'', ic_severity = ''MEDIUM''\<rparr>,
     \<lparr>ic_check_name = ''failure_mode_without_root_cause'', ic_label = ''FailureMode'',
       ic_where = ''NOT EXISTS { MATCH (n)-[:TRIGGERED_BY]->(:RootCause) }'', ic_severity = ''MEDIUM''\<rparr>,
     \<lparr>ic_check_name = ''failure_mode_without_mitigation'', ic_label = ''FailureMode'',
       ic_where = ''NOT EXISTS { MATCH (n)-[:MITIGATED_BY]->(:SOP) }'', ic_severity = ''LOW''\<rparr>,
     \<lparr>ic_check_name = ''sop_without_steps'', ic_label = ''SOP'',
       ic_where = ''NOT EXISTS { MATCH (n)-[:HAS_STEP]->(:SOPStep) }'', ic_severity = ''LOW''\<rparr>,
     \<lparr>ic_check_name = ''sop_step_without_sop'', ic_label = ''SOPStep'',
       ic_where = ''NOT EXISTS { MATCH (n)-[:HAS_STEP]-(:SOP) }'', ic_severity = ''MEDIUM''\<rparr>]"

record validation_finding =
  vf_check_name :: str
  vf_label :: str
  vf_offending_ids :: "str list"
  vf_severity :: str

definition finding_count :: "validation_finding \<Rightarrow> nat" where
  "finding_count f = length (vf_offending_ids f)"

definition finding_healthy :: "validation_finding \<Rightarrow> bool" where
  "finding_healthy f \<longleftrightarrow> vf_offending_ids f = []"

record validation_report =
  vp_findings :: "validation_finding list"
  vp_total_offenders :: nat

definition report_healthy :: "validation_report \<Rightarrow> bool" where
  "report_healthy r \<longleftrightarrow> vp_total_offenders r = 0"

definition build_integrity_query :: "str \<Rightarrow> str \<Rightarrow> str" where
  "build_integrity_query label condition = ''MATCH (n:`'' @ label @ ''`) WHERE '' @ condition @ '' RETURN n.id AS id''"

definition run_check :: "cypher_reader \<Rightarrow> integrity_check \<Rightarrow> validation_finding res" where
  "run_check read c =
     bind_res (read (build_integrity_query (ic_label c) (ic_where c)) []) (\<lambda>records.
     bind_res (map_res as_str (filter (\<lambda>v. v \<noteq> VNone) (map (\<lambda>r. dict_default r ''id'' VNone) records))) (\<lambda>ids.
       Inr \<lparr>vf_check_name = ic_check_name c, vf_label = ic_label c, vf_offending_ids = ids,
         vf_severity = ic_severity c\<rparr>))"

definition validate_graph :: "cypher_reader \<Rightarrow> validation_report res" where
  "validate_graph read = bind_res (map_res (run_check read) integrity_checks) (\<lambda>fs.
     Inr \<lparr>vp_findings = fs, vp_total_offenders = sum_list (map finding_count fs)\<rparr>)"

subsection \<open>The sub-graph of an asset\<close>

definition subgraph_relationships :: str where
  "subgraph_relationships = ''COMPRISED_OF|MONITORED_BY|EXHIBITS_ANOMALY|MITIGATED_BY|TRIGGERED_BY|HAS_SYMPTOM|HAS_STEP''"

definition subgraph_hops :: "int \<Rightarrow> int" where
  "subgraph_hops max_hops = max 1 (min max_hops 5)"

definition build_subgraph_query :: "str \<Rightarrow> int \<Rightarrow> str \<times> props" where
  "build_subgraph_query asset_id max_hops =
     (''MATCH (root:Asset {id:$asset_id}) '' @ ''CALL { '' @
      ''  WITH root OPTIONAL MATCH path=(root)-[rels:'' @ subgraph_relationships @ ''*1..'' @
        str_int (subgraph_hops max_hops) @ '']->(leaf) '' @
      ''  RETURN collect(CASE WHEN path IS NULL THEN null ELSE { '' @
      ''    nodes: [x IN nodes(path) | {element_id: elementId(x), labels: labels(x), props: properties(x)}], '' @
      ''    rels: [r IN rels | { '' @
      ''      element_id: elementId(r), type: type(r), props: properties(r), '' @
      ''      start_id: elementId(startNode(r)), end_id: elementId(endNode(r)) '' @
      ''    }] '' @ ''  } END) AS paths '' @ ''} '' @ ''RETURN root.id AS root_id, '' @
      ''       {element_id: elementId(root), labels: labels(root), props: properties(root)} AS root_node, '' @
      ''       [p IN paths WHERE p IS NOT NULL] AS paths'',
      [(''asset_id'', VStr asset_id)])"

definition sanitize_props :: "props \<Rightarrow> props" where
  "sanitize_props d = filter (\<lambda>(k, v). k \<noteq> ''created_at'' \<and> k \<noteq> ''updated_at'' \<and> \<not> starts_with ''_'' k) d"

fun props_of :: "pyval \<Rightarrow> props res" where
  "props_of (VDict d) = Inr d"
| "props_of v = (if truthy v then Inl (AttributeErr ''items'') else Inr [])"

fun first_element :: "pyval \<Rightarrow> pyval res" where
  "first_element (VList (x # xs)) = Inr x"
| "first_element (VStr (c # cs)) = Inr (VStr [c])"
| "first_element (VDict d) = Inl (KeyErr ''0'')"
| "first_element v = Inl (TypeErr ''object is not subscriptable'')"

definition node_to_graph_node :: "pyval \<Rightarrow> graph_node res" where
  "node_to_graph_node node =
     bind_res (vget node ''props'' node) (\<lambda>ps.
     bind_res (vget node ''labels'' VNone) (\<lambda>ls.
     bind_res (first_element (py_or ls (VList [VStr ''Node'']))) (\<lambda>label.
     bind_res (vget ps ''id'' VNone) (\<lambda>own.
     bind_res (vget node ''element_id'' VNone) (\<lambda>eid.
     bind_res (vget ps ''display_name'' VNone) (\<lambda>shown.
     bind_res (as_str (py_or own eid)) (\<lambda>nid.
     bind_res (as_str label) (\<lambda>lab.
     bind_res (as_str (py_or shown label)) (\<lambda>name.
     bind_res (props_of ps) (\<lambda>d.
       Inr \<lparr>gn_id = nid, gn_label = lab, gn_display_name = name, gn_properties = sanitize_props d\<rparr>))))))))))"

text \<open>Nodes by element identifier, in the order they are met; the first one met is kept. Edges by endpoints
  and type; the last one met replaces the value but keeps the place.\<close>

type_synonym element_map = "(pyval \<times> pyval) list"
type_synonym relation_map = "((pyval \<times> pyval \<times> pyval) \<times> pyval) list"

definition as_key :: "pyval \<Rightarrow> pyval res" where
  "as_key v = (case v of VList xs \<Rightarrow> Inl (TypeErr ''unhashable type'') | VDict d \<Rightarrow> Inl (TypeErr ''unhashable type'')
     | _ \<Rightarrow> Inr v)"

definition add_node :: "pyval \<Rightarrow> element_map \<Rightarrow> element_map res" where
  "add_node node nodes = bind_res (vget node ''element_id'' VNone) (\<lambda>eid.
     if truthy eid then bind_res (as_key eid) (\<lambda>k. Inr (if k \<in> fst ` set nodes then nodes else nodes @ [(k, node)]))
     else Inr nodes)"

definition add_rel :: "element_map \<Rightarrow> pyval \<Rightarrow> relation_map \<Rightarrow> relation_map res" where
  "add_rel nodes rel edges =
     bind_res (vget rel ''start_id'' VNone) (\<lambda>a. bind_res (vget rel ''end_id'' VNone) (\<lambda>b.
     bind_res (as_key a) (\<lambda>a. if a \<notin> fst ` set nodes then Inr edges else
     bind_res (as_key b) (\<lambda>b. if b \<notin> fst ` set nodes then Inr edges else
     bind_res (vget rel ''type'' (VStr [])) (\<lambda>t. bind_res (as_key t) (\<lambda>t.
       Inr (AList.update (a, t, b) rel edges)))))))"

fun fold_res :: "('a \<Rightarrow> 'b \<Rightarrow> 'b res) \<Rightarrow> 'a list \<Rightarrow> 'b \<Rightarrow> 'b res" where
  "fold_res f [] s = Inr s"
| "fold_res f (x # xs) s = bind_res (f x s) (fold_res f xs)"

definition add_path :: "pyval \<Rightarrow> element_map \<times> relation_map \<Rightarrow> (element_map \<times> relation_map) res" where
  "add_path path st =
     bind_res (vget path ''nodes'' (VList [])) (\<lambda>ns. bind_res (iterate ns) (\<lambda>ns.
     bind_res (fold_res add_node ns (fst st)) (\<lambda>nodes.
     bind_res (vget path ''rels'' (VList [])) (\<lambda>rs. bind_res (iterate rs) (\<lambda>rs.
     bind_res (fold_res (add_rel nodes) rs (snd st)) (\<lambda>edges. Inr (nodes, edges)))))))"

text \<open>\<open>nodes_by_eid[k]["props"].get("id")\<close>.\<close>

definition endpoint_id :: "element_map \<Rightarrow> pyval \<Rightarrow> str res" where
  "endpoint_id nodes k = (case map_of nodes k of
       None \<Rightarrow> Inl (KeyErr ''element_id'')
     | Some node \<Rightarrow> (case node of
         VDict d \<Rightarrow> (case map_of d ''props'' of
             None \<Rightarrow> Inl (KeyErr ''props'')
           | Some ps \<Rightarrow> bind_res (vget ps ''id'' VNone) as_str)
       | _ \<Rightarrow> Inl (TypeErr ''object is not subscriptable'')))"

definition edge_of_rel :: "element_map \<Rightarrow> (pyval \<times> pyval \<times> pyval) \<times> pyval \<Rightarrow> graph_edge res" where
  "edge_of_rel nodes e = (case e of ((a, t, b), rel) \<Rightarrow>
     bind_res (endpoint_id nodes a) (\<lambda>src. bind_res (endpoint_id nodes b) (\<lambda>dst.
     bind_res (bind_res (vget rel ''type'' (VStr [])) as_str) (\<lambda>r.
     bind_res (bind_res (vget rel ''props'' (VDict [])) props_of) (\<lambda>d.
       Inr \<lparr>ge_source_id = src, ge_target_id = dst, ge_relationship = r, ge_properties = sanitize_props d\<rparr>)))))"

definition records_to_graph_context :: "props list \<Rightarrow> graph_context_map res" where
  "records_to_graph_context records = (case records of
       [] \<Rightarrow> Inl (RuntimeErr ''Asset sub-graph returned no records.'')
     | record # rest \<Rightarrow>
         (let root_node = dict_default record ''root_node'' VNone in
          require (truthy root_node) (RuntimeErr ''Asset root node not found.'')
          (bind_res (add_node root_node []) (\<lambda>nodes0.
           bind_res (iterate (py_or (dict_default record ''paths'' (VList [])) (VList []))) (\<lambda>paths.
           bind_res (fold_res add_path paths (nodes0, [])) (\<lambda>(nodes, edges).
           bind_res (map_res node_to_graph_node (map snd nodes)) (\<lambda>ns.
           bind_res (map_res (edge_of_rel nodes) edges) (\<lambda>es.
           bind_res (as_str (dict_default record ''root_id'' VNone)) (\<lambda>root.
             Inr \<lparr>gc_nodes = ns, gc_edges = es, gc_root_node_ids = [root]\<rparr>)))))))))"

definition get_asset_subgraph :: "cypher_reader \<Rightarrow> str \<Rightarrow> int \<Rightarrow> graph_context_map res" where
  "get_asset_subgraph read asset_id max_hops = (case build_subgraph_query asset_id max_hops of
     (q, ps) \<Rightarrow> bind_res (read q ps) records_to_graph_context)"

subsection \<open>Text and vector lookups\<close>

definition plain_node :: "str \<Rightarrow> props \<Rightarrow> graph_node res" where
  "plain_node label d =
     bind_res (as_str (py_or (dict_default d ''id'' VNone) (VStr []))) (\<lambda>nid.
     bind_res (as_str (py_or (dict_default d ''display_name'' VNone) (VStr label))) (\<lambda>name.
       Inr \<lparr>gn_id = nid, gn_label = label, gn_display_name = name, gn_properties = sanitize_props d\<rparr>))"

definition row_node :: "str \<Rightarrow> pyval \<Rightarrow> graph_node res" where
  "row_node label v = (case v of VDict d \<Rightarrow> plain_node label d | _ \<Rightarrow> Inl (AttributeErr ''get''))"

definition find_nodes_query :: "str \<Rightarrow> str \<Rightarrow> str" where
  "find_nodes_query label property_name = ''MATCH (n:`'' @ label @ ''`) WHERE n.`'' @ property_name @
     ''` CONTAINS $term '' @ ''RETURN n {.*} AS node LIMIT $limit''"

definition find_nodes_text :: "cypher_reader \<Rightarrow> str \<Rightarrow> str \<Rightarrow> str \<Rightarrow> int \<Rightarrow> graph_node list res" where
  "find_nodes_text read label property_name needle limit =
     bind_res (read (find_nodes_query label property_name) [(''term'', VStr needle), (''limit'', VInt limit)]) (\<lambda>records.
     map_res (row_node label) (filter truthy (map (\<lambda>r. dict_default r ''node'' VNone) records)))"

definition failure_mode_query :: str where
  "failure_mode_query = ''CALL db.index.vector.queryNodes('' @ quoted ''vector_FailureMode_embedding'' @
     '', $k, $embedding) '' @ ''YIELD node, score RETURN node {.*} AS node, score AS score LIMIT $k''"

definition vector_search_failure_modes ::
  "cypher_reader \<Rightarrow> float64 list \<Rightarrow> int \<Rightarrow> (graph_node \<times> float64) list res" where
  "vector_search_failure_modes read embedding k =
     bind_res (read failure_mode_query [(''k'', VInt k), (''embedding'', VList (map VFloat embedding))]) (\<lambda>records.
     map_res (\<lambda>r. bind_res (row_node ''FailureMode'' (dict_default r ''node'' VNone)) (\<lambda>n.
         bind_res (row_item r ''score'') (\<lambda>s. bind_res (to_float s) (\<lambda>x. Inr (n, x)))))
       (filter (\<lambda>r. truthy (dict_default r ''node'' VNone)) records))"

subsection \<open>The context map is sound\<close>

lemma map_res_all2: "map_res f xs = Inr ys \<Longrightarrow> list_all2 (\<lambda>x y. f x = Inr y) xs ys"
  by (induction xs arbitrary: ys) (auto simp: bind_res_Inr)

lemma fold_res_keeps:
  "fold_res f xs s = Inr s' \<Longrightarrow> P s \<Longrightarrow> (\<And>x s s'. f x s = Inr s' \<Longrightarrow> P s \<Longrightarrow> P s') \<Longrightarrow> P s'"
  by (induction xs arbitrary: s) (auto simp: bind_res_Inr)

definition edges_closed :: "element_map \<Rightarrow> relation_map \<Rightarrow> bool" where
  "edges_closed nodes edges \<longleftrightarrow> distinct (map fst nodes) \<and> distinct (map fst edges) \<and>
     (\<forall>((a, t, b), rel) \<in> set edges. a \<in> fst ` set nodes \<and> b \<in> fst ` set nodes \<and> vget rel ''type'' (VStr []) = Inr t)"

lemma add_node_closed: "add_node v nodes = Inr nodes' \<Longrightarrow> edges_closed nodes edges \<Longrightarrow> edges_closed nodes' edges"
  by (auto simp: add_node_def bind_res_Inr edges_closed_def split: if_splits)

lemma as_key_Inr: "as_key v = Inr k \<Longrightarrow> k = v"
  by (cases v) (simp_all add: as_key_def)

lemma add_rel_closed:
  assumes "add_rel nodes rel edges = Inr edges'" "edges_closed nodes edges"
  shows "edges_closed nodes edges'"
proof -
  have closed: "edges_closed nodes (AList.update (a, t, b) rel edges)"
    if "a \<in> fst ` set nodes" "b \<in> fst ` set nodes" "vget rel ''type'' (VStr []) = Inr t" for a t b
  proof -
    have "distinct (map fst (AList.update (a, t, b) rel edges))"
      using assms(2) by (simp add: edges_closed_def distinct_update)
    moreover have "k = (a, t, b) \<and> v = rel \<or> (k, v) \<in> set edges" if "(k, v) \<in> set (AList.update (a, t, b) rel edges)" for k v
      using assms(2) that update_cases [of edges k v "(a, t, b)" rel] by (auto simp: edges_closed_def wf_dict_def)
    ultimately show ?thesis using assms(2) that unfolding edges_closed_def by fast
  qed
  from assms show ?thesis
    by (auto simp: add_rel_def bind_res_Inr dest!: as_key_Inr split: if_splits intro!: closed)
qed

lemma add_path_closed:
  assumes "add_path p st = Inr st'" "edges_closed (fst st) (snd st)"
  shows "edges_closed (fst st') (snd st')"
proof -
  obtain ns rs nodes edges where ns: "fold_res add_node ns (fst st) = Inr nodes"
    and rs: "fold_res (add_rel nodes) rs (snd st) = Inr edges" and st': "st' = (nodes, edges)"
    using assms(1) by (auto simp: add_path_def bind_res_Inr)
  have "edges_closed nodes (snd st)"
    using fold_res_keeps [OF ns, of "\<lambda>nodes. edges_closed nodes (snd st)"] assms(2) add_node_closed by blast
  then show ?thesis
    using fold_res_keeps [OF rs, of "edges_closed nodes"] add_rel_closed by (simp add: st')
qed

lemma endpoint_is_node:
  assumes "endpoint_id nodes k = Inr i" "map_res node_to_graph_node (map snd nodes) = Inr ns" "i \<noteq> []"
  shows "\<exists>j < length nodes. fst (nodes ! j) = k \<and> gn_id (ns ! j) = i"
proof -
  obtain d p where node: "map_of nodes k = Some (VDict d)" "map_of d ''props'' = Some p"
    "bind_res (vget p ''id'' VNone) as_str = Inr i"
    using assms(1) by (auto simp: endpoint_id_def split: option.splits pyval.splits)
  then obtain q where p: "p = VDict q" "map_of q ''id'' = Some (VStr i)"
    using assms(3) by (auto simp: bind_res_Inr vget_def as_str_def split: pyval.splits option.splits)
  from node(1) obtain j where j: "j < length nodes" "nodes ! j = (k, VDict d)"
    by (metis in_set_conv_nth map_of_SomeD)
  from map_res_all2 [OF assms(2)] j have "node_to_graph_node (VDict d) = Inr (ns ! j)"
    by (auto simp: list_all2_conv_all_nth)
  moreover have "gn_id n = i" if "node_to_graph_node (VDict d) = Inr n" for n
    using that node(2) p assms(3) by (auto simp: node_to_graph_node_def bind_res_Inr py_or_def as_str_def)
  ultimately have "gn_id (ns ! j) = i" by blast
  with j show ?thesis by auto
qed

definition clean_props :: "props \<Rightarrow> bool" where
  "clean_props d \<longleftrightarrow> list_all (\<lambda>(k, v). k \<noteq> ''created_at'' \<and> k \<noteq> ''updated_at'' \<and> \<not> starts_with ''_'' k) d"

lemma sanitize_clean: "clean_props (sanitize_props d)"
  by (auto simp: clean_props_def sanitize_props_def list_all_iff)

text \<open>C30. The context map of an asset is sound whatever the rows hold: both ends of every edge are nodes of
  the map, or empty; nodes and edges carry no internal property; there is one root; and when the
  identifiers of the nodes are distinct and no edge has an empty end, no two edges have the same ends
  and type.\<close>

theorem subgraph_sound:
  "case records_to_graph_context records of Inl e \<Rightarrow> True
   | Inr m \<Rightarrow>
       (let ids = map gn_id (gc_nodes m) in
        list_all (\<lambda>e. ge_source_id e \<in> insert [] (set ids) \<and> ge_target_id e \<in> insert [] (set ids) \<and>
          clean_props (ge_properties e)) (gc_edges m) \<and>
        list_all (\<lambda>n. clean_props (gn_properties n)) (gc_nodes m) \<and> length (gc_root_node_ids m) = 1 \<and>
        (if distinct ids \<and> list_all (\<lambda>e. ge_source_id e \<noteq> [] \<and> ge_target_id e \<noteq> []) (gc_edges m)
         then distinct (map (\<lambda>e. (ge_source_id e, ge_relationship e, ge_target_id e)) (gc_edges m)) else True))"
proof (cases "records_to_graph_context records")
  case (Inr m)
  then obtain row rest nodes0 paths nodes edges ns es root where rec: "records = row # rest"
    and nodes0: "add_node (dict_default row ''root_node'' VNone) [] = Inr nodes0"
    and paths: "fold_res add_path paths (nodes0, []) = Inr (nodes, edges)"
    and ns: "map_res node_to_graph_node (map snd nodes) = Inr ns"
    and es: "map_res (edge_of_rel nodes) edges = Inr es"
    and m: "m = \<lparr>gc_nodes = ns, gc_edges = es, gc_root_node_ids = [root]\<rparr>"
    by (auto simp: records_to_graph_context_def Let_def bind_res_Inr split: list.splits)
  have "edges_closed nodes0 []" using add_node_closed [OF nodes0, of "[]"] by (simp add: edges_closed_def)
  then have closed: "edges_closed nodes edges"
    using fold_res_keeps [OF paths, of "\<lambda>st. edges_closed (fst st) (snd st)"] add_path_closed by simp
  have len: "length ns = length nodes" "length es = length edges"
    using map_res_length [OF ns] map_res_length [OF es] by simp_all
  have edge: "endpoint_id nodes a = Inr (ge_source_id (es ! i)) \<and> endpoint_id nodes b = Inr (ge_target_id (es ! i)) \<and>
      clean_props (ge_properties (es ! i)) \<and> t = VStr (ge_relationship (es ! i))"
    if i: "i < length edges" and k: "fst (edges ! i) = (a, t, b)" for i a t b
  proof -
    obtain rel where rel: "edges ! i = ((a, t, b), rel)" using k by (cases "edges ! i") auto
    then have "((a, t, b), rel) \<in> set edges" using i by (metis nth_mem)
    then have t: "vget rel ''type'' (VStr []) = Inr t" using closed by (auto simp: edges_closed_def)
    have "edge_of_rel nodes ((a, t, b), rel) = Inr (es ! i)"
      using map_res_all2 [OF es] i rel by (auto simp: list_all2_conv_all_nth)
    moreover have "endpoint_id nodes a = Inr (ge_source_id e) \<and> endpoint_id nodes b = Inr (ge_target_id e) \<and>
        clean_props (ge_properties e) \<and> t = VStr (ge_relationship e)" if "edge_of_rel nodes ((a, t, b), rel) = Inr e" for e
      using that t by (auto simp: edge_of_rel_def bind_res_Inr sanitize_clean as_str_def split: pyval.splits)
    ultimately show ?thesis by blast
  qed
  have known: "i \<in> insert [] (gn_id ` set ns)" if "endpoint_id nodes k = Inr i" for k i
    using endpoint_is_node [OF that ns] len(1) by (cases "i = []") auto
  have ends: "ge_source_id e \<in> insert [] (gn_id ` set ns) \<and> ge_target_id e \<in> insert [] (gn_id ` set ns) \<and>
      clean_props (ge_properties e)" if e: "e \<in> set es" for e
  proof -
    obtain i where "i < length edges" "e = es ! i" using e len(2) by (metis in_set_conv_nth)
    then show ?thesis using edge [of i] known by (cases "fst (edges ! i)") blast
  qed
  have "clean_props (gn_properties n)" if "node_to_graph_node v = Inr n" for v n
    using that by (auto simp: node_to_graph_node_def bind_res_Inr sanitize_clean)
  moreover have "\<exists>v. node_to_graph_node v = Inr n" if "n \<in> set ns" for n
    using map_res_all2 [OF ns] that by (auto simp: list_all2_conv_all_nth in_set_conv_nth)
  ultimately have clean: "clean_props (gn_properties n)" if "n \<in> set ns" for n using that by blast
  have unique: "distinct (map (\<lambda>e. (ge_source_id e, ge_relationship e, ge_target_id e)) es)"
    if d: "distinct (map gn_id ns)" and ne: "\<And>e. e \<in> set es \<Longrightarrow> ge_source_id e \<noteq> [] \<and> ge_target_id e \<noteq> []"
  proof -
    have same: "k = k'" if "endpoint_id nodes k = Inr i" "endpoint_id nodes k' = Inr i" "i \<noteq> []" for k k' i
      using endpoint_is_node [OF that(1) ns that(3)] endpoint_is_node [OF that(2) ns that(3)] d len(1)
      by (metis length_map nth_eq_iff_index_eq nth_map)
    have "i = j" if ij: "i < length es" "j < length es" and eq: "(ge_source_id (es ! i), ge_relationship (es ! i), ge_target_id (es ! i))
        = (ge_source_id (es ! j), ge_relationship (es ! j), ge_target_id (es ! j))" for i j
    proof -
      obtain a t b a' t' b' where k: "fst (edges ! i) = (a, t, b)" "fst (edges ! j) = (a', t', b')"
        by (metis prod_cases3)
      have "(a, t, b) = (a', t', b')"
        using edge [OF _ k(1)] edge [OF _ k(2)] ij len(2) eq same ne [of "es ! i"] by (metis nth_mem prod.inject)
      with k closed ij len(2) show ?thesis
        unfolding edges_closed_def by (metis (no_types, lifting) length_map nth_eq_iff_index_eq nth_map)
    qed
    then show ?thesis by (auto simp: distinct_conv_nth)
  qed
  show ?thesis using Inr ends clean unique by (auto simp: m list_all_iff Let_def)
qed simp

text \<open>A node without an identifier gets its element identifier, but an edge to it is rejected, and with it the
  whole map.\<close>

lemma anonymous_node_breaks_subgraph:
  "records_to_graph_context [[(''root_id'', VStr ''P-1''),
     (''root_node'', VDict [(''element_id'', VStr ''4:0''), (''labels'', VList [VStr ''Asset'']), (''props'', VDict [(''id'', VStr ''P-1'')])]),
     (''paths'', VList [VDict [
        (''nodes'', VList [VDict [(''element_id'', VStr ''4:1''), (''labels'', VList [VStr ''Sensor'']), (''props'', VDict [])]]),
        (''rels'', VList [VDict [(''type'', VStr ''MONITORED_BY''), (''start_id'', VStr ''4:0''), (''end_id'', VStr ''4:1'')]])]])]]
   = Inl (ValidationError ''string_type'')"
  by code_simp

lemma sample_subgraph:
  "records_to_graph_context [[(''root_id'', VStr ''P-1''),
     (''root_node'', VDict [(''element_id'', VStr ''4:0''), (''labels'', VList [VStr ''Asset'']), (''props'', VDict [(''id'', VStr ''P-1'')])]),
     (''paths'', VList [VDict [
        (''nodes'', VList [VDict [(''element_id'', VStr ''4:1''), (''labels'', VList [VStr ''Sensor'']),
           (''props'', VDict [(''id'', VStr ''S-1''), (''created_at'', VStr ''now'')])]]),
        (''rels'', VList [VDict [(''type'', VStr ''MONITORED_BY''), (''start_id'', VStr ''4:0''), (''end_id'', VStr ''4:1'')]])]])]]
   = Inr \<lparr>gc_nodes = [\<lparr>gn_id = ''P-1'', gn_label = ''Asset'', gn_display_name = ''Asset'', gn_properties = [(''id'', VStr ''P-1'')]\<rparr>,
       \<lparr>gn_id = ''S-1'', gn_label = ''Sensor'', gn_display_name = ''Sensor'', gn_properties = [(''id'', VStr ''S-1'')]\<rparr>],
     gc_edges = [\<lparr>ge_source_id = ''P-1'', ge_target_id = ''S-1'', ge_relationship = ''MONITORED_BY'', ge_properties = []\<rparr>],
     gc_root_node_ids = [''P-1'']\<rparr>"
  by code_simp

text \<open>The audit is healthy exactly when no finding has an offender, and it answers exactly when every query does.\<close>

lemma validate_graph_healthy:
  "validate_graph read = Inr r \<Longrightarrow> report_healthy r \<longleftrightarrow> list_all finding_healthy (vp_findings r)"
  by (auto simp: validate_graph_def bind_res_Inr report_healthy_def finding_healthy_def finding_count_def list_all_iff)

lemma hops_bounded: "1 \<le> subgraph_hops n \<and> subgraph_hops n \<le> 5"
  by (simp add: subgraph_hops_def)

end
