(* ===== verification/Schema_Migrations.thy ===== *)
theory Schema_Migrations
  imports Decision_Service "HOL-Library.Sublist"
begin

section \<open>Schema migrations\<close>

text \<open>
  \<open>app/graph/schema_migrations.py\<close>: the catalogue of labels and indexed properties, the statements built
  from it, the files they are rendered to, and the runner. The theorems show that the files and the
  runner hold the same statements, that a run accounts for every statement, and that a second run
  changes nothing. The driver is a parameter: it executes a
  statement on a database \<open>'db\<close> and may raise. Opening a session always succeeds in the model, and the
  edition is an argument (\<open>None\<close> when it cannot be detected).
\<close>

subsection \<open>The catalogue\<close>

definition node_labels :: "str list" where
  "node_labels = [''Location'', ''Asset'', ''Component'', ''Sensor'', ''TelemetryStream'', ''FailureMode'', ''RootCause'',
     ''FailureSymptom'', ''MaintenanceTask'', ''SOP'', ''SOPStep'', ''SafetyHazard'', ''Tooling'',
     ''OperatorRole'', ''SourceDocument'', ''TextChunk'']"

definition existence_fields :: "(str \<times> str list) list" where
  "existence_fields = [
     (''Location'', [''display_name'', ''location_type'', ''site_code'']),
     (''Asset'', [''display_name'', ''asset_type'', ''equipment_class'', ''tag'', ''status'', ''criticality'',
       ''location_id'', ''process_function'']),
     (''Component'', [''display_name'', ''asset_id'', ''component_type'', ''criticality'']),
     (''Sensor'', [''display_name'', ''sensor_category'', ''metric'', ''unit'', ''asset_id'', ''tag'', ''sampling_method'',
       ''sampling_frequency_hz'']),
     (''TelemetryStream'', [''display_name'', ''sensor_id'', ''asset_id'', ''metric'', ''unit'']),
     (''FailureMode'', [''display_name'', ''equipment_class'', ''severity_tier'', ''mechanisms'']),
     (''RootCause'', [''display_name'', ''category'', ''causal_statement'']),
     (''FailureSymptom'', [''display_name'', ''observed_signal'']),
     (''MaintenanceTask'', [''display_name'', ''task_type'', ''asset_id'', ''priority'']),
     (''SOP'', [''display_name'', ''sop_number'', ''title'', ''revision'', ''status'']),
     (''SOPStep'', [''display_name'', ''sop_id'', ''sequence_number'', ''step_type'', ''instruction'']),
     (''SafetyHazard'', [''display_name'', ''category'', ''risk_level'', ''hazard_statement'']),
     (''Tooling'', [''display_name'', ''tool_type'', ''calibrated'']),
     (''OperatorRole'', [''display_name'', ''role_code'', ''permissions'']),
     (''SourceDocument'', [''display_name'', ''source_type'', ''source_document'']),
     (''TextChunk'', [''display_name'', ''chunk_id'', ''source_document_id'', ''source_document'', ''source_type'', ''text''])]"

definition range_index_fields :: "(str \<times> str) list" where
  "range_index_fields = [(''Asset'', ''status''), (''Asset'', ''criticality''), (''Asset'', ''location_id''),
     (''Asset'', ''asset_type''), (''Asset'', ''equipment_class''), (''Component'', ''asset_id''),
     (''Component'', ''component_type''), (''Component'', ''maintainable''), (''Sensor'', ''asset_id''),
     (''Sensor'', ''component_id''), (''Sensor'', ''sensor_category''),
     (''Sensor'', ''sampling_frequency_hz''), (''TelemetryStream'', ''sensor_id''),
     (''FailureMode'', ''equipment_class''), (''FailureMode'', ''component_type''),
     (''FailureMode'', ''severity_tier''), (''MaintenanceTask'', ''asset_id''),
     (''MaintenanceTask'', ''component_id''), (''MaintenanceTask'', ''priority''), (''SOP'', ''status''),
     (''SOP'', ''safety_critical''), (''RootCause'', ''category''), (''SafetyHazard'', ''risk_level''),
     (''OperatorRole'', ''role_code''), (''TextChunk'', ''source_document_id''),
     (''TextChunk'', ''source_type'')]"

definition text_index_fields :: "(str \<times> str) list" where
  "text_index_fields = [(''Location'', ''display_name''), (''Location'', ''site_code''), (''Asset'', ''display_name''),
     (''Asset'', ''tag''), (''Asset'', ''process_function''), (''Component'', ''display_name''),
     (''Component'', ''component_position''), (''Sensor'', ''display_name''), (''Sensor'', ''tag''),
     (''Sensor'', ''metric''), (''FailureMode'', ''display_name''), (''FailureMode'', ''failure_effect''),
     (''FailureMode'', ''iso_14224_code''), (''RootCause'', ''causal_statement''),
     (''FailureSymptom'', ''observed_signal''), (''SOP'', ''title''), (''SOP'', ''sop_number''),
     (''SOPStep'', ''instruction''), (''SafetyHazard'', ''hazard_statement''), (''Tooling'', ''tool_type''),
     (''OperatorRole'', ''role_code''), (''SourceDocument'', ''source_document''), (''TextChunk'', ''text'')]"

definition vector_indexes :: "(str \<times> str) list" where
  "vector_indexes = [(''FailureMode'', ''embedding''), (''SOPStep'', ''embedding'')]"


definition default_vector_dimensions :: int where
  "default_vector_dimensions = 384"

definition default_vector_similarity :: str where
  "default_vector_similarity = ''cosine''"

subsection \<open>Statements\<close>

definition ticked :: "str \<Rightarrow> str" where
  "ticked l = ''`'' @ l @ ''`''"

definition uniqueness_statements :: "str list" where
  "uniqueness_statements = map (\<lambda>l. ''CREATE CONSTRAINT un_'' @ l @ ''_id IF NOT EXISTS '' @
     ''FOR (n:'' @ ticked l @ '') REQUIRE n.id IS UNIQUE;'') node_labels"

definition existence_pairs :: "(str \<times> str) list" where
  "existence_pairs = concat (map (\<lambda>(l, ps). map (\<lambda>p. (l, p)) ps) existence_fields)"

definition existence_statements :: "str list" where
  "existence_statements = map (\<lambda>(l, p). ''CREATE CONSTRAINT exists_'' @ l @ ''_'' @ p @ '' IF NOT EXISTS '' @
     ''FOR (n:'' @ ticked l @ '') REQUIRE n.'' @ p @ '' IS NOT NULL;'') existence_pairs"

definition range_index_statements :: "str list" where
  "range_index_statements = map (\<lambda>(l, p). ''CREATE RANGE INDEX range_'' @ l @ ''_'' @ p @ '' IF NOT EXISTS FOR (n:'' @
     ticked l @ '') ON (n.'' @ p @ '');'') range_index_fields"

definition text_index_statements :: "str list" where
  "text_index_statements = map (\<lambda>(l, p). ''CREATE TEXT INDEX text_'' @ l @ ''_'' @ p @ '' IF NOT EXISTS FOR (n:'' @
     ticked l @ '') ON (n.'' @ p @ '');'') text_index_fields"

definition vector_index_statements :: "int \<Rightarrow> str \<Rightarrow> str list" where
  "vector_index_statements dims similarity = map (\<lambda>(l, p). ''CREATE VECTOR INDEX '' @ ''vector_'' @ l @ ''_'' @ p @
     '' IF NOT EXISTS '' @ ''FOR (n:'' @ ticked l @ '') ON (n.'' @ p @ '') '' @ ''OPTIONS {indexConfig: {'' @
     ''`vector.dimensions`: '' @ str_int dims @ '', '' @ ''`vector.similarity_function`: '' @
     [CHR 0x27] @ similarity @ [CHR 0x27] @ ''}};'') vector_indexes"

subsection \<open>Rendered files\<close>

record migration_section =
  mf_filename :: str
  mf_title :: str
  mf_note :: str
  mf_statements :: "str list"

definition render_section :: "migration_section \<Rightarrow> str" where
  "render_section s = join [CHR 0x0A]
     ([''// ==========================================================================='',
       ''// '' @ mf_title s,
       ''// ---------------------------------------------------------------------------'',
       ''// '' @ mf_note s,
       ''// Generated from app/graph/schema_migrations.py '' @ em_dash @ '' edit the registry, not here.'',
       ''// ==========================================================================='',
       []] @ concat (map (\<lambda>stmt. [stmt, []]) (mf_statements s)))"

definition migration_sections :: "int \<Rightarrow> str \<Rightarrow> migration_section list" where
  "migration_sections dims similarity = [
     \<lparr>mf_filename = ''001_constraints.cypher'',
       mf_title = ''Phase 2 '' @ em_dash @ '' Uniqueness constraints (all 16 Phase 1 node labels)'',
       mf_note = ''Community + Enterprise safe. Enforces the canonical graph key `id`.'',
       mf_statements = uniqueness_statements\<rparr>,
     \<lparr>mf_filename = ''002_indexes.cypher'',
       mf_title = ''Phase 2 '' @ em_dash @ '' RANGE + TEXT indexes for fast GraphRAG retrieval'',
       mf_note = ''Community + Enterprise safe. Backs filters, sorting, and substring search.'',
       mf_statements = range_index_statements @ text_index_statements\<rparr>,
     \<lparr>mf_filename = ''003_vector_index.cypher'',
       mf_title = ''Phase 2 '' @ em_dash @ '' Native VECTOR indexes for hybrid semantic traversal'',
       mf_note = ''Community 5.11+ / Enterprise safe. Indexes are created before `embedding` is populated.'',
       mf_statements = vector_index_statements dims similarity\<rparr>,
     \<lparr>mf_filename = ''004_existence_constraints_enterprise.cypher'',
       mf_title = ''Phase 2 '' @ em_dash @ '' IS NOT NULL property-existence constraints'',
       mf_note = ''ENTERPRISE EDITION ONLY. Community silently ignores these. The Python '' @
         ''runner (apply_migrations) applies them conditionally based on dbms edition.'',
       mf_statements = existence_statements\<rparr>]"

definition render_migration_files :: "int \<Rightarrow> str \<Rightarrow> (str \<times> str) list" where
  "render_migration_files dims similarity =
     map (\<lambda>s. (mf_filename s, render_section s)) (migration_sections dims similarity)"

subsection \<open>The runner\<close>

type_synonym 'db driver = "'db \<Rightarrow> str \<Rightarrow> unit res \<times> 'db"

record migration_report =
  mr_applied :: "str list"
  mr_skipped :: "str list"
  mr_edition :: "str option"
  mr_errors :: "str list"

fun run_all :: "'db driver \<Rightarrow> str list \<Rightarrow> 'db \<Rightarrow> migration_report \<Rightarrow> 'db \<times> migration_report" where
  "run_all run [] db r = (db, r)"
| "run_all run (stmt # stmts) db r = (case run db stmt of
       (Inr u, db') \<Rightarrow> run_all run stmts db' (r\<lparr>mr_applied := mr_applied r @ [stmt]\<rparr>)
     | (Inl e, db') \<Rightarrow> run_all run stmts db'
         (r\<lparr>mr_errors := mr_errors r @ [error_type e @ '': '' @ stmt @ '' -> '' @ err_text e]\<rparr>))"

lemma run_all_append: "run_all run (xs @ ys) db r = (case run_all run xs db r of (db', r') \<Rightarrow> run_all run ys db' r')"
  by (induction xs arbitrary: db r) (auto split: prod.splits sum.splits)

definition community_statements :: "str list" where
  "community_statements = uniqueness_statements @ range_index_statements @ text_index_statements
     @ vector_index_statements default_vector_dimensions default_vector_similarity"

definition apply_migrations ::
  "'db driver \<Rightarrow> str option \<Rightarrow> bool option \<Rightarrow> 'db \<Rightarrow> 'db \<times> migration_report" where
  "apply_migrations run edition apply_existence db =
     (let existence = (case apply_existence of None \<Rightarrow> edition = Some ''enterprise'' | Some b \<Rightarrow> b)
      in case run_all run community_statements db
             \<lparr>mr_applied = [], mr_skipped = [], mr_edition = edition, mr_errors = []\<rparr> of
           (db1, r1) \<Rightarrow>
             if existence then run_all run existence_statements db1 r1
             else (db1, r1\<lparr>mr_skipped := mr_skipped r1 @ existence_statements\<rparr>))"

definition all_statements :: "str list" where
  "all_statements = community_statements @ existence_statements"

subsection \<open>The catalogue is consistent\<close>

lemma catalogue_labels:
  "map fst existence_fields = node_labels" "distinct node_labels"
  "list_all (\<lambda>(l, p). l \<in> set node_labels) range_index_fields"
  "list_all (\<lambda>(l, p). l \<in> set node_labels) text_index_fields"
  "list_all (\<lambda>(l, p). l \<in> set node_labels) vector_indexes"
  by code_simp+

lemma catalogue_distinct: "distinct range_index_fields" "distinct text_index_fields" "distinct existence_pairs"
  by code_simp+

text \<open>The indexed embedding is under no constraint and under no other index.\<close>

lemma vector_properties_optional:
  "list_all (\<lambda>lp. lp \<notin> set existence_pairs \<and> lp \<notin> set range_index_fields \<and> lp \<notin> set text_index_fields) vector_indexes"
  by code_simp

subsection \<open>The files and the runner hold the same statements\<close>

fun text_lines :: "str \<Rightarrow> str list" where
  "text_lines [] = [[]]"
| "text_lines (c # cs) = (if c = CHR 0x0A then [] # text_lines cs
     else (case text_lines cs of [] \<Rightarrow> [[c]] | l # ls \<Rightarrow> (c # l) # ls))"

definition one_line :: "str \<Rightarrow> bool" where
  "one_line s = list_all (\<lambda>c. c \<noteq> CHR 0x0A) s"

lemma one_line_append [simp]: "one_line (a @ b) = (one_line a \<and> one_line b)"
  by (simp add: one_line_def)

lemma text_lines_append: "one_line a \<Longrightarrow> text_lines (a @ [CHR 0x0A] @ b) = a # text_lines b"
  by (induction a) (simp_all add: one_line_def)

lemma text_lines_one: "one_line a \<Longrightarrow> text_lines a = [a]"
  by (induction a) (simp_all add: one_line_def)

lemma text_lines_join: "list_all one_line ls \<Longrightarrow> ls \<noteq> [] \<Longrightarrow> text_lines (join [CHR 0x0A] ls) = ls"
proof (induction "[CHR 0x0A]" ls rule: join.induct)
  case (3 x v va)
  then show ?case using text_lines_append [of x "join [CHR 0x0A] (v # va)"] by simp
qed (simp_all add: text_lines_one)

definition is_statement :: "str \<Rightarrow> bool" where
  "is_statement l \<longleftrightarrow> take 1 l = ''C''"

definition file_statements :: "str \<Rightarrow> str list" where
  "file_statements content = filter is_statement (text_lines content)"

lemma catalogue_one_line:
  "list_all one_line node_labels" "list_all (\<lambda>(l, p). one_line l \<and> one_line p) existence_pairs"
  "list_all (\<lambda>(l, p). one_line l \<and> one_line p) range_index_fields"
  "list_all (\<lambda>(l, p). one_line l \<and> one_line p) text_index_fields"
  by code_simp+

definition proper :: "str \<Rightarrow> bool" where
  "proper s \<longleftrightarrow> one_line s \<and> is_statement s"

lemma one_line_simps [simp]: "one_line []" "one_line (c # s) \<longleftrightarrow> c \<noteq> CHR 0x0A \<and> one_line s"
  by (simp_all add: one_line_def)

lemma proper_simps: "proper (CHR ''C'' # s) \<longleftrightarrow> one_line s"
  by (simp add: proper_def is_statement_def)

lemma proper_map: "list_all P xs \<Longrightarrow> (\<And>x. P x \<Longrightarrow> proper (f x)) \<Longrightarrow> list_all proper (map f xs)"
  by (simp add: list_all_iff)

lemma proper_statements:
  "list_all proper uniqueness_statements" "list_all proper existence_statements"
  "list_all proper range_index_statements" "list_all proper text_index_statements"
  unfolding uniqueness_statements_def existence_statements_def range_index_statements_def text_index_statements_def
  by (rule proper_map [OF catalogue_one_line(1)] proper_map [OF catalogue_one_line(2)]
        proper_map [OF catalogue_one_line(3)] proper_map [OF catalogue_one_line(4)];
      simp add: proper_simps ticked_def split: prod.splits)+

lemma proper_vector_statements:
  "list_all proper (vector_index_statements default_vector_dimensions default_vector_similarity)"
  by (simp add: vector_index_statements_def vector_indexes_def default_vector_dimensions_def
    default_vector_similarity_def proper_simps ticked_def str_int_def str_pos.simps digit_char_def) code_simp

lemma filter_proper: "list_all proper ss \<Longrightarrow> filter is_statement (concat (map (\<lambda>s. [s, []]) ss)) = ss"
  by (induction ss) (auto simp: proper_def is_statement_def)

lemma file_statements_section:
  assumes "list_all proper (mf_statements s)" "one_line (mf_title s)" "one_line (mf_note s)"
  shows "file_statements (render_section s) = mf_statements s"
proof -
  have "list_all one_line (concat (map (\<lambda>s. [s, []]) (mf_statements s)))"
    using assms(1) by (induction "mf_statements s") (auto simp: list_all_iff proper_def one_line_def)
  with assms(2,3) show ?thesis
    unfolding file_statements_def render_section_def
    by (subst text_lines_join) (simp_all add: filter_proper [OF assms(1)] is_statement_def, simp_all add: one_line_def em_dash_def)
qed

definition migration_files :: "(str \<times> str) list" where
  "migration_files = render_migration_files default_vector_dimensions default_vector_similarity"

text \<open>C31. The rendered files hold exactly the statements of the runner on the Enterprise edition, in its
  order: reading the statements back from the four files (the lines that are neither empty nor a
  comment) and running them gives the database and report of \<open>apply_migrations\<close>.\<close>

theorem files_equal_runner:
  "apply_migrations run (Some ''enterprise'') None db =
     run_all run (concat (map (\<lambda>f. file_statements (snd f)) migration_files)) db
       \<lparr>mr_applied = [], mr_skipped = [], mr_edition = Some ''enterprise'', mr_errors = []\<rparr>"
proof -
  have "map (\<lambda>f. file_statements (snd f)) migration_files
      = map mf_statements (migration_sections default_vector_dimensions default_vector_similarity)"
    unfolding migration_files_def render_migration_files_def migration_sections_def
    by (simp add: file_statements_section proper_statements proper_vector_statements em_dash_def)
  then show ?thesis
    by (simp add: apply_migrations_def migration_sections_def community_statements_def run_all_append Let_def
        split: prod.splits)
qed

subsection \<open>Every statement is accounted for\<close>

lemma run_all_exact: "run_all run ss db r = (db', r') \<Longrightarrow>
    (\<exists>done bad. mr_applied r' = mr_applied r @ done \<and> mr_errors r' = mr_errors r @ bad
       \<and> subseq done ss \<and> length done + length bad = length ss)
    \<and> mr_skipped r' = mr_skipped r \<and> mr_edition r' = mr_edition r"
proof (induction ss arbitrary: db r)
  case (Cons s ss)
  obtain m db1 where m: "run db s = (m, db1)" by fastforce
  show ?case
  proof (cases m)
    case (Inr u)
    with m Cons.prems have "run_all run ss db1 (r\<lparr>mr_applied := mr_applied r @ [s]\<rparr>) = (db', r')" by simp
    from Cons.IH [OF this] obtain d b where "mr_applied r' = mr_applied r @ s # d" "mr_errors r' = mr_errors r @ b"
        "subseq d ss" "length d + length b = length ss" "mr_skipped r' = mr_skipped r" "mr_edition r' = mr_edition r"
      by auto
    then show ?thesis by (intro conjI exI [of _ "s # d"] exI [of _ b]) auto
  next
    case (Inl e)
    let ?x = "error_type e @ '': '' @ s @ '' -> '' @ err_text e"
    from Inl m Cons.prems have "run_all run ss db1 (r\<lparr>mr_errors := mr_errors r @ [?x]\<rparr>) = (db', r')" by simp
    from Cons.IH [OF this] obtain d b where "mr_applied r' = mr_applied r @ d" "mr_errors r' = mr_errors r @ ?x # b"
        "subseq d ss" "length d + length b = length ss" "mr_skipped r' = mr_skipped r" "mr_edition r' = mr_edition r"
      by auto
    then show ?thesis by (intro conjI exI [of _ d] exI [of _ "?x # b"]) auto
  qed
qed simp

text \<open>Whatever the driver does, a run never stops early: the applied statements are a subsequence of
  the catalogue, every statement is applied, reported with its error or skipped, and the constraints
  of the Enterprise edition are skipped all or none.\<close>

theorem migrations_account:
  "case apply_migrations run edition flag db of (db', r) \<Rightarrow>
     subseq (mr_applied r) all_statements
     \<and> length (mr_applied r) + length (mr_errors r) + length (mr_skipped r) = length all_statements
     \<and> mr_skipped r = (if (case flag of None \<Rightarrow> edition = Some ''enterprise'' | Some b \<Rightarrow> b)
          then [] else existence_statements)
     \<and> mr_edition r = edition"
proof -
  let ?r0 = "\<lparr>mr_applied = [], mr_skipped = [], mr_edition = edition, mr_errors = []\<rparr>"
  let ?e = "case flag of None \<Rightarrow> edition = Some ''enterprise'' | Some b \<Rightarrow> b"
  obtain db' r where r: "apply_migrations run edition flag db = (db', r)" by fastforce
  show ?thesis
  proof (cases ?e)
    case True
    then have "run_all run all_statements db ?r0 = (db', r)"
      using r by (simp add: apply_migrations_def all_statements_def run_all_append)
    from run_all_exact [OF this] show ?thesis using r True by auto
  next
    case False
    obtain db1 r1 where 1: "run_all run community_statements db ?r0 = (db1, r1)" by fastforce
    with r False have "r = r1\<lparr>mr_skipped := mr_skipped r1 @ existence_statements\<rparr>"
      by (simp add: apply_migrations_def)
    with run_all_exact [OF 1] r False show ?thesis
      by (auto simp: all_statements_def intro: subseq_rev_drop_many)
  qed
qed

subsection \<open>A second run changes nothing\<close>

text \<open>The clause that makes a statement harmless where its schema object is there already.\<close>

definition conditional :: "str \<Rightarrow> bool" where
  "conditional s \<longleftrightarrow> contains ''IF NOT EXISTS'' s"

lemma conditional_append: "conditional b \<Longrightarrow> conditional (a @ b)" "conditional a \<Longrightarrow> conditional (a @ b)"
  unfolding conditional_def contains_iff by (metis append.assoc)+

lemma conditional_map: "(\<And>x. conditional (f x)) \<Longrightarrow> list_all conditional (map f xs)"
  by (simp add: list_all_iff)

lemma conditional_statements:
  "list_all conditional uniqueness_statements" "list_all conditional existence_statements"
  "list_all conditional range_index_statements" "list_all conditional text_index_statements"
  "list_all conditional (vector_index_statements dims similarity)"
proof -
  have c: "conditional ''_id IF NOT EXISTS ''" "conditional '' IF NOT EXISTS ''" "conditional '' IF NOT EXISTS FOR (n:''"
    by code_simp+
  show "list_all conditional uniqueness_statements" unfolding uniqueness_statements_def
    by (intro conditional_map conditional_append(1) conditional_append(2) [OF c(1)])
  show "list_all conditional existence_statements" unfolding existence_statements_def
    by (rule conditional_map, simp only: split: prod.split, intro allI impI conditional_append(1) conditional_append(2) [OF c(2)])
  show "list_all conditional range_index_statements" unfolding range_index_statements_def
    by (rule conditional_map, simp only: split: prod.split, intro allI impI conditional_append(1) conditional_append(2) [OF c(3)])
  show "list_all conditional text_index_statements" unfolding text_index_statements_def
    by (rule conditional_map, simp only: split: prod.split, intro allI impI conditional_append(1) conditional_append(2) [OF c(3)])
  show "list_all conditional (vector_index_statements dims similarity)" unfolding vector_index_statements_def
    by (rule conditional_map, simp only: split: prod.split, intro allI impI conditional_append(1) conditional_append(2) [OF c(2)])
qed

lemma conditional_all: "list_all conditional community_statements" "list_all conditional existence_statements"
  using conditional_statements by (simp_all add: community_statements_def)

text \<open>What the runner relies on: a statement is refused or not whatever the schema holds (the edition does
  not support it, the data forbid it), a refused statement changes nothing, another is in force once executed
  and stays so, and executing a statement in force changes nothing: it succeeds if it is conditional and is an
  error if it is not.\<close>

locale schema_database =
  fixes run :: "'db driver" and holds :: "'db \<Rightarrow> str \<Rightarrow> bool" and refuses :: "str \<Rightarrow> py_error option"
  assumes refused: "refuses s = Some e \<Longrightarrow> run db s = (Inl e, db)"
    and accepted: "refuses s = None \<Longrightarrow> \<not> holds db s \<Longrightarrow> fst (run db s) = Inr () \<and> holds (snd (run db s)) s"
    and kept: "holds db t \<Longrightarrow> holds (snd (run db s)) t"
    and again: "refuses s = None \<Longrightarrow> holds db s \<Longrightarrow> conditional s \<Longrightarrow> run db s = (Inr (), db)"
    and twice: "refuses s = None \<Longrightarrow> holds db s \<Longrightarrow> \<not> conditional s \<Longrightarrow> \<exists>e. run db s = (Inl e, db)"
begin

definition in_force :: "str list \<Rightarrow> 'db \<Rightarrow> bool" where
  "in_force ss db \<longleftrightarrow> (\<forall>s\<in>set ss. refuses s = None \<longrightarrow> holds db s)"

definition outcome :: "str list \<Rightarrow> migration_report \<Rightarrow> migration_report" where
  "outcome ss r = snd (run_all (\<lambda>db s. (case refuses s of None \<Rightarrow> Inr () | Some e \<Rightarrow> Inl e, db)) ss () r)"

lemma in_force_step: "in_force ss db \<Longrightarrow> in_force ss (snd (run db s))"
  by (auto simp: in_force_def kept)

lemma executed:
  assumes "refuses s = None" "conditional s"
  shows "run db s = (Inr (), snd (run db s))" "holds (snd (run db s)) s"
  using accepted [OF assms(1), of db] again [OF assms(1) _ assms(2), of db]
  by (cases "holds db s"; cases "run db s"; simp)+

lemma run_all_ok: "refuses s = None \<Longrightarrow> conditional s \<Longrightarrow>
    run_all run (s # ss) db r = run_all run ss (snd (run db s)) (r\<lparr>mr_applied := mr_applied r @ [s]\<rparr>)"
  using executed(1) [of s db] by (cases "run db s") simp

lemma run_all_keeps: "in_force ts db \<Longrightarrow> in_force ts (fst (run_all run ss db r))"
proof (induction ss arbitrary: db r)
  case (Cons s ss)
  then show ?case
    by (cases "run db s") (auto split: sum.splits dest: in_force_step [of ts db s])
qed simp

lemma run_all_in_force: "list_all conditional ss \<Longrightarrow> in_force ss (fst (run_all run ss db r))"
proof (induction ss arbitrary: db r)
  case (Cons s ss)
  show ?case
  proof (cases "refuses s")
    case None
    let ?db = "snd (run db s)" and ?r = "r\<lparr>mr_applied := mr_applied r @ [s]\<rparr>"
    have s: "conditional s" "list_all conditional ss" using Cons.prems by simp_all
    note e = run_all_ok [OF None s(1), of ss db r]
    have "in_force [s] ?db" using executed(2) [OF None s(1)] by (simp add: in_force_def)
    from run_all_keeps [OF this, of ss ?r] Cons.IH [OF s(2), of ?db ?r]
    show ?thesis unfolding e by (simp add: in_force_def)
  next
    case (Some x)
    then show ?thesis using Cons.IH Cons.prems by (simp add: in_force_def refused)
  qed
qed (simp add: in_force_def)

lemma run_all_report: "list_all conditional ss \<Longrightarrow> snd (run_all run ss db r) = outcome ss r"
  unfolding outcome_def
proof (induction ss arbitrary: db r)
  case (Cons s ss)
  then show ?case by (cases "refuses s") (simp_all add: run_all_ok refused del: run_all.simps(2), simp_all add: refused)
qed simp

lemma run_all_fixed: "list_all conditional ss \<Longrightarrow> in_force ss db \<Longrightarrow> fst (run_all run ss db r) = db"
proof (induction ss arbitrary: r)
  case (Cons s ss)
  then have "in_force ss db" "refuses s = None \<Longrightarrow> run db s = (Inr (), db)" by (auto simp: in_force_def again)
  with Cons show ?case by (cases "refuses s") (simp_all add: refused)
qed simp

lemma migrations_fixed:
  "apply_migrations run edition flag db = (db1, r1) \<Longrightarrow> apply_migrations run edition flag db1 = (db1, r1)"
proof -
  let ?e = "case flag of None \<Rightarrow> edition = Some ''enterprise'' | Some b \<Rightarrow> b"
  let ?ss = "community_statements @ (if ?e then existence_statements else [])"
  let ?r0 = "\<lparr>mr_applied = [], mr_skipped = [], mr_edition = edition, mr_errors = []\<rparr>"
  have guarded: "list_all conditional ?ss" by (simp add: conditional_all)
  have run: "apply_migrations run edition flag db = (fst (run_all run ?ss db ?r0),
      (outcome ?ss ?r0)\<lparr>mr_skipped := mr_skipped (outcome ?ss ?r0) @ (if ?e then [] else existence_statements)\<rparr>)" for db
    unfolding run_all_report [OF guarded, of db ?r0, symmetric]
    by (simp add: apply_migrations_def run_all_append split: prod.splits)
  assume "apply_migrations run edition flag db = (db1, r1)"
  then have "in_force ?ss db1" using run_all_in_force [OF guarded, of db ?r0] by (simp add: run)
  from run_all_fixed [OF guarded this] \<open>apply_migrations run edition flag db = (db1, r1)\<close> show ?thesis by (simp add: run)
qed

end

text \<open>A database that reads the clause in the text of a statement: the statements in force, in the order of
  their execution, and those it refuses.\<close>

definition schema_run :: "(str \<Rightarrow> py_error option) \<Rightarrow> str list driver" where
  "schema_run refuses db s = (case refuses s of
     Some e \<Rightarrow> (Inl e, db)
   | None \<Rightarrow> if s \<notin> set db then (Inr (), db @ [s])
       else (if conditional s then Inr () else Inl (OtherErr ''ClientError'' ''EquivalentSchemaRuleAlreadyExists''), db))"

interpretation schema: schema_database "schema_run refuses" "\<lambda>db s. s \<in> set db" refuses for refuses
  by unfold_locales (auto simp: schema_run_def split: option.splits)

text \<open>The clause is needed: without it the second execution is an error.\<close>

lemma unconditional_twice:
  "run_all (schema_run (\<lambda>_. None)) [''CREATE INDEX i'', ''CREATE INDEX i''] [] r =
     ([''CREATE INDEX i''], r\<lparr>mr_applied := mr_applied r @ [''CREATE INDEX i''],
        mr_errors := mr_errors r @ [''ClientError: CREATE INDEX i -> EquivalentSchemaRuleAlreadyExists'']\<rparr>)"
proof -
  have "\<not> conditional ''CREATE INDEX i''" by code_simp
  then show ?thesis by (simp add: schema_run_def)
qed

text \<open>C32. Migrating is idempotent: on any database for which a statement is refused or not whatever its schema
  holds, a refused statement changes nothing, an executed one stays in force, and executing it again changes
  nothing and is an error unless the statement says \<open>IF NOT EXISTS\<close>, a second run leaves the database as the
  first left it and reports the same statements as applied, refused and skipped. Every statement of the
  catalogue says it.\<close>

theorem migrations_idempotent:
  assumes "schema_database run holds refuses"
  shows "list_all conditional all_statements \<and>
    (case apply_migrations run edition flag db of (db1, r1) \<Rightarrow> apply_migrations run edition flag db1 = (db1, r1))"
  using conditional_all schema_database.migrations_fixed [OF assms, of edition flag db]
  by (cases "apply_migrations run edition flag db") (simp add: all_statements_def)

text \<open>The laws hold of the database above, here one that supports no vector index.\<close>

lemma migrations_idempotent_witness:
  "list_all conditional all_statements \<and>
   (case apply_migrations (schema_run (\<lambda>s. if contains ''VECTOR'' s then Some (RuntimeErr ''unsupported'') else None))
      (Some ''community'') None [] of
     (db1, r1) \<Rightarrow> apply_migrations (schema_run (\<lambda>s. if contains ''VECTOR'' s then Some (RuntimeErr ''unsupported'') else None))
       (Some ''community'') None db1 = (db1, r1))"
  by (rule migrations_idempotent [OF schema.schema_database_axioms])

end
