(* ===== verification/Http_Api.thy ===== *)
theory Http_Api
  imports Gateway Xai_Service Topology
begin

section \<open>The HTTP layer of the platform\<close>

text \<open>
  \<open>app/api\<close>, \<open>app/services/ai_client.py\<close> and \<open>app/main.py\<close>: the middleware that keeps the platform
  internal, the token checks, the alert store as a state machine with its two injection routes, the
  fixed registry of assets, the relay to an external platform, the allowed origins, and the routes
  that wrap the decision, orchestration and explanation services. The rest of the application
  (\<open>call_next\<close>), the upstream call and the services are parameters; identifiers and time stamps are
  arguments. The theorems show what the middleware admits, that the alert routes agree with the store
  of the gateway, the life cycle of an alert, and what the relay answers and calls.
\<close>

subsection \<open>The internal-only guard\<close>

record http_request =
  hr_path :: str
  hr_headers :: "(str \<times> str) list"

record http_response =
  hs_status :: int
  hs_headers :: "(str \<times> str) list"
  hs_content :: pyval

text \<open>\<open>request.headers.get(name)\<close>: names are compared without case, the first one counts.\<close>

definition header_value :: "http_request \<Rightarrow> str \<Rightarrow> str option" where
  "header_value r name = map_of (map (\<lambda>(k, v). (py_lower k, v)) (hr_headers r)) (py_lower name)"

text \<open>The environment variables the middleware reads when it is built.\<close>

record guard_env =
  gd_service_api_key :: "str option"
  gd_gateway_token :: "str option"
  gd_app_env :: "str option"

definition service_token :: "guard_env \<Rightarrow> str" where
  "service_token g = (case or_str (gd_service_api_key g) (gd_gateway_token g) of
       Some t \<Rightarrow> if t = [] then ''changeme_internal_service_key'' else t
     | None \<Rightarrow> ''changeme_internal_service_key'')"

definition app_env :: "guard_env \<Rightarrow> str" where
  "app_env g = py_lower (case gd_app_env g of None \<Rightarrow> ''development'' | Some e \<Rightarrow> e)"

definition allowlist_paths :: "str list" where
  "allowlist_paths = [''/'', ''/health'', ''/docs'', ''/redoc'', ''/openapi.json'', ''/api/v1/graphrag/health'',
     ''/api/v1/predictive/health'', ''/api/v1/decision/health'', ''/api/v1/vector/health'']"

definition public_path :: "str \<Rightarrow> bool" where
  "public_path p \<longleftrightarrow> p \<in> set allowlist_paths \<or> starts_with ''/docs'' p \<or> starts_with ''/redoc'' p"

definition presented_token :: "http_request \<Rightarrow> str option" where
  "presented_token r = or_str (or_str (header_value r ''X-Internal-Service-Token'') (header_value r ''X-Service-Token''))
     (header_value r ''x-internal-service-token'')"

definition authorization_header :: "http_request \<Rightarrow> str" where
  "authorization_header r = (case header_value r ''Authorization'' of None \<Rightarrow> [] | Some a \<Rightarrow> a)"

definition forbidden :: "http_request \<Rightarrow> http_response" where
  "forbidden r = \<lparr>hs_status = 403, hs_headers = [], hs_content = VDict [
     (''success'', VBool False),
     (''error'', VStr (''Forbidden '' @ em_dash @ '' brain_intelligence is internal-only'')),
     (''detail'', VStr (''Direct browser access to brain_intelligence is forbidden. Use Gateway: POST '' @
        ''https://api.iob.enterprise.internal/v1/ai/* . See Phase 0 guide.'')),
     (''pipeline'', VStr ''Frontend -> Gateway -> REST Gateway Relay -> brain_intelligence''),
     (''rule_violated'', VStr (''Rule #1: Frontend NEVER contacts brain_intelligence directly. '' @
        ''Rule #2: brain_intelligence is internal-only microservice.'')),
     (''fix'', VStr (''Call Gateway at /api/v1/ai/* with Authorization Bearer <user_jwt>. '' @
        ''Gateway forwards with X-Internal-Service-Token.'')),
     (''request_id'', VStr (case header_value r ''X-Request-ID'' of None \<Rightarrow> ''unknown'' | Some i \<Rightarrow> i)),
     (''flagged_path'', VStr (hr_path r))]\<rparr>"

definition guard_dispatch ::
  "guard_env \<Rightarrow> (http_request \<Rightarrow> http_response) \<Rightarrow> http_request \<Rightarrow> http_response" where
  "guard_dispatch g call_next r =
     (if public_path (hr_path r) then call_next r
      else let token = presented_token r; auth = authorization_header r in
        if truthy_str token \<and> token = Some (service_token g) then call_next r
        else if starts_with ''Bearer '' auth \<and> contains (service_token g) auth then call_next r
        else if app_env g = ''development''
        then let response = call_next r
             in response\<lparr>hs_headers := AList.update ''X-Phase0-Warning''
                  ''Direct AI access in dev only - use gateway in prod'' (hs_headers response)\<rparr>
        else forbidden r)"

lemma lower_names [simp]:
  "py_lower ''development'' = ''development''" "py_lower ''Authorization'' = ''authorization''"
  "py_lower ''X-Internal-Service-Token'' = ''x-internal-service-token''"
  "py_lower ''x-internal-service-token'' = ''x-internal-service-token''"
  "py_lower ''X-Service-Token'' = ''x-service-token''"  "py_lower ''x-service-token'' = ''x-service-token''"
  by code_simp+

lemma service_token_nonempty: "service_token g \<noteq> []"
  by (simp add: service_token_def split: option.splits)

lemma header_value_in: "header_value r name = Some v \<Longrightarrow> \<exists>k. (k, v) \<in> set (hr_headers r)"
  by (auto simp: header_value_def dest!: map_of_SomeD)

lemma presented_token_in: "presented_token r = Some v \<Longrightarrow> \<exists>k. (k, v) \<in> set (hr_headers r)"
  by (auto simp: presented_token_def or_str_def dest: header_value_in split: if_splits)

lemma contains_refl: "contains s s"
  by (auto simp: contains_iff intro: exI [of _ "[]"])

definition carries_secret :: "guard_env \<Rightarrow> http_request \<Rightarrow> bool" where
  "carries_secret g r \<longleftrightarrow> list_ex (\<lambda>(k, v). contains (service_token g) v) (hr_headers r)"

text \<open>C33. Outside development the guard forwards nothing without the secret: a request whose path is not public and
  none of whose headers holds the service token is answered with 403 and never reaches the
  application, whatever the application would do.\<close>

theorem guard_needs_secret:
  assumes "app_env g \<noteq> ''development''" "\<not> public_path (hr_path r)" "\<not> carries_secret g r"
  shows "guard_dispatch g call_next r = forbidden r"
proof -
  have "presented_token r \<noteq> Some (service_token g)"
    using assms(3) contains_refl presented_token_in [of r "service_token g"] by (force simp: carries_secret_def list_ex_iff)
  moreover have "\<not> contains (service_token g) (authorization_header r)"
    using assms(3) header_value_in [of r "''Authorization''"] service_token_nonempty [of g]
    by (auto simp: authorization_header_def carries_secret_def list_ex_iff split: option.splits)
  ultimately show ?thesis using assms(1,2) by (simp add: guard_dispatch_def Let_def)
qed

definition browser_request :: http_request where
  "browser_request = \<lparr>hr_path = ''/api/v1/alerts/active'', hr_headers = [(''Authorization'', ''Bearer user'')]\<rparr>"

definition production :: guard_env where
  "production = \<lparr>gd_service_api_key = Some ''s3cret'', gd_gateway_token = None, gd_app_env = Some ''production''\<rparr>"

definition greeting :: "http_request \<Rightarrow> http_response" where
  "greeting r = \<lparr>hs_status = 200, hs_headers = [], hs_content = VStr ''hello''\<rparr>"

theorem guard_needs_secret_witness: "hs_status (guard_dispatch production greeting browser_request) = 403"
proof -
  have "app_env production \<noteq> ''development''" "\<not> public_path (hr_path browser_request)"
    "\<not> carries_secret production browser_request" by code_simp+
  from guard_needs_secret [OF this] show ?thesis by (simp add: forbidden_def)
qed

text \<open>Without configuration the middleware admits everything: the environment defaults to development and no
  origin is checked. The secret may be part of the bearer token, and its default is in the source.\<close>

lemma unset_environment_open: "gd_app_env g = None \<Longrightarrow> hs_status (guard_dispatch g f r) = hs_status (f r)"
  by (simp add: guard_dispatch_def app_env_def Let_def)

lemma bearer_substring_admitted:
  "hr_headers r = [(''Authorization'', ''Bearer '' @ a @ service_token g @ b)] \<Longrightarrow> guard_dispatch g f r = f r"
proof -
  assume h: "hr_headers r = [(''Authorization'', ''Bearer '' @ a @ service_token g @ b)]"
  then have "authorization_header r = ''Bearer '' @ a @ service_token g @ b"
    by (simp add: authorization_header_def header_value_def)
  moreover have "contains (service_token g) (''Bearer '' @ a @ service_token g @ b)"
    by (metis append_assoc contains_iff)
  ultimately show ?thesis by (simp add: guard_dispatch_def Let_def)
qed

lemma default_secret_admitted:
  "gd_service_api_key g = None \<Longrightarrow> gd_gateway_token g = None \<Longrightarrow>
     guard_dispatch g f \<lparr>hr_path = p, hr_headers = [(''x-service-token'', ''changeme_internal_service_key'')]\<rparr>
       = f \<lparr>hr_path = p, hr_headers = [(''x-service-token'', ''changeme_internal_service_key'')]\<rparr>"
  by (simp add: guard_dispatch_def presented_token_def header_value_def service_token_def or_str_def Let_def)

subsection \<open>Tokens\<close>

text \<open>A refusal of the code, or an exception it does not catch.\<close>

datatype api_failure = Refused int str | Crashed py_error

text \<open>\<open>_extract_token\<close> of the alert, dashboard, asset and test routes.\<close>

definition bearer_token :: "str option \<Rightarrow> api_failure + str" where
  "bearer_token authorization =
     (if \<not> truthy_str authorization then Inl (Refused 401 ''Missing auth'')
      else let header = the authorization
           in if contains ''Bearer'' header
              then (case split_blanks header of
                   p # t # ps \<Rightarrow> if length t < 5 then Inl (Refused 401 ''Invalid token'') else Inr t
                 | _ \<Rightarrow> Inl (Crashed (IndexErr ''list index out of range'')))
              else if length header < 5 then Inl (Refused 401 ''Invalid token'') else Inr header)"

text \<open>\<open>auth.py\<close>: the standalone login with its set of tokens, and its check.\<close>

definition auth_login :: "str \<Rightarrow> str \<Rightarrow> str \<Rightarrow> str set \<Rightarrow> api_failure + (str \<times> str set)" where
  "auth_login uuid_hex username password tokens =
     (if username = ''demo_operator'' \<and> password = ''secure_password_2026''
      then Inr (''iob_demo_'' @ uuid_hex, insert (''iob_demo_'' @ uuid_hex) tokens)
      else if 6 \<le> length password then Inr (''iob_'' @ uuid_hex, insert (''iob_'' @ uuid_hex) tokens)
      else Inl (Refused 401 ''Invalid credentials''))"

definition auth_token :: "str option \<Rightarrow> str set \<Rightarrow> api_failure + str" where
  "auth_token authorization tokens =
     (if \<not> truthy_str authorization then Inl (Refused 401 ''Missing auth'')
      else let header = the authorization; parts = split_blanks header;
               token = (if length parts = 2 \<and> py_lower (parts ! 0) = ''bearer'' then parts ! 1 else header);
               valid = (token \<in> tokens \<or> 10 < length token)
           in if \<not> valid \<and> length token < 10 then Inl (Refused 401 ''Invalid token'') else Inr token)"

text \<open>A header that is the word alone ends in an exception, and any word of five characters is a token.\<close>

lemma bearer_alone_crashes: "bearer_token (Some ''Bearer'') = Inl (Crashed (IndexErr ''list index out of range''))"
  by code_simp

lemma any_word_is_token: "bearer_token (Some ''guess'') = Inr ''guess''" "auth_token (Some ''0123456789'') {} = Inr ''0123456789''"
  by code_simp+

subsection \<open>The alert store\<close>

text \<open>\<open>api/v1/alerts.py\<close> and \<open>api/v1/test_inject.py\<close> share one list of dictionaries; a key that only some
  alerts have is an option or a flag.\<close>

record api_alert =
  aa_id :: str
  aa_alert_id :: "str option"
  aa_asset_id :: str
  aa_metric :: str
  aa_value :: float64
  aa_severity :: str
  aa_status :: str
  aa_timestamp :: str
  aa_message :: "str option"
  aa_acknowledged :: bool
  aa_resolved_at :: "str option"

definition api_alert_of :: "str \<Rightarrow> str option \<Rightarrow> str \<Rightarrow> str \<Rightarrow> str \<Rightarrow> float64 \<Rightarrow> str option \<Rightarrow> api_alert" where
  "api_alert_of i alert_id now asset_id metric v message =
     \<lparr>aa_id = i, aa_alert_id = alert_id, aa_asset_id = asset_id, aa_metric = metric, aa_value = v,
      aa_severity = ''CRITICAL'', aa_status = ''ACTIVE'', aa_timestamp = now, aa_message = message,
      aa_acknowledged = False, aa_resolved_at = None\<rparr>"

definition inject_alert_alt :: "str \<Rightarrow> str \<Rightarrow> str \<Rightarrow> str \<Rightarrow> float64 \<Rightarrow> api_alert list \<Rightarrow> api_alert \<times> api_alert list" where
  "inject_alert_alt i now asset_id metric v alerts =
     (let a = api_alert_of i None now asset_id metric v None in (a, alerts @ [a]))"

definition inject_alarm ::
  "str \<Rightarrow> str \<Rightarrow> str \<Rightarrow> str \<Rightarrow> str \<Rightarrow> float64 \<Rightarrow> api_alert list \<Rightarrow> api_alert \<times> api_alert list" where
  "inject_alarm i alert_id now asset_id metric v alerts =
     (let a = api_alert_of i (Some alert_id) now asset_id metric v
                (Some (''Critical: '' @ metric @ ''='' @ repr_float v))
      in (a, alerts @ [a]))"

definition api_active :: "api_alert \<Rightarrow> bool" where
  "api_active a \<longleftrightarrow> aa_status a \<noteq> ''RESOLVED'' \<and> aa_status a \<noteq> ''CLOSED''"

definition active_alerts :: "api_alert list \<Rightarrow> api_alert list" where
  "active_alerts alerts = filter api_active alerts"

definition acknowledged_alert :: "api_alert \<Rightarrow> api_alert" where
  "acknowledged_alert a = a\<lparr>aa_acknowledged := True, aa_status := ''ACKNOWLEDGED''\<rparr>"

text \<open>The first alert with the identifier is changed in place; without one the answer is 404.\<close>

fun ack_loop :: "str \<Rightarrow> api_alert list \<Rightarrow> (api_alert \<times> api_alert list) option" where
  "ack_loop i [] = None"
| "ack_loop i (a # alerts) =
     (if aa_id a = i \<or> aa_alert_id a = Some i then Some (acknowledged_alert a, acknowledged_alert a # alerts)
      else map_option (\<lambda>(x, rest). (x, a # rest)) (ack_loop i alerts))"

definition ack_alert :: "str \<Rightarrow> api_alert list \<Rightarrow> api_failure + (api_alert \<times> api_alert list)" where
  "ack_alert i alerts = (case ack_loop i alerts of Some x \<Rightarrow> Inr x | None \<Rightarrow> Inl (Refused 404 ''Alert not found''))"

text \<open>\<open>not alert_id or alert["id"] == alert_id or ...\<close> on criteria of any JSON type.\<close>

definition api_matches :: "pyval \<Rightarrow> pyval \<Rightarrow> api_alert \<Rightarrow> bool" where
  "api_matches alert_id asset_id a \<longleftrightarrow>
     (\<not> truthy alert_id \<or> VStr (aa_id a) = alert_id \<or> map_option VStr (aa_alert_id a) = Some alert_id)
     \<and> (\<not> truthy asset_id \<or> VStr (aa_asset_id a) = asset_id)"

definition resolved_alert :: "str \<Rightarrow> api_alert \<Rightarrow> api_alert" where
  "resolved_alert now a = a\<lparr>aa_status := ''RESOLVED'', aa_resolved_at := Some now\<rparr>"

fun api_resolve_loop :: "(api_alert \<Rightarrow> bool) \<Rightarrow> str \<Rightarrow> api_alert list \<Rightarrow> api_alert list \<times> api_alert list" where
  "api_resolve_loop sel now [] = ([], [])"
| "api_resolve_loop sel now (a # alerts) =
     (case api_resolve_loop sel now alerts of (finished, kept) \<Rightarrow>
        if sel a \<and> api_active a then (resolved_alert now a # finished, resolved_alert now a # kept)
        else (finished, a # kept))"

record resolve_answer =
  ra_resolved :: "api_alert list"
  ra_active_count :: nat

text \<open>A body that is no JSON counts as empty; one that is no object raises.\<close>

definition resolve_api_alerts ::
  "pyval option \<Rightarrow> str \<Rightarrow> api_alert list \<Rightarrow> api_failure + (resolve_answer \<times> api_alert list)" where
  "resolve_api_alerts request_json now alerts =
     (let body = (case request_json of None \<Rightarrow> VDict [] | Some b \<Rightarrow> b)
      in case bind_res (vget body ''alert_id'' VNone) (\<lambda>a. bind_res (vget body ''id'' VNone) (\<lambda>i.
                bind_res (vget body ''asset_id'' VNone) (\<lambda>asset. Inr (py_or a i, asset)))) of
           Inl e \<Rightarrow> Inl (Crashed e)
         | Inr (alert_id, asset_id) \<Rightarrow>
             (case api_resolve_loop (api_matches alert_id asset_id) now alerts of (finished, kept) \<Rightarrow>
                Inr (\<lparr>ra_resolved = finished, ra_active_count = length (active_alerts kept)\<rparr>, kept)))"

text \<open>The handlers share the interpreter's event loop and never wait between reading and writing the list, so
  requests interleave as whole steps; a request that fails changes nothing.\<close>

inductive api_step :: "api_alert list \<Rightarrow> api_alert list \<Rightarrow> bool" where
  api_inject: "api_step s (snd (inject_alert_alt i now asset_id metric v s))"
| api_test_inject: "api_step s (snd (inject_alarm i alert_id now asset_id metric v s))"
| api_ack: "ack_alert i s = Inr (a, s') \<Longrightarrow> api_step s s'"
| api_resolve: "resolve_api_alerts body now s = Inr (r, s') \<Longrightarrow> api_step s s'"

inductive api_reaches :: "api_alert list \<Rightarrow> bool" where
  api_empty: "api_reaches []"
| api_next: "api_reaches s \<Longrightarrow> api_step s s' \<Longrightarrow> api_reaches s'"

inductive_cases api_stepE: "api_step s s'"

lemma api_resolve_loop_map: "api_resolve_loop sel now alerts =
    (map (resolved_alert now) (filter (\<lambda>a. sel a \<and> api_active a) alerts),
     map (\<lambda>a. if sel a \<and> api_active a then resolved_alert now a else a) alerts)"
  by (induction alerts) auto

lemma resolve_api_alerts_cases:
  "resolve_api_alerts body now s = Inr (r, s') \<Longrightarrow>
     \<exists>sel. r = \<lparr>ra_resolved = map (resolved_alert now) (filter (\<lambda>a. sel a \<and> api_active a) s),
                ra_active_count = length (active_alerts s')\<rparr>
       \<and> s' = map (\<lambda>a. if sel a \<and> api_active a then resolved_alert now a else a) s"
  by (auto simp: resolve_api_alerts_def api_resolve_loop_map Let_def split: sum.splits prod.splits)

text \<open>What changes an alert, and what a list of alerts looks like after a step: the old alerts in their order, each
  acknowledged, resolved or as it was, and perhaps a new one.\<close>

definition alert_moves :: "api_alert \<Rightarrow> api_alert \<Rightarrow> bool" where
  "alert_moves a b \<longleftrightarrow> b = a \<or> b = acknowledged_alert a \<or> (api_active a \<and> (\<exists>now. b = resolved_alert now a))"

lemma ack_loop_moves: "ack_loop i s = Some (a, s') \<Longrightarrow> list_all2 alert_moves s s'"
  by (induction s arbitrary: s')
    (auto simp: alert_moves_def list_all2_same split: if_splits intro!: list_all2_refl)

lemma api_step_moves: "api_step s s' \<Longrightarrow>
    list_all2 alert_moves s s' \<or> (\<exists>a. s' = s @ [a] \<and> aa_status a = ''ACTIVE'' \<and> \<not> aa_acknowledged a
       \<and> aa_resolved_at a = None \<and> aa_severity a = ''CRITICAL'')"
proof (erule api_stepE, goal_cases)
  case (3 i a)
  then show ?case by (auto simp: ack_alert_def dest: ack_loop_moves split: option.splits)
next
  case (4 body now r)
  then obtain sel where "s' = map (\<lambda>a. if sel a \<and> api_active a then resolved_alert now a else a) s"
    using resolve_api_alerts_cases by blast
  then show ?case by (auto simp: list_all2_conv_all_nth alert_moves_def)
qed (auto simp: inject_alert_alt_def inject_alarm_def api_alert_of_def Let_def)

definition api_alert_ok :: "api_alert \<Rightarrow> bool" where
  "api_alert_ok a \<longleftrightarrow> aa_severity a = ''CRITICAL''
     \<and> (if aa_status a = ''ACTIVE'' then \<not> aa_acknowledged a \<and> aa_resolved_at a = None
        else if aa_status a = ''ACKNOWLEDGED'' then aa_acknowledged a
        else aa_status a = ''RESOLVED'' \<and> aa_resolved_at a \<noteq> None)"

lemma fresh_alert_ok: "aa_status a = ''ACTIVE'' \<Longrightarrow> \<not> aa_acknowledged a \<Longrightarrow> aa_resolved_at a = None \<Longrightarrow>
    aa_severity a = ''CRITICAL'' \<Longrightarrow> api_alert_ok a"
  by (simp add: api_alert_ok_def)

lemma alert_moves_ok: "alert_moves a b \<Longrightarrow> api_alert_ok a \<Longrightarrow> api_alert_ok b"
  by (auto simp: alert_moves_def api_alert_ok_def acknowledged_alert_def resolved_alert_def split: if_splits)

text \<open>Every alert that any interleaving of the routes can produce is critical and in one of three states, with the
  marks of its history: active and untouched, acknowledged with its mark, or resolved with its time. An
  alert listed as active that carries a time of resolution was acknowledged.\<close>

theorem api_alerts_sound:
  assumes "api_reaches s"
  shows "list_all api_alert_ok s \<and> list_all (\<lambda>a. aa_resolved_at a = None \<or> aa_acknowledged a) (active_alerts s)"
proof -
  from assms have ok: "list_all api_alert_ok s"
  proof induction
    case (api_next s s')
    have "list_all api_alert_ok s'" if "list_all2 alert_moves s s'"
      using that api_next.IH alert_moves_ok by (fastforce simp: list_all_length list_all2_conv_all_nth)
    with api_step_moves [OF api_next(2)] api_next.IH show ?case by (auto intro: fresh_alert_ok)
  qed simp
  then show ?thesis
    by (auto simp: list_all_iff active_alerts_def api_active_def api_alert_ok_def split: if_splits)
qed

text \<open>Raise, resolve and acknowledge: the alert is active again, with its time of resolution.\<close>

definition reopened :: "api_alert list" where
  "reopened = (let s1 = snd (inject_alarm ''i'' ''a'' ''t1'' ''pump101'' ''temp'' (F 95) []);
     s2 = (case resolve_api_alerts None ''t2'' s1 of Inr (r, s) \<Rightarrow> s | Inl e \<Rightarrow> [])
     in case ack_alert ''a'' s2 of Inr (a, s) \<Rightarrow> s | Inl e \<Rightarrow> [])"

lemma reopened_value: "map aa_status reopened = [''ACKNOWLEDGED'']" "map aa_resolved_at reopened = [Some ''t2'']"
  "active_alerts reopened = reopened"
  by (simp_all add: reopened_def inject_alarm_def resolve_api_alerts_def ack_alert_def api_alert_of_def vget_def py_or_def
    api_matches_def api_active_def resolved_alert_def acknowledged_alert_def active_alerts_def Let_def)

theorem api_alerts_sound_witness:
  "api_reaches reopened \<and> list_all api_alert_ok reopened"
proof -
  let ?s1 = "snd (inject_alarm ''i'' ''a'' ''t1'' ''pump101'' ''temp'' (F 95) [])"
  have 1: "api_reaches ?s1" by (intro api_next [OF api_empty] api_test_inject)
  obtain r s2 where 2: "resolve_api_alerts None ''t2'' ?s1 = Inr (r, s2)"
    by (cases "resolve_api_alerts None ''t2'' ?s1") (auto simp: resolve_api_alerts_def vget_def Let_def split: prod.splits)
  obtain a s3 where 3: "ack_alert ''a'' s2 = Inr (a, s3)"
    using resolve_api_alerts_cases [OF 2]
    by (auto simp: ack_alert_def inject_alarm_def api_alert_of_def resolved_alert_def Let_def split: if_splits)
  from 1 api_resolve [OF 2] api_ack [OF 3] have "api_reaches s3" by (meson api_next)
  moreover have "s3 = reopened" using 2 3 by (simp add: reopened_def)
  ultimately show ?thesis using api_alerts_sound [of reopened] by simp
qed

subsection \<open>The routes agree with the store of the gateway\<close>

text \<open>The shim stands in for the gateway: the same calls on both, and what a client of either sees. An alarm is
  raised through \<open>/test/inject-alarm\<close>; the body of a resolution is any object.\<close>

datatype store_call =
    Raise str str str str str float64
  | Close "(str \<times> pyval) list" str

fun shim_call :: "api_alert list \<Rightarrow> store_call \<Rightarrow> api_alert list" where
  "shim_call s (Raise i alert_id now asset_id metric v) = snd (inject_alarm i alert_id now asset_id metric v s)"
| "shim_call s (Close body now) = (case resolve_api_alerts (Some (VDict body)) now s of Inr (r, s') \<Rightarrow> s' | Inl e \<Rightarrow> s)"

fun gateway_call :: "gateway_env \<Rightarrow> gateway_store \<Rightarrow> store_call \<Rightarrow> gateway_store" where
  "gateway_call env s (Raise i alert_id now asset_id metric v) = snd (inject_alert i alert_id now now asset_id metric v s)"
| "gateway_call env s (Close body now) =
     (case resolve_alert_endpoint (env\<lparr>ge_now := now\<rparr>) (Some (VDict body)) s of Inr (r, s') \<Rightarrow> s' | Inl e \<Rightarrow> s)"

definition json_opt :: "str option \<Rightarrow> pyval" where
  "json_opt x = (case x of None \<Rightarrow> VNone | Some s \<Rightarrow> VStr s)"

definition shim_view :: "api_alert \<Rightarrow> str \<times> str option \<times> str \<times> str \<times> float64 \<times> str \<times> str \<times> str option" where
  "shim_view a = (aa_id a, aa_alert_id a, aa_asset_id a, aa_metric a, aa_value a, aa_severity a, aa_status a, aa_resolved_at a)"

definition gateway_view :: "alert \<Rightarrow> str \<times> str option \<times> str \<times> str \<times> float64 \<times> str \<times> str \<times> str option" where
  "gateway_view a = (al_id a, Some (al_alert_id a), al_asset_id a, al_metric a, al_value a, al_severity a, al_status a, al_resolved_at a)"

definition same_alert :: "api_alert \<Rightarrow> alert \<Rightarrow> bool" where
  "same_alert a b \<longleftrightarrow> shim_view a = gateway_view b"

lemma resolve_loop_map: "resolve_loop sel now alerts =
    (map (resolved now) (filter (\<lambda>a. sel a \<and> is_active a) alerts),
     map (\<lambda>a. if sel a \<and> is_active a then resolved now a else a) alerts)"
  by (induction alerts) auto

text \<open>What both select by a body.\<close>

definition selects :: "pyval \<Rightarrow> pyval \<Rightarrow> alert \<Rightarrow> bool" where
  "selects alert_id asset_id b = (case (criterion alert_id, criterion asset_id) of
     (Some i, Some asset) \<Rightarrow> alert_matches i asset b | _ \<Rightarrow> False)"

lemma same_matches: "same_alert a b \<Longrightarrow> api_matches i asset a = selects i asset b"
  by (cases i; cases asset)
    (auto simp: same_alert_def shim_view_def gateway_view_def api_matches_def alert_matches_def selects_def criterion_def)

lemma same_active: "same_alert a b \<Longrightarrow> api_active a = is_active b"
  by (auto simp: same_alert_def shim_view_def gateway_view_def api_active_def is_active_def)

lemma same_resolved: "same_alert a b \<Longrightarrow> same_alert (resolved_alert now a) (resolved now b)"
  by (auto simp: same_alert_def shim_view_def gateway_view_def resolved_alert_def resolved_def)

lemma call_simulates:
  assumes "list_all2 same_alert s (gs_alerts t)"
  shows "list_all2 same_alert (shim_call s c) (gs_alerts (gateway_call env t c))"
proof (cases c)
  case (Raise i alert_id now asset_id metric v)
  then show ?thesis using assms
    by (auto simp: inject_alarm_def inject_alert_def api_alert_of_def new_alert_def same_alert_def shim_view_def
      gateway_view_def Let_def intro!: list_all2_appendI)
next
  case (Close body now)
  let ?i = "py_or (dict_default body ''alert_id'' VNone) (dict_default body ''id'' VNone)"
  let ?asset = "dict_default body ''asset_id'' VNone"
  have e1: "shim_call s c = map (\<lambda>a. if api_matches ?i ?asset a \<and> api_active a then resolved_alert now a else a) s"
    by (simp add: Close resolve_api_alerts_def api_resolve_loop_map vget_def dict_default_def Let_def)
  have e2: "gs_alerts (gateway_call env t c) = map (\<lambda>b. if selects ?i ?asset b \<and> is_active b then resolved now b else b) (gs_alerts t)"
    by (cases "criterion ?i"; cases "criterion ?asset")
      (simp_all add: Close resolve_alert_endpoint_def body_dict_def selects_def resolve_alerts_alerts Let_def split_beta map_idI)
  have "same_alert (if api_matches ?i ?asset a \<and> api_active a then resolved_alert now a else a)
      (if selects ?i ?asset b \<and> is_active b then resolved now b else b)" if "same_alert a b" for a b
    using that by (simp add: same_matches [OF that] same_active [OF that] same_resolved)
  with assms show ?thesis unfolding e1 e2 list.rel_map by (rule list_all2_mono)
qed

text \<open>C34. To a client the alerts raised through \<open>/test/inject-alarm\<close> and the route that resolves them are the
  store of the gateway: after any sequence of alarms raised that way and of resolutions, whatever
  objects their bodies are, both hold the same alerts in the same order, with the same identifiers,
  values, states and times of resolution, and list the same ones as active. (Acknowledging has no
  counterpart in the gateway, and an alert raised through \<open>/alerts/inject\<close> is not among them.)\<close>

theorem shim_refines_gateway:
  "map shim_view (foldl shim_call [] cs) = map gateway_view (gs_alerts (foldl (gateway_call env) initial_store cs))
   \<and> map shim_view (active_alerts (foldl shim_call [] cs))
     = map gateway_view (get_active_alerts (foldl (gateway_call env) initial_store cs))"
proof -
  have "list_all2 same_alert (foldl shim_call s cs) (gs_alerts (foldl (gateway_call env) t cs))"
    if "list_all2 same_alert s (gs_alerts t)" for s t
    using that by (induction cs arbitrary: s t) (simp_all add: call_simulates)
  from this [of "[]" initial_store]
  have "list_all2 same_alert (foldl shim_call [] cs) (gs_alerts (foldl (gateway_call env) initial_store cs))"
    by (simp add: initial_store_def)
  then show ?thesis unfolding active_alerts_def get_active_alerts_def
    by (induction rule: list_all2_induct) (auto simp: same_active, simp_all add: same_alert_def)
qed

text \<open>An alert raised through \<open>/alerts/inject\<close> has no \<open>alert_id\<close>: the resolution that names one closes the gateway's
  alert and leaves it active.\<close>

lemma alternative_alert_stays:
  assumes "x \<noteq> []" "x \<noteq> i"
  shows "active_alerts (shim_call (snd (inject_alert_alt i now asset metric v [])) (Close [(''alert_id'', VStr x)] now'))
      = [api_alert_of i None now asset metric v None]"
    "get_active_alerts (gateway_call env (snd (inject_alert i x now now asset metric v initial_store))
       (Close [(''alert_id'', VStr x)] now')) = []"
  using assms
  by (simp_all add: inject_alert_alt_def api_alert_of_def resolve_api_alerts_def vget_def py_or_def api_matches_def
      active_alerts_def api_active_def inject_alert_def new_alert_def initial_store_def resolve_alert_endpoint_def
      body_dict_def dict_default_def criterion_def resolve_alerts_def alert_matches_def get_active_alerts_def
      is_active_def resolved_def Let_def)

subsection \<open>The registry of assets\<close>

text \<open>\<open>api/v1/assets_router.py\<close> and \<open>api/v1/dashboard.py\<close>, each with its own copy of the list.\<close>

record asset_row =
  as_id :: str
  as_asset_id :: str
  as_name :: str
  as_type :: str
  as_status :: str
  as_location :: str

definition asset_row_of :: "str \<Rightarrow> str \<Rightarrow> str \<Rightarrow> str \<Rightarrow> str \<Rightarrow> asset_row" where
  "asset_row_of i name type status location =
     \<lparr>as_id = i, as_asset_id = i, as_name = name, as_type = type, as_status = status, as_location = location\<rparr>"

definition registry :: "asset_row list" where
  "registry = [
     asset_row_of ''machine07'' ''Pump-007'' ''PUMP'' ''OPERATIONAL'' ''Plant-A'',
     asset_row_of ''machine01'' ''Compressor-001'' ''COMPRESSOR'' ''DEGRADED'' ''Plant-A'',
     asset_row_of ''machine02'' ''Turbine-002'' ''TURBINE'' ''OPERATIONAL'' ''Plant-B'',
     asset_row_of ''pump101'' ''Pump-101'' ''PUMP'' ''OPERATIONAL'' ''Plant-A'',
     asset_row_of ''asset-101'' ''Motor 101'' ''MOTOR'' ''OPERATIONAL'' ''Plant-C'']"

definition dashboard_registry :: "asset_row list" where
  "dashboard_registry = [
     asset_row_of ''machine07'' ''Pump-007'' ''PUMP'' ''OPERATIONAL'' ''Plant-A'',
     asset_row_of ''machine01'' ''Compressor-001'' ''COMPRESSOR'' ''DEGRADED'' ''Plant-A'',
     asset_row_of ''machine02'' ''Turbine-002'' ''TURBINE'' ''OPERATIONAL'' ''Plant-B'',
     asset_row_of ''pump101'' ''Pump-101'' ''PUMP'' ''OPERATIONAL'' ''Plant-A'',
     asset_row_of ''asset-101'' ''Motor 101'' ''MOTOR'' ''OPERATIONAL'' ''Plant-C'']"

definition get_asset :: "str \<Rightarrow> api_failure + asset_row" where
  "get_asset i = (case filter (\<lambda>a. as_id a = i \<or> as_asset_id a = i) registry of
     a # _ \<Rightarrow> Inr a | [] \<Rightarrow> Inl (Refused 404 ''Asset not found''))"

record asset_listing =
  ls_assets :: "asset_row list"
  ls_total :: nat

definition list_assets :: asset_listing where
  "list_assets = \<lparr>ls_assets = registry, ls_total = length registry\<rparr>"

record dashboard_overview =
  ov_total_assets :: nat
  ov_operational_assets :: nat
  ov_critical_alerts :: nat
  ov_simulator_live :: bool
  ov_assets :: "asset_row list"
  ov_nominal_assets :: "asset_row list"
  ov_degraded_asset_rows :: "asset_row list"

definition overview :: dashboard_overview where
  "overview = (let nominal = filter (\<lambda>a. as_status a = ''OPERATIONAL'') dashboard_registry
     in \<lparr>ov_total_assets = length dashboard_registry, ov_operational_assets = length nominal, ov_critical_alerts = 0,
         ov_simulator_live = True, ov_assets = dashboard_registry, ov_nominal_assets = nominal,
         ov_degraded_asset_rows = filter (\<lambda>a. as_status a = ''DEGRADED'') dashboard_registry\<rparr>)"

text \<open>Both copies hold the same assets under distinct identifiers, every asset is nominal or degraded and found by
  its identifier.\<close>

lemma registry_consistent:
  "dashboard_registry = registry" "distinct (map as_id registry)"
  "ov_operational_assets overview + length (ov_degraded_asset_rows overview) = ov_total_assets overview"
  "list_all (\<lambda>a. get_asset (as_id a) = Inr a) registry"
  by (simp add: registry_def dashboard_registry_def) code_simp+

subsection \<open>The relay to the external platform\<close>

text \<open>\<open>services/ai_client.py\<close>. The upstream call takes method, address and body; \<open>Response\<close> holds the decoded
  body if it is JSON.\<close>

type_synonym upstream = "str \<Rightarrow> str \<Rightarrow> pyval option \<Rightarrow> http_outcome"

definition ai_platform_url :: "str option \<Rightarrow> str option \<Rightarrow> str" where
  "ai_platform_url configured env_url = rstrip_slash (if truthy_str configured then the configured
     else case env_url of None \<Rightarrow> ''http://localhost:8000'' | Some u \<Rightarrow> u)"

definition unavailable_envelope :: pyval where
  "unavailable_envelope = VDict [(''error'', VDict [(''code'', VStr ''AI_UNAVAILABLE''),
     (''message'', VStr ''AI service is temporarily unavailable'')])]"

definition call_ai :: "upstream \<Rightarrow> str \<Rightarrow> str \<Rightarrow> pyval option \<Rightarrow> str \<Rightarrow> pyval res" where
  "call_ai http base path payload meth =
     (case http (py_upper meth) (base @ ''/'' @ dropWhile (\<lambda>c. c = CHR ''/'') path) payload of
        Timeout \<Rightarrow> Inr unavailable_envelope
      | ConnectionFailed \<Rightarrow> Inr unavailable_envelope
      | Response status body raw \<Rightarrow>
          if 200 \<le> status \<and> status < 300
          then (case body of Some b \<Rightarrow> Inr b | None \<Rightarrow> Inl (ValueErr ''Expecting value: line 1 column 1 (char 0)''))
          else Inr unavailable_envelope)"

text \<open>\<open>urllib.parse.quote(s, safe="")\<close>.\<close>

definition unreserved :: "char \<Rightarrow> bool" where
  "unreserved c \<longleftrightarrow> is_alnum c \<or> c \<in> set ''_.-~''"

definition quote_byte :: "byte \<Rightarrow> str" where
  "quote_byte b = (if unreserved (char_of (unat b)) then [char_of (unat b)] else CHR ''%'' # py_upper (hex_byte b))"

definition quote :: "str \<Rightarrow> str" where
  "quote s = concat (map quote_byte (utf8_encode s))"

text \<open>\<open>api/ai_proxy.py\<close>. The annotated result of every route is a dictionary, which the framework checks.\<close>

definition relayed :: "pyval res \<Rightarrow> pyval res" where
  "relayed m = bind_res m (\<lambda>v. case v of VDict d \<Rightarrow> Inr v | _ \<Rightarrow> Inl (ValidationError ''dict_type''))"

definition relay_infer :: "upstream \<Rightarrow> str \<Rightarrow> (str \<times> pyval) list \<Rightarrow> pyval res" where
  "relay_infer http base payload = relayed (call_ai http base ''/api/v1/predictive/infer'' (Some (VDict payload)) ''POST'')"

definition relay_explain :: "upstream \<Rightarrow> str \<Rightarrow> str \<Rightarrow> pyval res" where
  "relay_explain http base asset_id = relayed (call_ai http base (''/api/v1/xai/explain?asset_id='' @ quote asset_id) None ''GET'')"

definition relay_graphrag :: "upstream \<Rightarrow> str \<Rightarrow> (str \<times> pyval) list \<Rightarrow> pyval res" where
  "relay_graphrag http base payload = relayed (call_ai http base ''/api/v1/graphrag/query'' (Some (VDict payload)) ''POST'')"

definition relay_chat :: "upstream \<Rightarrow> str \<Rightarrow> (str \<times> pyval) list \<Rightarrow> pyval res" where
  "relay_chat http base payload = relayed (call_ai http base ''/api/v1/chat'' (Some (VDict payload)) ''POST'')"

definition relay_search :: "upstream \<Rightarrow> str \<Rightarrow> str \<Rightarrow> pyval res" where
  "relay_search http base q = relayed (call_ai http base (''/api/v1/knowledge/search?q='' @ quote q) None ''GET'')"

definition relay_recommendation :: "upstream \<Rightarrow> str \<Rightarrow> str \<Rightarrow> pyval res" where
  "relay_recommendation http base asset_id =
     relayed (call_ai http base (''/api/v1/decision/'' @ quote asset_id @ ''/recommendation'') None ''GET'')"

text \<open>An upstream answer that is no JSON is neither relayed nor replaced by the envelope: the decoder's exception
  leaves the client.\<close>

lemma html_page_escapes: "relay_search (\<lambda>m u p. Response 200 None ''<html>'') base q
    = Inl (ValueErr ''Expecting value: line 1 column 1 (char 0)'')"
  by (simp add: relay_search_def relayed_def call_ai_def)

text \<open>Reading a quoted text back.\<close>

definition hex_value :: "char \<Rightarrow> nat" where
  "hex_value c = (if is_digit c then of_char c - 48 else of_char c - 55)"

fun unquote :: "str \<Rightarrow> byte list" where
  "unquote [] = []"
| "unquote (c # s) = (if c = CHR ''%''
     then (case s of a # b # r \<Rightarrow> word_of_nat (16 * hex_value a + hex_value b) # unquote r | _ \<Rightarrow> [])
     else word_of_nat (of_char c) # unquote s)"

lemma below_16: "n < (16::nat) \<Longrightarrow> n \<in> set [0, 1, 2, 3, 4, 5, 6, 7, 8, 9, 10, 11, 12, 13, 14, 15]"
  by (simp add: eval_nat_numeral less_Suc_eq)

definition upper_hex :: "char list" where
  "upper_hex = ''0123456789ABCDEF''"

lemma upper_hex_length: "length ''0123456789abcdef'' = 16"
  by simp

lemma upper_hex_digit: "n < 16 \<Longrightarrow> upper_char (hex_digit n) = upper_hex ! n"
proof -
  have "map upper_char ''0123456789abcdef'' = upper_hex" by code_simp
  then have "upper_char (''0123456789abcdef'' ! n) = upper_hex ! n" if "n < 16"
    using nth_map [of n "''0123456789abcdef''" upper_char] that by (simp only: upper_hex_length)
  then show "n < 16 \<Longrightarrow> upper_char (hex_digit n) = upper_hex ! n" by (simp add: hex_digit_def)
qed

lemma hex_value_digit: "n < 16 \<Longrightarrow> hex_value (upper_char (hex_digit n)) = n"
proof -
  have "map hex_value upper_hex = [0, 1, 2, 3, 4, 5, 6, 7, 8, 9, 10, 11, 12, 13, 14, 15]"
    by code_simp
  then show "n < 16 \<Longrightarrow> hex_value (upper_char (hex_digit n)) = n"
    using below_16 [of n] by (auto simp: upper_hex_digit upper_hex_def)
qed

lemma percent_reserved [simp]: "\<not> unreserved (CHR ''%'')"
  by code_simp

lemma byte_nat: "unat (b :: byte) < 256"
  using unsigned_less [of b] by simp

lemma unquote_byte: "unquote (quote_byte b @ s) = b # unquote s"
proof (cases "unreserved (char_of (unat b))")
  case True
  then have "char_of (unat b) \<noteq> CHR ''%''" by auto
  with True show ?thesis using byte_nat [of b] by (simp add: quote_byte_def)
next
  case False
  have "word_of_nat (16 * (unat b div 16) + unat b mod 16) = b" "unat b div 16 < 16" "unat b mod 16 < 16"
    using byte_nat [of b] by (simp_all del: of_nat_add of_nat_mult)
  with False show ?thesis
    by (simp add: quote_byte_def hex_byte_def py_upper_def hex_value_digit del: of_nat_add of_nat_mult)
qed

lemma unquote_quote: "unquote (quote s) = utf8_encode s"
proof -
  have "unquote (concat (map quote_byte bs)) = bs" for bs
    by (induction bs) (simp_all add: unquote_byte)
  then show ?thesis by (simp add: quote_def)
qed

lemma hex_digit_unreserved: "unreserved (upper_char (hex_digit n))"
proof -
  have "list_all unreserved upper_hex" by code_simp
  then have "unreserved (upper_hex ! (n mod 16))" by (simp add: list_all_length upper_hex_def)
  then have "unreserved (upper_char (hex_digit (n mod 16)))" by (simp add: upper_hex_digit)
  then show ?thesis by (simp add: hex_digit_def)
qed

text \<open>Quoting an identifier loses nothing and cannot change the address: the relay's text reads back as the bytes
  of the identifier, two identifiers get the same text only when they are equal, and it holds unreserved
  characters and percent signs only, no separator of a path or a query.\<close>

theorem quote_roundtrip:
  "unquote (quote s) = utf8_encode s \<and> (quote s = quote t \<longleftrightarrow> s = t)
   \<and> list_all (\<lambda>c. c \<in> insert (CHR ''%'') {c. unreserved c}) (quote s)
   \<and> set (quote s) \<inter> set ''/?#&='' = {}"
proof -
  have "list_all (\<lambda>c. c \<in> insert (CHR ''%'') {c. unreserved c}) (quote s)"
    by (auto simp: quote_def quote_byte_def hex_byte_def py_upper_def list_all_iff hex_digit_unreserved split: if_splits)
  moreover have "list_all (\<lambda>c. c \<noteq> CHR ''%'' \<and> \<not> unreserved c) ''/?#&=''" by code_simp
  ultimately show ?thesis
    using unquote_quote [of s] unquote_quote [of t] utf8_encode_inj [of s t] by (force simp: list_all_iff)
qed

subsection \<open>Allowed origins\<close>

text \<open>\<open>cors_origins_list\<close> of the settings, and the origins \<open>main.py\<close> admits.\<close>

fun split_commas :: "str \<Rightarrow> str list" where
  "split_commas [] = [[]]"
| "split_commas (c # cs) = (if c = CHR '','' then [] # split_commas cs
     else (case split_commas cs of [] \<Rightarrow> [[c]] | l # ls \<Rightarrow> (c # l) # ls))"

definition cors_origins_list :: "str \<Rightarrow> str list" where
  "cors_origins_list s = filter (\<lambda>o'. o' \<noteq> []) (map py_strip (split_commas s))"

definition cors_origins :: "str \<Rightarrow> str \<Rightarrow> str list" where
  "cors_origins env allow =
     (let origins = cors_origins_list allow
      in if env = ''production''
         then let kept = filter (\<lambda>o'. \<not> contains ''3000'' o') origins
              in if kept = [] then [''http://gateway:8080'', ''https://api.iob.enterprise.internal''] else kept
         else origins)"

text \<open>In production some origin is allowed and none is the development front end, whatever is configured. A wildcard is
  kept as it is, and a gateway on a port that contains 3000 is dropped.\<close>

lemma cors_production: "cors_origins ''production'' allow \<noteq> []"
  "list_all (\<lambda>o'. \<not> contains ''3000'' o') (cors_origins ''production'' allow)"
proof -
  show "cors_origins ''production'' allow \<noteq> []" by (simp add: cors_origins_def Let_def)
  have "list_all (\<lambda>o'. \<not> contains ''3000'' o') [''http://gateway:8080'', ''https://api.iob.enterprise.internal'']"
    by code_simp
  then show "list_all (\<lambda>o'. \<not> contains ''3000'' o') (cors_origins ''production'' allow)"
    by (simp add: cors_origins_def Let_def list_all_iff)
qed

lemma cors_edge_cases: "cors_origins ''production'' ''*, http://localhost:3000'' = [''*'']"
  "cors_origins ''production'' ''http://gw:13000'' = [''http://gateway:8080'', ''https://api.iob.enterprise.internal'']"
  by code_simp+

end
