(* ===== verification/Model_Registry.thy ===== *)
theory Model_Registry
  imports PyVal
begin

section \<open>The model registry\<close>

text \<open>
  \<open>app/predictive/model_registry.py\<close>: four files in a directory and a cache of each, behind one lock, so
  that an operation is one step. The libraries that write and read models are parameters, as are the texts
  of reports; a failing library may leave something in the file. Writing a text never
  fails in the model, and the path of the directory is left out. The theorems show what a load after a
  save returns, from the cache and after a restart, and when the two differ.
\<close>

subsection \<open>Files, cache and libraries\<close>

text \<open>A model is one that a library made, or the stub that stands in when the library is missing.\<close>

datatype 'm handle = Model 'm | Stub_Model

datatype write_outcome = Written str | Write_Failed "str option"

record ('r, 'a, 'p) libraries =
  lb_has_xgboost :: bool
  lb_has_joblib :: bool
  lb_savable :: "'r \<Rightarrow> bool"
  lb_save_model :: "'r \<Rightarrow> write_outcome"
  lb_dump :: "'a \<Rightarrow> write_outcome"
  lb_load_model :: "str \<Rightarrow> 'r res"
  lb_joblib_load :: "str \<Rightarrow> 'a res"
  lb_report_text :: "'p \<Rightarrow> str option"
  lb_report_of :: "str \<Rightarrow> 'p option"
  lb_xgboost_version :: "str option"
  lb_joblib_version :: "str option"

text \<open>The text of the metadata is represented by the dictionary it holds, if it is JSON.\<close>

record deployment_metadata =
  md_training_timestamp :: str
  md_dataset_hash :: str
  md_framework_versions :: "(str \<times> str) list"

datatype metadata_file = Json deployment_metadata | Garbled

record model_files =
  fl_rul :: "str option"
  fl_anomaly :: "str option"
  fl_report :: "str option"
  fl_metadata :: "metadata_file option"

record ('r, 'a, 'p) registry =
  rg_files :: model_files
  rg_rul_model :: "'r handle option"
  rg_anomaly_model :: "'a handle option"
  rg_report :: "'p option"
  rg_metadata :: "deployment_metadata option"

definition new_registry :: "model_files \<Rightarrow> ('r, 'a, 'p) registry" where
  "new_registry fs = \<lparr>rg_files = fs, rg_rul_model = None, rg_anomaly_model = None, rg_report = None, rg_metadata = None\<rparr>"

definition stub_text :: str where
  "stub_text = ''{'' @ [CHR 0x22] @ ''model'' @ [CHR 0x22] @ '': '' @ [CHR 0x22] @ ''stub'' @ [CHR 0x22] @ ''}''"

definition stub_report_text :: str where
  "stub_report_text = ''{'' @ [CHR 0x22] @ ''metrics'' @ [CHR 0x22] @ '': '' @ [CHR 0x22] @ ''stub'' @ [CHR 0x22] @ ''}''"

subsection \<open>Saving\<close>

text \<open>The file of the remaining-life model: any failure is replaced by the stub.\<close>

definition rul_file :: "('r, 'a, 'p) libraries \<Rightarrow> 'r \<Rightarrow> str" where
  "rul_file lb m = (if lb_has_xgboost lb \<and> lb_savable lb m
     then (case lb_save_model lb m of Written s \<Rightarrow> s | Write_Failed _ \<Rightarrow> stub_text) else stub_text)"

text \<open>The file of the anomaly model: a failure leaves what the library left, or the old file.\<close>

definition anomaly_file :: "('r, 'a, 'p) libraries \<Rightarrow> 'a \<Rightarrow> str option \<Rightarrow> str option" where
  "anomaly_file lb m old = (if lb_has_joblib lb
     then (case lb_dump lb m of Written s \<Rightarrow> Some s | Write_Failed (Some s) \<Rightarrow> Some s | Write_Failed None \<Rightarrow> old)
     else Some stub_text)"

definition report_file :: "('r, 'a, 'p) libraries \<Rightarrow> 'p \<Rightarrow> str" where
  "report_file lb p = (case lb_report_text lb p of Some s \<Rightarrow> s | None \<Rightarrow> stub_report_text)"

definition framework_versions :: "('r, 'a, 'p) libraries \<Rightarrow> (str \<times> str) list" where
  "framework_versions lb = (let version = (\<lambda>present v. if present then case v of Some s \<Rightarrow> s | None \<Rightarrow> ''stub'' else ''stub'')
     in [(''xgboost'', version (lb_has_xgboost lb) (lb_xgboost_version lb)),
         (''scikit_learn'', version (lb_has_joblib lb) (lb_joblib_version lb))])"

definition metadata_of :: "('r, 'a, 'p) libraries \<Rightarrow> str \<Rightarrow> str \<Rightarrow> deployment_metadata" where
  "metadata_of lb now dataset_hash = \<lparr>md_training_timestamp = now @ ''Z'', md_dataset_hash = dataset_hash,
     md_framework_versions = framework_versions lb\<rparr>"

definition save :: "('r, 'a, 'p) libraries \<Rightarrow> str \<Rightarrow> 'r \<Rightarrow> 'a \<Rightarrow> 'p \<Rightarrow> str \<Rightarrow> ('r, 'a, 'p) registry \<Rightarrow> ('r, 'a, 'p) registry" where
  "save lb now rul anomaly report dataset_hash g =
     (let md = metadata_of lb now dataset_hash; fs = rg_files g in
      \<lparr>rg_files = fs\<lparr>fl_rul := Some (rul_file lb rul), fl_anomaly := anomaly_file lb anomaly (fl_anomaly fs),
         fl_report := Some (report_file lb report), fl_metadata := Some (Json md)\<rparr>,
       rg_rul_model = Some (Model rul), rg_anomaly_model = Some (Model anomaly), rg_report = Some report,
       rg_metadata = Some md\<rparr>)"

subsection \<open>Loading\<close>

datatype load_error = FileNotFound str | Load_Failed py_error

definition artifacts_available :: "('r, 'a, 'p) registry \<Rightarrow> bool" where
  "artifacts_available g \<longleftrightarrow> fl_rul (rg_files g) \<noteq> None \<and> fl_anomaly (rg_files g) \<noteq> None"

definition load_rul_model ::
  "('r, 'a, 'p) libraries \<Rightarrow> ('r, 'a, 'p) registry \<Rightarrow> (load_error + 'r handle) \<times> ('r, 'a, 'p) registry" where
  "load_rul_model lb g = (case rg_rul_model g of
     Some m \<Rightarrow> (Inr m, g)
   | None \<Rightarrow> (case fl_rul (rg_files g) of
       None \<Rightarrow> (Inl (FileNotFound ''RUL model artifact missing''), g)
     | Some s \<Rightarrow>
         if \<not> lb_has_xgboost lb then (Inr Stub_Model, g\<lparr>rg_rul_model := Some Stub_Model\<rparr>)
         else (case lb_load_model lb s of
             Inr m \<Rightarrow> (Inr (Model m), g\<lparr>rg_rul_model := Some (Model m)\<rparr>)
           | Inl e \<Rightarrow> (Inl (Load_Failed e), g))))"

definition load_anomaly_model ::
  "('r, 'a, 'p) libraries \<Rightarrow> ('r, 'a, 'p) registry \<Rightarrow> (load_error + 'a handle) \<times> ('r, 'a, 'p) registry" where
  "load_anomaly_model lb g = (case rg_anomaly_model g of
     Some m \<Rightarrow> (Inr m, g)
   | None \<Rightarrow> (case fl_anomaly (rg_files g) of
       None \<Rightarrow> (Inl (FileNotFound ''Anomaly model artifact missing''), g)
     | Some s \<Rightarrow>
         if \<not> lb_has_joblib lb then (Inr Stub_Model, g\<lparr>rg_anomaly_model := Some Stub_Model\<rparr>)
         else (case lb_joblib_load lb s of
             Inr m \<Rightarrow> (Inr (Model m), g\<lparr>rg_anomaly_model := Some (Model m)\<rparr>)
           | Inl e \<Rightarrow> (Inl (Load_Failed e), g))))"

text \<open>A report that cannot be read is no report; the next call tries again.\<close>

definition load_report :: "('r, 'a, 'p) libraries \<Rightarrow> ('r, 'a, 'p) registry \<Rightarrow> 'p option \<times> ('r, 'a, 'p) registry" where
  "load_report lb g = (if rg_report g = None
     then (case fl_report (rg_files g) of
         None \<Rightarrow> (None, g)
       | Some s \<Rightarrow> (lb_report_of lb s, g\<lparr>rg_report := lb_report_of lb s\<rparr>))
     else (rg_report g, g))"

definition load_metadata :: "('r, 'a, 'p) registry \<Rightarrow> deployment_metadata option \<times> ('r, 'a, 'p) registry" where
  "load_metadata g = (if rg_metadata g = None
     then (case fl_metadata (rg_files g) of
         Some (Json d) \<Rightarrow> (Some d, g\<lparr>rg_metadata := Some d\<rparr>)
       | _ \<Rightarrow> (None, g))
     else (rg_metadata g, g))"

definition reload :: "('r, 'a, 'p) registry \<Rightarrow> ('r, 'a, 'p) registry" where
  "reload g = g\<lparr>rg_rul_model := None, rg_anomaly_model := None, rg_report := None, rg_metadata := None\<rparr>"

subsection \<open>What is loaded after a save\<close>

text \<open>What the registry relies on: both libraries are there, and what they and the report's model write they read back.\<close>

locale artifact_codec =
  fixes lb :: "('r, 'a, 'p) libraries"
  assumes libraries: "lb_has_xgboost lb" "lb_has_joblib lb"
    and rul_codec: "lb_save_model lb m = Written s \<Longrightarrow> lb_load_model lb s = Inr m"
    and anomaly_codec: "lb_dump lb a = Written s \<Longrightarrow> lb_joblib_load lb s = Inr a"
    and report_codec: "lb_report_text lb p = Some s \<Longrightarrow> lb_report_of lb s = Some p"
begin

definition writable :: "'r \<Rightarrow> 'a \<Rightarrow> 'p \<Rightarrow> bool" where
  "writable rul anomaly report \<longleftrightarrow> lb_savable lb rul \<and> (\<exists>s. lb_save_model lb rul = Written s)
     \<and> (\<exists>s. lb_dump lb anomaly = Written s) \<and> (\<exists>s. lb_report_text lb report = Some s)"

lemma after_save:
  "fst (load_rul_model lb (save lb now rul anomaly report h g)) = Inr (Model rul)"
  "fst (load_anomaly_model lb (save lb now rul anomaly report h g)) = Inr (Model anomaly)"
  "fst (load_report lb (save lb now rul anomaly report h g)) = Some report"
  by (simp_all add: save_def Let_def load_rul_model_def load_anomaly_model_def load_report_def)

lemma after_restart:
  assumes "writable rul anomaly report"
  shows "fst (load_rul_model lb (reload (save lb now rul anomaly report h g))) = Inr (Model rul)"
    "fst (load_anomaly_model lb (reload (save lb now rul anomaly report h g))) = Inr (Model anomaly)"
    "fst (load_report lb (reload (save lb now rul anomaly report h g))) = Some report"
    "fst (load_metadata (reload (save lb now rul anomaly report h g))) = Some (metadata_of lb now h)"
  using assms libraries rul_codec anomaly_codec report_codec
  by (auto simp: writable_def save_def Let_def reload_def load_rul_model_def load_anomaly_model_def load_report_def
    load_metadata_def rul_file_def anomaly_file_def report_file_def)

text \<open>A failed dump is only logged: the registry answers with the new model until the restart, and with the old one
  beside the new remaining-life model afterwards.\<close>

lemma mixed_generations:
  fixes g :: "('r, 'a, 'p) registry" and now h now' h' :: str
  assumes "writable rul anomaly report" "writable rul' anomaly'' report'" "lb_dump lb anomaly' = Write_Failed None"
  defines "g' \<equiv> save lb now' rul' anomaly' report' h' (save lb now rul anomaly report h g)"
  shows "fst (load_anomaly_model lb g') = Inr (Model anomaly')"
    "fst (load_anomaly_model lb (reload g')) = Inr (Model anomaly)"
    "fst (load_rul_model lb (reload g')) = Inr (Model rul')"
  using assms(1-3) libraries rul_codec anomaly_codec
  by (auto simp: g'_def writable_def save_def Let_def reload_def load_rul_model_def load_anomaly_model_def rul_file_def
    anomaly_file_def)

end

text \<open>Libraries whose models are texts, all of which can be written.\<close>

definition text_libraries :: "(str, str, str) libraries" where
  "text_libraries = \<lparr>lb_has_xgboost = True, lb_has_joblib = True, lb_savable = \<lambda>_. True, lb_save_model = Written,
     lb_dump = (\<lambda>a. if a = [] then Write_Failed None else Written a), lb_load_model = Inr, lb_joblib_load = Inr,
     lb_report_text = Some, lb_report_of = Some, lb_xgboost_version = None, lb_joblib_version = None\<rparr>"

interpretation texts: artifact_codec text_libraries
  by unfold_locales (auto simp: text_libraries_def split: if_splits)

text \<open>A save survives a restart: with libraries that read back what they write, models, report and metadata that are
  saved are the ones loaded, from the cache before a reload and from the files after it.\<close>

theorem save_survives_restart:
  assumes "artifact_codec lb" "artifact_codec.writable lb rul anomaly report"
  shows "fst (load_rul_model lb (save lb now rul anomaly report h g)) = Inr (Model rul)
    \<and> fst (load_anomaly_model lb (save lb now rul anomaly report h g)) = Inr (Model anomaly)
    \<and> fst (load_rul_model lb (reload (save lb now rul anomaly report h g))) = Inr (Model rul)
    \<and> fst (load_anomaly_model lb (reload (save lb now rul anomaly report h g))) = Inr (Model anomaly)
    \<and> fst (load_report lb (reload (save lb now rul anomaly report h g))) = Some report
    \<and> fst (load_metadata (reload (save lb now rul anomaly report h g))) = Some (metadata_of lb now h)"
  using artifact_codec.after_save [OF assms(1)] artifact_codec.after_restart [OF assms] by simp

theorem save_survives_restart_witness:
  "fst (load_anomaly_model text_libraries (reload (save text_libraries ''t'' ''r'' ''a'' ''p'' ''h''
     (new_registry \<lparr>fl_rul = None, fl_anomaly = None, fl_report = None, fl_metadata = None\<rparr>)))) = Inr (Model ''a'')"
proof -
  have w: "texts.writable ''r'' ''a'' ''p''" unfolding texts.writable_def by (simp add: text_libraries_def)
  show ?thesis using save_survives_restart [OF texts.artifact_codec_axioms w] by simp
qed

text \<open>Without the anomaly library the stub is written and loaded after a restart, while the cache holds the model.\<close>

lemma stub_after_restart: "\<not> lb_has_joblib lb \<Longrightarrow>
    fst (load_anomaly_model lb (reload (save lb now rul anomaly report h g))) = Inr Stub_Model
    \<and> fst (load_anomaly_model lb (save lb now rul anomaly report h g)) = Inr (Model anomaly)
    \<and> artifacts_available (save lb now rul anomaly report h g)"
  by (simp add: save_def Let_def reload_def load_anomaly_model_def anomaly_file_def artifacts_available_def)

end
