(* ===== verification/Predictive_Api.thy ===== *)
theory Predictive_Api
  imports Http_Api Vector_Search Model_Registry
begin

section \<open>The predictive routes\<close>

text \<open>
  \<open>api/v1/predictive.py\<close>: the features read from a request of any shape, the local risk, the inference
  request built from the body or made up from the features, and the answer in which the local risk
  replaces the probability of the model. The prediction service is \<open>infer\<close> over its parameters; the
  framework's parser of telemetry frames is a parameter. Identifiers, time stamps and the clock's
  microseconds are arguments. The theorems show what a request can be answered, and that the risk of
  a request with a history does not depend on it.
\<close>

subsection \<open>The local risk\<close>

definition api_vibration :: "(str \<times> float64) list \<Rightarrow> float64" where
  "api_vibration features = dict_default features ''vibration'' (dict_default features ''vibration_rms'' (F 2))"

definition api_temperature :: "(str \<times> float64) list \<Rightarrow> float64" where
  "api_temperature features = dict_default features ''temperature''
     (dict_default features ''bearing_temp'' (dict_default features ''bearing_temperature'' (F 70)))"

definition compute_risk_from_features :: "(str \<times> float64) list \<Rightarrow> float64" where
  "compute_risk_from_features features =
     (let vib = api_vibration features; temp = api_temperature features;
          vib_norm = min (F 1) (max (F 0) ((vib - F 1) / F 7));
          temp_norm = min (F 1) (max (F 0) ((temp - F 60) / F 60));
          risk = vib_norm * F 0.55 + temp_norm * F 0.45;
          boosted = (if F 4 < vib \<and> F 85 < temp then min (F 0.97) (risk + F 0.25)
             else if F 3 < vib \<or> F 80 < temp then min (F 0.95) (risk + F 0.12) else risk)
      in py_round (max (F 0.05) boosted) 4)"

subsection \<open>The features of a request\<close>

text \<open>\<open>isinstance(v, (int, float))\<close>, which a boolean satisfies, and \<open>float(v)\<close>.\<close>

fun number :: "pyval \<Rightarrow> float64 option" where
  "number (VBool b) = Some (if b then F 1 else F 0)"
| "number (VInt i) = Some (of_int64 i)"
| "number (VFloat x) = Some x"
| "number v = None"

fun numbers :: "(str \<times> pyval) list \<Rightarrow> (str \<times> float64) list" where
  "numbers [] = []"
| "numbers ((k, v) # d) = (case number v of Some x \<Rightarrow> (k, x) # numbers d | None \<Rightarrow> numbers d)"

definition sensor_keys :: "str list" where
  "sensor_keys = [''vibration'', ''temperature'', ''bearing_temperature'', ''bearing_temp'', ''vibration_rms'', ''pressure'', ''rpm'']"

definition named_features :: "(str \<times> pyval) list \<Rightarrow> (str \<times> float64) list" where
  "named_features body = numbers (List.map_filter (\<lambda>k. map_option (\<lambda>v. (k, v)) (map_of body k)) sensor_keys)"

definition other_features :: "(str \<times> pyval) list \<Rightarrow> (str \<times> float64) list" where
  "other_features body =
     numbers (filter (\<lambda>kv. fst kv \<notin> set [''asset_id'', ''history'', ''component_id'', ''horizon_hours'']) body)"

definition default_features :: "(str \<times> float64) list" where
  "default_features = [(''vibration'', F 4.2), (''temperature'', F 92.5)]"

definition request_features :: "(str \<times> pyval) list \<Rightarrow> (str \<times> float64) list" where
  "request_features body =
     (let given = (case map_of body ''features'' of Some (VDict d) \<Rightarrow> numbers d | _ \<Rightarrow> []);
          named = (if given = [] then named_features body else given);
          found = (if named = [] then other_features body else named)
      in if found = [] then default_features else found)"

subsection \<open>The inference request\<close>

text \<open>\<open>InferenceRequest.model_validate\<close>: no other key, the types, the bounds; the frames are the parser's.\<close>

definition history_keys :: "str list" where
  "history_keys = [''asset_id'', ''component_id'', ''history'', ''horizon_hours'']"

definition mk_inference_request :: "pyval \<Rightarrow> pyval \<Rightarrow> telemetry_frame list res \<Rightarrow> pyval \<Rightarrow> predict_request res" where
  "mk_inference_request asset_id component_id history horizon =
     bind_res (as_str asset_id) (\<lambda>a. bind_res (as_opt_str component_id) (\<lambda>c. bind_res history (\<lambda>h.
     bind_res (check_int horizon) (\<lambda>n.
     require (a \<noteq> []) (ValidationError ''asset_id'') (require (h \<noteq> []) (ValidationError ''history'')
     (case n of VInt i \<Rightarrow> require (1 \<le> i \<and> i \<le> 24 * 90) (ValidationError ''horizon_hours'')
         (Inr \<lparr>pq_asset_id = a, pq_component_id = c, pq_history = h, pq_horizon_hours = i\<rparr>)
       | _ \<Rightarrow> Inl (ValidationError ''horizon_hours'')))))))"

definition validate_body ::
  "(pyval \<Rightarrow> telemetry_frame list res) \<Rightarrow> (str \<times> pyval) list \<Rightarrow> predict_request res" where
  "validate_body parse body =
     (if \<not> list_all (\<lambda>kv. fst kv \<in> set history_keys) body then Inl (ValidationError ''extra_forbidden'')
      else mk_inference_request (dict_default body ''asset_id'' VNone) (dict_default body ''component_id'' VNone)
        (case map_of body ''history'' of None \<Rightarrow> Inl (ValidationError ''missing'') | Some h \<Rightarrow> parse h)
        (dict_default body ''horizon_hours'' (VInt 24)))"

text \<open>\<open>_features_to_history\<close>: one frame; an identifier that is no text makes the frame a plain dictionary, with
  which no request is built.\<close>

definition features_to_history :: "int \<Rightarrow> pyval \<Rightarrow> (str \<times> float64) list \<Rightarrow> telemetry_frame list res" where
  "features_to_history now asset_id features = bind_res (as_str asset_id) (\<lambda>a.
     Inr [\<lparr>tf_asset_id = a, tf_component_id = Some ''bearing'', tf_timestamp = now, tf_readings =
       [\<lparr>sr_sensor_id = ''vib-sensor-1'', sr_metric = ''vibration_rms'',
          sr_value = dict_default features ''vibration'' (dict_default features ''vibration_rms'' (F 4.2))\<rparr>,
        \<lparr>sr_sensor_id = ''temp-sensor-1'', sr_metric = ''bearing_temp'',
          sr_value = dict_default features ''temperature''
            (dict_default features ''bearing_temp'' (dict_default features ''bearing_temperature'' (F 92.5)))\<rparr>]
       @ (case map_of features ''pressure'' of Some p \<Rightarrow>
            [\<lparr>sr_sensor_id = ''pressure-sensor-1'', sr_metric = ''pressure'', sr_value = p\<rparr>] | None \<Rightarrow> [])\<rparr>])"

subsection \<open>The inference route\<close>

record predict_route_env =
  pr_engine :: predictor_env
  pr_parse :: "pyval \<Rightarrow> telemetry_frame list res"
  pr_now :: int
  pr_iso :: str
  pr_uuid :: str
  pr_explanation_uuid :: str

definition local_days :: "float64 \<Rightarrow> float64 \<Rightarrow> float64 \<Rightarrow> float64" where
  "local_days risk least scale = py_round (max least ((F 1 - risk) * scale)) 2"

definition local_payload :: "predict_route_env \<Rightarrow> (str \<times> pyval) list \<Rightarrow> pyval \<Rightarrow> float64 \<Rightarrow> pyval" where
  "local_payload env body asset_id risk =
     (let days = (\<lambda>least scale. VFloat (local_days risk least scale)); high = (F 0.6 < risk)
      in VDict [(''asset_id'', asset_id),
        (''component_id'', py_or (dict_default body ''component_id'' VNone) (VStr ''component-1'')),
        (''risk_score'', VFloat risk), (''failure_probability'', VFloat risk),
        (''rul'', VDict [(''value_days'', days (F 1) (F 60)), (''lower_bound_days'', days (F 0.5) (F 40)),
          (''upper_bound_days'', days (F 2) (F 80)), (''confidence_level'', VFloat (F 0.9)),
          (''model_name'', VStr ''xgboost_rul_v1''), (''model_version'', VStr ''1.0.0'')]),
        (''failure_probability_detail'', VDict [(''probability'', VFloat risk),
          (''predicted_window'', VDict [(''earliest'', VStr (pr_iso env)), (''latest'', VStr (pr_iso env)),
             (''most_likely'', VStr (pr_iso env))]),
          (''failure_mode_id'', if high then VStr ''failuremode-bearing-overheat'' else VNone),
          (''failure_mode_label'', VStr (if high then ''Bearing Overheat'' else ''Normal'')),
          (''model_name'', VStr ''xgboost_failure_classifier_v1'')]),
        (''anomaly_flags'', VList [VDict [(''sensor_id'', VStr ''vib-sensor-1''), (''metric'', VStr ''vibration_rms''),
          (''anomaly_score'', VFloat (if high then - F 0.12 else F 0.08)), (''is_anomalous'', VBool high),
          (''severity'', VStr (if F 0.7 < risk then ''HIGH'' else ''LOW'')), (''detected_at'', VStr (pr_iso env))]]),
        (''explanation_id'', VStr (pr_explanation_uuid env)), (''inference_latency_ms'', VFloat (F 18.4)),
        (''generated_at'', VStr (pr_iso env)), (''fallback_used'', VBool True)])"

text \<open>The data of an answer: the response of the engine with its probability overwritten, or the local payload.\<close>

datatype predict_data = Engine predict_response | Local pyval

record predict_answer =
  pa_data :: predict_data
  pa_risk_score :: float64
  pa_request_id :: str

definition overwrite_probability :: "float64 \<Rightarrow> predict_response \<Rightarrow> predict_response" where
  "overwrite_probability risk p =
     p\<lparr>pp_failure_probability := (pp_failure_probability p)\<lparr>fp_probability := risk\<rparr>\<rparr>"

definition strict :: "(str \<times> pyval) list \<Rightarrow> bool" where
  "strict body \<longleftrightarrow> ''history'' \<in> fst ` set body \<or> ''features'' \<notin> fst ` set body"

definition request_of :: "predict_route_env \<Rightarrow> (str \<times> pyval) list \<Rightarrow> pyval \<Rightarrow> (str \<times> float64) list \<Rightarrow> api_failure + predict_request option" where
  "request_of env body asset_id features =
     (if strict body
      then (case validate_body (pr_parse env) body of Inl e \<Rightarrow> Inl (Refused 422 (err_text e)) | Inr q \<Rightarrow> Inr (Some q))
      else (case mk_inference_request asset_id (dict_default body ''component_id'' VNone)
                 (features_to_history (pr_now env) asset_id features) (dict_default body ''horizon_hours'' (VInt 24)) of
              Inl e \<Rightarrow> Inr None | Inr q \<Rightarrow> Inr (Some q)))"

definition predictive_route :: "predict_route_env \<Rightarrow> pyval option \<Rightarrow> api_failure + predict_answer" where
  "predictive_route env request_json = (case request_json of
     None \<Rightarrow> Inl (Refused 400 ''Invalid JSON body'')
   | Some (VDict body) \<Rightarrow>
       (let asset_id = py_or (dict_default body ''asset_id'' VNone) (VStr ''machine07'');
            features = request_features body;
            risk = compute_risk_from_features features;
            answer = (\<lambda>data. Inr \<lparr>pa_data = data, pa_risk_score = risk, pa_request_id = pr_uuid env\<rparr>);
            fallback = answer (Local (local_payload env body asset_id risk))
        in case request_of env body asset_id features of
             Inl e \<Rightarrow> Inl e
           | Inr None \<Rightarrow> fallback
           | Inr (Some q) \<Rightarrow> (case infer (pr_engine env) q of
                 Inr p \<Rightarrow> answer (Engine (overwrite_probability risk p))
               | Inl e \<Rightarrow> if value_error e then Inl (Refused 422 (err_text e)) else fallback))
   | Some v \<Rightarrow> Inl (Crashed (AttributeErr ''get'')))"

subsection \<open>The two risk heuristics\<close>

lemma api_risk_boosted: "compute_risk_from_features features =
    py_round (max (F 0.05) (risk_boosted (api_vibration features) (api_temperature features))) 4"
  by (simp add: compute_risk_from_features_def risk_boosted_def risk_base_def Let_def)

text \<open>The gateway and the platform agree on a request unless it names the bearing temperature, which the gateway
  prefers to every other key and the platform reads last.\<close>

lemma risk_agrees_with_gateway:
  assumes "''bearing_temperature'' \<notin> fst ` set fs"
  shows "compute_risk_from_features fs = compute_risk_score fs"
proof -
  have none: "map_of fs ''bearing_temperature'' = None" using assms by (simp add: map_of_eq_None_iff)
  show ?thesis
    by (simp add: api_risk_boosted compute_risk_score_def api_vibration_def api_temperature_def feature_vibration_def
      feature_temperature_def dict_default_def none)
qed

text \<open>A hot bearing on an otherwise calm asset: the gateway reports more risk than the platform.\<close>

lemma risk_disagrees_with_gateway:
  assumes "fs = [(''vibration'', F 1), (''temperature'', F 60), (''bearing_temperature'', F 120)]"
  shows "compute_risk_from_features fs < compute_risk_score fs"
proof -
  have calm: "risk_boosted (F 1) (F 60) \<le> F 0.05" and hot: "py_round (F 0.12) 4 = F 0.12" "F 0.05 < (F 0.12 :: float64)"
    "\<not> F 4 < (F 1 :: float64)" "F 80 < (F 120 :: float64)" "F 0.12 \<le> (F 0.95 :: float64)" by code_simp+
  have "F 0.12 \<le> risk_boosted (F 1) (F 120)"
    using hot(3-5) f64_add_mono [OF risk_base_nonneg order_refl, of "F 0.12" "F 1" "F 120"]
    by (simp add: risk_boosted_def Let_def)
  from py_round_mono [OF order_trans [OF this max.cobounded2], of 4 "F 0.05"]
  have "F 0.12 \<le> compute_risk_score fs"
    unfolding hot(1) by (simp add: compute_risk_score_def feature_vibration_def feature_temperature_def dict_default_def assms)
  moreover have "compute_risk_from_features fs = py_round (max (F 0.05) (risk_boosted (F 1) (F 60))) 4"
    by (simp add: api_risk_boosted api_vibration_def api_temperature_def dict_default_def assms del: F_0 F_1)
  then have "compute_risk_from_features fs = F 0.05" by (simp only: max_absorb1 [OF calm] risk_rounded)
  ultimately show ?thesis using hot(2) by (simp only: order_less_le_trans)
qed

lemma api_risk_bounds: "F 0.05 \<le> compute_risk_from_features fs \<and> compute_risk_from_features fs \<le> F 0.97"
proof -
  let ?r = "max (F 0.05) (risk_boosted (api_vibration fs) (api_temperature fs))"
  have "F 0.05 \<le> ?r" "?r \<le> F 0.97" using risk_boosted_le thresholds(6) by (simp_all del: F_0 F_1)
  from py_round_mono [OF this(1), of 4] py_round_mono [OF this(2), of 4] show ?thesis
    by (simp only: api_risk_boosted risk_rounded simp_thms)
qed

subsection \<open>What the route answers\<close>

lemma numbers_Nil: "list_all (\<lambda>kv. number (snd kv) = None) d \<Longrightarrow> numbers d = []"
  by (induction d rule: numbers.induct) auto

lemma history_body_features:
  assumes "list_all (\<lambda>kv. fst kv \<in> set history_keys) body"
  shows "request_features body = default_features"
proof -
  have "map_of body k = None" if "k \<notin> set history_keys" for k
    using assms that by (auto simp: list_all_iff map_of_eq_None_iff)
  then have "map_of body ''features'' = None" "named_features body = []"
    by (simp_all add: history_keys_def named_features_def sensor_keys_def List.map_filter_def)
  moreover have "other_features body = []"
  proof -
    have "filter (\<lambda>kv. fst kv \<notin> set [''asset_id'', ''history'', ''component_id'', ''horizon_hours'']) body = []"
      using assms by (auto simp: history_keys_def list_all_iff filter_empty_conv)
    then show ?thesis unfolding other_features_def by (simp only: numbers.simps)
  qed
  ultimately show ?thesis by (simp add: request_features_def)
qed

lemma validate_body_keys: "validate_body parse body = Inr q \<Longrightarrow> list_all (\<lambda>kv. fst kv \<in> set history_keys) body"
  by (simp add: validate_body_def split: if_splits)

text \<open>The probability of failure an answer reports.\<close>

definition answer_probability :: "predict_data \<Rightarrow> float64 option" where
  "answer_probability data = (case data of
     Engine p \<Rightarrow> Some (fp_probability (pp_failure_probability p))
   | Local (VDict d) \<Rightarrow> (case map_of d ''failure_probability'' of Some (VFloat x) \<Rightarrow> Some x | _ \<Rightarrow> None)
   | Local _ \<Rightarrow> None)"

lemma answer_probability_simps [simp]:
  "answer_probability (Engine (overwrite_probability risk p)) = Some risk"
  "answer_probability (Local (local_payload env body asset_id risk)) = Some risk"
  by (simp_all add: answer_probability_def overwrite_probability_def local_payload_def Let_def)

text \<open>C35. The risk of a request with a history does not depend on it. A body that names a history, or names no features,
  is answered only when it has no key outside the contract (the asset, the component, the history and
  the horizon), and then both the risk and the probability of failure, of the engine's answer and of
  the local one, are those of the two default readings, whatever the telemetry and the model say. The
  risk and the probability of any other answer are those of the request's features.\<close>

theorem history_risk_constant:
  "case predictive_route env (Some (VDict body)) of
     Inl e \<Rightarrow> (\<exists>m. e = Refused 422 m)
   | Inr a \<Rightarrow> answer_probability (pa_data a) = Some (pa_risk_score a) \<and>
       (if strict body
        then list_all (\<lambda>kv. fst kv \<in> set history_keys) body \<and> pa_risk_score a = compute_risk_from_features default_features
        else pa_risk_score a = compute_risk_from_features (request_features body))"
  by (auto simp: predictive_route_def request_of_def Let_def history_body_features
      dest: validate_body_keys split: sum.splits option.splits if_splits)

lemma infer_response_sound:
  assumes "infer env q = Inr p"
  shows "response_sound p"
proof -
  let ?f = "last (pq_history q)"
  obtain row where row: "pe_features env (pq_history q) = Inr row"
    using assms by (auto simp: infer_def bind_res_Inr)
  obtain s a flags where heur: "heuristic_anomaly row ?f = (s, a, flags)" by (metis surj_pair)
  show ?thesis
  proof (cases "pe_artifacts_available env")
    case True
    with assms row have "bind_res (predict_rul env row) (\<lambda>predicted. bind_res (score_anomaly env row ?f) (\<lambda>anomaly.
        build_response env q predicted anomaly False)) = Inr p" by (simp add: infer_def bind_res_Inr)
    then show ?thesis using models_sound [OF True, of q row ?f] by simp
  next
    case False
    with assms row heur have "build_response env q (Number (heuristic_rul row)) (s, a, flags) True = Inr p"
      by (simp add: infer_def bind_res_Inr split: if_splits)
    then show ?thesis using build_response_sound [OF heuristic_rul_nonneg, of env q row s a flags True] by simp
  qed
qed

lemma local_days_mono:
  assumes "risk \<le> 1" "a \<le> b" "c \<le> d"
  shows "local_days risk a c \<le> local_days risk b d"
proof -
  have "0 \<le> F 1 - risk" using assms(1) by (intro f64_diff_nonneg) simp
  then show ?thesis unfolding local_days_def
    using assms(2,3) by (intro py_round_mono max.mono f64_mult_left_mono)
qed

text \<open>C36. The inference route never fails on an object: it answers or refuses with 422. An answer's risk lies between 0.05
  and 0.97; with the engine, the probability of failure is that risk, the remaining life lies between
  its bounds and the sensors named are those flagged; without it, the local bounds enclose the local
  value.\<close>

theorem predictive_route_sound:
  "case predictive_route env (Some (VDict body)) of
     Inl e \<Rightarrow> (\<exists>m. e = Refused 422 m)
   | Inr a \<Rightarrow> F 0.05 \<le> pa_risk_score a \<and> pa_risk_score a \<le> F 0.97
      \<and> (case pa_data a of
           Engine p \<Rightarrow> fp_probability (pp_failure_probability p) = pa_risk_score a \<and> response_sound p
         | Local v \<Rightarrow> v = local_payload env body (py_or (dict_default body ''asset_id'' VNone) (VStr ''machine07'')) (pa_risk_score a)
             \<and> local_days (pa_risk_score a) (F 0.5) (F 40) \<le> local_days (pa_risk_score a) (F 1) (F 60)
             \<and> local_days (pa_risk_score a) (F 1) (F 60) \<le> local_days (pa_risk_score a) (F 2) (F 80))"
proof -
  let ?r = "compute_risk_from_features (request_features body)"
  note b = api_risk_bounds [of "request_features body"]
  have r: "?r \<le> 1" "0 \<le> ?r" using b F_mono [of "0.97" 1] F_nonneg [of "0.05"] by (auto intro: order_trans)
  then have days: "local_days ?r (F 0.5) (F 40) \<le> local_days ?r (F 1) (F 60)"
    "local_days ?r (F 1) (F 60) \<le> local_days ?r (F 2) (F 80)" by (intro local_days_mono F_mono; simp)+
  have sound: "response_sound (overwrite_probability ?r p)" if "infer (pr_engine env) q = Inr p" for p q
    using infer_response_sound [OF that] r by (simp add: response_sound_def overwrite_probability_def)
  show ?thesis using b days sound
    by (auto simp: predictive_route_def request_of_def Let_def overwrite_probability_def
        split: sum.splits option.splits if_splits)
qed

subsection \<open>The explanation route\<close>

record shap_feature =
  hf_feature_name :: str
  hf_impact_weight :: float64
  hf_feature_value :: float64
  hf_feature_rank :: int

text \<open>The stand-in for an explanation: its weights come from the microseconds of the clock and the string hash of the
  identifier.\<close>

definition jitter :: "int \<Rightarrow> int \<Rightarrow> float64" where
  "jitter microsecond asset_hash =
     of_int64 (microsecond mod 997) / F 9970 + of_int64 (\<bar>asset_hash\<bar> mod 13) / F 1000"

definition build_dynamic_shap_features :: "int \<Rightarrow> int \<Rightarrow> float64 \<Rightarrow> shap_feature list" where
  "build_dynamic_shap_features microsecond asset_hash risk_score =
     (let j = jitter microsecond asset_hash;
          vib_weight = py_round (min (F 0.92) (F 0.34 + risk_score * F 0.10 + j)) 4;
          temp_weight = py_round (min (F 0.82) (F 0.24 + risk_score * F 0.08 + j / F 2)) 4;
          grad_weight = py_round (max (F 0.05) (F 0.18 + j / F 3)) 4;
          pressure_weight = py_round (max (F 0.02) (F 1 - vib_weight - temp_weight - grad_weight)) 4
      in [\<lparr>hf_feature_name = ''vibration_rms_6h_mean'', hf_impact_weight = vib_weight,
            hf_feature_value = py_round (F 3.6 + risk_score + j) 4, hf_feature_rank = 1\<rparr>,
          \<lparr>hf_feature_name = ''bearing_temp_1h_mean'', hf_impact_weight = temp_weight,
            hf_feature_value = py_round (F 82 + risk_score * F 15 + j * F 10) 4, hf_feature_rank = 2\<rparr>,
          \<lparr>hf_feature_name = ''bearing_temp_grad_per_hr'', hf_impact_weight = grad_weight,
            hf_feature_value = py_round (F 0.9 + j * F 3) 4, hf_feature_rank = 3\<rparr>,
          \<lparr>hf_feature_name = ''pressure_6h_std'', hf_impact_weight = pressure_weight,
            hf_feature_value = py_round (F 0.22 + j) 4, hf_feature_rank = 4\<rparr>])"

definition shap_feature_json :: "shap_feature \<Rightarrow> pyval" where
  "shap_feature_json f = VDict [(''feature_name'', VStr (hf_feature_name f)), (''impact_weight'', VFloat (hf_impact_weight f)),
     (''feature_value'', VFloat (hf_feature_value f)), (''rank'', VInt (hf_feature_rank f))]"

definition local_explanation :: "predict_route_env \<Rightarrow> str \<Rightarrow> shap_feature list \<Rightarrow> pyval" where
  "local_explanation env asset_id features =
     (let json = VList (map shap_feature_json features); top = hd features
      in VDict [(''explanation_id'', VStr (pr_explanation_uuid env)), (''asset_id'', VStr asset_id), (''method'', VStr ''SHAP''),
        (''scope'', VStr ''LOCAL''), (''base_value'', VFloat (F 0.15)), (''predicted_value'', VFloat (F 0.82)),
        (''local_feature_importance'', json), (''features'', json), (''global_feature_importance'', VNone),
        (''root_cause'', VDict [(''headline'', VStr ''Bearing Overheat driven by elevated vibration and temperature''),
          (''narrative'', VStr (''SHAP analysis ranks '' @ hf_feature_name top @ '' as the current primary driver with '' @
             repr_float (hf_impact_weight top) @ '' impact weight.'')),
          (''contributing_failure_modes'', VList [VStr ''failuremode-bearing-overheat''])]),
        (''confidence_matrix'', VList [VDict [(''label'', VStr ''Bearing Overheat''), (''confidence'', VFloat (F 0.82))],
          VDict [(''label'', VStr ''Normal Operation''), (''confidence'', VFloat (F 0.18))]]),
        (''model_name'', VStr ''xgboost_failure_classifier_v1''), (''model_version'', VStr ''1.0.0''),
        (''generated_at'', VStr (pr_iso env))])"

datatype explanation_data = Engine_Explanation xai_response | Local_Explanation pyval

definition predictive_explain ::
  "predict_route_env \<Rightarrow> xai_env \<Rightarrow> (str \<Rightarrow> telemetry_frame list) \<Rightarrow> int \<Rightarrow> int \<Rightarrow> str \<Rightarrow> explanation_data" where
  "predictive_explain env xai episode microsecond asset_hash asset_id =
     (let fallback = build_dynamic_shap_features microsecond asset_hash (F 0.82)
      in case Xai_Service.explain xai \<lparr>eq_asset_id = asset_id, eq_explanation_id = None, eq_method = M_SHAP\<rparr> (take 24 (episode asset_id)) of
           Inr r \<Rightarrow> Engine_Explanation r
         | Inl e \<Rightarrow> Local_Explanation (local_explanation env asset_id fallback))"

subsection \<open>Health and evaluation\<close>

text \<open>A report that does not match its schema is kept as the plain dictionary, which has neither of the attributes: the
  two functions may raise; an empty dictionary is no report (\<open>None\<close>).\<close>

definition predictive_health ::
  "('r, 'a, 'p) libraries \<Rightarrow> ('p \<Rightarrow> str option res) \<Rightarrow> str \<Rightarrow> ('r, 'a, 'p) registry \<Rightarrow> pyval \<times> ('r, 'a, 'p) registry" where
  "predictive_health lb trained_at path g =
     (let available = artifacts_available g;
          (report, g') = (if available then load_report lb g else (None, g))
      in (case (case report of None \<Rightarrow> Inr VNone | Some p \<Rightarrow> bind_res (trained_at p) (\<lambda>t. Inr (json_opt t))) of
            Inr t \<Rightarrow> VDict [(''status'', VStr (if available then ''ready'' else ''degraded_fallback'')),
              (''artifacts_available'', VBool available), (''registry_path'', VStr path),
              (''rul_model'', VStr ''xgboost_rul_v1.json''), (''anomaly_model'', VStr ''isolation_forest_v1.joblib''),
              (''last_trained_at'', t)]
          | Inl e \<Rightarrow> VDict [(''status'', VStr ''degraded_fallback''), (''artifacts_available'', VBool False),
              (''error'', VStr (err_text e))], g'))"

definition predictive_evaluation ::
  "('r, 'a, 'p) libraries \<Rightarrow> ('p \<Rightarrow> pyval res) \<Rightarrow> ('r, 'a, 'p) registry \<Rightarrow> (api_failure + pyval) \<times> ('r, 'a, 'p) registry" where
  "predictive_evaluation lb dump g = (case load_report lb g of (report, g') \<Rightarrow>
     (case report of None \<Rightarrow> Inl (Refused 404 ''No evaluation report found'')
      | Some p \<Rightarrow> (case dump p of Inr v \<Rightarrow> Inr v | Inl e \<Rightarrow> Inl (Refused 500 (err_text e))), g'))"

text \<open>The health route says the artifacts are missing although both files are there, when the report beside them is not
  in its schema.\<close>

lemma report_hides_artifacts:
  assumes "artifacts_available g" "rg_report g = Some p" "trained_at p = Inl e"
  shows "fst (predictive_health lb trained_at path g) = VDict [(''status'', VStr ''degraded_fallback''),
     (''artifacts_available'', VBool False), (''error'', VStr (err_text e))]"
  using assms by (simp add: predictive_health_def load_report_def Let_def)

end
