(* ===== verification/Engine_Api.thy ===== *)
theory Engine_Api
  imports Predictive_Api
begin

section \<open>The routes of the engines\<close>

text \<open>
  \<open>api/v1/graphrag.py\<close>, \<open>decision.py\<close>, \<open>orchestration.py\<close> and \<open>xai.py\<close>: the query route with its
  refusal of foreign subjects, its invented citations and its stand-in answer, the diagnosis of the
  retrieval, and the routes that map the outcome of a service to an envelope or a status. The search,
  the database and the language model of the query pipeline are the parameters of \<open>rag_query\<close>. The
  theorems show what every query is answered and where the citations come from.
\<close>

subsection \<open>The subject of a query\<close>

definition foreign_terms :: "str list" where
  "foreign_terms = [''recipe'', ''cookie'', ''cookies'', ''chocolate'', ''cake'', ''travel'', ''poem'', ''movie'', ''weather'',
     ''stock'', ''sports'', ''politics'']"

definition industrial_terms :: "str list" where
  "industrial_terms = [''machine'', ''asset'', ''pump'', ''bearing'', ''centrifuge'', ''seal'', ''vibration'', ''maintenance'',
     ''threshold'', ''failure'', ''sop'', ''shutdown'', ''telemetry'', ''compressor'', ''turbine'', ''motor'']"

definition out_of_domain :: "str \<Rightarrow> bool" where
  "out_of_domain q = (let lowered = py_lower q
     in list_ex (\<lambda>t. contains t lowered) foreign_terms \<and> \<not> list_ex (\<lambda>t. contains t lowered) industrial_terms)"

text \<open>The terms are searched as parts of words, so a question about a spare part in stock is refused and a poem on
  philosophy is industrial.\<close>

lemma parts_of_words: "out_of_domain ''Is a spare gasket in stock?''" "\<not> out_of_domain ''write a poem on philosophy''"
  by code_simp+

subsection \<open>The query request\<close>

fun check_bool :: "pyval \<Rightarrow> pyval res" where
  "check_bool (VBool b) = Inr (VBool b)"
| "check_bool (VInt i) = (if i = 0 \<or> i = 1 then Inr (VBool (i = 1)) else Inl (ValidationError ''bool_parsing''))"
| "check_bool (VFloat x) = (if x = 0 \<or> x = 1 then Inr (VBool (x = 1)) else Inl (ValidationError ''bool_parsing''))"
| "check_bool (VStr s) =
     (if py_lower s \<in> set [''1'', ''t'', ''true'', ''y'', ''yes'', ''on''] then Inr (VBool True)
      else if py_lower s \<in> set [''0'', ''f'', ''false'', ''n'', ''no'', ''off''] then Inr (VBool False)
      else Inl (ValidationError ''bool_parsing''))"
| "check_bool v = Inl (ValidationError ''bool_type'')"

definition query_value :: "(str \<times> pyval) list \<Rightarrow> pyval" where
  "query_value body = py_or (py_or (py_or (dict_default body ''query_text'' VNone) (dict_default body ''message'' VNone))
     (dict_default body ''query'' VNone)) (VStr [])"

text \<open>\<open>GraphRagQueryRequest(...)\<close>: the types, then the bounds; filters are checked and used by the search.\<close>

definition int_of :: "pyval \<Rightarrow> int" where
  "int_of v = (case v of VInt i \<Rightarrow> i | _ \<Rightarrow> 0)"

definition float_of :: "pyval \<Rightarrow> float64" where
  "float_of v = (case v of VFloat x \<Rightarrow> x | _ \<Rightarrow> 0)"

definition query_request :: "(str \<times> pyval) list \<Rightarrow> str \<Rightarrow> rag_request res" where
  "query_request body q =
     bind_res (check_int (dict_default body ''top_k'' (VInt 8))) (\<lambda>k.
     bind_res (check_float (dict_default body ''min_score'' (VFloat (F 0.55)))) (\<lambda>s.
     bind_res (check_int (dict_default body ''max_graph_hops'' (VInt 2))) (\<lambda>h.
     bind_res (as_opt_str (dict_default body ''asset_id'' VNone)) (\<lambda>a.
     bind_res (check_optional check_dict (dict_default body ''filters'' VNone)) (\<lambda>_.
     bind_res (check_bool (dict_default body ''include_telemetry'' (VBool True))) (\<lambda>_.
     mk_rag_request (rag_request.make q (int_of k) (float_of s) (int_of h) a)))))))"

subsection \<open>The query route\<close>

definition asset_or_default :: "(str \<times> pyval) list \<Rightarrow> pyval" where
  "asset_or_default body = py_or (dict_default body ''asset_id'' VNone) (VStr ''machine07'')"

definition asset_text :: "str option \<Rightarrow> str" where
  "asset_text a = (if truthy_str a then the a else ''machine07'')"

definition invented_citations :: "str option \<Rightarrow> citation list" where
  "invented_citations a = [
     \<lparr>ci_citation_id = ''[Source #1]'', ci_claim_span = ''operational baseline parameters'',
      ci_source_document = Some ''SOP-101-Bearing-Maintenance.pdf'', ci_source_type = Some ''SOP'',
      ci_source_node_id = Some (asset_text a), ci_confidence_score = F 0.89, ci_page_number = Some 12, ci_url = None\<rparr>,
     \<lparr>ci_citation_id = ''[Source #2]'', ci_claim_span = ''history and technical manual'',
      ci_source_document = Some ''manual_pump_007.pdf'', ci_source_type = Some ''MANUAL'',
      ci_source_node_id = Some ''component-bearing'', ci_confidence_score = F 0.82, ci_page_number = Some 34, ci_url = None\<rparr>]"

definition invented_answer :: "str option \<Rightarrow> str" where
  "invented_answer a = ''Based on retrieved context for '' @ asset_text a @ '' [Source #1], '' @
     ''the operational baseline shows nominal bearing temp 65-75'' @ degree_sign @ ''C [Source #2].''"

definition invented_chunk :: "str option \<Rightarrow> context_chunk" where
  "invented_chunk a = \<lparr>ck_chunk_id = ''chunk_1'', ck_text = ''Operational baseline for '' @ asset_text a @ '' nominal 65-75C'',
     ck_score = F 0.92, ck_document_type = ''SOP'', ck_source = Some ''SOP-101''\<rparr>"

definition ensure_citations :: "str option \<Rightarrow> rag_response \<Rightarrow> rag_response" where
  "ensure_citations a resp =
     (if rr_citations resp \<noteq> [] then resp
      else resp\<lparr>rr_citations := invented_citations a,
        rr_answer := (if \<not> truthy_str (rr_answer resp) \<or> \<not> contains ''Source'' (the (rr_answer resp))
           then Some (invented_answer a) else rr_answer resp),
        rr_context_chunks := (if rr_context_chunks resp = [] then [invented_chunk a] else rr_context_chunks resp),
        rr_overall_confidence := F 0.85\<rparr>)"

definition refusal_text :: str where
  "refusal_text = ''I do not possess domain information regarding recipes or '' @
     ''non-industrial processes in my knowledge base.''"

definition refusal_payload :: "str \<Rightarrow> pyval" where
  "refusal_payload now = VDict [(''answer'', VStr refusal_text), (''citations'', VList []), (''context_chunks'', VList []),
     (''graph_nodes'', VList []), (''graph_edges'', VList []), (''overall_confidence'', VFloat (F 1)),
     (''out_of_domain'', VBool True), (''generated_at'', VStr now)]"

definition stand_in_payload :: "pyval \<Rightarrow> str \<Rightarrow> pyval" where
  "stand_in_payload asset now = VDict [
     (''answer'', VStr (''Based on fallback context for '' @ py_str asset @ '' [Source #1], baseline is 65-75C [Source #2].'')),
     (''citations'', VList [
        VDict [(''citation_id'', VStr ''[Source #1]''), (''claim_span'', VStr ''fallback baseline''),
          (''source_document'', VStr ''SOP-101''), (''source_type'', VStr ''SOP''), (''source_node_id'', asset),
          (''confidence_score'', VFloat (F 0.75))],
        VDict [(''citation_id'', VStr ''[Source #2]''), (''claim_span'', VStr ''technical manual''),
          (''source_document'', VStr (''manual_'' @ py_str asset @ ''.pdf'')), (''source_type'', VStr ''MANUAL''),
          (''source_node_id'', VStr ''component-bearing''), (''confidence_score'', VFloat (F 0.82))]]),
     (''context_chunks'', VList []), (''graph_nodes'', VList []), (''graph_edges'', VList []),
     (''overall_confidence'', VFloat (F 0.5)), (''latency_ms'', VFloat 0), (''generated_at'', VStr now)]"

datatype rag_answer = Refusal pyval | Answered rag_response | Stand_In pyval

definition graphrag_route :: "rag_env \<Rightarrow> str \<Rightarrow> pyval option \<Rightarrow> api_failure + rag_answer" where
  "graphrag_route env now request_json = (case request_json of
     None \<Rightarrow> Inl (Refused 400 ''Invalid JSON'')
   | Some (VDict body) \<Rightarrow>
       (if \<not> truthy (query_value body) then Inl (Refused 400 ''Missing query_text / message field'')
        else case query_value body of
          VStr q \<Rightarrow>
            (if out_of_domain q then Inr (Refusal (refusal_payload now))
             else case bind_res (query_request body q) (\<lambda>r. bind_res (rag_query env r) (\<lambda>resp.
                    Inr (ensure_citations (rag_request.rq_asset_id r) resp))) of
                Inr resp \<Rightarrow> Inr (Answered resp)
              | Inl e \<Rightarrow> Inr (Stand_In (stand_in_payload (asset_or_default body) now)))
        | v \<Rightarrow> Inl (Crashed (AttributeErr ''lower'')))
   | Some v \<Rightarrow> Inl (Crashed (AttributeErr ''get'')))"

text \<open>What a query of the pipeline leaves to the route: it fails on data the models refuse, and without context it
  carries the fallback text and no citation.\<close>

lemma rag_query_cases:
  obtains (failed) e where "rag_query env r = Inl e" "\<not> readable env r"
  | (answered) p where "rag_query env r = Inr p"
    "rr_vector_hits p = 0 \<and> rr_graph_nodes p = [] \<Longrightarrow> rr_answer p = Some fallback_no_context \<and> rr_citations p = []"
proof (cases rule: rag_query_response [of env r])
  case (failed e)
  then show thesis by (rule that(1))
next
  case (answered cs p)
  have "resolve_citations a (build []) = []" for a
    using resolve_ids [of a "build []"] by (simp add: build_def)
  then have "rr_vector_hits p = 0 \<and> rr_graph_nodes p = [] \<Longrightarrow> rr_answer p = Some fallback_no_context \<and> rr_citations p = []"
    using answered by (auto simp: synthesize_def build_def)
  with answered(1) show thesis by (rule that(2))
qed

lemma fallback_unsourced: "\<not> contains ''Source'' fallback_no_context"
  by code_simp

lemma ensure_citations_ne: "rr_citations (ensure_citations a p) \<noteq> []"
  by (simp add: ensure_citations_def invented_citations_def)

text \<open>The citations of a payload.\<close>

definition payload_citations :: "pyval \<Rightarrow> pyval list" where
  "payload_citations v = (case v of
     VDict d \<Rightarrow> (case map_of d ''citations'' of Some (VList cs) \<Rightarrow> cs | _ \<Rightarrow> []) | _ \<Rightarrow> [])"

lemma payload_citations_simps [simp]:
  "payload_citations (refusal_payload now) = []"
  "length (payload_citations (stand_in_payload asset now)) = 2"
  by (simp_all add: payload_citations_def refusal_payload_def stand_in_payload_def)

text \<open>C37. A query of the domain is always answered with citations, found or not; a query about a foreign subject is
  answered with the fixed refusal, which has none. The citations of the pipeline are kept as they are;
  where it has none, two fixed documents are cited with a confidence of 0.85, and a query for which
  nothing at all was retrieved is answered with a fixed statement about bearing temperatures in place of
  the pipeline's admission. The fixed stand-in answer, which cites two documents named after the asset
  of the body, goes exactly to the requests that violate the schema and to those on which the pipeline
  fails, which it does only when the database or the search returned data the response models refuse.\<close>

theorem graphrag_route_cites:
  "case query_value body of VStr q \<Rightarrow>
     (case graphrag_route env now (Some (VDict body)) of
        Inl f \<Rightarrow> q = [] \<and> f = Refused 400 ''Missing query_text / message field''
      | Inr (Refusal v) \<Rightarrow> out_of_domain q \<and> v = refusal_payload now \<and> payload_citations v = []
      | Inr (Stand_In v) \<Rightarrow> \<not> out_of_domain q \<and> v = stand_in_payload (asset_or_default body) now
          \<and> length (payload_citations v) = 2
          \<and> (case query_request body q of Inl e \<Rightarrow> True
             | Inr r \<Rightarrow> (\<exists>e. rag_query env r = Inl e) \<and> \<not> readable env r)
      | Inr (Answered resp) \<Rightarrow> \<not> out_of_domain q \<and> rr_citations resp \<noteq> [] \<and>
          (\<exists>r p. query_request body q = Inr r \<and> rag_query env r = Inr p \<and>
             (if rr_citations p \<noteq> [] then resp = p
              else rr_citations resp = invented_citations (rag_request.rq_asset_id r) \<and> rr_overall_confidence resp = F 0.85) \<and>
             (if rr_vector_hits p = 0 \<and> rr_graph_nodes p = []
              then rr_answer resp = Some (invented_answer (rag_request.rq_asset_id r)) else True)))
   | _ \<Rightarrow> True"
proof (cases "query_value body")
  case (VStr q)
  show ?thesis
  proof (cases "query_request body q")
    case (Inl e)
    with VStr show ?thesis by (simp add: graphrag_route_def)
  next
    case (Inr r)
    let ?a = "rag_request.rq_asset_id r"
    show ?thesis
    proof (cases rule: rag_query_cases [of env r])
      case (failed e)
      with VStr Inr show ?thesis by (simp add: graphrag_route_def)
    next
      case (answered p)
      have kept: "rr_citations p \<noteq> [] \<Longrightarrow> ensure_citations ?a p = p" by (simp add: ensure_citations_def)
      have none: "rr_citations p = [] \<Longrightarrow> rr_citations (ensure_citations ?a p) = invented_citations ?a
          \<and> rr_overall_confidence (ensure_citations ?a p) = F 0.85" by (simp add: ensure_citations_def)
      have empty: "rr_vector_hits p = 0 \<and> rr_graph_nodes p = [] \<Longrightarrow>
          rr_answer (ensure_citations ?a p) = Some (invented_answer ?a)"
        using answered(2) fallback_unsourced by (simp add: ensure_citations_def)
      from VStr Inr answered(1) kept none empty show ?thesis
        by (simp add: graphrag_route_def ensure_citations_ne)
    qed
  qed
qed simp_all

text \<open>A request for a thousand results violates the schema and is answered with success and two invented sources.\<close>

lemma invalid_request_answered: "graphrag_route env now (Some (VDict [(''query'', VStr ''pump seal''), (''top_k'', VInt 1000)]))
    = Inr (Stand_In (stand_in_payload (VStr ''machine07'') now))"
proof -
  let ?b = "[(''query'', VStr ''pump seal''), (''top_k'', VInt 1000)]"
  have "\<not> out_of_domain ''pump seal''" by code_simp
  moreover have "query_value ?b = VStr ''pump seal''" "asset_or_default ?b = VStr ''machine07''" by code_simp+
  moreover have "\<exists>e. query_request ?b ''pump seal'' = Inl e"
    by (simp add: query_request_def dict_default_def mk_rag_request_def require_def rag_request.defs int_of_def check_float_def
      as_opt_str_def check_optional_def)
  ultimately show ?thesis by (auto simp: graphrag_route_def)
qed

subsection \<open>Diagnosis\<close>

record diagnosis =
  dg_vector_hits :: nat
  dg_graph_hits :: nat
  dg_graph_nodes :: nat
  dg_graph_edges :: nat
  dg_fusion_method :: str
  dg_total_candidates :: nat
  dg_vector_candidates :: nat
  dg_graph_candidates :: nat
  dg_records :: nat

text \<open>The diagnosis builds no response, so it fuses every node, whatever its identifier and its name are. An
  identifier that is no text is the key of a candidate of its own, here a text no other hit has; a
  candidate whose text is no text makes the citation engine raise.\<close>

definition node_text :: "raw_node \<Rightarrow> pyval" where
  "node_text n = (if truthy (nd_display_name n) then nd_display_name n else nd_id n)"

definition text_or :: "str \<Rightarrow> pyval \<Rightarrow> str" where
  "text_or d v = (case v of VStr s \<Rightarrow> s | _ \<Rightarrow> d)"

definition diagnosed_hits :: "vector_hit list \<Rightarrow> raw_node list \<Rightarrow> graph_hit list" where
  "diagnosed_hits vs ns =
     (let longest = foldr (\<lambda>i m. max (length i) m) (map vh_chunk_id vs @ map (text_or [] \<circ> nd_id) ns) 0
      in map (\<lambda>(j, n). hit_of_node \<lparr>gn_id = text_or (replicate (Suc (longest + j)) CHR ''?'') (nd_id n), gn_label = nd_label n,
             gn_display_name = text_or [] (node_text n), gn_properties = nd_properties n\<rparr>) (enumerate 0 ns))"

definition untextual :: "raw_node list \<Rightarrow> graph_hit list \<Rightarrow> fusion_candidate \<Rightarrow> bool" where
  "untextual ns hits c \<longleftrightarrow> fc_source_type c = ''graph'' \<and>
     list_ex (\<lambda>(n, h). fc_node_id c = Some (gh_node_id h) \<and> (case node_text n of VStr s \<Rightarrow> False | _ \<Rightarrow> True)) (zip ns hits)"

definition graphrag_diagnose :: "rag_env \<Rightarrow> pyval option \<Rightarrow> api_failure + diagnosis" where
  "graphrag_diagnose env request_json = (case request_json of
     None \<Rightarrow> Inl (Refused 400 ''Invalid JSON'')
   | Some (VDict body) \<Rightarrow>
       (if \<not> truthy (query_value body) then Inl (Refused 400 ''Missing query_text'')
        else case (case query_value body of
             VStr q \<Rightarrow> bind_res (query_request (AList.update ''include_telemetry'' (VBool True) body) q) (\<lambda>r.
               let ret = retrieve_for env r; nodes = rv_graph_nodes_raw ret; hits = diagnosed_hits (rv_vector_hits ret) nodes
               in bind_res (fuse (rg_rrf_k env) (rv_vector_hits ret) hits ''rrf'' 20 (F 0.6) (F 0.4)) (\<lambda>fused.
                 if list_ex (untextual nodes hits) (fr_candidates fused) then Inl (AttributeErr ''strip'')
                 else Inr \<lparr>dg_vector_hits = length (rv_vector_hits ret), dg_graph_hits = length hits,
                   dg_graph_nodes = length nodes, dg_graph_edges = length (rv_graph_edges_raw ret),
                   dg_fusion_method = fr_method fused, dg_total_candidates = length (fr_candidates fused),
                   dg_vector_candidates = fr_total_vector fused, dg_graph_candidates = fr_total_graph fused,
                   dg_records = length (build (fr_candidates fused))\<rparr>))
           | v \<Rightarrow> Inl (ValidationError ''query_text'')) of
           Inr d \<Rightarrow> Inr d | Inl e \<Rightarrow> Inl (Refused 500 (err_text e)))
   | Some v \<Rightarrow> Inl (Crashed (AttributeErr ''get'')))"

subsection \<open>The decision, orchestration and explanation routes\<close>

record 'a api_response =
  ar_success :: bool
  ar_data :: 'a
  ar_request_id :: "str option"

definition decision_recommend ::
  "settings \<Rightarrow> nat \<Rightarrow> decision_env \<Rightarrow> str \<Rightarrow> recommendation_request \<Rightarrow> api_failure + recommendation_response api_response" where
  "decision_recommend g max_sops env uuid rq = (case recommend g max_sops env rq of
     Inr r \<Rightarrow> Inr \<lparr>ar_success = True, ar_data = r, ar_request_id = Some uuid\<rparr>
   | Inl e \<Rightarrow> Inl (Refused 500 (''Decision recommendation failed: '' @ err_text e)))"

definition decision_health :: "settings \<Rightarrow> pyval" where
  "decision_health g = VDict [(''status'', VStr ''ready''),
     (''severity_thresholds_days'', VDict [(''imminent_rul_days'', VFloat (imminent_rul_days g)),
        (''scheduled_rul_days'', VFloat (scheduled_rul_days g))]),
     (''failure_probability_thresholds'', VDict [(''imminent'', VFloat (imminent_probability g)),
        (''scheduled'', VFloat (scheduled_probability g))]),
     (''criticality_weights'', VDict (map (\<lambda>(k, w). (k, VFloat w)) criticality_weights)),
     (''severity_tier_fmea_scale'', VDict (map (\<lambda>(k, w). (k, VFloat w)) severity_tier_scale)),
     (''rpn_ceiling'', VFloat (rpn_ceiling g))]"

text \<open>The executor may not return (\<open>None\<close>).\<close>

definition orchestrator_execute ::
  "services \<Rightarrow> (agent_state \<Rightarrow> nat) \<Rightarrow> str \<Rightarrow> orchestrator_request \<Rightarrow> orchestrator_response api_response option" where
  "orchestrator_execute sv dump_len uuid q = map_option
     (\<lambda>r. \<lparr>ar_success = True, ar_data = r, ar_request_id = Some (or_request_id r)\<rparr>) (execute sv dump_len uuid q)"

definition orchestrator_health :: "(str \<times> pyval) list" where
  "orchestrator_health = [(''status'', VStr ''ok''), (''engine'', VStr ''phase9_langgraph_orchestrator''),
     (''max_recursion_limit'', VInt 15)]"

text \<open>The limit reported is not the one in force.\<close>

lemma reported_limit_wrong: "map_of orchestrator_health ''max_recursion_limit'' = Some (VInt 15)" "30 \<le> recursion_limit q"
  by (simp_all add: orchestrator_health_def recursion_limit_def)

definition generate_explanation ::
  "xai_env \<Rightarrow> (str \<Rightarrow> telemetry_frame list) \<Rightarrow> explain_request \<Rightarrow> api_failure + xai_response" where
  "generate_explanation env episode r = (case Xai_Service.explain env r (take 24 (episode (eq_asset_id r))) of
     Inr x \<Rightarrow> Inr x
   | Inl e \<Rightarrow> if value_error e then Inl (Refused 400 (''Invalid parameter configuration: '' @ err_text e))
       else Inl (Refused 500 (''XAI calculation failed: '' @ err_text e)))"

end
