(* ===== verification/Frozen_Contracts.thy ===== *)
theory Frozen_Contracts
  imports Engine_Api
begin

section \<open>The frozen contracts\<close>

text \<open>
  \<open>src/core/phase0_contracts.py\<close>: the schemas that gateway and platform are to share, each the list of its
  fields with their defaults and checks; other keys are ignored, as the models declare. The
  theorems compare them with the routes: what conforms, and which conforming requests the platform refuses.
\<close>

subsection \<open>Checks\<close>

definition read_model :: "model_field list \<Rightarrow> pyval \<Rightarrow> pyval res" where
  "read_model fs v = (case v of
     VDict kw \<Rightarrow> bind_res (map_res (read_field kw) fs) (\<lambda>d. Inr (VDict d))
   | _ \<Rightarrow> Inl (ValidationError ''model_type''))"

definition check_between :: "float64 \<Rightarrow> float64 \<Rightarrow> pyval \<Rightarrow> pyval res" where
  "check_between lo hi v = bind_res (check_float v) (\<lambda>x. case x of
     VFloat f \<Rightarrow> require (lo \<le> f \<and> f \<le> hi) (ValidationError ''less_than_equal'') (Inr x)
   | _ \<Rightarrow> Inl (ValidationError ''float_type''))"

definition check_int_between :: "int \<Rightarrow> int \<Rightarrow> pyval \<Rightarrow> pyval res" where
  "check_int_between lo hi v = bind_res (check_int v) (\<lambda>x. case x of
     VInt i \<Rightarrow> require (lo \<le> i \<and> i \<le> hi) (ValidationError ''less_than_equal'') (Inr x)
   | _ \<Rightarrow> Inl (ValidationError ''int_type''))"

definition check_list_of :: "(pyval \<Rightarrow> pyval res) \<Rightarrow> pyval \<Rightarrow> pyval res" where
  "check_list_of c v = (case v of VList xs \<Rightarrow> bind_res (map_res c xs) (\<lambda>ys. Inr (VList ys))
   | _ \<Rightarrow> Inl (ValidationError ''list_type''))"

definition check_dict_of :: "(pyval \<Rightarrow> pyval res) \<Rightarrow> pyval \<Rightarrow> pyval res" where
  "check_dict_of c v = (case v of
     VDict d \<Rightarrow> bind_res (map_res (\<lambda>(k, x). bind_res (c x) (\<lambda>y. Inr (k, y))) d) (\<lambda>d'. Inr (VDict d'))
   | _ \<Rightarrow> Inl (ValidationError ''dict_type''))"

definition check_literal :: "str list \<Rightarrow> pyval \<Rightarrow> pyval res" where
  "check_literal names v = (case v of
     VStr s \<Rightarrow> if s \<in> set names then Inr v else Inl (ValidationError ''literal_error'')
   | _ \<Rightarrow> Inl (ValidationError ''literal_error''))"

definition needed :: "str \<Rightarrow> (pyval \<Rightarrow> pyval res) \<Rightarrow> model_field" where
  "needed k c = (k, None, c)"

definition given :: "str \<Rightarrow> pyval \<Rightarrow> (pyval \<Rightarrow> pyval res) \<Rightarrow> model_field" where
  "given k d c = (k, Some d, c)"

subsection \<open>Constants\<close>

definition frozen_model_name :: str where
  "frozen_model_name = ''sentence-transformers/all-mpnet-base-v2''"

definition frozen_dimension :: int where
  "frozen_dimension = 768"

subsection \<open>Prediction\<close>

definition frozen_features :: "model_field list" where
  "frozen_features = map (\<lambda>k. optional_field k check_float)
     [''vibration'', ''temperature'', ''bearing_temperature'', ''bearing_temp'', ''pressure'', ''rpm'', ''vibration_rms'']"

definition frozen_infer_request :: "model_field list" where
  "frozen_infer_request = [needed ''asset_id'' check_str,
     given ''component_id'' (VStr ''bearing'') (check_optional check_str),
     given ''features'' (VDict []) (check_dict_of check_float), given ''horizon_hours'' (VInt 24) check_int]"

definition frozen_rul :: "model_field list" where
  "frozen_rul = [needed ''value_days'' check_float, needed ''lower_bound_days'' check_float,
     needed ''upper_bound_days'' check_float, given ''confidence_level'' (VFloat (F 0.9)) check_float,
     given ''model_name'' (VStr ''xgboost_rul_v1'') check_str, given ''model_version'' (VStr ''1.0.0'') check_str]"

definition frozen_infer_data :: "model_field list" where
  "frozen_infer_data = [needed ''asset_id'' check_str, needed ''component_id'' check_str,
     needed ''risk_score'' (check_between 0 1), needed ''failure_probability'' check_float,
     needed ''rul'' (read_model frozen_rul), optional_field ''anomaly_detected'' check_bool,
     given ''model_used'' (VStr ''xgboost_failure_classifier_v1'') check_str,
     given ''fallback_used'' (VBool False) check_bool]"

subsection \<open>GraphRAG\<close>

definition frozen_rag_request :: "model_field list" where
  "frozen_rag_request = [needed ''query_text'' check_str, optional_field ''asset_id'' check_str,
     given ''top_k'' (VInt 8) (check_int_between 1 50), given ''min_score'' (VFloat (F 0.55)) (check_between 0 1),
     given ''max_graph_hops'' (VInt 2) (check_int_between 1 5), given ''include_telemetry'' (VBool True) check_bool,
     optional_field ''filters'' check_dict]"

definition frozen_citation :: "model_field list" where
  "frozen_citation = [needed ''citation_id'' check_str, needed ''claim_span'' check_str, needed ''source_document'' check_str,
     needed ''source_type'' check_str, needed ''source_node_id'' check_str, needed ''confidence_score'' (check_between 0 1),
     optional_field ''page_number'' check_int]"

definition frozen_chunk :: "model_field list" where
  "frozen_chunk = [needed ''chunk_id'' check_str, needed ''text'' check_str, needed ''score'' check_float,
     needed ''document_type'' check_str, needed ''source'' check_str]"

definition frozen_rag_data :: "model_field list" where
  "frozen_rag_data = [needed ''answer'' check_str, needed ''citations'' (check_list_of (read_model frozen_citation)),
     given ''context_chunks'' (VList []) (check_list_of (read_model frozen_chunk)),
     given ''graph_nodes'' (VList []) check_list, given ''graph_edges'' (VList []) check_list,
     given ''overall_confidence'' (VFloat (F 0.85)) check_float, given ''out_of_domain'' (VBool False) check_bool,
     needed ''generated_at'' check_str]"

subsection \<open>Explanation and decision\<close>

definition frozen_xai_request :: "model_field list" where
  "frozen_xai_request = [needed ''asset_id'' check_str,
     given ''explanation_type'' (VStr ''local'') (check_literal [''local'', ''global'']),
     given ''methods'' (VList [VStr ''shap'', VStr ''lime'']) (check_list_of (check_literal [''shap'', ''lime''])),
     given ''top_features'' (VInt 5) (check_int_between 1 20)]"

definition frozen_shap_value :: "model_field list" where
  "frozen_shap_value = [needed ''feature_name'' check_str, needed ''impact_weight'' (check_between 0 1),
     needed ''feature_value'' check_float, needed ''rank'' check_int]"

definition frozen_xai_data :: "model_field list" where
  "frozen_xai_data = [needed ''asset_id'' check_str, needed ''explanation_type'' check_str,
     needed ''shap_values'' (check_list_of (read_model frozen_shap_value)),
     optional_field ''lime_explanation'' (check_list_of check_dict), needed ''root_cause_summary'' check_str,
     needed ''confidence'' (check_between 0 1), optional_field ''generated_at'' check_str]"

definition frozen_decision_request :: "model_field list" where
  "frozen_decision_request = [needed ''asset_id'' check_str, needed ''risk_score'' (check_between 0 1),
     needed ''rul_days'' check_float, needed ''failure_probability'' (check_between 0 1),
     optional_field ''shap_features'' (check_list_of check_dict),
     given ''context'' (VDict []) (check_optional check_dict)]"

definition frozen_action :: "model_field list" where
  "frozen_action = [needed ''action_id'' check_str, needed ''priority'' check_int, needed ''action_type'' check_str,
     needed ''title'' check_str, needed ''description'' check_str, optional_field ''risk_reduction'' check_float,
     optional_field ''estimated_downtime_hours'' check_float, optional_field ''sop_reference'' check_str,
     optional_field ''sop_steps'' (check_list_of check_str), optional_field ''fmea_link'' check_str]"

definition frozen_decision_data :: "model_field list" where
  "frozen_decision_data = [needed ''asset_id'' check_str,
     needed ''severity'' (check_literal [''IMMINENT'', ''SCHEDULED'', ''MONITOR'']),
     needed ''recommendations'' (check_list_of (read_model frozen_action)),
     given ''decision_log'' (VList []) (check_list_of check_str), optional_field ''risk_assessment'' check_dict]"

definition frozen_envelope :: "model_field list" where
  "frozen_envelope = [needed ''success'' check_bool, needed ''data'' Inr, optional_field ''error'' check_str,
     needed ''request_id'' check_str, needed ''generated_at'' check_str]"

subsection \<open>Requests of the contract\<close>

text \<open>The schemas the routes validate with: \<open>RecommendationRequest\<close> and \<open>ExplanationRequest\<close> of \<open>app/models\<close>,
  which forbid other keys.\<close>

definition check_nonempty_str :: "pyval \<Rightarrow> pyval res" where
  "check_nonempty_str v = bind_res (as_str v) (\<lambda>s. require (s \<noteq> []) (ValidationError ''string_too_short'') (Inr v))"

definition service_decision_request :: "model_field list" where
  "service_decision_request = [needed ''asset_id'' check_nonempty_str, optional_field ''component_id'' check_str,
     given ''risk_horizon_days'' (VInt 30) (check_int_between 1 365),
     given ''max_recommendations'' (VInt 5) (check_int_between 1 20)]"

definition service_xai_request :: "model_field list" where
  "service_xai_request = [needed ''asset_id'' check_str, optional_field ''explanation_id'' check_str,
     given ''method'' (VStr ''SHAP'') (check_literal [''SHAP'', ''LIME'', ''INTEGRATED_GRADIENTS'', ''PERMUTATION'']),
     given ''scope'' (VStr ''LOCAL'') (check_literal [''LOCAL'', ''GLOBAL'']),
     optional_field ''target_model_name'' check_str]"

lemma map_res_each: "map_res f xs = Inr ys \<Longrightarrow> x \<in> set xs \<Longrightarrow> \<exists>y. f x = Inr y"
  by (induction xs arbitrary: ys) (auto simp: bind_res_Inr)

lemma read_model_needs:
  assumes "read_model fs (VDict kw) = Inr d" "needed k c \<in> set fs"
  shows "k \<in> fst ` set kw"
proof -
  obtain ys where "map_res (read_field kw) fs = Inr ys" using assms(1) by (auto simp: read_model_def bind_res_Inr)
  from map_res_each [OF this assms(2)] show ?thesis
    by (auto simp: read_field_def needed_def split: option.splits dest!: map_of_SomeD intro: rev_image_eqI)
qed

lemma model_init_extra: "k \<in> fst ` set kw \<Longrightarrow> k \<notin> set (map fst fs) \<Longrightarrow>
    model_init fs kw = Inl (ValidationError ''extra_forbidden'')"
  by (auto simp: model_init_def no_extra_def require_def list_all_iff)

text \<open>The platform refuses every request for a decision that conforms to the frozen contract: the contract requires the
  risk, the remaining life and the probability of failure, and the schema of the route forbids them.
  Conversely no request the route accepts conforms to the contract.\<close>

theorem contract_decisions_refused:
  "case read_model frozen_decision_request (VDict kw) of
     Inl e \<Rightarrow> True
   | Inr d \<Rightarrow> model_init service_decision_request kw = Inl (ValidationError ''extra_forbidden'')"
proof (cases "read_model frozen_decision_request (VDict kw)")
  case (Inr d)
  have "needed ''risk_score'' (check_between 0 1) \<in> set frozen_decision_request"
    by (simp add: frozen_decision_request_def)
  from read_model_needs [OF Inr this] have "''risk_score'' \<in> fst ` set kw" .
  moreover have "''risk_score'' \<notin> set (map fst service_decision_request)"
    by (simp add: service_decision_request_def needed_def given_def optional_field_def)
  ultimately show ?thesis using Inr by (simp add: model_init_extra)
qed simp

text \<open>Both sides are inhabited: the example of the contract, and a request of the route.\<close>

definition contract_example :: "(str \<times> pyval) list" where
  "contract_example = [(''asset_id'', VStr ''machine07''), (''risk_score'', VFloat (F 0.5)), (''rul_days'', VInt 2),
     (''failure_probability'', VFloat (F 0.5))]"

lemma contract_example_conforms:
  "\<exists>d. read_model frozen_decision_request (VDict contract_example) = Inr d"
  "\<exists>d. model_init service_decision_request [(''asset_id'', VStr ''machine07'')] = Inr d"
proof -
  have "0 \<le> F 0.5" "F 0.5 \<le> 1" by code_simp+
  then show "\<exists>d. read_model frozen_decision_request (VDict contract_example) = Inr d"
    by (simp add: contract_example_def read_model_def frozen_decision_request_def read_field_def needed_def given_def
      optional_field_def check_str_def as_str_def check_between_def check_float_def require_def)
  show "\<exists>d. model_init service_decision_request [(''asset_id'', VStr ''machine07'')] = Inr d"
    by (simp add: model_init_def no_extra_def service_decision_request_def read_field_def needed_def given_def
      optional_field_def check_nonempty_str_def as_str_def require_def)
qed

text \<open>An explanation request of the contract is accepted only when it keeps to the asset.\<close>

lemma contract_explanation_refused:
  "model_init service_xai_request [(''asset_id'', VStr a), (''methods'', VList [VStr ''shap''])]
     = Inl (ValidationError ''extra_forbidden'')"
  "\<exists>d. model_init service_xai_request [(''asset_id'', VStr a)] = Inr d"
proof -
  show "model_init service_xai_request [(''asset_id'', VStr a), (''methods'', VList [VStr ''shap''])]
     = Inl (ValidationError ''extra_forbidden'')"
    by (rule model_init_extra [of "''methods''"]) (simp_all add: service_xai_request_def needed_def given_def optional_field_def)
  show "\<exists>d. model_init service_xai_request [(''asset_id'', VStr a)] = Inr d"
    by (simp add: model_init_def no_extra_def service_xai_request_def read_field_def needed_def given_def
      optional_field_def check_str_def as_str_def require_def)
qed

subsection \<open>Answers of the contract\<close>

lemma local_payload_reads:
  assumes "0 \<le> risk" "risk \<le> 1" "py_or (dict_default body ''component_id'' VNone) (VStr ''component-1'') = VStr c"
  shows "\<exists>d. read_model frozen_infer_data (local_payload env body (VStr a) risk) = Inr d"
  using assms
  by (simp add: read_model_def local_payload_def Let_def frozen_infer_data_def frozen_rul_def read_field_def needed_def
    given_def optional_field_def check_str_def as_str_def check_between_def check_float_def require_def)

lemma route_local_payload:
  "predictive_route env (Some (VDict body)) = Inr a \<Longrightarrow> pa_data a = Local v \<Longrightarrow>
     v = local_payload env body (py_or (dict_default body ''asset_id'' VNone) (VStr ''machine07''))
       (compute_risk_from_features (request_features body))"
  by (auto simp: predictive_route_def Let_def split: sum.splits option.splits if_splits)

text \<open>The local answers of the inference route conform to the frozen contract whenever the request names asset and
  component by text or not at all, so that a gateway that validates relayed payloads accepts them.\<close>

theorem local_answers_conform:
  "case predictive_route env (Some (VDict body)) of
     Inl e \<Rightarrow> True
   | Inr a \<Rightarrow> (case (py_or (dict_default body ''asset_id'' VNone) (VStr ''machine07''),
           py_or (dict_default body ''component_id'' VNone) (VStr ''component-1''), pa_data a) of
         (VStr asset, VStr component, Local v) \<Rightarrow> (case read_model frozen_infer_data v of Inl e \<Rightarrow> False | Inr d \<Rightarrow> True)
       | _ \<Rightarrow> True)"
proof -
  let ?r = "compute_risk_from_features (request_features body)"
  have "0 \<le> ?r" "?r \<le> 1"
    using api_risk_bounds [of "request_features body"] F_mono [of "0.97" 1] F_nonneg [of "0.05"]
    by (auto intro: order_trans)
  then have reads: False
    if "read_model frozen_infer_data (local_payload env body (VStr asset) ?r) = Inl x"
      "py_or (dict_default body ''component_id'' VNone) (VStr ''component-1'') = VStr c" for asset c x
    using local_payload_reads [of ?r body c env asset] that by auto
  show ?thesis
  proof (cases "predictive_route env (Some (VDict body))")
    case (Inr a)
    then show ?thesis using route_local_payload [OF Inr]
      by (auto dest: reads split: pyval.splits predict_data.splits sum.splits)
  qed simp
qed

text \<open>With the engine the probability of failure is an object, which the contract, a number, refuses.\<close>

lemma contract_refuses_object:
  "map_of kw ''failure_probability'' = Some (VDict p) \<Longrightarrow> \<nexists>d. read_model frozen_infer_data (VDict kw) = Inr d"
proof
  assume p: "map_of kw ''failure_probability'' = Some (VDict p)" and "\<exists>d. read_model frozen_infer_data (VDict kw) = Inr d"
  then obtain ys where "map_res (read_field kw) frozen_infer_data = Inr ys" by (auto simp: read_model_def bind_res_Inr)
  from map_res_each [OF this, of "needed ''failure_probability'' check_float"] p show False
    by (auto simp: frozen_infer_data_def read_field_def needed_def check_float_def)
qed

text \<open>The refusal and the stand-in answer of the query route conform.\<close>

lemma query_payloads_conform:
  "\<exists>d. read_model frozen_rag_data (refusal_payload now) = Inr d"
  "\<exists>d. read_model frozen_rag_data (stand_in_payload (VStr a) now) = Inr d"
proof -
  have "0 \<le> F 0.75" "F 0.75 \<le> 1" "0 \<le> F 0.82" "F 0.82 \<le> 1" by code_simp+
  then show "\<exists>d. read_model frozen_rag_data (refusal_payload now) = Inr d"
    "\<exists>d. read_model frozen_rag_data (stand_in_payload (VStr a) now) = Inr d"
    by (simp_all add: read_model_def refusal_payload_def stand_in_payload_def frozen_rag_data_def frozen_citation_def
      read_field_def needed_def given_def optional_field_def check_str_def as_str_def check_between_def check_float_def
      check_list_of_def require_def)
qed

end
