(* ===== verification/Contract_Manifest.thy ===== *)
theory Contract_Manifest
  imports Gateway
begin

section \<open>The contract manifest\<close>

text \<open>
  \<open>app/ai_service/contracts_manifest.py\<close> and \<open>contracts_router.py\<close>: the flat list of the mounted paths
  and its comparison with the framework's schema, which is a parameter. A route is an object: it has
  an identity, and the walk writes the full path into the object before the list is read, so a
  route reached twice (a sub-application mounted twice) keeps the last path only. The theorems
  give the list for routes reached once and show that the report is exact.
\<close>

subsection \<open>Routes\<close>

record route_info =
  rt_id :: nat
  rt_path :: str
  rt_methods :: "str list option"
  rt_websocket :: bool
  rt_name :: "str option"
  rt_tags :: "str list"
  rt_summary :: "str option"
  rt_in_schema :: bool

text \<open>A mounted application may have no routes of its own (\<open>None\<close>); other kinds of route are skipped.\<close>

datatype route_tree = Leaf route_info | Mounted str "route_tree list option" | Other_Route

definition implicit_methods :: "str list" where
  "implicit_methods = [''HEAD'', ''OPTIONS'']"

definition visible_methods :: "str list option \<Rightarrow> str list" where
  "visible_methods methods = (case methods of None \<Rightarrow> []
     | Some ms \<Rightarrow> sorted_set (filter (\<lambda>m. m \<notin> set implicit_methods) ms))"

fun walk_routes :: "str \<Rightarrow> route_tree list \<Rightarrow> (route_info \<times> str) list" where
  "walk_routes prefix [] = []"
| "walk_routes prefix (Leaf r # ts) = (r, prefix @ rt_path r) # walk_routes prefix ts"
| "walk_routes prefix (Mounted p None # ts) = walk_routes prefix ts"
| "walk_routes prefix (Mounted p (Some sub) # ts) =
     walk_routes (prefix @ rstrip_slash p) sub @ walk_routes prefix ts"
| "walk_routes prefix (Other_Route # ts) = walk_routes prefix ts"

text \<open>The attribute \<open>_full_path\<close> after the walk: the last value written into the object.\<close>

definition full_path :: "(route_info \<times> str) list \<Rightarrow> route_info \<Rightarrow> str" where
  "full_path collected r = the (map_of (rev (map (\<lambda>(r, p). (rt_id r, p)) collected)) (rt_id r))"

record manifest_entry =
  en_path :: str
  en_methods :: "str list"
  en_name :: "str option"
  en_tags :: "str list"
  en_summary :: "str option"
  en_in_schema :: bool

definition entry_of :: "str \<Rightarrow> route_info \<Rightarrow> manifest_entry" where
  "entry_of path r = \<lparr>en_path = path,
     en_methods = (if rt_websocket r then [''WEBSOCKET''] else visible_methods (rt_methods r)),
     en_name = rt_name r, en_tags = rt_tags r, en_summary = rt_summary r, en_in_schema = rt_in_schema r\<rparr>"

definition entry_key :: "manifest_entry \<Rightarrow> str \<times> str" where
  "entry_key e = (en_path e, join '','' (en_methods e))"

definition list_mounted_paths :: "route_tree list \<Rightarrow> manifest_entry list" where
  "list_mounted_paths routes = (let collected = walk_routes [] routes
     in sort_key entry_key (map (\<lambda>(r, p). entry_of (full_path collected r) r) collected))"

subsection \<open>Comparison with the schema\<close>

record drift_report =
  dr_in_sync :: bool
  dr_error :: "str option"
  dr_missing_in_openapi :: "str list"
  dr_missing_in_manifest :: "str list"
  dr_method_mismatches :: "(str \<times> str list \<times> str list) list"
  dr_hidden_routes :: "str list"

definition entry_verbs :: "manifest_entry \<Rightarrow> str set" where
  "entry_verbs e = set (en_methods e) - {''WEBSOCKET''}"

text \<open>\<open>served.setdefault(path, set()).update(verbs)\<close> for the visible entries with a verb.\<close>

definition serve :: "(str \<times> str set) list \<Rightarrow> manifest_entry \<Rightarrow> (str \<times> str set) list" where
  "serve d e = (if \<not> en_in_schema e \<or> entry_verbs e = {} then d
     else AList.update (en_path e) (dict_default d (en_path e) {} \<union> entry_verbs e) d)"

definition served_map :: "manifest_entry list \<Rightarrow> (str \<times> str set) list" where
  "served_map es = foldl serve [] es"

definition documented_map :: "(str \<times> str list) list \<Rightarrow> (str \<times> str set) list" where
  "documented_map paths = map (\<lambda>(p, ms). (p, set (map py_upper ms) - set implicit_methods)) paths"

text \<open>The schema: a failure with its text, or the paths with the keys of their items.\<close>

definition validate_manifest :: "str + (str \<times> str list) list \<Rightarrow> route_tree list \<Rightarrow> drift_report" where
  "validate_manifest openapi routes =
     (let manifest = list_mounted_paths routes; served = served_map manifest;
          hidden = sort (map en_path (filter (\<lambda>e. \<not> en_in_schema e) manifest))
      in case openapi of
        Inl exc \<Rightarrow> \<lparr>dr_in_sync = False, dr_error = Some (''app.openapi() failed: '' @ exc), dr_missing_in_openapi = [],
          dr_missing_in_manifest = [], dr_method_mismatches = [], dr_hidden_routes = hidden\<rparr>
      | Inr paths \<Rightarrow>
         (let documented = documented_map paths;
              undocumented = sorted_set (filter (\<lambda>p. p \<notin> fst ` set documented) (map fst served));
              unserved = sorted_set (filter (\<lambda>p. p \<notin> fst ` set served) (map fst documented));
              mismatches = map (\<lambda>p. (p, sorted_list_of_set (the (map_of served p)), sorted_list_of_set (the (map_of documented p))))
                (filter (\<lambda>p. map_of served p \<noteq> map_of documented p)
                  (sorted_set (filter (\<lambda>p. p \<in> fst ` set documented) (map fst served))))
          in \<lparr>dr_in_sync = (undocumented = [] \<and> unserved = [] \<and> mismatches = []), dr_error = None,
              dr_missing_in_openapi = undocumented, dr_missing_in_manifest = unserved,
              dr_method_mismatches = mismatches, dr_hidden_routes = hidden\<rparr>))"

definition assert_in_sync :: "str + (str \<times> str list) list \<Rightarrow> route_tree list \<Rightarrow> unit res" where
  "assert_in_sync openapi routes = (if dr_in_sync (validate_manifest openapi routes) then Inr ()
     else Inl (RuntimeErr ''Contract manifest is out of sync''))"

subsection \<open>The manifest\<close>

record contract_manifest =
  cm_service :: str
  cm_version :: str
  cm_openapi_version :: str
  cm_route_count :: nat
  cm_in_sync_with_openapi :: bool
  cm_routes :: "manifest_entry list"
  cm_routes_by_tag :: "(str \<times> manifest_entry list) list"
  cm_validation :: drift_report

definition tag_key :: "manifest_entry \<Rightarrow> str" where
  "tag_key e = (case en_tags e of t # _ \<Rightarrow> t | [] \<Rightarrow> ''untagged'')"

definition group_by_tag :: "manifest_entry list \<Rightarrow> (str \<times> manifest_entry list) list" where
  "group_by_tag es = foldl (\<lambda>d e. AList.update (tag_key e) (dict_default d (tag_key e) [] @ [e]) d) [] es"

definition build_contract_manifest ::
  "str option \<Rightarrow> str option \<Rightarrow> str option \<Rightarrow> str + (str \<times> str list) list \<Rightarrow> route_tree list \<Rightarrow> contract_manifest" where
  "build_contract_manifest title version openapi_version openapi routes =
     (let rs = list_mounted_paths routes; v = validate_manifest openapi routes
      in \<lparr>cm_service = (case title of None \<Rightarrow> ''ai-platform'' | Some t \<Rightarrow> t),
          cm_version = (case version of None \<Rightarrow> ''0.0.0'' | Some t \<Rightarrow> t),
          cm_openapi_version = (case openapi_version of None \<Rightarrow> ''3.1.0'' | Some t \<Rightarrow> t),
          cm_route_count = length rs, cm_in_sync_with_openapi = dr_in_sync v, cm_routes = rs,
          cm_routes_by_tag = group_by_tag rs, cm_validation = v\<rparr>)"

definition get_contract_routes :: "route_tree list \<Rightarrow> nat \<times> manifest_entry list" where
  "get_contract_routes routes = (let rs = list_mounted_paths routes in (length rs, rs))"

subsection \<open>The list\<close>

definition reached_once :: "route_tree list \<Rightarrow> bool" where
  "reached_once routes \<longleftrightarrow> distinct (map (\<lambda>(r, p). rt_id r) (walk_routes [] routes))"

lemma full_path_once:
  assumes "distinct (map (\<lambda>(r, p). rt_id r) ws)" "(r, p) \<in> set ws"
  shows "full_path ws r = p"
proof -
  let ?kv = "map (\<lambda>(r, p). (rt_id r, p)) ws"
  have "distinct (rev (map fst ?kv))" using assms(1) by (simp add: comp_def case_prod_unfold)
  then have "distinct (map fst (rev ?kv))" by (simp only: rev_map)
  moreover have "(rt_id r, p) \<in> set (rev ?kv)" using assms(2) by force
  ultimately show ?thesis by (simp add: full_path_def)
qed

lemma listed_once: "reached_once routes \<Longrightarrow>
    mset (list_mounted_paths routes) = mset (map (\<lambda>(r, p). entry_of p r) (walk_routes [] routes))"
proof -
  assume "reached_once routes"
  then have "map (\<lambda>(r, p). entry_of (full_path (walk_routes [] routes) r) r) (walk_routes [] routes)
      = map (\<lambda>(r, p). entry_of p r) (walk_routes [] routes)"
    by (auto simp: reached_once_def full_path_once)
  then have "list_mounted_paths routes = sort_key entry_key (map (\<lambda>(r, p). entry_of p r) (walk_routes [] routes))"
    unfolding list_mounted_paths_def Let_def by (simp only:)
  then show ?thesis by (simp only: mset_sort)
qed

lemma listed_sorted: "sorted (map entry_key (list_mounted_paths routes))"
  by (simp add: list_mounted_paths_def Let_def)

text \<open>The same application mounted at two places: both entries carry the second path, the first is not reported.\<close>

definition shared_route :: route_info where
  "shared_route = \<lparr>rt_id = 0, rt_path = ''/x'', rt_methods = Some [''GET''], rt_websocket = False, rt_name = None,
     rt_tags = [], rt_summary = None, rt_in_schema = True\<rparr>"

lemma mounted_twice: "map en_path (list_mounted_paths
    [Mounted ''/v1'' (Some [Leaf shared_route]), Mounted ''/v2'' (Some [Leaf shared_route])]) = [''/v2/x'', ''/v2/x'']"
  by code_simp

subsection \<open>The report\<close>

text \<open>The verbs a path is served with, by the entries alone.\<close>

definition served_verbs :: "manifest_entry list \<Rightarrow> str \<Rightarrow> str set" where
  "served_verbs es p = (\<Union>e\<in>{e \<in> set es. en_in_schema e \<and> en_path e = p}. entry_verbs e)"

lemma served_verbs_snoc: "served_verbs (es @ [e]) p =
    served_verbs es p \<union> (if en_in_schema e \<and> en_path e = p then entry_verbs e else {})"
  by (auto simp: served_verbs_def)

lemma served_map_lookup: "map_of (served_map es) p = (if served_verbs es p = {} then None else Some (served_verbs es p))"
proof (induction es arbitrary: p rule: rev_induct)
  case (snoc e es)
  have "dict_default (served_map es) (en_path e) {} = served_verbs es (en_path e)"
    using snoc [of "en_path e"] by (simp add: dict_default_def)
  with snoc show ?case
    by (auto simp: served_map_def serve_def served_verbs_snoc map_of_update)
qed (simp add: served_map_def served_verbs_def)

lemma in_sync_maps: "dr_in_sync (validate_manifest (Inr paths) routes) \<longleftrightarrow>
    (\<forall>p. map_of (served_map (list_mounted_paths routes)) p = map_of (documented_map paths) p)"
proof -
  let ?s = "served_map (list_mounted_paths routes)" and ?d = "documented_map paths"
  have empty: "sorted_set (filter P xs) = [] \<longleftrightarrow> (\<forall>x\<in>set xs. \<not> P x)" for P :: "str \<Rightarrow> bool" and xs
    by (metis (mono_tags, lifting) empty_filter_conv set_empty set_sorted_set)
  have "dr_in_sync (validate_manifest (Inr paths) routes) \<longleftrightarrow>
      (\<forall>p\<in>fst ` set ?s. p \<in> fst ` set ?d) \<and> (\<forall>p\<in>fst ` set ?d. p \<in> fst ` set ?s)
      \<and> (\<forall>p\<in>fst ` set ?s. p \<in> fst ` set ?d \<longrightarrow> map_of ?s p = map_of ?d p)"
    by (auto simp: validate_manifest_def Let_def empty filter_empty_conv)
  also have "\<dots> \<longleftrightarrow> (\<forall>p. map_of ?s p = map_of ?d p)"
    by (metis map_of_eq_None_iff)
  finally show ?thesis .
qed

text \<open>The verbs a route serves, and those of a path: the specification of the list.\<close>

definition route_verbs :: "route_info \<Rightarrow> str set" where
  "route_verbs r = (if rt_in_schema r \<and> \<not> rt_websocket r
     then set (visible_methods (rt_methods r)) - {''WEBSOCKET''} else {})"

definition path_verbs :: "route_tree list \<Rightarrow> str \<Rightarrow> str set" where
  "path_verbs routes p = (\<Union>(r, q)\<in>{(r, q) \<in> set (walk_routes [] routes). q = p}. route_verbs r)"

lemma served_verbs_routes: "reached_once routes \<Longrightarrow> served_verbs (list_mounted_paths routes) p = path_verbs routes p"
proof -
  assume "reached_once routes"
  then have "set (list_mounted_paths routes) = (\<lambda>(r, p). entry_of p r) ` set (walk_routes [] routes)"
    using listed_once [of routes] by (metis set_map set_mset_mset)
  then show ?thesis
    by (auto simp: served_verbs_def path_verbs_def entry_of_def entry_verbs_def route_verbs_def split: if_splits)
qed

text \<open>The report of drift is exact when no route object is mounted twice: it says in sync precisely when every path
  is documented with the verbs that the visible routes below the mounts serve there, and every documented path is
  served; HEAD, OPTIONS, web sockets and hidden routes never count.\<close>

theorem drift_report_exact:
  "if reached_once routes
   then dr_in_sync (validate_manifest (Inr paths) routes) =
     (\<forall>p. (if path_verbs routes p = {} then None else Some (path_verbs routes p)) = map_of (documented_map paths) p)
   else True"
proof (cases "reached_once routes")
  case True
  show ?thesis unfolding in_sync_maps served_map_lookup served_verbs_routes [OF True] using True by simp
qed simp

end
