(* ===== verification/Regex.thy ===== *)
theory Regex
  imports Prelude "HOL-Library.Sublist"
begin

section \<open>Regular expressions of the standard library\<close>

text \<open>
  The part of Python's \<open>re\<close> the document parser uses: character classes, the anchors of
  \<open>re.MULTILINE\<close>, alternatives, and greedy and lazy repetition, matched by backtracking. A position
  of a text is its preceding character, if any, and what follows. \<open>endings\<close> lists the ends of a match
  in the order the backtracking search tries them, so the match is the first of them. \<open>matches\<close> is
  the declarative meaning; the search is sound and complete for it.
\<close>

subsection \<open>Expressions and the backtracking search\<close>

datatype regex =
    Cls "char \<Rightarrow> bool"
  | Line_Start
  | Line_End
  | Cat regex regex
  | Choice regex regex
  | Rep bool nat "nat option" regex

type_synonym cursor = "char option \<times> str"

abbreviation shorter :: "cursor \<Rightarrow> cursor \<Rightarrow> bool" where
  "shorter q p \<equiv> length (snd q) < length (snd p)"

abbreviation newline :: char where
  "newline \<equiv> CHR 0x0A"

definition at_line_start :: "cursor \<Rightarrow> bool" where
  "at_line_start p \<longleftrightarrow> (case fst p of None \<Rightarrow> True | Some c \<Rightarrow> c = newline)"

definition at_line_end :: "cursor \<Rightarrow> bool" where
  "at_line_end p \<longleftrightarrow> (case snd p of [] \<Rightarrow> True | c # cs \<Rightarrow> c = newline)"

definition class_ends :: "(char \<Rightarrow> bool) \<Rightarrow> cursor \<Rightarrow> cursor list" where
  "class_ends P p = (case snd p of [] \<Rightarrow> [] | c # cs \<Rightarrow> if P c then [(Some c, cs)] else [])"

text \<open>\<open>lo\<close> iterations are required and at most \<open>n\<close> are made; an iteration consumes something.\<close>

fun repeat_ends :: "(cursor \<Rightarrow> cursor list) \<Rightarrow> bool \<Rightarrow> nat \<Rightarrow> nat \<Rightarrow> cursor \<Rightarrow> cursor list" where
  "repeat_ends f greedy lo 0 p = (if lo = 0 then [p] else [])"
| "repeat_ends f greedy lo (Suc n) p =
     (let more = concat (map (repeat_ends f greedy (lo - 1) n) (filter (\<lambda>q. shorter q p) (f p)))
      in if 0 < lo then more else if greedy then more @ [p] else p # more)"

definition budget :: "nat option \<Rightarrow> cursor \<Rightarrow> nat" where
  "budget hi p = (case hi of None \<Rightarrow> length (snd p) | Some n \<Rightarrow> min n (length (snd p)))"

primrec endings :: "regex \<Rightarrow> cursor \<Rightarrow> cursor list" where
  "endings (Cls P) p = class_ends P p"
| "endings Line_Start p = (if at_line_start p then [p] else [])"
| "endings Line_End p = (if at_line_end p then [p] else [])"
| "endings (Cat a b) p = concat (map (endings b) (endings a p))"
| "endings (Choice a b) p = endings a p @ endings b p"
| "endings (Rep greedy lo hi a) p = repeat_ends (endings a) greedy lo (budget hi p) p"

definition find_match :: "regex \<Rightarrow> cursor \<Rightarrow> cursor option" where
  "find_match r p = (case endings r p of [] \<Rightarrow> None | q # _ \<Rightarrow> if shorter q p then Some q else None)"

text \<open>\<open>r.sub(w, text)\<close> and \<open>r.finditer(text)\<close>, for expressions that match no empty text: a match is
  given by its offsets in a text of \<open>n\<close> characters.\<close>

lemma find_match_shorter: "find_match r p = Some q \<Longrightarrow> shorter q p"
  by (auto simp: find_match_def split: list.splits if_splits)

function re_sub :: "regex \<Rightarrow> str \<Rightarrow> cursor \<Rightarrow> str" where
  "re_sub r w (b, []) = []"
| "re_sub r w (b, c # cs) =
     (case find_match r (b, c # cs) of Some q \<Rightarrow> w @ re_sub r w q | None \<Rightarrow> c # re_sub r w (Some c, cs))"
  by pat_completeness auto
termination by (relation "measure (\<lambda>(r, w, p). length (snd p))") (auto dest: find_match_shorter)

function find_iter :: "regex \<Rightarrow> nat \<Rightarrow> cursor \<Rightarrow> (nat \<times> nat) list" where
  "find_iter r n (b, []) = []"
| "find_iter r n (b, c # cs) =
     (case find_match r (b, c # cs) of
        Some q \<Rightarrow> (n - length (c # cs), n - length (snd q)) # find_iter r n q
      | None \<Rightarrow> find_iter r n (Some c, cs))"
  by pat_completeness auto
termination by (relation "measure (\<lambda>(r, n, p). length (snd p))") (auto dest: find_match_shorter)

definition substitute :: "regex \<Rightarrow> str \<Rightarrow> str \<Rightarrow> str" where
  "substitute r w text = re_sub r w (None, text)"

definition finditer :: "regex \<Rightarrow> str \<Rightarrow> (nat \<times> nat) list" where
  "finditer r text = find_iter r (length text) (None, text)"

subsection \<open>The declarative meaning\<close>

primrec matches :: "regex \<Rightarrow> cursor \<Rightarrow> cursor \<Rightarrow> bool" where
  "matches (Cls P) p q \<longleftrightarrow> (\<exists>c. P c \<and> snd p = c # snd q \<and> fst q = Some c)"
| "matches Line_Start p q \<longleftrightarrow> at_line_start p \<and> q = p"
| "matches Line_End p q \<longleftrightarrow> at_line_end p \<and> q = p"
| "matches (Cat a b) p q \<longleftrightarrow> (\<exists>m. matches a p m \<and> matches b m q)"
| "matches (Choice a b) p q \<longleftrightarrow> matches a p q \<or> matches b p q"
| "matches (Rep greedy lo hi a) p q \<longleftrightarrow>
     (\<exists>k. lo \<le> k \<and> (\<forall>n. hi = Some n \<longrightarrow> k \<le> n) \<and> ((\<lambda>s t. matches a s t \<and> shorter t s) ^^ k) p q)"

lemma exists_nat_cases: "(\<exists>k. P k) \<longleftrightarrow> P 0 \<or> (\<exists>k. P (Suc k))"
  by (metis not0_implies_Suc)

lemma repeat_ends_iff:
  assumes "\<And>s t. t \<in> set (f s) \<longleftrightarrow> R s t"
  shows "q \<in> set (repeat_ends f greedy lo n p) \<longleftrightarrow> (\<exists>k. lo \<le> k \<and> k \<le> n \<and> ((\<lambda>s t. R s t \<and> shorter t s) ^^ k) p q)"
proof (induction n arbitrary: lo p)
  case (Suc n)
  let ?S = "\<lambda>s t. R s t \<and> shorter t s"
  have more: "(\<exists>m. ?S p m \<and> (\<exists>k. lo - 1 \<le> k \<and> k \<le> n \<and> (?S ^^ k) m q))
      \<longleftrightarrow> (\<exists>k. lo \<le> Suc k \<and> Suc k \<le> Suc n \<and> (?S ^^ Suc k) p q)"
    by (simp only: relpowp_commute [symmetric] relpowp.simps relcompp_apply) (auto simp: le_diff_conv)
  have "q \<in> set (repeat_ends f greedy lo (Suc n) p) \<longleftrightarrow>
      (lo = 0 \<and> q = p) \<or> (\<exists>m. ?S p m \<and> (\<exists>k. lo - 1 \<le> k \<and> k \<le> n \<and> (?S ^^ k) m q))"
    using Suc.IH assms by (auto simp: Let_def)
  also have "\<dots> \<longleftrightarrow> (\<exists>k. lo \<le> k \<and> k \<le> Suc n \<and> (?S ^^ k) p q)"
    unfolding more exists_nat_cases [of "\<lambda>k. lo \<le> k \<and> k \<le> Suc n \<and> (?S ^^ k) p q"] by auto
  finally show ?case .
qed auto


lemma iterations_shorten: "((\<lambda>s t. R s t \<and> shorter t s) ^^ k) p q \<Longrightarrow> length (snd q) + k \<le> length (snd p)"
  by (induction k arbitrary: q) fastforce+

text \<open>The search finds exactly the matches: its budget of iterations, the length of the text, is
  never the reason for a failure, because every iteration consumes a character.\<close>

lemma endings_exact: "q \<in> set (endings r p) \<longleftrightarrow> matches r p q"
proof (induction r arbitrary: p q)
  case (Cls P)
  show ?case by (cases p; cases q) (auto simp: class_ends_def split: list.splits)
next
  case (Rep greedy lo hi a)
  let ?S = "\<lambda>s t. matches a s t \<and> shorter t s"
  have "k \<le> budget hi p \<longleftrightarrow> (\<forall>n. hi = Some n \<longrightarrow> k \<le> n)" if "(?S ^^ k) p q" for k
    using iterations_shorten [OF that] by (auto simp: budget_def split: option.splits)
  then show ?case
    by (simp only: endings.simps matches.simps repeat_ends_iff [where f = "endings a" and R = "matches a", OF Rep.IH]) blast
qed (auto simp del: split_paired_Ex split_paired_All)

text \<open>A match consumes a prefix of the text.\<close>

lemma iterations_suffix:
  assumes "\<And>s t. R s t \<Longrightarrow> \<exists>u. snd s = u @ snd t"
  shows "((\<lambda>s t. R s t \<and> shorter t s) ^^ k) p q \<Longrightarrow> \<exists>u. snd p = u @ snd q"
proof (induction k arbitrary: q)
  case (Suc k)
  then obtain m where m: "((\<lambda>s t. R s t \<and> shorter t s) ^^ k) p m" "R m q" by auto
  obtain u where "snd p = u @ snd m" using Suc.IH [OF m(1)] by blast
  moreover obtain v where "snd m = v @ snd q" using assms [OF m(2)] by blast
  ultimately show ?case by simp
qed simp

lemma matches_suffix: "matches r p q \<Longrightarrow> \<exists>u. snd p = u @ snd q"
proof (induction r arbitrary: p q)
  case (Cat a b)
  then obtain m where m: "matches a p m" "matches b m q" by (simp del: split_paired_Ex) blast
  obtain u where "snd p = u @ snd m" using Cat.IH(1) [OF m(1)] by blast
  moreover obtain v where "snd m = v @ snd q" using Cat.IH(2) [OF m(2)] by blast
  ultimately show ?case by simp
next
  case (Rep greedy lo hi a)
  then obtain k where "((\<lambda>s t. matches a s t \<and> shorter t s) ^^ k) p q" by (simp only: matches.simps) blast
  from iterations_suffix [OF Rep.IH this] show ?case .
qed auto

lemma find_match_matches: "find_match r p = Some q \<Longrightarrow> matches r p q \<and> shorter q p"
  unfolding endings_exact [symmetric] by (auto simp: find_match_def split: list.splits if_splits)

lemma find_match_suffix: "find_match r p = Some q \<Longrightarrow> \<exists>u. u \<noteq> [] \<and> snd p = u @ snd q"
  using find_match_matches [of r p q] matches_suffix [of r p q] by auto

text \<open>What a substitution keeps of the text is a subsequence of it, in the characters the
  replacement has none of, and it never grows when every match is at least as long.\<close>

lemma re_sub_subseq: "filter P w = [] \<Longrightarrow> subseq (filter P (re_sub r w p)) (filter P (snd p))"
proof (induction r w p rule: re_sub.induct)
  case (2 r w b c cs)
  show ?case
  proof (cases "find_match r (b, c # cs)")
    case (Some q)
    then obtain u where "c # cs = u @ snd q" using find_match_suffix by fastforce
    then have "filter P (c # cs) = filter P u @ filter P (snd q)" by simp
    then show ?thesis using 2 Some by (simp add: list_emb_append2)
  qed (use 2 in auto)
qed simp

lemma re_sub_length:
  assumes "\<And>p q. matches r p q \<Longrightarrow> length (snd q) + length w \<le> length (snd p)"
  shows "length (re_sub r w p) \<le> length (snd p)"
  using assms
proof (induction r w p rule: re_sub.induct)
  case (2 r w b c cs)
  then show ?case by (force split: option.split dest: find_match_matches)
qed simp

subsection \<open>Runs of a character class\<close>

text \<open>Greedy repetition of a class takes the maximal run, when it is long enough.\<close>

definition run_end :: "(char \<Rightarrow> bool) \<Rightarrow> cursor \<Rightarrow> cursor" where
  "run_end P p = (if takeWhile P (snd p) = [] then fst p else Some (last (takeWhile P (snd p))), dropWhile P (snd p))"

lemma repeat_class_ends:
  "length s \<le> n \<Longrightarrow>
     (if lo \<le> length (takeWhile P s) then \<exists>rest. repeat_ends (class_ends P) True lo n (b, s) = run_end P (b, s) # rest
      else repeat_ends (class_ends P) True lo n (b, s) = [])"
proof (induction n arbitrary: lo b s)
  case (Suc n)
  show ?case
  proof (cases "\<exists>c cs. s = c # cs \<and> P c")
    case True
    then obtain c cs where s: "s = c # cs" "P c" by blast
    have "run_end P (b, s) = run_end P (Some c, cs)" using s by (auto simp: run_end_def)
    moreover have "filter (\<lambda>q. shorter q (b, s)) (class_ends P (b, s)) = [(Some c, cs)]"
      using s by (simp add: class_ends_def)
    ultimately show ?thesis
      using Suc.IH [of cs "lo - 1" "Some c"] Suc.prems s by (auto simp: Let_def split: if_splits)
  next
    case False
    then have "takeWhile P s = []" "dropWhile P s = s" "class_ends P (b, s) = []"
      by (cases s; auto simp: class_ends_def)+
    then show ?thesis by (auto simp: Let_def run_end_def)
  qed
qed (auto simp: run_end_def)

lemma find_match_run:
  assumes "0 < lo"
  shows "find_match (Rep True lo None (Cls P)) (b, s) =
    (if lo \<le> length (takeWhile P s) then Some (run_end P (b, s)) else None)"
proof -
  have "shorter (run_end P (b, s)) (b, s)" if "lo \<le> length (takeWhile P s)"
    using that assms arg_cong [OF takeWhile_dropWhile_id [of P s], of length]
    by (simp only: run_end_def snd_conv length_append)
  moreover have "endings (Cls P) = class_ends P" by (rule ext) simp
  ultimately show ?thesis
    using repeat_class_ends [of s "length s" lo P b] by (auto simp: find_match_def budget_def split: if_splits)
qed

text \<open>No run of \<open>n\<close> characters of the class.\<close>

fun runs_below :: "(char \<Rightarrow> bool) \<Rightarrow> nat \<Rightarrow> str \<Rightarrow> bool" where
  "runs_below P n [] = True"
| "runs_below P n (c # cs) = (length (takeWhile P (c # cs)) < n \<and> runs_below P n cs)"

lemma runs_below_drop: "runs_below P n s \<Longrightarrow> runs_below P n (drop k s)"
  by (induction s arbitrary: k) (auto split: nat.split simp: drop_Cons)

lemma runs_below_dropWhile: "runs_below P n s \<Longrightarrow> runs_below P n (dropWhile Q s)"
  by (induction s) auto

lemma runs_below_append1: "runs_below P n (s @ t) \<Longrightarrow> runs_below P n s"
proof (induction s)
  case (Cons c s)
  have "length (takeWhile P (c # s)) \<le> length (takeWhile P (c # s @ t))"
    by (cases "\<forall>x \<in> set s. P x") (auto simp: takeWhile_append length_takeWhile_le le_add1 intro: le_trans [OF length_takeWhile_le])
  then show ?case using Cons by (auto simp del: takeWhile.simps)
qed simp

lemma after_run [simp]: "takeWhile P (dropWhile P s) = []"
  by (induction s) auto

lemma run_less: "n \<le> length (takeWhile P s) \<Longrightarrow> 0 < n \<Longrightarrow> length (dropWhile P s) < length s"
  using arg_cong [OF takeWhile_dropWhile_id [of P s], of length] by (simp only: length_append)

lemma re_sub_run:
  assumes "0 < n"
  shows "re_sub (Rep True n None (Cls P)) w (b, c # cs) =
    (if n \<le> length (takeWhile P (c # cs))
     then w @ re_sub (Rep True n None (Cls P)) w (fst (run_end P (b, c # cs)), dropWhile P (c # cs))
     else c # re_sub (Rep True n None (Cls P)) w (Some c, cs))"
  using assms by (simp add: find_match_run run_end_def)

declare re_sub.simps(2) [simp del]

lemma squeeze_takeWhile:
  assumes n: "0 < n" and w: "list_all P w"
  shows "takeWhile P (re_sub (Rep True n None (Cls P)) w (b, s)) = (if n \<le> length (takeWhile P s) then w else takeWhile P s)"
proof (induction s arbitrary: b rule: length_induct)
  case (1 s)
  show ?case
  proof (cases s)
    case (Cons c cs)
    show ?thesis
    proof (cases "n \<le> length (takeWhile P s)")
      case True
      have "takeWhile P (re_sub (Rep True n None (Cls P)) w (b', dropWhile P s)) = []" for b'
        using 1 [rule_format, OF run_less [OF True n]] n by simp
      then show ?thesis
        using True w unfolding Cons re_sub_run [OF n] by (simp add: takeWhile_append list_all_iff)
    next
      case False
      then show ?thesis
        using 1 [rule_format, of cs "Some c"] unfolding Cons by (auto simp: re_sub_run [OF n] split: if_splits)
    qed
  qed (use n in simp)
qed

lemma runs_below_append:
  "runs_below P n s \<Longrightarrow> list_all P w \<Longrightarrow> length w < n \<Longrightarrow> takeWhile P s = [] \<Longrightarrow> runs_below P n (w @ s)"
  by (induction w) (auto simp: takeWhile_append list_all_iff)

text \<open>Squeezing: no run of \<open>n\<close> is left when longer runs are replaced by a shorter one.\<close>

lemma squeeze_runs_below:
  assumes n: "length w < n" and w: "list_all P w"
  shows "runs_below P n (re_sub (Rep True n None (Cls P)) w (b, s))"
proof (induction s arbitrary: b rule: length_induct)
  case (1 s)
  have n0: "0 < n" using n by simp
  note head = squeeze_takeWhile [OF n0 w]
  show ?case
  proof (cases s)
    case (Cons c cs)
    show ?thesis
    proof (cases "n \<le> length (takeWhile P s)")
      case True
      have "runs_below P n (w @ re_sub (Rep True n None (Cls P)) w (b', dropWhile P s))" for b'
        using 1 [rule_format, OF run_less [OF True n0]] n w n0 head by (intro runs_below_append) simp_all
      then show ?thesis using True unfolding Cons re_sub_run [OF n0] by simp
    next
      case False
      then show ?thesis using 1 [rule_format, of cs "Some c"] head [of b s] Cons by (simp add: re_sub_run [OF n0])
    qed
  qed simp
qed

text \<open>Runs of a class survive a substitution that touches none of its characters.\<close>

lemma squeeze_other_takeWhile:
  assumes n: "0 < n" and disjoint: "\<And>c. P c \<Longrightarrow> \<not> Q c" and w: "w \<noteq> []" "list_all P w"
  shows "takeWhile Q (re_sub (Rep True n None (Cls P)) w (b, s)) = takeWhile Q s"
proof (induction s arbitrary: b)
  case (Cons c cs)
  have "P c" if "n \<le> length (takeWhile P (c # cs))" using that n by (auto split: if_splits)
  moreover have "takeWhile Q (w @ t) = []" for t using w disjoint by (cases w) auto
  ultimately show ?case using Cons disjoint by (auto simp: re_sub_run [OF n])
qed simp

lemma runs_below_append_none: "runs_below Q m s \<Longrightarrow> list_all (\<lambda>c. \<not> Q c) w \<Longrightarrow> 0 < m \<Longrightarrow> runs_below Q m (w @ s)"
  by (induction w) auto

lemma squeeze_other_runs:
  assumes n: "0 < n" and disjoint: "\<And>c. P c \<Longrightarrow> \<not> Q c" and w: "w \<noteq> []" "list_all P w" and m: "0 < m"
  shows "runs_below Q m s \<Longrightarrow> runs_below Q m (re_sub (Rep True n None (Cls P)) w (b, s))"
proof (induction s arbitrary: b rule: length_induct)
  case (1 s)
  show ?case
  proof (cases s)
    case (Cons c cs)
    show ?thesis
    proof (cases "n \<le> length (takeWhile P s)")
      case True
      have "list_all (\<lambda>c. \<not> Q c) w" using w disjoint by (auto simp: list_all_iff)
      then have "runs_below Q m (w @ re_sub (Rep True n None (Cls P)) w (b', dropWhile P s))" for b'
        using 1(1) [rule_format, OF run_less [OF True n] runs_below_dropWhile [OF 1(2)]] m
        by (intro runs_below_append_none) simp_all
      then show ?thesis using True unfolding Cons re_sub_run [OF n] by simp
    next
      case False
      have "takeWhile Q (re_sub (Rep True n None (Cls P)) w (Some c, cs)) = takeWhile Q cs"
        by (rule squeeze_other_takeWhile [OF n _ w]) (rule disjoint)
      then show ?thesis using 1 False unfolding Cons by (auto simp: re_sub_run [OF n] split: if_splits)
    qed
  qed simp
qed

subsection \<open>Positions of matches\<close>

text \<open>The matches \<open>finditer\<close> yields are nonempty, ascending, disjoint and inside the text.\<close>

definition spans_ok :: "nat \<Rightarrow> nat \<Rightarrow> (nat \<times> nat) list \<Rightarrow> bool" where
  "spans_ok start n spans \<longleftrightarrow>
     (\<forall>(a, e) \<in> set spans. start \<le> a \<and> a < e \<and> e \<le> n) \<and> sorted_wrt (\<lambda>x y. snd x \<le> fst y) spans"

lemma find_iter_spans: "length (snd p) \<le> n \<Longrightarrow> spans_ok (n - length (snd p)) n (find_iter r n p)"
proof (induction r n p rule: find_iter.induct)
  case (2 r n b c cs)
  show ?case
  proof (cases "find_match r (b, c # cs)")
    case None
    then show ?thesis using 2 by (fastforce simp: spans_ok_def)
  next
    case (Some q)
    then have q: "length (snd q) < length (c # cs)" using find_match_shorter by fastforce
    then have "spans_ok (n - length (snd q)) n (find_iter r n q)" using 2 Some by simp
    then show ?thesis using Some q 2(3) by (fastforce simp: spans_ok_def)
  qed
qed (simp add: spans_ok_def)

lemma finditer_spans: "spans_ok 0 (length text) (finditer r text)"
  using find_iter_spans [of "(None, text)" "length text" r] by (simp add: finditer_def)

end
