(* ===== verification/Document_Parser.thy ===== *)
theory Document_Parser
  imports Regex Ingestion_Pipeline Graph_Repository
begin

section \<open>The document parser\<close>

text \<open>
  \<open>app/ingestion/pdf_parser.py\<close>: the chain of PDF engines, the cleaning of a text by regular
  expressions, the detection of sections, and \<open>parse_document\<close>, whose result the chunker reads. What
  an engine returns for a page, the file system and SHA-256 are parameters. Texts are ASCII, so the
  en dash of one pattern matches nothing. No pattern matches an empty text (\<open>consumes\<close>), which is
  what \<open>Regex\<close> asks of them.
\<close>

subsection \<open>Patterns\<close>

definition spaces :: regex where
  "spaces = Rep True 0 None (Cls is_space)"

definition some_spaces :: regex where
  "some_spaces = Rep True 1 None (Cls is_space)"

definition is_digit_char :: "char \<Rightarrow> bool" where
  "is_digit_char c \<longleftrightarrow> (let n = (of_char c :: nat) in 48 \<le> n \<and> n \<le> 57)"

definition is_capital :: "char \<Rightarrow> bool" where
  "is_capital c \<longleftrightarrow> (let n = (of_char c :: nat) in 65 \<le> n \<and> n \<le> 90)"

definition some_digits :: regex where
  "some_digits = Rep True 1 None (Cls is_digit_char)"

definition any_char :: regex where
  "any_char = Cls (\<lambda>c. c \<noteq> newline)"

definition rest_of_line :: regex where
  "rest_of_line = Rep True 0 None any_char"

definition chr :: "char \<Rightarrow> regex" where
  "chr c = Cls (\<lambda>d. d = c)"

fun cats :: "regex list \<Rightarrow> regex \<Rightarrow> regex" where
  "cats [] r = r"
| "cats (a # rs) r = Cat a (cats rs r)"

text \<open>A literal under \<open>re.IGNORECASE\<close>.\<close>

definition ci :: "str \<Rightarrow> regex list" where
  "ci = map (\<lambda>c. Cls (\<lambda>d. lower_char d = lower_char c))"

definition page_number_line :: regex where
  "page_number_line = cats ([Line_Start, spaces] @ ci ''Page'' @ [some_spaces, some_digits, some_spaces]
     @ ci ''of'' @ [some_spaces, some_digits, spaces]) Line_End"

definition lone_number_line :: regex where
  "lone_number_line = cats [Line_Start, spaces, some_digits, spaces] Line_End"

definition confidential_line :: regex where
  "confidential_line = cats ([Line_Start, spaces] @ ci ''Confidential'' @ [spaces, chr CHR ''-'', spaces, rest_of_line]) Line_End"

definition brand_line :: regex where
  "brand_line = cats ([Line_Start, spaces] @ ci ''Industrial Operating Brain'' @ [rest_of_line]) Line_End"

definition sop_revision_line :: regex where
  "sop_revision_line = cats ([Line_Start, spaces] @ ci ''SOP'' @ [Cls (\<lambda>c. c = CHR ''-'' \<or> is_space c), some_digits, rest_of_line]
     @ ci ''Rev'' @ [rest_of_line]) Line_End"

definition running_header_line :: regex where
  "running_header_line = cats [Line_Start, spaces,
     Rep True 8 (Some 60) (Cls (\<lambda>c. is_capital c \<or> is_digit_char c \<or> c \<in> set '' _-/'')), spaces] Line_End"

definition header_footer_patterns :: "regex list" where
  "header_footer_patterns = [page_number_line, lone_number_line, confidential_line, brand_line, sop_revision_line,
     running_header_line]"

text \<open>\<open>re.IGNORECASE\<close> makes the class \<open>[A-Z]\<close> every letter.\<close>

definition index_entry :: regex where
  "index_entry = cats [spaces, Rep True 1 None (Cat some_digits (chr CHR ''.'')), some_spaces,
     Cls (\<lambda>c. is_capital (upper_char c)), Rep False 5 (Some 80) any_char, Rep True 1 None (chr CHR ''.''),
     spaces, some_digits, spaces] Line_End"

definition contents_title :: regex where
  "contents_title = cats ([Line_Start, spaces] @ ci ''Table of Contents'' @ [rest_of_line]) Line_End"

definition index_listing_pattern :: regex where
  "index_listing_pattern = Cat Line_Start (Choice index_entry contents_title)"

definition is_blank :: "char \<Rightarrow> bool" where
  "is_blank c \<longleftrightarrow> c = CHR '' '' \<or> c = CHR 0x09"

definition multi_space :: regex where
  "multi_space = Rep True 2 None (Cls is_blank)"

definition multi_newline :: regex where
  "multi_newline = Rep True 3 None (Cls (\<lambda>c. c = newline))"

definition strip_headers_footers :: "str \<Rightarrow> str" where
  "strip_headers_footers text =
     (let cleaned = foldl (\<lambda>t pat. substitute pat [] t) text header_footer_patterns;
          cleaned = substitute index_listing_pattern [] cleaned;
          cleaned = substitute multi_space '' '' cleaned;
          cleaned = substitute multi_newline [newline, newline] cleaned
      in py_strip cleaned)"

definition clean_technical_text :: "str \<Rightarrow> str" where
  "clean_technical_text raw_text = strip_headers_footers raw_text"

subsection \<open>Sections\<close>

definition numbered_heading :: regex where
  "numbered_heading = cats [some_digits, Rep True 0 (Some 3) (Cat (chr CHR ''.'') some_digits), some_spaces, Cls is_capital]
     (Rep True 3 (Some 120) any_char)"

definition capital_heading :: regex where
  "capital_heading = Cat (Cls is_capital) (Rep True 5 (Some 60) (Cls (\<lambda>c. is_capital c \<or> is_space c \<or> c = CHR ''-'')))"

definition sop_heading :: regex where
  "sop_heading = cats [chr CHR ''S'', chr CHR ''O'', chr CHR ''P'', Rep True 0 (Some 1) (Cls (\<lambda>c. c = CHR ''-'' \<or> is_space c)),
     some_digits] rest_of_line"

definition heading_re :: regex where
  "heading_re = cats [Line_Start, Choice numbered_heading (Choice capital_heading sop_heading)] Line_End"

definition slice :: "str \<Rightarrow> nat \<Rightarrow> nat \<Rightarrow> str" where
  "slice text a e = take (e - a) (drop a text)"

definition section_of :: "str \<Rightarrow> nat \<times> nat \<Rightarrow> nat \<Rightarrow> doc_section option" where
  "section_of text m next_start =
     (let title = py_strip (slice text (fst m) (snd m))
      in if 120 < length title then None
         else Some \<lparr>dn_title = Some title,
           dn_identifier = (case title of [] \<Rightarrow> None
             | c # cs \<Rightarrow> if is_digit_char c then Some (takeWhile (\<lambda>d. \<not> is_space d) title) else None),
           dn_char_start = fst m, dn_char_end = next_start\<rparr>)"

fun sections_loop :: "str \<Rightarrow> (nat \<times> nat) list \<Rightarrow> doc_section list" where
  "sections_loop text [] = []"
| "sections_loop text (m # ms) =
     (case section_of text m (case ms of [] \<Rightarrow> length text | m' # _ \<Rightarrow> fst m') of
        None \<Rightarrow> sections_loop text ms
      | Some d \<Rightarrow> d # sections_loop text ms)"

definition detect_sections :: "str \<Rightarrow> doc_section list" where
  "detect_sections text = sections_loop text (finditer heading_re text)"

subsection \<open>PDF engines\<close>

text \<open>What the libraries yield: per page a text, tables of optional cells, or an exception.\<close>

record plumber_page =
  pp_text :: "str option res"
  pp_tables :: "str option list list list option res"

record pdf_file =
  pf_plumber :: "plumber_page list res"
  pf_pymupdf :: "str res list res"
  pf_pypdf :: "str option res list res"

record doc_table =
  dt_page :: nat
  dt_index :: nat
  dt_rows :: "str list list"

definition or_empty :: "'a list option \<Rightarrow> 'a list" where
  "or_empty x = (case x of None \<Rightarrow> [] | Some s \<Rightarrow> s)"

definition blank_lines :: str where
  "blank_lines = [newline, newline]"

definition clean_rows :: "str option list list \<Rightarrow> str list list" where
  "clean_rows tbl = map (map (\<lambda>cell. py_strip (or_empty cell))) (filter (list_ex truthy_str) tbl)"

definition table_text :: "str list list \<Rightarrow> str" where
  "table_text rows = [newline] @ ''[TABLE_START]'' @ [newline] @ join [newline] (map (join '' | '') rows)
     @ [newline] @ ''[TABLE_END]'' @ [newline]"

fun page_tables :: "nat \<Rightarrow> nat \<Rightarrow> str option list list list \<Rightarrow> doc_table list" where
  "page_tables idx ti [] = []"
| "page_tables idx ti (tbl # tbls) =
     (let rows = clean_rows tbl
      in if tbl = [] \<or> rows = [] then page_tables idx (Suc ti) tbls
         else \<lparr>dt_page = idx, dt_index = ti, dt_rows = rows\<rparr> # page_tables idx (Suc ti) tbls)"

fun plumber_pages :: "nat \<Rightarrow> plumber_page list \<Rightarrow> (str list \<times> doc_table list) res" where
  "plumber_pages idx [] = Inr ([], [])"
| "plumber_pages idx (pg # pgs) =
     bind_res (pp_text pg) (\<lambda>t.
       let tables = (case pp_tables pg of Inl e \<Rightarrow> [] | Inr ts \<Rightarrow> page_tables idx 0 (or_empty ts))
       in bind_res (plumber_pages (Suc idx) pgs) (\<lambda>(texts, rest).
            Inr (or_empty t # map (\<lambda>d. table_text (dt_rows d)) tables @ texts, tables @ rest)))"

type_synonym extraction = "str \<times> doc_table list \<times> nat"

definition extract_with_pdfplumber :: "pdf_file \<Rightarrow> extraction res" where
  "extract_with_pdfplumber f =
     bind_res (pf_plumber f) (\<lambda>pages. bind_res (plumber_pages 1 pages) (\<lambda>(texts, tables).
       Inr (join blank_lines texts, tables, length pages)))"

definition extract_with_pymupdf :: "pdf_file \<Rightarrow> extraction res" where
  "extract_with_pymupdf f =
     bind_res (pf_pymupdf f) (\<lambda>pages. bind_res (map_res (\<lambda>t. t) pages) (\<lambda>texts.
       Inr (join blank_lines texts, [], length pages)))"

definition extract_with_pypdf :: "pdf_file \<Rightarrow> extraction res" where
  "extract_with_pypdf f =
     bind_res (pf_pypdf f) (\<lambda>pages.
       let texts = map (\<lambda>t. case t of Inl e \<Rightarrow> [] | Inr s \<Rightarrow> or_empty s) pages
       in Inr (join blank_lines texts, [], length texts))"

fun try_extractors :: "str list \<Rightarrow> (str \<times> extraction res) list \<Rightarrow> extraction res" where
  "try_extractors errors [] = Inl (RuntimeErr (''All PDF extractors failed: '' @ join ''; '' errors))"
| "try_extractors errors ((name, Inl e) # rest) = try_extractors (errors @ [name @ '': '' @ err_text e]) rest"
| "try_extractors errors ((name, Inr x) # rest) =
     (if py_strip (fst x) \<noteq> [] then Inr x else try_extractors errors rest)"

definition engines :: "pdf_file \<Rightarrow> (str \<times> extraction res) list" where
  "engines f = [(''pdfplumber'', extract_with_pdfplumber f), (''pymupdf'', extract_with_pymupdf f),
     (''pypdf'', extract_with_pypdf f)]"

definition extract_text_from_pdf :: "pdf_file \<Rightarrow> extraction res" where
  "extract_text_from_pdf f = try_extractors [] (engines f)"

subsection \<open>Parsing a file\<close>

text \<open>A path with what the file system answers; \<open>Path.suffix\<close> starts at the last dot of the name,
  unless that is its first or last character.\<close>

record source_file =
  fl_path :: str
  fl_name :: str
  fl_exists :: bool
  fl_text :: "str res"
  fl_pdf :: pdf_file

definition path_suffix :: "str \<Rightarrow> str" where
  "path_suffix name =
     (let ext = takeWhile (\<lambda>c. c \<noteq> CHR ''.'') (rev name); stem = drop (length ext + 1) (rev name)
      in if CHR ''.'' \<notin> set name \<or> ext = [] \<or> stem = [] then [] else CHR ''.'' # rev ext)"

definition path_stem :: "str \<Rightarrow> str" where
  "path_stem name = take (length name - length (path_suffix name)) name"

datatype parse_error = File_Not_Found str | Raised py_error

definition raised :: "'a res \<Rightarrow> parse_error + 'a" where
  "raised r = map_sum Raised (\<lambda>x. x) r"

definition read_source :: "source_file \<Rightarrow> extraction res" where
  "read_source f =
     (let suffix = py_lower (path_suffix (fl_name f))
      in if suffix = ''.pdf'' then extract_text_from_pdf (fl_pdf f)
         else if suffix \<in> set [''.txt'', ''.md'', ''.log'']
         then bind_res (fl_text f) (\<lambda>raw. Inr (raw, [], length (filter (\<lambda>c. c = CHR 0x0C) raw) + 1))
         else (case fl_text f of Inr raw \<Rightarrow> Inr (raw, [], 1)
               | Inl e \<Rightarrow> Inl (ValueErr (''Unsupported file type: '' @ suffix))))"

record parser_output = parsed_document +
  po_tables :: "(doc_table \<times> str) list"
  po_site_code :: str
  po_char_count :: nat
  po_section_count :: nat
  po_table_count :: nat
  po_source_path :: str

definition rows_json :: "str list list \<Rightarrow> str" where
  "rows_json rows = jsonify (VList (map (\<lambda>r. VList (map VStr r)) rows))"

definition new_document_id :: "(str \<Rightarrow> str) \<Rightarrow> str \<Rightarrow> str \<Rightarrow> str \<Rightarrow> str" where
  "new_document_id sha category name cleaned = ''document:'' @ category @ '':''
     @ py_upper (map (\<lambda>c. if c = CHR '' '' then CHR ''_'' else c) (path_stem name)) @ '':'' @ take 16 (sha cleaned)"

definition parse_document :: "(str \<Rightarrow> str) \<Rightarrow> str \<Rightarrow> str option \<Rightarrow> str \<Rightarrow> source_file \<Rightarrow> parse_error + parser_output" where
  "parse_document sha category document_id site_code f =
     (if \<not> fl_exists f then Inl (File_Not_Found (fl_path f))
      else raised (bind_res (read_source f) (\<lambda>(raw, tables, pages).
        let cleaned = clean_technical_text raw; sections = detect_sections cleaned
        in Inr \<lparr>pd_document_id = (case document_id of None \<Rightarrow> new_document_id sha category (fl_name f) cleaned | Some i \<Rightarrow> i),
             pd_source_filename = fl_name f, pd_document_category = category, pd_total_pages = int pages,
             pd_text = cleaned, pd_sections = sections, po_tables = map (\<lambda>t. (t, rows_json (dt_rows t))) tables,
             po_site_code = site_code, po_char_count = length cleaned, po_section_count = length sections,
             po_table_count = length tables, po_source_path = fl_path f\<rparr>)))"


text \<open>\<open>KnowledgeExtractionPipeline.run\<close> from the path on: an exception of the parser ends the run.\<close>

definition run_file ::
  "(str \<Rightarrow> str) \<Rightarrow> (str \<Rightarrow> str list res) option \<Rightarrow> chunker \<Rightarrow> (chunk_metadata \<Rightarrow> str \<Rightarrow> extraction_result res)
   \<Rightarrow> (chunk_metadata list \<Rightarrow> extracted_entity list \<Rightarrow> extracted_relationship list \<Rightarrow> bool res)
   \<Rightarrow> bool \<Rightarrow> bool \<Rightarrow> str \<Rightarrow> source_file \<Rightarrow> (parse_error + run_outcome) option" where
  "run_file sha splitter cc extract load_batch validate load category f =
     (case parse_document sha category None ''SRP'' f of
        Inl e \<Rightarrow> Some (Inl e)
      | Inr d \<Rightarrow> map_option raised
          (pipeline_run sha splitter cc extract load_batch validate load (parsed_document.truncate d)))"

section \<open>Properties\<close>

subsection \<open>Every pattern consumes\<close>

primrec consumes :: "regex \<Rightarrow> bool" where
  "consumes (Cls P) = True"
| "consumes Line_Start = False"
| "consumes Line_End = False"
| "consumes (Cat a b) = (consumes a \<or> consumes b)"
| "consumes (Choice a b) = (consumes a \<and> consumes b)"
| "consumes (Rep greedy lo hi a) = (0 < lo \<and> consumes a)"

lemma matches_not_longer: "matches r p q \<Longrightarrow> length (snd q) \<le> length (snd p)"
  using matches_suffix [of r p q] by auto

lemma consumes_shorter: "consumes r \<Longrightarrow> matches r p q \<Longrightarrow> shorter q p"
proof (induction r arbitrary: p q)
  case (Cat a b)
  then obtain m where "matches a p m" "matches b m q" by (simp del: split_paired_Ex) blast
  then show ?case
    using Cat matches_not_longer [of a p m] matches_not_longer [of b m q] by (fastforce simp del: split_paired_Ex)
next
  case (Rep greedy lo hi a)
  then obtain k where "lo \<le> k" and k: "((\<lambda>s t. matches a s t \<and> shorter t s) ^^ k) p q"
    by (simp only: matches.simps) blast
  then show ?case using iterations_shorten [OF k] Rep.prems(1) by simp
qed auto

lemmas pattern_defs = page_number_line_def lone_number_line_def confidential_line_def brand_line_def
  sop_revision_line_def running_header_line_def index_listing_pattern_def index_entry_def contents_title_def
  multi_space_def multi_newline_def heading_re_def numbered_heading_def capital_heading_def sop_heading_def
  spaces_def some_spaces_def some_digits_def any_char_def rest_of_line_def chr_def ci_def

lemma patterns_consume:
  "list_all consumes (header_footer_patterns @ [index_listing_pattern, multi_space, multi_newline, heading_re])"
  by (simp add: header_footer_patterns_def pattern_defs)

subsection \<open>Cleaning\<close>

definition visible :: "char \<Rightarrow> bool" where
  "visible c \<longleftrightarrow> \<not> is_space c"

lemma substitute_subseq: "filter P w = [] \<Longrightarrow> subseq (filter P (substitute r w t)) (filter P t)"
  using re_sub_subseq [of P w r "(None, t)"] by (simp add: substitute_def)

lemma substitute_length:
  assumes "\<And>p q. matches r p q \<Longrightarrow> length (snd q) + length w \<le> length (snd p)"
  shows "length (substitute r w t) \<le> length t"
proof -
  have "length (re_sub r w (None, t)) \<le> length (snd (None :: char option, t))"
    by (rule re_sub_length) (rule assms)
  then show ?thesis by (simp add: substitute_def)
qed

lemma deletion_length: "length (substitute r [] t) \<le> length t"
  by (rule substitute_length) (simp add: matches_not_longer)

lemma run_length:
  assumes "matches (Rep greedy lo None (Cls P)) p q"
  shows "length (snd q) + lo \<le> length (snd p)"
proof -
  obtain k where "lo \<le> k" and k: "((\<lambda>s t. matches (Cls P) s t \<and> shorter t s) ^^ k) p q"
    using assms by (simp only: matches.simps(6)) blast
  then show ?thesis using iterations_shorten [OF k] by simp
qed

lemma fold_deletions:
  "subseq (filter P (foldl (\<lambda>t pat. substitute pat [] t) t pats)) (filter P t)
   \<and> length (foldl (\<lambda>t pat. substitute pat [] t) t pats) \<le> length t"
proof (induction pats arbitrary: t)
  case (Cons pat pats)
  show ?case
    using Cons [of "substitute pat [] t"] substitute_subseq [of P "[]" pat t] deletion_length [of pat t]
    by (auto intro: subseq_order.trans)
qed simp

lemma runs_below_infix: "runs_below P n (l @ t @ r) \<Longrightarrow> runs_below P n t"
  using runs_below_drop [of P n "l @ t @ r" "length l"] by (auto intro: runs_below_append1)

lemma strip_facts: "subseq (filter P (py_strip s)) (filter P s)" "length (py_strip s) \<le> length s"
  "runs_below P n s \<Longrightarrow> runs_below P n (py_strip s)"
proof -
  obtain l r where s: "s = l @ py_strip s @ r" using py_strip_infix by blast
  have "filter P s = filter P l @ filter P (py_strip s) @ filter P r" by (subst s) simp
  then show "subseq (filter P (py_strip s)) (filter P s)" by (simp add: list_emb_append2 list_emb_prefix)
  show "length (py_strip s) \<le> length s" by (subst (2) s) simp
  show "runs_below P n (py_strip s)" if "runs_below P n s" using that by (subst (asm) s) (rule runs_below_infix)
qed

lemma blank_not_newline: "is_blank c \<Longrightarrow> c \<noteq> newline" "c = newline \<Longrightarrow> \<not> is_blank c"
  by (auto simp: is_blank_def)

text \<open>C38. A cleaned text is normal: it has no blank at either end, no two blanks in a row and no two
  empty lines in a row, the last step undoing nothing of the one before; and cleaning adds nothing
  that is visible and never lengthens a text: the visible characters of the result are a subsequence
  of those of the source. Every pattern consumes at least one character where it matches, so no
  substitution of the code meets an empty match.\<close>

theorem clean_text_normal:
  "let t = clean_technical_text raw
   in py_strip t = t \<and> runs_below is_blank 2 t \<and> runs_below (\<lambda>c. c = newline) 3 t
     \<and> subseq (filter visible t) (filter visible raw) \<and> length t \<le> length raw
     \<and> list_all consumes (header_footer_patterns @ [index_listing_pattern, multi_space, multi_newline])"
proof -
  let ?a = "foldl (\<lambda>t pat. substitute pat [] t) raw header_footer_patterns"
  let ?b = "substitute index_listing_pattern [] ?a"
  let ?c = "substitute multi_space '' '' ?b"
  let ?d = "substitute multi_newline [newline, newline] ?c"
  have t: "clean_technical_text raw = py_strip ?d"
    by (simp add: clean_technical_text_def strip_headers_footers_def Let_def)
  have "runs_below is_blank 2 ?c"
    unfolding substitute_def multi_space_def by (rule squeeze_runs_below) (simp_all add: is_blank_def)
  then have "runs_below is_blank 2 ?d"
    unfolding substitute_def multi_newline_def
    by (rule squeeze_other_runs [rotated -1]) (auto simp: is_blank_def)
  moreover have "runs_below (\<lambda>c. c = newline) 3 ?d"
    unfolding substitute_def multi_newline_def by (rule squeeze_runs_below) simp_all
  moreover have "subseq (filter visible ?d) (filter visible raw)"
  proof -
    have "subseq (filter visible ?d) (filter visible ?c)" "subseq (filter visible ?c) (filter visible ?b)"
      "subseq (filter visible ?b) (filter visible ?a)"
      by (rule substitute_subseq; simp add: visible_def is_space_def)+
    then show ?thesis using fold_deletions [of visible raw header_footer_patterns]
      by (blast intro: subseq_order.trans)
  qed
  moreover have "length ?d \<le> length raw"
  proof -
    have "length ?d \<le> length ?c"
      unfolding multi_newline_def by (rule substitute_length, drule run_length) simp
    also have "\<dots> \<le> length ?b"
      unfolding multi_space_def by (rule substitute_length, drule run_length) simp
    also have "\<dots> \<le> length ?a" by (rule deletion_length)
    finally show ?thesis using fold_deletions [of visible raw header_footer_patterns] by linarith
  qed
  ultimately show ?thesis
    using strip_facts [where s = ?d] patterns_consume py_strip_strip
    unfolding t Let_def by (auto intro: subseq_order.trans le_trans)
qed

subsection \<open>Sections lie in the text\<close>

text \<open>Every match begins with a character of the class.\<close>

definition opens :: "regex \<Rightarrow> (char \<Rightarrow> bool) \<Rightarrow> bool" where
  "opens r Q \<longleftrightarrow> (\<forall>p q. matches r p q \<longrightarrow> (\<exists>c cs. snd p = c # cs \<and> Q c))"

lemma opens_intros:
  "(\<And>c. P c \<Longrightarrow> Q c) \<Longrightarrow> opens (Cls P) Q"
  "opens a Q \<Longrightarrow> opens (Cat a b) Q"
  "opens b Q \<Longrightarrow> opens (Cat Line_Start b) Q"
  "opens a Q \<Longrightarrow> opens b Q \<Longrightarrow> opens (Choice a b) Q"
  by (fastforce simp: opens_def simp del: split_paired_All split_paired_Ex)+

lemma opens_Rep:
  assumes a: "opens a Q" and lo: "0 < lo"
  shows "opens (Rep greedy lo hi a) Q"
  unfolding opens_def
proof (intro allI impI)
  fix p q assume "matches (Rep greedy lo hi a) p q"
  then obtain k where k: "lo \<le> k" "((\<lambda>s t. matches a s t \<and> shorter t s) ^^ k) p q"
    by (simp only: matches.simps) blast
  then obtain j where "((\<lambda>s t. matches a s t \<and> shorter t s) ^^ Suc j) p q" using lo by (cases k) auto
  from relpowp_Suc_D2 [OF this] obtain m where "matches a p m" by blast
  then show "\<exists>c cs. snd p = c # cs \<and> Q c" using a unfolding opens_def by blast
qed

lemma heading_opens: "opens heading_re visible"
  unfolding heading_re_def numbered_heading_def capital_heading_def sop_heading_def chr_def some_digits_def cats.simps
  by (intro opens_intros opens_Rep) (auto simp: visible_def is_digit_char_def is_capital_def is_space_def Let_def)

lemma find_iter_matches:
  "text = pre @ snd p \<Longrightarrow> (a, e) \<in> set (find_iter r (length text) p) \<Longrightarrow> \<exists>b q. matches r (b, drop a text) q"
proof (induction r "length text" p arbitrary: pre rule: find_iter.induct)
  case (2 r b c cs)
  note outer = 2
  show ?case
  proof (cases "find_match r (b, c # cs)")
    case None
    then show ?thesis using 2(1) [OF None, of "pre @ [c]"] 2(3,4) by simp
  next
    case (Some q)
    then obtain u where u: "c # cs = u @ snd q" using find_match_suffix by fastforce
    consider "a = length text - length (c # cs)" | "(a, e) \<in> set (find_iter r (length text) q)"
      using 2(4) Some by auto
    then show ?thesis
    proof cases
      case 1
      then have "drop a text = c # cs" using outer(3) by simp
      then show ?thesis using find_match_matches [OF Some] by metis
    next
      case 2
      then show ?thesis using outer(2) [OF Some, of "pre @ u"] outer(3) u by simp
    qed
  qed
qed simp

text \<open>A detected section: a nonempty heading of at most 120 characters and a range of the text.\<close>

definition section_ok :: "str \<Rightarrow> doc_section \<Rightarrow> bool" where
  "section_ok text d \<longleftrightarrow> dn_char_start d < dn_char_end d \<and> dn_char_end d \<le> length text
     \<and> (case dn_title d of None \<Rightarrow> False | Some t \<Rightarrow> t \<noteq> [] \<and> length t \<le> 120 \<and> visible (text ! dn_char_start d)
          \<and> contains t (drop (dn_char_start d) text))"

lemma strip_visible: "visible c \<Longrightarrow> py_strip (c # cs) \<noteq> []"
  by (simp add: py_strip_Nil visible_def)

lemma heading_start:
  assumes "(a, e) \<in> set (finditer heading_re text)"
  shows "a < e \<and> e \<le> length text \<and> visible (text ! a)"
proof -
  have span: "a < e" "e \<le> length text" using finditer_spans [of "text" heading_re] assms by (auto simp: spans_ok_def)
  obtain b q where "matches heading_re (b, drop a text) q"
    using find_iter_matches [of "text" "[]" "(None, text)" a e heading_re] assms by (auto simp: finditer_def)
  then obtain c cs where "drop a text = c # cs" "visible c" using heading_opens unfolding opens_def by (metis snd_conv)
  then show ?thesis using span by (metis hd_drop_conv_nth le_trans less_le_trans list.sel(1) nat_less_le)
qed

lemma section_of_ok:
  assumes m: "a < e" "e \<le> length text" "visible (text ! a)" and n: "e \<le> next_start" "next_start \<le> length text"
    and d: "section_of text (a, e) next_start = Some d"
  shows "section_ok text d \<and> dn_char_start d = a \<and> dn_char_end d = next_start"
proof -
  have s: "slice text a e = text ! a # take (e - Suc a) (drop (Suc a) text)"
    using m by (simp add: slice_def Cons_nth_drop_Suc [symmetric] take_Cons' Suc_diff_Suc)
  obtain l r where lr: "slice text a e = l @ py_strip (slice text a e) @ r" using py_strip_infix by blast
  have "drop a text = slice text a e @ drop e text"
    using m(1) by (simp add: slice_def) (metis append_take_drop_id drop_drop le_add_diff_inverse2 less_imp_le)
  then have "contains (py_strip (slice text a e)) (drop a text)" unfolding contains_iff using lr by (metis append.assoc)
  then show ?thesis
    using d m n strip_visible [OF m(3)] s by (auto simp: section_of_def section_ok_def Let_def split: if_splits)
qed

lemma detected_sections_ok_lemma:
  "list_all (section_ok text) (detect_sections text)
   \<and> sorted_wrt (\<lambda>x y. dn_char_end x \<le> dn_char_start y) (detect_sections text)"
proof -
  have "list_all (section_ok text) (sections_loop text ms)
      \<and> sorted_wrt (\<lambda>x y. dn_char_end x \<le> dn_char_start y) (sections_loop text ms)
      \<and> (\<forall>d \<in> set (sections_loop text ms). fst (hd ms) \<le> dn_char_start d)"
    if "\<forall>(a, e) \<in> set ms. a < e \<and> e \<le> length text \<and> visible (text ! a)" "sorted_wrt (\<lambda>x y. snd x \<le> fst y) ms" for ms
    using that
  proof (induction ms)
    case (Cons m ms)
    obtain a e where m: "m = (a, e)" by fastforce
    let ?next = "case ms of [] \<Rightarrow> length text | m' # _ \<Rightarrow> fst m'"
    have span: "a < e" "e \<le> length text" "visible (text ! a)" using Cons.prems m by auto
    have next_ok: "e \<le> ?next" "?next \<le> length text" using Cons.prems m by (auto split: list.splits)
    have IH: "list_all (section_ok text) (sections_loop text ms)"
      "sorted_wrt (\<lambda>x y. dn_char_end x \<le> dn_char_start y) (sections_loop text ms)"
      "\<forall>d \<in> set (sections_loop text ms). ?next \<le> dn_char_start d"
      using Cons by (cases ms; simp)+
    show ?case
    proof (cases "section_of text m ?next")
      case None
      then show ?thesis using IH span next_ok m by fastforce
    next
      case (Some d)
      then show ?thesis using IH span next_ok section_of_ok [OF span next_ok] m by fastforce
    qed
  qed simp
  then show ?thesis
    using heading_start finditer_spans [of "text" heading_re] unfolding detect_sections_def spans_ok_def by blast
qed


text \<open>C39. Section detection is sound on every text: each section has a visible first character, a
  nonempty title of at most 120 characters that occurs in the text from the section's start on, and
  a nonempty range inside the text; the sections ascend and no two of them overlap, so the chunker
  that slices the text by these ranges reads no character twice.\<close>

theorem detected_sections_ok:
  "list_all (section_ok text) (detect_sections text)
   \<and> sorted_wrt (\<lambda>x y. dn_char_end x \<le> dn_char_start y) (detect_sections text)"
  by (rule detected_sections_ok_lemma)

text \<open>What the chunker is given: a stripped text and sections of that text.\<close>

lemma parse_document_ok:
  assumes "parse_document sha category document_id site_code f = Inr d"
  shows "fl_exists f \<and> py_strip (pd_text d) = pd_text d \<and> list_all (section_ok (pd_text d)) (pd_sections d)
    \<and> sorted_wrt (\<lambda>x y. dn_char_end x \<le> dn_char_start y) (pd_sections d)
    \<and> po_section_count d = length (pd_sections d) \<and> po_char_count d = length (pd_text d)
    \<and> po_table_count d = length (po_tables d)"
proof -
  obtain raw tables pages where "fl_exists f" and
    "d = \<lparr>pd_document_id = (case document_id of None \<Rightarrow> new_document_id sha category (fl_name f) (clean_technical_text raw) | Some i \<Rightarrow> i),
       pd_source_filename = fl_name f, pd_document_category = category, pd_total_pages = int pages,
       pd_text = clean_technical_text raw, pd_sections = detect_sections (clean_technical_text raw),
       po_tables = map (\<lambda>t. (t, rows_json (dt_rows t))) tables, po_site_code = site_code,
       po_char_count = length (clean_technical_text raw), po_section_count = length (detect_sections (clean_technical_text raw)),
       po_table_count = length tables, po_source_path = fl_path f\<rparr>"
    using assms by (auto simp: parse_document_def raised_def bind_res_def Let_def split: if_splits sum.splits prod.splits)
  then show ?thesis
    by (simp add: detected_sections_ok_lemma) (simp add: clean_technical_text_def strip_headers_footers_def Let_def py_strip_strip)
qed

subsection \<open>The chain of engines\<close>

definition usable :: "extraction res \<Rightarrow> bool" where
  "usable r = (case r of Inl e \<Rightarrow> False | Inr x \<Rightarrow> py_strip (fst x) \<noteq> [])"

fun failures :: "(str \<times> extraction res) list \<Rightarrow> str list" where
  "failures [] = []"
| "failures ((name, Inl e) # rest) = (name @ '': '' @ err_text e) # failures rest"
| "failures ((name, Inr x) # rest) = failures rest"

lemma try_extractors_eq:
  "try_extractors errors es = (case List.find (\<lambda>(name, r). usable r) es of
      Some (name, r) \<Rightarrow> r
    | None \<Rightarrow> Inl (RuntimeErr (''All PDF extractors failed: '' @ join ''; '' (errors @ failures es))))"
  by (induction errors es rule: try_extractors.induct) (auto simp: usable_def split: option.split)

text \<open>The answer is that of the first engine whose text is not blank, and an error that names every
  engine that raised when there is none.\<close>

lemma first_usable_engine:
  "extract_text_from_pdf f = (case List.find (\<lambda>(name, r). usable r) (engines f) of
      Some (name, r) \<Rightarrow> r
    | None \<Rightarrow> Inl (RuntimeErr (''All PDF extractors failed: '' @ join ''; '' (failures (engines f)))))"
  unfolding extract_text_from_pdf_def try_extractors_eq append_Nil ..

text \<open>A scanned document, on which every engine succeeds with no text, fails for no reason named.\<close>

lemma scanned_document_unexplained:
  "extract_text_from_pdf \<lparr>pf_plumber = Inr [\<lparr>pp_text = Inr None, pp_tables = Inr None\<rparr>], pf_pymupdf = Inr [Inr []],
     pf_pypdf = Inr [Inr (Some [])]\<rparr> = Inl (RuntimeErr ''All PDF extractors failed: '')"
  by (simp add: extract_text_from_pdf_def engines_def extract_with_pdfplumber_def extract_with_pymupdf_def
      extract_with_pypdf_def bind_res_def or_empty_def py_strip_def py_rstrip_def)

text \<open>Bit patterns of the classes, for evaluation.\<close>

definition letter_bits :: "bool \<Rightarrow> bool \<Rightarrow> bool \<Rightarrow> bool \<Rightarrow> bool \<Rightarrow> bool" where
  "letter_bits b0 b1 b2 b3 b4 \<longleftrightarrow> (b0 \<or> b1 \<or> b2 \<or> b3 \<or> b4) \<and> (b4 \<and> b3 \<longrightarrow> \<not> b2 \<and> (b1 \<longrightarrow> \<not> b0))"

lemma class_bits [code]:
  "is_space (Char b0 b1 b2 b3 b4 b5 b6 b7) \<longleftrightarrow> \<not> b7 \<and> \<not> b6 \<and>
     (if b5 then \<not> b4 \<and> \<not> b3 \<and> \<not> b2 \<and> \<not> b1 \<and> \<not> b0 else if b4 then b3 \<and> b2 else b3 \<and> (b2 \<longrightarrow> \<not> b1) \<and> (b2 \<or> b1 \<or> b0))"
  "is_digit_char (Char b0 b1 b2 b3 b4 b5 b6 b7) \<longleftrightarrow> \<not> b7 \<and> \<not> b6 \<and> b5 \<and> b4 \<and> (b3 \<longrightarrow> \<not> b2 \<and> \<not> b1)"
  "is_capital (Char b0 b1 b2 b3 b4 b5 b6 b7) \<longleftrightarrow> \<not> b7 \<and> b6 \<and> \<not> b5 \<and> letter_bits b0 b1 b2 b3 b4"
  by (simp_all add: is_space_def is_digit_char_def is_capital_def Let_def of_char_def letter_bits_def)

subsection \<open>Cleaning deletes content\<close>

lemma numbered_step_deleted: "clean_technical_text ''1. Set to 4.5'' = []"
  by code_simp

lemma capital_heading_deleted:
  "clean_technical_text ''LOCK OUT'' = []"
  by code_simp

lemma xx:
  "map dn_title (detect_sections ''LOCK OUT'') = [Some ''LOCK OUT'']"
  by code_simp

end
