(* ===== verification/Graph_Driver.thy ===== *)
theory Graph_Driver
  imports PyVal
begin

section \<open>The life cycle of the Neo4j driver\<close>

text \<open>
  \<open>app/graph/client.py\<close>: one driver for the process, created on demand under a lock with retries and
  back-off, health checks over it, and its closing. The Neo4j library is a parameter: what the
  constructor, \<open>verify_connectivity\<close> and \<open>close\<close> of the next driver do, and what a query answers. The
  world holds the drivers that were opened and not closed, and the pauses taken; a driver whose \<open>close\<close>
  raises counts as open. The lock makes \<open>get_driver\<close> and \<open>close\<close> one step each.
\<close>

datatype handle = Stub_Driver | Real_Driver nat

datatype attempt =
    Connected
  | Refused str
  | Refused_Unclosed py_error
  | Unexpected py_error
  | Not_Constructed py_error

record driver_world =
  dw_cached :: "handle option"
  dw_open :: "nat list"
  dw_next :: nat
  dw_pauses :: "nat list"

definition fresh_world :: driver_world where
  "fresh_world = \<lparr>dw_cached = None, dw_open = [], dw_next = 0, dw_pauses = []\<rparr>"

text \<open>The exceptions the loop catches are \<open>Refused\<close>, and \<open>Refused_Unclosed\<close> if the driver's \<open>close\<close> then
  raises; any other leaves the loop, from the constructor or from the check of a driver that is open by
  then.\<close>

datatype driver_error = Connection_Error str | Propagated py_error

definition default_retries :: nat where
  "default_retries = 5"

definition max_backoff :: nat where
  "max_backoff = 8"

definition backoff :: "nat \<Rightarrow> nat" where
  "backoff k = min (2 ^ (k - 1)) max_backoff"

definition close_driver :: "nat \<Rightarrow> driver_world \<Rightarrow> driver_world" where
  "close_driver i w = w\<lparr>dw_open := removeAll i (dw_open w)\<rparr>"

text \<open>The attempts \<open>k, k + 1, ...\<close>, \<open>n\<close> of them; \<open>verify\<close> tells what driver \<open>i\<close> does.\<close>

fun create_loop :: "str \<Rightarrow> nat \<Rightarrow> (nat \<Rightarrow> attempt) \<Rightarrow> nat \<Rightarrow> nat \<Rightarrow> str \<Rightarrow> driver_world \<Rightarrow> (driver_error + handle) \<times> driver_world" where
  "create_loop uri retries verify k 0 last_exc w =
     (Inl (Connection_Error (''Could not connect to Neo4j at '' @ uri @ '' after '' @ str_nat retries @ '' attempt(s): '' @ last_exc)), w)"
| "create_loop uri retries verify k (Suc n) last_exc w =
     (let i = dw_next w; opened = w\<lparr>dw_next := i + 1, dw_open := i # dw_open w\<rparr>
      in case verify i of
           Not_Constructed e \<Rightarrow> (Inl (Propagated e), w\<lparr>dw_next := i + 1\<rparr>)
         | Connected \<Rightarrow> (Inr (Real_Driver i), opened)
         | Unexpected e \<Rightarrow> (Inl (Propagated e), opened)
         | Refused_Unclosed e \<Rightarrow> (Inl (Propagated e), opened)
         | Refused e \<Rightarrow>
             create_loop uri retries verify (k + 1) n e
               (let closed = close_driver i opened in closed\<lparr>dw_pauses := dw_pauses closed @ [backoff k]\<rparr>))"

definition create_with_retry :: "str \<Rightarrow> (nat \<Rightarrow> attempt) \<Rightarrow> driver_world \<Rightarrow> (driver_error + handle) \<times> driver_world" where
  "create_with_retry uri verify w = create_loop uri default_retries verify 1 default_retries ''None'' w"

definition get_driver :: "bool \<Rightarrow> str \<Rightarrow> (nat \<Rightarrow> attempt) \<Rightarrow> driver_world \<Rightarrow> (driver_error + handle) \<times> driver_world" where
  "get_driver has_neo4j uri verify w =
     (case dw_cached w of
        Some d \<Rightarrow> (Inr d, w)
      | None \<Rightarrow>
          if \<not> has_neo4j then (Inr Stub_Driver, w\<lparr>dw_cached := Some Stub_Driver\<rparr>)
          else (case create_with_retry uri verify w of
                  (Inl e, w') \<Rightarrow> (Inl e, w')
                | (Inr d, w') \<Rightarrow> (Inr d, w'\<lparr>dw_cached := Some d\<rparr>)))"

text \<open>An exception of the driver's \<open>close\<close> (\<open>\<not> closes\<close>) is swallowed.\<close>

definition close_manager :: "bool \<Rightarrow> driver_world \<Rightarrow> driver_world" where
  "close_manager closes w =
     (let w' = w\<lparr>dw_cached := None\<rparr>
      in case dw_cached w of Some (Real_Driver i) \<Rightarrow> if closes then close_driver i w' else w' | _ \<Rightarrow> w')"

definition is_connected :: "driver_world \<Rightarrow> bool" where
  "is_connected w \<longleftrightarrow> dw_cached w \<noteq> None"

text \<open>A query answers a row, no row, or raises.\<close>

record health_report =
  hr_neo4j :: str
  hr_version :: "str option"
  hr_edition :: "str option"
  hr_driver :: str

definition healthcheck ::
  "bool \<Rightarrow> str \<Rightarrow> (nat \<Rightarrow> attempt) \<Rightarrow> (handle \<Rightarrow> str option res) \<Rightarrow> driver_world \<Rightarrow> health_report \<times> driver_world" where
  "healthcheck has_neo4j uri verify ask w =
     (case get_driver has_neo4j uri verify w of (r, w') \<Rightarrow>
        let answer = (case r of Inl e \<Rightarrow> None
              | Inr d \<Rightarrow> if has_neo4j then (case ask d of Inl e \<Rightarrow> None | Inr row \<Rightarrow> Some row) else None)
        in (\<lparr>hr_neo4j = (if answer = None then ''down'' else ''up''),
             hr_version = (case answer of None \<Rightarrow> None | Some row \<Rightarrow> row), hr_edition = None,
             hr_driver = (if has_neo4j then ''real'' else ''stub'')\<rparr>, w'))"

definition edition ::
  "bool \<Rightarrow> str \<Rightarrow> (nat \<Rightarrow> attempt) \<Rightarrow> (handle \<Rightarrow> str option res) \<Rightarrow> driver_world \<Rightarrow> str option \<times> driver_world" where
  "edition has_neo4j uri verify ask w =
     (case get_driver has_neo4j uri verify w of (r, w') \<Rightarrow>
        (case r of Inl e \<Rightarrow> None
         | Inr d \<Rightarrow> if has_neo4j then (case ask d of Inl e \<Rightarrow> None | Inr row \<Rightarrow> row) else None, w'))"

section \<open>Properties\<close>

text \<open>The drivers a call loses: those whose check ended with an exception that the loop does not name, or
  whose \<open>close\<close> raised; and the driver the manager holds.\<close>

definition lost_by :: "attempt \<Rightarrow> bool" where
  "lost_by a = (case a of Unexpected e \<Rightarrow> True | Refused_Unclosed e \<Rightarrow> True | _ \<Rightarrow> False)"

definition lost_between :: "(nat \<Rightarrow> attempt) \<Rightarrow> driver_world \<Rightarrow> driver_world \<Rightarrow> nat set" where
  "lost_between verify w w' = {i. dw_next w \<le> i \<and> i < dw_next w' \<and> lost_by (verify i)}"

definition held :: "driver_world \<Rightarrow> nat set" where
  "held w = (case dw_cached w of Some (Real_Driver i) \<Rightarrow> {i} | _ \<Rightarrow> {})"

text \<open>Any sequence of calls; each meets a library of its own mood. The last argument collects the drivers lost.\<close>

inductive driver_reaches :: "bool \<Rightarrow> driver_world \<Rightarrow> nat set \<Rightarrow> bool" for has_neo4j where
  driver_start: "driver_reaches has_neo4j fresh_world {}"
| reach_get: "driver_reaches has_neo4j w lost \<Longrightarrow> get_driver has_neo4j uri verify w = (r, w') \<Longrightarrow>
    driver_reaches has_neo4j w' (lost \<union> lost_between verify w w')"
| reach_health: "driver_reaches has_neo4j w lost \<Longrightarrow> healthcheck has_neo4j uri verify ask w = (h, w') \<Longrightarrow>
    driver_reaches has_neo4j w' (lost \<union> lost_between verify w w')"
| reach_edition: "driver_reaches has_neo4j w lost \<Longrightarrow> edition has_neo4j uri verify ask w = (e, w') \<Longrightarrow>
    driver_reaches has_neo4j w' (lost \<union> lost_between verify w w')"
| reach_close: "driver_reaches has_neo4j w lost \<Longrightarrow>
    driver_reaches has_neo4j (close_manager closes w) (lost \<union> (if closes then {} else held w))"

text \<open>The drivers are numbered in the order they are made; those open are the one held and those lost.\<close>

definition accounted :: "driver_world \<Rightarrow> nat set \<Rightarrow> bool" where
  "accounted w lost \<longleftrightarrow> set (dw_open w) = held w \<union> lost \<and> held w \<inter> lost = {} \<and> (\<forall>i\<in>set (dw_open w). i < dw_next w)"

lemma healthcheck_world: "snd (healthcheck has_neo4j uri verify ask w) = snd (get_driver has_neo4j uri verify w)"
  by (simp add: healthcheck_def Let_def split: prod.split)

lemma edition_world: "snd (edition has_neo4j uri verify ask w) = snd (get_driver has_neo4j uri verify w)"
  by (simp add: edition_def split: prod.split)

lemma lost_between_step: "lost_between verify w w' =
    (if dw_next w < dw_next w' \<and> lost_by (verify (dw_next w)) then {dw_next w} else {})
    \<union> lost_between verify (w\<lparr>dw_next := Suc (dw_next w)\<rparr>) w'"
  by (auto simp: lost_between_def Suc_le_eq le_less)

lemma create_loop_opens:
  "create_loop uri retries verify k n last_exc w = (r, w') \<Longrightarrow> \<forall>i\<in>set (dw_open w). i < dw_next w \<Longrightarrow>
    dw_cached w' = dw_cached w \<and> dw_next w \<le> dw_next w' \<and>
    (case r of
       Inr (Real_Driver i) \<Rightarrow> dw_next w \<le> i \<and> i < dw_next w' \<and> \<not> lost_by (verify i) \<and>
         set (dw_open w') = insert i (set (dw_open w) \<union> lost_between verify w w')
     | Inr Stub_Driver \<Rightarrow> False
     | Inl e \<Rightarrow> set (dw_open w') = set (dw_open w) \<union> lost_between verify w w')"
proof (induction n arbitrary: k last_exc w)
  case (Suc n)
  have empty: "lost_between verify (w\<lparr>dw_next := Suc (dw_next w)\<rparr>) v = {}" if "dw_next v = Suc (dw_next w)" for v
    using that by (auto simp: lost_between_def)
  show ?case
  proof (cases "verify (dw_next w)")
    case (Refused e)
    let ?w = "w\<lparr>dw_next := Suc (dw_next w), dw_open := removeAll (dw_next w) (dw_next w # dw_open w),
      dw_pauses := dw_pauses w @ [backoff k]\<rparr>"
    have same: "set (dw_open ?w) = set (dw_open w)" using Suc.prems(2) by auto
    have run: "create_loop uri retries verify (k + 1) n e ?w = (r, w')"
      using Suc.prems(1) Refused by (simp add: Let_def close_driver_def)
    have "\<forall>i\<in>set (dw_open ?w). i < dw_next ?w" unfolding same using Suc.prems(2) by (auto intro: less_SucI)
    note IH = Suc.IH [OF run this]
    have "lost_between verify ?w w' = lost_between verify w w'"
      using lost_between_step [of verify w w'] Refused by (simp add: lost_between_def lost_by_def)
    with IH show ?thesis unfolding same by (auto split: sum.splits handle.splits)
  qed (use Suc.prems lost_between_step [of verify w w'] empty [of w'] in \<open>auto simp: Let_def lost_by_def\<close>)
qed (auto simp: lost_between_def)

lemma get_driver_accounted:
  assumes "accounted w lost" and run: "get_driver has_neo4j uri verify w = (r, w')"
  shows "accounted w' (lost \<union> lost_between verify w w')"
proof (cases "dw_cached w")
  case None
  show ?thesis
  proof (cases has_neo4j)
    case True
    obtain r1 w1 where created: "create_with_retry uri verify w = (r1, w1)" by fastforce
    have old: "\<forall>i\<in>set (dw_open w). i < dw_next w" using assms(1) by (simp add: accounted_def)
    note opens = create_loop_opens [OF created [unfolded create_with_retry_def] old]
    then have "dw_next w \<le> dw_next w1" by blast
    with old have bound: "\<forall>i\<in>set (dw_open w). i < dw_next w1" using less_le_trans by blast
    show ?thesis
    proof (cases r1)
      case (Inl e)
      then show ?thesis using opens bound assms None True created
        by (auto simp: accounted_def get_driver_def held_def lost_between_def)
    next
      case (Inr d)
      then show ?thesis using opens bound assms None True created
        by (cases d) (auto simp: accounted_def get_driver_def held_def lost_between_def)
    qed
  qed (use assms None in \<open>auto simp: accounted_def get_driver_def held_def lost_between_def\<close>)
qed (use assms in \<open>auto simp: accounted_def get_driver_def lost_between_def\<close>)

lemma close_manager_accounted: "accounted w lost \<Longrightarrow> accounted (close_manager closes w) (lost \<union> (if closes then {} else held w))"
  by (auto simp: accounted_def close_manager_def close_driver_def held_def Let_def split: option.splits handle.splits)

text \<open>C40. Every connection is accounted for. Whatever calls of \<open>get_driver\<close>, the health checks and \<open>close\<close>
  interleave, and whatever the library does in each, the drivers open are the one the manager holds and
  those it lost: the drivers whose check raised something other than the three exceptions of the retry
  loop, and those whose own \<open>close\<close> raised. So a refused attempt leaks nothing, and closing the manager
  closes every connection but the lost ones.\<close>

theorem driver_never_leaks:
  assumes "driver_reaches has_neo4j w lost"
  shows "set (dw_open w) = held w \<union> lost \<and> set (dw_open (close_manager True w)) = lost \<and> \<not> is_connected (close_manager True w)"
proof -
  have "accounted w lost"
    using assms
  proof induction
    case (reach_health w lost uri verify ask h w')
    then show ?case using healthcheck_world [of has_neo4j uri verify ask w] get_driver_accounted by (metis snd_conv surj_pair)
  next
    case (reach_edition w lost uri verify ask e w')
    then show ?case using edition_world [of has_neo4j uri verify ask w] get_driver_accounted by (metis snd_conv surj_pair)
  qed (simp_all add: get_driver_accounted close_manager_accounted, simp add: accounted_def held_def fresh_world_def)
  then show ?thesis
    by (auto simp: accounted_def held_def close_manager_def close_driver_def is_connected_def Let_def
        split: option.splits handle.splits)
qed

text \<open>An exception the loop does not name leaves its driver open for good, outside the manager.\<close>

lemma unexpected_failure_leaks:
  "let w = snd (get_driver True uri (\<lambda>i. Unexpected e) fresh_world) in dw_open (close_manager True w) = [0] \<and> \<not> is_connected w"
  by (simp add: get_driver_def create_with_retry_def default_retries_def fresh_world_def close_manager_def
      is_connected_def Let_def eval_nat_numeral)

text \<open>Against a database that always refuses, five attempts are made, and eight seconds are waited
  after the last of them, before the error is raised.\<close>

lemma refused_attempts:
  "get_driver True uri (\<lambda>i. Refused e) fresh_world =
    (Inl (Connection_Error (''Could not connect to Neo4j at '' @ uri @ '' after '' @ str_nat 5 @ '' attempt(s): '' @ e)),
     fresh_world\<lparr>dw_next := 5, dw_pauses := [1, 2, 4, 8, 8]\<rparr>)"
  by (simp add: get_driver_def create_with_retry_def default_retries_def fresh_world_def close_driver_def
      backoff_def max_backoff_def Let_def eval_nat_numeral)

text \<open>Refused once, connected, closed, then an unexpected failure: the third driver is lost, and nothing else.\<close>

definition troubled_verify :: "nat \<Rightarrow> attempt" where
  "troubled_verify i = (if i = 0 then Refused ''down'' else if i = 1 then Connected else Unexpected (RuntimeErr ''bad''))"

definition troubled_world :: "driver_world" where
  "troubled_world = snd (get_driver True ''bolt'' troubled_verify
     (close_manager True (snd (get_driver True ''bolt'' troubled_verify fresh_world))))"

theorem driver_never_leaks_witness:
  "set (dw_open troubled_world) = {2} \<and> held troubled_world = {} \<and> set (dw_open (close_manager True troubled_world)) = {2}"
proof -
  let ?v = troubled_verify
  define w1 where "w1 = snd (get_driver True ''bolt'' ?v fresh_world)"
  have w1: "get_driver True ''bolt'' ?v fresh_world = (Inr (Real_Driver 1), w1)"
    "w1 = \<lparr>dw_cached = Some (Real_Driver 1), dw_open = [1], dw_next = 2, dw_pauses = [1]\<rparr>"
    by (simp_all add: w1_def get_driver_def create_with_retry_def default_retries_def fresh_world_def close_driver_def
        backoff_def max_backoff_def troubled_verify_def Let_def eval_nat_numeral)
  have w2: "troubled_world = \<lparr>dw_cached = None, dw_open = [2], dw_next = 3, dw_pauses = [1]\<rparr>"
    unfolding troubled_world_def w1_def [symmetric] w1(2)
    by (simp add: close_manager_def close_driver_def get_driver_def create_with_retry_def default_retries_def
        troubled_verify_def Let_def eval_nat_numeral)
  have again: "get_driver True ''bolt'' ?v (close_manager True w1)
      = (fst (get_driver True ''bolt'' ?v (close_manager True w1)), troubled_world)"
    by (simp only: troubled_world_def w1_def prod.collapse)
  from reach_get [OF reach_close [OF reach_get [OF driver_start w1(1)], of True] again]
  have reach: "driver_reaches True troubled_world
      ({} \<union> lost_between ?v fresh_world w1 \<union> (if True then {} else held w1) \<union> lost_between ?v (close_manager True w1) troubled_world)" .
  have "lost_between ?v fresh_world w1 = {}" "lost_between ?v (close_manager True w1) troubled_world = {2}"
    by (auto simp: lost_between_def w1(2) w2 fresh_world_def close_manager_def close_driver_def lost_by_def
        troubled_verify_def Let_def)
  with driver_never_leaks [OF reach] show ?thesis by (simp add: held_def w2)
qed

end
