(* ===== verification/Spec2Isabelle.thy ===== *)
theory Spec2Isabelle
  imports Decision_Service Topology Ingestion_Pipeline Graphrag_Service Gateway_Views Extractor Graph_Loader
    Response_Shaping Ui_Router Vector_Ingest Graph_Services Schema_Migrations Frozen_Contracts Contract_Manifest Document_Parser Graph_Driver
begin

text \<open>
  A model of the industrial knowledge platform under \<open>src/app\<close>, in eight parts.

  \<^bold>\<open>Foundations.\<close> \<open>Prelude\<close> holds Python's text operations on ASCII character lists,
  insertion-ordered dictionaries as association lists (\<open>AList.update\<close> keeps the position of an
  existing key, as \<open>d[k] = v\<close> does) and the stable sorts. \<open>Binary64\<close> is the double arithmetic of
  Python's \<open>float\<close>: every operation rounds to nearest even on rationals, with subnormal numbers and
  without overflow, infinities and NaN (the locale \<open>rounding\<close> states what the proofs use of it and
  is interpreted on the rounding function itself), with \<open>round\<close>, \<open>repr\<close> and fixed formatting.
  \<open>PyVal\<close> holds dynamically typed values, truthiness, conversions, the exceptions as the datatype
  \<open>py_error\<close>, and results as a sum type.

  \<^bold>\<open>Decision support\<close> (\<open>app/decision\<close>). \<open>Decision_Models\<close> are the schemas of
  \<open>app/models\<close> with their field checks; \<open>Rule_Engine\<close>, \<open>Risk_Scorer\<close> and \<open>Sop_Matcher\<close> model
  the files of the same name; \<open>Decision_Service\<close> composes them as
  \<open>DecisionService.recommend\<close> does. The predictor, the explainer and the graph are parameters that
  may answer anything or raise. The lemmas show that the audit trail of the classifier determines
  its verdict, monotonicity of verdict and score, the range of every score and when scoring raises,
  and that the pipeline always answers.

  \<^bold>\<open>Orchestration\<close> (\<open>app/orchestration\<close>). \<open>Agent_State\<close> (\<open>state.py\<close>, \<open>utils.py\<close>) holds
  the state record that the nodes thread through, trace, compression and the retry ring; \<open>Routing\<close>
  the identifiers and plans; \<open>Agent_Nodes\<close> (\<open>agent_nodes.py\<close>, \<open>tools.py\<close>) the nodes, with the
  services behind the tools as parameters; \<open>Topology\<close> (\<open>topology.py\<close>, \<open>service.py\<close>) the graph: the
  executor as a \<open>partial_function\<close>, so that not returning is a value, under the recursion limit
  \<open>max(3 * max_transitions, 30)\<close> of the code, and the graph as a step relation with its reachable
  configurations. The locale \<open>agent_graph\<close> states what the graph needs of its nodes and is
  interpreted on the nodes of the code. The lemmas show that the executor always ends within the
  limit, which nodes it visits, and what the response contains.

  \<^bold>\<open>Ingestion\<close> (\<open>app/ingestion\<close>). \<open>Chunker\<close> (the sliding window again as a
  \<open>partial_function\<close>; it is proved to end under a condition on the sentences, and not to end without
  it), \<open>Entity_Resolution\<close> (with the ontology of \<open>schemas.py\<close>) and \<open>Ingestion_Pipeline\<close>
  (\<open>validator.py\<close>, \<open>pipeline.py\<close>). \<open>Extractor\<close> (\<open>extractor.py\<close>) is the engine that reads entities
  and edges off a chunk; \<open>Graph_Repository\<close> (\<open>app/graph/graph_repository.py\<close>) the statements and the
  repository, with the locale \<open>graph_database\<close> for what it relies on and a database in memory that
  interprets it and refuses nested properties; \<open>Graph_Loader\<close> (\<open>graph_loader.py\<close>) the load of a batch,
  which refines a specification on sets of vertices and edges, up to what the database refuses. \<open>Document_Parser\<close> (\<open>pdf_parser.py\<close>)
  states the patterns of the parser as expressions of the matcher of \<open>Regex\<close>, whose search is proved
  sound and complete for their declarative meaning, and models cleaning, sections, the chain of PDF
  engines and the run of a file; its lemmas show that a cleaned text is normal, that the sections lie
  in the text and do not overlap, and what the patterns delete that they should keep. The pages an
  engine yields, the language model and the database session are parameters. \<open>Graph_Driver\<close>
  (\<open>app/graph/client.py\<close>) is the life cycle of the database driver: every connection is held by the
  manager, closed, or lost by a failure the code does not expect.

  \<^bold>\<open>GraphRAG\<close> (\<open>app/graphrag\<close>). \<open>Graphrag_Models\<close> are the public models,
  \<open>Context_Fusion\<close> the rank fusion of the two channels, \<open>Citation_Engine\<close> the tags, the provenance
  map, the resolution of the tags of an answer and its audit, \<open>Prompt_Templates\<close> the prompts and the
  mock provider (\<open>prompt_templates.py\<close>, \<open>llm_client.py\<close>), \<open>Retrieval\<close> the vector and graph channels
  over parameters for the two databases, and \<open>Graphrag_Service\<close> the query pipeline that composes them.
  The lemmas show that ranking respects dominance, that the citations of an answer are records of the
  fused context, that the pipeline answers whatever its databases and its model raise and fails only on
  nodes and pages that the response models refuse, and what the graph channel can find.

  \<^bold>\<open>Stores\<close> (\<open>app/vector\<close>, \<open>app/graph\<close>). \<open>Vector_Search\<close> (\<open>embedding_engine.py\<close>,
  \<open>embedding_validator.py\<close>, \<open>search_service.py\<close>, \<open>models.py\<close>) holds the embedding engine and the
  semantic search, \<open>Vector_Ingest\<close> (\<open>pipeline.py\<close>, \<open>repository.py\<close>, \<open>qdrant_manager.py\<close>) the
  ingestion of chunks, whose scroll over the stored identifiers is a \<open>partial_function\<close>;
  \<open>Graph_Services\<close> (\<open>graph_services.py\<close>) the entity operations, the audit of the graph and the
  neighbourhood of an asset; \<open>Schema_Migrations\<close> (\<open>schema_migrations.py\<close>) the catalogue, the
  rendered files and the runner. The locales \<open>vector_store\<close> (a scroll shows its points on any pages, an
  upsert overwrites by identifier or raises) and \<open>schema_database\<close> (a statement in force can be executed
  again if it says \<open>IF NOT EXISTS\<close>) state what the code relies on; the theorems hold for every instance,
  and stores in memory show that there is one. The lemmas show that every chunk and every
  statement is accounted for, that ingesting and migrating twice changes nothing, that files and
  runner agree, and that the edges of a neighbourhood join its own nodes.

  \<^bold>\<open>Gateway\<close> (\<open>iob-integration/gateway_app\<close>). \<open>Payload_Compare\<close> (\<open>payload_compare.py\<close>,
  \<open>transparent_proxy.py\<close>) compares raw payloads, headers and decoded mappings and relays a call;
  \<open>Gateway\<close> (\<open>store.py\<close>, \<open>main.py\<close>, \<open>models.py\<close>) holds the store as a state machine, whose
  operations are atomic under the lock and interleave freely, and the endpoints over an upstream
  service that is a parameter; \<open>Gateway_Views\<close> the asset registry, the dashboard and the local
  explanation, with the clock and Python's salted string hash as arguments. The lemmas show that the
  comparisons are exact, the life cycle of an alert, the bounds of the local risk, which risk an
  answer reports, that the counters of the dashboard agree with the lists of the other endpoints in
  every reachable store, and that the explanation is one fixed ranking.

  \<^bold>\<open>Prediction, explanation and the UI boundary\<close> (\<open>app/predictive\<close>, \<open>app/ai_service\<close>).
  \<open>Prediction_Service\<close> (\<open>prediction_service.py\<close>, \<open>data_drift_checker.py\<close>) is the inference with
  its heuristic fallback and \<open>Xai_Service\<close> (\<open>xai_service.py\<close>, \<open>shap_engine.py\<close>,
  \<open>lime_engine.py\<close>) the explanation, over a feature row, models, an exponential and a string hash
  that are parameters. \<open>Chat_Stream\<close> (\<open>agent_runtime.py\<close>, \<open>chat_event_adapter.py\<close>) holds the
  chat turn and the stream of its events: a stream is the list of the events yielded with the
  exception that ended it, so that an adapter that raises half way is a value. \<open>Response_Shaping\<close>,
  \<open>Frontend_Adapters\<close> and \<open>Payload_Formatters\<close> model the adapters of the files of the same name
  from the models of the services to the payloads of the panels, and \<open>Ui_Router\<close>
  (\<open>ui_router.py\<close>, \<open>responses.py\<close>, \<open>middleware.py\<close>, \<open>exceptions.py\<close>, \<open>main_router.py\<close>) the
  handlers, the envelope and the wrapper around every route. The lemmas show when inference fails
  and that its responses are consistent, that a chat turn always answers and its stream ends with a final event, what a
  streaming client can and cannot see, that nodes never overlap, which keys and arrays leave the
  boundary, and that every response keeps the contract.

  \<^bold>\<open>HTTP layer\<close> (\<open>app/api\<close>, \<open>app/services\<close>, \<open>core\<close>). \<open>Http_Api\<close> holds the middleware that keeps
  the platform internal, the token checks, the alert routes as a state machine, which simulates the
  store of the gateway on the alarms of \<open>/test/inject-alarm\<close>, the asset registry and the client of the external platform;
  \<open>Predictive_Api\<close> (\<open>predictive.py\<close>) the inference route over the modelled engine;
  \<open>Engine_Api\<close> (\<open>graphrag.py\<close>, \<open>decision.py\<close>, \<open>orchestration.py\<close>, \<open>xai.py\<close>) the routes of the
  other engines; \<open>Frozen_Contracts\<close> (\<open>core/phase0_contracts.py\<close>) the schemas shared with the gateway.
  A refusal is a value with its status, an exception no handler catches is another. The lemmas show
  what reaches the application, what a route can answer, that the risk of a request with a history
  is a constant, where the citations of an answer come from, and which requests of the contract
  the routes refuse.

  \<^bold>\<open>Not modelled.\<close> The registration of the routers, the settings loader, logging, clocks and
  random identifiers (arguments where the results depend on them); the pandas features, trained
  models, training and telemetry simulator of \<open>app/predictive\<close> and the construction of the
  client of \<open>app/vector\<close>, which are calls into numerical and driver libraries and appear as
  parameters; the container of \<open>app/ai_service\<close> that builds the engines; second copies of modelled files (\<open>integration/ui_router.py\<close> and its siblings,
  \<open>package\<close>); the scripts that drive the running services. Text is ASCII (the gateway also has
  characters below 256): characters outside it are not given their Unicode case or digit classes.
\<close>

end
